(* ===== verification/Prelude.thy ===== *)
theory Prelude
  imports Main "HOL-Library.Word"
begin

text \<open>
  Shared vocabulary of the development: the machine integer types the C++ code uses, the
  rational number struct of MXL, memory copies between byte buffers, decimal rendering and the
  list and word lemmas that more than one component needs.

  Out-of-bounds memory accesses are undefined behaviour in C++.  A copy that would leave one of
  its two buffers therefore has the result \<open>None\<close>; a theorem that a routine returns
  \<open>Some\<close> shows that it stays inside its buffers.
\<close>

unbundle bit_operations_syntax

type_synonym u8 = "8 word"
type_synonym u16 = "16 word"
type_synonym u32 = "32 word"
type_synonym u64 = "64 word"
type_synonym i64 = "64 word"

named_theorems mem_simps \<open>memory copies and the frame conditions of buffer writes\<close>
named_theorems chan_simps \<open>field effects of the channel operations\<close>

subsection \<open>Rational rates\<close>

text \<open>The struct \<open>mxlRational\<close>: both members are 64-bit signed integers.\<close>

record mxlRational =
  numerator :: i64
  denominator :: i64

subsection \<open>Buffers\<close>

definition memcpy :: "'a list \<Rightarrow> nat \<Rightarrow> 'a list \<Rightarrow> nat \<Rightarrow> nat \<Rightarrow> 'a list option" where
  "memcpy dst d src s n =
     (if d + n \<le> length dst \<and> s + n \<le> length src
      then Some (take d dst @ take n (drop s src) @ drop (d + n) dst) else None)"

definition memset :: "'a list \<Rightarrow> nat \<Rightarrow> 'a \<Rightarrow> nat \<Rightarrow> 'a list option" where
  "memset dst d v n =
     (if d + n \<le> length dst then Some (take d dst @ replicate n v @ drop (d + n) dst) else None)"

text \<open>A contiguous block of a buffer, e.g.\ one row of a frame.\<close>

definition block :: "'a list \<Rightarrow> nat \<Rightarrow> nat \<Rightarrow> 'a list" where
  "block xs off n = take n (drop off xs)"

lemma length_block [simp]: "off + n \<le> length xs \<Longrightarrow> length (block xs off n) = n"
  by (simp add: block_def)

lemma nth_block: "off + n \<le> length xs \<Longrightarrow> i < n \<Longrightarrow> block xs off n ! i = xs ! (off + i)"
  by (simp add: block_def)

lemma memcpy_Some [mem_simps]:
  "d + n \<le> length dst \<Longrightarrow> s + n \<le> length src \<Longrightarrow>
     memcpy dst d src s n = Some (take d dst @ block src s n @ drop (d + n) dst)"
  by (simp add: memcpy_def block_def)

lemma memcpy_length: "memcpy dst d src s n = Some dst' \<Longrightarrow> length dst' = length dst"
  by (auto simp: memcpy_def split: if_splits)

lemma memcpy_bounds: "memcpy dst d src s n = Some dst' \<Longrightarrow> d + n \<le> length dst \<and> s + n \<le> length src"
  by (auto simp: memcpy_def split: if_splits)

lemma memcpy_nth:
  assumes "memcpy dst d src s n = Some dst'" and "i < length dst"
  shows "dst' ! i = (if d \<le> i \<and> i < d + n then src ! (s + (i - d)) else dst ! i)"
proof -
  have b: "d + n \<le> length dst" "s + n \<le> length src" using memcpy_bounds[OF assms(1)] by auto
  then have "dst' = take d dst @ block src s n @ drop (d + n) dst"
    using assms(1) by (simp add: memcpy_Some)
  with b assms(2) show ?thesis
    by (auto simp: nth_append nth_block min_absorb2)
qed

lemma memset_length: "memset dst d v n = Some dst' \<Longrightarrow> length dst' = length dst"
  by (auto simp: memset_def split: if_splits)

lemma memset_nth:
  assumes "memset dst d v n = Some dst'" and "i < length dst"
  shows "dst' ! i = (if d \<le> i \<and> i < d + n then v else dst ! i)"
  using assms
  by (auto simp: memset_def nth_append min_def not_less split: if_splits)

text \<open>A sequence of equally long copies, one per row number of \<open>rs\<close>: what the row loops of
  the frame routines amount to.\<close>

fun copyBlocks :: "'a list \<Rightarrow> (nat \<Rightarrow> nat) \<Rightarrow> 'a list \<Rightarrow> (nat \<Rightarrow> nat) \<Rightarrow> nat \<Rightarrow> nat list \<Rightarrow> 'a list option" where
  "copyBlocks src so dst do n [] = Some dst"
| "copyBlocks src so dst do n (r # rs) =
     (case memcpy dst (do r) src (so r) n of
        None \<Rightarrow> None | Some dst' \<Rightarrow> copyBlocks src so dst' do n rs)"

lemma copyBlocks_Some:
  "(\<And>r. r \<in> set rs \<Longrightarrow> do r + n \<le> length dst \<and> so r + n \<le> length src) \<Longrightarrow>
     \<exists>dst'. copyBlocks src so dst do n rs = Some dst'"
proof (induction rs arbitrary: dst)
  case (Cons r rs)
  then obtain d1 where d1: "memcpy dst (do r) src (so r) n = Some d1"
    by (auto simp: memcpy_Some)
  have "\<exists>d2. copyBlocks src so d1 do n rs = Some d2"
    using Cons.prems memcpy_length[OF d1] by (intro Cons.IH) auto
  with d1 show ?case by simp
qed simp

lemma copyBlocks_length: "copyBlocks src so dst do n rs = Some dst' \<Longrightarrow> length dst' = length dst"
  by (induction rs arbitrary: dst) (auto split: option.splits dest: memcpy_length)

lemma copyBlocks_other:
  "copyBlocks src so dst do n rs = Some dst' \<Longrightarrow> i < length dst \<Longrightarrow>
     (\<And>r. r \<in> set rs \<Longrightarrow> i < do r \<or> do r + n \<le> i) \<Longrightarrow> dst' ! i = dst ! i"
proof (induction rs arbitrary: dst)
  case (Cons r rs)
  then obtain d1 where d1: "memcpy dst (do r) src (so r) n = Some d1"
    "copyBlocks src so d1 do n rs = Some dst'" by (auto split: option.splits)
  have "dst' ! i = d1 ! i"
    using Cons.prems d1 memcpy_length[OF d1(1)] by (intro Cons.IH) auto
  also have "\<dots> = dst ! i"
    using memcpy_nth[OF d1(1) Cons.prems(2)] Cons.prems(3)[of r] by auto
  finally show ?case .
qed simp

lemma copyBlocks_nth:
  "copyBlocks src so dst do n rs = Some dst' \<Longrightarrow> distinct rs \<Longrightarrow>
     (\<And>r r'. r \<noteq> r' \<Longrightarrow> do r + n \<le> do r' \<or> do r' + n \<le> do r) \<Longrightarrow>
     q \<in> set rs \<Longrightarrow> j < n \<Longrightarrow> dst' ! (do q + j) = src ! (so q + j)"
proof (induction rs arbitrary: dst)
  case (Cons r rs)
  then obtain d1 where d1: "memcpy dst (do r) src (so r) n = Some d1"
    "copyBlocks src so d1 do n rs = Some dst'" by (auto split: option.splits)
  have in_dst: "do r + n \<le> length dst" using memcpy_bounds[OF d1(1)] by simp
  show ?case
  proof (cases "q \<in> set rs")
    case True
    with Cons d1 show ?thesis by auto
  next
    case False
    then have qr: "q = r" using Cons.prems by simp
    have sep: "do r + j < do r' \<or> do r' + n \<le> do r + j" if "r' \<in> set rs" for r'
    proof -
      have "r \<noteq> r'" using Cons.prems(2) that by auto
      then show ?thesis using Cons.prems(3)[of r r'] Cons.prems(5) by linarith
    qed
    have "dst' ! (do r + j) = d1 ! (do r + j)"
      using copyBlocks_other[OF d1(2), of "do r + j"] sep in_dst Cons.prems(5)
        memcpy_length[OF d1(1)] by auto
    also have "\<dots> = src ! (so r + j)"
      using memcpy_nth[OF d1(1), of "do r + j"] in_dst Cons.prems(5) by simp
    finally show ?thesis using qr by simp
  qed
qed simp

text \<open>Rows of one stride are disjoint.\<close>

lemma stride_disjoint:
  fixes s :: nat
  assumes "n \<le> s" and "r \<noteq> r'"
  shows "r * s + n \<le> r' * s \<or> r' * s + n \<le> r * s"
proof (cases "r < r'")
  case True
  then have "Suc r * s \<le> r' * s" by (intro mult_le_mono1) simp
  with assms show ?thesis by simp
next
  case False
  with assms have "Suc r' * s \<le> r * s" by (intro mult_le_mono1) simp
  with assms show ?thesis by simp
qed

subsection \<open>Alignment arithmetic\<close>

lemma mod_pred:
  fixes x m :: int
  assumes "x mod m \<noteq> 0" and "0 < m"
  shows "(x - 1) mod m = x mod m - 1"
proof -
  have "0 < x mod m" "x mod m < m"
    using assms pos_mod_bound[of m x] pos_mod_sign[of m x] by linarith+
  then have "(x mod m - 1) mod m = x mod m - 1" by simp
  then show ?thesis by (simp add: mod_diff_left_eq)
qed

lemma mod_diff_commute_zero: "((a :: int) - b) mod m = 0 \<longleftrightarrow> (b - a) mod m = 0"
  by (simp add: mod_eq_0_iff_dvd dvd_diff_commute)

subsection \<open>Casts\<close>

lemma unat_ucast_u8 [simp]: "unat (ucast (x :: u8) :: u32) = unat x"
  using unsigned_less[where 'a = nat and w = x] by (simp add: unsigned_ucast_eq take_bit_nat_eq_self)

subsection \<open>Decimal rendering\<close>

text \<open>\<open>std::to_string\<close> of an unsigned value.\<close>

definition digit_char :: "nat \<Rightarrow> char" where
  "digit_char d = char_of (48 + d)"

fun nat_to_string :: "nat \<Rightarrow> string" where
  "nat_to_string n = (if n < 10 then [digit_char n] else nat_to_string (n div 10) @ [digit_char (n mod 10)])"

declare nat_to_string.simps [simp del]

definition int_to_string :: "int \<Rightarrow> string" where
  "int_to_string i = (if i < 0 then CHR ''-'' # nat_to_string (nat (- i)) else nat_to_string (nat i))"

lemma of_char_digit_char: "d < 10 \<Longrightarrow> (of_char (digit_char d) :: nat) = 48 + d"
  by (simp add: digit_char_def)

lemma nat_to_string_nonempty [simp]: "nat_to_string n \<noteq> []"
  by (subst nat_to_string.simps) simp

subsection \<open>Prefix test\<close>

text \<open>\<open>s.rfind(p, 0) == 0\<close>.\<close>

definition starts_with :: "string \<Rightarrow> string \<Rightarrow> bool" where
  "starts_with s p \<longleftrightarrow> take (length p) s = p"

end
