(* ===== verification/Interlace.thy ===== *)
theory Interlace
  imports Prelude
begin

text \<open>
  \<open>src/util/interlace.hpp\<close> and \<open>interlace.cpp\<close>: the field convention of interlaced flows.
  Grain \<open>2k\<close> is the first field in time of frame \<open>k\<close>, grain \<open>2k + 1\<close> the second.  The
  theorems show that the two field grains of a frame have opposite parity, that the head of a
  field flow names the newest complete frame, and that weaving the two extracted fields gives
  the frame back.
\<close>

definition fieldParity :: "u64 \<Rightarrow> bool \<Rightarrow> u32" where
  "fieldParity grainIndex bottomFieldFirst =
     (ucast (grainIndex AND 1) :: u32) XOR (if bottomFieldFirst then 1 else 0)"

definition frameHeadOfFieldHead :: "u64 \<Rightarrow> u64" where
  "frameHeadOfFieldHead fieldHead = (if fieldHead = 0 then 0 else (fieldHead - 1) div 2)"

text \<open>\<open>mxlTimestampToIndex\<close> is a function of the MXL library and a parameter here.\<close>

definition firstFieldGrainIndex :: "(mxlRational \<Rightarrow> u64 \<Rightarrow> u64) \<Rightarrow> mxlRational \<Rightarrow> u64 \<Rightarrow> u64" where
  "firstFieldGrainIndex mxlTimestampToIndex frameRate arrivalTai =
     (let periodNs = 1000000000 * denominator frameRate div numerator frameRate
      in 2 * mxlTimestampToIndex frameRate (if arrivalTai > periodNs then arrivalTai - periodNs else 0))"

text \<open>The row loops, from row \<open>r\<close> up to row \<open>rows\<close>.\<close>

function extractRows :: "u8 list \<Rightarrow> nat \<Rightarrow> nat \<Rightarrow> nat \<Rightarrow> nat \<Rightarrow> nat \<Rightarrow> u8 list \<Rightarrow> nat \<Rightarrow> u8 list option" where
  "extractRows frame frameRowBytes rows parity n r field fieldRowBytes =
     (if r < rows
      then case memcpy field (r * fieldRowBytes) frame ((2 * r + parity) * frameRowBytes) n of
             None \<Rightarrow> None
           | Some field' \<Rightarrow> extractRows frame frameRowBytes rows parity n (Suc r) field' fieldRowBytes
      else Some field)"
  by pat_completeness auto
termination
  by (relation "measure (\<lambda>(_, _, rows, _, _, r, _, _). rows - r)") auto

definition extractField :: "u8 list \<Rightarrow> nat \<Rightarrow> u32 \<Rightarrow> u32 \<Rightarrow> u8 list \<Rightarrow> nat \<Rightarrow> u8 list option" where
  "extractField frame frameRowBytes frameHeight parity field fieldRowBytes =
     extractRows frame frameRowBytes (unat (frameHeight div 2)) (unat parity)
       (min frameRowBytes fieldRowBytes) 0 field fieldRowBytes"

function weaveRows :: "u8 list \<Rightarrow> nat \<Rightarrow> nat \<Rightarrow> nat \<Rightarrow> nat \<Rightarrow> nat \<Rightarrow> u8 list \<Rightarrow> nat \<Rightarrow> u8 list option" where
  "weaveRows field fieldRowBytes rows parity n r frame frameRowBytes =
     (if r < rows
      then case memcpy frame ((2 * r + parity) * frameRowBytes) field (r * fieldRowBytes) n of
             None \<Rightarrow> None
           | Some frame' \<Rightarrow> weaveRows field fieldRowBytes rows parity n (Suc r) frame' frameRowBytes
      else Some frame)"
  by pat_completeness auto
termination
  by (relation "measure (\<lambda>(_, _, rows, _, _, r, _, _). rows - r)") auto

definition weaveField :: "u8 list \<Rightarrow> nat \<Rightarrow> u32 \<Rightarrow> u32 \<Rightarrow> u8 list \<Rightarrow> nat \<Rightarrow> u8 list option" where
  "weaveField field fieldRowBytes frameHeight parity frame frameRowBytes =
     weaveRows field fieldRowBytes (unat (frameHeight div 2)) (unat parity)
       (min frameRowBytes fieldRowBytes) 0 frame frameRowBytes"

definition ancLineInSecondField :: "u32 \<Rightarrow> u32 \<Rightarrow> bool" where
  "ancLineInSecondField frameHeight line =
     (if frameHeight = 1080 then 564 \<le> line
      else if frameHeight = 576 then 313 \<le> line
      else if frameHeight = 486 then 266 \<le> line \<or> (1 \<le> line \<and> line \<le> 3)
      else False)"

declare extractRows.simps [simp del] weaveRows.simps [simp del]

subsection \<open>Grain indices\<close>

lemma field_bit: "(2 * k :: u64) AND 1 = 0" "(2 * k + 1 :: u64) AND 1 = 1"
proof -
  have "even (2 * k)" "odd (2 * k + 1)" by simp_all
  then show "(2 * k :: u64) AND 1 = 0" "(2 * k + 1 :: u64) AND 1 = 1"
    by (metis and_one_eq even_iff_mod_2_eq_zero, metis and_one_eq odd_iff_mod_2_eq_one)
qed

text \<open>The two field grains of a frame carry opposite frame lines: whatever the field order,
  one of the grains \<open>2k\<close> and \<open>2k + 1\<close> holds the even lines and the other the odd ones, and the
  first one in time holds the even lines exactly for top-field-first material.\<close>

theorem fieldParity_pair:
  "{fieldParity (2 * k) bff, fieldParity (2 * k + 1) bff} = {0, 1} \<and>
   (fieldParity (2 * k) bff = 0 \<longleftrightarrow> \<not> bff)"
  by (auto simp: fieldParity_def field_bit)

text \<open>The two parities of a frame, as numbers.\<close>

lemma unat_fieldParity:
  "unat (fieldParity (2 * k) bff) = (if bff then 1 else 0)"
  "unat (fieldParity (2 * k + 1) bff) = (if bff then 0 else 1)"
  by (simp_all add: fieldParity_def field_bit)

text \<open>\<open>frameHeadOfFieldHead\<close> names the newest frame with both fields written: once the
  second field of frame 0 is there, both grains of the named frame are at or below the head and
  the second grain of the next frame is above it.\<close>

theorem frameHead_newest_complete:
  assumes "0 < fieldHead"
  shows "2 * unat (frameHeadOfFieldHead fieldHead) + 1 \<le> unat fieldHead \<and>
         unat fieldHead < 2 * (unat (frameHeadOfFieldHead fieldHead) + 1) + 1"
proof -
  have "unat (fieldHead - 1) = unat fieldHead - 1" "0 < unat fieldHead"
    using assms by (simp_all add: unat_minus_one word_gt_0 unat_gt_0)
  then show ?thesis
    using assms by (simp add: frameHeadOfFieldHead_def unat_div word_gt_0) linarith
qed

theorem frameHead_newest_complete_witness:
  "2 * unat (frameHeadOfFieldHead 7) + 1 \<le> unat (7 :: u64) \<and>
   unat (7 :: u64) < 2 * (unat (frameHeadOfFieldHead 7) + 1) + 1"
  by (rule frameHead_newest_complete) simp

subsection \<open>Field extraction and weaving\<close>

lemma extractRows_blocks:
  "extractRows frame fr rows p n r field fb =
     copyBlocks frame (\<lambda>q. (2 * q + p) * fr) field (\<lambda>q. q * fb) n [r..<rows]"
proof (induction frame fr rows p n r field fb rule: extractRows.induct)
  case (1 frame fr rows p n r field fb)
  then show ?case
    by (subst extractRows.simps) (auto simp: upt_conv_Cons split: option.splits)
qed

lemma weaveRows_blocks:
  "weaveRows field fb rows p n r frame fr =
     copyBlocks field (\<lambda>q. q * fb) frame (\<lambda>q. (2 * q + p) * fr) n [r..<rows]"
proof (induction field fb rows p n r frame fr rule: weaveRows.induct)
  case (1 field fb rows p n r frame fr)
  then show ?case
    by (subst weaveRows.simps) (auto simp: upt_conv_Cons split: option.splits)
qed

text \<open>The rows of one parity lie inside a frame of \<open>2 * rows\<close> lines.\<close>

lemma field_row_in_frame:
  fixes fr :: nat
  assumes "q < rows" and "p \<le> 1"
  shows "(2 * q + p) * fr + fr \<le> 2 * rows * fr"
proof -
  have "(2 * q + p + 1) * fr \<le> 2 * rows * fr"
    using assms by (intro mult_le_mono1) linarith
  then show ?thesis by (simp add: algebra_simps)
qed

lemma row_in_field:
  fixes fb :: nat
  assumes "q < rows" and "n \<le> fb" and "rows * fb \<le> m"
  shows "q * fb + n \<le> m"
proof -
  have "Suc q * fb \<le> rows * fb" using assms by (intro mult_le_mono1) simp
  then show ?thesis using assms by simp
qed

lemma extractField_Some:
  assumes "length frame = 2 * unat (h div 2) * fr" "unat (h div 2) * fb \<le> length field"
    and "fr \<le> fb" "unat p \<le> 1"
  obtains field' where "extractField frame fr h p field fb = Some field'"
    and "length field' = length field"
    and "\<And>q j. q < unat (h div 2) \<Longrightarrow> j < fr \<Longrightarrow>
           field' ! (q * fb + j) = frame ! ((2 * q + unat p) * fr + j)"
proof -
  let ?rows = "unat (h div 2)"
  have "\<exists>f'. copyBlocks frame (\<lambda>q. (2 * q + unat p) * fr) field (\<lambda>q. q * fb) fr [0..<?rows] = Some f'"
    using assms field_row_in_frame[of _ ?rows "unat p" fr] row_in_field[of _ ?rows fr fb "length field"]
    by (intro copyBlocks_Some) simp
  then obtain f' where f': "copyBlocks frame (\<lambda>q. (2 * q + unat p) * fr) field (\<lambda>q. q * fb) fr [0..<?rows] = Some f'" ..
  have "extractField frame fr h p field fb = Some f'"
    using f' assms(3) by (simp add: extractField_def extractRows_blocks min_absorb1)
  moreover have "length f' = length field" by (rule copyBlocks_length[OF f'])
  moreover have "f' ! (q * fb + j) = frame ! ((2 * q + unat p) * fr + j)"
    if "q < ?rows" "j < fr" for q j
    using that stride_disjoint[OF assms(3)] by (intro copyBlocks_nth[OF f']) auto
  ultimately show ?thesis using that by blast
qed

lemma weaveField_Some:
  assumes "length frame = 2 * unat (h div 2) * fr" "unat (h div 2) * fb \<le> length field"
    and "fr \<le> fb" "unat p \<le> 1"
  obtains frame' where "weaveField field fb h p frame fr = Some frame'"
    and "length frame' = length frame"
    and "\<And>q j. q < unat (h div 2) \<Longrightarrow> j < fr \<Longrightarrow>
           frame' ! ((2 * q + unat p) * fr + j) = field ! (q * fb + j)"
    and "\<And>q j. q < unat (h div 2) \<Longrightarrow> j < fr \<Longrightarrow>
           frame' ! ((2 * q + (1 - unat p)) * fr + j) = frame ! ((2 * q + (1 - unat p)) * fr + j)"
proof -
  let ?rows = "unat (h div 2)"
  let ?do = "\<lambda>q. (2 * q + unat p) * fr"
  have "\<exists>f'. copyBlocks field (\<lambda>q. q * fb) frame ?do fr [0..<?rows] = Some f'"
    using assms field_row_in_frame[of _ ?rows "unat p" fr] row_in_field[of _ ?rows fr fb "length field"]
    by (intro copyBlocks_Some) simp
  then obtain f' where f': "copyBlocks field (\<lambda>q. q * fb) frame ?do fr [0..<?rows] = Some f'" ..
  have "weaveField field fb h p frame fr = Some f'"
    using f' assms(3) by (simp add: weaveField_def weaveRows_blocks min_absorb1)
  moreover have "length f' = length frame" by (rule copyBlocks_length[OF f'])
  moreover have "f' ! (?do q + j) = field ! (q * fb + j)"
    if "q < ?rows" "j < fr" for q j
    using that stride_disjoint[of fr fr "2 * _ + unat p" "2 * _ + unat p"]
    by (intro copyBlocks_nth[OF f']) auto
  moreover have "f' ! ((2 * q + (1 - unat p)) * fr + j) = frame ! ((2 * q + (1 - unat p)) * fr + j)"
    if "q < ?rows" "j < fr" for q j
  proof (rule copyBlocks_other[OF f'])
    show "(2 * q + (1 - unat p)) * fr + j < length frame"
      using field_row_in_frame[of q ?rows "1 - unat p" fr] that assms(1) by simp
    show "(2 * q + (1 - unat p)) * fr + j < ?do r \<or> ?do r + fr \<le> (2 * q + (1 - unat p)) * fr + j" for r
    proof -
      have "2 * q + (1 - unat p) \<noteq> 2 * r + unat p" using assms(4) by presburger
      then show ?thesis using stride_disjoint[of fr fr "2 * q + (1 - unat p)" "2 * r + unat p"] that
        by (auto dest: add_leD1)
    qed
  qed
  ultimately show ?thesis using that by blast
qed

text \<open>A frame of \<open>2 * rows\<close> lines is determined by its even and its odd lines.\<close>

lemma frame_ext:
  fixes fr :: nat
  assumes "length a = 2 * rows * fr" "length b = length a"
    and "\<And>q j p. q < rows \<Longrightarrow> j < fr \<Longrightarrow> p \<le> 1 \<Longrightarrow> a ! ((2 * q + p) * fr + j) = b ! ((2 * q + p) * fr + j)"
  shows "a = b"
proof (rule nth_equalityI)
  fix i assume i: "i < length a"
  then have fr: "0 < fr" using assms(1) by (cases fr) auto
  have "i div fr < 2 * rows" using i assms(1) fr by (simp add: less_mult_imp_div_less)
  then have "i div fr div 2 < rows" by simp
  from assms(3)[OF this, of "i mod fr" "i div fr mod 2"] fr
  show "a ! i = b ! i" by (simp add: mult_div_mod_eq)
qed (use assms in simp)

text \<open>Weaving two fields that hold the lines of \<open>frame\<close> of the parities \<open>p1\<close> and \<open>p2\<close>.\<close>

lemma weave_pair:
  assumes len: "length frame = 2 * unat (h div 2) * fr" "length frame0 = 2 * unat (h div 2) * fr"
      "unat (h div 2) * fb \<le> length f1" "unat (h div 2) * fb \<le> length f2" and le: "fr \<le> fb"
    and p: "unat p1 \<le> 1" "unat p2 = 1 - unat p1"
    and f1: "\<And>q j. q < unat (h div 2) \<Longrightarrow> j < fr \<Longrightarrow> f1 ! (q * fb + j) = frame ! ((2 * q + unat p1) * fr + j)"
    and f2: "\<And>q j. q < unat (h div 2) \<Longrightarrow> j < fr \<Longrightarrow> f2 ! (q * fb + j) = frame ! ((2 * q + unat p2) * fr + j)"
  shows "\<exists>half. weaveField f1 fb h p1 frame0 fr = Some half \<and> weaveField f2 fb h p2 half fr = Some frame"
proof -
  let ?rows = "unat (h div 2)"
  obtain g where g: "weaveField f1 fb h p1 frame0 fr = Some g" "length g = length frame0"
    "\<And>q j. q < ?rows \<Longrightarrow> j < fr \<Longrightarrow> g ! ((2 * q + unat p1) * fr + j) = f1 ! (q * fb + j)"
    using weaveField_Some[OF len(2,3) le p(1)] by metis
  have glen: "length g = 2 * ?rows * fr" using g(2) len by simp
  have p2: "unat p2 \<le> 1" "1 - unat p2 = unat p1" using p by auto
  obtain w where w: "weaveField f2 fb h p2 g fr = Some w" "length w = length g"
    "\<And>q j. q < ?rows \<Longrightarrow> j < fr \<Longrightarrow> w ! ((2 * q + unat p2) * fr + j) = f2 ! (q * fb + j)"
    "\<And>q j. q < ?rows \<Longrightarrow> j < fr \<Longrightarrow> w ! ((2 * q + unat p1) * fr + j) = g ! ((2 * q + unat p1) * fr + j)"
    using weaveField_Some[OF glen len(4) le p2(1)] p2(2) by metis
  have "frame = w"
  proof (rule frame_ext[OF len(1)])
    show "length w = length frame" using w(2) glen len by simp
    fix q j p assume b: "q < ?rows" "j < fr" "p \<le> (1 :: nat)"
    have "p = unat p1 \<or> p = unat p2" using b(3) p by linarith
    then show "frame ! ((2 * q + p) * fr + j) = w ! ((2 * q + p) * fr + j)"
      by (elim disjE) (simp_all add: b f1 f2 g(3) w(3,4))
  qed
  then show ?thesis using g(1) w(1) by metis
qed

text \<open>The capture side splits a frame of even height into its two field grains, the playback
  side weaves them again: with field rows at least as long as frame rows, all four routines stay
  inside their buffers and the woven frame is the captured one, for both field orders and
  whatever the playback buffer held before.\<close>

theorem weave_extract_roundtrip:
  assumes "even (unat frameHeight)"
    and "length frame = unat frameHeight * frameRowBytes" "length frame0 = length frame"
    and "length field1 = unat (frameHeight div 2) * fieldRowBytes" "length field2 = length field1"
    and "frameRowBytes \<le> fieldRowBytes"
  shows "\<exists>f1 f2 half.
     extractField frame frameRowBytes frameHeight (fieldParity (2 * k) bff) field1 fieldRowBytes = Some f1 \<and>
     extractField frame frameRowBytes frameHeight (fieldParity (2 * k + 1) bff) field2 fieldRowBytes = Some f2 \<and>
     weaveField f1 fieldRowBytes frameHeight (fieldParity (2 * k) bff) frame0 frameRowBytes = Some half \<and>
     weaveField f2 fieldRowBytes frameHeight (fieldParity (2 * k + 1) bff) half frameRowBytes = Some frame"
proof -
  let ?rows = "unat (frameHeight div 2)"
  let ?p1 = "fieldParity (2 * k) bff" and ?p2 = "fieldParity (2 * k + 1) bff"
  have rows: "unat frameHeight = 2 * ?rows" using assms(1) by (simp add: unat_div)
  have len: "length frame = 2 * ?rows * frameRowBytes" "length frame0 = 2 * ?rows * frameRowBytes"
    "?rows * fieldRowBytes \<le> length field1" "?rows * fieldRowBytes \<le> length field2"
    using assms rows by simp_all
  have p: "unat ?p1 \<le> 1" "unat ?p2 \<le> 1" "unat ?p2 = 1 - unat ?p1"
    by (simp_all add: unat_fieldParity)
  obtain f1 where f1: "extractField frame frameRowBytes frameHeight ?p1 field1 fieldRowBytes = Some f1"
    "length f1 = length field1"
    "\<And>q j. q < ?rows \<Longrightarrow> j < frameRowBytes \<Longrightarrow>
       f1 ! (q * fieldRowBytes + j) = frame ! ((2 * q + unat ?p1) * frameRowBytes + j)"
    using extractField_Some[OF len(1) len(3) assms(6) p(1)] by metis
  obtain f2 where f2: "extractField frame frameRowBytes frameHeight ?p2 field2 fieldRowBytes = Some f2"
    "length f2 = length field2"
    "\<And>q j. q < ?rows \<Longrightarrow> j < frameRowBytes \<Longrightarrow>
       f2 ! (q * fieldRowBytes + j) = frame ! ((2 * q + unat ?p2) * frameRowBytes + j)"
    using extractField_Some[OF len(1) len(4) assms(6) p(2)] by metis
  have "\<exists>half. weaveField f1 fieldRowBytes frameHeight ?p1 frame0 frameRowBytes = Some half \<and>
      weaveField f2 fieldRowBytes frameHeight ?p2 half frameRowBytes = Some frame"
    by (rule weave_pair) (use len assms(6) p f1 f2 in simp_all)
  then show ?thesis using f1(1) f2(1) by metis
qed

theorem weave_extract_roundtrip_witness:
  "\<exists>f1 f2 half.
     extractField [1, 2, 3, 4, 5, 6, 7, 8] 2 4 (fieldParity (2 * 5) True) [0, 0, 0, 0, 0, 0] 3 = Some f1 \<and>
     extractField [1, 2, 3, 4, 5, 6, 7, 8] 2 4 (fieldParity (2 * 5 + 1) True) [9, 9, 9, 9, 9, 9] 3 = Some f2 \<and>
     weaveField f1 3 4 (fieldParity (2 * 5) True) [0, 0, 0, 0, 0, 0, 0, 0] 2 = Some half \<and>
     weaveField f2 3 4 (fieldParity (2 * 5 + 1) True) half 2 = Some [1, 2, 3, 4, 5, 6, 7, 8]"
  by (rule weave_extract_roundtrip) simp_all

end
