(* ===== verification/Anc.thy ===== *)
theory Anc
  imports Prelude "HOL-Library.Sublist"
begin

text \<open>
  \<open>src/util/anc.hpp\<close> and \<open>anc.cpp\<close>: SMPTE 291 ancillary packets in the RFC 8331 payload.
  The bit writer and the bit reader are modelled on bytes, as the code has them.  The locale
  \<open>bit_channel\<close> is what the encoder and the decoder rely on: a writer appends the low bits of a
  value, most significant first, and a reader consumes them.  The theorems show that decoding an
  encoded payload gives the selected packets back, that the payload fits the grain, that every
  packet is either encoded or counted as dropped, and that the 10-bit words have SMPTE 291 parity.
\<close>

subsection \<open>The bit writer\<close>

record BitWriter =
  w_out :: "u8 list"
  w_bitPos :: nat

definition putBit :: "BitWriter \<Rightarrow> u32 \<Rightarrow> BitWriter" where
  "putBit w b =
     (let out = (if w_bitPos w mod 8 = 0 then w_out w @ [0] else w_out w);
          out' = (if b \<noteq> 0
                  then butlast out @ [last out OR drop_bit (w_bitPos w mod 8) 0x80] else out)
      in \<lparr>w_out = out', w_bitPos = w_bitPos w + 1\<rparr>)"

fun put :: "BitWriter \<Rightarrow> u32 \<Rightarrow> nat \<Rightarrow> BitWriter" where
  "put w v 0 = w"
| "put w v (Suc i) = put (putBit w (drop_bit i v AND 1)) v i"

function w_alignTo32 :: "BitWriter \<Rightarrow> nat \<Rightarrow> BitWriter" where
  "w_alignTo32 w origin =
     (if (int (w_bitPos w) - int origin) mod 32 \<noteq> 0 then w_alignTo32 (putBit w 0) origin else w)"
  by pat_completeness auto
termination
proof (relation "measure (\<lambda>(w, origin). nat ((int origin - int (w_bitPos w)) mod 32))")
  fix w :: BitWriter and origin
  assume a: "(int (w_bitPos w) - int origin) mod 32 \<noteq> 0"
  then have ne: "(int origin - int (w_bitPos w)) mod 32 \<noteq> 0" by (simp add: mod_diff_commute_zero)
  from mod_pred[OF ne]
  have "(int origin - int (w_bitPos w + 1)) mod 32 = (int origin - int (w_bitPos w)) mod 32 - 1"
    by (simp add: algebra_simps)
  moreover have "0 < (int origin - int (w_bitPos w)) mod 32"
    using ne by (simp add: order_less_le)
  ultimately show "((putBit w 0, origin), w, origin)
      \<in> measure (\<lambda>(w, origin). nat ((int origin - int (w_bitPos w)) mod 32))"
    by (simp add: putBit_def Let_def)
qed simp

subsection \<open>The bit reader\<close>

record BitReader =
  r_data :: "u8 list"
  r_bits :: nat
  r_bitPos :: nat

definition bitReader :: "u8 list \<Rightarrow> BitReader" where
  "bitReader data = \<lparr>r_data = data, r_bits = length data * 8, r_bitPos = 0\<rparr>"

text \<open>The loop of \<open>get\<close>: \<open>n\<close> iterations are left and \<open>v\<close> is the value so far.\<close>

fun getLoop :: "nat \<Rightarrow> u32 \<Rightarrow> BitReader \<Rightarrow> u32 \<times> BitReader" where
  "getLoop 0 v r = (v, r)"
| "getLoop (Suc n) v r =
     (let v1 = push_bit 1 v in
      if r_bitPos r < r_bits r
      then getLoop n (v1 OR ucast (drop_bit (7 - r_bitPos r mod 8) (r_data r ! (r_bitPos r div 8)) AND 1))
             (r\<lparr>r_bitPos := r_bitPos r + 1\<rparr>)
      else getLoop n v1 r)"

definition get :: "nat \<Rightarrow> BitReader \<Rightarrow> u32 \<times> BitReader" where
  "get bits r = getLoop bits 0 r"

definition r_alignTo32 :: "BitReader \<Rightarrow> nat \<Rightarrow> BitReader" where
  "r_alignTo32 r origin = r\<lparr>r_bitPos := origin + (r_bitPos r - origin + 31) div 32 * 32\<rparr>"

definition exhausted :: "BitReader \<Rightarrow> bool" where
  "exhausted r \<longleftrightarrow> r_bits r \<le> r_bitPos r"

subsection \<open>Packets\<close>

record AncPacket =
  did :: u8
  sdid :: u8
  lineNumber :: u32
  dataStreamIndex :: u8
  userData :: "u8 list"

record AncEncodeResult =
  payload :: "u8 list"
  packetsEncoded :: nat
  packetsDropped :: nat

definition kAncFieldProgressive :: u8 where "kAncFieldProgressive = 0"
definition kAncField1 :: u8 where "kAncField1 = 2"
definition kAncField2 :: u8 where "kAncField2 = 3"

definition kHeaderBytes :: nat where "kHeaderBytes = 6"

definition packetBits :: "AncPacket \<Rightarrow> nat" where
  "packetBits p = 1 + 11 + 12 + 1 + 7 + 10 + 10 + 10 + 10 * length (userData p) + 10"

fun onesBelow :: "u8 \<Rightarrow> nat \<Rightarrow> u32" where
  "onesBelow v 0 = 0"
| "onesBelow v (Suc i) = onesBelow v i + (ucast (drop_bit i v) AND 1)"

definition addParity :: "u8 \<Rightarrow> u16" where
  "addParity value =
     (let ones = onesBelow value 8;
          b8 = (ucast (ones AND 1) :: u16);
          b9 = b8 XOR 1
      in push_bit 9 b9 OR push_bit 8 b8 OR ucast value)"

subsection \<open>Encoding\<close>

text \<open>The selection loop: the packets that fit, and the number of the others.\<close>

fun selectPackets :: "AncPacket list \<Rightarrow> nat \<Rightarrow> AncPacket list \<Rightarrow> nat \<Rightarrow> AncPacket list \<times> nat" where
  "selectPackets [] availableBits selected dropped = (selected, dropped)"
| "selectPackets (p # ps) availableBits selected dropped =
     (if 255 \<le> length selected then selectPackets ps availableBits selected (dropped + 1)
      else let bits = (packetBits p + 31) div 32 * 32 in
           if availableBits < bits then selectPackets ps availableBits selected (dropped + 1)
           else selectPackets ps (availableBits - bits) (selected @ [p]) dropped)"

text \<open>The loop over the user data words, with the running checksum.\<close>

fun putUserData :: "BitWriter \<Rightarrow> u32 \<Rightarrow> u8 list \<Rightarrow> BitWriter \<times> u32" where
  "putUserData w csum [] = (w, csum)"
| "putUserData w csum (b # bs) =
     (let w10 = addParity b in putUserData (put w (ucast w10) 10) (csum + ucast w10) bs)"

definition encodePacket :: "BitWriter \<Rightarrow> AncPacket \<Rightarrow> BitWriter" where
  "encodePacket w p =
     (let origin = w_bitPos w;
          w = put w (if dataStreamIndex p = 1 then 1 else 0) 1;
          w = put w (lineNumber p AND 0x7ff) 11;
          w = put w 0 12;
          w = put w 0 1;
          w = put w 0 7;
          did10 = addParity (did p);
          sdid10 = addParity (sdid p);
          dc10 = addParity (of_nat (length (userData p)));
          w = put w (ucast did10) 10;
          w = put w (ucast sdid10) 10;
          w = put w (ucast dc10) 10;
          (w, csum) = putUserData w (ucast did10 + ucast sdid10 + ucast dc10) (userData p);
          cs9 = (ucast (csum AND 0x1ff) :: u16);
          cs10 = push_bit 1 ((NOT cs9) AND 0x100) OR cs9;
          w = put w (ucast cs10) 10
      in w_alignTo32 w origin)"

definition encodeRfc8331 :: "AncPacket list \<Rightarrow> nat \<Rightarrow> u8 \<Rightarrow> AncEncodeResult" where
  "encodeRfc8331 packets maxBytes field =
     (if maxBytes < kHeaderBytes
      then \<lparr>payload = [], packetsEncoded = 0, packetsDropped = length packets\<rparr>
      else
        let (selected, dropped) = selectPackets packets ((maxBytes - kHeaderBytes) * 8) [] 0;
            w = \<lparr>w_out = [], w_bitPos = 0\<rparr>;
            w = put w 0 16;
            w = put w (of_nat (length selected)) 8;
            w = put w (ucast (field AND 3)) 2;
            w = put w 0 22;
            w = fold (\<lambda>p w. encodePacket w p) selected w;
            dataBytes = length (w_out w) - kHeaderBytes;
            bytes = (w_out w)[0 := of_nat (dataBytes div 256), 1 := of_nat (dataBytes mod 256)]
        in \<lparr>payload = bytes, packetsEncoded = length selected, packetsDropped = dropped\<rparr>)"

subsection \<open>Decoding\<close>

fun getUserData :: "nat \<Rightarrow> BitReader \<Rightarrow> u8 list \<Rightarrow> u8 list \<times> BitReader" where
  "getUserData 0 r acc = (acc, r)"
| "getUserData (Suc k) r acc =
     (let (v, r) = get 10 r in getUserData k r (acc @ [ucast (v AND 0xff)]))"

definition decodePacket :: "BitReader \<Rightarrow> AncPacket \<times> BitReader" where
  "decodePacket r =
     (let origin = r_bitPos r;
          (c, r) = get 1 r;
          (line, r) = get 11 r;
          (_, r) = get 12 r;
          (_, r) = get 1 r;
          (_, r) = get 7 r;
          (d, r) = get 10 r;
          (sd, r) = get 10 r;
          (dcw, r) = get 10 r;
          dc = dcw AND 0xff;
          (ud, r) = getUserData (unat dc) r [];
          (_, r) = get 10 r
      in (\<lparr>did = ucast (d AND 0xff), sdid = ucast (sd AND 0xff), lineNumber = line,
           dataStreamIndex = (if c \<noteq> 0 then 1 else 0), userData = ud\<rparr>, r_alignTo32 r origin))"

fun decodeLoop :: "nat \<Rightarrow> BitReader \<Rightarrow> AncPacket list" where
  "decodeLoop 0 r = []"
| "decodeLoop (Suc n) r =
     (if exhausted r then [] else let (p, r') = decodePacket r in p # decodeLoop n r')"

definition decodeRfc8331 :: "u8 list \<Rightarrow> AncPacket list" where
  "decodeRfc8331 data =
     (if length data < kHeaderBytes then []
      else let r = bitReader data;
               (_, r) = get 16 r;
               (count, r) = get 8 r;
               (_, r) = get 2 r;
               (_, r) = get 22 r
           in decodeLoop (unat count) r)"

declare w_alignTo32.simps [simp del] getLoop.simps(2) [simp del]

subsection \<open>Bit strings\<close>

text \<open>The low \<open>n\<close> bits of a value, most significant first, and the value of such a string.\<close>

definition msb_bits :: "nat \<Rightarrow> u32 \<Rightarrow> bool list" where
  "msb_bits n v = map (bit v) (rev [0..<n])"

definition of_msb :: "u32 \<Rightarrow> bool list \<Rightarrow> u32" where
  "of_msb v bs = foldl (\<lambda>v b. push_bit 1 v OR of_bool b) v bs"

lemma msb_bits_simps [simp]:
  "msb_bits 0 v = []" "msb_bits (Suc n) v = bit v n # msb_bits n v"
  "length (msb_bits n v) = n"
  by (simp_all add: msb_bits_def)

lemma of_msb_simps [simp]:
  "of_msb v [] = v" "of_msb v (b # bs) = of_msb (push_bit 1 v OR of_bool b) bs"
  by (simp_all add: of_msb_def)

lemma take_bit_Suc_msb: "push_bit 1 (take_bit k (drop_bit (Suc n) v)) OR of_bool (bit v n) = take_bit (Suc k) (drop_bit n (v :: u32))"
  by (rule bit_eqI) (auto simp: bit_simps less_Suc_eq_0_disj Suc_le_eq simp del: push_bit_Suc)

lemma of_msb_msb_bits_gen:
  "of_msb (take_bit k (drop_bit n v)) (msb_bits n v) = take_bit (k + n) v"
proof (induction n arbitrary: k)
  case (Suc n)
  show ?case using Suc.IH[of "Suc k"] by (simp only: msb_bits_simps of_msb_simps take_bit_Suc_msb add_Suc add_Suc_right)
qed simp

lemma of_msb_msb_bits: "of_msb 0 (msb_bits n v) = take_bit n v"
  using of_msb_msb_bits_gen[of 0 n v] by simp

text \<open>Bytes as bit strings.\<close>

definition byte_bits :: "u8 \<Rightarrow> bool list" where
  "byte_bits b = map (\<lambda>i. bit b (7 - i)) [0..<8]"

definition bit_stream :: "u8 list \<Rightarrow> bool list" where
  "bit_stream bs = concat (map byte_bits bs)"

lemma length_byte_bits [simp]: "length (byte_bits b) = 8"
  by (simp add: byte_bits_def)

lemma bit_stream_simps [simp]:
  "bit_stream [] = []" "bit_stream (b # bs) = byte_bits b @ bit_stream bs"
  "bit_stream (xs @ ys) = bit_stream xs @ bit_stream ys"
  by (simp_all add: bit_stream_def)

lemma length_bit_stream [simp]: "length (bit_stream bs) = 8 * length bs"
  by (induction bs) simp_all

lemma nth_bit_stream:
  "i < 8 * length bs \<Longrightarrow> bit_stream bs ! i = bit (bs ! (i div 8)) (7 - i mod 8)"
proof (induction bs arbitrary: i)
  case (Cons b bs)
  show ?case
  proof (cases "i < 8")
    case True
    then show ?thesis by (simp add: nth_append byte_bits_def)
  next
    case False
    then obtain j where "i = j + 8" by (metis add.commute le_Suc_ex not_less)
    then show ?thesis using Cons by (simp add: nth_append div_add_self2)
  qed
qed simp

lemma byte_bits_zero: "byte_bits 0 = False # replicate 7 False"
  by (simp add: byte_bits_def list_eq_iff_nth_eq flip: replicate_Suc)

lemma byte_bits_or: "j < 8 \<Longrightarrow> byte_bits (b OR drop_bit j 0x80) = (byte_bits b)[j := True]"
proof (rule nth_equalityI)
  fix i assume j: "j < 8" and "i < length (byte_bits (b OR drop_bit j 0x80))"
  then have i: "i < 8" by simp
  have "bit (drop_bit j (0x80 :: u8)) (7 - i) \<longleftrightarrow> i = j"
  proof -
    have e: "(0x80 :: u8) = push_bit 7 1" by simp
    show ?thesis unfolding e using i j
      by (auto simp only: bit_drop_bit_eq bit_push_bit_iff bit_1_iff comp_apply) auto
  qed
  then show "byte_bits (b OR drop_bit j 0x80) ! i = (byte_bits b)[j := True] ! i"
    using i j by (auto simp: byte_bits_def bit_simps nth_list_update)
qed simp

subsection \<open>Laws of the writer\<close>

text \<open>\<open>wrep w bs\<close>: the writer holds the bit string \<open>bs\<close>, its last byte padded with zeros.\<close>

definition wrep :: "BitWriter \<Rightarrow> bool list \<Rightarrow> bool" where
  "wrep w bs \<longleftrightarrow> w_bitPos w = length bs \<and>
     bit_stream (w_out w) = bs @ replicate ((8 - length bs mod 8) mod 8) False"

lemma wrep_length: "wrep w bs \<Longrightarrow> 8 * length (w_out w) = length bs + (8 - length bs mod 8) mod 8"
  unfolding wrep_def by (metis length_append length_bit_stream length_replicate)

lemma putBit_wrep:
  assumes "wrep w bs"
  shows "wrep (putBit w b) (bs @ [b \<noteq> 0])"
proof -
  let ?m = "length bs mod 8"
  define out where "out = (if ?m = 0 then w_out w @ [0] else w_out w)"
  have pos: "w_bitPos w = length bs" using assms by (simp add: wrep_def)
  have out_s: "bit_stream out = bs @ False # replicate (7 - ?m) False"
  proof (cases "?m = 0")
    case True
    then show ?thesis using assms by (simp add: wrep_def out_def byte_bits_zero)
  next
    case False
    moreover have "?m < 8" by simp
    ultimately have "(8 - ?m) mod 8 = Suc (7 - ?m)" by (subst mod_less) linarith+
    then show ?thesis using assms False by (simp add: wrep_def out_def)
  qed
  have out_ne: "out \<noteq> []" using out_s by (cases out) auto
  then obtain ys y where out: "out = ys @ [y]" by (cases out rule: rev_cases) auto
  have len: "8 * length ys + 8 = length bs + (8 - ?m)"
    using arg_cong[OF out_s, of length] out by simp
  then have idx: "\<not> length bs < 8 * length ys" "length bs - 8 * length ys = ?m" by linarith+
  have "bit_stream (ys @ [y OR drop_bit ?m 0x80]) = (bit_stream out)[length bs := True]"
    using idx by (simp add: out byte_bits_or list_update_append)
  then have set1: "bit_stream (ys @ [y OR drop_bit ?m 0x80]) = bs @ True # replicate (7 - ?m) False"
    by (simp add: out_s list_update_append)
  have m: "?m < 8" by simp
  have pad: "(8 - Suc (length bs) mod 8) mod 8 = 7 - ?m"
    unfolding mod_Suc using m by (cases "Suc ?m = 8") (auto intro: mod_less)
  have res: "putBit w b = \<lparr>w_out = (if b \<noteq> 0 then ys @ [y OR drop_bit ?m 0x80] else out), w_bitPos = length bs + 1\<rparr>"
    using out pos by (simp add: putBit_def out_def[symmetric] Let_def)
  show ?thesis using out_s set1 pad by (simp add: wrep_def res)
qed

lemma put_wrep: "wrep w bs \<Longrightarrow> wrep (put w v n) (bs @ msb_bits n v)"
proof (induction n arbitrary: w bs)
  case (Suc n)
  have "(drop_bit n v AND 1 \<noteq> 0) = bit v n"
    by (simp add: bit_iff_odd_drop_bit and_one_eq odd_iff_mod_2_eq_one)
  with putBit_wrep[OF Suc.prems, of "drop_bit n v AND 1"]
  have "wrep (putBit w (drop_bit n v AND 1)) (bs @ [bit v n])" by simp
  from Suc.IH[OF this] show ?case by simp
qed simp

lemma w_alignTo32_wrep:
  "wrep w bs \<Longrightarrow> wrep (w_alignTo32 w origin) (bs @ replicate (nat ((int origin - int (length bs)) mod 32)) False)"
proof (induction w origin arbitrary: bs rule: w_alignTo32.induct)
  case (1 w origin)
  have pos: "w_bitPos w = length bs" using "1.prems" by (simp add: wrep_def)
  show ?case
  proof (cases "(int (length bs) - int origin) mod 32 = 0")
    case True
    then have "(int origin - int (length bs)) mod 32 = 0" by (simp add: mod_diff_commute_zero)
    then show ?thesis using 1 True pos by (subst w_alignTo32.simps) simp
  next
    case False
    then have "(int origin - int (length bs)) mod 32 \<noteq> 0" by (simp add: mod_diff_commute_zero)
    from mod_pred[OF this]
    have "(int origin - int (length bs)) mod 32 = (int origin - int (length (bs @ [False]))) mod 32 + 1"
      by (simp add: algebra_simps)
    then have k: "nat ((int origin - int (length bs)) mod 32) = Suc (nat ((int origin - int (length (bs @ [False]))) mod 32))"
      by (simp add: Suc_nat_eq_nat_zadd1)
    have "wrep (putBit w 0) (bs @ [False])" using putBit_wrep[OF "1.prems", of 0] by simp
    then have
      "wrep (w_alignTo32 (putBit w 0) origin)
         ((bs @ [False]) @ replicate (nat ((int origin - int (length (bs @ [False]))) mod 32)) False)"
      using False pos by (intro "1.IH") simp_all
    then show ?thesis using False pos k by (subst w_alignTo32.simps) simp
  qed
qed

subsection \<open>Laws of the reader\<close>

text \<open>\<open>rrep r bs\<close>: the reader has the bit string \<open>bs\<close> still to read.\<close>

definition rrep :: "BitReader \<Rightarrow> bool list \<Rightarrow> bool" where
  "rrep r bs \<longleftrightarrow> r_bits r = 8 * length (r_data r) \<and> r_bitPos r \<le> r_bits r \<and>
     drop (r_bitPos r) (bit_stream (r_data r)) = bs"

lemma rrep_bitReader: "rrep (bitReader data) (bit_stream data)"
  by (simp add: rrep_def bitReader_def)

lemma rrep_Cons:
  assumes "rrep r (b # bs)"
  shows "r_bitPos r < r_bits r" and "bit (r_data r ! (r_bitPos r div 8)) (7 - r_bitPos r mod 8) = b"
    and "rrep (r\<lparr>r_bitPos := r_bitPos r + 1\<rparr>) bs"
proof -
  have d: "drop (r_bitPos r) (bit_stream (r_data r)) = b # bs"
    and n: "r_bits r = 8 * length (r_data r)" using assms by (auto simp: rrep_def)
  show lt: "r_bitPos r < r_bits r"
    by (rule ccontr) (use d n in simp)
  have "bit_stream (r_data r) ! r_bitPos r = b"
    using arg_cong[OF d, of hd] lt n by (simp add: hd_drop_conv_nth)
  then show "bit (r_data r ! (r_bitPos r div 8)) (7 - r_bitPos r mod 8) = b"
    using nth_bit_stream lt n by simp
  have "drop (Suc (r_bitPos r)) (bit_stream (r_data r)) = bs"
    using arg_cong[OF d, of tl] by (simp add: drop_Suc tl_drop)
  then show "rrep (r\<lparr>r_bitPos := r_bitPos r + 1\<rparr>) bs"
    using lt n by (simp add: rrep_def)
qed

lemma bit_of_byte: "ucast (drop_bit j (b :: u8) AND 1) = (of_bool (bit b j) :: u32)"
  by (simp add: bit_iff_odd_drop_bit and_one_eq odd_iff_mod_2_eq_one)

lemma getLoop_rrep:
  "rrep r bs \<Longrightarrow> n \<le> length bs \<Longrightarrow>
     getLoop n v r = (of_msb v (take n bs), r\<lparr>r_bitPos := r_bitPos r + n\<rparr>) \<and>
     rrep (r\<lparr>r_bitPos := r_bitPos r + n\<rparr>) (drop n bs)"
proof (induction n arbitrary: r bs v)
  case (Suc n)
  then obtain b cs where bs: "bs = b # cs" by (cases bs) auto
  note c = rrep_Cons[OF Suc.prems(1)[unfolded bs]]
  have "n \<le> length cs" using Suc.prems(2) bs by simp
  from Suc.IH[OF c(3) this, of "push_bit 1 v OR of_bool b"]
  show ?case by (simp add: getLoop.simps(2) c(1,2) bs bit_of_byte Let_def del: push_bit_Suc)
qed simp

subsection \<open>The interface between codec and bit streams\<close>

text \<open>Runs of fields \<open>(value, width)\<close> through a writer and a reader.\<close>

definition field_bits :: "(u32 \<times> nat) list \<Rightarrow> bool list" where
  "field_bits fs = concat (map (\<lambda>(v, n). msb_bits n v) fs)"

definition writeFields :: "('w \<Rightarrow> u32 \<Rightarrow> nat \<Rightarrow> 'w) \<Rightarrow> 'w \<Rightarrow> (u32 \<times> nat) list \<Rightarrow> 'w" where
  "writeFields wr w fs = foldl (\<lambda>w (v, n). wr w v n) w fs"

fun readFields :: "(nat \<Rightarrow> 'r \<Rightarrow> u32 \<times> 'r) \<Rightarrow> nat list \<Rightarrow> 'r \<Rightarrow> u32 list \<times> 'r" where
  "readFields rd [] r = ([], r)"
| "readFields rd (n # ns) r =
     (let (v, r) = rd n r; (vs, r) = readFields rd ns r in (v # vs, r))"

lemma field_bits_simps [simp]:
  "field_bits [] = []" "field_bits ((v, n) # fs) = msb_bits n v @ field_bits fs"
  "field_bits (fs @ gs) = field_bits fs @ field_bits gs"
  by (simp_all add: field_bits_def)

lemma writeFields_simps [simp]:
  "writeFields wr w [] = w" "writeFields wr w ((v, n) # fs) = writeFields wr (wr w v n) fs"
  "writeFields wr w (fs @ gs) = writeFields wr (writeFields wr w fs) gs"
  by (simp_all add: writeFields_def)

locale bit_channel =
  fixes wr :: "'w \<Rightarrow> u32 \<Rightarrow> nat \<Rightarrow> 'w"
    and holds :: "'w \<Rightarrow> bool list \<Rightarrow> bool"
    and rd :: "nat \<Rightarrow> 'r \<Rightarrow> u32 \<times> 'r"
    and pending :: "'r \<Rightarrow> bool list \<Rightarrow> bool"
    and pos :: "'r \<Rightarrow> nat"
  assumes write_law: "holds w bs \<Longrightarrow> holds (wr w v n) (bs @ msb_bits n v)"
    and read_law: "pending r bs \<Longrightarrow> n \<le> length bs \<Longrightarrow>
      fst (rd n r) = of_msb 0 (take n bs) \<and> pending (snd (rd n r)) (drop n bs) \<and>
      pos (snd (rd n r)) = pos r + n"
begin

lemma write_fields: "holds w bs \<Longrightarrow> holds (writeFields wr w fs) (bs @ field_bits fs)"
proof (induction fs arbitrary: w bs)
  case (Cons f fs)
  then show ?case using write_law by (cases f) fastforce
qed simp

lemma read_field:
  assumes "pending r (msb_bits n v @ bs)"
  shows "fst (rd n r) = take_bit n v" "pending (snd (rd n r)) bs" "pos (snd (rd n r)) = pos r + n"
  using read_law[OF assms, of n] by (simp_all add: of_msb_msb_bits)

lemma read_fields:
  "pending r (field_bits fs @ bs) \<Longrightarrow>
     fst (readFields rd (map snd fs) r) = map (\<lambda>(v, n). take_bit n v) fs \<and>
     pending (snd (readFields rd (map snd fs) r)) bs \<and>
     pos (snd (readFields rd (map snd fs) r)) = pos r + length (field_bits fs)"
proof (induction fs arbitrary: r)
  case (Cons f fs)
  obtain v n where f: "f = (v, n)" by (cases f)
  have "pending r (msb_bits n v @ field_bits fs @ bs)" using Cons.prems f by simp
  note rf = read_field[OF this]
  show ?case using Cons.IH[OF rf(2)] rf(1,3) by (simp add: f split_beta Let_def)
qed simp

end

interpretation anc_bits: bit_channel put wrep get rrep r_bitPos
proof
  show "wrep w bs \<Longrightarrow> wrep (put w v n) (bs @ msb_bits n v)" for w bs v n
    by (rule put_wrep)
  show "rrep r bs \<Longrightarrow> n \<le> length bs \<Longrightarrow>
      fst (get n r) = of_msb 0 (take n bs) \<and> rrep (snd (get n r)) (drop n bs) \<and>
      r_bitPos (snd (get n r)) = r_bitPos r + n" for r bs n
    using getLoop_rrep[of r bs n 0] by (auto simp: get_def)
qed

subsection \<open>Packets as fields\<close>

definition word10 :: "u8 \<Rightarrow> u32 \<times> nat" where
  "word10 b = (ucast (addParity b), 10)"

definition headerFields :: "AncPacket \<Rightarrow> (u32 \<times> nat) list" where
  "headerFields p =
     [(if dataStreamIndex p = 1 then 1 else 0, 1), (lineNumber p AND 0x7ff, 11), (0, 12), (0, 1), (0, 7),
      word10 (did p), word10 (sdid p), word10 (of_nat (length (userData p)))]"

definition packetSum :: "AncPacket \<Rightarrow> u32" where
  "packetSum p = sum_list (map (\<lambda>b. ucast (addParity b))
     (did p # sdid p # of_nat (length (userData p)) # userData p))"

definition checksum10 :: "u32 \<Rightarrow> u16" where
  "checksum10 csum = (let cs9 = ucast (csum AND 0x1ff) in push_bit 1 ((NOT cs9) AND 0x100) OR cs9)"

definition packetFields :: "AncPacket \<Rightarrow> (u32 \<times> nat) list" where
  "packetFields p = headerFields p @ map word10 (userData p) @ [(ucast (checksum10 (packetSum p)), 10)]"

definition packet_bits :: "AncPacket \<Rightarrow> bool list" where
  "packet_bits p = field_bits (packetFields p) @ replicate (nat ((- int (packetBits p)) mod 32)) False"

lemma putUserData_fields:
  "putUserData w csum bs =
     (writeFields put w (map word10 bs), csum + sum_list (map (\<lambda>b. ucast (addParity b)) bs))"
  by (induction bs arbitrary: w csum) (simp_all add: word10_def Let_def algebra_simps)

lemma encodePacket_fields:
  "encodePacket w p = w_alignTo32 (writeFields put w (packetFields p)) (w_bitPos w)"
  by (simp add: encodePacket_def putUserData_fields packetFields_def headerFields_def word10_def
      packetSum_def checksum10_def Let_def algebra_simps)

lemma length_word10s: "length (field_bits (map word10 bs)) = 10 * length bs"
  by (induction bs) (simp_all add: word10_def)

lemma length_packetFields: "length (field_bits (packetFields p)) = packetBits p"
proof -
  have "length (field_bits (headerFields p)) = 62"
    by (simp add: headerFields_def word10_def)
  then show ?thesis by (simp add: packetFields_def length_word10s packetBits_def)
qed

text \<open>Padding to the next multiple of 32.\<close>

lemma pad32: "n + nat ((- int n) mod 32) = (n + 31) div 32 * 32"
proof -
  define q r where "q = n div 32" and "r = n mod 32"
  have n: "n = 32 * q + r" and r: "r < 32" by (simp_all add: q_def r_def)
  have "(n + 31) div 32 = q + (r + 31) div 32" by (simp add: n add.assoc)
  moreover have "(r + 31) div 32 = (if r = 0 then 0 else 1)" using r by auto
  moreover have "nat ((- int n) mod 32) = (if r = 0 then 0 else 32 - r)"
  proof -
    have "int n mod 32 = int r" by (simp add: r_def zmod_int)
    then show ?thesis unfolding zmod_zminus1_eq_if using r by auto
  qed
  ultimately show ?thesis using n r by auto
qed

lemma length_packet_bits: "length (packet_bits p) = (packetBits p + 31) div 32 * 32"
  by (simp add: packet_bits_def length_packetFields pad32)

lemma encodePacket_wrep: "wrep w bs \<Longrightarrow> wrep (encodePacket w p) (bs @ packet_bits p)"
proof -
  assume a: "wrep w bs"
  have "w_bitPos w = length bs" using a by (simp add: wrep_def)
  then show ?thesis
    using w_alignTo32_wrep[OF anc_bits.write_fields[OF a, of "packetFields p"], of "length bs"]
    by (simp add: encodePacket_fields packet_bits_def length_packetFields)
qed

subsection \<open>The 10-bit words\<close>

lemma addParity_alt:
  "addParity v = (if odd (onesBelow v 8) then 0x100 else 0x200) OR ucast v"
proof -
  have "(onesBelow v 8 AND 1) = of_bool (odd (onesBelow v 8))"
    by (simp only: and_one_eq mod_2_eq_odd)
  then show ?thesis by (simp add: addParity_def Let_def)
qed

lemma bit_100_200: "bit (0x100 :: u16) n \<longleftrightarrow> n = 8" "bit (0x200 :: u16) n \<longleftrightarrow> n = 9"
proof -
  have "(0x100 :: u16) = 2 ^ 8" "(0x200 :: u16) = 2 ^ 9" by simp_all
  then show "bit (0x100 :: u16) n \<longleftrightarrow> n = 8" "bit (0x200 :: u16) n \<longleftrightarrow> n = 9"
    by (simp_all only: bit_exp_iff) auto
qed

lemma bit_addParity:
  "bit (addParity v) n \<longleftrightarrow>
     (if n < 8 then bit v n else if n = 8 then odd (onesBelow v 8)
      else n = 9 \<and> even (onesBelow v 8))"
proof -
  have "\<not> bit v n" if "8 \<le> n" using that by (simp add: bit_word.abs_eq impossible_bit)
  then show ?thesis
    by (auto simp: addParity_alt bit_or_iff bit_ucast_iff bit_100_200 simp del: bit_numeral_word_iff)
qed

lemma low_mask_ff: "bit (v AND 0xff :: u32) n \<longleftrightarrow> n < 8 \<and> bit v n"
proof -
  have ff: "(0xff :: u32) = mask 8" by (simp add: mask_eq_exp_minus_1)
  show ?thesis unfolding ff bit_and_iff bit_mask_iff by auto
qed

lemma word10_value: "ucast (take_bit 10 (ucast (addParity v) :: u32) AND 0xff) = v"
  by (rule bit_eqI) (simp add: bit_ucast_iff low_mask_ff bit_take_bit_iff bit_addParity)

subsection \<open>Decoding encoded packets\<close>

text \<open>What the wire format can carry: an 11-bit line number, at most 255 user data words and the
  luma or the chroma stream.\<close>

definition encodable :: "AncPacket \<Rightarrow> bool" where
  "encodable p \<longleftrightarrow> lineNumber p < 0x800 \<and> length (userData p) \<le> 255 \<and>
     (dataStreamIndex p = 0 \<or> dataStreamIndex p = 1)"

lemma getUserData_fields:
  "getUserData k r acc =
     (let (vs, r') = readFields get (replicate k 10) r in (acc @ map (\<lambda>v. ucast (v AND 0xff)) vs, r'))"
  by (induction k arbitrary: r acc) (simp_all add: Let_def split_beta)

lemma decodePacket_fields:
  "decodePacket r =
     (let (h, r1) = readFields get [1, 11, 12, 1, 7, 10, 10, 10] r;
          (ud, r2) = readFields get (replicate (unat (h ! 7 AND 0xff)) 10) r1;
          (_, r3) = readFields get [10] r2
      in (\<lparr>did = ucast (h ! 5 AND 0xff), sdid = ucast (h ! 6 AND 0xff), lineNumber = h ! 1,
           dataStreamIndex = (if h ! 0 \<noteq> 0 then 1 else 0),
           userData = map (\<lambda>v. ucast (v AND 0xff)) ud\<rparr>, r_alignTo32 r3 (r_bitPos r)))"
  by (simp add: decodePacket_def getUserData_fields Let_def split_beta)

lemma unat_low_ff: "unat (w AND 0xff :: u32) = unat (ucast (w AND 0xff) :: u8)"
proof -
  have "ucast (ucast (w AND 0xff) :: u8) = (w AND 0xff :: u32)"
    by (rule bit_eqI) (auto simp: bit_ucast_iff low_mask_ff simp del: bit_numeral_word_iff)
  then show ?thesis by (metis unat_ucast_u8)
qed

lemma rrep_skip:
  assumes "rrep r (xs @ bs)"
  shows "rrep (r\<lparr>r_bitPos := r_bitPos r + length xs\<rparr>) bs"
proof -
  have d: "drop (r_bitPos r) (bit_stream (r_data r)) = xs @ bs" and b: "r_bits r = 8 * length (r_data r)"
    "r_bitPos r \<le> r_bits r"
    using assms by (simp_all add: rrep_def)
  have "8 * length (r_data r) - r_bitPos r = length xs + length bs"
    using arg_cong[OF d, of length] by simp
  then have "r_bitPos r + length xs \<le> 8 * length (r_data r)" using b by linarith
  moreover have "drop (r_bitPos r + length xs) (bit_stream (r_data r)) = bs"
    using arg_cong[OF d, of "drop (length xs)"] by (simp add: add.commute)
  ultimately show ?thesis using b by (simp add: rrep_def)
qed

lemma line_field: "l < 0x800 \<Longrightarrow> take_bit 11 l AND 0x7ff = (l :: u32)"
proof -
  assume "l < 0x800"
  moreover have m: "(0x7ff :: u32) = mask 11" by (simp add: mask_eq_exp_minus_1)
  ultimately show ?thesis
    unfolding m by (simp add: word_unat_eq_iff unsigned_take_bit_eq take_bit_nat_eq_self
        word_less_nat_alt flip: take_bit_eq_mask)
qed

lemma data_count: "length xs \<le> 255 \<Longrightarrow>
    unat (take_bit 10 (ucast (addParity (of_nat (length xs))) :: u32) AND 0xff) = length xs"
  by (simp add: unat_low_ff word10_value unat_of_nat take_bit_nat_eq_self)

lemma decodePacket_rrep:
  assumes p: "encodable p" and r: "rrep r (packet_bits p @ rest)"
  shows "\<exists>r'. decodePacket r = (p, r') \<and> rrep r' rest"
proof -
  let ?pad = "replicate (nat ((- int (packetBits p)) mod 32)) False"
  let ?cs = "[(ucast (checksum10 (packetSum p)) :: u32, 10 :: nat)]"
  let ?val = "\<lambda>(v :: u32, n). take_bit n v"
  let ?h = "map ?val (headerFields p)"
  obtain r1 where r1: "readFields get [1, 11, 12, 1, 7, 10, 10, 10] r = (?h, r1)"
    "rrep r1 (field_bits (map word10 (userData p)) @ field_bits ?cs @ ?pad @ rest)"
    "r_bitPos r1 = r_bitPos r + length (field_bits (headerFields p))"
    using anc_bits.read_fields[of r "headerFields p" "field_bits (map word10 (userData p)) @ field_bits ?cs @ ?pad @ rest"] r
    by (cases "readFields get [1, 11, 12, 1, 7, 10, 10, 10] r")
      (auto simp: packet_bits_def packetFields_def headerFields_def word10_def)
  have dc: "unat (?h ! 7 AND 0xff) = length (userData p)"
    using p by (simp add: headerFields_def word10_def encodable_def data_count)
  have snds: "map snd (map word10 (userData p)) = replicate (length (userData p)) 10"
    by (simp add: word10_def comp_def map_replicate_const)
  obtain r2 where r2: "readFields get (replicate (length (userData p)) 10) r1 = (map ?val (map word10 (userData p)), r2)"
    "rrep r2 (field_bits ?cs @ ?pad @ rest)"
    "r_bitPos r2 = r_bitPos r1 + length (field_bits (map word10 (userData p)))"
    using anc_bits.read_fields[OF r1(2)] unfolding snds
    by (metis prod.collapse)
  obtain c r3 where r3: "readFields get [10] r2 = (c, r3)" "rrep r3 (?pad @ rest)"
    "r_bitPos r3 = r_bitPos r2 + length (field_bits ?cs)"
    using anc_bits.read_fields[OF r2(2)] by (cases "readFields get [10] r2") auto
  have pos: "r_bitPos r3 = r_bitPos r + packetBits p"
    using r1(3) r2(3) r3(3) length_packetFields[of p] by (simp add: packetFields_def)
  then have al: "r_alignTo32 r3 (r_bitPos r) = r3\<lparr>r_bitPos := r_bitPos r3 + length ?pad\<rparr>"
    using pad32[of "packetBits p"] by (simp add: r_alignTo32_def)
  have "decodePacket r = (p, r_alignTo32 r3 (r_bitPos r))"
    unfolding decodePacket_fields r1(1) Let_def split_beta fst_conv snd_conv dc r2(1) r3(1)
    using p by (cases p) (auto simp: headerFields_def word10_def encodable_def word10_value line_field comp_def)
  then show ?thesis using rrep_skip[OF r3(2)] al by simp
qed

lemma packet_bits_nonempty [simp]: "packet_bits p \<noteq> []"
  by (rule notI, drule arg_cong[of _ _ length]) (simp add: length_packet_bits packetBits_def)

lemma decodeLoop_rrep:
  "\<forall>p \<in> set ps. encodable p \<Longrightarrow> rrep r (concat (map packet_bits ps)) \<Longrightarrow> decodeLoop (length ps) r = ps"
proof (induction ps arbitrary: r)
  case (Cons p ps)
  have r: "rrep r (packet_bits p @ concat (map packet_bits ps))" using Cons.prems by simp
  then obtain b bs where "rrep r (b # bs)" by (cases "packet_bits p") auto
  then have "\<not> exhausted r" using rrep_Cons(1) by (fastforce simp: exhausted_def)
  moreover obtain r' where "decodePacket r = (p, r')" "rrep r' (concat (map packet_bits ps))"
    using decodePacket_rrep[OF _ r] Cons.prems by auto
  ultimately show ?case using Cons by simp
qed simp

lemma encode_fold_wrep:
  "wrep w bs \<Longrightarrow> wrep (fold (\<lambda>p w. encodePacket w p) ps w) (bs @ concat (map packet_bits ps))"
proof (induction ps arbitrary: w bs)
  case (Cons p ps)
  from Cons.IH[OF encodePacket_wrep[OF Cons.prems]] show ?case by simp
qed simp

subsection \<open>Selection\<close>

abbreviation encodedBits :: "AncPacket \<Rightarrow> nat" where
  "encodedBits p \<equiv> (packetBits p + 31) div 32 * 32"

lemma selectPackets_sound:
  "selectPackets ps avail sel d = (sel', d') \<Longrightarrow> length sel \<le> 255 \<Longrightarrow>
     \<exists>xs. sel' = sel @ xs \<and> subseq xs ps \<and> d' + length xs = d + length ps \<and>
       sum_list (map encodedBits xs) \<le> avail \<and> length sel' \<le> 255"
proof (induction ps arbitrary: avail sel d)
  case (Cons p ps)
  show ?case
  proof (cases "length sel < 255 \<and> encodedBits p \<le> avail")
    case True
    then have "selectPackets ps (avail - encodedBits p) (sel @ [p]) d = (sel', d')"
      using Cons.prems(1) by (simp add: Let_def)
    from Cons.IH[OF this] True obtain xs where
      "sel' = sel @ p # xs" "subseq xs ps" "d' + length xs = d + length ps"
      "sum_list (map encodedBits xs) \<le> avail - encodedBits p" "length sel' \<le> 255" by auto
    then show ?thesis using True by (intro exI[of _ "p # xs"]) auto
  next
    case False
    then have "selectPackets ps avail sel (d + 1) = (sel', d')"
      using Cons.prems(1) by (auto simp: Let_def split: if_splits)
    from Cons.IH[OF this Cons.prems(2)] show ?thesis by fastforce
  qed
qed auto

lemma selectPackets_all:
  "length sel + length ps \<le> 255 \<Longrightarrow> sum_list (map encodedBits ps) \<le> avail \<Longrightarrow>
     selectPackets ps avail sel d = (sel @ ps, d)"
  by (induction ps arbitrary: avail sel) (auto simp: Let_def)

subsection \<open>The payload\<close>

lemma wrep_empty: "wrep \<lparr>w_out = [], w_bitPos = 0\<rparr> []"
  by (simp add: wrep_def)

lemma sum_encodedBits_dvd: "8 dvd sum_list (map encodedBits ps)"
  by (induction ps) (auto intro!: dvd_add dvd_mult)

lemma length_concat_packet_bits:
  "length (concat (map packet_bits ps)) = sum_list (map encodedBits ps)"
  by (induction ps) (simp_all add: length_packet_bits)

lemma backpatch_bits:
  assumes "2 \<le> length out"
  shows "bit_stream (out[0 := a, 1 := b]) = byte_bits a @ byte_bits b @ drop 16 (bit_stream out)"
proof -
  obtain x y zs where "out = x # y # zs" using assms
    by (metis One_nat_def Suc_1 Suc_le_length_iff)
  then show ?thesis by simp
qed

lemma encode_payload:
  assumes "kHeaderBytes \<le> maxBytes"
    and sel: "selectPackets packets ((maxBytes - kHeaderBytes) * 8) [] 0 = (selected, dropped)"
  obtains bytes a b where
    "encodeRfc8331 packets maxBytes field = \<lparr>payload = bytes, packetsEncoded = length selected, packetsDropped = dropped\<rparr>"
    "bit_stream bytes = byte_bits a @ byte_bits b @
       field_bits [(of_nat (length selected), 8), (ucast (field AND 3), 2), (0, 22)] @
       concat (map packet_bits selected)"
    "a = of_nat ((length bytes - 6) div 256)" "b = of_nat ((length bytes - 6) mod 256)"
    "8 * length bytes = 48 + sum_list (map encodedBits selected)" "bytes ! 0 = a" "bytes ! 1 = b"
proof -
  let ?hdr = "[(0, 16), (of_nat (length selected), 8), (ucast (field AND 3), 2), (0, 22)] :: (u32 \<times> nat) list"
  let ?body = "concat (map packet_bits selected)"
  define w where "w = fold (\<lambda>p w. encodePacket w p) selected
     (writeFields put \<lparr>w_out = [], w_bitPos = 0\<rparr> ?hdr)"
  have "wrep w (field_bits ?hdr @ ?body)"
    unfolding w_def using encode_fold_wrep[OF anc_bits.write_fields[OF wrep_empty, of ?hdr]] by simp
  moreover have l: "length (field_bits ?hdr @ ?body) = 48 + sum_list (map encodedBits selected)"
    by (simp add: length_concat_packet_bits)
  moreover have "(48 + sum_list (map encodedBits selected)) mod 8 = 0"
    using sum_encodedBits_dvd[of selected] by (simp add: mod_eq_0_iff_dvd dvd_add)
  ultimately have s: "bit_stream (w_out w) = field_bits ?hdr @ ?body"
    by (simp add: wrep_def del: field_bits_simps)
  then have len: "8 * length (w_out w) = 48 + sum_list (map encodedBits selected)"
    using l by (metis length_bit_stream)
  define bytes where "bytes = (w_out w)[0 := of_nat ((length (w_out w) - 6) div 256),
     1 := of_nat ((length (w_out w) - 6) mod 256)]"
  have lb: "length bytes = length (w_out w)" by (simp add: bytes_def)
  have two: "2 \<le> length (w_out w)" using len by linarith
  obtain x y zs where "w_out w = x # y # zs" using two by (metis One_nat_def Suc_1 Suc_le_length_iff)
  then have nb: "bytes ! 0 = of_nat ((length bytes - 6) div 256)" "bytes ! Suc 0 = of_nat ((length bytes - 6) mod 256)"
    by (simp_all add: bytes_def)
  show thesis
  proof (rule that)
    show "encodeRfc8331 packets maxBytes field = \<lparr>payload = bytes, packetsEncoded = length selected, packetsDropped = dropped\<rparr>"
      using assms by (simp add: encodeRfc8331_def Let_def sel bytes_def w_def kHeaderBytes_def)
    show "bit_stream bytes = byte_bits (of_nat ((length bytes - 6) div 256)) @
        byte_bits (of_nat ((length bytes - 6) mod 256)) @
        field_bits [(of_nat (length selected), 8), (ucast (field AND 3), 2), (0, 22)] @ ?body"
      unfolding lb unfolding bytes_def backpatch_bits[OF two] s by simp
    show "8 * length bytes = 48 + sum_list (map encodedBits selected)" using len lb by simp
  qed (simp_all add: nb)
qed

lemma decode_payload:
  assumes s: "bit_stream bytes = byte_bits a @ byte_bits b @
       field_bits [(of_nat (length sel), 8), (f, 2), (0, 22)] @ concat (map packet_bits sel)"
    and "6 \<le> length bytes" "length sel \<le> 255" "\<forall>p \<in> set sel. encodable p"
  shows "decodeRfc8331 bytes = sel"
proof -
  let ?r0 = "bitReader bytes"
  let ?rest = "field_bits [(of_nat (length sel), 8), (f, 2), (0, 22)] @ concat (map packet_bits sel)"
  have "rrep ?r0 ((byte_bits a @ byte_bits b) @ ?rest)" using rrep_bitReader[of bytes] s by simp
  then have r1: "rrep (snd (get 16 ?r0)) ?rest"
    using anc_bits.read_law[of ?r0 "(byte_bits a @ byte_bits b) @ ?rest" 16] by simp
  obtain vs r2 where r2: "readFields get [8, 2, 22] (snd (get 16 ?r0)) = (vs, r2)"
    "vs = [take_bit 8 (of_nat (length sel)), take_bit 2 f, take_bit 22 0]"
    "rrep r2 (concat (map packet_bits sel))"
    using anc_bits.read_fields[OF r1] by (cases "readFields get [8, 2, 22] (snd (get 16 ?r0))") auto
  have "unat (take_bit 8 (of_nat (length sel) :: u32)) = length sel"
    using assms(3) by (simp add: unsigned_take_bit_eq unat_of_nat take_bit_nat_eq_self)
  moreover have "decodeRfc8331 bytes = decodeLoop (unat (vs ! 0)) r2"
    using r2(1) assms(2) by (auto simp: decodeRfc8331_def kHeaderBytes_def Let_def split_beta)
  ultimately show ?thesis using r2(2) decodeLoop_rrep[OF assms(4) r2(3)] by simp
qed

text \<open>Whatever the packets are, the encoded payload fits the space it was encoded for.\<close>

lemma encode_fits: "length (payload (encodeRfc8331 packets maxBytes field)) \<le> maxBytes"
proof (cases "maxBytes < kHeaderBytes")
  case True
  then show ?thesis by (simp add: encodeRfc8331_def)
next
  case False
  then have m: "kHeaderBytes \<le> maxBytes" by simp
  obtain sel d where sel: "selectPackets packets ((maxBytes - kHeaderBytes) * 8) [] 0 = (sel, d)" by fastforce
  have "sum_list (map encodedBits sel) \<le> (maxBytes - kHeaderBytes) * 8"
    using selectPackets_sound[OF sel] by auto
  moreover obtain bytes where
    "encodeRfc8331 packets maxBytes field = \<lparr>payload = bytes, packetsEncoded = length sel, packetsDropped = d\<rparr>"
    "8 * length bytes = 48 + sum_list (map encodedBits sel)"
    using encode_payload[OF m sel] by metis
  ultimately show ?thesis using m by (simp add: kHeaderBytes_def)
qed

text \<open>C29. Decoding what was encoded: for packets the wire format can carry, the decoder returns
  packets in their order, as many as the result says; every other packet is counted as dropped
  and the payload never exceeds the grain.  When the packets fit, at most 255 of them, the decoder
  returns all of them.\<close>

theorem decode_encode:
  assumes "\<forall>p \<in> set packets. encodable p" and "kHeaderBytes \<le> maxBytes"
  shows "let r = encodeRfc8331 packets maxBytes field; ps = decodeRfc8331 (payload r) in
     subseq ps packets \<and> length ps = packetsEncoded r \<and>
     packetsEncoded r + packetsDropped r = length packets \<and> length (payload r) \<le> maxBytes \<and>
     (length packets \<le> 255 \<and> sum_list (map encodedBits packets) \<le> (maxBytes - kHeaderBytes) * 8 \<longrightarrow>
        ps = packets)"
proof -
  obtain sel d where sel: "selectPackets packets ((maxBytes - kHeaderBytes) * 8) [] 0 = (sel, d)"
    by fastforce
  have sound: "subseq sel packets" "d + length sel = length packets" "length sel \<le> 255"
    "sum_list (map encodedBits sel) \<le> (maxBytes - kHeaderBytes) * 8"
    using selectPackets_sound[OF sel] by auto
  obtain bytes a b where
    r: "encodeRfc8331 packets maxBytes field = \<lparr>payload = bytes, packetsEncoded = length sel, packetsDropped = d\<rparr>"
    and s: "bit_stream bytes = byte_bits a @ byte_bits b @
       field_bits [(of_nat (length sel), 8), (ucast (field AND 3), 2), (0, 22)] @ concat (map packet_bits sel)"
    and len: "8 * length bytes = 48 + sum_list (map encodedBits sel)"
    using encode_payload[OF assms(2) sel] by metis
  have "set sel \<subseteq> set packets" using sound(1) by (auto elim: subseq_order.trans dest: list_emb_set)
  then have dec: "decodeRfc8331 bytes = sel"
    using assms(1) sound(3) len by (intro decode_payload[OF s]) auto
  have fits: "sel = packets" if "length packets \<le> 255"
    "sum_list (map encodedBits packets) \<le> (maxBytes - kHeaderBytes) * 8"
    using selectPackets_all[of "[]" packets "(maxBytes - kHeaderBytes) * 8" 0] that sel by simp
  show ?thesis using r dec sound len assms(2) fits by (auto simp: kHeaderBytes_def Let_def)
qed

definition samplePackets :: "AncPacket list" where
  "samplePackets =
     [\<lparr>did = 0x61, sdid = 1, lineNumber = 9, dataStreamIndex = 0, userData = [1, 2, 0xff]\<rparr>,
      \<lparr>did = 0x41, sdid = 5, lineNumber = 572, dataStreamIndex = 1, userData = []\<rparr>]"

theorem decode_encode_witness:
  "decodeRfc8331 (payload (encodeRfc8331 samplePackets 64 kAncField1)) = samplePackets"
proof -
  have "\<forall>p \<in> set samplePackets. encodable p" "kHeaderBytes \<le> 64"
    by (simp_all add: samplePackets_def encodable_def kHeaderBytes_def)
  from decode_encode[OF this, of kAncField1] show ?thesis
    by (simp add: Let_def samplePackets_def packetBits_def kHeaderBytes_def)
qed

text \<open>The Length field of the payload is the size in bytes of everything after the 6-byte
  header, modulo the 16 bits of the field.\<close>

theorem encode_length_field:
  assumes "kHeaderBytes \<le> maxBytes"
  shows "let bytes = payload (encodeRfc8331 packets maxBytes field) in
     2 \<le> length bytes \<and> 256 * unat (bytes ! 0) + unat (bytes ! 1) = (length bytes - kHeaderBytes) mod 65536"
proof -
  obtain sel d where sel: "selectPackets packets ((maxBytes - kHeaderBytes) * 8) [] 0 = (sel, d)"
    by fastforce
  obtain bytes where
    r: "encodeRfc8331 packets maxBytes field = \<lparr>payload = bytes, packetsEncoded = length sel, packetsDropped = d\<rparr>"
    and len: "8 * length bytes = 48 + sum_list (map encodedBits sel)"
    and b: "bytes ! 0 = of_nat ((length bytes - 6) div 256)" "bytes ! 1 = of_nat ((length bytes - 6) mod 256)"
    using encode_payload[OF assms sel] by metis
  let ?n = "length bytes - 6"
  have "?n mod (256 * 256) = 256 * (?n div 256 mod 256) + ?n mod 256" by (rule mod_mult2_eq)
  then show ?thesis using r b len by (simp add: kHeaderBytes_def unat_of_nat take_bit_eq_mod)
qed

theorem encode_length_field_witness:
  "let bytes = payload (encodeRfc8331 samplePackets 64 0) in
     2 \<le> length bytes \<and> 256 * unat (bytes ! 0) + unat (bytes ! 1) = (length bytes - kHeaderBytes) mod 65536"
  by (rule encode_length_field) (simp add: kHeaderBytes_def)

lemma onesBelow_odd: "odd (onesBelow v n) \<longleftrightarrow> odd (card {i. i < n \<and> bit v i})"
proof (induction n)
  case (Suc n)
  have "{i. i < Suc n \<and> bit v i} = (if bit v n then insert n {i. i < n \<and> bit v i} else {i. i < n \<and> bit v i})"
    by (auto simp: less_Suc_eq)
  moreover have "odd (ucast (drop_bit n v) AND 1 :: u32) \<longleftrightarrow> bit v n"
  proof -
    have "odd (ucast (drop_bit n v) AND 1 :: u32) \<longleftrightarrow> bit (ucast (drop_bit n v) :: u32) 0"
      by (simp add: even_and_iff bit_0)
    then show ?thesis by (simp only: bit_ucast_iff bit_drop_bit_eq comp_apply) simp
  qed
  ultimately show ?case using Suc.IH by simp
qed simp

text \<open>The SMPTE 291 word of a byte: the low eight bits are the byte, bit 8 makes the number of
  ones in bits 0 to 8 even, and bit 9 is its complement.\<close>

theorem addParity_smpte291:
  "take_bit 8 (addParity v) = ucast v \<and> even (card {i. i < 9 \<and> bit (addParity v) i}) \<and>
   bit (addParity v) 9 = (\<not> bit (addParity v) 8) \<and> addParity v < 0x400"
proof -
  have low: "take_bit 8 (addParity v) = ucast v"
    by (rule bit_eqI) (auto simp: bit_take_bit_iff bit_ucast_iff bit_addParity dest: bit_imp_le_length)
  have "{i. i < 9 \<and> bit (addParity v) i} =
      (if bit (addParity v) 8 then insert 8 {i. i < 8 \<and> bit v i} else {i. i < 8 \<and> bit v i})"
    by (auto simp: bit_addParity less_Suc_eq numeral_eq_Suc)
  then have "even (card {i. i < 9 \<and> bit (addParity v) i})"
    by (simp add: bit_addParity onesBelow_odd)
  moreover have "take_bit 10 (addParity v) = addParity v"
    by (rule bit_eqI) (auto simp: bit_take_bit_iff bit_addParity)
  then have "unat (addParity v) = take_bit 10 (unat (addParity v))"
    by (metis unsigned_take_bit_eq)
  then have "unat (addParity v) < 2 ^ 10" by (metis take_bit_nat_less_exp)
  then have "addParity v < 0x400" by (simp add: word_less_nat_alt)
  ultimately show ?thesis using low by (simp add: bit_addParity)
qed

end
