(* ===== verification/Uuid.thy ===== *)
theory Uuid
  imports Prelude
begin

text \<open>
  \<open>src/util/uuid.hpp\<close> and \<open>uuid.cpp\<close>: flow and domain identifiers.  \<open>Uuid\<close> is the byte array
  of the struct (16 bytes, \<open>uuid_wf\<close>).  The text form, the parser, SHA-1 and the two derivations
  (RFC 4122 version 5 and the FNV-based one) are modelled on machine words.  The locale
  \<open>text_form\<close> is what configuration and routing rely on: parsing what was printed gives the
  identifier back, so the text identifies it.
\<close>

record Uuid =
  bytes :: "u8 list"

definition uuid_wf :: "Uuid \<Rightarrow> bool" where
  "uuid_wf u \<longleftrightarrow> length (bytes u) = 16"

subsection \<open>Text form\<close>

text \<open>Character codes, as C++ compares them.\<close>

definition code :: "char \<Rightarrow> nat" where
  "code c = of_char c"

definition hexVal :: "char \<Rightarrow> int" where
  "hexVal c =
     (if code (CHR ''0'') \<le> code c \<and> code c \<le> code (CHR ''9'') then int (code c) - int (code (CHR ''0''))
      else if code (CHR ''a'') \<le> code c \<and> code c \<le> code (CHR ''f'') then int (code c) - int (code (CHR ''a'')) + 10
      else if code (CHR ''A'') \<le> code c \<and> code c \<le> code (CHR ''F'') then int (code c) - int (code (CHR ''A'')) + 10
      else -1)"

text \<open>The conversion \<open>%02x\<close>.\<close>

definition hexDigit :: "nat \<Rightarrow> char" where
  "hexDigit n = (if n < 10 then char_of (48 + n) else char_of (87 + n))"

definition hex2 :: "u8 \<Rightarrow> string" where
  "hex2 b = [hexDigit (unat b div 16), hexDigit (unat b mod 16)]"

definition toString :: "Uuid \<Rightarrow> string" where
  "toString u =
     (let h = (\<lambda>i n. concat (map hex2 (take n (drop i (bytes u)))))
      in h 0 4 @ ''-'' @ h 4 2 @ ''-'' @ h 6 2 @ ''-'' @ h 8 2 @ ''-'' @ h 10 6)"

definition isNil :: "Uuid \<Rightarrow> bool" where
  "isNil u \<longleftrightarrow> (\<forall>b \<in> set (bytes u). b = 0)"

text \<open>The loop of \<open>parseUuid\<close> at string position \<open>i\<close>; \<open>out\<close> holds the bytes so far.\<close>

function parseLoop :: "string \<Rightarrow> nat \<Rightarrow> u8 list \<Rightarrow> u8 list option" where
  "parseLoop s i out =
     (if i < 36 then
        if i = 8 \<or> i = 13 \<or> i = 18 \<or> i = 23 then
          if s ! i \<noteq> CHR ''-'' then None else parseLoop s (i + 1) out
        else
          let hi = hexVal (s ! i); lo = hexVal (s ! (i + 1)) in
          if hi < 0 \<or> lo < 0 then None
          else parseLoop s (i + 2) (out @ [push_bit 4 (of_int hi) OR of_int lo])
      else Some out)"
  by pat_completeness auto
termination
  by (relation "measure (\<lambda>(s, i, out). 36 - i)") auto

declare parseLoop.simps [simp del]

definition parseUuid :: "string \<Rightarrow> Uuid option" where
  "parseUuid s = (if length s \<noteq> 36 then None else map_option Uuid.make (parseLoop s 0 []))"

subsection \<open>SHA-1\<close>

definition rotl :: "u32 \<Rightarrow> nat \<Rightarrow> u32" where
  "rotl v n = push_bit n v OR drop_bit (32 - n) v"

lemma pad56_zero: "(56 - int n) mod 64 = 0 \<longleftrightarrow> n mod 64 = 56"
proof -
  have "(56 - int n) mod 64 = 0 \<longleftrightarrow> int n mod 64 = 56 mod 64"
    by (subst mod_diff_commute_zero) (simp only: mod_eq_0_iff_dvd mod_eq_dvd_iff)
  also have "\<dots> \<longleftrightarrow> int (n mod 64) = int 56" by (simp add: zmod_int)
  finally show ?thesis by (simp only: of_nat_eq_iff)
qed

function padTo56 :: "u8 list \<Rightarrow> u8 list" where
  "padTo56 msg = (if length msg mod 64 \<noteq> 56 then padTo56 (msg @ [0]) else msg)"
  by pat_completeness auto
termination
proof (relation "measure (\<lambda>msg. nat ((56 - int (length msg)) mod 64))")
  fix msg :: "u8 list"
  assume "length msg mod 64 \<noteq> 56"
  then have ne: "(56 - int (length msg)) mod 64 \<noteq> 0" by (simp add: pad56_zero)
  then have "(56 - int (length msg) - 1) mod 64 = (56 - int (length msg)) mod 64 - 1"
    by (rule mod_pred) simp
  moreover have "0 < (56 - int (length msg)) mod 64" using ne by (simp add: order_less_le)
  ultimately show "(msg @ [0], msg) \<in> measure (\<lambda>msg. nat ((56 - int (length msg)) mod 64))"
    by (simp add: algebra_simps)
qed simp

declare padTo56.simps [simp del]

definition sha1Message :: "u8 list \<Rightarrow> u8 list" where
  "sha1Message data =
     (let bits = (of_nat (length data) :: u64) * 8
      in padTo56 (data @ [0x80]) @ map (\<lambda>i. ucast (drop_bit (8 * i) bits)) [7, 6, 5, 4, 3, 2, 1, 0])"

definition word16 :: "u8 list \<Rightarrow> nat \<Rightarrow> u32" where
  "word16 blk i =
     push_bit 24 (ucast (blk ! (i * 4))) OR push_bit 16 (ucast (blk ! (i * 4 + 1))) OR
     push_bit 8 (ucast (blk ! (i * 4 + 2))) OR ucast (blk ! (i * 4 + 3))"

fun extendWords :: "nat \<Rightarrow> u32 list \<Rightarrow> u32 list" where
  "extendWords 0 w = w"
| "extendWords (Suc n) w =
     (let i = length w in
      extendWords n (w @ [rotl (w ! (i - 3) XOR w ! (i - 8) XOR w ! (i - 14) XOR w ! (i - 16)) 1]))"

type_synonym hash = "u32 \<times> u32 \<times> u32 \<times> u32 \<times> u32"

definition sha1Round :: "nat \<times> u32 \<Rightarrow> hash \<Rightarrow> hash" where
  "sha1Round = (\<lambda>(i, wi) (a, b, c, d, e).
     let (f, k) =
       (if i < 20 then ((b AND c) OR ((NOT b) AND d), 0x5A827999)
        else if i < 40 then (b XOR c XOR d, 0x6ED9EBA1)
        else if i < 60 then ((b AND c) OR (b AND d) OR (c AND d), 0x8F1BBCDC)
        else (b XOR c XOR d, 0xCA62C1D6));
       temp = rotl a 5 + f + e + k + wi
     in (temp, a, rotl b 30, c, d))"

definition sha1Block :: "u8 list \<Rightarrow> hash \<Rightarrow> hash" where
  "sha1Block blk = (\<lambda>(h0, h1, h2, h3, h4).
     let w = extendWords 64 (map (word16 blk) [0..<16]);
         (a, b, c, d, e) = fold sha1Round (zip [0..<80] w) (h0, h1, h2, h3, h4)
     in (h0 + a, h1 + b, h2 + c, h3 + d, h4 + e))"

function sha1Blocks :: "u8 list \<Rightarrow> nat \<Rightarrow> hash \<Rightarrow> hash" where
  "sha1Blocks msg off h =
     (if off < length msg then sha1Blocks msg (off + 64) (sha1Block (take 64 (drop off msg)) h) else h)"
  by pat_completeness auto
termination
  by (relation "measure (\<lambda>(msg, off, h). length msg - off)") auto

declare sha1Blocks.simps [simp del]

definition beBytes :: "u32 \<Rightarrow> u8 list" where
  "beBytes h = [ucast (drop_bit 24 h), ucast (drop_bit 16 h), ucast (drop_bit 8 h), ucast h]"

definition sha1 :: "u8 list \<Rightarrow> u8 list" where
  "sha1 data =
     (let (h0, h1, h2, h3, h4) =
        sha1Blocks (sha1Message data) 0 (0x67452301, 0xEFCDAB89, 0x98BADCFE, 0x10325476, 0xC3D2E1F0)
      in concat (map beBytes [h0, h1, h2, h3, h4]))"

subsection \<open>Derived identifiers\<close>

definition charByte :: "char \<Rightarrow> u8" where
  "charByte c = of_char c"

definition uuidNamespaceDns :: Uuid where
  "uuidNamespaceDns = the (parseUuid ''6ba7b810-9dad-11d1-80b4-00c04fd430c8'')"

definition uuidV5 :: "Uuid \<Rightarrow> string \<Rightarrow> Uuid" where
  "uuidV5 ns name =
     (let dig = sha1 (bytes ns @ map charByte name);
          out = take 16 dig;
          out = out[6 := (out ! 6 AND 0x0f) OR 0x50];
          out = out[8 := (out ! 8 AND 0x3f) OR 0x80]
      in \<lparr>bytes = out\<rparr>)"

definition mix :: "u64 \<Rightarrow> u8 \<Rightarrow> u64" where
  "mix h b = (h XOR ucast b) * 0x100000001b3"

definition deriveUuid :: "Uuid \<Rightarrow> string \<Rightarrow> Uuid" where
  "deriveUuid base name =
     (let input1 = bytes base @ map charByte name;
          input2 = map (\<lambda>b. b XOR 0x5a) (bytes base) @ map (\<lambda>c. charByte c XOR 0xa5) name;
          h1 = foldl mix 0xcbf29ce484222325 input1;
          h2 = foldl mix 0x84222325cbf29ce4 input2;
          out = map (\<lambda>i. ucast (drop_bit (8 * i) h1)) [0..<8] @ map (\<lambda>i. ucast (drop_bit (8 * i) h2)) [0..<8];
          out = out[6 := (out ! 6 AND 0x0f) OR 0x40];
          out = out[8 := (out ! 8 AND 0x3f) OR 0x80]
      in \<lparr>bytes = out\<rparr>)"

subsection \<open>Round trips of the text form\<close>

lemma of_char_char_of: "n < 256 \<Longrightarrow> (of_char (char_of n) :: nat) = n"
  by simp

lemma hexVal_hexDigit: "n < 16 \<Longrightarrow> hexVal (hexDigit n) = int n"
  by (auto simp: hexVal_def hexDigit_def code_def)

lemma hexVal_range: "hexVal c < 16"
  by (auto simp: hexVal_def code_def)

lemma byte_of_digits: "push_bit 4 (of_int (int (unat b div 16))) OR of_int (int (unat b mod 16)) = (b :: u8)"
proof -
  have hi: "int (unat b div 16) = drop_bit 4 (uint b)" and lo: "int (unat b mod 16) = take_bit 4 (uint b)"
    by (simp_all add: drop_bit_eq_div take_bit_eq_mod zdiv_int zmod_int)
  show ?thesis unfolding hi lo
    by (rule bit_eqI)
      (auto simp: bit_or_iff bit_push_bit_iff bit_word_of_int_iff bit_drop_bit_eq bit_take_bit_iff bit_uint_iff)
qed

lemma hex2_parts: "hex2 b = [hexDigit (unat b div 16), hexDigit (unat b mod 16)]"
  by (simp add: hex2_def)

lemma nibbles: "unat (b :: u8) div 16 < 16"
proof -
  have "unat b < 256" using unsigned_less[of b, where ?'a = nat] by simp
  then show ?thesis by (simp add: less_mult_imp_div_less)
qed

text \<open>The text form position by position: where the separators and the pairs of digits are.\<close>

definition dashes :: "nat list" where "dashes = [8, 13, 18, 23]"

definition pairs :: "nat list" where
  "pairs = [0, 2, 4, 6, 9, 11, 14, 16, 19, 21, 24, 26, 28, 30, 32, 34]"

definition pairByte :: "string \<Rightarrow> nat \<Rightarrow> u8" where
  "pairByte s i = push_bit 4 (of_int (hexVal (s ! i))) OR of_int (hexVal (s ! (i + 1)))"

definition canonical :: "string \<Rightarrow> bool" where
  "canonical s \<longleftrightarrow> length s = 36 \<and> list_all (\<lambda>i. s ! i = CHR ''-'') dashes \<and>
     list_all (\<lambda>i. 0 \<le> hexVal (s ! i) \<and> 0 \<le> hexVal (s ! (i + 1))) pairs"

lemma parseLoop_positions:
  "length s = 36 \<Longrightarrow> parseLoop s 0 [] = (if canonical s then Some (map (pairByte s) pairs) else None)"
  by (simp add: canonical_def dashes_def pairs_def pairByte_def Let_def
      parseLoop.simps[of s 0] parseLoop.simps[of s 2] parseLoop.simps[of s 4] parseLoop.simps[of s 6] parseLoop.simps[of s 8] parseLoop.simps[of s 9] parseLoop.simps[of s 11] parseLoop.simps[of s 13] parseLoop.simps[of s 14] parseLoop.simps[of s 16] parseLoop.simps[of s 18] parseLoop.simps[of s 19] parseLoop.simps[of s 21] parseLoop.simps[of s 23] parseLoop.simps[of s 24] parseLoop.simps[of s 26] parseLoop.simps[of s 28] parseLoop.simps[of s 30] parseLoop.simps[of s 32] parseLoop.simps[of s 34] parseLoop.simps[of s 36]
      not_less del: add_2_eq_Suc add_2_eq_Suc')

text \<open>\<open>tolower\<close> in the C locale.\<close>

definition lower :: "char \<Rightarrow> char" where
  "lower c = (if 65 \<le> code c \<and> code c \<le> 90 then char_of (code c + 32) else c)"

lemma hexDigit_hexVal: "0 \<le> hexVal c \<Longrightarrow> hexDigit (nat (hexVal c)) = lower c"
  by (auto simp: hexVal_def hexDigit_def lower_def code_def nat_diff_distrib nat_add_distrib split: if_splits)

lemma unat_digits:
  assumes "0 \<le> h" "h < 16" "0 \<le> l" "l < 16"
  shows "unat (push_bit 4 (of_int h) OR of_int l :: u8) = 16 * nat h + nat l"
proof -
  have "(push_bit 4 (of_int h) OR of_int l :: u8) = of_int (push_bit 4 h OR l)"
    by (rule bit_eqI) (auto simp: bit_or_iff bit_push_bit_iff bit_word_of_int_iff)
  also have "push_bit 4 h OR l = push_bit 4 h + l"
  proof -
    have l: "take_bit 4 l = l" using assms by (simp add: take_bit_int_eq_self)
    have "push_bit 4 h AND l = 0"
      by (subst l[symmetric], rule bit_eqI) (auto simp: bit_and_iff bit_push_bit_iff bit_take_bit_iff)
    then show ?thesis using plus_and_or[of "push_bit 4 h" l] by simp
  qed
  finally have e: "(push_bit 4 (of_int h) OR of_int l :: u8) = of_int (16 * h + l)"
    by (simp add: push_bit_eq_mult mult.commute)
  have "uint (of_int (16 * h + l) :: u8) = 16 * h + l"
    using assms by (simp only: uint_word_of_int_eq) (simp add: take_bit_int_eq_self)
  then have "int (unat (of_int (16 * h + l) :: u8)) = 16 * h + l" by simp
  then show ?thesis unfolding e using assms by linarith
qed

lemma hex2_pairByte:
  assumes "0 \<le> hexVal (s ! i)" "0 \<le> hexVal (s ! (i + 1))"
  shows "hex2 (pairByte s i) = [lower (s ! i), lower (s ! (i + 1))]"
proof -
  have u: "unat (pairByte s i) = 16 * nat (hexVal (s ! i)) + nat (hexVal (s ! (i + 1)))"
    unfolding pairByte_def using assms hexVal_range by (intro unat_digits) auto
  have "nat (hexVal (s ! (i + 1))) < 16" using hexVal_range[of "s ! (i + 1)"] by simp
  then show ?thesis using assms by (simp add: hex2_def u hexDigit_hexVal)
qed

lemma list_36: "length s = 36 \<Longrightarrow> s = map ((!) s) [0..<36]"
  by (metis map_nth)

lemma upt_36: "[0..<36] = [0, 1, 2, 3, 4, 5, 6, 7, 8, 9, 10, 11, 12, 13, 14, 15, 16, 17, 18, 19, 20, 21, 22, 23, 24, 25, 26, 27, 28, 29, 30, 31, 32, 33, 34, 35]"
  by code_simp

lemma toString_canonical:
  assumes "canonical s"
  shows "toString \<lparr>bytes = map (pairByte s) pairs\<rparr> = map lower s"
proof -
  have p: "hex2 (pairByte s i) = [lower (s ! i), lower (s ! (i + 1))]" if "i \<in> set pairs" for i
    using assms that by (intro hex2_pairByte) (auto simp: canonical_def list_all_iff)
  have d: "lower (s ! i) = CHR ''-''" if "i \<in> set dashes" for i
    using assms that by (auto simp: canonical_def list_all_iff lower_def code_def)
  have "map lower s = map (\<lambda>i. lower (s ! i)) [0..<36]"
  proof -
    have "map lower (map ((!) s) [0..<36]) = map (\<lambda>i. lower (s ! i)) [0..<36]" by simp
    then show ?thesis using assms list_36[of s] by (simp only: canonical_def)
  qed
  also have "\<dots> = toString \<lparr>bytes = map (pairByte s) pairs\<rparr>"
    using p d by (simp add: toString_def pairs_def dashes_def upt_36)
  finally show ?thesis by simp
qed

lemma length_16E:
  assumes "length xs = 16"
  obtains a b c d e f g h i j k l m n p q where "xs = [a, b, c, d, e, f, g, h, i, j, k, l, m, n, p, q]"
  using assms by (auto simp: numeral_eq_Suc length_Suc_conv)

lemma toString_positions:
  assumes "uuid_wf u"
  shows "canonical (toString u) \<and> map (pairByte (toString u)) pairs = bytes u"
proof -
  obtain b0 b1 b2 b3 b4 b5 b6 b7 b8 b9 b10 b11 b12 b13 b14 b15
    where u: "bytes u = [b0, b1, b2, b3, b4, b5, b6, b7, b8, b9, b10, b11, b12, b13, b14, b15]"
    using assms unfolding uuid_wf_def by (rule length_16E)
  have h: "hexVal (hexDigit (unat b div 16)) = int (unat b div 16)"
    "hexVal (hexDigit (unat b mod 16)) = int (unat b mod 16)" for b :: u8
    using nibbles[of b] by (simp_all add: hexVal_hexDigit)
  show ?thesis
    by (simp add: canonical_def dashes_def pairs_def pairByte_def toString_def u hex2_parts h
        byte_of_digits[simplified])
qed

text \<open>Printing and parsing identifiers are inverse: the canonical text of every identifier
  parses back to it.\<close>

theorem parse_toString:
  assumes "uuid_wf u"
  shows "parseUuid (toString u) = Some u"
  using toString_positions[OF assms] parseLoop_positions[of "toString u"]
  by (simp add: parseUuid_def canonical_def Uuid.make_def)

theorem parse_toString_witness: "parseUuid (toString \<lparr>bytes = replicate 15 0 @ [0xab]\<rparr>) = Some \<lparr>bytes = replicate 15 0 @ [0xab]\<rparr>"
  by (rule parse_toString) (simp add: uuid_wf_def)

text \<open>What \<open>parseUuid\<close> accepts: exactly the strings of 36 characters with the four separators in
  place and hexadecimal digits everywhere else; the result has 16 bytes and prints as the
  lower-case form of the input.\<close>

theorem parseUuid_spec:
  "case parseUuid s of
     Some u \<Rightarrow> canonical s \<and> uuid_wf u \<and> toString u = map lower s
   | None \<Rightarrow> \<not> canonical s"
proof (cases "canonical s")
  case True
  then have "parseUuid s = Some \<lparr>bytes = map (pairByte s) pairs\<rparr>"
    using parseLoop_positions[of s] by (simp add: parseUuid_def canonical_def Uuid.make_def)
  then show ?thesis using True toString_canonical by (simp add: uuid_wf_def pairs_def)
next
  case False
  then have "parseUuid s = None"
    using parseLoop_positions[of s] by (auto simp: parseUuid_def)
  then show ?thesis using False by simp
qed

locale text_form =
  fixes print :: "'a \<Rightarrow> string" and parse :: "string \<Rightarrow> 'a option" and valid :: "'a \<Rightarrow> bool"
  assumes parse_print: "valid a \<Longrightarrow> parse (print a) = Some a"
begin

lemma print_inj: "valid a \<Longrightarrow> valid b \<Longrightarrow> print a = print b \<longleftrightarrow> a = b"
  using parse_print by (metis option.inject)

end

interpretation uuid_text: text_form toString parseUuid uuid_wf
proof
  show "uuid_wf u \<Longrightarrow> parseUuid (toString u) = Some u" for u
    using toString_positions[of u] parseLoop_positions[of "toString u"]
    by (simp add: parseUuid_def canonical_def Uuid.make_def)
qed

subsection \<open>Derived identifiers are well formed\<close>

text \<open>The version nibble (byte 6) and the variant bits (byte 8) of RFC 4122.\<close>

definition rfc4122 :: "nat \<Rightarrow> Uuid \<Rightarrow> bool" where
  "rfc4122 version u \<longleftrightarrow> uuid_wf u \<and> unat (drop_bit 4 (bytes u ! 6)) = version \<and>
     unat (drop_bit 6 (bytes u ! 8)) = 2"

lemma version_nibble:
  "drop_bit 4 ((x AND 0x0f) OR 0x50 :: u8) = 5" "drop_bit 4 ((x AND 0x0f) OR 0x40 :: u8) = 4"
  "drop_bit 6 ((x AND 0x3f) OR 0x80 :: u8) = 2"
proof -
  have m: "(0x0f :: u8) = mask 4" "(0x3f :: u8) = mask 6" by (simp_all add: mask_eq_exp_minus_1)
  have z: "drop_bit 4 (x AND mask 4) = 0" "drop_bit 6 (x AND mask 6) = 0"
    by (rule bit_eqI, simp add: bit_drop_bit_eq bit_and_iff bit_mask_iff)+
  show "drop_bit 4 ((x AND 0x0f) OR 0x50 :: u8) = 5" "drop_bit 4 ((x AND 0x0f) OR 0x40 :: u8) = 4"
    "drop_bit 6 ((x AND 0x3f) OR 0x80 :: u8) = 2"
    unfolding drop_bit_or m z by simp_all
qed

lemma length_sha1: "length (sha1 data) = 20"
  by (simp add: sha1_def beBytes_def split: prod.splits)

lemma padTo56_replicate: "padTo56 msg = msg @ replicate (nat ((56 - int (length msg)) mod 64)) 0"
proof (induction msg rule: padTo56.induct)
  case (1 msg)
  show ?case
  proof (cases "length msg mod 64 = 56")
    case True
    then have "(56 - int (length msg)) mod 64 = 0" by (simp add: pad56_zero)
    then show ?thesis using True by (subst padTo56.simps) simp
  next
    case False
    then have "(56 - int (length msg)) mod 64 \<noteq> 0" by (simp add: pad56_zero)
    from mod_pred[OF this] have "nat ((56 - int (length msg)) mod 64) = Suc (nat ((56 - int (length (msg @ [0 :: u8]))) mod 64))"
      by (simp add: algebra_simps Suc_nat_eq_nat_zadd1)
    then show ?thesis using 1 False by (subst padTo56.simps) simp
  qed
qed

text \<open>SHA-1 padding: the padded message starts with the data and a one bit, adds at most 72
  bytes and is a whole number of 64-byte blocks, so the block loop reads inside it.\<close>

theorem sha1Message_blocks:
  "64 dvd length (sha1Message data) \<and> take (length data + 1) (sha1Message data) = data @ [0x80] \<and>
   length (sha1Message data) \<le> length data + 72"
proof -
  let ?n = "nat ((56 - int (length data + 1)) mod 64)"
  have len: "length (sha1Message data) = length data + 1 + ?n + 8"
    by (simp add: sha1Message_def Let_def padTo56_replicate)
  have "int (length data + 1 + ?n + 8) mod 64 = (int (length data + 1) + (56 - int (length data + 1)) mod 64 + 8) mod 64"
    by simp
  also have "\<dots> = (int (length data + 1) + (56 - int (length data + 1)) + 8) mod 64"
    by (metis mod_add_left_eq mod_add_right_eq)
  also have "\<dots> = 0" by simp
  finally have "64 dvd length (sha1Message data)"
    unfolding len by presburger
  moreover have "?n \<le> 63" by simp
  ultimately show ?thesis
    using len by (simp add: sha1Message_def Let_def padTo56_replicate)
qed

text \<open>The derived identifiers are well formed: 16 bytes with the RFC 4122 variant, version 5 for
  \<open>uuidV5\<close> and version 4 for \<open>deriveUuid\<close>; so their text form parses back to them.\<close>

theorem derived_uuid_rfc4122:
  "rfc4122 5 (uuidV5 ns name) \<and> rfc4122 4 (deriveUuid base name) \<and>
   parseUuid (toString (uuidV5 ns name)) = Some (uuidV5 ns name) \<and>
   parseUuid (toString (deriveUuid base name)) = Some (deriveUuid base name)"
proof -
  have "rfc4122 5 (uuidV5 ns name)"
    by (simp add: rfc4122_def uuid_wf_def uuidV5_def Let_def length_sha1 version_nibble)
  moreover have "rfc4122 4 (deriveUuid base name)"
    by (simp add: rfc4122_def uuid_wf_def deriveUuid_def Let_def version_nibble)
  ultimately show ?thesis using uuid_text.parse_print by (simp add: rfc4122_def)
qed

end
