(* ===== verification/TaiClock.thy ===== *)
theory TaiClock
  imports Prelude
begin

text \<open>
  \<open>src/util/taiclock.hpp\<close> and \<open>taiclock.cpp\<close>: the calibration of the card's reference clock
  against TAI.  The signed 64-bit members and differences are 64-bit words, read with
  \<open>sint\<close> where the code compares them with zero.  The mutex serialises the calls, so each call is
  one step.  The warnings the code logs are not modelled; \<open>taiNowNs\<close> is a system call.
\<close>

record HardwareClockCalibrator =
  recalibrationIntervalNs :: u64
  maxStepNs :: u64
  calibrated :: bool
  offsetNs :: i64
  lastCalibrationTai :: u64
  rejectedDeltaNs :: i64

definition newCalibrator :: "u64 \<Rightarrow> u64 \<Rightarrow> HardwareClockCalibrator" where
  "newCalibrator interval maxStep =
     \<lparr>recalibrationIntervalNs = interval, maxStepNs = maxStep, calibrated = False, offsetNs = 0,
      lastCalibrationTai = 0, rejectedDeltaNs = 0\<rparr>"

definition negative :: "i64 \<Rightarrow> bool" where
  "negative d \<longleftrightarrow> sint d < 0"

definition calibrate :: "HardwareClockCalibrator \<Rightarrow> u64 \<Rightarrow> u64 \<Rightarrow> i64 option \<times> HardwareClockCalibrator" where
  "calibrate c hardwareNowNs taiNow =
     (let newOffset = taiNow - hardwareNowNs in
      if calibrated c then
        let delta = newOffset - offsetNs c;
            magnitude = (if negative delta then - delta else delta);
            drifting = (rejectedDeltaNs c \<noteq> 0 \<and> negative (rejectedDeltaNs c) = negative delta)
        in if magnitude > maxStepNs c \<and> \<not> drifting
           then (None, c\<lparr>rejectedDeltaNs := delta, lastCalibrationTai := taiNow\<rparr>)
           else (Some delta, c\<lparr>rejectedDeltaNs := 0, offsetNs := newOffset, lastCalibrationTai := taiNow\<rparr>)
      else (Some newOffset, c\<lparr>offsetNs := newOffset, calibrated := True, lastCalibrationTai := taiNow\<rparr>))"

definition isCalibrated :: "HardwareClockCalibrator \<Rightarrow> bool" where
  "isCalibrated c = calibrated c"

definition needsRecalibration :: "HardwareClockCalibrator \<Rightarrow> u64 \<Rightarrow> bool" where
  "needsRecalibration c taiNow =
     (if \<not> calibrated c then True else taiNow - lastCalibrationTai c \<ge> recalibrationIntervalNs c)"

definition toTai :: "HardwareClockCalibrator \<Rightarrow> u64 \<Rightarrow> u64" where
  "toTai c hardwareTimestampNs = hardwareTimestampNs + offsetNs c"

text \<open>The delta a calibration sees: how far the current translation is off.\<close>

definition driftOf :: "HardwareClockCalibrator \<Rightarrow> u64 \<Rightarrow> u64 \<Rightarrow> i64" where
  "driftOf c hw tai = tai - toTai c hw"

lemma calibrate_accept:
  "calibrate c hw tai = (Some d, c') \<Longrightarrow> toTai c' hw = tai \<and> calibrated c' \<and> lastCalibrationTai c' = tai"
  by (auto simp: calibrate_def Let_def toTai_def split: if_splits)

lemma calibrate_reject:
  "calibrate c hw tai = (None, c') \<Longrightarrow>
     calibrated c \<and> calibrated c' \<and> offsetNs c' = offsetNs c \<and> maxStepNs c' = maxStepNs c \<and>
     rejectedDeltaNs c' = driftOf c hw tai \<and> lastCalibrationTai c' = tai"
  by (auto simp: calibrate_def Let_def toTai_def driftOf_def algebra_simps split: if_splits)

lemma calibrate_reject_magnitude:
  assumes "calibrate c hw tai = (None, c')"
  shows "driftOf c hw tai \<noteq> 0"
  using assms
  by (auto simp: calibrate_def Let_def toTai_def driftOf_def negative_def algebra_simps split: if_splits)

text \<open>An accepted calibration makes the translation exact at the observation it was made from;
  a refused one leaves every translated timestamp as it was.  The first calibration is always
  accepted, and either way the interval to the next one restarts.\<close>

theorem calibrate_exact_or_unchanged:
  "case calibrate c hw tai of
     (Some _, c') \<Rightarrow> toTai c' hw = tai \<and> isCalibrated c' \<and> lastCalibrationTai c' = tai
   | (None, c') \<Rightarrow> isCalibrated c \<and> (\<forall>t. toTai c' t = toTai c t) \<and> lastCalibrationTai c' = tai"
  by (auto simp: isCalibrated_def toTai_def split: prod.splits option.splits
      dest: calibrate_accept calibrate_reject)

text \<open>C34. Steady drift cannot run away: when a calibration is refused, the next one whose error has
  the same direction is accepted, however large the error is, and corrects it.\<close>

theorem calibrate_drift_bounded:
  assumes "calibrate c hw1 tai1 = (None, c1)"
    and "negative (driftOf c1 hw2 tai2) = negative (driftOf c hw1 tai1)"
  shows "\<exists>c2. calibrate c1 hw2 tai2 = (Some (driftOf c1 hw2 tai2), c2) \<and> toTai c2 hw2 = tai2"
proof -
  have r: "calibrated c1" "rejectedDeltaNs c1 = driftOf c hw1 tai1" "driftOf c hw1 tai1 \<noteq> 0"
    using calibrate_reject[OF assms(1)] calibrate_reject_magnitude[OF assms(1)] by auto
  have d: "tai2 - hw2 - offsetNs c1 = driftOf c1 hw2 tai2"
    by (simp add: driftOf_def toTai_def algebra_simps)
  show ?thesis using r assms(2)
    by (simp add: calibrate_def Let_def d toTai_def)
qed

theorem calibrate_drift_bounded_witness:
  "\<exists>c2. calibrate
       ((newCalibrator 60 1000)\<lparr>calibrated := True, lastCalibrationTai := 7000, rejectedDeltaNs := 2000\<rparr>) 9000 14000
     = (Some (driftOf ((newCalibrator 60 1000)\<lparr>calibrated := True, lastCalibrationTai := 7000,
          rejectedDeltaNs := 2000\<rparr>) 9000 14000), c2) \<and> toTai c2 9000 = 14000"
proof (rule calibrate_drift_bounded)
  show "calibrate ((newCalibrator 60 1000)\<lparr>calibrated := True\<rparr>) 5000 7000 =
      (None, (newCalibrator 60 1000)\<lparr>calibrated := True, lastCalibrationTai := 7000, rejectedDeltaNs := 2000\<rparr>)"
    by (simp add: calibrate_def newCalibrator_def negative_def Let_def)
qed (simp add: driftOf_def toTai_def newCalibrator_def negative_def)

text \<open>The housekeeping schedule: a calibrated clock asks for the next calibration exactly when
  the interval since the last attempt has elapsed, whatever its outcome, and an uncalibrated one
  always asks.\<close>

theorem recalibration_schedule:
  assumes "calibrate c hw tai = (r, c')" and "tai \<le> tai'"
  shows "needsRecalibration c' tai' \<longleftrightarrow> unat (recalibrationIntervalNs c) \<le> unat tai' - unat tai"
proof -
  have "calibrated c'" "lastCalibrationTai c' = tai" "recalibrationIntervalNs c' = recalibrationIntervalNs c"
    using assms(1) by (auto simp: calibrate_def Let_def split: if_splits)
  then show ?thesis
    using assms(2) by (simp add: needsRecalibration_def word_le_nat_alt unat_sub)
qed

theorem recalibration_schedule_witness:
  "needsRecalibration (snd (calibrate (newCalibrator 60 10) 5 7)) 67 \<longleftrightarrow>
     unat (recalibrationIntervalNs (newCalibrator 60 10)) \<le> unat (67 :: u64) - unat (7 :: u64)"
  by (rule recalibration_schedule[of "newCalibrator 60 10" 5 7 "fst (calibrate (newCalibrator 60 10) 5 7)"])
    simp_all

end
