(* ===== verification/ReopenSchedule.thy ===== *)
theory ReopenSchedule
  imports Prelude
begin

text \<open>
  \<open>src/channel/reopen_schedule.hpp\<close>: when an output channel opens a reader again whose flow was
  re-created.  The locale \<open>retry_timer\<close> is what the channel relies on: no retry comes early, none
  is late.  Times are 64-bit nanosecond counts; the laws hold as long as the clock is a second
  short of wrapping (the year 2554).
\<close>

record ReopenSchedule =
  rs_pending :: bool
  rs_sinceNs :: u64
  rs_nextNs :: u64
  rs_failures :: u32

definition newReopenSchedule :: ReopenSchedule where
  "newReopenSchedule = \<lparr>rs_pending = False, rs_sinceNs = 0, rs_nextNs = 0, rs_failures = 0\<rparr>"

definition kDegradedAfterNs :: u64 where "kDegradedAfterNs = 1000000000"

definition retryDelayNs :: "u32 \<Rightarrow> u64" where
  "retryDelayNs failures =
     (let kDelaysMs = [100, 200, 500, 1000] :: u64 list; n = length kDelaysMs
      in kDelaysMs ! (if unat failures < n then unat failures else n - 1) * 1000000)"

definition flowInvalid :: "ReopenSchedule \<Rightarrow> u64 \<Rightarrow> ReopenSchedule" where
  "flowInvalid s nowNs =
     (let s' = (if \<not> rs_pending s
                then s\<lparr>rs_pending := True, rs_sinceNs := nowNs, rs_failures := 0\<rparr> else s)
      in s'\<lparr>rs_nextNs := nowNs\<rparr>)"

definition due :: "ReopenSchedule \<Rightarrow> u64 \<Rightarrow> bool" where
  "due s nowNs \<longleftrightarrow> rs_pending s \<and> rs_nextNs s \<le> nowNs"

definition openFailed :: "ReopenSchedule \<Rightarrow> u64 \<Rightarrow> ReopenSchedule" where
  "openFailed s nowNs =
     s\<lparr>rs_nextNs := nowNs + retryDelayNs (rs_failures s), rs_failures := rs_failures s + 1\<rparr>"

definition clear :: "ReopenSchedule \<Rightarrow> ReopenSchedule" where
  "clear s = s\<lparr>rs_pending := False, rs_failures := 0\<rparr>"

definition pendingForNs :: "ReopenSchedule \<Rightarrow> u64 \<Rightarrow> u64" where
  "pendingForNs s nowNs = (if rs_pending s \<and> rs_sinceNs s < nowNs then nowNs - rs_sinceNs s else 0)"

definition rs_degraded :: "ReopenSchedule \<Rightarrow> u64 \<Rightarrow> bool" where
  "rs_degraded s nowNs \<longleftrightarrow> rs_pending s \<and> pendingForNs s nowNs \<ge> kDegradedAfterNs"

subsection \<open>The retry interface\<close>

text \<open>A run of failed opens at the times \<open>ts\<close>, each made when it was due.\<close>

fun failedRun :: "('s \<Rightarrow> u64 \<Rightarrow> bool) \<Rightarrow> ('s \<Rightarrow> u64 \<Rightarrow> 's) \<Rightarrow> 's \<Rightarrow> u64 list \<Rightarrow> bool" where
  "failedRun is_due fail s [] = True"
| "failedRun is_due fail s (t # ts) \<longleftrightarrow> is_due s t \<and> failedRun is_due fail (fail s t) ts"

locale retry_timer =
  fixes is_due :: "'s \<Rightarrow> u64 \<Rightarrow> bool"
    and fail :: "'s \<Rightarrow> u64 \<Rightarrow> 's"
    and waiting :: "'s \<Rightarrow> bool"
    and minDelay maxDelay :: nat
  assumes fail_waiting: "waiting s \<Longrightarrow> waiting (fail s t)"
    and due_waiting: "is_due s t \<Longrightarrow> waiting s"
    and not_early: "unat t + maxDelay < 2 ^ 64 \<Longrightarrow> is_due (fail s t) t' \<Longrightarrow> unat t + minDelay \<le> unat t'"
    and not_late: "waiting s \<Longrightarrow> unat t + maxDelay < 2 ^ 64 \<Longrightarrow> unat t + maxDelay \<le> unat t' \<Longrightarrow> is_due (fail s t) t'"
begin

lemma run_spacing:
  "failedRun is_due fail s (t # ts) \<Longrightarrow> (\<And>u. u \<in> set (t # ts) \<Longrightarrow> unat u + maxDelay < 2 ^ 64) \<Longrightarrow>
     unat t + length ts * minDelay \<le> unat (last (t # ts))"
proof (induction ts arbitrary: s t)
  case (Cons u ts)
  have "unat t + minDelay \<le> unat u" using Cons.prems not_early[of t] by auto
  moreover have "unat u + length ts * minDelay \<le> unat (last (u # ts))"
    using Cons by (intro Cons.IH[of "fail s t"]) auto
  ultimately show ?case by simp
qed simp

lemma run_progress:
  "failedRun is_due fail s ts \<Longrightarrow> waiting s \<Longrightarrow> ts \<noteq> [] \<Longrightarrow> unat (last ts) + maxDelay < 2 ^ 64 \<Longrightarrow>
     unat (last ts) + maxDelay \<le> unat t' \<Longrightarrow> is_due (foldl fail s ts) t'"
proof (induction ts arbitrary: s)
  case (Cons t ts)
  then show ?case
    by (cases ts) (auto intro: not_late fail_waiting)
qed simp

end

lemma retryDelay_range: "unat (retryDelayNs f) \<in> {100000000, 200000000, 500000000, 1000000000}"
proof -
  consider "unat f = 0" | "unat f = 1" | "unat f = 2" | "unat f = 3" | "4 \<le> unat f" by linarith
  then show ?thesis by cases (simp_all add: retryDelayNs_def)
qed

lemma retryDelay_bounds: "100000000 \<le> unat (retryDelayNs f)" "unat (retryDelayNs f) \<le> 1000000000"
  using retryDelay_range[of f] by auto

lemma unat_retry_time:
  "unat t + 1000000000 < 2 ^ 64 \<Longrightarrow> unat (t + retryDelayNs f) = unat t + unat (retryDelayNs f)"
  using retryDelay_bounds(2)[of f] by (intro unat_add_lem[THEN iffD1]) simp

interpretation reopen: retry_timer due openFailed rs_pending 100000000 1000000000
proof
  show "rs_pending (openFailed s t)" if "rs_pending s" for s t using that by (simp add: openFailed_def)
  show "rs_pending s" if "due s t" for s t using that by (simp add: due_def)
  show "unat t + 100000000 \<le> unat t'"
    if "unat t + 1000000000 < 2 ^ 64" "due (openFailed s t) t'" for t s t'
    using that unat_retry_time[OF that(1), of "rs_failures s"] retryDelay_bounds(1)[of "rs_failures s"]
    by (simp add: due_def openFailed_def word_le_nat_alt)
  show "due (openFailed s t) t'"
    if "rs_pending s" "unat t + 1000000000 < 2 ^ 64" "unat t + 1000000000 \<le> unat t'" for s t t'
    using that unat_retry_time[OF that(2), of "rs_failures s"] retryDelay_bounds(2)[of "rs_failures s"]
    by (simp add: due_def openFailed_def word_le_nat_alt)
qed

text \<open>After a flow was re-created the first open is due at once; \<open>n + 1\<close> failed opens in a row
  take at least \<open>n * 100 ms\<close>, and at most a second after the last one the next is due.\<close>

theorem reopen_retry_rate:
  assumes "failedRun due openFailed (flowInvalid s t0) ts" and "ts \<noteq> []"
    and "\<forall>u \<in> set ts. unat u + 1000000000 < 2 ^ 64"
    and "unat (last ts) + 1000000000 \<le> unat t'"
  shows "due (flowInvalid s t0) t0 \<and>
     unat (hd ts) + (length ts - 1) * 100000000 \<le> unat (last ts) \<and>
     due (foldl openFailed (flowInvalid s t0) ts) t'"
proof -
  have p: "rs_pending (flowInvalid s t0)" by (simp add: flowInvalid_def Let_def)
  have "unat (hd ts) + (length ts - 1) * 100000000 \<le> unat (last ts)"
    using reopen.run_spacing[of "flowInvalid s t0" "hd ts" "tl ts"] assms by simp
  moreover have "due (flowInvalid s t0) t0" using p by (simp add: due_def flowInvalid_def Let_def)
  ultimately show ?thesis using reopen.run_progress[OF assms(1) p assms(2)] assms by auto
qed

theorem reopen_retry_rate_witness:
  "due (flowInvalid newReopenSchedule 5) 5 \<and>
   unat (hd [5, 100000005, 300000005 :: u64]) + (length [5, 100000005, 300000005 :: u64] - 1) * 100000000
     \<le> unat (last [5, 100000005, 300000005 :: u64]) \<and>
   due (foldl openFailed (flowInvalid newReopenSchedule 5) [5, 100000005, 300000005]) 1300000005"
  by (rule reopen_retry_rate)
    (simp_all add: due_def openFailed_def flowInvalid_def newReopenSchedule_def retryDelayNs_def Let_def)

text \<open>The channel counts as degraded exactly when the flow has been missing for a second: the
  start of an event is kept while it is pending, however often it is reported again.\<close>

theorem reopen_degraded:
  assumes "\<not> rs_pending s" and "t0 \<le> t"
  shows "rs_degraded (foldl flowInvalid (flowInvalid s t0) ts) t \<longleftrightarrow> 1000000000 \<le> unat t - unat t0"
proof -
  have "rs_pending (foldl flowInvalid s' ts) \<and> rs_sinceNs (foldl flowInvalid s' ts) = rs_sinceNs s'"
    if "rs_pending s'" for s'
    using that by (induction ts arbitrary: s') (simp_all add: flowInvalid_def Let_def)
  moreover have "rs_pending (flowInvalid s t0)" "rs_sinceNs (flowInvalid s t0) = t0"
    using assms(1) by (simp_all add: flowInvalid_def Let_def)
  ultimately show ?thesis using assms(2)
    by (auto simp: rs_degraded_def pendingForNs_def kDegradedAfterNs_def word_le_nat_alt word_less_nat_alt unat_sub)
qed

theorem reopen_degraded_witness:
  "rs_degraded (foldl flowInvalid (flowInvalid newReopenSchedule 5) [9, 700]) 1000000005
     \<longleftrightarrow> 1000000000 \<le> unat (1000000005 :: u64) - unat (5 :: u64)"
  by (rule reopen_degraded) (simp_all add: newReopenSchedule_def)

end
