(* ===== verification/VideoModes.thy ===== *)
theory VideoModes
  imports Prelude
begin

text \<open>
  \<open>src/config/videomodes.hpp\<close> and \<open>videomodes.cpp\<close>: the table of supported video modes and its two
  lookups.  The \<open>bmdDisplayMode\<close> values are those of the vendored \<open>DeckLinkAPIModes.h\<close>.
\<close>

record VideoMode =
  vm_name :: string
  vm_bmdDisplayMode :: u32
  vm_width :: u32
  vm_height :: u32
  vm_rateNumerator :: i64
  vm_rateDenominator :: i64
  vm_interlaced :: bool
  vm_bottomFieldFirst :: bool

definition mkMode :: "string \<Rightarrow> u32 \<Rightarrow> u32 \<Rightarrow> u32 \<Rightarrow> i64 \<Rightarrow> i64 \<Rightarrow> bool \<Rightarrow> bool \<Rightarrow> VideoMode" where
  "mkMode n b w h rn rd i bff =
     \<lparr>vm_name = n, vm_bmdDisplayMode = b, vm_width = w, vm_height = h, vm_rateNumerator = rn,
      vm_rateDenominator = rd, vm_interlaced = i, vm_bottomFieldFirst = bff\<rparr>"

definition allVideoModes :: "VideoMode list" where
  "allVideoModes =
     [
      mkMode ''PAL'' 0x70616C20 720 576 25 1 True False,
      mkMode ''NTSC'' 0x6E747363 720 486 30000 1001 True True,
      mkMode ''HD720p50'' 0x68703530 1280 720 50 1 False False,
      mkMode ''HD720p5994'' 0x68703539 1280 720 60000 1001 False False,
      mkMode ''HD720p60'' 0x68703630 1280 720 60 1 False False,
      mkMode ''HD1080i50'' 0x48693530 1920 1080 25 1 True False,
      mkMode ''HD1080i5994'' 0x48693539 1920 1080 30000 1001 True False,
      mkMode ''HD1080p2398'' 0x32337073 1920 1080 24000 1001 False False,
      mkMode ''HD1080p24'' 0x32347073 1920 1080 24 1 False False,
      mkMode ''HD1080p25'' 0x48703235 1920 1080 25 1 False False,
      mkMode ''HD1080p2997'' 0x48703239 1920 1080 30000 1001 False False,
      mkMode ''HD1080p30'' 0x48703330 1920 1080 30 1 False False,
      mkMode ''HD1080p50'' 0x48703530 1920 1080 50 1 False False,
      mkMode ''HD1080p5994'' 0x48703539 1920 1080 60000 1001 False False,
      mkMode ''HD1080p60'' 0x48703630 1920 1080 60 1 False False,
      mkMode ''4K2160p2398'' 0x346B3233 3840 2160 24000 1001 False False,
      mkMode ''4K2160p24'' 0x346B3234 3840 2160 24 1 False False,
      mkMode ''4K2160p25'' 0x346B3235 3840 2160 25 1 False False,
      mkMode ''4K2160p2997'' 0x346B3239 3840 2160 30000 1001 False False,
      mkMode ''4K2160p30'' 0x346B3330 3840 2160 30 1 False False,
      mkMode ''4K2160p50'' 0x346B3530 3840 2160 50 1 False False,
      mkMode ''4K2160p5994'' 0x346B3539 3840 2160 60000 1001 False False,
      mkMode ''4K2160p60'' 0x346B3630 3840 2160 60 1 False False,
      mkMode ''8K4320p25'' 0x386B3235 7680 4320 25 1 False False,
      mkMode ''8K4320p2997'' 0x386B3239 7680 4320 30000 1001 False False,
      mkMode ''8K4320p30'' 0x386B3330 7680 4320 30 1 False False,
      mkMode ''8K4320p50'' 0x386B3530 7680 4320 50 1 False False,
      mkMode ''8K4320p5994'' 0x386B3539 7680 4320 60000 1001 False False,
      mkMode ''8K4320p60'' 0x386B3630 7680 4320 60 1 False False]"

definition lookupVideoMode :: "string \<Rightarrow> VideoMode option" where
  "lookupVideoMode name = find (\<lambda>m. vm_name m = name) allVideoModes"

definition lookupVideoModeByBmd :: "u32 \<Rightarrow> VideoMode option" where
  "lookupVideoModeByBmd bmd = find (\<lambda>m. vm_bmdDisplayMode m = bmd) allVideoModes"

text \<open>A lookup by a key that is unique in the table finds exactly the table's entries.\<close>

lemma find_unique_key:
  "distinct (map f xs) \<Longrightarrow> find (\<lambda>x. f x = k) xs = Some x \<longleftrightarrow> x \<in> set xs \<and> f x = k"
  by (induction xs) (auto simp: rev_image_eqI split: if_splits)

lemma names_distinct: "distinct (map vm_name allVideoModes)"
  by (simp add: allVideoModes_def mkMode_def)

lemma bmd_distinct: "distinct (map vm_bmdDisplayMode allVideoModes)"
  by (simp add: allVideoModes_def mkMode_def)

text \<open>What the channels rely on: positive rates (they divide by them), an even height of interlaced
  modes (fields), and a frame buffer that fits 32-bit sizes.\<close>

definition mode_ok :: "VideoMode \<Rightarrow> bool" where
  "mode_ok m \<longleftrightarrow> 0 < sint (vm_rateNumerator m) \<and> 0 < sint (vm_rateDenominator m) \<and>
     (vm_interlaced m \<longrightarrow> even (unat (vm_height m))) \<and> (vm_bottomFieldFirst m \<longrightarrow> vm_interlaced m) \<and>
     even (unat (vm_width m)) \<and> 0 < vm_width m \<and> 0 < vm_height m \<and>
     sint (vm_rateNumerator m) \<le> 60 * sint (vm_rateDenominator m) \<and>
     20 * sint (vm_rateDenominator m) \<le> sint (vm_rateNumerator m)"

lemma all_modes_ok: "list_all mode_ok allVideoModes"
  by (simp add: allVideoModes_def mkMode_def mode_ok_def)

text \<open>The two lookups agree: a mode found by name is the one its \<open>BMDDisplayMode\<close> value finds, so
  the value the card reports identifies the configured mode, and every mode of the table has
  positive rates between 20 and 60 frames per second and, when interlaced, an even height.\<close>

theorem lookup_agree:
  "case lookupVideoMode name of
     Some m \<Rightarrow> vm_name m = name \<and> lookupVideoModeByBmd (vm_bmdDisplayMode m) = Some m \<and> mode_ok m
   | None \<Rightarrow> name \<notin> vm_name ` set allVideoModes"
proof (cases "lookupVideoMode name")
  case None
  then have "name \<notin> vm_name ` set allVideoModes" by (auto simp: lookupVideoMode_def find_None_iff)
  then show ?thesis by (simp add: None)
next
  case (Some m)
  then have m: "m \<in> set allVideoModes" "vm_name m = name"
    unfolding lookupVideoMode_def using find_unique_key[OF names_distinct, of name m] by simp_all
  then have "lookupVideoModeByBmd (vm_bmdDisplayMode m) = Some m"
    unfolding lookupVideoModeByBmd_def using find_unique_key[OF bmd_distinct, of _ m] by simp
  then show ?thesis using Some m all_modes_ok by (simp add: list_all_iff)
qed

end
