(* ===== verification/V210.thy ===== *)
theory V210
  imports Prelude
begin

text \<open>
  \<open>src/util/v210.hpp\<close> and \<open>v210.cpp\<close>: the v210 row geometry and the expansion of 8-bit UYVY rows to
  v210.  Three 10-bit components share a little-endian 32-bit word.  The theorem reads the components back.
\<close>

definition v210RowBytes :: "u32 \<Rightarrow> u32" where
  "v210RowBytes width = ((width + 47) div 48) * 128"

definition alpha10RowBytes :: "u32 \<Rightarrow> u32" where
  "alpha10RowBytes width = ((width + 2) div 3) * 4"

text \<open>A component in the top bits of its 10.\<close>

definition component :: "u8 \<Rightarrow> u32" where
  "component v = push_bit 2 (ucast v)"

text \<open>The words of one row: the loop over full triples, then the rest.\<close>

fun packWords :: "u8 list \<Rightarrow> u32 list" where
  "packWords (a # b # c # cs) = (component a OR push_bit 10 (component b) OR push_bit 20 (component c)) # packWords cs"
| "packWords [a, b] = [component a OR push_bit 10 (component b)]"
| "packWords [a] = [component a]"
| "packWords [] = []"

definition leBytes :: "u32 \<Rightarrow> u8 list" where
  "leBytes w = [ucast w, ucast (drop_bit 8 w), ucast (drop_bit 16 w), ucast (drop_bit 24 w)]"

definition rowBytes :: "u8 list \<Rightarrow> u8 list" where
  "rowBytes comps = concat (map leBytes (packWords comps))"

text \<open>One row: the words, then zeros up to the stride.  \<open>None\<close> is an access outside a buffer.\<close>

definition expandRow :: "u8 list \<Rightarrow> nat \<Rightarrow> nat \<Rightarrow> nat \<Rightarrow> nat \<Rightarrow> u8 list \<Rightarrow> u8 list option" where
  "expandRow src srcRowBytes dstRowBytes comps y dst =
     (if y * srcRowBytes + comps \<le> length src then
        let words = rowBytes (block src (y * srcRowBytes) comps) in
        case memcpy dst (y * dstRowBytes) words 0 (length words) of
          None \<Rightarrow> None
        | Some dst' \<Rightarrow>
            if length words < dstRowBytes
            then memset dst' (y * dstRowBytes + length words) 0 (dstRowBytes - length words)
            else Some dst'
      else None)"

fun expandRows :: "u8 list \<Rightarrow> nat \<Rightarrow> nat \<Rightarrow> nat \<Rightarrow> nat list \<Rightarrow> u8 list \<Rightarrow> u8 list option" where
  "expandRows src srcRowBytes dstRowBytes comps [] dst = Some dst"
| "expandRows src srcRowBytes dstRowBytes comps (y # ys) dst =
     (case expandRow src srcRowBytes dstRowBytes comps y dst of
        None \<Rightarrow> None | Some dst' \<Rightarrow> expandRows src srcRowBytes dstRowBytes comps ys dst')"

definition expandUyvyToV210 :: "u8 list \<Rightarrow> nat \<Rightarrow> u8 list \<Rightarrow> nat \<Rightarrow> u32 \<Rightarrow> u32 \<Rightarrow> u8 list option" where
  "expandUyvyToV210 src srcRowBytes dst dstRowBytes width height =
     expandRows src srcRowBytes dstRowBytes (unat (width * 2)) [0..<unat height] dst"

subsection \<open>Reading components back\<close>

text \<open>Component \<open>c\<close> of a v210 row: ten bits of word \<open>c div 3\<close>.\<close>

definition wordAt :: "u8 list \<Rightarrow> nat \<Rightarrow> u32" where
  "wordAt bs i =
     ucast (bs ! i) OR push_bit 8 (ucast (bs ! (i + 1))) OR push_bit 16 (ucast (bs ! (i + 2))) OR push_bit 24 (ucast (bs ! (i + 3)))"

definition v210Component :: "u8 list \<Rightarrow> nat \<Rightarrow> u32" where
  "v210Component row c = drop_bit (10 * (c mod 3)) (wordAt row (4 * (c div 3))) AND 0x3FF"

subsection \<open>One word\<close>

lemma bit_component: "bit (component a) n \<longleftrightarrow> 2 \<le> n \<and> n < 10 \<and> bit a (n - 2)"
  unfolding component_def by (auto simp: bit_push_bit_iff bit_ucast_iff dest: bit_imp_le_length)

lemma bit_ten: "bit (x AND 0x3FF :: u32) n \<longleftrightarrow> bit x n \<and> n < 10"
proof -
  have "(0x3FF :: u32) = mask 10" by (simp add: mask_eq_exp_minus_1)
  then have "x AND 0x3FF = take_bit 10 x" by (simp only: take_bit_eq_mask)
  then show ?thesis by (auto simp: bit_take_bit_iff)
qed

lemma components_of_word:
  "(component a OR push_bit 10 (component b) OR push_bit 20 (component c)) AND 0x3FF = component a"
  "drop_bit 10 (component a OR push_bit 10 (component b) OR push_bit 20 (component c)) AND 0x3FF = component b"
  "drop_bit 20 (component a OR push_bit 10 (component b) OR push_bit 20 (component c)) AND 0x3FF = component c"
  by (rule bit_word_eqI, auto simp: bit_ten bit_or_iff bit_push_bit_iff bit_drop_bit_eq bit_component)+

lemma component_0 [simp]: "component 0 = 0"
  by (simp add: component_def)

lemma le_parts:
  "ucast (ucast (w :: u32) :: u8) OR push_bit 8 (ucast (ucast (drop_bit 8 w) :: u8)) OR
     push_bit 16 (ucast (ucast (drop_bit 16 w) :: u8)) OR push_bit 24 (ucast (ucast (drop_bit 24 w) :: u8)) = w"
    (is "?l = w")
proof (rule bit_word_eqI)
  fix n assume "n < LENGTH(32)"
  then show "bit ?l n = bit w n"
    by (cases "n < 8"; cases "n < 16"; cases "n < 24")
      (auto simp: bit_or_iff bit_push_bit_iff bit_ucast_iff bit_drop_bit_eq)
qed

lemma length_leBytes [simp]: "length (leBytes w) = 4"
  by (simp add: leBytes_def)

lemma wordAt_leBytes: "wordAt (leBytes w @ bs) 0 = w"
  unfolding wordAt_def leBytes_def using le_parts[of w] by (simp add: numeral_2_eq_2 numeral_3_eq_3)

lemma wordAt_skip: "wordAt (leBytes w @ bs) (i + 4) = wordAt bs i"
  by (simp add: wordAt_def nth_append add.commute)

subsection \<open>One row\<close>

lemma v210Component_low: "c < 3 \<Longrightarrow> v210Component (leBytes w @ bs) c = drop_bit (10 * c) w AND 0x3FF"
  by (simp add: v210Component_def wordAt_leBytes)

lemma v210Component_skip: "v210Component (leBytes w @ bs) (c + 3) = v210Component bs c"
proof -
  have "4 * ((c + 3) div 3) = 4 * (c div 3) + 4" by (simp add: div_add_self2)
  then show ?thesis by (simp only: v210Component_def wordAt_skip) simp
qed

lemma length_rowBytes: "length (rowBytes comps) = 4 * ((length comps + 2) div 3)"
proof (induction comps rule: packWords.induct)
  case (1 a b c cs)
  have "(length (a # b # c # cs) + 2) div 3 = Suc ((length cs + 2) div 3)" by simp
  with 1 show ?case by (simp add: rowBytes_def)
qed (simp_all add: rowBytes_def)

lemma less_3_cases: "c < 3 \<Longrightarrow> c = 0 \<or> c = 1 \<or> c = (2 :: nat)"
  by linarith

lemma v210Component_rowBytes:
  "c < length comps \<Longrightarrow> v210Component (rowBytes comps @ bs) c = component (comps ! c)"
proof (induction comps arbitrary: c rule: packWords.induct)
  case (1 x y z cs)
  let ?w = "component x OR push_bit 10 (component y) OR push_bit 20 (component z)"
  have row: "rowBytes (x # y # z # cs) @ bs = leBytes ?w @ rowBytes cs @ bs" by (simp add: rowBytes_def)
  show ?case
  proof (cases "c < 3")
    case True
    then show ?thesis unfolding row
      using less_3_cases[OF True] components_of_word[of x y z] by (auto simp: v210Component_low)
  next
    case False
    then obtain d where "c = d + 3" by (metis add.commute le_iff_add not_less)
    then show ?thesis unfolding row using 1 by (simp add: v210Component_skip)
  qed
next
  case (2 x y)
  have row: "rowBytes [x, y] @ bs = leBytes (component x OR push_bit 10 (component y)) @ bs"
    by (simp add: rowBytes_def)
  have "c = 0 \<or> c = 1" using 2 by auto
  then show ?case unfolding row using components_of_word[of x y 0] by (auto simp: v210Component_low)
next
  case (3 x)
  have row: "rowBytes [x] @ bs = leBytes (component x) @ bs" by (simp add: rowBytes_def)
  show ?case unfolding row using 3 components_of_word[of x 0 0] by (auto simp: v210Component_low)
qed simp

subsection \<open>The frame\<close>

text \<open>One row: the destination row becomes the packed words and zeros, the rest of the buffer stays.\<close>

lemma expandRow_Some:
  assumes "y * sr + comps \<le> length src" and "(y + 1) * dr \<le> length dst" and "4 * ((comps + 2) div 3) \<le> dr"
  shows "expandRow src sr dr comps y dst =
     Some (take (y * dr) dst @ rowBytes (block src (y * sr) comps) @
           replicate (dr - 4 * ((comps + 2) div 3)) 0 @ drop ((y + 1) * dr) dst)"
proof -
  let ?ws = "rowBytes (block src (y * sr) comps)"
  have len: "length ?ws = 4 * ((comps + 2) div 3)" using assms(1) by (simp add: length_rowBytes)
  have cpy: "memcpy dst (y * dr) ?ws 0 (length ?ws) =
      Some (take (y * dr) dst @ ?ws @ drop (y * dr + length ?ws) dst)"
    using assms(2,3) len by (simp add: memcpy_def)
  let ?d = "take (y * dr) dst @ ?ws @ drop (y * dr + length ?ws) dst"
  have tk: "length (take (y * dr) dst) = y * dr" using assms(2) by simp
  have set0: "memset ?d (y * dr + length ?ws) 0 (dr - length ?ws) =
      Some (take (y * dr) dst @ ?ws @ replicate (dr - length ?ws) 0 @ drop ((y + 1) * dr) dst)"
    using assms(2,3) len tk by (simp add: memset_def add.commute)
  show ?thesis
  proof (cases "length ?ws < dr")
    case True
    then show ?thesis using assms(1) cpy set0 len by (simp add: expandRow_def)
  next
    case False
    then have "length ?ws = dr" using assms(3) len by simp
    then show ?thesis using assms(1) cpy len by (simp add: expandRow_def add.commute)
  qed
qed

lemma block_append_skip: "block (xs @ ys) (length xs) n = take n ys"
  by (simp add: block_def)

lemma block_stride_other:
  assumes "block ys 0 (y * d) = block xs 0 (y * d)" and "drop ((y + 1) * d) ys = drop ((y + 1) * d) xs" and "q \<noteq> y"
  shows "block ys (q * d) d = block xs (q * d) d"
proof (cases "q < y")
  case True
  then have "Suc q * d \<le> y * d" by (intro mult_le_mono1) simp
  then have "q * d + d \<le> y * d" by simp
  then have "block zs (q * d) d = take d (drop (q * d) (block zs 0 (y * d)))" for zs :: "'a list"
    by (simp add: block_def drop_take min_def)
  then show ?thesis using assms(1) by metis
next
  case False
  with assms(3) have "(y + 1) * d \<le> q * d" by (intro mult_le_mono1) simp
  then obtain e where "q * d = (y + 1) * d + e" by (metis le_iff_add)
  then show ?thesis using assms(2) by (simp add: block_def add.commute flip: drop_drop)
qed

text \<open>All rows: each named row is expanded, in any order of distinct rows.\<close>

definition expandedRow :: "u8 list \<Rightarrow> nat \<Rightarrow> nat \<Rightarrow> nat \<Rightarrow> nat \<Rightarrow> u8 list" where
  "expandedRow src sr dr comps y =
     rowBytes (block src (y * sr) comps) @ replicate (dr - 4 * ((comps + 2) div 3)) 0"

lemma expandRows_Some:
  assumes "\<And>y. y \<in> set ys \<Longrightarrow> y * sr + comps \<le> length src \<and> (y + 1) * dr \<le> length dst"
    and "4 * ((comps + 2) div 3) \<le> dr" and "distinct ys"
  shows "\<exists>out. expandRows src sr dr comps ys dst = Some out \<and> length out = length dst \<and>
     (\<forall>q. block out (q * dr) dr = (if q \<in> set ys then expandedRow src sr dr comps q else block dst (q * dr) dr))"
  using assms(1,3)
proof (induction ys arbitrary: dst)
  case (Cons y ys)
  let ?d = "take (y * dr) dst @ expandedRow src sr dr comps y @ drop ((y + 1) * dr) dst"
  have y: "y * sr + comps \<le> length src" "(y + 1) * dr \<le> length dst" using Cons.prems(1)[of y] by simp_all
  have step: "expandRow src sr dr comps y dst = Some ?d"
    using expandRow_Some[OF y assms(2)] by (simp add: expandedRow_def)
  have tk: "length (take (y * dr) dst) = y * dr" using y(2) by simp
  have row: "length (expandedRow src sr dr comps y) = dr"
    using y(1) assms(2) by (simp add: expandedRow_def length_rowBytes)
  have len: "length ?d = length dst" using tk row y(2) by simp
  have here: "block ?d (y * dr) dr = expandedRow src sr dr comps y"
    using block_append_skip[of "take (y * dr) dst" _ dr] tk row by simp
  have there: "block ?d (q * dr) dr = block dst (q * dr) dr" if "q \<noteq> y" for q
    using that tk row by (intro block_stride_other) (simp_all add: block_def)
  obtain out where out: "expandRows src sr dr comps ys ?d = Some out" "length out = length ?d"
    "\<And>q. block out (q * dr) dr = (if q \<in> set ys then expandedRow src sr dr comps q else block ?d (q * dr) dr)"
    using Cons.IH[of ?d] Cons.prems len by auto
  have "block out (q * dr) dr =
      (if q \<in> set (y # ys) then expandedRow src sr dr comps q else block dst (q * dr) dr)" for q
    using out(3)[of q] here there[of q] by (cases "q = y") simp_all
  then show ?case using step out(1,2) len by simp
qed simp

lemma v210RowBytes_enough:
  assumes "unat width \<le> 2 ^ 30"
  shows "4 * ((unat (width * 2) + 2) div 3) \<le> unat (v210RowBytes width)" and "unat (width * 2) = 2 * unat width"
proof -
  have w2: "unat (width * 2) = 2 * unat width"
    using assms unat_mult_lem[of width 2] by simp
  have w47: "unat (width + 47) = unat width + 47"
    using assms unat_add_lem[of width 47] by simp
  have d: "unat ((width + 47) div 48) = (unat width + 47) div 48" by (simp add: unat_div w47)
  have "(unat width + 47) div 48 < 33554432" using assms by simp
  then have "unat (v210RowBytes width) = (unat width + 47) div 48 * 128"
    unfolding v210RowBytes_def using assms d unat_mult_lem[of "(width + 47) div 48" 128] by simp
  then show "4 * ((unat (width * 2) + 2) div 3) \<le> unat (v210RowBytes width)" unfolding w2
    using dividend_less_div_times[of 48 "unat width + 47"] by simp
  show "unat (width * 2) = 2 * unat width" by (rule w2)
qed

lemma expand_returns:
  assumes "unat width \<le> 2 ^ 30" and "unat (width * 2) \<le> srcRowBytes" and "unat (v210RowBytes width) \<le> dstRowBytes"
    and "length src = unat height * srcRowBytes" and "length dst = unat height * dstRowBytes"
  shows "\<exists>out. expandUyvyToV210 src srcRowBytes dst dstRowBytes width height = Some out \<and> length out = length dst \<and>
     (\<forall>q < unat height. block out (q * dstRowBytes) dstRowBytes = expandedRow src srcRowBytes dstRowBytes (unat (width * 2)) q)"
proof -
  let ?cs = "unat (width * 2)"
  have enough: "4 * ((?cs + 2) div 3) \<le> dstRowBytes" using v210RowBytes_enough(1)[OF assms(1)] assms(3) by simp
  have inside: "y * srcRowBytes + ?cs \<le> length src \<and> (y + 1) * dstRowBytes \<le> length dst"
    if "y \<in> set [0..<unat height]" for y
  proof -
    have y: "y + 1 \<le> unat height" using that by simp
    have "(y + 1) * srcRowBytes \<le> length src" "(y + 1) * dstRowBytes \<le> length dst"
      unfolding assms(4,5) using mult_le_mono1[OF y] by simp_all
    then show ?thesis using assms(2) by simp
  qed
  have "\<exists>out. expandRows src srcRowBytes dstRowBytes ?cs [0..<unat height] dst = Some out \<and>
      length out = length dst \<and> (\<forall>q. block out (q * dstRowBytes) dstRowBytes =
        (if q \<in> set [0..<unat height] then expandedRow src srcRowBytes dstRowBytes ?cs q else block dst (q * dstRowBytes) dstRowBytes))"
    by (rule expandRows_Some[OF inside enough distinct_upt])
  then show ?thesis by (auto simp: expandUyvyToV210_def)
qed

text \<open>C33. The UYVY expansion is lossless and stays inside its buffers: with the row strides the header asks
  for, every row of the output holds the row's components in order, each one the source byte in the top eight of
  its ten bits, and every byte after the packed words of the row is zero.\<close>

theorem expandUyvy_components:
  assumes "unat width \<le> 2 ^ 30" and "unat (width * 2) \<le> srcRowBytes" and "unat (v210RowBytes width) \<le> dstRowBytes"
    and "length src = unat height * srcRowBytes" and "length dst = unat height * dstRowBytes"
  shows "\<exists>out. expandUyvyToV210 src srcRowBytes dst dstRowBytes width height = Some out \<and> length out = length dst \<and>
     (\<forall>y < unat height.
        (\<forall>c < 2 * unat width.
           v210Component (block out (y * dstRowBytes) dstRowBytes) c = push_bit 2 (ucast (src ! (y * srcRowBytes + c)))) \<and>
        (\<forall>j < dstRowBytes. 4 * ((2 * unat width + 2) div 3) \<le> j \<longrightarrow> block out (y * dstRowBytes) dstRowBytes ! j = 0))"
proof -
  note w = v210RowBytes_enough[OF assms(1)]
  let ?cs = "unat (width * 2)"
  have inside: "y * srcRowBytes + ?cs \<le> length src" if "y < unat height" for y
  proof -
    have "(y + 1) * srcRowBytes \<le> unat height * srcRowBytes" using that by (intro mult_le_mono1) simp
    then show ?thesis using assms(2,4) by simp
  qed
  obtain out where out: "expandUyvyToV210 src srcRowBytes dst dstRowBytes width height = Some out"
    "length out = length dst"
    "\<And>q. q < unat height \<Longrightarrow> block out (q * dstRowBytes) dstRowBytes = expandedRow src srcRowBytes dstRowBytes ?cs q"
    using expand_returns[OF assms] by blast
  have comp: "v210Component (block out (y * dstRowBytes) dstRowBytes) c = push_bit 2 (ucast (src ! (y * srcRowBytes + c)))"
    if "y < unat height" "c < ?cs" for y c
    using that inside[of y] by (simp add: out(3) expandedRow_def v210Component_rowBytes nth_block component_def)
  have pad: "block out (y * dstRowBytes) dstRowBytes ! j = 0"
    if "y < unat height" "j < dstRowBytes" "4 * ((?cs + 2) div 3) \<le> j" for y j
    using that inside[of y] by (simp add: out(3) expandedRow_def nth_append length_rowBytes)
  show ?thesis using out(1,2) comp pad unfolding w(2) by blast
qed

theorem expandUyvy_components_witness:
  "\<exists>out. expandUyvyToV210 (replicate 4 7) 4 (replicate 128 9) 128 2 1 = Some out \<and>
     v210Component (block out 0 128) 3 = 28 \<and> block out 0 128 ! 8 = 0"
proof -
  have rb: "v210RowBytes 2 = 128" by (simp add: v210RowBytes_def)
  have "\<exists>out. expandUyvyToV210 (replicate 4 7) 4 (replicate 128 9) 128 2 1 = Some out \<and> length out = length (replicate 128 (9 :: u8)) \<and>
     (\<forall>y < unat (1 :: u32).
        (\<forall>c < 2 * unat (2 :: u32).
           v210Component (block out (y * 128) 128) c = push_bit 2 (ucast (replicate 4 (7 :: u8) ! (y * 4 + c)))) \<and>
        (\<forall>j < 128. 4 * ((2 * unat (2 :: u32) + 2) div 3) \<le> j \<longrightarrow> block out (y * 128) 128 ! j = 0))"
    by (rule expandUyvy_components) (simp_all add: rb)
  then obtain out where out: "expandUyvyToV210 (replicate 4 7) 4 (replicate 128 9) 128 2 1 = Some out"
    "\<forall>c < 4. v210Component (block out 0 128) c = push_bit 2 (ucast (replicate 4 (7 :: u8) ! c))"
    "\<forall>j < 128. 8 \<le> j \<longrightarrow> block out 0 128 ! j = 0"
    by auto
  have "v210Component (block out 0 128) 3 = push_bit 2 (ucast (7 :: u8))" using out(2) by simp
  then have "v210Component (block out 0 128) 3 = 28" by simp
  moreover have "block out 0 128 ! 8 = 0" using out(3) by simp
  ultimately show ?thesis using out(1) by blast
qed

end
