(* ===== verification/Mxl.thy ===== *)
theory Mxl
  imports Prelude
begin

text \<open>
  The data of the MXL interface that the channels use: handles of readers and writers, status codes, grains
  and the configuration of a flow.  MXL itself is not part of the repository; its calls are parameters.
\<close>

type_synonym handle = nat

datatype mxlStatus =
  MXL_STATUS_OK | MXL_ERR_UNKNOWN | MXL_ERR_FLOW_INVALID | MXL_ERR_OUT_OF_RANGE_TOO_EARLY
  | MXL_ERR_OUT_OF_RANGE_TOO_LATE | MXL_ERR_TIMEOUT | MXL_ERR_INVALID_ARG | MXL_ERR_OTHER int

text \<open>A grain: its payload bytes (\<open>grainSize\<close> of them) or a null pointer, and the invalid flag.\<close>

record Grain =
  g_payload :: "u8 list option"
  g_invalid :: bool

definition noGrain :: Grain where "noGrain = \<lparr>g_payload = None, g_invalid = False\<rparr>"

record mxlFlowConfigInfo =
  fc_format :: nat
  fc_grainRate :: mxlRational
  fc_sliceSize0 :: u32
  fc_grainCount :: u32
  fc_channelCount :: u32
  fc_bufferLength :: u32

definition zeroConfig :: mxlFlowConfigInfo where
  "zeroConfig = \<lparr>fc_format = 0, fc_grainRate = \<lparr>numerator = 0, denominator = 0\<rparr>, fc_sliceSize0 = 0,
     fc_grainCount = 0, fc_channelCount = 0, fc_bufferLength = 0\<rparr>"

end
