(* ===== verification/Json.thy ===== *)
theory Json
  imports Prelude
begin

text \<open>
  JSON: the values that \<open>picojson\<close> parses (the parser itself is a library and a parameter of the model), and
  \<open>log::jsonEscape\<close> of \<open>src/util/logging.cpp\<close>, the text of a string inside a JSON document.
\<close>

text \<open>What \<open>picojson\<close> returns: an object lists its keys in order; a number is the integer it equals, if it
  does.\<close>

datatype json = JNull | JBool bool | JNum "int option" | JStr string | JArr "json list" | JObj "(string \<times> json) list"

text \<open>Looking up a member of an object.\<close>

definition member_of :: "json \<Rightarrow> string \<Rightarrow> json option" where
  "member_of v name = (case v of JObj fs \<Rightarrow> map_of fs name | _ \<Rightarrow> None)"

definition hexChar :: "nat \<Rightarrow> char" where
  "hexChar d = (if d < 10 then char_of (48 + d) else char_of (87 + d))"

definition escapeChar :: "char \<Rightarrow> string" where
  "escapeChar c =
     (if c = CHR 0x22 then [CHR 0x5C, CHR 0x22]
      else if c = CHR 0x5C then [CHR 0x5C, CHR 0x5C]
      else if c = CHR 0x0A then CHR 0x5C # ''n''
      else if c = CHR 0x0D then CHR 0x5C # ''r''
      else if c = CHR 0x09 then CHR 0x5C # ''t''
      else if (of_char c :: nat) < 32 then CHR 0x5C # ''u00'' @ [hexChar (of_char c div 16), hexChar (of_char c mod 16)]
      else [c])"

definition jsonEscape :: "string \<Rightarrow> string" where
  "jsonEscape s = concat (map escapeChar s)"

subsection \<open>Documents\<close>

definition quoted :: "string \<Rightarrow> string" where
  "quoted s = CHR 0x22 # jsonEscape s @ [CHR 0x22]"

fun commaJoin :: "string list \<Rightarrow> string" where
  "commaJoin [] = []"
| "commaJoin [x] = x"
| "commaJoin (x # xs) = x @ '','' @ commaJoin xs"

text \<open>The text of an object with its members in order, of an array, and of values.\<close>

definition jobj :: "(string \<times> string) list \<Rightarrow> string" where
  "jobj ms = ''{'' @ commaJoin (map (\<lambda>(k, v). quoted k @ '':'' @ v) ms) @ ''}''"

definition jarr :: "string list \<Rightarrow> string" where
  "jarr vs = ''['' @ commaJoin vs @ '']''"

definition jbool :: "bool \<Rightarrow> string" where
  "jbool b = (if b then ''true'' else ''false'')"

definition jopt :: "string option \<Rightarrow> string" where
  "jopt s = (case s of None \<Rightarrow> ''null'' | Some t \<Rightarrow> quoted t)"

definition jmaybe :: "('a \<Rightarrow> string) \<Rightarrow> 'a option \<Rightarrow> string" where
  "jmaybe f v = (case v of None \<Rightarrow> ''null'' | Some x \<Rightarrow> f x)"

text \<open>An unsigned and a signed 64-bit number.\<close>

definition unum :: "'w :: len word \<Rightarrow> string" where
  "unum w = nat_to_string (unat w)"

definition snum :: "'w :: len word \<Rightarrow> string" where
  "snum w = int_to_string (sint w)"

end
