(* ===== verification/ConfigTypes.thy ===== *)
theory ConfigTypes
  imports VideoModes Uuid
begin

text \<open>
  \<open>src/config/config.hpp\<close>: the configuration data, shared by the loader, the routing and the
  channels.  Members of type \<open>int\<close> are \<open>int\<close>; the loader checks their ranges.
\<close>

datatype Direction = Input | Output

datatype PixelFormat = YUV10 | YUVA10 | YUV8

datatype AudioSampleType = Int16 | Int32

datatype SdiLevel = LevelA | LevelB | Driver

datatype TimestampSourceCfg = Hardware | Host

datatype CardProfile = OneFullDuplex | TwoHalfDuplex | FourHalfDuplex | OneHalfDuplex

datatype DeckLinkLibMode = Bundled | HostMount

definition nilUuid :: Uuid where
  "nilUuid = \<lparr>bytes = replicate 16 0\<rparr>"

record AudioFlowConfig =
  af_index :: int
  af_flowId :: Uuid
  af_channelCount :: int
  af_deckLinkChannels :: "int list"
  af_label :: string
  af_mxlActive :: bool
  af_readerDomainPath :: string

record ChannelConfig =
  ch_index :: int
  direction :: Direction
  subdeviceIndex :: int
  videoModeName :: string
  videoMode :: "VideoMode option"
  pixelFormat :: PixelFormat
  allowFormatConversion :: bool
  ancEnable :: bool
  audioEnable :: bool
  audioChannelCount :: int
  audioSampleType :: AudioSampleType
  videoFlowId :: Uuid
  audioFlows :: "AudioFlowConfig list"
  ancFlowId :: "Uuid option"
  videoMxlActive :: bool
  ancMxlActive :: bool
  readerDomainPath :: string
  videoFlowLabel :: string
  groupHint :: string
  deviceId :: "Uuid option"
  sourceId :: "Uuid option"
  ch_grainCount :: int
  audioBufferMs :: int
  commitBatchHintVideo :: int
  commitBatchHintAudio :: int
  outputPrerollGrains :: int
  readerTimeoutMs :: int
  readOffsetGrains :: int
  sdiLevel :: SdiLevel
  ch_label :: string

definition defaultAudioFlow :: AudioFlowConfig where
  "defaultAudioFlow =
     \<lparr>af_index = 0, af_flowId = nilUuid, af_channelCount = 2, af_deckLinkChannels = [], af_label = [],
      af_mxlActive = True, af_readerDomainPath = []\<rparr>"

definition defaultChannel :: ChannelConfig where
  "defaultChannel =
     \<lparr>ch_index = 0, direction = Input, subdeviceIndex = 0, videoModeName = ''auto'', videoMode = None,
      pixelFormat = YUV10, allowFormatConversion = False, ancEnable = False, audioEnable = True,
      audioChannelCount = 16, audioSampleType = Int32, videoFlowId = nilUuid, audioFlows = [],
      ancFlowId = None, videoMxlActive = True, ancMxlActive = True, readerDomainPath = [],
      videoFlowLabel = [], groupHint = [], deviceId = None, sourceId = None, ch_grainCount = 0,
      audioBufferMs = 200, commitBatchHintVideo = 1, commitBatchHintAudio = 256,
      outputPrerollGrains = 3, readerTimeoutMs = 50, readOffsetGrains = 0, sdiLevel = LevelA,
      ch_label = []\<rparr>"

definition isAutoMode :: "ChannelConfig \<Rightarrow> bool" where
  "isAutoMode c \<longleftrightarrow> videoModeName c = ''auto''"

end
