(* ===== verification/FlowDef.thy ===== *)
theory FlowDef
  imports Json ConfigTypes
begin

text \<open>
  \<open>src/mxlbridge/flowdef.hpp\<close> and \<open>flowdef.cpp\<close>: the parameters of a flow and the NMOS flow definition
  that MXL gets.
\<close>

record VideoFlowParams =
  vp_id :: Uuid
  vp_label :: string
  vp_description :: string
  vp_groupHint :: string
  vp_sourceId :: "Uuid option"
  vp_deviceId :: "Uuid option"
  vp_width :: u32
  vp_height :: u32
  vp_rateNumerator :: i64
  vp_rateDenominator :: i64
  vp_interlaced :: bool
  vp_bottomFieldFirst :: bool
  vp_withAlpha :: bool

record AudioFlowParams =
  ap_id :: Uuid
  ap_label :: string
  ap_description :: string
  ap_groupHint :: string
  ap_sourceId :: "Uuid option"
  ap_deviceId :: "Uuid option"
  ap_channelCount :: u32

record AncFlowParams =
  np_id :: Uuid
  np_label :: string
  np_description :: string
  np_groupHint :: string
  np_sourceId :: "Uuid option"
  np_deviceId :: "Uuid option"
  np_rateNumerator :: i64
  np_rateDenominator :: i64

text \<open>A quoted name or value; the names and fixed values need no escape.\<close>

definition dq :: "string \<Rightarrow> string" where
  "dq s = CHR 0x22 # s @ [CHR 0x22]"

definition jsonField :: "string \<Rightarrow> string \<Rightarrow> string" where
  "jsonField name val = dq name @ '':'' @ dq val @ '',''"

definition commonHead :: "Uuid \<Rightarrow> string \<Rightarrow> string \<Rightarrow> string \<Rightarrow> string \<Rightarrow> string" where
  "commonHead ident format label description hint =
     jsonField ''id'' (toString ident) @ jsonField ''format'' format @ jsonField ''label'' (jsonEscape label) @
     jsonField ''description'' (jsonEscape description) @
     dq ''tags'' @ '':{'' @ dq ''urn:x-nmos:tag:grouphint/v1.0'' @ '':['' @ dq (jsonEscape hint) @ '']},'' @
     dq ''parents'' @ '':[],''"

definition idFields :: "Uuid option \<Rightarrow> Uuid option \<Rightarrow> string" where
  "idFields source device =
     (case source of None \<Rightarrow> [] | Some i \<Rightarrow> jsonField ''source_id'' (toString i)) @
     (case device of None \<Rightarrow> [] | Some i \<Rightarrow> jsonField ''device_id'' (toString i))"

definition jsonRate :: "string \<Rightarrow> i64 \<Rightarrow> i64 \<Rightarrow> string" where
  "jsonRate name num den =
     dq name @ '':{'' @ dq ''numerator'' @ '':'' @ int_to_string (sint num) @ '','' @ dq ''denominator'' @ '':'' @
     int_to_string (sint den) @ ''}''"

definition planeDef :: "string \<Rightarrow> u32 \<Rightarrow> u32 \<Rightarrow> string" where
  "planeDef name width height =
     ''{'' @ dq ''name'' @ '':'' @ dq name @ '','' @ dq ''width'' @ '':'' @ nat_to_string (unat width) @ '','' @
     dq ''height'' @ '':'' @ nat_to_string (unat height) @ '','' @ dq ''bit_depth'' @ '':10}''"

definition interlaceMode :: "bool \<Rightarrow> bool \<Rightarrow> string" where
  "interlaceMode interlaced bottomFieldFirst =
     (if \<not> interlaced then ''progressive'' else if bottomFieldFirst then ''interlaced_bff'' else ''interlaced_tff'')"

definition buildVideoFlowDef :: "VideoFlowParams \<Rightarrow> string" where
  "buildVideoFlowDef p =
     ''{'' @ commonHead (vp_id p) ''urn:x-nmos:format:video'' (vp_label p) (vp_description p) (vp_groupHint p) @
     idFields (vp_sourceId p) (vp_deviceId p) @
     jsonField ''media_type'' (if vp_withAlpha p then ''video/v210a'' else ''video/v210'') @
     jsonRate ''grain_rate'' (vp_rateNumerator p) (vp_rateDenominator p) @ '','' @
     dq ''frame_width'' @ '':'' @ nat_to_string (unat (vp_width p)) @ '','' @
     dq ''frame_height'' @ '':'' @ nat_to_string (unat (vp_height p)) @ '','' @
     jsonField ''interlace_mode'' (interlaceMode (vp_interlaced p) (vp_bottomFieldFirst p)) @
     jsonField ''colorspace'' ''BT709'' @ dq ''components'' @ '':['' @
     planeDef ''Y'' (vp_width p) (vp_height p) @ '','' @
     planeDef ''Cb'' (vp_width p div 2) (vp_height p) @ '','' @
     planeDef ''Cr'' (vp_width p div 2) (vp_height p) @
     (if vp_withAlpha p then '','' @ planeDef ''A'' (vp_width p) (vp_height p) else []) @ '']}''"

definition buildAudioFlowDef :: "AudioFlowParams \<Rightarrow> string" where
  "buildAudioFlowDef p =
     ''{'' @ commonHead (ap_id p) ''urn:x-nmos:format:audio'' (ap_label p) (ap_description p) (ap_groupHint p) @
     idFields (ap_sourceId p) (ap_deviceId p) @
     jsonField ''media_type'' ''audio/float32'' @ jsonRate ''sample_rate'' 48000 1 @ '','' @
     dq ''channel_count'' @ '':'' @ nat_to_string (unat (ap_channelCount p)) @ '','' @ dq ''bit_depth'' @ '':32}''"

definition buildAncFlowDef :: "AncFlowParams \<Rightarrow> string" where
  "buildAncFlowDef p =
     ''{'' @ commonHead (np_id p) ''urn:x-nmos:format:data'' (np_label p) (np_description p) (np_groupHint p) @
     idFields (np_sourceId p) (np_deviceId p) @
     jsonField ''media_type'' ''video/smpte291'' @
     jsonRate ''grain_rate'' (np_rateNumerator p) (np_rateDenominator p) @ ''}''"

definition buildWriterOptions :: "int \<Rightarrow> string" where
  "buildWriterOptions commitBatchHint =
     ''{'' @ dq ''maxCommitBatchSizeHint'' @ '':'' @ int_to_string commitBatchHint @ ''}''"

end
