(* ===== verification/AudioConv.thy ===== *)
theory AudioConv
  imports Prelude Complex_Main
begin

text \<open>
  \<open>src/util/audioconv.hpp\<close> and \<open>audioconv.cpp\<close>: which samples belong to a video frame (the index
  conversions of MXL are parameters), and the conversion between interleaved integer PCM and the float32
  planes of an MXL flow.

  A finite float32 is its rational value; the conversions round to the nearest representable value, ties to
  even, as IEEE 754 and \<open>lrintf\<close> do in the default rounding mode.  A NaN is outside the model.  A
  slice of MXL's ring is a list of planes, one per flow channel, each the list of its two contiguous fragments
  (the pointer arithmetic \<open>fragment.pointer + channel * stride\<close> selects the plane).  Reading or writing
  outside the PCM buffer gives \<open>None\<close>.
\<close>

subsection \<open>Block arithmetic\<close>

definition audioSampleIndexOfFrame ::
    "(mxlRational \<Rightarrow> u64 \<Rightarrow> u64) \<Rightarrow> (mxlRational \<Rightarrow> u64 \<Rightarrow> u64) \<Rightarrow> mxlRational \<Rightarrow> u64 \<Rightarrow> u64" where
  "audioSampleIndexOfFrame mxlTimestampToIndex mxlIndexToTimestamp frameRate frame =
     mxlTimestampToIndex \<lparr>numerator = 48000, denominator = 1\<rparr> (mxlIndexToTimestamp frameRate frame)"

definition maxAudioSamplesPerFrame :: "mxlRational \<Rightarrow> nat" where
  "maxAudioSamplesPerFrame frameRate =
     (let num = 48000 * denominator frameRate; den = numerator frameRate
      in unat ((num + den - 1) div den))"

subsection \<open>Floating point\<close>

type_synonym float32 = rat

text \<open>The exponent of the last significant bit of a magnitude, with 24 significant bits.\<close>

fun sigExponent :: "nat \<Rightarrow> nat" where
  "sigExponent n = (if n < 2 ^ 24 then 0 else Suc (sigExponent (n div 2)))"

declare sigExponent.simps [simp del]

definition roundHalfEven :: "nat \<Rightarrow> nat \<Rightarrow> nat" where
  "roundHalfEven n d =
     (let q = n div d; r = n mod d in if d < 2 * r \<or> (2 * r = d \<and> odd q) then q + 1 else q)"

text \<open>\<open>static_cast<float>\<close> of an integer.\<close>

definition floatOfInt :: "int \<Rightarrow> float32" where
  "floatOfInt x =
     (let n = nat \<bar>x\<bar>; u = 2 ^ sigExponent n in of_int (sgn x * int (roundHalfEven n u * u)))"

text \<open>\<open>std::lrintf\<close>.\<close>

definition lrintf :: "float32 \<Rightarrow> int" where
  "lrintf x =
     (let q = floor x; r = x - of_int q in if 1 / 2 < r \<or> (r = 1 / 2 \<and> odd q) then q + 1 else q)"

definition kInt32Scale :: float32 where "kInt32Scale = 1 / 2147483648"
definition kInt16Scale :: float32 where "kInt16Scale = 1 / 32768"

definition clampedFromFloat :: "int \<Rightarrow> int \<Rightarrow> float32 \<Rightarrow> int" where
  "clampedFromFloat lo hi scaled =
     (if floatOfInt hi \<le> scaled then hi else if scaled \<le> floatOfInt lo then lo else lrintf scaled)"

subsection \<open>From PCM to planes\<close>

record Slices =
  sl_planes :: "float32 list list list"

definition readSample :: "int list \<Rightarrow> nat \<Rightarrow> int option" where
  "readSample src i = (if i < length src then Some (src ! i) else None)"

text \<open>The loop over one fragment: the new fragment and the next sample frame.\<close>

fun fillFragment :: "(nat \<Rightarrow> float32 option) \<Rightarrow> nat \<Rightarrow> nat \<Rightarrow> float32 list \<Rightarrow> (float32 list \<times> nat) option" where
  "fillFragment sample sampleFrames frame [] = Some ([], frame)"
| "fillFragment sample sampleFrames frame (x # xs) =
     (if frame < sampleFrames then
        case sample frame of
          None \<Rightarrow> None
        | Some v \<Rightarrow> map_option (\<lambda>(ys, f). (v # ys, f)) (fillFragment sample sampleFrames (frame + 1) xs)
      else Some (x # xs, frame))"

fun fillPlane :: "(nat \<Rightarrow> float32 option) \<Rightarrow> nat \<Rightarrow> nat \<Rightarrow> float32 list list \<Rightarrow> float32 list list option" where
  "fillPlane sample sampleFrames frame [] = Some []"
| "fillPlane sample sampleFrames frame (frag # frags) =
     (if frag = [] then map_option (\<lambda>fs. [] # fs) (fillPlane sample sampleFrames frame frags)
      else case fillFragment sample sampleFrames frame frag of
             None \<Rightarrow> None
           | Some (frag', frame') \<Rightarrow> map_option (\<lambda>fs. frag' # fs) (fillPlane sample sampleFrames frame' frags))"

text \<open>The loop over the map and the flow's channels, whichever ends first.\<close>

fun deinterleaveLoop ::
    "int list \<Rightarrow> nat \<Rightarrow> nat \<Rightarrow> float32 \<Rightarrow> int list \<Rightarrow> float32 list list list \<Rightarrow> float32 list list list option" where
  "deinterleaveLoop src sampleFrames deckLinkChannels scale [] planes = Some planes"
| "deinterleaveLoop src sampleFrames deckLinkChannels scale (dlChan # cmap) [] = Some []"
| "deinterleaveLoop src sampleFrames deckLinkChannels scale (dlChan # cmap) (plane # planes) =
     (if dlChan < 0 \<or> deckLinkChannels \<le> nat dlChan
      then map_option (\<lambda>ps. plane # ps) (deinterleaveLoop src sampleFrames deckLinkChannels scale cmap planes)
      else case fillPlane (\<lambda>frame. map_option (\<lambda>x. floatOfInt x * scale)
                  (readSample src (frame * deckLinkChannels + nat dlChan))) sampleFrames 0 plane of
             None \<Rightarrow> None
           | Some plane' \<Rightarrow>
               map_option (\<lambda>ps. plane' # ps) (deinterleaveLoop src sampleFrames deckLinkChannels scale cmap planes))"

definition deinterleaveToFloatMapped :: "int list \<Rightarrow> nat \<Rightarrow> nat \<Rightarrow> int list \<Rightarrow> Slices \<Rightarrow> float32 \<Rightarrow> Slices option" where
  "deinterleaveToFloatMapped src sampleFrames deckLinkChannels cmap dst scale =
     map_option (\<lambda>ps. dst\<lparr>sl_planes := ps\<rparr>)
       (deinterleaveLoop src sampleFrames deckLinkChannels scale cmap (sl_planes dst))"

definition deinterleaveInt32ToFloatMapped :: "int list \<Rightarrow> nat \<Rightarrow> nat \<Rightarrow> int list \<Rightarrow> Slices \<Rightarrow> Slices option" where
  "deinterleaveInt32ToFloatMapped src sampleFrames deckLinkChannels cmap dst =
     deinterleaveToFloatMapped src sampleFrames deckLinkChannels cmap dst kInt32Scale"

definition deinterleaveInt16ToFloatMapped :: "int list \<Rightarrow> nat \<Rightarrow> nat \<Rightarrow> int list \<Rightarrow> Slices \<Rightarrow> Slices option" where
  "deinterleaveInt16ToFloatMapped src sampleFrames deckLinkChannels cmap dst =
     deinterleaveToFloatMapped src sampleFrames deckLinkChannels cmap dst kInt16Scale"

text \<open>The identity map of at most 64 channels.\<close>

definition identityMap :: "nat \<Rightarrow> int list" where
  "identityMap channelCount = map int [0..<(if channelCount < 64 then channelCount else 64)]"

definition deinterleaveInt32ToFloat :: "int list \<Rightarrow> nat \<Rightarrow> nat \<Rightarrow> Slices \<Rightarrow> Slices option" where
  "deinterleaveInt32ToFloat src sampleFrames channelCount dst =
     deinterleaveInt32ToFloatMapped src sampleFrames channelCount (identityMap channelCount) dst"

definition deinterleaveInt16ToFloat :: "int list \<Rightarrow> nat \<Rightarrow> nat \<Rightarrow> Slices \<Rightarrow> Slices option" where
  "deinterleaveInt16ToFloat src sampleFrames channelCount dst =
     deinterleaveInt16ToFloatMapped src sampleFrames channelCount (identityMap channelCount) dst"

subsection \<open>From planes to PCM\<close>

definition writeSample :: "int list \<Rightarrow> nat \<Rightarrow> int \<Rightarrow> int list option" where
  "writeSample dst i v = (if i < length dst then Some (dst[i := v]) else None)"

text \<open>A sequence of sample values to the sample frames from \<open>frame\<close> on, at most up to \<open>sampleFrames\<close>.\<close>

fun drainFragment :: "(float32 \<Rightarrow> int) \<Rightarrow> nat \<Rightarrow> nat \<Rightarrow> nat \<Rightarrow> nat \<Rightarrow> float32 list \<Rightarrow> int list \<Rightarrow> (int list \<times> nat) option" where
  "drainFragment conv sampleFrames deckLinkChannels dlChan frame [] dst = Some (dst, frame)"
| "drainFragment conv sampleFrames deckLinkChannels dlChan frame (x # xs) dst =
     (if frame < sampleFrames then
        case writeSample dst (frame * deckLinkChannels + dlChan) (conv x) of
          None \<Rightarrow> None
        | Some dst' \<Rightarrow> drainFragment conv sampleFrames deckLinkChannels dlChan (frame + 1) xs dst'
      else Some (dst, frame))"

fun drainPlane :: "(float32 \<Rightarrow> int) \<Rightarrow> nat \<Rightarrow> nat \<Rightarrow> nat \<Rightarrow> nat \<Rightarrow> float32 list list \<Rightarrow> int list \<Rightarrow> int list option" where
  "drainPlane conv sampleFrames deckLinkChannels dlChan frame [] dst = Some dst"
| "drainPlane conv sampleFrames deckLinkChannels dlChan frame (frag # frags) dst =
     (if frag = [] then drainPlane conv sampleFrames deckLinkChannels dlChan frame frags dst
      else case drainFragment conv sampleFrames deckLinkChannels dlChan frame frag dst of
             None \<Rightarrow> None
           | Some (dst', frame') \<Rightarrow> drainPlane conv sampleFrames deckLinkChannels dlChan frame' frags dst')"

fun zeroChannel :: "nat \<Rightarrow> nat \<Rightarrow> nat list \<Rightarrow> int list \<Rightarrow> int list option" where
  "zeroChannel deckLinkChannels dlChan [] dst = Some dst"
| "zeroChannel deckLinkChannels dlChan (frame # fs) dst =
     (case writeSample dst (frame * deckLinkChannels + dlChan) 0 of
        None \<Rightarrow> None | Some dst' \<Rightarrow> zeroChannel deckLinkChannels dlChan fs dst')"

text \<open>Map entries without a plane (\<open>flowChan >= src.count\<close>) give silence.\<close>

fun interleaveLoop :: "(float32 \<Rightarrow> int) \<Rightarrow> nat \<Rightarrow> nat \<Rightarrow> int list \<Rightarrow> float32 list list list \<Rightarrow> int list \<Rightarrow> int list option" where
  "interleaveLoop conv sampleFrames deckLinkChannels [] planes dst = Some dst"
| "interleaveLoop conv sampleFrames deckLinkChannels (dlChan # cmap) planes dst =
     (if dlChan < 0 \<or> deckLinkChannels \<le> nat dlChan
      then interleaveLoop conv sampleFrames deckLinkChannels cmap (tl planes) dst
      else case (case planes of
               [] \<Rightarrow> zeroChannel deckLinkChannels (nat dlChan) [0..<sampleFrames] dst
             | plane # _ \<Rightarrow> drainPlane conv sampleFrames deckLinkChannels (nat dlChan) 0 plane dst) of
             None \<Rightarrow> None
           | Some dst' \<Rightarrow> interleaveLoop conv sampleFrames deckLinkChannels cmap (tl planes) dst')"

definition interleaveFloatToInt32Mapped :: "Slices \<Rightarrow> nat \<Rightarrow> int list \<Rightarrow> nat \<Rightarrow> int list \<Rightarrow> int list option" where
  "interleaveFloatToInt32Mapped src sampleFrames cmap deckLinkChannels dst =
     interleaveLoop (\<lambda>x. clampedFromFloat (- 2147483648) 2147483647 (x * 2147483648))
       sampleFrames deckLinkChannels cmap (sl_planes src) dst"

definition interleaveFloatToInt16Mapped :: "Slices \<Rightarrow> nat \<Rightarrow> int list \<Rightarrow> nat \<Rightarrow> int list \<Rightarrow> int list option" where
  "interleaveFloatToInt16Mapped src sampleFrames cmap deckLinkChannels dst =
     interleaveLoop (\<lambda>x. clampedFromFloat (- 32768) 32767 (x * 32768))
       sampleFrames deckLinkChannels cmap (sl_planes src) dst"

text \<open>The unmapped variants clear the whole packet first.\<close>

fun clearPacket :: "nat list \<Rightarrow> int list \<Rightarrow> int list option" where
  "clearPacket [] dst = Some dst"
| "clearPacket (i # is) dst = (case writeSample dst i 0 of None \<Rightarrow> None | Some dst' \<Rightarrow> clearPacket is dst')"

definition interleaveFloatToInt32 :: "Slices \<Rightarrow> nat \<Rightarrow> nat \<Rightarrow> int list \<Rightarrow> int list option" where
  "interleaveFloatToInt32 src sampleFrames channelCount dst =
     Option.bind (clearPacket [0..<sampleFrames * channelCount] dst)
       (interleaveFloatToInt32Mapped src sampleFrames (identityMap channelCount) channelCount)"

definition interleaveFloatToInt16 :: "Slices \<Rightarrow> nat \<Rightarrow> nat \<Rightarrow> int list \<Rightarrow> int list option" where
  "interleaveFloatToInt16 src sampleFrames channelCount dst =
     Option.bind (clearPacket [0..<sampleFrames * channelCount] dst)
       (interleaveFloatToInt16Mapped src sampleFrames (identityMap channelCount) channelCount)"

end
