(* ===== verification/Writers.thy ===== *)
theory Writers
  imports Mxl FlowDef Anc Interlace AudioConv
begin

text \<open>
  \<open>src/mxlbridge/videowriter.cpp\<close>, \<open>audiowriter.cpp\<close> and \<open>ancwriter.cpp\<close>: the writers of MXL flows.

  The answers of MXL come from \<open>MxlEnv\<close>; each call takes the answer at the current tick, so an answer
  may change from call to call.  \<open>Ring\<close> records what the program did: the committed writes with their
  payloads, in order, and the writer handles that are not released.  A memory access outside a buffer, or a loop
  that does not end, is \<open>None\<close>.
\<close>

subsection \<open>MXL\<close>

record GrainInfo =
  gi_grainSize :: nat
  gi_flags :: u32
  gi_totalSlices :: u16
  gi_validSlices :: u16

definition MXL_GRAIN_FLAG_INVALID :: u32 where "MXL_GRAIN_FLAG_INVALID = 1"

text \<open>A write: handle, index, what was written and what the commit returned.\<close>

datatype WriteOp =
  GrainWrite handle u64 GrainInfo "u8 list" mxlStatus
  | SamplesWrite handle u64 nat Slices mxlStatus

record Ring =
  rg_tick :: nat
  rg_ops :: "WriteOp list"
  rg_live :: "handle list"

record MxlEnv =
  createFlowWriter :: "nat \<Rightarrow> string \<Rightarrow> string option \<Rightarrow> mxlStatus \<times> handle \<times> mxlFlowConfigInfo"
  getGrainInfo :: "nat \<Rightarrow> handle \<Rightarrow> u64 \<Rightarrow> mxlStatus \<times> GrainInfo"
  getMaxWriteLength :: "nat \<Rightarrow> handle \<Rightarrow> mxlStatus \<times> nat"
  openGrain :: "nat \<Rightarrow> handle \<Rightarrow> u64 \<Rightarrow> mxlStatus \<times> GrainInfo \<times> u8 list"
  commitGrain :: "nat \<Rightarrow> handle \<Rightarrow> mxlStatus"
  openSamples :: "nat \<Rightarrow> handle \<Rightarrow> u64 \<Rightarrow> nat \<Rightarrow> mxlStatus \<times> Slices"
  commitSamples :: "nat \<Rightarrow> handle \<Rightarrow> mxlStatus"

definition rtick :: "Ring \<Rightarrow> Ring" where
  "rtick r = r\<lparr>rg_tick := rg_tick r + 1\<rparr>"

datatype WriterError = CreateFailed string mxlStatus

text \<open>\<open>mxlCreateFlowWriter\<close> and \<open>mxlReleaseFlowWriter\<close> with the list of live handles.\<close>

definition createWriter :: "MxlEnv \<Rightarrow> string \<Rightarrow> string option \<Rightarrow> Ring \<Rightarrow> (mxlStatus \<times> handle \<times> mxlFlowConfigInfo) \<times> Ring" where
  "createWriter e flowDef options r =
     (let (st, h, config) = createFlowWriter e (rg_tick r) flowDef options; r = rtick r in
      ((st, h, config), if st = MXL_STATUS_OK then r\<lparr>rg_live := h # rg_live r\<rparr> else r))"

definition releaseWriter :: "handle \<Rightarrow> Ring \<Rightarrow> Ring" where
  "releaseWriter h r = r\<lparr>rg_live := remove1 h (rg_live r)\<rparr>"

definition commit :: "MxlEnv \<Rightarrow> handle \<Rightarrow> u64 \<Rightarrow> GrainInfo \<Rightarrow> u8 list \<Rightarrow> Ring \<Rightarrow> mxlStatus \<times> Ring" where
  "commit e h index info buf r =
     (let st = commitGrain e (rg_tick r) h in (st, (rtick r)\<lparr>rg_ops := rg_ops r @ [GrainWrite h index info buf st]\<rparr>))"

subsection \<open>Video\<close>

record VideoWriter =
  vw_writer :: handle
  vw_config :: mxlFlowConfigInfo
  vw_grainPayloadSize :: nat
  vw_flowId :: string

definition newVideoWriter :: "MxlEnv \<Rightarrow> VideoFlowParams \<Rightarrow> int \<Rightarrow> Ring \<Rightarrow> (WriterError + VideoWriter) \<times> Ring" where
  "newVideoWriter e params commitBatchHint r =
     (let flowId = toString (vp_id params);
          ((st, h, config), r) = createWriter e (buildVideoFlowDef params) (Some (buildWriterOptions commitBatchHint)) r in
      if st \<noteq> MXL_STATUS_OK then (Inl (CreateFailed flowId st), r)
      else let (pst, probe) = getGrainInfo e (rg_tick r) h 0;
               size = (if pst = MXL_STATUS_OK then gi_grainSize probe else 0)
           in (Inr \<lparr>vw_writer = h, vw_config = config, vw_grainPayloadSize = size, vw_flowId = flowId\<rparr>, rtick r))"

definition deleteVideoWriter :: "VideoWriter \<Rightarrow> Ring \<Rightarrow> Ring" where
  "deleteVideoWriter w r = releaseWriter (vw_writer w) r"

definition grainRate :: "VideoWriter \<Rightarrow> mxlRational" where
  "grainRate w = fc_grainRate (vw_config w)"

definition actualGrainCount :: "VideoWriter \<Rightarrow> u32" where
  "actualGrainCount w = fc_grainCount (vw_config w)"

definition writeFrame :: "MxlEnv \<Rightarrow> VideoWriter \<Rightarrow> u64 \<Rightarrow> u8 list \<Rightarrow> nat \<Rightarrow> Ring \<Rightarrow> (mxlStatus \<times> Ring) option" where
  "writeFrame e w grainIndex frameData frameBytes r =
     (let (st, info, grain) = openGrain e (rg_tick r) (vw_writer w) grainIndex; r = rtick r in
      if st \<noteq> MXL_STATUS_OK then Some (st, r)
      else let n = (if frameBytes < gi_grainSize info then frameBytes else gi_grainSize info) in
           case memcpy grain 0 frameData 0 n of
             None \<Rightarrow> None
           | Some grain' \<Rightarrow>
               Some (commit e (vw_writer w) grainIndex (info\<lparr>gi_flags := 0, gi_validSlices := gi_totalSlices info\<rparr>) grain' r))"

definition fieldRows :: "VideoWriter \<Rightarrow> GrainInfo \<Rightarrow> u32 \<Rightarrow> nat" where
  "fieldRows w info frameHeight =
     (let lineBytes = unat (fc_sliceSize0 (vw_config w)) in
      if 0 < lineBytes then min (unat (frameHeight div 2)) (gi_grainSize info div lineBytes) else 0)"

definition writeField :: "MxlEnv \<Rightarrow> VideoWriter \<Rightarrow> u64 \<Rightarrow> u8 list \<Rightarrow> nat \<Rightarrow> u32 \<Rightarrow> u32 \<Rightarrow> Ring \<Rightarrow> (mxlStatus \<times> Ring) option" where
  "writeField e w grainIndex frameData frameRowBytes frameHeight parity r =
     (let (st, info, grain) = openGrain e (rg_tick r) (vw_writer w) grainIndex; r = rtick r in
      if st \<noteq> MXL_STATUS_OK then Some (st, r)
      else case extractField frameData frameRowBytes (of_nat (fieldRows w info frameHeight * 2)) parity grain
                  (unat (fc_sliceSize0 (vw_config w))) of
             None \<Rightarrow> None
           | Some grain' \<Rightarrow>
               Some (commit e (vw_writer w) grainIndex (info\<lparr>gi_flags := 0, gi_validSlices := gi_totalSlices info\<rparr>) grain' r))"

definition writeFrameWithKey ::
    "MxlEnv \<Rightarrow> VideoWriter \<Rightarrow> u64 \<Rightarrow> u8 list \<Rightarrow> nat \<Rightarrow> u8 list \<Rightarrow> nat \<Rightarrow> Ring \<Rightarrow> (mxlStatus \<times> Ring) option" where
  "writeFrameWithKey e w grainIndex fill fillBytes key keyBytes r =
     (let (st, info, grain) = openGrain e (rg_tick r) (vw_writer w) grainIndex; r = rtick r in
      if st \<noteq> MXL_STATUS_OK then Some (st, r)
      else let total = fillBytes + keyBytes; cap = gi_grainSize info; fillCopy = (if fillBytes < cap then fillBytes else cap) in
           case memcpy grain 0 fill 0 fillCopy of
             None \<Rightarrow> None
           | Some grain1 \<Rightarrow>
               (case (if total \<le> cap then memcpy grain1 fillBytes key 0 keyBytes else Some grain1) of
                  None \<Rightarrow> None
                | Some grain' \<Rightarrow>
                    Some (commit e (vw_writer w) grainIndex (info\<lparr>gi_flags := 0, gi_validSlices := gi_totalSlices info\<rparr>) grain' r)))"

definition writePartial :: "MxlEnv \<Rightarrow> VideoWriter \<Rightarrow> u64 \<Rightarrow> u8 list \<Rightarrow> nat \<Rightarrow> u16 \<Rightarrow> Ring \<Rightarrow> (mxlStatus \<times> Ring) option" where
  "writePartial e w grainIndex frameData frameBytes validSlices r =
     (let (st, info, grain) = openGrain e (rg_tick r) (vw_writer w) grainIndex; r = rtick r in
      if st \<noteq> MXL_STATUS_OK then Some (st, r)
      else let n = (if frameBytes < gi_grainSize info then frameBytes else gi_grainSize info);
               valid = (if validSlices < gi_totalSlices info then validSlices else gi_totalSlices info) in
           case memcpy grain 0 frameData 0 n of
             None \<Rightarrow> None
           | Some grain' \<Rightarrow>
               Some (commit e (vw_writer w) grainIndex (info\<lparr>gi_flags := 0, gi_validSlices := valid\<rparr>) grain' r))"

definition writeInvalid :: "MxlEnv \<Rightarrow> VideoWriter \<Rightarrow> u64 \<Rightarrow> Ring \<Rightarrow> mxlStatus \<times> Ring" where
  "writeInvalid e w grainIndex r =
     (let (st, info, grain) = openGrain e (rg_tick r) (vw_writer w) grainIndex; r = rtick r in
      if st \<noteq> MXL_STATUS_OK then (st, r)
      else commit e (vw_writer w) grainIndex (info\<lparr>gi_flags := MXL_GRAIN_FLAG_INVALID\<rparr>) grain r)"

subsection \<open>Ancillary data\<close>

record AncWriter =
  nw_writer :: handle
  nw_flowId :: string

definition newAncWriter :: "MxlEnv \<Rightarrow> AncFlowParams \<Rightarrow> Ring \<Rightarrow> (WriterError + AncWriter) \<times> Ring" where
  "newAncWriter e params r =
     (let flowId = toString (np_id params); ((st, h, config), r) = createWriter e (buildAncFlowDef params) None r in
      if st \<noteq> MXL_STATUS_OK then (Inl (CreateFailed flowId st), r)
      else (Inr \<lparr>nw_writer = h, nw_flowId = flowId\<rparr>, r))"

definition deleteAncWriter :: "AncWriter \<Rightarrow> Ring \<Rightarrow> Ring" where
  "deleteAncWriter w r = releaseWriter (nw_writer w) r"

definition writePackets :: "MxlEnv \<Rightarrow> AncWriter \<Rightarrow> u64 \<Rightarrow> AncPacket list \<Rightarrow> u8 \<Rightarrow> Ring \<Rightarrow> (mxlStatus \<times> Ring) option" where
  "writePackets e w grainIndex packets fld r =
     (let (st, info, grain) = openGrain e (rg_tick r) (nw_writer w) grainIndex; r = rtick r in
      if st \<noteq> MXL_STATUS_OK then Some (st, r)
      else let encoded = payload (encodeRfc8331 packets (gi_grainSize info) fld) in
           case memcpy grain 0 encoded 0 (length encoded) of
             None \<Rightarrow> None
           | Some grain1 \<Rightarrow>
               (case (if length encoded < gi_grainSize info
                      then memset grain1 (length encoded) 0 (gi_grainSize info - length encoded) else Some grain1) of
                  None \<Rightarrow> None
                | Some grain' \<Rightarrow>
                    Some (commit e (nw_writer w) grainIndex (info\<lparr>gi_flags := 0, gi_validSlices := gi_totalSlices info\<rparr>) grain' r)))"

subsection \<open>Audio\<close>

record AudioWriter =
  aw_writer :: handle
  aw_maxWriteLength :: nat
  aw_flowId :: string

definition newAudioWriter :: "MxlEnv \<Rightarrow> AudioFlowParams \<Rightarrow> int \<Rightarrow> Ring \<Rightarrow> (WriterError + AudioWriter) \<times> Ring" where
  "newAudioWriter e params commitBatchHint r =
     (let flowId = toString (ap_id params);
          ((st, h, config), r) = createWriter e (buildAudioFlowDef params) (Some (buildWriterOptions commitBatchHint)) r in
      if st \<noteq> MXL_STATUS_OK then (Inl (CreateFailed flowId st), r)
      else let (mst, maxWrite) = getMaxWriteLength e (rg_tick r) h;
               len = (if mst = MXL_STATUS_OK \<and> 0 < maxWrite then maxWrite else unat (fc_bufferLength config) div 2)
           in (Inr \<lparr>aw_writer = h, aw_maxWriteLength = len, aw_flowId = flowId\<rparr>, rtick r))"

definition deleteAudioWriter :: "AudioWriter \<Rightarrow> Ring \<Rightarrow> Ring" where
  "deleteAudioWriter w r = releaseWriter (aw_writer w) r"

definition deinterleaveMapped :: "AudioSampleType \<Rightarrow> int list \<Rightarrow> nat \<Rightarrow> nat \<Rightarrow> int list \<Rightarrow> Slices \<Rightarrow> Slices option" where
  "deinterleaveMapped sampleType src count deckLinkChannels cmap slices =
     (if sampleType = Int32 then deinterleaveInt32ToFloatMapped src count deckLinkChannels cmap slices
      else deinterleaveInt16ToFloatMapped src count deckLinkChannels cmap slices)"

text \<open>
  The write loop.  \<open>cursor\<close> counts samples, not bytes.  The loop is a partial function: with a write length of
  zero it would not end, which the guard of \<open>writeSamples\<close> excludes.
\<close>

partial_function (option) writeLoop ::
    "MxlEnv \<Rightarrow> AudioWriter \<Rightarrow> u64 \<Rightarrow> int list \<Rightarrow> nat \<Rightarrow> nat \<Rightarrow> int list \<Rightarrow> AudioSampleType \<Rightarrow> nat \<Rightarrow> nat \<Rightarrow> Ring \<Rightarrow>
     (mxlStatus \<times> Ring) option" where
  "writeLoop e w start pcm sampleFrames deckLinkChannels cmap sampleType cursor remaining r =
     (if remaining = 0 then Some (MXL_STATUS_OK, r)
      else let count = (if remaining < aw_maxWriteLength w then remaining else aw_maxWriteLength w);
               head = start + of_nat (sampleFrames - remaining) + of_nat count;
               (st, slices) = openSamples e (rg_tick r) (aw_writer w) head count; r = rtick r in
           if st \<noteq> MXL_STATUS_OK then Some (st, r)
           else case deinterleaveMapped sampleType (drop cursor pcm) count deckLinkChannels cmap slices of
                  None \<Rightarrow> None
                | Some slices' \<Rightarrow>
                    let committed = commitSamples e (rg_tick r) (aw_writer w);
                        r = (rtick r)\<lparr>rg_ops := rg_ops r @ [SamplesWrite (aw_writer w) head count slices' committed]\<rparr> in
                    if committed \<noteq> MXL_STATUS_OK then Some (committed, r)
                    else writeLoop e w start pcm sampleFrames deckLinkChannels cmap sampleType
                           (cursor + count * deckLinkChannels) (remaining - count) r)"

definition writeSamples ::
    "MxlEnv \<Rightarrow> AudioWriter \<Rightarrow> u64 \<Rightarrow> int list \<Rightarrow> nat \<Rightarrow> nat \<Rightarrow> int list \<Rightarrow> AudioSampleType \<Rightarrow> Ring \<Rightarrow>
     (mxlStatus \<times> Ring) option" where
  "writeSamples e w endIndex pcm sampleFrames deckLinkChannels cmap sampleType r =
     (if aw_maxWriteLength w = 0 \<or> unat endIndex < sampleFrames then Some (MXL_ERR_INVALID_ARG, r)
      else writeLoop e w (endIndex - of_nat sampleFrames) pcm sampleFrames deckLinkChannels cmap sampleType
             0 sampleFrames r)"

end
