(* ===== verification/AudioProps.thy ===== *)
theory AudioProps
  imports AudioConv
begin

text \<open>
  The audio conversion keeps the programme: what a capture channel writes into the planes of a flow and a
  playback channel reads back is the card's PCM, within the rounding of float32.
\<close>

subsection \<open>Rounding\<close>

lemma sigExponent_le: "n < 2 ^ (24 + k) \<Longrightarrow> sigExponent n \<le> k"
proof (induction k arbitrary: n)
  case 0
  then show ?case by (simp add: sigExponent.simps)
next
  case (Suc k)
  have "n < 2 ^ (24 + k) * 2" using Suc.prems by (metis add_Suc_right power_Suc2)
  then have "n div 2 < 2 ^ (24 + k)" by (rule less_mult_imp_div_less)
  from Suc.IH[OF this] show ?case by (subst sigExponent.simps) simp
qed

lemma roundHalfEven_error:
  assumes "0 < d"
  shows "\<bar>2 * (int (roundHalfEven n d * d) - int n)\<bar> \<le> int d"
proof -
  let ?q = "n div d" and ?r = "n mod d"
  have n: "int n = int (?q * d) + int ?r" by (metis div_mult_mod_eq of_nat_add)
  have "roundHalfEven n d = ?q \<and> 2 * ?r \<le> d \<or> roundHalfEven n d = ?q + 1 \<and> d \<le> 2 * ?r"
    by (auto simp: roundHalfEven_def Let_def)
  then show ?thesis
  proof
    assume "roundHalfEven n d = ?q \<and> 2 * ?r \<le> d"
    with n show ?thesis by simp
  next
    assume up: "roundHalfEven n d = ?q + 1 \<and> d \<le> 2 * ?r"
    have "?r < d" using assms by simp
    with n up show ?thesis by (simp add: algebra_simps)
  qed
qed

lemma roundHalfEven_exact: "d dvd n \<Longrightarrow> 0 < d \<Longrightarrow> roundHalfEven n d * d = n"
  by (auto simp: roundHalfEven_def)

text \<open>The integer a conversion stores.\<close>

definition storedInt :: "int \<Rightarrow> int" where
  "storedInt x = (let n = nat \<bar>x\<bar>; u = 2 ^ sigExponent n in sgn x * int (roundHalfEven n u * u))"

lemma floatOfInt_stored: "floatOfInt x = of_int (storedInt x)"
  by (simp add: floatOfInt_def storedInt_def Let_def)

lemma storedInt_error:
  assumes "\<bar>x\<bar> < 2 ^ (24 + k)"
  shows "\<bar>2 * (storedInt x - x)\<bar> \<le> 2 ^ k"
proof -
  let ?n = "nat \<bar>x\<bar>"
  have "int ?n < int (2 ^ (24 + k))" using assms by simp
  then have "sigExponent ?n \<le> k" by (intro sigExponent_le) (simp only: of_nat_less_iff)
  then have k: "(2 :: int) ^ sigExponent ?n \<le> 2 ^ k" by (simp add: power_increasing)
  let ?u = "2 ^ sigExponent ?n :: nat"
  have e: "\<bar>2 * (int (roundHalfEven ?n ?u * ?u) - int ?n)\<bar> \<le> int ?u" by (rule roundHalfEven_error) simp
  have x: "x = sgn x * int ?n" by (simp add: sgn_if)
  define a where "a = int (roundHalfEven ?n ?u * ?u) - int ?n"
  have "storedInt x = sgn x * int (roundHalfEven ?n ?u * ?u)" by (simp only: storedInt_def Let_def)
  then have "storedInt x - x = sgn x * a" using x unfolding a_def by (metis right_diff_distrib)
  then have "\<bar>2 * (storedInt x - x)\<bar> \<le> \<bar>2 * a\<bar>" by (simp add: sgn_if)
  also have "\<dots> \<le> int ?u" unfolding a_def by (rule e)
  also have "\<dots> \<le> 2 ^ k" using k by simp
  finally show ?thesis .
qed

lemma storedInt_exact:
  assumes "\<bar>x\<bar> \<le> 2 ^ (23 + k)" and "2 ^ k dvd x"
  shows "storedInt x = x"
proof -
  let ?n = "nat \<bar>x\<bar>"
  have "int ?n < int (2 ^ (24 + k))" 
  proof -
    have "(2 :: int) ^ (23 + k) < 2 ^ (24 + k)" by (rule power_strict_increasing) simp_all
    with assms(1) have "\<bar>x\<bar> < 2 ^ (24 + k)" by linarith
    then show ?thesis by simp
  qed
  then have "sigExponent ?n \<le> k" by (intro sigExponent_le) (simp only: of_nat_less_iff)
  then have "(2 :: int) ^ sigExponent ?n dvd 2 ^ k" by (simp add: le_imp_power_dvd)
  then have "2 ^ sigExponent ?n dvd x" using assms(2) dvd_trans by blast
  then have "2 ^ sigExponent ?n dvd ?n" by (simp add: nat_abs_dvd_iff flip: of_nat_dvd_iff)
  then have "roundHalfEven ?n (2 ^ sigExponent ?n) * 2 ^ sigExponent ?n = ?n" by (rule roundHalfEven_exact) simp
  then have "storedInt x = sgn x * int ?n" by (simp only: storedInt_def Let_def)
  then show ?thesis by (simp add: sgn_if)
qed

lemma lrintf_of_int [simp]: "lrintf (of_int i) = i"
  by (simp add: lrintf_def Let_def)

text \<open>A 32-bit sample survives within 64, exactly when its low eight bits are clear (24-bit audio); a 16-bit
  sample survives exactly.\<close>

lemma requantise_int32:
  assumes "- 2147483648 \<le> x" and "x \<le> 2147483647"
  defines "y \<equiv> clampedFromFloat (- 2147483648) 2147483647 (floatOfInt x * kInt32Scale * 2147483648)"
  shows "\<bar>y - x\<bar> \<le> 64" and "256 dvd x \<Longrightarrow> y = x"
proof -
  have e: "sigExponent 2147483647 = 7" by (simp add: sigExponent.simps)
  have "storedInt 2147483647 = sgn 2147483647 * int (roundHalfEven 2147483647 (2 ^ 7) * 2 ^ 7)"
    by (simp only: storedInt_def Let_def) (simp add: e)
  then have "storedInt 2147483647 = 2147483648" by (simp add: roundHalfEven_def)
  moreover have "storedInt (- 2147483648) = - 2147483648" by (rule storedInt_exact[of _ 8]) simp_all
  ultimately have lim: "storedInt 2147483647 = 2147483648" "storedInt (- 2147483648) = - 2147483648" .
  have wide: "floatOfInt x * kInt32Scale * 2147483648 = of_int (storedInt x)"
    by (simp add: floatOfInt_stored kInt32Scale_def)
  have y: "y = (if 2147483648 \<le> storedInt x then 2147483647 else if storedInt x \<le> - 2147483648 then - 2147483648
                else storedInt x)"
  proof -
    have "floatOfInt 2147483647 \<le> of_int i \<longleftrightarrow> 2147483648 \<le> i" "of_int i \<le> floatOfInt (- 2147483648) \<longleftrightarrow> i \<le> - 2147483648"
      for i using lim of_int_le_iff[where 'a = rat] unfolding floatOfInt_stored by metis+
    then show ?thesis unfolding y_def wide clampedFromFloat_def by simp
  qed
  have err: "\<bar>2 * (storedInt x - x)\<bar> \<le> 128"
  proof (cases "x = - 2147483648")
    case True
    then show ?thesis using lim by simp
  next
    case False
    then show ?thesis using storedInt_error[of x 7] assms(1,2) by simp
  qed
  then show "\<bar>y - x\<bar> \<le> 64" using y assms(1,2) by auto
  show "y = x" if "256 dvd x"
  proof -
    have "storedInt x = x" using storedInt_exact[of x 8] that assms(1,2) by simp
    then show ?thesis using y assms(1,2) by auto
  qed
qed

lemma requantise_int16:
  assumes "- 32768 \<le> x" and "x \<le> 32767"
  shows "clampedFromFloat (- 32768) 32767 (floatOfInt x * kInt16Scale * 32768) = x"
proof -
  have same: "floatOfInt i = of_int i" if "\<bar>i\<bar> \<le> 32768" for i
    using storedInt_exact[of i 0] that by (simp add: floatOfInt_stored)
  have "floatOfInt x * kInt16Scale * 32768 = of_int x" using same[of x] assms by (simp add: kInt16Scale_def)
  moreover have "floatOfInt 32767 = of_int 32767" "floatOfInt (- 32768) = of_int (- 32768)"
    by (rule same, simp)+
  ultimately show ?thesis using assms unfolding clampedFromFloat_def by (auto simp del: of_int_numeral of_int_minus)
qed

subsection \<open>Planes\<close>

text \<open>The fragments of a plane are filled as one run of samples, keeping their sizes.\<close>

lemma fillFragment_run:
  assumes "\<And>f. f < n \<Longrightarrow> sample f = Some (v f)" and "frame + length xs \<le> n"
  shows "fillFragment sample n frame xs = Some (map v [frame..<frame + length xs], frame + length xs)"
  using assms(2)
proof (induction xs arbitrary: frame)
  case (Cons x xs)
  have "[frame..<frame + length (x # xs)] = frame # [frame + 1..<frame + 1 + length xs]"
    by (simp add: upt_rec)
  then show ?case using Cons assms(1)[of frame] by simp
qed simp

lemma fillPlane_run:
  assumes "\<And>f. f < n \<Longrightarrow> sample f = Some (v f)" and "frame + sum_list (map length plane) \<le> n"
  shows "\<exists>plane'. fillPlane sample n frame plane = Some plane' \<and>
           concat plane' = map v [frame..<frame + sum_list (map length plane)]"
  using assms(2)
proof (induction plane arbitrary: frame)
  case (Cons frag plane)
  have run: "fillFragment sample n frame frag = Some (map v [frame..<frame + length frag], frame + length frag)"
    by (rule fillFragment_run) (use assms(1) Cons.prems in simp_all)
  obtain p' where p': "fillPlane sample n (frame + length frag) plane = Some p'"
    "concat p' = map v [frame + length frag..<frame + length frag + sum_list (map length plane)]"
    using Cons.IH[of "frame + length frag"] Cons.prems by auto
  have cat: "map v [frame..<frame + length frag] @ concat p' = map v [frame..<frame + sum_list (map length (frag # plane))]"
    unfolding p'(2) map_append[symmetric] by (subst upt_add_eq_append[symmetric]) (simp_all add: add.assoc)
  show ?case
  proof (cases "frag = []")
    case True
    with p' cat show ?thesis by simp
  next
    case False
    with run p'(1) cat show ?thesis by simp
  qed
qed simp

text \<open>Position \<open>frame * width + channel\<close> of a packet names its sample frame and channel.\<close>

lemma packet_index_eq:
  assumes "a < (w :: nat)" and "b < w"
  shows "f * w + a = g * w + b \<longleftrightarrow> f = g \<and> a = b"
proof
  assume e: "f * w + a = g * w + b"
  have "(f * w + a) div w = f" "(g * w + b) div w = g" "(f * w + a) mod w = a" "(g * w + b) mod w = b"
    using assms by simp_all
  then show "f = g \<and> a = b" using e by metis
qed simp

lemma packet_index_less: "f < n \<Longrightarrow> c < w \<Longrightarrow> f * w + c < n * (w :: nat)"
  using mult_le_mono1[of "Suc f" n w] by simp

text \<open>\<open>stored\<close>: the packet with channel \<open>dl\<close> of the frames from \<open>frame\<close> on replaced.\<close>

definition stored :: "nat \<Rightarrow> nat \<Rightarrow> nat \<Rightarrow> int list \<Rightarrow> int list \<Rightarrow> int list \<Rightarrow> bool" where
  "stored w dl frame xs dst out \<longleftrightarrow> length out = length dst \<and>
     (\<forall>f c. f * w + c < length dst \<and> c < w \<longrightarrow>
        out ! (f * w + c) = (if c = dl \<and> frame \<le> f \<and> f < frame + length xs then xs ! (f - frame) else dst ! (f * w + c)))"

lemma stored_nil [simp]: "stored w dl frame [] dst dst"
  by (simp add: stored_def)

lemma stored_cons:
  assumes "frame * w + dl < length dst" and "dl < w" and "stored w dl (frame + 1) xs (dst[frame * w + dl := x]) out"
  shows "stored w dl frame (x # xs) dst out"
proof -
  have "out ! (f * w + c) = (if c = dl \<and> frame \<le> f \<and> f < frame + length (x # xs) then (x # xs) ! (f - frame) else dst ! (f * w + c))"
    if "f * w + c < length dst" "c < w" for f c
  proof -
    have i: "f * w + c = frame * w + dl \<longleftrightarrow> f = frame \<and> c = dl" using that(2) assms(2) by (rule packet_index_eq)
    have o: "out ! (f * w + c) = (if c = dl \<and> frame + 1 \<le> f \<and> f < frame + 1 + length xs then xs ! (f - (frame + 1))
        else (dst[frame * w + dl := x]) ! (f * w + c))"
      using assms(3) that by (simp add: stored_def)
    show ?thesis
    proof (cases "f = frame \<and> c = dl")
      case True
      then show ?thesis using o assms(1) by simp
    next
      case False
      then have "f * w + c \<noteq> frame * w + dl" using i by blast
      then have "(dst[frame * w + dl := x]) ! (f * w + c) = dst ! (f * w + c)" by (metis nth_list_update_neq)
      then show ?thesis using o False by (auto simp: nth_Cons')
    qed
  qed
  then show ?thesis using assms(3) by (simp add: stored_def)
qed

lemma stored_append:
  assumes "stored w dl frame xs dst mid" and "stored w dl (frame + length xs) ys mid out"
  shows "stored w dl frame (xs @ ys) dst out"
  using assms by (auto simp: stored_def nth_append)

lemma drainFragment_stored:
  assumes "frame + length xs \<le> n" and "dl < w" and "n * w \<le> length dst"
  shows "\<exists>out. drainFragment conv n w dl frame xs dst = Some (out, frame + length xs) \<and> stored w dl frame (map conv xs) dst out"
  using assms(1,3)
proof (induction xs arbitrary: frame dst)
  case (Cons x xs)
  have i: "frame * w + dl < length dst"
    using packet_index_less[of frame n dl w] Cons.prems assms(2) by simp
  obtain out where out: "drainFragment conv n w dl (frame + 1) xs (dst[frame * w + dl := conv x]) = Some (out, frame + 1 + length xs)"
    "stored w dl (frame + 1) (map conv xs) (dst[frame * w + dl := conv x]) out"
    using Cons.IH[of "frame + 1" "dst[frame * w + dl := conv x]"] Cons.prems by auto
  have "stored w dl frame (map conv (x # xs)) dst out"
    using stored_cons[OF i assms(2) out(2)] by simp
  then show ?case using out(1) i Cons.prems by (simp add: writeSample_def)
qed simp

lemma drainPlane_stored:
  assumes "frame + sum_list (map length plane) \<le> n" and "dl < w" and "n * w \<le> length dst"
  shows "\<exists>out. drainPlane conv n w dl frame plane dst = Some out \<and> stored w dl frame (map conv (concat plane)) dst out"
  using assms(1,3)
proof (induction plane arbitrary: frame dst)
  case (Cons frag plane)
  obtain mid where mid: "drainFragment conv n w dl frame frag dst = Some (mid, frame + length frag)"
    "stored w dl frame (map conv frag) dst mid"
    using drainFragment_stored[of frame frag n dl w dst conv] Cons.prems assms(2) by auto
  have "length mid = length dst" using mid(2) by (simp add: stored_def)
  then obtain out where out: "drainPlane conv n w dl (frame + length frag) plane mid = Some out"
    "stored w dl (frame + length frag) (map conv (concat plane)) mid out"
    using Cons.IH[of "frame + length frag" mid] Cons.prems by auto
  have "stored w dl frame (map conv (concat (frag # plane))) dst out"
    using stored_append[OF mid(2)] out(2) by simp
  then show ?case using mid(1) out(1) by (cases "frag = []") simp_all
qed simp

subsection \<open>Packets\<close>

text \<open>Into the planes of a flow with a given map, and out of them with the same map.\<close>

lemma there_and_back:
  assumes "length src = n * w" and "\<forall>c \<in> set cmap. 0 \<le> c \<and> nat c < w" and "length planes = length cmap"
    and "\<forall>p \<in> set planes. sum_list (map length p) = n" and "length dst = n * w"
  shows "\<exists>ps out. deinterleaveLoop src n w scale cmap planes = Some ps \<and>
     interleaveLoop conv n w cmap ps dst = Some out \<and> length out = length dst \<and>
     (\<forall>f < n. \<forall>c < w. out ! (f * w + c) =
        (if int c \<in> set cmap then conv (floatOfInt (src ! (f * w + c)) * scale) else dst ! (f * w + c)))"
  using assms(2-5)
proof (induction cmap arbitrary: planes dst)
  case (Cons dl cmap)
  obtain plane planes' where planes: "planes = plane # planes'" using Cons.prems(2) by (cases planes) auto
  have dl: "0 \<le> dl" "nat dl < w" using Cons.prems(1) by simp_all
  let ?v = "\<lambda>f. floatOfInt (src ! (f * w + nat dl)) * scale"
  have read: "map_option (\<lambda>x. floatOfInt x * scale) (readSample src (f * w + nat dl)) = Some (?v f)" if "f < n" for f
    using packet_index_less[OF that dl(2)] assms(1) by (simp add: readSample_def)
  have n: "sum_list (map length plane) = n" using Cons.prems(3) planes by simp
  then obtain plane' where plane': "fillPlane (\<lambda>f. map_option (\<lambda>x. floatOfInt x * scale) (readSample src (f * w + nat dl))) n 0 plane = Some plane'"
    "concat plane' = map ?v [0..<n]"
    using fillPlane_run[of n _ ?v 0 plane, OF read] by auto
  have "sum_list (map length plane') = n" using plane'(2) by (simp flip: length_concat)
  then obtain mid where mid: "drainPlane conv n w (nat dl) 0 plane' dst = Some mid"
    "stored w (nat dl) 0 (map conv (map ?v [0..<n])) dst mid"
    using drainPlane_stored[of 0 plane' n "nat dl" w dst conv] dl(2) Cons.prems(4) plane'(2) by auto
  have "length mid = length dst" using mid(2) by (simp add: stored_def)
  then obtain ps out where out: "deinterleaveLoop src n w scale cmap planes' = Some ps"
    "interleaveLoop conv n w cmap ps mid = Some out" "length out = length mid"
    "\<And>f c. f < n \<Longrightarrow> c < w \<Longrightarrow> out ! (f * w + c) =
        (if int c \<in> set cmap then conv (floatOfInt (src ! (f * w + c)) * scale) else mid ! (f * w + c))"
    using Cons.IH[of planes' mid] Cons.prems planes by auto
  have at: "mid ! (f * w + c) = (if c = nat dl then conv (?v f) else dst ! (f * w + c))" if "f < n" "c < w" for f c
    using mid(2) that packet_index_less[OF that] Cons.prems(4) by (simp add: stored_def)
  have "out ! (f * w + c) = (if int c \<in> set (dl # cmap) then conv (floatOfInt (src ! (f * w + c)) * scale) else dst ! (f * w + c))"
    if "f < n" "c < w" for f c
  proof -
    have "int c = dl \<longleftrightarrow> c = nat dl" using dl(1) by auto
    then show ?thesis using out(4)[OF that] at[OF that] by auto
  qed
  moreover have "deinterleaveLoop src n w scale (dl # cmap) planes = Some (plane' # ps)"
    using plane'(1) out(1) dl planes by simp
  moreover have "interleaveLoop conv n w (dl # cmap) (plane' # ps) dst = Some out"
    using mid(1) out(2) dl by simp
  ultimately show ?case using out(3) \<open>length mid = length dst\<close> by metis
qed simp

text \<open>C30. Audio through an MXL flow is transparent: a packet of 32-bit PCM that is deinterleaved into the planes of
  a slice (in one or two fragments, in total as long as the packet) and interleaved again with the same channel
  map stays inside all buffers, differs from the card's samples by at most 64, not at all for 24-bit samples, and
  leaves the channels outside the map as they were in the playback packet.\<close>

theorem audio_transparent:
  assumes "length pcm = n * deckLinkChannels" and "\<forall>x \<in> set pcm. - 2147483648 \<le> x \<and> x \<le> 2147483647"
    and "\<forall>c \<in> set cmap. 0 \<le> c \<and> nat c < deckLinkChannels" and "length (sl_planes slices) = length cmap"
    and "\<forall>p \<in> set (sl_planes slices). sum_list (map length p) = n" and "length dst = n * deckLinkChannels"
  shows "\<exists>flow out. deinterleaveInt32ToFloatMapped pcm n deckLinkChannels cmap slices = Some flow \<and>
     interleaveFloatToInt32Mapped flow n cmap deckLinkChannels dst = Some out \<and>
     (\<forall>f < n. \<forall>c < deckLinkChannels. let i = f * deckLinkChannels + c in
        if int c \<in> set cmap then \<bar>out ! i - pcm ! i\<bar> \<le> 64 \<and> (out ! i = pcm ! i \<or> \<not> 256 dvd pcm ! i) else out ! i = dst ! i)"
proof -
  let ?conv = "\<lambda>x. clampedFromFloat (- 2147483648) 2147483647 (x * 2147483648)"
  obtain ps out where out: "deinterleaveLoop pcm n deckLinkChannels kInt32Scale cmap (sl_planes slices) = Some ps"
    "interleaveLoop ?conv n deckLinkChannels cmap ps dst = Some out"
    "\<And>f c. f < n \<Longrightarrow> c < deckLinkChannels \<Longrightarrow> out ! (f * deckLinkChannels + c) =
       (if int c \<in> set cmap then ?conv (floatOfInt (pcm ! (f * deckLinkChannels + c)) * kInt32Scale)
        else dst ! (f * deckLinkChannels + c))"
    using there_and_back[OF assms(1,3-6), of kInt32Scale ?conv] by auto
  have "let i = f * deckLinkChannels + c in
        if int c \<in> set cmap then \<bar>out ! i - pcm ! i\<bar> \<le> 64 \<and> (out ! i = pcm ! i \<or> \<not> 256 dvd pcm ! i) else out ! i = dst ! i"
    if "f < n" "c < deckLinkChannels" for f c
  proof -
    have "pcm ! (f * deckLinkChannels + c) \<in> set pcm"
      using packet_index_less[OF that] assms(1) by simp
    then show ?thesis using assms(2) out(3)[OF that] requantise_int32[of "pcm ! (f * deckLinkChannels + c)"]
      by (auto simp: Let_def)
  qed
  moreover have "deinterleaveInt32ToFloatMapped pcm n deckLinkChannels cmap slices = Some (slices\<lparr>sl_planes := ps\<rparr>)"
    using out(1) by (simp add: deinterleaveInt32ToFloatMapped_def deinterleaveToFloatMapped_def)
  moreover have "interleaveFloatToInt32Mapped (slices\<lparr>sl_planes := ps\<rparr>) n cmap deckLinkChannels dst = Some out"
    using out(2) by (simp add: interleaveFloatToInt32Mapped_def)
  ultimately show ?thesis by blast
qed

text \<open>Two frames of four channels, the map swaps channels 3 and 1, the ring wraps after one sample.\<close>

theorem audio_transparent_witness:
  "\<exists>flow out. deinterleaveInt32ToFloatMapped [1, 256, 3, - 512, 5, 768, 7, 1024] 2 4 [3, 1]
       \<lparr>sl_planes = [[[0], [0]], [[0], [0]]]\<rparr> = Some flow \<and>
     interleaveFloatToInt32Mapped flow 2 [3, 1] 4 (replicate 8 9) = Some out \<and>
     out ! 1 = 256 \<and> out ! 3 = - 512 \<and> out ! 2 = 9 \<and> out ! 5 = 768 \<and> out ! 7 = 1024"
proof -
  let ?pcm = "[1, 256, 3, - 512, 5, 768, 7, 1024] :: int list"
  let ?s = "\<lparr>sl_planes = [[[0], [0]], [[0], [0]]]\<rparr>"
  have "\<exists>flow out. deinterleaveInt32ToFloatMapped ?pcm 2 4 [3, 1] ?s = Some flow \<and>
     interleaveFloatToInt32Mapped flow 2 [3, 1] 4 (replicate 8 9) = Some out \<and>
     (\<forall>f < 2. \<forall>c < 4. let i = f * 4 + c in
        if int c \<in> set [3, 1] then \<bar>out ! i - ?pcm ! i\<bar> \<le> 64 \<and> (out ! i = ?pcm ! i \<or> \<not> 256 dvd ?pcm ! i)
        else out ! i = replicate 8 9 ! i)"
    by (rule audio_transparent) simp_all
  then obtain flow out where o: "deinterleaveInt32ToFloatMapped ?pcm 2 4 [3, 1] ?s = Some flow"
    "interleaveFloatToInt32Mapped flow 2 [3, 1] 4 (replicate 8 9) = Some out"
    and at: "\<And>f c. f < 2 \<Longrightarrow> c < 4 \<Longrightarrow> let i = f * 4 + c in
        if int c \<in> set [3, 1] then \<bar>out ! i - ?pcm ! i\<bar> \<le> 64 \<and> (out ! i = ?pcm ! i \<or> \<not> 256 dvd ?pcm ! i)
        else out ! i = replicate 8 9 ! i"
    by blast
  have "out ! 1 = 256" using at[of 0 1] by simp
  moreover have "out ! 3 = - 512" using at[of 0 3] by simp
  moreover have "out ! 2 = 9" using at[of 0 2] by (simp add: numeral_2_eq_2)
  moreover have "out ! 5 = 768" using at[of 1 1] by simp
  moreover have "out ! 7 = 1024" using at[of 1 3] by simp
  ultimately show ?thesis using o by blast
qed

end
