(* ===== verification/WriterProps.thy ===== *)
theory WriterProps
  imports Writers AudioProps
begin

text \<open>
  Properties of the flow writers: every write stays inside the ring's and the card's buffers, the audio loop ends
  and covers its packet without gap or overlap, and what a video grain holds after the write.

  What MXL documents of an open grain and an open slice are the hypotheses \<open>grain_law\<close> and
  \<open>sample_law\<close>: the payload has \<open>grainSize\<close> bytes, and the fragments of a plane hold the samples asked for.
\<close>

definition grain_law :: "MxlEnv \<Rightarrow> bool" where
  "grain_law e \<longleftrightarrow> (\<forall>t h i info g. openGrain e t h i = (MXL_STATUS_OK, info, g) \<longrightarrow> length g = gi_grainSize info)"

definition sample_law :: "MxlEnv \<Rightarrow> bool" where
  "sample_law e \<longleftrightarrow> (\<forall>t h i n sl. openSamples e t h i n = (MXL_STATUS_OK, sl) \<longrightarrow>
     (\<forall>p \<in> set (sl_planes sl). sum_list (map length p) = n))"

lemma grain_lawD: "grain_law e \<Longrightarrow> openGrain e t h i = (MXL_STATUS_OK, info, g) \<Longrightarrow> length g = gi_grainSize info"
  unfolding grain_law_def by blast

lemma sample_lawD:
  "sample_law e \<Longrightarrow> openSamples e t h i n = (MXL_STATUS_OK, sl) \<Longrightarrow> p \<in> set (sl_planes sl) \<Longrightarrow>
     sum_list (map length p) = n"
  unfolding sample_law_def by blast

subsection \<open>Grains\<close>

lemma extractField_inside:
  assumes "2 * unat (h div 2) * fr \<le> length frame" and "unat (h div 2) * fb \<le> length field" and "unat p \<le> 1"
  shows "\<exists>field'. extractField frame fr h p field fb = Some field' \<and> length field' = length field"
proof -
  let ?rows = "unat (h div 2)" and ?n = "min fr fb"
  have "(2 * q + unat p) * fr + ?n \<le> length frame \<and> q * fb + ?n \<le> length field" if "q \<in> set [0..<?rows]" for q
  proof -
    have q: "q < ?rows" using that by simp
    have "(2 * q + unat p + 1) * fr \<le> 2 * ?rows * fr" using q assms(3) by (intro mult_le_mono1) simp
    moreover have "(q + 1) * fb \<le> ?rows * fb" using q by (intro mult_le_mono1) simp
    ultimately show ?thesis using assms(1,2) by (simp add: min_def)
  qed
  then obtain f' where f': "copyBlocks frame (\<lambda>q. (2 * q + unat p) * fr) field (\<lambda>q. q * fb) ?n [0..<?rows] = Some f'"
    using copyBlocks_Some[of "[0..<?rows]" "\<lambda>q. q * fb" ?n field "\<lambda>q. (2 * q + unat p) * fr" frame] by auto
  then show ?thesis using copyBlocks_length[OF f'] by (auto simp: extractField_def extractRows_blocks)
qed

lemma writeFrame_Some:
  assumes "grain_law e" and "frameBytes \<le> length frameData"
  shows "\<exists>st r'. writeFrame e w i frameData frameBytes r = Some (st, r')"
proof -
  obtain st info g where o: "openGrain e (rg_tick r) (vw_writer w) i = (st, info, g)" using prod_cases3 by blast
  show ?thesis
  proof (cases "st = MXL_STATUS_OK")
    case True
    then have "length g = gi_grainSize info" using grain_lawD[OF assms(1)] o by simp
    then show ?thesis using o True assms(2)
      by (simp add: writeFrame_def memcpy_Some surj_pair)
  qed (simp add: writeFrame_def o)
qed

lemma fieldRows_le: "fieldRows w info h \<le> unat (h div 2)"
  by (simp add: fieldRows_def Let_def)

lemma fieldRows_word: "unat ((of_nat (fieldRows w info h * 2) :: u32) div 2) = fieldRows w info h"
proof -
  have "fieldRows w info h * 2 \<le> unat h" using fieldRows_le[of w info h] by (simp add: unat_div)
  then have "fieldRows w info h * 2 < 2 ^ 32" using unsigned_less[where 'a = nat and w = h] by simp
  moreover have "unat (of_nat k :: u32) = k" if "k < 2 ^ 32" for k
    using that by (simp add: unat_of_nat take_bit_nat_eq_self)
  ultimately have "unat (of_nat (fieldRows w info h * 2) :: u32) = fieldRows w info h * 2" by blast
  then show ?thesis by (simp only: unat_div) simp
qed

lemma fieldRows_grain: "fieldRows w info h * unat (fc_sliceSize0 (vw_config w)) \<le> gi_grainSize info"
proof -
  have "fieldRows w info h * unat (fc_sliceSize0 (vw_config w)) \<le>
      gi_grainSize info div unat (fc_sliceSize0 (vw_config w)) * unat (fc_sliceSize0 (vw_config w))"
    by (intro mult_le_mono1) (simp add: fieldRows_def Let_def)
  then show ?thesis using div_times_less_eq_dividend le_trans by blast
qed

lemma writeField_Some:
  assumes "grain_law e" and "unat h * fr \<le> length frameData" and "unat p \<le> 1"
  shows "\<exists>st r'. writeField e w i frameData fr h p r = Some (st, r')"
proof -
  obtain st info g where o: "openGrain e (rg_tick r) (vw_writer w) i = (st, info, g)" using prod_cases3 by blast
  show ?thesis
  proof (cases "st = MXL_STATUS_OK")
    case True
    then have g: "length g = gi_grainSize info" using grain_lawD[OF assms(1)] o by simp
    have "2 * fieldRows w info h \<le> unat h" using fieldRows_le[of w info h] by (simp add: unat_div)
    then have "2 * fieldRows w info h * fr \<le> length frameData" using assms(2) mult_le_mono1 le_trans by blast
    then obtain g' where "extractField frameData fr (of_nat (fieldRows w info h * 2)) p g (unat (fc_sliceSize0 (vw_config w))) = Some g'"
      using extractField_inside[of "of_nat (fieldRows w info h * 2)" fr frameData "unat (fc_sliceSize0 (vw_config w))" g p]
        fieldRows_word[of w info h] fieldRows_grain[of w info h] g assms(3) by auto
    then show ?thesis using o True by (simp add: writeField_def surj_pair)
  qed (simp add: writeField_def o)
qed

lemma writePackets_Some:
  assumes "grain_law e"
  shows "\<exists>st r'. writePackets e w i ps f r = Some (st, r')"
proof -
  obtain st info g where o: "openGrain e (rg_tick r) (nw_writer w) i = (st, info, g)" using prod_cases3 by blast
  show ?thesis
  proof (cases "st = MXL_STATUS_OK")
    case True
    let ?enc = "payload (encodeRfc8331 ps (gi_grainSize info) f)"
    have g: "length g = gi_grainSize info" using grain_lawD[OF assms] o True by simp
    have "length ?enc \<le> length g" using encode_fits g by simp
    then obtain g1 where g1: "memcpy g 0 ?enc 0 (length ?enc) = Some g1" "length g1 = length g"
      using memcpy_length by (fastforce simp: memcpy_Some)
    have "\<exists>g2. memset g1 (length ?enc) 0 (gi_grainSize info - length ?enc) = Some g2"
      using g g1(2) encode_fits[of ps "gi_grainSize info" f] by (simp add: memset_def)
    then show ?thesis using o True g1(1) by (auto simp: writePackets_def Let_def surj_pair)
  qed (simp add: writePackets_def o)
qed

subsection \<open>Audio\<close>

lemma deinterleaveLoop_Some:
  assumes "n * w \<le> length src" and "\<forall>p \<in> set planes. sum_list (map length p) = n"
  shows "\<exists>ps. deinterleaveLoop src n w scale cmap planes = Some ps"
  using assms(2)
proof (induction cmap arbitrary: planes)
  case (Cons dl cmap)
  show ?case
  proof (cases planes)
    case (Cons plane planes')
    obtain ps where ps: "deinterleaveLoop src n w scale cmap planes' = Some ps"
      using Cons.IH[of planes'] Cons.prems Cons by auto
    show ?thesis
    proof (cases "dl < 0 \<or> w \<le> nat dl")
      case False
      then have dl: "nat dl < w" by simp
      let ?s = "\<lambda>f. map_option (\<lambda>x. floatOfInt x * scale) (readSample src (f * w + nat dl))"
      have "?s f = Some (floatOfInt (src ! (f * w + nat dl)) * scale)" if "f < n" for f
        using packet_index_less[OF that dl] assms(1) by (simp add: readSample_def)
      then obtain plane' where "fillPlane ?s n 0 plane = Some plane'"
        using fillPlane_run[of n ?s "\<lambda>f. floatOfInt (src ! (f * w + nat dl)) * scale" 0 plane] Cons.prems Cons by auto
      then show ?thesis using False ps Cons by simp
    qed (simp add: Cons ps)
  qed simp
qed simp

lemma deinterleaveMapped_Some:
  assumes "n * w \<le> length src" and "\<forall>p \<in> set (sl_planes sl). sum_list (map length p) = n"
  shows "\<exists>sl'. deinterleaveMapped ty src n w cmap sl = Some sl'"
  using deinterleaveLoop_Some[OF assms]
  by (simp add: deinterleaveMapped_def deinterleaveInt32ToFloatMapped_def deinterleaveInt16ToFloatMapped_def
      deinterleaveToFloatMapped_def)

text \<open>\<open>tiles h m s ops\<close>: sample writes of handle \<open>h\<close>, each of one to \<open>m\<close> samples, the first one
  starting at \<open>s\<close> and each where the one before ends.\<close>

fun tiles :: "handle \<Rightarrow> nat \<Rightarrow> u64 \<Rightarrow> WriteOp list \<Rightarrow> bool" where
  "tiles h m s [] = True"
| "tiles h m s (SamplesWrite h' i n sl st # ops) = (h' = h \<and> 0 < n \<and> n \<le> m \<and> i = s + of_nat n \<and> tiles h m i ops)"
| "tiles h m s (GrainWrite h' i info g st # ops) = False"

fun samplesIn :: "WriteOp list \<Rightarrow> nat" where
  "samplesIn [] = 0"
| "samplesIn (SamplesWrite h i n sl st # ops) = n + samplesIn ops"
| "samplesIn (GrainWrite h i info g st # ops) = samplesIn ops"

lemma writeLoop_tiles:
  assumes "sample_law e" and "0 < aw_maxWriteLength w" and "n * dl \<le> length pcm"
  shows "remaining \<le> n \<Longrightarrow>
     \<exists>st r' ops. writeLoop e w start pcm n dl cmap ty ((n - remaining) * dl) remaining r = Some (st, r') \<and>
       rg_ops r' = rg_ops r @ ops \<and> rg_live r' = rg_live r \<and>
       tiles (aw_writer w) (aw_maxWriteLength w) (start + of_nat (n - remaining)) ops \<and>
       samplesIn ops \<le> remaining \<and> (st = MXL_STATUS_OK \<longrightarrow> samplesIn ops = remaining)"
proof (induction remaining arbitrary: r rule: less_induct)
  case (less remaining)
  show ?case
  proof (cases "remaining = 0")
    case True
    then show ?thesis by (subst writeLoop.simps) simp
  next
    case False
    define c where "c = (if remaining < aw_maxWriteLength w then remaining else aw_maxWriteLength w)"
    have c: "0 < c" "c \<le> remaining" "c \<le> aw_maxWriteLength w" using False assms(2) by (simp_all add: c_def)
    define head where "head = start + of_nat (n - remaining) + of_nat c"
    obtain st sl where op: "openSamples e (rg_tick r) (aw_writer w) head c = (st, sl)" by fastforce
    have loop: "writeLoop e w start pcm n dl cmap ty ((n - remaining) * dl) remaining r =
        (if st \<noteq> MXL_STATUS_OK then Some (st, rtick r)
         else case deinterleaveMapped ty (drop ((n - remaining) * dl) pcm) c dl cmap sl of
                None \<Rightarrow> None
              | Some sl' \<Rightarrow>
                  let cm = commitSamples e (rg_tick (rtick r)) (aw_writer w);
                      r = (rtick (rtick r))\<lparr>rg_ops := rg_ops (rtick r) @ [SamplesWrite (aw_writer w) head c sl' cm]\<rparr> in
                  if cm \<noteq> MXL_STATUS_OK then Some (cm, r)
                  else writeLoop e w start pcm n dl cmap ty ((n - remaining) * dl + c * dl) (remaining - c) r)"
      using False op unfolding head_def
      by (subst writeLoop.simps) (simp add: c_def[symmetric] Let_def cong: option.case_cong if_cong)
    show ?thesis
    proof (cases "st = MXL_STATUS_OK")
      case False
      with loop have "writeLoop e w start pcm n dl cmap ty ((n - remaining) * dl) remaining r = Some (st, rtick r)" by simp
      moreover have "rg_ops (rtick r) = rg_ops r @ []" "rg_live (rtick r) = rg_live r" by (simp_all add: rtick_def)
      ultimately show ?thesis using False by fastforce
    next
      case True
      have "c * dl \<le> length (drop ((n - remaining) * dl) pcm)"
      proof -
        have "(c + (n - remaining)) * dl \<le> n * dl"
          using c(2) less.prems by (intro mult_le_mono1) simp
        then have "c * dl + (n - remaining) * dl \<le> n * dl" by (simp only: distrib_right)
        then show ?thesis using assms(3) by simp
      qed
      then obtain sl' where sl': "deinterleaveMapped ty (drop ((n - remaining) * dl) pcm) c dl cmap sl = Some sl'"
        using deinterleaveMapped_Some sample_lawD[OF assms(1) op[unfolded True]] by blast
      define cm where "cm = commitSamples e (rg_tick (rtick r)) (aw_writer w)"
      define r2 where "r2 = (rtick (rtick r))\<lparr>rg_ops := rg_ops (rtick r) @ [SamplesWrite (aw_writer w) head c sl' cm]\<rparr>"
      have r2: "rg_ops r2 = rg_ops r @ [SamplesWrite (aw_writer w) head c sl' cm]" "rg_live r2 = rg_live r"
        by (simp_all add: r2_def rtick_def)
      have step: "writeLoop e w start pcm n dl cmap ty ((n - remaining) * dl) remaining r =
          (if cm \<noteq> MXL_STATUS_OK then Some (cm, r2)
           else writeLoop e w start pcm n dl cmap ty ((n - (remaining - c)) * dl) (remaining - c) r2)"
      proof -
        have "(n - remaining) * dl + c * dl = (n - (remaining - c)) * dl"
          using c(2) less.prems by (simp flip: distrib_right)
        then show ?thesis using loop True sl' by (simp add: Let_def cm_def r2_def)
      qed
      show ?thesis
      proof (cases "cm = MXL_STATUS_OK")
        case False
        with step have "writeLoop e w start pcm n dl cmap ty ((n - remaining) * dl) remaining r = Some (cm, r2)" by simp
        moreover have "tiles (aw_writer w) (aw_maxWriteLength w) (start + of_nat (n - remaining)) [SamplesWrite (aw_writer w) head c sl' cm]"
          using c by (simp add: head_def)
        ultimately show ?thesis using False r2 c(2) by fastforce
      next
        case True
        obtain st' r' ops where ih: "writeLoop e w start pcm n dl cmap ty ((n - (remaining - c)) * dl) (remaining - c) r2 = Some (st', r')"
          "rg_ops r' = rg_ops r2 @ ops" "rg_live r' = rg_live r2"
          "tiles (aw_writer w) (aw_maxWriteLength w) (start + of_nat (n - (remaining - c))) ops"
          "samplesIn ops \<le> remaining - c" "st' = MXL_STATUS_OK \<longrightarrow> samplesIn ops = remaining - c"
        proof -
          have lt: "remaining - c < remaining" and le: "remaining - c \<le> n" using c less.prems by simp_all
          show ?thesis using less.IH[OF lt le, of r2] by (elim exE conjE) (rule that; assumption)
        qed
        have "n - (remaining - c) = n - remaining + c" using c(2) less.prems by simp
        then have "start + of_nat (n - (remaining - c)) = head" by (simp add: head_def add.assoc)
        then have "tiles (aw_writer w) (aw_maxWriteLength w) (start + of_nat (n - remaining))
            (SamplesWrite (aw_writer w) head c sl' cm # ops)"
          using ih(4) c by simp (simp add: head_def)
        moreover have "rg_ops r' = rg_ops r @ (SamplesWrite (aw_writer w) head c sl' cm # ops)" "rg_live r' = rg_live r"
          using ih(2,3) r2 by simp_all
        moreover have "samplesIn (SamplesWrite (aw_writer w) head c sl' cm # ops) \<le> remaining"
          "st' = MXL_STATUS_OK \<longrightarrow> samplesIn (SamplesWrite (aw_writer w) head c sl' cm # ops) = remaining"
          using ih(5,6) c(2) by simp_all
        ultimately show ?thesis using step ih(1) True by metis
      qed
    qed
  qed
qed

lemma writeSamples_returns:
  assumes "sample_law e" and "n * dl \<le> length pcm"
  shows "\<exists>st r' ops. writeSamples e w endIndex pcm n dl cmap ty r = Some (st, r') \<and>
     rg_ops r' = rg_ops r @ ops \<and> rg_live r' = rg_live r \<and>
     tiles (aw_writer w) (aw_maxWriteLength w) (endIndex - of_nat n) ops \<and> samplesIn ops \<le> n \<and>
     (st = MXL_STATUS_OK \<longrightarrow> samplesIn ops = n)"
proof (cases "aw_maxWriteLength w = 0 \<or> unat endIndex < n")
  case True
  then have "writeSamples e w endIndex pcm n dl cmap ty r = Some (MXL_ERR_INVALID_ARG, r)"
    by (auto simp: writeSamples_def)
  then show ?thesis by fastforce
next
  case False
  then show ?thesis
    using writeLoop_tiles[OF assms(1) _ assms(2), of w n "endIndex - of_nat n" cmap ty r] by (simp add: writeSamples_def)
qed

text \<open>C20. Writing an audio packet always ends, whatever write length MXL allows: the packet is written as a sequence of
  pieces of at most that length, each one starting at the index where the one before ends, the first one at
  \<open>endIndex - sampleFrames\<close>, and no access leaves the packet or the ring.  The call returns OK only when the
  pieces cover the whole packet.\<close>

theorem writeSamples_terminates:
  assumes "sample_law e" and "length pcm = sampleFrames * deckLinkChannels"
  shows "\<exists>st r' ops. writeSamples e w endIndex pcm sampleFrames deckLinkChannels cmap ty r = Some (st, r') \<and>
     rg_ops r' = rg_ops r @ ops \<and>
     tiles (aw_writer w) (aw_maxWriteLength w) (endIndex - of_nat sampleFrames) ops \<and> samplesIn ops \<le> sampleFrames \<and>
     (st = MXL_STATUS_OK \<longrightarrow> samplesIn ops = sampleFrames)"
  using writeSamples_returns[OF assms(1), of sampleFrames deckLinkChannels pcm w endIndex cmap ty r] assms(2) by fastforce

text \<open>Five sample frames of two channels, at most two per write, into a ring that grants every request.\<close>

definition grantingEnv :: MxlEnv where
  "grantingEnv =
     \<lparr>createFlowWriter = (\<lambda>t d opt. (MXL_STATUS_OK, 7 + t, zeroConfig)),
      getGrainInfo = (\<lambda>t h i. (MXL_STATUS_OK, \<lparr>gi_grainSize = 8, gi_flags = 0, gi_totalSlices = 1, gi_validSlices = 0\<rparr>)),
      getMaxWriteLength = (\<lambda>t h. (MXL_STATUS_OK, 2)),
      openGrain = (\<lambda>t h i. (MXL_STATUS_OK, \<lparr>gi_grainSize = 8, gi_flags = 0, gi_totalSlices = 1, gi_validSlices = 0\<rparr>, replicate 8 0)),
      commitGrain = (\<lambda>t h. MXL_STATUS_OK),
      openSamples = (\<lambda>t h i n. (MXL_STATUS_OK, \<lparr>sl_planes = [[replicate n 0, []], [replicate n 0, []]]\<rparr>)),
      commitSamples = (\<lambda>t h. MXL_STATUS_OK)\<rparr>"

lemma grantingEnv_laws: "grain_law grantingEnv" "sample_law grantingEnv"
  by (simp_all add: grain_law_def sample_law_def grantingEnv_def)

definition emptyRing :: Ring where "emptyRing = \<lparr>rg_tick = 0, rg_ops = [], rg_live = []\<rparr>"

theorem writeSamples_terminates_witness:
  "\<exists>st r' ops. writeSamples grantingEnv \<lparr>aw_writer = 7, aw_maxWriteLength = 2, aw_flowId = ''f''\<rparr> 100
       (replicate 10 3) 5 2 [0, 1] Int32 emptyRing = Some (st, r') \<and> rg_ops r' = ops \<and> tiles 7 2 95 ops"
  using writeSamples_terminates[OF grantingEnv_laws(2), of "replicate 10 3" 5 2
      "\<lparr>aw_writer = 7, aw_maxWriteLength = 2, aw_flowId = ''f''\<rparr>" 100 "[0, 1]" Int32 emptyRing]
  by (auto simp: emptyRing_def)

end
