(* ===== verification/Readers.thy ===== *)
theory Readers
  imports Writers Json "HOL-Library.Signed_Division"
begin

text \<open>
  \<open>src/mxlbridge/videoreader.cpp\<close>, \<open>audioreader.cpp\<close> and \<open>flowsync.cpp\<close>: the readers of MXL flows and the group
  that waits for them.  The answers of MXL, the steady clock and \<open>picojson::parse\<close> come from \<open>ReadEnv\<close> at the
  current tick; \<open>Reads\<close> holds the tick and the reader handles that are not released.  The output channel sees
  these operations through its own environment parameter.
\<close>

subsection \<open>MXL\<close>

record ReadEnv =
  re_createFlowReader :: "nat \<Rightarrow> string \<Rightarrow> mxlStatus \<times> handle"
  re_getConfigInfo :: "nat \<Rightarrow> handle \<Rightarrow> mxlStatus \<times> mxlFlowConfigInfo"
  re_getFlowDef :: "nat \<Rightarrow> string \<Rightarrow> nat \<Rightarrow> mxlStatus \<times> nat \<times> string"
  re_parseJson :: "string \<Rightarrow> json option"
  re_truncated :: "nat \<Rightarrow> u32"
  re_getGrain :: "nat \<Rightarrow> handle \<Rightarrow> u64 \<Rightarrow> u64 \<Rightarrow> mxlStatus \<times> GrainInfo \<times> u8 list option"
  re_getGrainNonBlocking :: "nat \<Rightarrow> handle \<Rightarrow> u64 \<Rightarrow> mxlStatus"
  re_getRuntimeInfo :: "nat \<Rightarrow> handle \<Rightarrow> mxlStatus \<times> u64"
  re_getMaxReadLength :: "nat \<Rightarrow> handle \<Rightarrow> mxlStatus \<times> nat"
  re_getSamples :: "nat \<Rightarrow> handle \<Rightarrow> u64 \<Rightarrow> nat \<Rightarrow> u64 \<Rightarrow> mxlStatus \<times> Slices"
  re_getSamplesNonBlocking :: "nat \<Rightarrow> handle \<Rightarrow> u64 \<Rightarrow> nat \<Rightarrow> mxlStatus"
  re_steadyNs :: "nat \<Rightarrow> u64"
  re_indexToTimestamp :: "mxlRational \<Rightarrow> u64 \<Rightarrow> u64"

record Reads =
  rd_tick :: nat
  rd_live :: "handle list"

definition dtick :: "Reads \<Rightarrow> Reads" where
  "dtick d = d\<lparr>rd_tick := rd_tick d + 1\<rparr>"

datatype ReaderError = ReaderCreateFailed string mxlStatus | ReaderConfigFailed string

text \<open>Both constructors begin with the reader and its configuration; a reader without one is released.\<close>

definition openReader :: "ReadEnv \<Rightarrow> string \<Rightarrow> Reads \<Rightarrow> (ReaderError + handle \<times> mxlFlowConfigInfo) \<times> Reads" where
  "openReader e flowId d =
     (let (st, h) = re_createFlowReader e (rd_tick d) flowId; d = dtick d in
      if st \<noteq> MXL_STATUS_OK then (Inl (ReaderCreateFailed flowId st), d)
      else let (cst, config) = re_getConfigInfo e (rd_tick d) h; d = dtick d in
           if cst \<noteq> MXL_STATUS_OK then (Inl (ReaderConfigFailed flowId), d)
           else (Inr (h, config), d\<lparr>rd_live := h # rd_live d\<rparr>))"

subsection \<open>Video\<close>

record VideoReader =
  vr_flowId :: string
  vr_reader :: handle
  vr_config :: mxlFlowConfigInfo
  vr_frameRate :: mxlRational
  vr_interlaced :: bool
  vr_bottomFieldFirst :: bool
  vr_frameHeight :: u32
  vr_woven :: "u8 list"

text \<open>The flow definition: a second call with a larger buffer when the first one is too small.\<close>

definition readFlowDef :: "ReadEnv \<Rightarrow> string \<Rightarrow> Reads \<Rightarrow> (mxlStatus \<times> string) \<times> Reads" where
  "readFlowDef e flowId d =
     (let (st, size, def) = re_getFlowDef e (rd_tick d) flowId 16384; d = dtick d in
      if st = MXL_ERR_INVALID_ARG \<and> 16384 < size
      then let (st, _, def) = re_getFlowDef e (rd_tick d) flowId size in ((st, def), dtick d)
      else ((st, def), d))"

text \<open>\<open>interlace_mode\<close> and \<open>frame_height\<close> of a flow definition, when both are there with the right types.\<close>

definition interlaceOf :: "json \<Rightarrow> u32 \<Rightarrow> (string \<times> u32) option" where
  "interlaceOf doc truncated =
     (case (member_of doc ''interlace_mode'', member_of doc ''frame_height'') of
        (Some (JStr m), Some (JNum n)) \<Rightarrow> Some (m, case n of Some i \<Rightarrow> of_int i | None \<Rightarrow> truncated)
      | _ \<Rightarrow> None)"

definition newVideoReader :: "ReadEnv \<Rightarrow> string \<Rightarrow> Reads \<Rightarrow> (ReaderError + VideoReader) \<times> Reads" where
  "newVideoReader e flowId d =
     (case openReader e flowId d of
        (Inl err, d) \<Rightarrow> (Inl err, d)
      | (Inr (h, config), d) \<Rightarrow>
          (let ((st, def), d) = readFlowDef e flowId d;
               found = (if st = MXL_STATUS_OK then
                          case re_parseJson e def of None \<Rightarrow> None | Some doc \<Rightarrow> interlaceOf doc (re_truncated e (rd_tick d))
                        else None);
               (interlaced, bff, height) =
                 (case found of
                    None \<Rightarrow> (False, False, 0)
                  | Some (m, h) \<Rightarrow> (m = ''interlaced_tff'' \<or> m = ''interlaced_bff'', m = ''interlaced_bff'', h));
               rate = fc_grainRate config
           in (Inr \<lparr>vr_flowId = flowId, vr_reader = h, vr_config = config,
                    vr_frameRate = (if interlaced then rate\<lparr>numerator := of_int (sint (numerator rate) sdiv 2)\<rparr> else rate),
                    vr_interlaced = interlaced, vr_bottomFieldFirst = bff, vr_frameHeight = height, vr_woven = []\<rparr>, d)))"

definition deleteVideoReader :: "VideoReader \<Rightarrow> Reads \<Rightarrow> Reads" where
  "deleteVideoReader v d = d\<lparr>rd_live := remove1 (vr_reader v) (rd_live d)\<rparr>"

record ReadGrain =
  rg_info :: GrainInfo
  rg_payload :: "u8 list option"

definition infoInvalid :: "GrainInfo \<Rightarrow> bool" where
  "infoInvalid info \<longleftrightarrow> gi_flags info AND MXL_GRAIN_FLAG_INVALID \<noteq> 0"

text \<open>The loop over the fields: the first error or invalid field ends it.\<close>

datatype FieldRead = FieldError mxlStatus | FieldInvalid GrainInfo | FieldOk GrainInfo "u8 list"

definition readField :: "ReadEnv \<Rightarrow> VideoReader \<Rightarrow> u64 \<Rightarrow> u64 \<Rightarrow> u64 \<Rightarrow> Reads \<Rightarrow> FieldRead \<times> Reads" where
  "readField e v grain start timeoutNs d =
     (let elapsed = re_steadyNs e (rd_tick d) - start; d = dtick d;
          (st, info, buf) = re_getGrain e (rd_tick d) (vr_reader v) grain (if timeoutNs > elapsed then timeoutNs - elapsed else 0);
          d = dtick d
      in if st \<noteq> MXL_STATUS_OK then (FieldError st, d)
         else case buf of
                None \<Rightarrow> (FieldInvalid info, d)
              | Some f \<Rightarrow> if infoInvalid info then (FieldInvalid info, d) else (FieldOk info f, d))"

definition invalidGrain :: "GrainInfo \<Rightarrow> ReadGrain" where
  "invalidGrain info = \<lparr>rg_info = info\<lparr>gi_flags := gi_flags info OR MXL_GRAIN_FLAG_INVALID\<rparr>, rg_payload = None\<rparr>"

definition weaveFrame :: "VideoReader \<Rightarrow> u64 \<Rightarrow> u8 list \<Rightarrow> u8 list \<Rightarrow> u8 list option" where
  "weaveFrame v index f0 f1 =
     (let lineBytes = unat (fc_sliceSize0 (vr_config v)); h = vr_frameHeight v;
          n = lineBytes * unat h;
          woven = take n (vr_woven v) @ replicate (n - length (vr_woven v)) 0
      in case weaveField f0 lineBytes h (fieldParity (2 * index) (vr_bottomFieldFirst v)) woven lineBytes of
           None \<Rightarrow> None
         | Some half \<Rightarrow> weaveField f1 lineBytes h (fieldParity (2 * index + 1) (vr_bottomFieldFirst v)) half lineBytes)"

text \<open>\<open>out\<close> is the caller's grain, unchanged on an error.  \<open>None\<close>: a field shorter than its rows.\<close>

definition getGrain_video ::
    "ReadEnv \<Rightarrow> VideoReader \<Rightarrow> u64 \<Rightarrow> u64 \<Rightarrow> ReadGrain \<Rightarrow> Reads \<Rightarrow> (mxlStatus \<times> ReadGrain \<times> VideoReader \<times> Reads) option" where
  "getGrain_video e v index timeoutNs out d =
     (if \<not> vr_interlaced v then
        let (st, info, buf) = re_getGrain e (rd_tick d) (vr_reader v) index timeoutNs in
        Some (st, \<lparr>rg_info = info, rg_payload = buf\<rparr>, v, dtick d)
      else
        let start = re_steadyNs e (rd_tick d) in
        case readField e v (2 * index) start timeoutNs (dtick d) of
          (FieldError st, d) \<Rightarrow> Some (st, out, v, d)
        | (FieldInvalid info, d) \<Rightarrow> Some (MXL_STATUS_OK, invalidGrain info, v, d)
        | (FieldOk info0 f0, d) \<Rightarrow>
            (case readField e v (2 * index + 1) start timeoutNs d of
               (FieldError st, d) \<Rightarrow> Some (st, out, v, d)
             | (FieldInvalid info, d) \<Rightarrow> Some (MXL_STATUS_OK, invalidGrain info, v, d)
             | (FieldOk info1 f1, d) \<Rightarrow>
                 map_option (\<lambda>woven. (MXL_STATUS_OK,
                     \<lparr>rg_info = info0\<lparr>gi_grainSize := length woven mod 2 ^ 32\<rparr>, rg_payload = Some woven\<rparr>, v\<lparr>vr_woven := woven\<rparr>, d))
                   (weaveFrame v index f0 f1)))"

definition grainCount_video :: "VideoReader \<Rightarrow> u32" where
  "grainCount_video v = (if vr_interlaced v then fc_grainCount (vr_config v) div 2 else fc_grainCount (vr_config v))"

definition headIndex_video :: "ReadEnv \<Rightarrow> VideoReader \<Rightarrow> Reads \<Rightarrow> u64 \<times> Reads" where
  "headIndex_video e v d =
     (let (st, head) = re_getRuntimeInfo e (rd_tick d) (vr_reader v) in
      (if st \<noteq> MXL_STATUS_OK then 0 else if vr_interlaced v then frameHeadOfFieldHead head else head, dtick d))"

definition syncTimestamp_video :: "ReadEnv \<Rightarrow> VideoReader \<Rightarrow> u64 \<Rightarrow> u64" where
  "syncTimestamp_video e v index =
     (if vr_interlaced v then re_indexToTimestamp e (fc_grainRate (vr_config v)) (2 * index + 1)
      else re_indexToTimestamp e (vr_frameRate v) index)"

definition flowInvalid_video :: "ReadEnv \<Rightarrow> VideoReader \<Rightarrow> Reads \<Rightarrow> bool \<times> Reads" where
  "flowInvalid_video e v d =
     (re_getGrainNonBlocking e (rd_tick d) (vr_reader v) (- 2) = MXL_ERR_FLOW_INVALID, dtick d)"

subsection \<open>Audio\<close>

record AudioReader =
  ar_flowId :: string
  ar_reader :: handle
  ar_config :: mxlFlowConfigInfo
  ar_maxReadLength :: nat

definition newAudioReader :: "ReadEnv \<Rightarrow> string \<Rightarrow> Reads \<Rightarrow> (ReaderError + AudioReader) \<times> Reads" where
  "newAudioReader e flowId d =
     (case openReader e flowId d of
        (Inl err, d) \<Rightarrow> (Inl err, d)
      | (Inr (h, config), d) \<Rightarrow>
          (let (st, maxRead) = re_getMaxReadLength e (rd_tick d) h;
               len = (if st = MXL_STATUS_OK \<and> 0 < maxRead then maxRead else unat (fc_bufferLength config) div 2)
           in (Inr \<lparr>ar_flowId = flowId, ar_reader = h, ar_config = config, ar_maxReadLength = len\<rparr>, dtick d)))"

definition deleteAudioReader :: "AudioReader \<Rightarrow> Reads \<Rightarrow> Reads" where
  "deleteAudioReader a d = d\<lparr>rd_live := remove1 (ar_reader a) (rd_live d)\<rparr>"

definition interleaveMapped :: "AudioSampleType \<Rightarrow> Slices \<Rightarrow> nat \<Rightarrow> int list \<Rightarrow> nat \<Rightarrow> int list \<Rightarrow> int list option" where
  "interleaveMapped sampleType slices n cmap deckLinkChannels dst =
     (if sampleType = Int32 then interleaveFloatToInt32Mapped slices n cmap deckLinkChannels dst
      else interleaveFloatToInt16Mapped slices n cmap deckLinkChannels dst)"

text \<open>The read loop; \<open>cursor\<close> counts samples.  Like the write loop it is partial.\<close>

partial_function (option) readLoop ::
    "ReadEnv \<Rightarrow> AudioReader \<Rightarrow> u64 \<Rightarrow> nat \<Rightarrow> u64 \<Rightarrow> nat \<Rightarrow> int list \<Rightarrow> AudioSampleType \<Rightarrow> nat \<Rightarrow> nat \<Rightarrow> int list \<Rightarrow> Reads \<Rightarrow>
     (mxlStatus \<times> int list \<times> Reads) option" where
  "readLoop e a start sampleFrames timeoutNs deckLinkChannels cmap sampleType cursor remaining dst d =
     (if remaining = 0 then Some (MXL_STATUS_OK, dst, d)
      else let n = (if remaining < ar_maxReadLength a then remaining else ar_maxReadLength a);
               head = start + of_nat (sampleFrames - remaining) + of_nat n;
               (st, slices) = re_getSamples e (rd_tick d) (ar_reader a) head n timeoutNs in
           if st \<noteq> MXL_STATUS_OK then Some (st, dst, dtick d)
           else case interleaveMapped sampleType slices n cmap deckLinkChannels (drop cursor dst) of
                  None \<Rightarrow> None
                | Some part \<Rightarrow>
                    readLoop e a start sampleFrames timeoutNs deckLinkChannels cmap sampleType
                      (cursor + n * deckLinkChannels) (remaining - n) (take cursor dst @ part) (dtick d))"

definition readSamples ::
    "ReadEnv \<Rightarrow> AudioReader \<Rightarrow> u64 \<Rightarrow> nat \<Rightarrow> u64 \<Rightarrow> int list \<Rightarrow> nat \<Rightarrow> int list \<Rightarrow> AudioSampleType \<Rightarrow> Reads \<Rightarrow>
     (mxlStatus \<times> int list \<times> Reads) option" where
  "readSamples e a endIndex sampleFrames timeoutNs dst deckLinkChannels cmap sampleType d =
     (if ar_maxReadLength a = 0 \<or> unat endIndex < sampleFrames then Some (MXL_ERR_INVALID_ARG, dst, d)
      else readLoop e a (endIndex - of_nat sampleFrames) sampleFrames timeoutNs deckLinkChannels cmap sampleType
             0 sampleFrames dst d)"

definition headIndex_audio :: "ReadEnv \<Rightarrow> AudioReader \<Rightarrow> Reads \<Rightarrow> u64 \<times> Reads" where
  "headIndex_audio e a d =
     (let (st, head) = re_getRuntimeInfo e (rd_tick d) (ar_reader a) in (if st \<noteq> MXL_STATUS_OK then 0 else head, dtick d))"

definition flowInvalid_audio :: "ReadEnv \<Rightarrow> AudioReader \<Rightarrow> Reads \<Rightarrow> bool \<times> Reads" where
  "flowInvalid_audio e a d =
     (re_getSamplesNonBlocking e (rd_tick d) (ar_reader a) (- 2) 1 = MXL_ERR_FLOW_INVALID, dtick d)"

subsection \<open>The synchronisation group\<close>

text \<open>The group lives on an MXL instance of its own; both are released together.  \<open>gw_\<close> is the world of
  instances, groups and the readers of each group.\<close>

record SyncEnv =
  se_createInstance :: "nat \<Rightarrow> string \<Rightarrow> handle option"
  se_createGroup :: "nat \<Rightarrow> handle \<Rightarrow> mxlStatus \<times> handle option"
  se_addReader :: "nat \<Rightarrow> handle \<Rightarrow> handle \<Rightarrow> mxlStatus"
  se_waitForDataAt :: "nat \<Rightarrow> handle \<Rightarrow> u64 \<Rightarrow> u64 \<Rightarrow> mxlStatus"

record SyncWorld =
  gw_tick :: nat
  gw_instances :: "handle list"
  gw_groups :: "handle list"
  gw_members :: "(handle \<times> handle) list"

definition gtick :: "SyncWorld \<Rightarrow> SyncWorld" where
  "gtick g = g\<lparr>gw_tick := gw_tick g + 1\<rparr>"

record FlowSyncGroup =
  fg_instance :: handle
  fg_group :: handle

datatype SyncError = InstanceFailed string | GroupFailed mxlStatus | AddReaderFailed mxlStatus

definition newFlowSyncGroup :: "SyncEnv \<Rightarrow> string \<Rightarrow> SyncWorld \<Rightarrow> (SyncError + FlowSyncGroup) \<times> SyncWorld" where
  "newFlowSyncGroup e domainPath g =
     (let made = se_createInstance e (gw_tick g) domainPath; g = gtick g in
      case made of
        None \<Rightarrow> (Inl (InstanceFailed domainPath), g)
      | Some i \<Rightarrow>
          (let (st, group) = se_createGroup e (gw_tick g) i; g = gtick g in
           case group of
             Some gr \<Rightarrow> if st \<noteq> MXL_STATUS_OK then (Inl (GroupFailed st), g)
                        else (Inr \<lparr>fg_instance = i, fg_group = gr\<rparr>,
                              g\<lparr>gw_instances := i # gw_instances g, gw_groups := gr # gw_groups g\<rparr>)
           | None \<Rightarrow> (Inl (GroupFailed st), g)))"

definition deleteFlowSyncGroup :: "FlowSyncGroup \<Rightarrow> SyncWorld \<Rightarrow> SyncWorld" where
  "deleteFlowSyncGroup s g =
     g\<lparr>gw_groups := remove1 (fg_group s) (gw_groups g),
       gw_members := filter (\<lambda>m. fst m \<noteq> fg_group s) (gw_members g),
       gw_instances := remove1 (fg_instance s) (gw_instances g)\<rparr>"

definition addReader :: "SyncEnv \<Rightarrow> FlowSyncGroup \<Rightarrow> handle \<Rightarrow> SyncWorld \<Rightarrow> SyncError option \<times> SyncWorld" where
  "addReader e s h g =
     (let st = se_addReader e (gw_tick g) (fg_group s) h; g = gtick g in
      if st \<noteq> MXL_STATUS_OK then (Some (AddReaderFailed st), g)
      else (None, g\<lparr>gw_members := (fg_group s, h) # gw_members g\<rparr>))"

definition removeReader :: "FlowSyncGroup \<Rightarrow> handle \<Rightarrow> SyncWorld \<Rightarrow> SyncWorld" where
  "removeReader s h g = (gtick g)\<lparr>gw_members := filter (\<lambda>m. m \<noteq> (fg_group s, h)) (gw_members g)\<rparr>"

definition waitFor_group :: "SyncEnv \<Rightarrow> FlowSyncGroup \<Rightarrow> u64 \<Rightarrow> u64 \<Rightarrow> SyncWorld \<Rightarrow> mxlStatus \<times> SyncWorld" where
  "waitFor_group e s timestampNs timeoutNs g = (se_waitForDataAt e (gw_tick g) (fg_group s) timestampNs timeoutNs, gtick g)"

end
