(* ===== verification/ChannelState.thy ===== *)
theory ChannelState
  imports Prelude
begin

text \<open>
  \<open>src/channel/state.hpp\<close>: the state of a channel and the status snapshot it publishes.  The
  atomics are plain fields: every update in the code is a single store or a single addition.
\<close>

datatype State = Init | Healthy | Degraded | Failed

definition stateName :: "State \<Rightarrow> string" where
  "stateName s = (case s of Init \<Rightarrow> ''init'' | Healthy \<Rightarrow> ''healthy'' | Degraded \<Rightarrow> ''degraded'' | Failed \<Rightarrow> ''failed'')"

record Status =
  st_state :: State
  lastFrameTaiNs :: u64
  signalLocked :: bool
  framesTotal :: u64
  framesDropped :: u64
  framesRepeated :: u64
  st_readOffsetGrains :: int
  reconnects :: u64
  grainsCommitted :: u64
  bufferedAudioFrames :: u32
  bufferedVideoFrames :: u32
  activeVideoFlowId :: string
  activeModeName :: string

definition newStatus :: Status where
  "newStatus =
     \<lparr>st_state = Init, lastFrameTaiNs = 0, signalLocked = False, framesTotal = 0, framesDropped = 0,
      framesRepeated = 0, st_readOffsetGrains = 0, reconnects = 0, grainsCommitted = 0,
      bufferedAudioFrames = 0, bufferedVideoFrames = 0, activeVideoFlowId = [], activeModeName = []\<rparr>"

end
