(* ===== verification/ConfigParse.thy ===== *)
theory ConfigParse
  imports Uuid
begin

text \<open>
  The value parsers of \<open>src/config/config.cpp\<close> (\<open>parseInt\<close>, \<open>parseBool\<close>, \<open>parseUuidOrFail\<close>,
  \<open>parseHex32\<close>) and \<open>util::parseCpuList\<close> (\<open>src/util/threading.cpp\<close>), with the conversions of
  the standard library they call: \<open>std::stol\<close> and \<open>std::stoi\<close> skip white space, take a sign and digits,
  report how much they consumed and throw when there is no digit or the value does not fit.

  A thrown \<open>ConfigError\<close> is a value; its constructors carry what the message says.
\<close>

subsection \<open>Errors\<close>

datatype ConfigError =
  NotInteger string string
  | OutOfRange string int int int
  | NotBoolean string string
  | NotUuid string string
  | NotHex32 string string
  | Missing string
  | BadChoice string string
  | AutoOutput string
  | NeedsConversion string
  | NilFlow string
  | RemovedKeys string
  | AudioGap string nat nat
  | EmptyEntry string string
  | MapLength string int nat
  | Mixing string int int
  | MixedStyles string
  | ManySelectors
  | BadCpuList string
  | BadTags
  | BadHostAddress string
  | PortOverlap int int
  | RemovedPorts
  | SubdeviceTwice int bool
  | DuplicateFlow string
  | TooFewChannels int nat
  | UnknownKey string
  | EnvOnlyKey string
  | BadFileValue string
  | BadFile

type_synonym 'a res = "ConfigError + 'a"

text \<open>Sequencing: the first error ends the computation, as the exception does.\<close>

definition bindR :: "'a res \<Rightarrow> ('a \<Rightarrow> 'b res) \<Rightarrow> 'b res" where
  "bindR x f = (case x of Inl e \<Rightarrow> Inl e | Inr v \<Rightarrow> f v)"

definition failIf :: "bool \<Rightarrow> ConfigError \<Rightarrow> 'a \<Rightarrow> 'a res" where
  "failIf b e v = (if b then Inl e else Inr v)"

lemma bindR_simps [simp]: "bindR (Inl e) f = Inl e" "bindR (Inr v) f = f v"
  by (simp_all add: bindR_def)

lemma bindR_Inr: "bindR x f = Inr y \<longleftrightarrow> (\<exists>v. x = Inr v \<and> f v = Inr y)"
  by (cases x) simp_all

lemma failIf_Inr [simp]: "failIf b e v = Inr w \<longleftrightarrow> \<not> b \<and> w = v"
  by (auto simp: failIf_def)

lemma bindR_assoc: "bindR (bindR x f) g = bindR x (\<lambda>v. bindR (f v) g)"
  by (cases x) simp_all

subsection \<open>Numbers\<close>

definition isSpace :: "char \<Rightarrow> bool" where
  "isSpace c \<longleftrightarrow> c = CHR '' '' \<or> (9 \<le> (of_char c :: nat) \<and> (of_char c :: nat) \<le> 13)"

definition isDigit :: "char \<Rightarrow> bool" where
  "isDigit c \<longleftrightarrow> 48 \<le> (of_char c :: nat) \<and> (of_char c :: nat) \<le> 57"

definition digitsValue :: "string \<Rightarrow> nat" where
  "digitsValue = foldl (\<lambda>n c. n * 10 + (of_char c - 48)) 0"

text \<open>\<open>strtol\<close> with base 10: the value and the number of characters consumed; \<open>None\<close> when no conversion
  is possible.\<close>

definition strtol :: "string \<Rightarrow> (int \<times> nat) option" where
  "strtol s =
     (let ws = takeWhile isSpace s; r = drop (length ws) s;
          sign = (case r of [] \<Rightarrow> 0 | c # _ \<Rightarrow> if c = CHR ''-'' \<or> c = CHR ''+'' then 1 else (0 :: nat));
          neg = (sign = 1 \<and> hd r = CHR ''-'');
          ds = takeWhile isDigit (drop sign r)
      in if ds = [] then None
         else Some (if neg then - int (digitsValue ds) else int (digitsValue ds), length ws + sign + length ds))"

text \<open>\<open>std::stol\<close> (64-bit long) and \<open>std::stoi\<close>: \<open>None\<close> stands for either exception.\<close>

definition stol :: "string \<Rightarrow> (int \<times> nat) option" where
  "stol s = (case strtol s of None \<Rightarrow> None
     | Some (v, n) \<Rightarrow> if - (2 ^ 63) \<le> v \<and> v < 2 ^ 63 then Some (v, n) else None)"

definition stoi :: "string \<Rightarrow> (int \<times> nat) option" where
  "stoi s = (case strtol s of None \<Rightarrow> None
     | Some (v, n) \<Rightarrow> if - (2 ^ 31) \<le> v \<and> v < 2 ^ 31 then Some (v, n) else None)"

text \<open>The result is cast to \<open>int\<close>; every caller's range fits one.\<close>

definition parseInt :: "string \<Rightarrow> string \<Rightarrow> int \<Rightarrow> int \<Rightarrow> int res" where
  "parseInt name value lo hi =
     (case stol value of
        None \<Rightarrow> Inl (NotInteger name value)
      | Some (v, consumed) \<Rightarrow>
          if consumed \<noteq> length value then Inl (NotInteger name value)
          else if v < lo \<or> v > hi then Inl (OutOfRange name v lo hi)
          else Inr v)"

definition parseBool :: "string \<Rightarrow> string \<Rightarrow> bool res" where
  "parseBool name value =
     (if value = ''true'' \<or> value = ''1'' \<or> value = ''yes'' \<or> value = ''on'' then Inr True
      else if value = ''false'' \<or> value = ''0'' \<or> value = ''no'' \<or> value = ''off'' then Inr False
      else Inl (NotBoolean name value))"

definition parseUuidOrFail :: "string \<Rightarrow> string \<Rightarrow> Uuid res" where
  "parseUuidOrFail name value =
     (case parseUuid value of None \<Rightarrow> Inl (NotUuid name value) | Some u \<Rightarrow> Inr u)"

definition hexDigitValue :: "char \<Rightarrow> nat option" where
  "hexDigitValue c =
     (let n = of_char c :: nat in
      if 48 \<le> n \<and> n \<le> 57 then Some (n - 48)
      else if 97 \<le> n \<and> n \<le> 102 then Some (n - 87)
      else if 65 \<le> n \<and> n \<le> 70 then Some (n - 55)
      else None)"

definition parseHex32 :: "string \<Rightarrow> string \<Rightarrow> u32 res" where
  "parseHex32 name value =
     (let v = (if starts_with value ''0x'' \<or> starts_with value ''0X'' then drop 2 value else value) in
      if v = [] \<or> length v > 8 \<or> list_ex (\<lambda>c. hexDigitValue c = None) v then Inl (NotHex32 name value)
      else Inr (of_nat (foldl (\<lambda>n c. n * 16 + the (hexDigitValue c)) 0 v)))"

subsection \<open>The text of a number\<close>

lemma of_char_digit: "d < 10 \<Longrightarrow> isDigit (digit_char d)"
  by (simp add: isDigit_def of_char_digit_char)

lemma digits_of_nat: "list_all isDigit (nat_to_string n) \<and> digitsValue (nat_to_string n) = n"
proof (induction n rule: nat_to_string.induct)
  case (1 n)
  show ?case
  proof (cases "n < 10")
    case True
    then show ?thesis by (simp add: nat_to_string.simps of_char_digit digitsValue_def of_char_digit_char)
  next
    case False
    then have "digitsValue (nat_to_string n) = n div 10 * 10 + n mod 10"
      using 1 by (subst nat_to_string.simps) (simp add: digitsValue_def of_char_digit_char)
    then show ?thesis using 1 False by (subst nat_to_string.simps) (simp add: of_char_digit)
  qed
qed

lemma digit_not_space: "isDigit c \<Longrightarrow> \<not> isSpace c"
  by (auto simp: isDigit_def isSpace_def)

lemma digit_not_sign: "isDigit c \<Longrightarrow> c \<noteq> CHR ''-'' \<and> c \<noteq> CHR ''+''"
  by (auto simp: isDigit_def)

lemma strtol_int: "strtol (int_to_string n) = Some (n, length (int_to_string n))"
proof (cases "n < 0")
  case True
  have tw: "takeWhile isDigit (nat_to_string (nat (- n))) = nat_to_string (nat (- n))"
    using digits_of_nat[of "nat (- n)"] by (simp add: takeWhile_eq_all_conv list_all_iff)
  have "\<not> isSpace CHR ''-''" by (simp add: isSpace_def)
  then show ?thesis using True digits_of_nat[of "nat (- n)"] by (simp add: strtol_def int_to_string_def Let_def tw)
next
  case False
  obtain c cs where c: "nat_to_string (nat n) = c # cs" by (cases "nat_to_string (nat n)") simp_all
  have d: "isDigit c" "list_all isDigit cs" using digits_of_nat[of "nat n"] by (simp_all add: c)
  have tw: "takeWhile isDigit cs = cs" using d by (simp add: takeWhile_eq_all_conv list_all_iff)
  have "\<not> isSpace c" "c \<noteq> CHR ''-''" "c \<noteq> CHR ''+''" using digit_not_space digit_not_sign d(1) by blast+
  then show ?thesis
    using False digits_of_nat[of "nat n"] d(1) by (simp add: strtol_def int_to_string_def Let_def c tw)
qed

subsection \<open>CPU lists\<close>

text \<open>A range that ends at the largest \<open>int\<close> overflows the loop counter of the code, which is undefined;
  here it has its mathematical value.\<close>

definition cpuToken :: "string \<Rightarrow> int list option" where
  "cpuToken token =
     (if CHR ''-'' \<notin> set token then
        (case stoi token of
           None \<Rightarrow> None
         | Some (cpu, consumed) \<Rightarrow> if consumed \<noteq> length token \<or> cpu < 0 then None else Some [cpu])
      else
        let lo = takeWhile (\<lambda>c. c \<noteq> CHR ''-'') token; hi = drop (length lo + 1) token in
        case (stoi lo, stoi hi) of
          (Some (from, c1), Some (to, c2)) \<Rightarrow>
            if c1 \<noteq> length lo \<or> c2 \<noteq> length hi \<or> from < 0 \<or> to < from then None else Some [from..to]
        | _ \<Rightarrow> None)"

function cpuTokens :: "string \<Rightarrow> int list option" where
  "cpuTokens s =
     (if s = [] then Some []
      else
        let token = takeWhile (\<lambda>c. c \<noteq> CHR '','') s in
        if token = [] then None
        else
          case cpuToken token of
            None \<Rightarrow> None
          | Some cpus \<Rightarrow> map_option (\<lambda>more. cpus @ more) (cpuTokens (drop (length token + 1) s)))"
  by pat_completeness auto
termination by (relation "measure length") auto

declare cpuTokens.simps [simp del]

definition parseCpuList :: "string \<Rightarrow> int list option" where
  "parseCpuList s = (case cpuTokens s of Some [] \<Rightarrow> None | r \<Rightarrow> r)"

end
