(* ===== verification/Config.thy ===== *)
theory Config
  imports ConfigTypes ConfigParse Json
begin

text \<open>
  \<open>src/config/config.cpp\<close>: the configuration loader.  An environment is a function from names to
  values, as \<open>EnvReader\<close> is.  The loader is a sequence of steps on the configuration record, in
  the order of the source, each of which may fail; the first failure is the result.  \<open>picojson::parse\<close>
  and \<open>inet_pton\<close> are the parameters \<open>parseJson\<close> and \<open>isIpLiteral\<close>.
\<close>

subsection \<open>Steps\<close>

type_synonym EnvReader = "string \<Rightarrow> string option"

text \<open>Empty values count as unset.\<close>

definition getEnv :: "EnvReader \<Rightarrow> string \<Rightarrow> string option" where
  "getEnv env name = (case env name of None \<Rightarrow> None | Some v \<Rightarrow> if v = [] then None else Some v)"

definition hasEnv :: "EnvReader \<Rightarrow> string \<Rightarrow> bool" where
  "hasEnv env name \<longleftrightarrow> getEnv env name \<noteq> None"

fun runSteps :: "('c \<Rightarrow> 'c res) list \<Rightarrow> 'c \<Rightarrow> 'c res" where
  "runSteps [] c = Inr c"
| "runSteps (f # fs) c = bindR (f c) (runSteps fs)"

text \<open>\<open>if (auto const v = env.get(key)) ...\<close>\<close>

definition setting :: "EnvReader \<Rightarrow> string \<Rightarrow> (string \<Rightarrow> 'c \<Rightarrow> 'c res) \<Rightarrow> 'c \<Rightarrow> 'c res" where
  "setting env key f c = (case getEnv env key of None \<Rightarrow> Inr c | Some v \<Rightarrow> f v c)"

definition required :: "EnvReader \<Rightarrow> string \<Rightarrow> (string \<Rightarrow> 'c \<Rightarrow> 'c res) \<Rightarrow> 'c \<Rightarrow> 'c res" where
  "required env key f c = (case getEnv env key of None \<Rightarrow> Inl (Missing key) | Some v \<Rightarrow> f v c)"

definition intValue :: "string \<Rightarrow> int \<Rightarrow> int \<Rightarrow> (int \<Rightarrow> 'c \<Rightarrow> 'c) \<Rightarrow> string \<Rightarrow> 'c \<Rightarrow> 'c res" where
  "intValue key lo hi upd v c = bindR (parseInt key v lo hi) (\<lambda>n. Inr (upd n c))"

definition boolValue :: "string \<Rightarrow> (bool \<Rightarrow> 'c \<Rightarrow> 'c) \<Rightarrow> string \<Rightarrow> 'c \<Rightarrow> 'c res" where
  "boolValue key upd v c = bindR (parseBool key v) (\<lambda>b. Inr (upd b c))"

definition uuidValue :: "string \<Rightarrow> (Uuid \<Rightarrow> 'c \<Rightarrow> 'c) \<Rightarrow> string \<Rightarrow> 'c \<Rightarrow> 'c res" where
  "uuidValue key upd v c = bindR (parseUuidOrFail key v) (\<lambda>u. Inr (upd u c))"

definition textValue :: "(string \<Rightarrow> 'c \<Rightarrow> 'c) \<Rightarrow> string \<Rightarrow> 'c \<Rightarrow> 'c res" where
  "textValue upd v c = Inr (upd v c)"

text \<open>One of a fixed set of values.\<close>

definition choice :: "string \<Rightarrow> (string \<times> 'a) list \<Rightarrow> ('a \<Rightarrow> 'c \<Rightarrow> 'c) \<Rightarrow> string \<Rightarrow> 'c \<Rightarrow> 'c res" where
  "choice key table upd v c =
     (case map_of table v of None \<Rightarrow> Inl (BadChoice key v) | Some x \<Rightarrow> Inr (upd x c))"

subsection \<open>One channel\<close>

definition directionName :: "Direction \<Rightarrow> string" where
  "directionName d = (if d = Input then ''input'' else ''output'')"

definition directions :: "(string \<times> Direction) list" where
  "directions = [(''input'', Input), (''output'', Output)]"

definition videoModeStep :: "EnvReader \<Rightarrow> string \<Rightarrow> ChannelConfig \<Rightarrow> ChannelConfig res" where
  "videoModeStep env key ch =
     (let ch = (case getEnv env key of None \<Rightarrow> ch | Some v \<Rightarrow> ch\<lparr>videoModeName := v\<rparr>) in
      if videoModeName ch \<noteq> ''auto'' then
        (case lookupVideoMode (videoModeName ch) of
           None \<Rightarrow> Inl (BadChoice key (videoModeName ch))
         | Some m \<Rightarrow> Inr (ch\<lparr>videoMode := Some m\<rparr>))
      else if direction ch = Output then Inl (AutoOutput key)
      else Inr ch)"

definition pixelFormats :: "(string \<times> PixelFormat) list" where
  "pixelFormats = [(''10BitYUV'', YUV10), (''10BitYUVA'', YUVA10), (''8BitYUV'', YUV8)]"

definition conversionStep :: "string \<Rightarrow> ChannelConfig \<Rightarrow> ChannelConfig res" where
  "conversionStep key ch = failIf (pixelFormat ch = YUV8 \<and> \<not> allowFormatConversion ch) (NeedsConversion key) ch"

definition audioWidthValue :: "string \<Rightarrow> string \<Rightarrow> ChannelConfig \<Rightarrow> ChannelConfig res" where
  "audioWidthValue key v ch =
     bindR (parseInt key v 2 64)
       (\<lambda>n. failIf (n \<notin> {2, 8, 16, 32, 64}) (BadChoice key v) (ch\<lparr>audioChannelCount := n\<rparr>))"

definition sampleTypes :: "(string \<times> AudioSampleType) list" where
  "sampleTypes = [(''16bit'', Int16), (''32bit'', Int32)]"

definition videoFlowValue :: "string \<Rightarrow> string \<Rightarrow> ChannelConfig \<Rightarrow> ChannelConfig res" where
  "videoFlowValue key v ch =
     bindR (parseUuidOrFail key v)
       (\<lambda>u. failIf (direction ch = Input \<and> isNil u) (NilFlow key) (ch\<lparr>videoFlowId := u\<rparr>))"

definition removedStep :: "EnvReader \<Rightarrow> string \<Rightarrow> ChannelConfig \<Rightarrow> ChannelConfig res" where
  "removedStep env p ch =
     failIf (hasEnv env (p @ ''MXL_AUDIO_FLOW_ID'') \<or> hasEnv env (p @ ''MXL_AUDIO_FLOW_LABEL'')) (RemovedKeys p) ch"

subsection \<open>Audio flows\<close>

definition kMaxAudioFlows :: nat where "kMaxAudioFlows = 16"

definition afKey :: "string \<Rightarrow> nat \<Rightarrow> string \<Rightarrow> string" where
  "afKey p af field = p @ ''AF'' @ nat_to_string af @ ''_'' @ field"

function mapEntries :: "string \<Rightarrow> string \<Rightarrow> int \<Rightarrow> string \<Rightarrow> int list res" where
  "mapEntries key raw width s =
     (if s = [] then Inr []
      else
        let token = takeWhile (\<lambda>c. c \<noteq> CHR '','') s in
        if token = [] then Inl (EmptyEntry key raw)
        else bindR (parseInt key token 0 (width - 1))
               (\<lambda>n. bindR (mapEntries key raw width (drop (length token + 1) s)) (\<lambda>ns. Inr (n # ns))))"
  by pat_completeness auto
termination by (relation "measure (\<lambda>(_, _, _, s). length s)") auto

declare mapEntries.simps [simp del]

definition parseMap :: "string \<Rightarrow> int \<Rightarrow> int \<Rightarrow> string \<Rightarrow> int list res" where
  "parseMap key width count raw =
     bindR (mapEntries key raw width raw) (\<lambda>ns. failIf (int (length ns) \<noteq> count) (MapLength key count (length ns)) ns)"

definition audioFlow :: "EnvReader \<Rightarrow> int \<Rightarrow> string \<Rightarrow> ChannelConfig \<Rightarrow> nat \<Rightarrow> string \<Rightarrow> AudioFlowConfig res" where
  "audioFlow env index p ch af flowIdVal =
     bindR (parseUuidOrFail (afKey p af ''FLOW_ID'') flowIdVal) (\<lambda>u.
     if direction ch = Input \<and> isNil u then Inl (NilFlow (afKey p af ''FLOW_ID''))
     else
       runSteps
         [required env (afKey p af ''CHANNEL_COUNT'')
            (intValue (afKey p af ''CHANNEL_COUNT'') 1 64 (\<lambda>n f. f\<lparr>af_channelCount := n\<rparr>)),
          required env (afKey p af ''MAP'')
            (\<lambda>v f. bindR (parseMap (afKey p af ''MAP'') (audioChannelCount ch) (af_channelCount f) v)
                     (\<lambda>ns. Inr (f\<lparr>af_deckLinkChannels := ns\<rparr>))),
          \<lambda>f. Inr (f\<lparr>af_label :=
             (case getEnv env (afKey p af ''LABEL'') of
                Some v \<Rightarrow> v
              | None \<Rightarrow> ''ch'' @ int_to_string index @ ''-audio'' @ nat_to_string (af + 1))\<rparr>),
          setting env (afKey p af ''MXL_ACTIVE'')
            (boolValue (afKey p af ''MXL_ACTIVE'') (\<lambda>b f. f\<lparr>af_mxlActive := b\<rparr>))]
         (defaultAudioFlow\<lparr>af_index := int af, af_flowId := u\<rparr>))"

definition hasAudioKey :: "EnvReader \<Rightarrow> string \<Rightarrow> nat \<Rightarrow> bool" where
  "hasAudioKey env p af \<longleftrightarrow> hasEnv env (afKey p af ''FLOW_ID'') \<or> hasEnv env (afKey p af ''CHANNEL_COUNT'') \<or>
     hasEnv env (afKey p af ''MAP'') \<or> hasEnv env (afKey p af ''LABEL'')"

text \<open>Contiguous discovery: it stops at the first missing \<open>FLOW_ID\<close>; keys of a later flow are an error.\<close>

fun audioFlowLoop :: "EnvReader \<Rightarrow> int \<Rightarrow> string \<Rightarrow> ChannelConfig \<Rightarrow> nat list \<Rightarrow> AudioFlowConfig list res" where
  "audioFlowLoop env index p ch [] = Inr []"
| "audioFlowLoop env index p ch (af # later) =
     (case getEnv env (afKey p af ''FLOW_ID'') of
        None \<Rightarrow> (case find (hasAudioKey env p) later of
                   Some l \<Rightarrow> Inl (AudioGap p l af)
                 | None \<Rightarrow> Inr [])
      | Some v \<Rightarrow> bindR (audioFlow env index p ch af v)
                    (\<lambda>f. bindR (audioFlowLoop env index p ch later) (\<lambda>fs. Inr (f # fs))))"

text \<open>Output sinks: no DeckLink channel has two sources.\<close>

fun claimChannels :: "string \<Rightarrow> int \<Rightarrow> int list \<Rightarrow> int list \<Rightarrow> int list res" where
  "claimChannels p index [] owners = Inr owners"
| "claimChannels p index (dl # dls) owners =
     (if owners ! nat dl \<ge> 0 then Inl (Mixing p dl (owners ! nat dl))
      else claimChannels p index dls (owners[nat dl := index]))"

fun claimFlows :: "string \<Rightarrow> AudioFlowConfig list \<Rightarrow> int list \<Rightarrow> int list res" where
  "claimFlows p [] owners = Inr owners"
| "claimFlows p (f # fs) owners =
     bindR (claimChannels p (af_index f) (af_deckLinkChannels f) owners) (claimFlows p fs)"

definition audioFlowsStep :: "EnvReader \<Rightarrow> int \<Rightarrow> string \<Rightarrow> ChannelConfig \<Rightarrow> ChannelConfig res" where
  "audioFlowsStep env index p ch =
     (if \<not> audioEnable ch then Inr ch
      else
        bindR (audioFlowLoop env index p ch [0..<kMaxAudioFlows]) (\<lambda>fs.
        if fs = [] then Inl (Missing (afKey p 0 ''FLOW_ID''))
        else if direction ch = Output then
          bindR (claimFlows p fs (replicate (nat (audioChannelCount ch)) (- 1)))
            (\<lambda>_. Inr (ch\<lparr>audioFlows := fs\<rparr>))
        else Inr (ch\<lparr>audioFlows := fs\<rparr>)))"

subsection \<open>The rest of a channel\<close>

definition ancFlowStep :: "EnvReader \<Rightarrow> string \<Rightarrow> ChannelConfig \<Rightarrow> ChannelConfig res" where
  "ancFlowStep env key ch =
     (case getEnv env key of
        Some v \<Rightarrow> uuidValue key (\<lambda>u ch. ch\<lparr>ancFlowId := Some u\<rparr>) v ch
      | None \<Rightarrow> failIf (ancEnable ch) (Missing key) ch)"

definition sdiLevels :: "(string \<times> SdiLevel) list" where
  "sdiLevels = [(''A'', LevelA), (''a'', LevelA), (''B'', LevelB), (''b'', LevelB), (''driver'', Driver)]"

definition labelStep :: "EnvReader \<Rightarrow> int \<Rightarrow> string \<Rightarrow> ChannelConfig \<Rightarrow> ChannelConfig res" where
  "labelStep env index key ch =
     Inr (ch\<lparr>ch_label := (case getEnv env key of Some v \<Rightarrow> v | None \<Rightarrow> ''ch'' @ int_to_string index)\<rparr>)"

definition groupHintStep :: "ChannelConfig \<Rightarrow> ChannelConfig res" where
  "groupHintStep ch = Inr (if groupHint ch = [] then ch\<lparr>groupHint := ch_label ch\<rparr> else ch)"

definition signalSteps :: "EnvReader \<Rightarrow> string \<Rightarrow> (ChannelConfig \<Rightarrow> ChannelConfig res) list" where
  "signalSteps env p =
     [required env (p @ ''DIRECTION'') (choice (p @ ''DIRECTION'') directions (\<lambda>d ch. ch\<lparr>direction := d\<rparr>)),
      required env (p @ ''SUBDEVICE_INDEX'') (intValue (p @ ''SUBDEVICE_INDEX'') 0 7 (\<lambda>n ch. ch\<lparr>subdeviceIndex := n\<rparr>)),
      videoModeStep env (p @ ''VIDEO_MODE''),
      setting env (p @ ''PIXEL_FORMAT'') (choice (p @ ''PIXEL_FORMAT'') pixelFormats (\<lambda>f ch. ch\<lparr>pixelFormat := f\<rparr>)),
      setting env (p @ ''ALLOW_FORMAT_CONVERSION'')
        (boolValue (p @ ''ALLOW_FORMAT_CONVERSION'') (\<lambda>b ch. ch\<lparr>allowFormatConversion := b\<rparr>)),
      conversionStep (p @ ''PIXEL_FORMAT''),
      setting env (p @ ''VIDEO_ANC_ENABLE'') (boolValue (p @ ''VIDEO_ANC_ENABLE'') (\<lambda>b ch. ch\<lparr>ancEnable := b\<rparr>)),
      setting env (p @ ''AUDIO_ENABLE'') (boolValue (p @ ''AUDIO_ENABLE'') (\<lambda>b ch. ch\<lparr>audioEnable := b\<rparr>)),
      setting env (p @ ''AUDIO_CHANNEL_COUNT'') (audioWidthValue (p @ ''AUDIO_CHANNEL_COUNT'')),
      setting env (p @ ''AUDIO_SAMPLE_TYPE'')
        (choice (p @ ''AUDIO_SAMPLE_TYPE'') sampleTypes (\<lambda>t ch. ch\<lparr>audioSampleType := t\<rparr>)),
      required env (p @ ''MXL_VIDEO_FLOW_ID'') (videoFlowValue (p @ ''MXL_VIDEO_FLOW_ID'')),
      setting env (p @ ''MXL_ACTIVE'') (boolValue (p @ ''MXL_ACTIVE'') (\<lambda>b ch. ch\<lparr>videoMxlActive := b\<rparr>)),
      removedStep env p]"

definition tuningSteps :: "EnvReader \<Rightarrow> int \<Rightarrow> string \<Rightarrow> (ChannelConfig \<Rightarrow> ChannelConfig res) list" where
  "tuningSteps env index p =
     [setting env (p @ ''MXL_VIDEO_FLOW_LABEL'') (textValue (\<lambda>v ch. ch\<lparr>videoFlowLabel := v\<rparr>)),
      setting env (p @ ''MXL_GROUP_HINT'') (textValue (\<lambda>v ch. ch\<lparr>groupHint := v\<rparr>)),
      setting env (p @ ''MXL_DEVICE_ID'') (uuidValue (p @ ''MXL_DEVICE_ID'') (\<lambda>u ch. ch\<lparr>deviceId := Some u\<rparr>)),
      setting env (p @ ''MXL_SOURCE_ID'') (uuidValue (p @ ''MXL_SOURCE_ID'') (\<lambda>u ch. ch\<lparr>sourceId := Some u\<rparr>)),
      setting env (p @ ''GRAIN_COUNT'') (intValue (p @ ''GRAIN_COUNT'') 2 1024 (\<lambda>n ch. ch\<lparr>ch_grainCount := n\<rparr>)),
      setting env (p @ ''AUDIO_BUFFER_MS'') (intValue (p @ ''AUDIO_BUFFER_MS'') 10 10000 (\<lambda>n ch. ch\<lparr>audioBufferMs := n\<rparr>)),
      setting env (p @ ''COMMIT_BATCH_HINT'')
        (intValue (p @ ''COMMIT_BATCH_HINT'') 1 1048576 (\<lambda>n ch. ch\<lparr>commitBatchHintVideo := n, commitBatchHintAudio := n\<rparr>)),
      setting env (p @ ''OUTPUT_PREROLL_GRAINS'')
        (intValue (p @ ''OUTPUT_PREROLL_GRAINS'') 1 64 (\<lambda>n ch. ch\<lparr>outputPrerollGrains := n\<rparr>)),
      setting env (p @ ''READER_TIMEOUT_MS'')
        (intValue (p @ ''READER_TIMEOUT_MS'') 1 10000 (\<lambda>n ch. ch\<lparr>readerTimeoutMs := n\<rparr>)),
      setting env (p @ ''SDI_LEVEL'') (choice (p @ ''SDI_LEVEL'') sdiLevels (\<lambda>l ch. ch\<lparr>sdiLevel := l\<rparr>)),
      setting env (p @ ''READ_OFFSET_GRAINS'')
        (intValue (p @ ''READ_OFFSET_GRAINS'') 0 64 (\<lambda>n ch. ch\<lparr>readOffsetGrains := n\<rparr>)),
      labelStep env index (p @ ''LABEL''),
      groupHintStep]"

definition parseChannel :: "EnvReader \<Rightarrow> int \<Rightarrow> string \<Rightarrow> ChannelConfig res" where
  "parseChannel env index p =
     runSteps (signalSteps env p @
               [audioFlowsStep env index p, ancFlowStep env (p @ ''MXL_ANC_FLOW_ID'')] @
               tuningSteps env index p)
       (defaultChannel\<lparr>ch_index := index\<rparr>)"

subsection \<open>Legacy variables\<close>

definition kLegacyVars :: "string list" where
  "kLegacyVars =
     [''DIRECTION'', ''DECKLINK_DEVICE_ID'', ''DECKLINK_DEVICE_NAME'', ''DECKLINK_DEVICE_INDEX'', ''VIDEO_MODE'',
      ''PIXEL_FORMAT'', ''ALLOW_FORMAT_CONVERSION'', ''VIDEO_ANC_ENABLE'', ''AUDIO_ENABLE'', ''AUDIO_CHANNEL_COUNT'',
      ''AUDIO_SAMPLE_TYPE'', ''MXL_VIDEO_FLOW_ID'', ''MXL_ANC_FLOW_ID'', ''MXL_VIDEO_FLOW_LABEL'', ''AF0_FLOW_ID'',
      ''AF0_CHANNEL_COUNT'', ''AF0_MAP'', ''AF0_LABEL'', ''MXL_GROUP_HINT'', ''MXL_DEVICE_ID'', ''MXL_SOURCE_ID'',
      ''GRAIN_COUNT'', ''AUDIO_BUFFER_MS'', ''COMMIT_BATCH_HINT'', ''OUTPUT_PREROLL_GRAINS'', ''READER_TIMEOUT_MS'',
      ''CHANNEL_LABEL'']"

definition presentLegacyVars :: "EnvReader \<Rightarrow> string list" where
  "presentLegacyVars env = filter (hasEnv env) kLegacyVars"

definition kMaxChannels :: nat where "kMaxChannels = 16"

definition chPrefix :: "nat \<Rightarrow> string" where
  "chPrefix i = ''CH'' @ nat_to_string i @ ''_''"

definition presentChannelIndices :: "EnvReader \<Rightarrow> nat list" where
  "presentChannelIndices env = filter (\<lambda>i. hasEnv env (chPrefix i @ ''DIRECTION'')) [0..<kMaxChannels]"

text \<open>The legacy name a name of channel 0 stands for.\<close>

definition legacyRemap :: "(string \<times> string) list" where
  "legacyRemap =
     [(''CH0_DIRECTION'', ''DIRECTION''), (''CH0_VIDEO_MODE'', ''VIDEO_MODE''),
      (''CH0_PIXEL_FORMAT'', ''PIXEL_FORMAT''), (''CH0_ALLOW_FORMAT_CONVERSION'', ''ALLOW_FORMAT_CONVERSION''),
      (''CH0_VIDEO_ANC_ENABLE'', ''VIDEO_ANC_ENABLE''), (''CH0_AUDIO_ENABLE'', ''AUDIO_ENABLE''),
      (''CH0_AUDIO_CHANNEL_COUNT'', ''AUDIO_CHANNEL_COUNT''), (''CH0_AUDIO_SAMPLE_TYPE'', ''AUDIO_SAMPLE_TYPE''),
      (''CH0_MXL_VIDEO_FLOW_ID'', ''MXL_VIDEO_FLOW_ID''), (''CH0_MXL_ANC_FLOW_ID'', ''MXL_ANC_FLOW_ID''),
      (''CH0_MXL_VIDEO_FLOW_LABEL'', ''MXL_VIDEO_FLOW_LABEL''), (''CH0_MXL_GROUP_HINT'', ''MXL_GROUP_HINT''),
      (''CH0_AF0_FLOW_ID'', ''AF0_FLOW_ID''), (''CH0_AF0_CHANNEL_COUNT'', ''AF0_CHANNEL_COUNT''),
      (''CH0_AF0_MAP'', ''AF0_MAP''), (''CH0_AF0_LABEL'', ''AF0_LABEL''), (''CH0_MXL_DEVICE_ID'', ''MXL_DEVICE_ID''),
      (''CH0_MXL_SOURCE_ID'', ''MXL_SOURCE_ID''), (''CH0_GRAIN_COUNT'', ''GRAIN_COUNT''),
      (''CH0_AUDIO_BUFFER_MS'', ''AUDIO_BUFFER_MS''), (''CH0_COMMIT_BATCH_HINT'', ''COMMIT_BATCH_HINT''),
      (''CH0_OUTPUT_PREROLL_GRAINS'', ''OUTPUT_PREROLL_GRAINS''), (''CH0_READER_TIMEOUT_MS'', ''READER_TIMEOUT_MS''),
      (''CH0_LABEL'', ''CHANNEL_LABEL''), (''CH0_SUBDEVICE_INDEX'', ''__LEGACY_SUBDEVICE__'')]"

definition remappedReader :: "EnvReader \<Rightarrow> EnvReader" where
  "remappedReader env name =
     (case map_of legacyRemap name of
        None \<Rightarrow> None
      | Some v \<Rightarrow> if v = ''__LEGACY_SUBDEVICE__'' then Some ''0'' else getEnv env v)"

definition parseLegacyChannel :: "EnvReader \<Rightarrow> ChannelConfig res" where
  "parseLegacyChannel env = parseChannel (remappedReader env) 0 ''CH0_''"

subsection \<open>The whole configuration\<close>

record Config =
  cardId :: "u32 option"
  cardName :: "string option"
  cardIndex :: "int option"
  cardProfile :: "CardProfile option"
  domainPath :: string
  outputDomainId :: string
  historyDurationNs :: "u64 option"
  timestampSource :: TimestampSourceCfg
  hugepagePath :: "string option"
  cpuPinList :: "int list option"
  realtimePriority :: int
  rtSched :: bool
  ptpInterface :: "string option"
  webEnable :: bool
  webPort :: int
  nmosEnable :: bool
  nmosPort :: int
  nmosLabel :: string
  nmosSeed :: string
  nmosTags :: "(string \<times> string list) list"
  nmosRegistryAddress :: string
  nmosRegistryPort :: int
  nmosQueryAddress :: string
  nmosQueryPort :: int
  nmosDnsSd :: bool
  nmosResumeConnections :: bool
  nmosHostAddress :: string
  configFile :: "string option"
  configDir :: string
  cleanupOnExit :: bool
  domainScanPath :: string
  minHealthyChannels :: int
  signalLossTimeoutS :: int
  startupMaxRetries :: int
  shutdownTimeoutS :: int
  logLevel :: string
  logFormat :: string
  libMode :: DeckLinkLibMode
  backend :: string
  cardOpenFallback :: bool
  channels :: "ChannelConfig list"
  legacyMode :: bool

definition defaultConfig :: Config where
  "defaultConfig =
     \<lparr>cardId = None, cardName = None, cardIndex = None, cardProfile = None, domainPath = ''/Volumes/mxl/mxl-decklink'',
      outputDomainId = [], historyDurationNs = None, timestampSource = Hardware, hugepagePath = None, cpuPinList = None,
      realtimePriority = 50, rtSched = False, ptpInterface = None, webEnable = True, webPort = 8080, nmosEnable = False,
      nmosPort = 3212, nmosLabel = [], nmosSeed = [], nmosTags = [], nmosRegistryAddress = [], nmosRegistryPort = 3210,
      nmosQueryAddress = [], nmosQueryPort = - 1, nmosDnsSd = False, nmosResumeConnections = True, nmosHostAddress = [],
      configFile = None, configDir = ''/config'', cleanupOnExit = False, domainScanPath = ''/Volumes/mxl'',
      minHealthyChannels = 1, signalLossTimeoutS = 30, startupMaxRetries = 10, shutdownTimeoutS = 10, logLevel = ''info'',
      logFormat = ''json'', libMode = Bundled, backend = ''sdk'', cardOpenFallback = False, channels = [],
      legacyMode = False\<rparr>"

text \<open>A v1.1 name, or in legacy mode the v1.0 name.\<close>

definition selector :: "EnvReader \<Rightarrow> bool \<Rightarrow> string \<Rightarrow> string \<Rightarrow> (string \<Rightarrow> string \<Rightarrow> Config \<Rightarrow> Config res) \<Rightarrow> Config \<Rightarrow> Config res" where
  "selector env legacy key legacyKey f c =
     (case getEnv env key of
        Some v \<Rightarrow> f key v c
      | None \<Rightarrow> (case getEnv env legacyKey of
                   Some v \<Rightarrow> if legacy then f legacyKey v c else Inr c
                 | None \<Rightarrow> Inr c))"

definition countSelectors :: "Config \<Rightarrow> nat" where
  "countSelectors c = (if cardId c \<noteq> None then 1 else 0) + (if cardName c \<noteq> None then 1 else 0) + (if cardIndex c \<noteq> None then 1 else 0)"

definition selectorStep :: "Config \<Rightarrow> Config res" where
  "selectorStep c =
     (let n = countSelectors c; c = (if n = 0 then c\<lparr>cardIndex := Some 0\<rparr> else c) in failIf (n > 1) ManySelectors c)"

definition profiles :: "(string \<times> CardProfile) list" where
  "profiles = [(''one-full-duplex'', OneFullDuplex), (''two-half-duplex'', TwoHalfDuplex),
     (''four-half-duplex'', FourHalfDuplex), (''one-half-duplex'', OneHalfDuplex)]"

definition profileName :: "CardProfile \<Rightarrow> string" where
  "profileName p = (case p of OneFullDuplex \<Rightarrow> ''one-full-duplex'' | TwoHalfDuplex \<Rightarrow> ''two-half-duplex''
     | FourHalfDuplex \<Rightarrow> ''four-half-duplex'' | OneHalfDuplex \<Rightarrow> ''one-half-duplex'')"

definition sdiLevelName :: "SdiLevel \<Rightarrow> string" where
  "sdiLevelName l = (case l of LevelA \<Rightarrow> ''A'' | LevelB \<Rightarrow> ''B'' | Driver \<Rightarrow> ''driver'')"

definition domainIdValue :: "string \<Rightarrow> string \<Rightarrow> Config \<Rightarrow> Config res" where
  "domainIdValue key v c =
     bindR (parseUuidOrFail key v) (\<lambda>u. failIf (isNil u) (NilFlow key) (c\<lparr>outputDomainId := toString u\<rparr>))"

definition cpuListValue :: "string \<Rightarrow> Config \<Rightarrow> Config res" where
  "cpuListValue v c = (case parseCpuList v of None \<Rightarrow> Inl (BadCpuList v) | Some l \<Rightarrow> Inr (c\<lparr>cpuPinList := Some l\<rparr>))"

fun tagValues :: "json list \<Rightarrow> string list res" where
  "tagValues [] = Inr []"
| "tagValues (JStr s # js) = bindR (tagValues js) (\<lambda>vs. Inr (s # vs))"
| "tagValues (_ # js) = Inl BadTags"

fun tagObject :: "(string \<times> json) list \<Rightarrow> (string \<times> string list) list res" where
  "tagObject [] = Inr []"
| "tagObject ((name, JArr js) # rest) =
     bindR (tagValues js) (\<lambda>vs. bindR (tagObject rest) (\<lambda>ts. Inr ((name, vs) # ts)))"
| "tagObject (_ # rest) = Inl BadTags"

definition tagsValue :: "(string \<Rightarrow> json option) \<Rightarrow> string \<Rightarrow> Config \<Rightarrow> Config res" where
  "tagsValue parseJson v c =
     (case parseJson v of
        Some (JObj o1) \<Rightarrow> bindR (tagObject o1) (\<lambda>ts. Inr (c\<lparr>nmosTags := ts\<rparr>))
      | _ \<Rightarrow> Inl BadTags)"

definition hostAddressValue :: "(string \<Rightarrow> bool) \<Rightarrow> string \<Rightarrow> Config \<Rightarrow> Config res" where
  "hostAddressValue isIpLiteral v c =
     failIf (\<not> isIpLiteral v \<or> v = ''0.0.0.0'' \<or> starts_with v ''127.'' \<or> v = ''::1'') (BadHostAddress v)
       (c\<lparr>nmosHostAddress := v\<rparr>)"

definition queryDefaults :: "Config \<Rightarrow> Config res" where
  "queryDefaults c =
     (let c = (if nmosQueryAddress c = [] then c\<lparr>nmosQueryAddress := nmosRegistryAddress c\<rparr> else c)
      in Inr (if nmosQueryPort c < 0 then c\<lparr>nmosQueryPort := nmosRegistryPort c + 1\<rparr> else c))"

definition portsStep :: "Config \<Rightarrow> Config res" where
  "portsStep c = failIf (nmosEnable c \<and> (nmosPort c = webPort c \<or> nmosPort c + 1 = webPort c)) (PortOverlap (nmosPort c) (webPort c)) c"

definition removedPortsStep :: "EnvReader \<Rightarrow> Config \<Rightarrow> Config res" where
  "removedPortsStep env c = failIf (hasEnv env ''HEALTH_PORT'' \<or> hasEnv env ''METRICS_PORT'') RemovedPorts c"

definition configFileStep :: "EnvReader \<Rightarrow> Config \<Rightarrow> Config res" where
  "configFileStep env c =
     Inr (c\<lparr>configFile := Some (case getEnv env ''MXL_CONFIG_FILE'' of Some v \<Rightarrow> v | None \<Rightarrow> configDir c @ ''/mxl-decklink.json'')\<rparr>)"

definition oneOf :: "string \<Rightarrow> string list \<Rightarrow> (string \<Rightarrow> Config \<Rightarrow> Config) \<Rightarrow> string \<Rightarrow> Config \<Rightarrow> Config res" where
  "oneOf key vs upd v c = failIf (v \<notin> set vs) (BadChoice key v) (upd v c)"

definition selectionSteps :: "EnvReader \<Rightarrow> bool \<Rightarrow> (Config \<Rightarrow> Config res) list" where
  "selectionSteps env legacy =
     [selector env legacy ''MXL_DECKLINK_CARD_ID'' ''DECKLINK_DEVICE_ID''
        (\<lambda>key v c. bindR (parseHex32 key v) (\<lambda>n. Inr (c\<lparr>cardId := Some n\<rparr>))),
      selector env legacy ''MXL_DECKLINK_CARD_NAME'' ''DECKLINK_DEVICE_NAME'' (\<lambda>key v c. Inr (c\<lparr>cardName := Some v\<rparr>)),
      selector env legacy ''MXL_DECKLINK_CARD_INDEX'' ''DECKLINK_DEVICE_INDEX''
        (\<lambda>key v c. bindR (parseInt key v 0 63) (\<lambda>n. Inr (c\<lparr>cardIndex := Some n\<rparr>))),
      selectorStep]"

definition domainSteps :: "EnvReader \<Rightarrow> (Config \<Rightarrow> Config res) list" where
  "domainSteps env =
     [setting env ''MXL_DECKLINK_CARD_PROFILE'' (choice ''MXL_DECKLINK_CARD_PROFILE'' profiles (\<lambda>p c. c\<lparr>cardProfile := Some p\<rparr>)),
      setting env ''MXL_DOMAIN_PATH'' (textValue (\<lambda>v c. c\<lparr>domainPath := v\<rparr>)),
      setting env ''MXL_OUTPUT_DOMAIN_DIR'' (textValue (\<lambda>v c. c\<lparr>domainPath := v\<rparr>)),
      setting env ''MXL_OUTPUT_DOMAIN_ID'' (domainIdValue ''MXL_OUTPUT_DOMAIN_ID''),
      setting env ''MXL_HISTORY_DURATION_MS'' (intValue ''MXL_HISTORY_DURATION_MS'' 1 60000
        (\<lambda>n c. c\<lparr>historyDurationNs := Some (of_int n * 1000000)\<rparr>)),
      setting env ''MXL_TIMESTAMP_SOURCE'' (choice ''MXL_TIMESTAMP_SOURCE'' [(''hardware'', Hardware), (''host'', Host)]
        (\<lambda>t c. c\<lparr>timestampSource := t\<rparr>)),
      setting env ''MXL_HUGEPAGE_PATH'' (textValue (\<lambda>v c. c\<lparr>hugepagePath := Some v\<rparr>)),
      setting env ''MXL_CPU_PIN_LIST'' cpuListValue,
      setting env ''MXL_REALTIME_PRIORITY'' (intValue ''MXL_REALTIME_PRIORITY'' 1 99 (\<lambda>n c. c\<lparr>realtimePriority := n\<rparr>)),
      setting env ''RT_SCHED'' (boolValue ''RT_SCHED'' (\<lambda>b c. c\<lparr>rtSched := b\<rparr>)),
      setting env ''MXL_PTP_INTERFACE'' (textValue (\<lambda>v c. c\<lparr>ptpInterface := Some v\<rparr>)),
      setting env ''WEB_ENABLE'' (boolValue ''WEB_ENABLE'' (\<lambda>b c. c\<lparr>webEnable := b\<rparr>)),
      setting env ''WEB_PORT'' (intValue ''WEB_PORT'' 1 65535 (\<lambda>n c. c\<lparr>webPort := n\<rparr>))]"

definition nmosSteps :: "(string \<Rightarrow> json option) \<Rightarrow> (string \<Rightarrow> bool) \<Rightarrow> EnvReader \<Rightarrow> (Config \<Rightarrow> Config res) list" where
  "nmosSteps parseJson isIpLiteral env =
     [setting env ''NMOS_ENABLE'' (boolValue ''NMOS_ENABLE'' (\<lambda>b c. c\<lparr>nmosEnable := b\<rparr>)),
      setting env ''NMOS_PORT'' (intValue ''NMOS_PORT'' 1 65535 (\<lambda>n c. c\<lparr>nmosPort := n\<rparr>)),
      setting env ''NMOS_LABEL'' (textValue (\<lambda>v c. c\<lparr>nmosLabel := v\<rparr>)),
      setting env ''NMOS_REGISTRY_ADDRESS'' (textValue (\<lambda>v c. c\<lparr>nmosRegistryAddress := v\<rparr>)),
      setting env ''NMOS_REGISTRY_PORT'' (intValue ''NMOS_REGISTRY_PORT'' 1 65535 (\<lambda>n c. c\<lparr>nmosRegistryPort := n\<rparr>)),
      setting env ''NMOS_SEED'' (textValue (\<lambda>v c. c\<lparr>nmosSeed := v\<rparr>)),
      setting env ''NMOS_TAGS'' (tagsValue parseJson),
      setting env ''NMOS_QUERY_ADDRESS'' (textValue (\<lambda>v c. c\<lparr>nmosQueryAddress := v\<rparr>)),
      setting env ''NMOS_QUERY_PORT'' (intValue ''NMOS_QUERY_PORT'' 1 65535 (\<lambda>n c. c\<lparr>nmosQueryPort := n\<rparr>)),
      setting env ''NMOS_DNS_SD'' (boolValue ''NMOS_DNS_SD'' (\<lambda>b c. c\<lparr>nmosDnsSd := b\<rparr>)),
      setting env ''NMOS_RESUME_CONNECTIONS'' (boolValue ''NMOS_RESUME_CONNECTIONS'' (\<lambda>b c. c\<lparr>nmosResumeConnections := b\<rparr>)),
      setting env ''NMOS_HOST_ADDRESS'' (hostAddressValue isIpLiteral),
      queryDefaults]"

definition processSteps :: "EnvReader \<Rightarrow> (Config \<Rightarrow> Config res) list" where
  "processSteps env =
     [setting env ''CONFIG_DIR'' (textValue (\<lambda>v c. c\<lparr>configDir := v\<rparr>)),
      setting env ''MXL_CLEANUP_ON_EXIT'' (boolValue ''MXL_CLEANUP_ON_EXIT'' (\<lambda>b c. c\<lparr>cleanupOnExit := b\<rparr>)),
      portsStep, removedPortsStep env, configFileStep env,
      setting env ''MXL_DOMAIN_SCAN_PATH'' (textValue (\<lambda>v c. c\<lparr>domainScanPath := v\<rparr>)),
      setting env ''MXL_HEALTH_MIN_HEALTHY_CHANNELS''
        (intValue ''MXL_HEALTH_MIN_HEALTHY_CHANNELS'' 0 (int kMaxChannels) (\<lambda>n c. c\<lparr>minHealthyChannels := n\<rparr>)),
      setting env ''SIGNAL_LOSS_TIMEOUT_S'' (intValue ''SIGNAL_LOSS_TIMEOUT_S'' 1 86400 (\<lambda>n c. c\<lparr>signalLossTimeoutS := n\<rparr>)),
      setting env ''STARTUP_MAX_RETRIES'' (intValue ''STARTUP_MAX_RETRIES'' 0 1000 (\<lambda>n c. c\<lparr>startupMaxRetries := n\<rparr>)),
      setting env ''SHUTDOWN_TIMEOUT_S'' (intValue ''SHUTDOWN_TIMEOUT_S'' 1 600 (\<lambda>n c. c\<lparr>shutdownTimeoutS := n\<rparr>)),
      setting env ''LOG_LEVEL'' (oneOf ''LOG_LEVEL'' [''trace'', ''debug'', ''info'', ''warn'', ''error''] (\<lambda>v c. c\<lparr>logLevel := v\<rparr>)),
      setting env ''LOG_FORMAT'' (oneOf ''LOG_FORMAT'' [''json'', ''text''] (\<lambda>v c. c\<lparr>logFormat := v\<rparr>)),
      setting env ''DECKLINK_LIB_MODE'' (choice ''DECKLINK_LIB_MODE'' [(''bundled'', Bundled), (''hostmount'', HostMount)]
        (\<lambda>m c. c\<lparr>libMode := m\<rparr>)),
      setting env ''MXL_DECKLINK_BACKEND'' (oneOf ''MXL_DECKLINK_BACKEND'' [''sdk'', ''mock''] (\<lambda>v c. c\<lparr>backend := v\<rparr>))]"

fun parseChannels :: "EnvReader \<Rightarrow> nat list \<Rightarrow> ChannelConfig list res" where
  "parseChannels env [] = Inr []"
| "parseChannels env (i # is) =
     bindR (parseChannel env (int i) (chPrefix i)) (\<lambda>ch. bindR (parseChannels env is) (\<lambda>chs. Inr (ch # chs)))"

definition channelsStep :: "EnvReader \<Rightarrow> bool \<Rightarrow> nat list \<Rightarrow> Config \<Rightarrow> Config res" where
  "channelsStep env legacy indices c =
     bindR (if legacy then bindR (parseLegacyChannel env) (\<lambda>ch. Inr [ch]) else parseChannels env indices)
       (\<lambda>chs. Inr (c\<lparr>channels := chs\<rparr>))"

subsection \<open>Validation across channels\<close>

fun checkSubdevices :: "ChannelConfig list \<Rightarrow> (int \<times> Direction) list \<Rightarrow> unit res" where
  "checkSubdevices [] seen = Inr ()"
| "checkSubdevices (ch # chs) seen =
     (if (subdeviceIndex ch, direction ch) \<in> set seen then Inl (SubdeviceTwice (subdeviceIndex ch) (direction ch = Input))
      else checkSubdevices chs ((subdeviceIndex ch, direction ch) # seen))"

definition checkUnique :: "string list \<Rightarrow> Uuid \<Rightarrow> string list res" where
  "checkUnique uuids u =
     (if isNil u then Inr uuids
      else if toString u \<in> set uuids then Inl (DuplicateFlow (toString u))
      else Inr (toString u # uuids))"

fun checkAll :: "Uuid list \<Rightarrow> string list \<Rightarrow> string list res" where
  "checkAll [] uuids = Inr uuids"
| "checkAll (u # us) uuids = bindR (checkUnique uuids u) (checkAll us)"

definition flowIds :: "ChannelConfig \<Rightarrow> Uuid list" where
  "flowIds ch = videoFlowId ch # map af_flowId (filter (\<lambda>af. \<not> isNil (af_flowId af)) (audioFlows ch)) @
     (case ancFlowId ch of None \<Rightarrow> [] | Some u \<Rightarrow> [u])"

fun checkFlows :: "ChannelConfig list \<Rightarrow> string list \<times> string list \<Rightarrow> unit res" where
  "checkFlows [] uuids = Inr ()"
| "checkFlows (ch # chs) (writers, readers) =
     (if direction ch = Input
      then bindR (checkAll (flowIds ch) writers) (\<lambda>ws. checkFlows chs (ws, readers))
      else bindR (checkAll (flowIds ch) readers) (\<lambda>rs. checkFlows chs (writers, rs)))"

definition validateCrossChannel :: "Config \<Rightarrow> Config res" where
  "validateCrossChannel c =
     bindR (checkSubdevices (channels c) []) (\<lambda>_. bindR (checkFlows (channels c) ([], [])) (\<lambda>_. Inr c))"

definition minHealthyStep :: "Config \<Rightarrow> Config res" where
  "minHealthyStep c =
     (if minHealthyChannels c > int (length (channels c)) then
        (if channels c = [] then Inr (c\<lparr>minHealthyChannels := 0\<rparr>)
         else Inl (TooFewChannels (minHealthyChannels c) (length (channels c))))
      else Inr c)"

definition loadConfig :: "(string \<Rightarrow> json option) \<Rightarrow> (string \<Rightarrow> bool) \<Rightarrow> EnvReader \<Rightarrow> Config res" where
  "loadConfig parseJson isIpLiteral env =
     (let indices = presentChannelIndices env; legacyPresent = presentLegacyVars env in
      if indices \<noteq> [] \<and> legacyPresent \<noteq> [] then Inl (MixedStyles (hd legacyPresent))
      else
        let legacy = (indices = [] \<and> legacyPresent \<noteq> []) in
        runSteps (selectionSteps env legacy @ domainSteps env @ nmosSteps parseJson isIpLiteral env @ processSteps env @
            [channelsStep env legacy indices, validateCrossChannel, minHealthyStep])
          (defaultConfig\<lparr>legacyMode := legacy\<rparr>))"

definition effectiveGrainCount :: "ChannelConfig \<Rightarrow> int" where
  "effectiveGrainCount ch =
     (if ch_grainCount ch > 0 then ch_grainCount ch
      else if (case videoMode ch of Some m \<Rightarrow> vm_width m > 1920 | None \<Rightarrow> False) then 8 else 12)"

definition globalPartEquals :: "Config \<Rightarrow> Config \<Rightarrow> bool" where
  "globalPartEquals a b \<longleftrightarrow>
     cardId a = cardId b \<and> cardName a = cardName b \<and> cardIndex a = cardIndex b \<and> cardProfile a = cardProfile b \<and>
     domainPath a = domainPath b \<and> timestampSource a = timestampSource b \<and> hugepagePath a = hugepagePath b \<and>
     cpuPinList a = cpuPinList b \<and> realtimePriority a = realtimePriority b \<and> rtSched a = rtSched b \<and>
     ptpInterface a = ptpInterface b \<and> webEnable a = webEnable b \<and> webPort a = webPort b \<and> nmosEnable a = nmosEnable b \<and>
     nmosPort a = nmosPort b \<and> nmosLabel a = nmosLabel b \<and> nmosSeed a = nmosSeed b \<and> nmosTags a = nmosTags b \<and>
     nmosRegistryAddress a = nmosRegistryAddress b \<and> nmosRegistryPort a = nmosRegistryPort b \<and>
     nmosQueryAddress a = nmosQueryAddress b \<and> nmosQueryPort a = nmosQueryPort b \<and> nmosDnsSd a = nmosDnsSd b \<and>
     nmosResumeConnections a = nmosResumeConnections b \<and> nmosHostAddress a = nmosHostAddress b \<and>
     outputDomainId a = outputDomainId b \<and> historyDurationNs a = historyDurationNs b \<and> configDir a = configDir b \<and>
     cleanupOnExit a = cleanupOnExit b \<and> domainScanPath a = domainScanPath b \<and>
     minHealthyChannels a = minHealthyChannels b \<and> signalLossTimeoutS a = signalLossTimeoutS b \<and>
     startupMaxRetries a = startupMaxRetries b \<and> shutdownTimeoutS a = shutdownTimeoutS b \<and> logLevel a = logLevel b \<and>
     logFormat a = logFormat b \<and> libMode a = libMode b \<and> backend a = backend b"

end
