(* ===== verification/InputChannel.thy ===== *)
theory InputChannel
  imports Writers V210 TaiClock ChannelState Config
begin

text \<open>
  \<open>src/channel/input_channel.hpp\<close> and \<open>input_channel.cpp\<close>: a capture channel, from DeckLink frames to
  the grains of its MXL flows.

  The channel has two kinds of threads: the supervisor, which brings the stream up, changes the format and resets
  the stream after a signal loss, and the callbacks of the card.  A callback is one step.  The supervisor is a
  machine over a program counter (\<open>InPc\<close>): it stops between two steps wherever the code sleeps or where a
  callback may run in between.  The answers of the card, the clocks and MXL come from \<open>InEnv\<close> at the current
  tick, as for the writers.  Log lines, thread attributes and the two latency histograms are left out; counters
  are natural numbers.
\<close>

subsection \<open>Interface of the card\<close>

record VideoFrameView =
  vf_bytes :: "u8 list"
  vf_rowBytes :: nat
  vf_width :: u32
  vf_height :: u32
  hasNoInputSource :: bool
  hasHardwareTimestamp :: bool
  hardwareTimestampNs :: u64
  ancPackets :: "AncPacket list"

record AudioPacketView =
  pk_samples :: "int list"
  pk_sampleFrames :: nat

record FormatChange =
  fc_newMode :: VideoMode
  fc_is10Bit :: bool

record CaptureParams =
  cp_mode :: VideoMode
  cp_enableFormatDetection :: bool
  cp_pixelFormat :: PixelFormat
  cp_audioEnable :: bool
  cp_audioChannelCount :: int
  cp_audioSampleType :: AudioSampleType
  cp_collectAncPackets :: bool

record InEnv =
  ie_mxl :: MxlEnv
  ie_taiNowNs :: "nat \<Rightarrow> u64"
  ie_supportsMode :: "nat \<Rightarrow> VideoMode \<Rightarrow> bool"
  ie_openCapture :: "nat \<Rightarrow> bool"
  ie_enable :: "nat \<Rightarrow> CaptureParams \<Rightarrow> string option"
  ie_start :: "nat \<Rightarrow> string option"
  ie_hardwareClockNowNs :: "nat \<Rightarrow> u64 option"
  ie_changeMode :: "nat \<Rightarrow> VideoMode \<Rightarrow> string option"
  ie_signalLocked :: "nat \<Rightarrow> bool"
  ie_timestampToIndex :: "mxlRational \<Rightarrow> u64 \<Rightarrow> u64"

subsection \<open>State\<close>

record AudioFlowWriter =
  fw_cfg :: AudioFlowConfig
  fw_flowId :: Uuid
  fw_writer :: AudioWriter

record RuntimeFlows =
  rf_videoId :: string
  rf_audioIds :: "(int \<times> string) list"
  rf_ancId :: "string option"
  rf_mode :: VideoMode

text \<open>Where the supervisor is: at the head of its loop, in the wait after a failed bring-up (milliseconds left),
  before the format change, in the grace period of one, before the signal-loss check, or ended.\<close>

datatype InPc = AtTop | Waiting nat | AtPending | InGrace VideoMode | AtLoss | Ended

record InputChannel =
  in_globalCfg :: Config
  in_cfg :: ChannelConfig
  in_cardIdLabel :: string
  in_status :: Status
  in_capture :: bool
  in_videoWriter :: "VideoWriter option"
  in_audioFlows :: "AudioFlowWriter list"
  in_ancWriter :: "AncWriter option"
  in_writersValid :: bool
  in_currentMode :: VideoMode
  in_hwCalibrator :: HardwareClockCalibrator
  in_useHardwareTimestamps :: bool
  in_nextAudioEndIndex :: u64
  in_audioIndexValid :: bool
  in_conversionBuffer :: "u8 list"
  in_signalLossSinceTai :: u64
  in_pendingFormatChange :: "FormatChange option"
  in_formatChangeCounter :: nat
  in_running :: bool
  in_streamingUp :: bool
  in_pc :: InPc
  in_attempt :: nat
  in_ring :: Ring
  in_announced :: "RuntimeFlows list"
  in_framesTotal :: nat
  in_framesDropped :: nat
  in_signalLostTotal :: nat
  in_formatChangesTotal :: nat
  in_reconnectTotal :: nat
  in_grainsCommitted :: nat
  in_grainsWrittenBytes :: nat
  in_signalLockGauge :: bool
  in_headIndexGauge :: u64
  in_flowWriterActive :: bool

definition newInputChannel :: "Config \<Rightarrow> ChannelConfig \<Rightarrow> string \<Rightarrow> VideoMode \<Rightarrow> InputChannel" where
  "newInputChannel global c cardLabel m =
     \<lparr>in_globalCfg = global, in_cfg = c, in_cardIdLabel = cardLabel,
      in_status = newStatus\<lparr>activeVideoFlowId := toString (videoFlowId c)\<rparr>, in_capture = False,
      in_videoWriter = None, in_audioFlows = [], in_ancWriter = None, in_writersValid = False, in_currentMode = m,
      in_hwCalibrator = newCalibrator 60000000000 1000000,
      in_useHardwareTimestamps = (timestampSource global = Hardware),
      in_nextAudioEndIndex = 0, in_audioIndexValid = False, in_conversionBuffer = [], in_signalLossSinceTai = 0,
      in_pendingFormatChange = None, in_formatChangeCounter = 0, in_running = False, in_streamingUp = False,
      in_pc = Ended, in_attempt = 0, in_ring = \<lparr>rg_tick = 0, rg_ops = [], rg_live = []\<rparr>, in_announced = [],
      in_framesTotal = 0, in_framesDropped = 0, in_signalLostTotal = 0, in_formatChangesTotal = 0,
      in_reconnectTotal = 0, in_grainsCommitted = 0, in_grainsWrittenBytes = 0, in_signalLockGauge = False,
      in_headIndexGauge = 0, in_flowWriterActive = False\<rparr>"

text \<open>The backoff schedule of \<open>kBackoffMs\<close>.\<close>

definition kBackoffMs :: "nat list" where
  "kBackoffMs = [500, 1000, 2000, 5000, 10000]"

definition backoffForAttempt :: "nat \<Rightarrow> nat" where
  "backoffForAttempt attempt =
     (let n = length kBackoffMs in kBackoffMs ! (if attempt < n then attempt else n - 1))"

definition autoStartMode :: VideoMode where
  "autoStartMode = the (lookupVideoMode ''HD1080p50'')"

text \<open>One call of the environment.\<close>

definition in_tick :: "InputChannel \<Rightarrow> nat" where
  "in_tick s = rg_tick (in_ring s)"

definition in_ticked :: "InputChannel \<Rightarrow> InputChannel" where
  "in_ticked s = s\<lparr>in_ring := rtick (in_ring s)\<rparr>"

definition in_taiNow :: "InEnv \<Rightarrow> InputChannel \<Rightarrow> u64 \<times> InputChannel" where
  "in_taiNow e s = (ie_taiNowNs e (in_tick s), in_ticked s)"

definition setState_in :: "State \<Rightarrow> InputChannel \<Rightarrow> InputChannel" where
  "setState_in st s = s\<lparr>in_status := (in_status s)\<lparr>st_state := st\<rparr>\<rparr>"

subsection \<open>Writers\<close>

definition channelName :: "InputChannel \<Rightarrow> string" where
  "channelName s = in_cardIdLabel s @ ''-ch'' @ int_to_string (ch_index (in_cfg s))"

definition videoFlowParams :: "VideoMode \<Rightarrow> Uuid \<Rightarrow> InputChannel \<Rightarrow> VideoFlowParams" where
  "videoFlowParams m videoId s =
     (let c = in_cfg s in
      \<lparr>vp_id = videoId, vp_label = (if videoFlowLabel c = [] then channelName s @ ''-video'' else videoFlowLabel c),
       vp_description = ''mxl-decklink input channel '' @ int_to_string (ch_index c) @ '' video'',
       vp_groupHint = groupHint c @ '':Video'', vp_sourceId = sourceId c, vp_deviceId = deviceId c,
       vp_width = vm_width m, vp_height = vm_height m, vp_rateNumerator = vm_rateNumerator m,
       vp_rateDenominator = vm_rateDenominator m, vp_interlaced = vm_interlaced m,
       vp_bottomFieldFirst = vm_bottomFieldFirst m, vp_withAlpha = (pixelFormat c = YUVA10)\<rparr>)"

definition audioFlowParams :: "AudioFlowConfig \<Rightarrow> Uuid \<Rightarrow> InputChannel \<Rightarrow> AudioFlowParams" where
  "audioFlowParams af flow s =
     (let c = in_cfg s in
      \<lparr>ap_id = flow,
       ap_label = (if af_label af = [] then channelName s @ ''-audio'' @ int_to_string (af_index af + 1) else af_label af),
       ap_description = ''mxl-decklink input channel '' @ int_to_string (ch_index c) @ '' audio flow '' @
         int_to_string (af_index af),
       ap_groupHint = groupHint c @ '':Audio'', ap_sourceId = sourceId c, ap_deviceId = deviceId c,
       ap_channelCount = of_int (af_channelCount af)\<rparr>)"

definition ancFlowParams :: "VideoMode \<Rightarrow> Uuid \<Rightarrow> InputChannel \<Rightarrow> AncFlowParams" where
  "ancFlowParams m flow s =
     (let c = in_cfg s in
      \<lparr>np_id = flow, np_label = channelName s @ ''-anc'',
       np_description = ''mxl-decklink input channel '' @ int_to_string (ch_index c) @ '' ancillary data'',
       np_groupHint = groupHint c @ '':ANC'', np_sourceId = sourceId c, np_deviceId = deviceId c,
       np_rateNumerator = (if vm_interlaced m then 2 * vm_rateNumerator m else vm_rateNumerator m),
       np_rateDenominator = vm_rateDenominator m\<rparr>)"

text \<open>A creation step gives the exception it throws, if any, and the state it leaves.\<close>

definition createVideo :: "InEnv \<Rightarrow> VideoMode \<Rightarrow> Uuid \<Rightarrow> InputChannel \<Rightarrow> WriterError option \<times> InputChannel" where
  "createVideo e m videoId s =
     (if videoMxlActive (in_cfg s) \<and> \<not> isNil videoId then
        case newVideoWriter (ie_mxl e) (videoFlowParams m videoId s) (commitBatchHintVideo (in_cfg s)) (in_ring s) of
          (Inl err, r) \<Rightarrow> (Some err, s\<lparr>in_ring := r\<rparr>)
        | (Inr w, r) \<Rightarrow>
            (None, s\<lparr>in_videoWriter := Some w,
                     in_ring := (case in_videoWriter s of None \<Rightarrow> r | Some old \<Rightarrow> deleteVideoWriter old r)\<rparr>)
      else (None, s))"

definition clearAudioFlows :: "InputChannel \<Rightarrow> InputChannel" where
  "clearAudioFlows s =
     s\<lparr>in_audioFlows := [], in_ring := fold (\<lambda>fw. deleteAudioWriter (fw_writer fw)) (in_audioFlows s) (in_ring s)\<rparr>"

fun createAudio :: "InEnv \<Rightarrow> (AudioFlowConfig \<times> Uuid) list \<Rightarrow> InputChannel \<Rightarrow> WriterError option \<times> InputChannel" where
  "createAudio e [] s = (None, s)"
| "createAudio e ((af, flow) # rest) s =
     (if isNil flow \<or> \<not> af_mxlActive af then createAudio e rest s
      else case newAudioWriter (ie_mxl e) (audioFlowParams af flow s) (commitBatchHintAudio (in_cfg s)) (in_ring s) of
             (Inl err, r) \<Rightarrow> (Some err, s\<lparr>in_ring := r\<rparr>)
           | (Inr w, r) \<Rightarrow>
               createAudio e rest
                 (s\<lparr>in_audioFlows := in_audioFlows s @ [\<lparr>fw_cfg = af, fw_flowId = flow, fw_writer = w\<rparr>], in_ring := r\<rparr>))"

definition audioFlowIds :: "ChannelConfig \<Rightarrow> Uuid list \<Rightarrow> (AudioFlowConfig \<times> Uuid) list" where
  "audioFlowIds c ids =
     map (\<lambda>i. let af = audioFlows c ! i in (af, if i < length ids then ids ! i else af_flowId af)) [0..<length (audioFlows c)]"

definition createAnc :: "InEnv \<Rightarrow> VideoMode \<Rightarrow> Uuid option \<Rightarrow> InputChannel \<Rightarrow> WriterError option \<times> InputChannel" where
  "createAnc e m ancId s =
     (case ancId of
        None \<Rightarrow> (None, s)
      | Some flow \<Rightarrow>
          if ancEnable (in_cfg s) \<and> ancMxlActive (in_cfg s) \<and> \<not> isNil flow then
            case newAncWriter (ie_mxl e) (ancFlowParams m flow s) (in_ring s) of
              (Inl err, r) \<Rightarrow> (Some err, s\<lparr>in_ring := r\<rparr>)
            | (Inr w, r) \<Rightarrow>
                (None, s\<lparr>in_ancWriter := Some w,
                         in_ring := (case in_ancWriter s of None \<Rightarrow> r | Some old \<Rightarrow> deleteAncWriter old r)\<rparr>)
          else (None, s))"

definition anyWriter :: "InputChannel \<Rightarrow> bool" where
  "anyWriter s \<longleftrightarrow> in_videoWriter s \<noteq> None \<or> in_audioFlows s \<noteq> [] \<or> in_ancWriter s \<noteq> None"

definition createWriters ::
    "InEnv \<Rightarrow> VideoMode \<Rightarrow> Uuid \<Rightarrow> Uuid list \<Rightarrow> Uuid option \<Rightarrow> InputChannel \<Rightarrow> WriterError option \<times> InputChannel" where
  "createWriters e m videoId audioIds ancId s =
     (case createVideo e m videoId s of
        (Some err, s) \<Rightarrow> (Some err, s)
      | (None, s) \<Rightarrow>
          (let s = clearAudioFlows s in
           case (if audioEnable (in_cfg s) then createAudio e (audioFlowIds (in_cfg s) audioIds) s else (None, s)) of
             (Some err, s) \<Rightarrow> (Some err, s)
           | (None, s) \<Rightarrow>
               (case createAnc e m ancId s of
                  (Some err, s) \<Rightarrow> (Some err, s)
                | (None, s) \<Rightarrow> (None, s\<lparr>in_writersValid := anyWriter s, in_flowWriterActive := anyWriter s\<rparr>))))"

definition destroyWriters :: "InputChannel \<Rightarrow> InputChannel" where
  "destroyWriters s =
     (let s = s\<lparr>in_writersValid := False\<rparr>;
          s = s\<lparr>in_videoWriter := None,
                in_ring := (case in_videoWriter s of None \<Rightarrow> in_ring s | Some w \<Rightarrow> deleteVideoWriter w (in_ring s))\<rparr>;
          s = clearAudioFlows s;
          s = s\<lparr>in_ancWriter := None,
                in_ring := (case in_ancWriter s of None \<Rightarrow> in_ring s | Some w \<Rightarrow> deleteAncWriter w (in_ring s))\<rparr>
      in s\<lparr>in_flowWriterActive := False\<rparr>)"

subsection \<open>Bringing the stream up and down\<close>

definition tearDownStreaming_in :: "InputChannel \<Rightarrow> InputChannel" where
  "tearDownStreaming_in s = destroyWriters (s\<lparr>in_streamingUp := False, in_capture := False\<rparr>)"

definition captureParams :: "InputChannel \<Rightarrow> CaptureParams" where
  "captureParams s =
     (let c = in_cfg s in
      \<lparr>cp_mode = in_currentMode s, cp_enableFormatDetection = isAutoMode c, cp_pixelFormat = pixelFormat c,
       cp_audioEnable = audioEnable c, cp_audioChannelCount = audioChannelCount c,
       cp_audioSampleType = audioSampleType c, cp_collectAncPackets = ancEnable c\<rparr>)"

text \<open>The initial clock calibration; without a hardware clock the channel falls back to host timestamps.\<close>

definition calibrateInitially :: "InEnv \<Rightarrow> InputChannel \<Rightarrow> InputChannel" where
  "calibrateInitially e s =
     (if in_useHardwareTimestamps s then
        case ie_hardwareClockNowNs e (in_tick s) of
          Some hwNow \<Rightarrow>
            (let (now, s) = in_taiNow e (in_ticked s) in
             s\<lparr>in_hwCalibrator := snd (calibrate (in_hwCalibrator s) hwNow now)\<rparr>)
        | None \<Rightarrow> (in_ticked s)\<lparr>in_useHardwareTimestamps := False\<rparr>
      else s)"

text \<open>The last part of \<open>bringUp\<close>, from the opened capture session on.\<close>

definition startCapture :: "InEnv \<Rightarrow> InputChannel \<Rightarrow> bool \<times> InputChannel" where
  "startCapture e s =
     (case ie_enable e (in_tick s) (captureParams s) of
        Some err \<Rightarrow> (False, destroyWriters ((in_ticked s)\<lparr>in_capture := False\<rparr>))
      | None \<Rightarrow>
          (let s = calibrateInitially e (in_ticked s) in
           case ie_start e (in_tick s) of
             Some err \<Rightarrow> (False, destroyWriters ((in_ticked s)\<lparr>in_capture := False\<rparr>))
           | None \<Rightarrow>
               (True, setState_in Healthy ((in_ticked s)\<lparr>in_audioIndexValid := False, in_streamingUp := True\<rparr>))))"

definition bringUp_in :: "InEnv \<Rightarrow> InputChannel \<Rightarrow> bool \<times> InputChannel" where
  "bringUp_in e s =
     (let s = setState_in Init s;
          c = in_cfg s;
          m = (if isAutoMode c then autoStartMode else the (videoMode c));
          s = s\<lparr>in_currentMode := m, in_status := (in_status s)\<lparr>activeModeName := vm_name m\<rparr>\<rparr>
      in if \<not> isAutoMode c \<and> \<not> ie_supportsMode e (in_tick s) m then (False, in_ticked s)
         else
           let s = (if isAutoMode c then s else in_ticked s) in
           case createWriters e m (videoFlowId c) (map af_flowId (audioFlows c)) (ancFlowId c) s of
             (Some err, s) \<Rightarrow> (False, destroyWriters (s\<lparr>in_capture := False\<rparr>))
           | (None, s) \<Rightarrow>
               if \<not> ie_openCapture e (in_tick s) then (False, destroyWriters ((in_ticked s)\<lparr>in_capture := False\<rparr>))
               else startCapture e ((in_ticked s)\<lparr>in_capture := True\<rparr>))"

subsection \<open>Frames\<close>

definition frameTimestampTai :: "InEnv \<Rightarrow> VideoFrameView \<Rightarrow> InputChannel \<Rightarrow> u64 \<times> InputChannel" where
  "frameTimestampTai e v s =
     (if in_useHardwareTimestamps s \<and> hasHardwareTimestamp v \<and> isCalibrated (in_hwCalibrator s)
      then (toTai (in_hwCalibrator s) (hardwareTimestampNs v), s) else in_taiNow e s)"

text \<open>No signal: the channel notes when the loss began and is degraded; the frame is not written.\<close>

definition noteSignalLoss :: "u64 \<Rightarrow> InputChannel \<Rightarrow> InputChannel" where
  "noteSignalLoss callbackStart s =
     (let s = (if in_signalLossSinceTai s = 0
               then setState_in Degraded (s\<lparr>in_signalLossSinceTai := callbackStart, in_signalLostTotal := in_signalLostTotal s + 1\<rparr>)
               else s)
      in s\<lparr>in_status := (in_status s)\<lparr>signalLocked := False\<rparr>\<rparr>)"

definition noteSignal :: "InputChannel \<Rightarrow> InputChannel" where
  "noteSignal s =
     (let s = (if in_signalLossSinceTai s \<noteq> 0 then s\<lparr>in_signalLossSinceTai := 0, in_audioIndexValid := False\<rparr> else s);
          s = s\<lparr>in_status := (in_status s)\<lparr>signalLocked := True\<rparr>\<rparr>
      in if st_state (in_status s) = Degraded then setState_in Healthy s else s)"

definition frameRateOf :: "VideoMode \<Rightarrow> mxlRational" where
  "frameRateOf m = \<lparr>numerator = vm_rateNumerator m, denominator = vm_rateDenominator m\<rparr>"

definition frameGrainIndex :: "InEnv \<Rightarrow> u64 \<Rightarrow> InputChannel \<Rightarrow> u64" where
  "frameGrainIndex e tai s =
     (let frameRate = frameRateOf (in_currentMode s) in
      if vm_interlaced (in_currentMode s) then firstFieldGrainIndex (ie_timestampToIndex e) frameRate tai
      else ie_timestampToIndex e (case in_videoWriter s of None \<Rightarrow> frameRate | Some w \<Rightarrow> grainRate w) tai)"

text \<open>The frame the writer gets, and its row length: the card's buffer, or its 8-bit rows expanded to v210.\<close>

definition resized :: "u8 list \<Rightarrow> nat \<Rightarrow> u8 list" where
  "resized buf n = take n buf @ replicate (n - length buf) 0"

definition frameToWrite :: "VideoFrameView \<Rightarrow> InputChannel \<Rightarrow> (u8 list \<times> nat \<times> InputChannel) option" where
  "frameToWrite v s =
     (if pixelFormat (in_cfg s) = YUV8 then
        let dstRowBytes = unat (v210RowBytes (vf_width v));
            buf = resized (in_conversionBuffer s) (dstRowBytes * unat (vf_height v))
        in case expandUyvyToV210 (vf_bytes v) (vf_rowBytes v) buf dstRowBytes (vf_width v) (vf_height v) of
             None \<Rightarrow> None
           | Some buf' \<Rightarrow> Some (buf', dstRowBytes, s\<lparr>in_conversionBuffer := buf'\<rparr>)
      else Some (vf_bytes v, vf_rowBytes v, s))"

text \<open>The grains of a frame: one, or the two fields in time order.\<close>

definition writeGrains ::
    "InEnv \<Rightarrow> VideoWriter \<Rightarrow> u64 \<Rightarrow> u8 list \<Rightarrow> nat \<Rightarrow> u32 \<Rightarrow> InputChannel \<Rightarrow> (mxlStatus \<times> InputChannel) option" where
  "writeGrains e w grainIndex frame frameRowBytes height s =
     (if vm_interlaced (in_currentMode s) then
        let first = fieldParity grainIndex (vm_bottomFieldFirst (in_currentMode s)) in
        case writeField (ie_mxl e) w grainIndex frame frameRowBytes height first (in_ring s) of
          None \<Rightarrow> None
        | Some (st, r) \<Rightarrow>
            if st \<noteq> MXL_STATUS_OK then Some (st, s\<lparr>in_ring := r\<rparr>)
            else map_option (\<lambda>(st, r). (st, s\<lparr>in_ring := r\<rparr>))
                   (writeField (ie_mxl e) w (grainIndex + 1) frame frameRowBytes height (first XOR 1) r)
      else map_option (\<lambda>(st, r). (st, s\<lparr>in_ring := r\<rparr>))
             (writeFrame (ie_mxl e) w grainIndex frame (frameRowBytes * unat height) (in_ring s)))"

text \<open>The counters after the grains of a frame.\<close>

definition countFrame :: "VideoWriter \<Rightarrow> u64 \<Rightarrow> u64 \<Rightarrow> mxlStatus \<Rightarrow> InputChannel \<Rightarrow> InputChannel" where
  "countFrame w grainIndex tai st s =
     (let grains = (if vm_interlaced (in_currentMode s) then 2 else 1 :: nat);
          s = (if st = MXL_STATUS_OK then
                 s\<lparr>in_grainsCommitted := in_grainsCommitted s + grains,
                   in_grainsWrittenBytes := in_grainsWrittenBytes s + grains * vw_grainPayloadSize w,
                   in_status := (in_status s)\<lparr>grainsCommitted := grainsCommitted (in_status s) + of_nat grains, lastFrameTaiNs := tai\<rparr>,
                   in_headIndexGauge := grainIndex + of_nat grains - 1\<rparr>
               else s\<lparr>in_framesDropped := in_framesDropped s + 1,
                      in_status := (in_status s)\<lparr>framesDropped := framesDropped (in_status s) + 1\<rparr>\<rparr>)
      in s\<lparr>in_framesTotal := in_framesTotal s + 1,
           in_status := (in_status s)\<lparr>framesTotal := framesTotal (in_status s) + 1\<rparr>\<rparr>)"

definition captureVideo :: "InEnv \<Rightarrow> VideoFrameView \<Rightarrow> u64 \<Rightarrow> u64 \<Rightarrow> InputChannel \<Rightarrow> InputChannel option" where
  "captureVideo e v grainIndex tai s =
     (case in_videoWriter s of
        None \<Rightarrow>
          Some (s\<lparr>in_framesTotal := in_framesTotal s + 1,
                  in_status := (in_status s)\<lparr>framesTotal := framesTotal (in_status s) + 1, lastFrameTaiNs := tai\<rparr>\<rparr>)
      | Some w \<Rightarrow>
          (case frameToWrite v s of
             None \<Rightarrow> None
           | Some (frame, frameRowBytes, s) \<Rightarrow>
               map_option (\<lambda>(st, s). countFrame w grainIndex tai st s)
                 (writeGrains e w grainIndex frame frameRowBytes (vf_height v) s)))"

text \<open>The end index of an audio packet: it continues the one before, or starts again at the frame's time.\<close>

definition kMaxDrift :: u64 where "kMaxDrift = 4800"

definition nextAudioEnd :: "u64 \<Rightarrow> nat \<Rightarrow> InputChannel \<Rightarrow> InputChannel" where
  "nextAudioEnd nowEnd sampleFrames s =
     (if \<not> in_audioIndexValid s then s\<lparr>in_nextAudioEndIndex := nowEnd, in_audioIndexValid := True\<rparr>
      else
        let next' = in_nextAudioEndIndex s + of_nat sampleFrames;
            drift = (if next' > nowEnd then next' - nowEnd else nowEnd - next')
        in s\<lparr>in_nextAudioEndIndex := (if drift > kMaxDrift then nowEnd else next')\<rparr>)"

fun writeAudioFlows :: "InEnv \<Rightarrow> ChannelConfig \<Rightarrow> u64 \<Rightarrow> AudioPacketView \<Rightarrow> AudioFlowWriter list \<Rightarrow> Ring \<Rightarrow> Ring option" where
  "writeAudioFlows e c endIndex audio [] r = Some r"
| "writeAudioFlows e c endIndex audio (fw # fws) r =
     (case writeSamples (ie_mxl e) (fw_writer fw) endIndex (pk_samples audio) (pk_sampleFrames audio)
             (nat (audioChannelCount c)) (af_deckLinkChannels (fw_cfg fw)) (audioSampleType c) r of
        None \<Rightarrow> None
      | Some (st, r') \<Rightarrow> writeAudioFlows e c endIndex audio fws r')"

definition captureAudio :: "InEnv \<Rightarrow> AudioPacketView option \<Rightarrow> u64 \<Rightarrow> InputChannel \<Rightarrow> InputChannel option" where
  "captureAudio e audio tai s =
     (case audio of
        None \<Rightarrow> Some s
      | Some a \<Rightarrow>
          if in_audioFlows s = [] then Some s
          else
            let s = nextAudioEnd (ie_timestampToIndex e \<lparr>numerator = 48000, denominator = 1\<rparr> tai) (pk_sampleFrames a) s
            in map_option (\<lambda>r. s\<lparr>in_ring := r\<rparr>)
                 (writeAudioFlows e (in_cfg s) (in_nextAudioEndIndex s) a (in_audioFlows s) (in_ring s)))"

definition captureAnc :: "InEnv \<Rightarrow> VideoFrameView \<Rightarrow> u64 \<Rightarrow> InputChannel \<Rightarrow> InputChannel option" where
  "captureAnc e v grainIndex s =
     (case in_ancWriter s of
        None \<Rightarrow> Some s
      | Some w \<Rightarrow>
          if \<not> ancEnable (in_cfg s) \<or> ancPackets v = [] then Some s
          else if vm_interlaced (in_currentMode s) then
            let second = (\<lambda>p. ancLineInSecondField (vm_height (in_currentMode s)) (lineNumber p)) in
            case writePackets (ie_mxl e) w grainIndex (filter (\<lambda>p. \<not> second p) (ancPackets v)) kAncField1 (in_ring s) of
              None \<Rightarrow> None
            | Some (st, r) \<Rightarrow>
                map_option (\<lambda>(st, r). s\<lparr>in_ring := r\<rparr>)
                  (writePackets (ie_mxl e) w (grainIndex + 1) (filter second (ancPackets v)) kAncField2 r)
          else map_option (\<lambda>(st, r). s\<lparr>in_ring := r\<rparr>)
                 (writePackets (ie_mxl e) w grainIndex (ancPackets v) kAncFieldProgressive (in_ring s)))"

text \<open>What a frame with a signal, valid writers and the writer mutex does.\<close>

definition captureFrame :: "InEnv \<Rightarrow> VideoFrameView \<Rightarrow> AudioPacketView option \<Rightarrow> InputChannel \<Rightarrow> InputChannel option" where
  "captureFrame e v audio s =
     (let (tai, s) = frameTimestampTai e v s; grainIndex = frameGrainIndex e tai s in
      case captureVideo e v grainIndex tai s of
        None \<Rightarrow> None
      | Some s \<Rightarrow>
          (case captureAudio e audio tai s of
             None \<Rightarrow> None
           | Some s \<Rightarrow> captureAnc e v grainIndex s))"

text \<open>\<open>owns\<close>: the callback gets the writer mutex, which it only tries to lock.\<close>

definition handleFrame :: "InEnv \<Rightarrow> bool \<Rightarrow> VideoFrameView \<Rightarrow> AudioPacketView option \<Rightarrow> InputChannel \<Rightarrow> InputChannel option" where
  "handleFrame e owns v audio s =
     (let (callbackStart, s) = in_taiNow e s in
      if hasNoInputSource v then Some (noteSignalLoss callbackStart s)
      else
        let s = noteSignal s in
        if \<not> in_writersValid s then Some s
        else if \<not> owns then Some s
        else captureFrame e v audio s)"

subsection \<open>Format changes\<close>

definition handleFormatChange :: "FormatChange \<Rightarrow> InputChannel \<Rightarrow> InputChannel" where
  "handleFormatChange fc s =
     s\<lparr>in_formatChangesTotal := in_formatChangesTotal s + 1, in_writersValid := False, in_pendingFormatChange := Some fc\<rparr>"

text \<open>\<open>performFormatChange\<close> up to the grace period, and from there on.  \<open>changeMode\<close> is a call through
  \<open>_capture\<close>: \<open>None\<close> without a session.\<close>

definition beginFormatChange :: "InEnv \<Rightarrow> InputChannel \<Rightarrow> InputChannel option" where
  "beginFormatChange e s =
     (case in_pendingFormatChange s of
        None \<Rightarrow> Some (s\<lparr>in_pc := AtLoss\<rparr>)
      | Some fc \<Rightarrow>
          if \<not> in_capture s then None
          else
          (let s = setState_in Degraded (s\<lparr>in_pendingFormatChange := None\<rparr>) in
           case ie_changeMode e (in_tick s) (fc_newMode fc) of
             Some err \<Rightarrow> Some ((tearDownStreaming_in (in_ticked s))\<lparr>in_pc := AtLoss\<rparr>)
           | None \<Rightarrow>
               (let s = (in_ticked s)\<lparr>in_currentMode := fc_newMode fc,
                          in_status := (in_status s)\<lparr>activeModeName := vm_name (fc_newMode fc)\<rparr>\<rparr>
                in Some ((destroyWriters s)\<lparr>in_pc := InGrace (fc_newMode fc)\<rparr>))))"

definition endFormatChange :: "InEnv \<Rightarrow> VideoMode \<Rightarrow> InputChannel \<Rightarrow> InputChannel" where
  "endFormatChange e m s =
     (let s = s\<lparr>in_formatChangeCounter := in_formatChangeCounter s + 1\<rparr>;
          c = in_cfg s;
          signature = vm_name m @ ''#'' @ int_to_string (int (in_formatChangeCounter s));
          newVideoId = deriveUuid (videoFlowId c) signature;
          newAudioIds = map (\<lambda>af. deriveUuid (af_flowId af) signature) (audioFlows c);
          newAncId = map_option (\<lambda>i. deriveUuid i signature) (ancFlowId c)
      in case createWriters e m newVideoId newAudioIds newAncId s of
           (Some err, s) \<Rightarrow> (tearDownStreaming_in s)\<lparr>in_pc := AtLoss\<rparr>
         | (None, s) \<Rightarrow>
             (let s = s\<lparr>in_audioIndexValid := False,
                        in_status := (in_status s)\<lparr>activeVideoFlowId := toString newVideoId\<rparr>,
                        in_announced := in_announced s @
                          [\<lparr>rf_videoId = toString newVideoId,
                            rf_audioIds = map2 (\<lambda>af i. (af_index af, toString i)) (audioFlows c) newAudioIds,
                            rf_ancId = map_option toString newAncId, rf_mode = m\<rparr>]\<rparr>
              in (setState_in Healthy s)\<lparr>in_pc := AtLoss\<rparr>))"

subsection \<open>The supervisor\<close>

definition countAttempt :: "InputChannel \<Rightarrow> InputChannel" where
  "countAttempt s =
     (if 0 < in_attempt s
      then s\<lparr>in_reconnectTotal := in_reconnectTotal s + 1,
             in_status := (in_status s)\<lparr>reconnects := reconnects (in_status s) + 1\<rparr>\<rparr> else s)"

definition superviseTop :: "InEnv \<Rightarrow> InputChannel \<Rightarrow> InputChannel" where
  "superviseTop e s =
     (if \<not> in_running s then s\<lparr>in_pc := Ended\<rparr>
      else if in_streamingUp s then s\<lparr>in_pc := AtPending\<rparr>
      else
        let (up, s) = bringUp_in e (countAttempt s)
        in if up then s\<lparr>in_attempt := 0, in_pc := AtPending\<rparr>
           else (setState_in Failed s)\<lparr>in_pc := Waiting (backoffForAttempt (in_attempt s)), in_attempt := in_attempt s + 1\<rparr>)"

definition signalLossTimeoutNs :: "InputChannel \<Rightarrow> u64" where
  "signalLossTimeoutNs s = of_int (signalLossTimeoutS (in_globalCfg s)) * 1000000000"

text \<open>The signal-loss check.  \<open>resetStreams\<close> is a call through \<open>_capture\<close>: without a capture session it
  is a null pointer access, \<open>None\<close>.\<close>

definition superviseLoss :: "InEnv \<Rightarrow> InputChannel \<Rightarrow> InputChannel option" where
  "superviseLoss e s =
     (if in_signalLossSinceTai s = 0 then Some (s\<lparr>in_pc := AtTop\<rparr>)
      else
        let lossSince = in_signalLossSinceTai s; (now, s) = in_taiNow e s in
        if now - lossSince > signalLossTimeoutNs s then
          if \<not> in_capture s then None
          else let (now, s) = in_taiNow e (in_ticked s) in Some (s\<lparr>in_signalLossSinceTai := now, in_pc := AtTop\<rparr>)
        else Some (s\<lparr>in_pc := AtTop\<rparr>))"

definition superviseStep :: "InEnv \<Rightarrow> InputChannel \<Rightarrow> InputChannel option" where
  "superviseStep e s =
     (case in_pc s of
        AtTop \<Rightarrow> Some (superviseTop e s)
      | Waiting ms \<Rightarrow> Some (if 0 < ms \<and> in_running s then s\<lparr>in_pc := Waiting (ms - 50)\<rparr> else s\<lparr>in_pc := AtTop\<rparr>)
      | AtPending \<Rightarrow> beginFormatChange e s
      | InGrace m \<Rightarrow> Some (endFormatChange e m s)
      | AtLoss \<Rightarrow> superviseLoss e s
      | Ended \<Rightarrow> Some s)"

subsection \<open>Start, stop and housekeeping\<close>

definition start_in :: "InputChannel \<Rightarrow> InputChannel" where
  "start_in s = s\<lparr>in_running := True, in_attempt := 0, in_pc := AtTop\<rparr>"

text \<open>\<open>stop\<close> clears the flag, waits for the supervisor's end and tears the stream down.\<close>

definition requestStop :: "InputChannel \<Rightarrow> InputChannel" where
  "requestStop s = s\<lparr>in_running := False\<rparr>"

definition finishStop :: "InputChannel \<Rightarrow> InputChannel" where
  "finishStop s = tearDownStreaming_in s"

definition housekeeping_in :: "InEnv \<Rightarrow> InputChannel \<Rightarrow> InputChannel" where
  "housekeeping_in e s =
     (if \<not> in_streamingUp s \<or> \<not> in_capture s then s
      else
        let s = (in_ticked s)\<lparr>in_signalLockGauge := ie_signalLocked e (in_tick s)\<rparr> in
        if in_useHardwareTimestamps s then
          let (now, s) = in_taiNow e s in
          if needsRecalibration (in_hwCalibrator s) now then
            case ie_hardwareClockNowNs e (in_tick s) of
              Some hwNow \<Rightarrow>
                (let (now, s) = in_taiNow e (in_ticked s) in
                 s\<lparr>in_hwCalibrator := snd (calibrate (in_hwCalibrator s) hwNow now)\<rparr>)
            | None \<Rightarrow> in_ticked s
          else s
        else s)"

text \<open>The steps of the threads, in any order.  A step without a result is undefined behaviour.\<close>

inductive in_step :: "InEnv \<Rightarrow> InputChannel \<Rightarrow> InputChannel \<Rightarrow> bool" for e where
  frame: "handleFrame e owns v audio s = Some t \<Longrightarrow> in_step e s t"
| formatChange: "in_step e s (handleFormatChange fc s)"
| supervise: "superviseStep e s = Some t \<Longrightarrow> in_step e s t"
| housekeeping: "in_step e s (housekeeping_in e s)"
| start: "in_pc s = Ended \<Longrightarrow> \<not> in_running s \<Longrightarrow> in_step e s (start_in s)"
| requestStop: "in_step e s (requestStop s)"
| finishStop: "in_pc s = Ended \<Longrightarrow> \<not> in_running s \<Longrightarrow> in_step e s (finishStop s)"

inductive in_reachable :: "InEnv \<Rightarrow> Config \<Rightarrow> ChannelConfig \<Rightarrow> string \<Rightarrow> InputChannel \<Rightarrow> bool" for e g c l where
  init: "in_reachable e g c l (newInputChannel g c l m)"
| more: "in_reachable e g c l s \<Longrightarrow> in_step e s t \<Longrightarrow> in_reachable e g c l t"

end
