(* ===== verification/FlowProps.thy ===== *)
theory FlowProps
  imports Readers WriterProps InputChannel
begin

text \<open>
  Properties of the flow readers, and of a flow between its writer and its reader: a captured frame that went
  through the fields of an interlaced flow is played out as it was captured, and the audio read loop ends with
  its samples in place.
\<close>

subsection \<open>Open and close\<close>

text \<open>A reader that is opened and closed leaves no handle behind; one that cannot be opened holds none.\<close>

lemma dtick_live [simp]: "rd_live (dtick d) = rd_live d"
  by (simp add: dtick_def)

lemma openReader_live:
  "openReader e flowId d = (Inl err, d') \<Longrightarrow> rd_live d' = rd_live d"
  "openReader e flowId d = (Inr (h, config), d') \<Longrightarrow> rd_live d' = h # rd_live d"
  by (auto simp: openReader_def Let_def split: prod.splits if_splits)

lemma readFlowDef_live: "rd_live (snd (readFlowDef e flowId d)) = rd_live d"
  by (simp add: readFlowDef_def Let_def split: prod.split)

lemma newVideoReader_live:
  "newVideoReader e flowId d = (Inl err, d') \<Longrightarrow> rd_live d' = rd_live d"
  "newVideoReader e flowId d = (Inr v, d') \<Longrightarrow> rd_live (deleteVideoReader v d') = rd_live d"
  using readFlowDef_live[of e flowId]
  by (auto simp: newVideoReader_def deleteVideoReader_def Let_def openReader_live split: prod.splits sum.splits)
     (metis list.sel(3) openReader_live(2) remove1.simps(2) snd_conv)+

lemma newAudioReader_live:
  "newAudioReader e flowId d = (Inl err, d') \<Longrightarrow> rd_live d' = rd_live d"
  "newAudioReader e flowId d = (Inr a, d') \<Longrightarrow> rd_live (deleteAudioReader a d') = rd_live d"
  by (auto simp: newAudioReader_def deleteAudioReader_def Let_def openReader_live split: prod.splits sum.splits)

subsection \<open>Reading audio\<close>

text \<open>The interleaving routines check the frame number, so they stay in the packet whatever the slices hold.\<close>

lemma writeSample_inside: "i < length dst \<Longrightarrow> writeSample dst i v = Some (dst[i := v])"
  by (simp add: writeSample_def)

lemma drainFragment_inside:
  "dl < w \<Longrightarrow> n * w \<le> length dst \<Longrightarrow>
   \<exists>out f. drainFragment conv n w dl frame xs dst = Some (out, f) \<and> length out = length dst"
proof (induction xs arbitrary: frame dst)
  case (Cons x xs)
  show ?case
  proof (cases "frame < n")
    case True
    then have i: "frame * w + dl < length dst" using packet_index_less[of frame n dl w] Cons.prems by simp
    then show ?thesis
      using Cons.IH[of "dst[frame * w + dl := conv x]" "frame + 1"] Cons.prems True by (simp add: writeSample_inside)
  qed simp
qed simp

lemma drainPlane_inside:
  "dl < w \<Longrightarrow> n * w \<le> length dst \<Longrightarrow> \<exists>out. drainPlane conv n w dl frame plane dst = Some out \<and> length out = length dst"
proof (induction plane arbitrary: frame dst)
  case (Cons frag plane)
  obtain out f where f: "drainFragment conv n w dl frame frag dst = Some (out, f)" "length out = length dst"
    using drainFragment_inside[OF Cons.prems] by blast
  then show ?case using Cons.IH[of out f] Cons.IH[of dst frame] Cons.prems by (cases "frag = []") simp_all
qed simp

lemma zeroChannel_inside:
  "dl < w \<Longrightarrow> n * w \<le> length dst \<Longrightarrow> \<forall>f \<in> set fs. f < n \<Longrightarrow>
     \<exists>out. zeroChannel w dl fs dst = Some out \<and> length out = length dst"
proof (induction fs arbitrary: dst)
  case (Cons f fs)
  then have "f * w + dl < length dst" using packet_index_less[of f n dl w] by simp
  then show ?case using Cons.IH[of "dst[f * w + dl := 0]"] Cons.prems by (simp add: writeSample_inside)
qed simp

lemma interleaveLoop_inside:
  "n * w \<le> length dst \<Longrightarrow> \<exists>out. interleaveLoop conv n w cmap planes dst = Some out \<and> length out = length dst"
proof (induction cmap arbitrary: planes dst)
  case (Cons dl cmap)
  show ?case
  proof (cases "dl < 0 \<or> w \<le> nat dl")
    case False
    then have dl: "nat dl < w" by simp
    have "\<exists>out. (case planes of [] \<Rightarrow> zeroChannel w (nat dl) [0..<n] dst
        | plane # _ \<Rightarrow> drainPlane conv n w (nat dl) 0 plane dst) = Some out \<and> length out = length dst"
      using zeroChannel_inside[OF dl Cons.prems, of "[0..<n]"] drainPlane_inside[OF dl Cons.prems, of conv 0]
      by (simp split: list.split)
    then obtain out where "(case planes of [] \<Rightarrow> zeroChannel w (nat dl) [0..<n] dst
        | plane # _ \<Rightarrow> drainPlane conv n w (nat dl) 0 plane dst) = Some out" "length out = length dst" by blast
    then show ?thesis using Cons.IH[of out "tl planes"] Cons.prems False by simp
  qed (use Cons in simp)
qed simp

lemma interleaveMapped_inside:
  "n * w \<le> length dst \<Longrightarrow> \<exists>out. interleaveMapped ty sl n cmap w dst = Some out \<and> length out = length dst"
  using interleaveLoop_inside
  by (simp add: interleaveMapped_def interleaveFloatToInt32Mapped_def interleaveFloatToInt16Mapped_def)

text \<open>The read loop ends for every answer of MXL, inside the packet, and leaves its length unchanged.\<close>

lemma readLoop_returns:
  assumes "0 < ar_maxReadLength a"
  shows "remaining \<le> n \<Longrightarrow> n * dl \<le> length dst \<Longrightarrow>
     \<exists>st out d'. readLoop e a start n timeoutNs dl cmap ty ((n - remaining) * dl) remaining dst d = Some (st, out, d') \<and>
       length out = length dst \<and> rd_live d' = rd_live d"
proof (induction remaining arbitrary: dst d rule: less_induct)
  case (less remaining)
  show ?case
  proof (cases "remaining = 0")
    case True
    then show ?thesis by (subst readLoop.simps) simp
  next
    case False
    define c where "c = (if remaining < ar_maxReadLength a then remaining else ar_maxReadLength a)"
    have c: "0 < c" "c \<le> remaining" using False assms by (simp_all add: c_def)
    obtain st sl where g: "re_getSamples e (rd_tick d) (ar_reader a) (start + of_nat (n - remaining) + of_nat c) c timeoutNs = (st, sl)"
      by fastforce
    let ?cur = "(n - remaining) * dl"
    have "c + (n - remaining) \<le> n" using c(2) less.prems(1) by simp
    then have "(c + (n - remaining)) * dl \<le> n * dl" by (rule mult_le_mono1)
    then have "c * dl \<le> length (drop ?cur dst)" and cur: "?cur \<le> length dst"
      using less.prems(2) by (simp_all add: distrib_right)
    then obtain part where part: "interleaveMapped ty sl c cmap dl (drop ?cur dst) = Some part" "length part = length dst - ?cur"
      using interleaveMapped_inside[of c dl "drop ?cur dst" ty sl cmap] by auto
    have next_cur: "?cur + c * dl = (n - (remaining - c)) * dl"
      using c(2) less.prems(1) by (simp flip: distrib_right)
    have loop: "readLoop e a start n timeoutNs dl cmap ty ?cur remaining dst d =
        (if st \<noteq> MXL_STATUS_OK then Some (st, dst, dtick d)
         else readLoop e a start n timeoutNs dl cmap ty ((n - (remaining - c)) * dl) (remaining - c) (take ?cur dst @ part) (dtick d))"
      using False g part(1) next_cur
      by (subst readLoop.simps) (simp add: c_def[symmetric] Let_def cong: option.case_cong if_cong)
    have len: "length (take ?cur dst @ part) = length dst" using part(2) cur by simp
    show ?thesis
    proof (cases "st = MXL_STATUS_OK")
      case True
      have "n * dl \<le> length (take ?cur dst @ part)" using len less.prems(2) by simp
      moreover have "remaining - c < remaining" "remaining - c \<le> n" using c less.prems(1) by simp_all
      ultimately have "\<exists>st out d'. readLoop e a start n timeoutNs dl cmap ty ((n - (remaining - c)) * dl) (remaining - c)
          (take ?cur dst @ part) (dtick d) = Some (st, out, d') \<and> length out = length (take ?cur dst @ part) \<and> rd_live d' = rd_live (dtick d)"
        by (intro less.IH)
      then show ?thesis using loop True len by simp
    qed (use loop in simp)
  qed
qed

lemma readSamples_returns:
  assumes "sampleFrames * deckLinkChannels \<le> length dst"
  shows "\<exists>st out d'. readSamples e a endIndex sampleFrames timeoutNs dst deckLinkChannels cmap ty d = Some (st, out, d') \<and>
     length out = length dst \<and> rd_live d' = rd_live d"
  using readLoop_returns[of a sampleFrames sampleFrames deckLinkChannels dst] assms
  by (auto simp: readSamples_def)

subsection \<open>The fields of a frame\<close>

text \<open>What a write of a field leaves in the ring: the rows of its parity of the frame.\<close>

lemma writeField_op:
  assumes law: "grain_law e" and ok: "writeField e w i frame fr h p r = Some (MXL_STATUS_OK, r')"
    and len: "length frame = 2 * unat (h div 2) * fr" and slice: "unat (fc_sliceSize0 (vw_config w)) = fr" "0 < fr"
    and size: "\<forall>t i info g. openGrain e t (vw_writer w) i = (MXL_STATUS_OK, info, g) \<longrightarrow> unat (h div 2) * fr \<le> gi_grainSize info"
    and p: "unat p \<le> 1"
  obtains info g where "rg_ops r' = rg_ops r @ [GrainWrite (vw_writer w) i info g MXL_STATUS_OK]" and "gi_flags info = 0"
    and "unat (h div 2) * fr \<le> length g"
    and "\<And>q j. q < unat (h div 2) \<Longrightarrow> j < fr \<Longrightarrow> g ! (q * fr + j) = frame ! ((2 * q + unat p) * fr + j)"
proof -
  obtain st info g0 where o: "openGrain e (rg_tick r) (vw_writer w) i = (st, info, g0)" using prod_cases3 by blast
  then have st: "st = MXL_STATUS_OK" using ok by (auto simp: writeField_def Let_def split: if_splits)
  have g0: "length g0 = gi_grainSize info" using grain_lawD[OF law] o st by simp
  have big: "unat (h div 2) * fr \<le> gi_grainSize info" using size o st by blast
  then have "unat (h div 2) \<le> gi_grainSize info div fr" using slice(2) by (simp add: less_eq_div_iff_mult_less_eq)
  then have rows: "fieldRows w info h = unat (h div 2)" by (simp add: fieldRows_def slice)
  let ?h = "of_nat (fieldRows w info h * 2) :: u32"
  have hh: "unat (?h div 2) = unat (h div 2)" using fieldRows_word[of w info h] rows by simp
  obtain g where g: "extractField frame fr ?h p g0 fr = Some g" "length g = length g0"
    "\<And>q j. q < unat (?h div 2) \<Longrightarrow> j < fr \<Longrightarrow> g ! (q * fr + j) = frame ! ((2 * q + unat p) * fr + j)"
    using extractField_Some[of frame ?h fr fr g0 p] len big g0 p unfolding hh by (metis order_refl)
  have "writeField e w i frame fr h p r =
      Some (commit e (vw_writer w) i (info\<lparr>gi_flags := 0, gi_validSlices := gi_totalSlices info\<rparr>) g (rtick r))"
    using o st g(1) slice(1) by (simp add: writeField_def Let_def)
  with ok have "rg_ops r' = rg_ops r @ [GrainWrite (vw_writer w) i (info\<lparr>gi_flags := 0, gi_validSlices := gi_totalSlices info\<rparr>) g MXL_STATUS_OK]"
    by (auto simp: commit_def Let_def rtick_def)
  then show ?thesis by (rule that) (use g g0 big hh in simp_all)
qed

text \<open>The newest committed content of a grain, and a ring that gives it to a reader.\<close>

fun lastGrain :: "handle \<Rightarrow> u64 \<Rightarrow> WriteOp list \<Rightarrow> (GrainInfo \<times> u8 list) option" where
  "lastGrain h i [] = None"
| "lastGrain h i (SamplesWrite h' i' n sl st # ops) = lastGrain h i ops"
| "lastGrain h i (GrainWrite h' i' info g st # ops) =
     (case lastGrain h i ops of
        Some x \<Rightarrow> Some x
      | None \<Rightarrow> if h' = h \<and> i' = i \<and> st = MXL_STATUS_OK then Some (info, g) else None)"

definition serves :: "ReadEnv \<Rightarrow> handle \<Rightarrow> handle \<Rightarrow> Ring \<Rightarrow> bool" where
  "serves e h wh r \<longleftrightarrow> (\<forall>i info g t timeoutNs. lastGrain wh i (rg_ops r) = Some (info, g) \<longrightarrow>
     re_getGrain e t h i timeoutNs = (MXL_STATUS_OK, info, Some g))"

lemma servesD:
  "serves e h wh r \<Longrightarrow> lastGrain wh i (rg_ops r) = Some (info, g) \<Longrightarrow> re_getGrain e t h i timeoutNs = (MXL_STATUS_OK, info, Some g)"
  unfolding serves_def by blast

lemma lastGrain_append:
  "lastGrain h i (xs @ ys) = (case lastGrain h i ys of Some x \<Rightarrow> Some x | None \<Rightarrow> lastGrain h i xs)"
  by (induction xs rule: lastGrain.induct) (auto split: option.split)

lemma fieldParity_xor: "fieldParity (2 * k) bff XOR 1 = fieldParity (2 * k + 1) bff"
  by (simp add: fieldParity_def field_bit)

lemma weaveFrame_pair:
  assumes "even (unat (vr_frameHeight v))" "length frame = unat (vr_frameHeight v) * unat (fc_sliceSize0 (vr_config v))"
    and "unat (vr_frameHeight v div 2) * unat (fc_sliceSize0 (vr_config v)) \<le> length f1"
        "unat (vr_frameHeight v div 2) * unat (fc_sliceSize0 (vr_config v)) \<le> length f2"
    and "\<And>q j. q < unat (vr_frameHeight v div 2) \<Longrightarrow> j < unat (fc_sliceSize0 (vr_config v)) \<Longrightarrow>
       f1 ! (q * unat (fc_sliceSize0 (vr_config v)) + j) =
       frame ! ((2 * q + unat (fieldParity (2 * k) (vr_bottomFieldFirst v))) * unat (fc_sliceSize0 (vr_config v)) + j)"
    and "\<And>q j. q < unat (vr_frameHeight v div 2) \<Longrightarrow> j < unat (fc_sliceSize0 (vr_config v)) \<Longrightarrow>
       f2 ! (q * unat (fc_sliceSize0 (vr_config v)) + j) =
       frame ! ((2 * q + unat (fieldParity (2 * k + 1) (vr_bottomFieldFirst v))) * unat (fc_sliceSize0 (vr_config v)) + j)"
  shows "weaveFrame v k f1 f2 = Some frame"
proof -
  let ?h = "vr_frameHeight v" and ?n = "unat (fc_sliceSize0 (vr_config v))"
  let ?w = "take (?n * unat ?h) (vr_woven v) @ replicate (?n * unat ?h - length (vr_woven v)) 0"
  have rows: "unat ?h = 2 * unat (?h div 2)" using assms(1) by (simp add: unat_div)
  have "\<exists>half. weaveField f1 ?n ?h (fieldParity (2 * k) (vr_bottomFieldFirst v)) ?w ?n = Some half \<and>
      weaveField f2 ?n ?h (fieldParity (2 * k + 1) (vr_bottomFieldFirst v)) half ?n = Some frame"
  proof (rule weave_pair)
    show "length frame = 2 * unat (?h div 2) * ?n" using assms(2) rows by simp
    have "length ?w = ?n * unat ?h" by simp
    then show "length ?w = 2 * unat (?h div 2) * ?n" using rows by (simp add: mult.commute)
    show "unat (fieldParity (2 * k) (vr_bottomFieldFirst v)) \<le> 1"
      and "unat (fieldParity (2 * k + 1) (vr_bottomFieldFirst v)) = 1 - unat (fieldParity (2 * k) (vr_bottomFieldFirst v))"
      by (simp_all add: unat_fieldParity)
  qed (use assms in simp_all)
  then show ?thesis by (auto simp: weaveFrame_def Let_def)
qed

text \<open>C26. A frame of even height that is captured as the fields \<open>2k\<close> and \<open>2k + 1\<close> of an interlaced
  flow is read back as frame \<open>k\<close>, byte by byte, with the invalid flag clear: the two writes of
  \<open>writeGrains\<close>, the ring that gives a reader the newest committed grains, and the two reads and the weave
  of \<open>getGrain\<close> compose to the identity, for both field orders, whatever the reader's buffer held.\<close>

theorem video_through_flow:
  assumes "grain_law (ie_mxl e)" and "vm_interlaced (in_currentMode s)"
    and "writeGrains e w (2 * k) frame fr h s = Some (MXL_STATUS_OK, s')"
    and "even (unat h)" and "length frame = unat h * fr" and "0 < fr"
    and "unat (fc_sliceSize0 (vw_config w)) = fr"
    and "\<forall>t i info g. openGrain (ie_mxl e) t (vw_writer w) i = (MXL_STATUS_OK, info, g) \<longrightarrow> unat (h div 2) * fr \<le> gi_grainSize info"
    and "vr_interlaced v" and "vr_bottomFieldFirst v = vm_bottomFieldFirst (in_currentMode s)"
    and "vr_frameHeight v = h" and "fc_sliceSize0 (vr_config v) = fc_sliceSize0 (vw_config w)"
    and "serves er (vr_reader v) (vw_writer w) (in_ring s')"
  shows "\<exists>info v' d'. getGrain_video er v k timeoutNs out d = Some (MXL_STATUS_OK, \<lparr>rg_info = info, rg_payload = Some frame\<rparr>, v', d') \<and>
     \<not> infoInvalid info"
proof -
  let ?bff = "vm_bottomFieldFirst (in_currentMode s)" and ?rows = "unat (h div 2)"
  let ?p1 = "fieldParity (2 * k) ?bff" and ?p2 = "fieldParity (2 * k + 1) ?bff"
  have len: "length frame = 2 * ?rows * fr" using assms(4,5) by (simp add: unat_div)
  have le: "unat ?p1 \<le> 1" "unat ?p2 \<le> 1" by (simp_all add: unat_fieldParity)
  obtain r1 where w1: "writeField (ie_mxl e) w (2 * k) frame fr h ?p1 (in_ring s) = Some (MXL_STATUS_OK, r1)"
    and w2: "writeField (ie_mxl e) w (2 * k + 1) frame fr h ?p2 r1 = Some (MXL_STATUS_OK, in_ring s')"
    using assms(2,3) by (auto simp: writeGrains_def Let_def fieldParity_xor split: option.splits if_splits)
  obtain i1 g1 where o1: "rg_ops r1 = rg_ops (in_ring s) @ [GrainWrite (vw_writer w) (2 * k) i1 g1 MXL_STATUS_OK]"
    "gi_flags i1 = 0" "?rows * fr \<le> length g1"
    "\<And>q j. q < ?rows \<Longrightarrow> j < fr \<Longrightarrow> g1 ! (q * fr + j) = frame ! ((2 * q + unat ?p1) * fr + j)"
    by (rule writeField_op[OF assms(1) w1 len assms(7,6,8) le(1)]) (rule that; assumption)
  obtain i2 g2 where o2: "rg_ops (in_ring s') = rg_ops r1 @ [GrainWrite (vw_writer w) (2 * k + 1) i2 g2 MXL_STATUS_OK]"
    "gi_flags i2 = 0" "?rows * fr \<le> length g2"
    "\<And>q j. q < ?rows \<Longrightarrow> j < fr \<Longrightarrow> g2 ! (q * fr + j) = frame ! ((2 * q + unat ?p2) * fr + j)"
    by (rule writeField_op[OF assms(1) w2 len assms(7,6,8) le(2)]) (rule that; assumption)
  have "(2 * k :: u64) \<noteq> 2 * k + 1" by simp
  then have read1: "re_getGrain er t (vr_reader v) (2 * k) to = (MXL_STATUS_OK, i1, Some g1)"
    and read2: "re_getGrain er t (vr_reader v) (2 * k + 1) to = (MXL_STATUS_OK, i2, Some g2)" for t to
    using servesD[OF assms(13), of "2 * k" i1 g1] servesD[OF assms(13), of "2 * k + 1" i2 g2]
    by (simp_all add: o1(1) o2(1) lastGrain_append)
  have "weaveFrame v k g1 g2 = Some frame"
    by (rule weaveFrame_pair) (use assms o1 o2 in simp_all)
  then show ?thesis using assms(9) o1(2) o2(2)
    by (simp add: getGrain_video_def readField_def Let_def read1 read2 infoInvalid_def)
qed

text \<open>A frame of four lines of four bytes through a ring that grants every request.\<close>

definition fieldsInput :: InputChannel where
  "fieldsInput = (newInputChannel defaultConfig defaultChannel ''card'' autoStartMode)
     \<lparr>in_currentMode := autoStartMode\<lparr>vm_interlaced := True, vm_bottomFieldFirst := True\<rparr>\<rparr>"

definition fieldsWriter :: VideoWriter where
  "fieldsWriter = \<lparr>vw_writer = 7, vw_config = zeroConfig\<lparr>fc_sliceSize0 := 4\<rparr>, vw_grainPayloadSize = 8, vw_flowId = ''f''\<rparr>"

definition fieldsInEnv :: InEnv where
  "fieldsInEnv =
     \<lparr>ie_mxl = grantingEnv, ie_taiNowNs = (\<lambda>t. 0), ie_supportsMode = (\<lambda>t m. True),
      ie_openCapture = (\<lambda>t. True), ie_enable = (\<lambda>t p. None), ie_start = (\<lambda>t. None), ie_hardwareClockNowNs = (\<lambda>t. None),
      ie_changeMode = (\<lambda>t m. None), ie_signalLocked = (\<lambda>t. True), ie_timestampToIndex = (\<lambda>r t. t)\<rparr>"

definition fieldsFrame :: "u8 list" where "fieldsFrame = [1, 2, 3, 4, 5, 6, 7, 8, 9, 10, 11, 12, 13, 14, 15, 16]"

definition fieldsWritten :: "(mxlStatus \<times> InputChannel) option" where
  "fieldsWritten = writeGrains fieldsInEnv fieldsWriter (2 * 5) fieldsFrame 4 4 fieldsInput"

definition readerOf :: "Ring \<Rightarrow> ReadEnv" where
  "readerOf r =
     \<lparr>re_createFlowReader = (\<lambda>t f. (MXL_STATUS_OK, t)), re_getConfigInfo = (\<lambda>t h. (MXL_STATUS_OK, zeroConfig)),
      re_getFlowDef = (\<lambda>t f n. (MXL_STATUS_OK, 0, [])), re_parseJson = (\<lambda>x. None), re_truncated = (\<lambda>t. 0),
      re_getGrain = (\<lambda>t h i to. case lastGrain h i (rg_ops r) of
         Some (info, g) \<Rightarrow> (MXL_STATUS_OK, info, Some g)
       | None \<Rightarrow> (MXL_ERR_TIMEOUT, \<lparr>gi_grainSize = 0, gi_flags = 0, gi_totalSlices = 0, gi_validSlices = 0\<rparr>, None)),
      re_getGrainNonBlocking = (\<lambda>t h i. MXL_ERR_OUT_OF_RANGE_TOO_EARLY), re_getRuntimeInfo = (\<lambda>t h. (MXL_STATUS_OK, 0)),
      re_getMaxReadLength = (\<lambda>t h. (MXL_STATUS_OK, 2)),
      re_getSamples = (\<lambda>t h i n to. (MXL_STATUS_OK, \<lparr>sl_planes = [[replicate n 0, []], [replicate n 0, []]]\<rparr>)),
      re_getSamplesNonBlocking = (\<lambda>t h i n. MXL_ERR_OUT_OF_RANGE_TOO_EARLY), re_steadyNs = of_nat, re_indexToTimestamp = (\<lambda>q i. i)\<rparr>"

lemma readerOf_serves: "serves (readerOf r) h h r"
  by (simp add: serves_def readerOf_def)

definition fieldsReader :: VideoReader where
  "fieldsReader =
     \<lparr>vr_flowId = ''f'', vr_reader = 7, vr_config = zeroConfig\<lparr>fc_sliceSize0 := 4\<rparr>,
      vr_frameRate = \<lparr>numerator = 25, denominator = 1\<rparr>, vr_interlaced = True, vr_bottomFieldFirst = True, vr_frameHeight = 4,
      vr_woven = []\<rparr>"

definition noInfo :: GrainInfo where
  "noInfo = \<lparr>gi_grainSize = 0, gi_flags = 0, gi_totalSlices = 0, gi_validSlices = 0\<rparr>"

lemma fieldsWritten_ok: "map_option fst fieldsWritten = Some MXL_STATUS_OK"
  by code_simp

theorem video_through_flow_witness:
  "\<exists>s' info v' d'. writeGrains fieldsInEnv fieldsWriter (2 * 5) fieldsFrame 4 4 fieldsInput = Some (MXL_STATUS_OK, s') \<and>
     getGrain_video (readerOf (in_ring s')) fieldsReader 5 1000 \<lparr>rg_info = noInfo, rg_payload = None\<rparr> \<lparr>rd_tick = 0, rd_live = [7]\<rparr> =
       Some (MXL_STATUS_OK, \<lparr>rg_info = info, rg_payload = Some fieldsFrame\<rparr>, v', d') \<and> \<not> infoInvalid info"
proof -
  obtain s' where s': "writeGrains fieldsInEnv fieldsWriter (2 * 5) fieldsFrame 4 4 fieldsInput = Some (MXL_STATUS_OK, s')"
    using fieldsWritten_ok by (cases fieldsWritten) (auto simp: fieldsWritten_def)
  have "\<exists>info v' d'. getGrain_video (readerOf (in_ring s')) fieldsReader 5 1000 \<lparr>rg_info = noInfo, rg_payload = None\<rparr>
      \<lparr>rd_tick = 0, rd_live = [7]\<rparr> = Some (MXL_STATUS_OK, \<lparr>rg_info = info, rg_payload = Some fieldsFrame\<rparr>, v', d') \<and> \<not> infoInvalid info"
    by (rule video_through_flow[OF _ _ s'])
       (use grantingEnv_laws(1) readerOf_serves[of "in_ring s'" 7] in
         \<open>simp_all add: fieldsInEnv_def fieldsInput_def fieldsWriter_def fieldsReader_def fieldsFrame_def grantingEnv_def\<close>)
  then show ?thesis using s' by blast
qed

end
