(* ===== verification/InputCore.thy ===== *)
theory InputCore
  imports InputChannel "HOL-Library.Multiset"
begin

text \<open>
  Invariants of the capture channel.  \<open>shape\<close> collects what the invariants speak about; the callbacks leave
  most of it alone, and one lemma per operation says so.
\<close>

subsection \<open>Writers and their handles\<close>

definition writerHandles :: "InputChannel \<Rightarrow> handle list" where
  "writerHandles s =
     (case in_videoWriter s of None \<Rightarrow> [] | Some w \<Rightarrow> [vw_writer w]) @
     map (\<lambda>fw. aw_writer (fw_writer fw)) (in_audioFlows s) @
     (case in_ancWriter s of None \<Rightarrow> [] | Some w \<Rightarrow> [nw_writer w])"

definition live_ok :: "InputChannel \<Rightarrow> bool" where
  "live_ok s \<longleftrightarrow> mset (rg_live (in_ring s)) = mset (writerHandles s)"

lemma newVideoWriter_live:
  "newVideoWriter e p h r = (res, r') \<Longrightarrow>
     rg_live r' = (case res of Inl _ \<Rightarrow> rg_live r | Inr w \<Rightarrow> vw_writer w # rg_live r)"
  by (auto simp: newVideoWriter_def createWriter_def rtick_def Let_def split: prod.splits if_splits)

lemma newAudioWriter_live:
  "newAudioWriter e p h r = (res, r') \<Longrightarrow>
     rg_live r' = (case res of Inl _ \<Rightarrow> rg_live r | Inr w \<Rightarrow> aw_writer w # rg_live r)"
  by (auto simp: newAudioWriter_def createWriter_def rtick_def Let_def split: prod.splits if_splits)

lemma newAncWriter_live:
  "newAncWriter e p r = (res, r') \<Longrightarrow>
     rg_live r' = (case res of Inl _ \<Rightarrow> rg_live r | Inr w \<Rightarrow> nw_writer w # rg_live r)"
  by (auto simp: newAncWriter_def createWriter_def rtick_def Let_def split: prod.splits if_splits)

lemma mset_fold_release:
  "mset (rg_live (fold (\<lambda>fw. deleteAudioWriter (fw_writer fw)) fws r)) =
     mset (rg_live r) - mset (map (\<lambda>fw. aw_writer (fw_writer fw)) fws)"
  by (induction fws arbitrary: r) (simp_all add: deleteAudioWriter_def releaseWriter_def)

lemma live_clearAudioFlows: "live_ok s \<Longrightarrow> live_ok (clearAudioFlows s)"
  by (simp add: live_ok_def clearAudioFlows_def writerHandles_def mset_fold_release)

lemma live_createVideo: "createVideo e m i s = (err, t) \<Longrightarrow> live_ok s \<Longrightarrow> live_ok t"
  by (auto simp: createVideo_def live_ok_def writerHandles_def deleteVideoWriter_def releaseWriter_def
      dest!: newVideoWriter_live split: if_splits prod.splits sum.splits option.splits)

lemma live_createAudio: "createAudio e fs s = (err, t) \<Longrightarrow> live_ok s \<Longrightarrow> live_ok t"
proof (induction e fs s rule: createAudio.induct)
  case (2 e af flow rest s)
  show ?case
  proof (cases "isNil flow \<or> \<not> af_mxlActive af")
    case True
    with 2 show ?thesis by simp
  next
    case False
    obtain res r where w: "newAudioWriter (ie_mxl e) (audioFlowParams af flow s) (commitBatchHintAudio (in_cfg s)) (in_ring s) = (res, r)"
      by fastforce
    show ?thesis
    proof (cases res)
      case (Inl err')
      with 2(3,4) False w newAudioWriter_live[OF w] show ?thesis by (auto simp: live_ok_def writerHandles_def)
    next
      case (Inr aw)
      let ?s = "s\<lparr>in_audioFlows := in_audioFlows s @ [\<lparr>fw_cfg = af, fw_flowId = flow, fw_writer = aw\<rparr>], in_ring := r\<rparr>"
      have "live_ok ?s" using 2(4) newAudioWriter_live[OF w] Inr by (simp add: live_ok_def writerHandles_def)
      then show ?thesis using 2(2)[OF False w[symmetric] Inr] 2(3) False w Inr by simp
    qed
  qed
qed simp

lemma live_createAnc: "createAnc e m i s = (err, t) \<Longrightarrow> live_ok s \<Longrightarrow> live_ok t"
  by (auto simp: createAnc_def live_ok_def writerHandles_def deleteAncWriter_def releaseWriter_def
      dest!: newAncWriter_live split: if_splits prod.splits sum.splits option.splits)

lemma live_createWriters: "createWriters e m v as n s = (err, t) \<Longrightarrow> live_ok s \<Longrightarrow> live_ok t"
proof -
  have flag: "live_ok (u\<lparr>in_writersValid := b, in_flowWriterActive := b'\<rparr>) = live_ok u" for u b b'
    by (simp add: live_ok_def writerHandles_def)
  show "createWriters e m v as n s = (err, t) \<Longrightarrow> live_ok s \<Longrightarrow> live_ok t"
    by (auto simp: createWriters_def Let_def flag live_clearAudioFlows
        dest!: live_createVideo live_createAudio live_createAnc split: prod.splits option.splits if_splits)
qed

lemma destroyWriters_live: "live_ok s \<Longrightarrow> rg_live (in_ring (destroyWriters s)) = []"
  by (simp add: destroyWriters_def Let_def clearAudioFlows_def live_ok_def writerHandles_def mset_fold_release
      deleteVideoWriter_def deleteAncWriter_def releaseWriter_def split: option.splits flip: mset_zero_iff)

subsection \<open>What creating and destroying writers leaves alone\<close>

definition ctl :: "InputChannel \<Rightarrow> InputChannel" where
  "ctl s = s\<lparr>in_videoWriter := None, in_audioFlows := [], in_ancWriter := None, in_writersValid := False,
     in_flowWriterActive := False, in_ring := \<lparr>rg_tick = 0, rg_ops = [], rg_live = []\<rparr>\<rparr>"

lemma ctl_simps [simp]:
  "ctl (s\<lparr>in_ring := r\<rparr>) = ctl s" "ctl (s\<lparr>in_videoWriter := w\<rparr>) = ctl s" "ctl (s\<lparr>in_audioFlows := fs\<rparr>) = ctl s"
  "ctl (s\<lparr>in_ancWriter := n\<rparr>) = ctl s" "ctl (s\<lparr>in_writersValid := b\<rparr>) = ctl s" "ctl (s\<lparr>in_flowWriterActive := b\<rparr>) = ctl s"
  "ctl (s\<lparr>in_videoWriter := w, in_ring := r\<rparr>) = ctl s" "ctl (s\<lparr>in_audioFlows := fs, in_ring := r\<rparr>) = ctl s"
  "ctl (s\<lparr>in_ancWriter := n, in_ring := r\<rparr>) = ctl s"
  by (simp_all add: ctl_def)

lemma ctl_eqD:
  assumes "ctl s = ctl t"
  shows "in_streamingUp s = in_streamingUp t" "in_capture s = in_capture t" "in_pc s = in_pc t" "in_running s = in_running t"
    "in_cfg s = in_cfg t" "in_status s = in_status t" "in_framesTotal s = in_framesTotal t"
    "in_framesDropped s = in_framesDropped t" "in_grainsCommitted s = in_grainsCommitted t"
    "in_reconnectTotal s = in_reconnectTotal t" "in_attempt s = in_attempt t"
    "in_currentMode s = in_currentMode t" "in_globalCfg s = in_globalCfg t"
    "in_pendingFormatChange s = in_pendingFormatChange t"
  using arg_cong[OF assms, of in_streamingUp] arg_cong[OF assms, of in_capture] arg_cong[OF assms, of in_pc]
    arg_cong[OF assms, of in_running] arg_cong[OF assms, of in_cfg] arg_cong[OF assms, of in_status]
    arg_cong[OF assms, of in_framesTotal] arg_cong[OF assms, of in_framesDropped]
    arg_cong[OF assms, of in_grainsCommitted] arg_cong[OF assms, of in_reconnectTotal]
    arg_cong[OF assms, of in_attempt] arg_cong[OF assms, of in_currentMode] arg_cong[OF assms, of in_globalCfg]
    arg_cong[OF assms, of in_pendingFormatChange]
  by (simp_all add: ctl_def)

lemma ctl_clearAudioFlows [simp]: "ctl (clearAudioFlows s) = ctl s"
  by (simp add: clearAudioFlows_def)

lemma ctl_createVideo: "createVideo e m i s = (err, t) \<Longrightarrow> ctl t = ctl s"
  by (auto simp: createVideo_def split: if_splits prod.splits sum.splits)

lemma ctl_createAudio: "createAudio e fs s = (err, t) \<Longrightarrow> ctl t = ctl s"
  by (induction e fs s rule: createAudio.induct) (auto split: if_splits prod.splits sum.splits)

lemma ctl_createAnc: "createAnc e m i s = (err, t) \<Longrightarrow> ctl t = ctl s"
  by (auto simp: createAnc_def split: if_splits prod.splits sum.splits option.splits)

lemma ctl_createWriters: "createWriters e m v as n s = (err, t) \<Longrightarrow> ctl t = ctl s"
  by (auto simp: createWriters_def Let_def
      dest!: ctl_createVideo ctl_createAudio ctl_createAnc split: prod.splits option.splits if_splits)

lemma ctl_destroyWriters [simp]: "ctl (destroyWriters s) = ctl s"
  by (simp add: destroyWriters_def Let_def)

lemma destroyWriters_none [simp]:
  "in_videoWriter (destroyWriters s) = None" "in_audioFlows (destroyWriters s) = []" "in_ancWriter (destroyWriters s) = None"
  "\<not> in_writersValid (destroyWriters s)" "\<not> in_flowWriterActive (destroyWriters s)" "\<not> anyWriter (destroyWriters s)"
  by (simp_all add: destroyWriters_def Let_def clearAudioFlows_def anyWriter_def)

lemmas destroyWriters_ctl [simp] = ctl_eqD[OF ctl_destroyWriters]

lemma createWriters_flags:
  assumes "createWriters e m v as n s = (None, t)"
  shows "in_writersValid t = anyWriter t" "in_flowWriterActive t = anyWriter t"
  using assms
  by (auto simp: createWriters_def Let_def anyWriter_def split: prod.splits option.splits if_splits)

subsection \<open>What a callback leaves alone\<close>

text \<open>A write changes the tick and the log of the ring only.\<close>

definition hot :: "InputChannel \<Rightarrow> InputChannel" where
  "hot s = s\<lparr>in_ring := \<lparr>rg_tick = 0, rg_ops = [], rg_live = rg_live (in_ring s)\<rparr>,
     in_status := newStatus, in_framesTotal := 0, in_framesDropped := 0, in_grainsCommitted := 0,
     in_grainsWrittenBytes := 0, in_headIndexGauge := 0, in_signalLostTotal := 0, in_signalLossSinceTai := 0,
     in_nextAudioEndIndex := 0, in_audioIndexValid := False, in_conversionBuffer := []\<rparr>"

lemma hot_eqD:
  assumes "hot s = hot t"
  shows "in_streamingUp s = in_streamingUp t" "in_capture s = in_capture t" "in_pc s = in_pc t" "in_running s = in_running t"
    "in_videoWriter s = in_videoWriter t" "in_audioFlows s = in_audioFlows t" "in_ancWriter s = in_ancWriter t"
    "in_writersValid s = in_writersValid t" "in_flowWriterActive s = in_flowWriterActive t"
    "rg_live (in_ring s) = rg_live (in_ring t)" "in_cfg s = in_cfg t" "in_currentMode s = in_currentMode t"
    "in_reconnectTotal s = in_reconnectTotal t"
  using arg_cong[OF assms, of in_streamingUp] arg_cong[OF assms, of in_capture] arg_cong[OF assms, of in_pc]
    arg_cong[OF assms, of in_running] arg_cong[OF assms, of in_videoWriter] arg_cong[OF assms, of in_audioFlows]
    arg_cong[OF assms, of in_ancWriter] arg_cong[OF assms, of in_writersValid]
    arg_cong[OF assms, of in_flowWriterActive] arg_cong[OF assms, of "\<lambda>s. rg_live (in_ring s)"]
    arg_cong[OF assms, of in_cfg] arg_cong[OF assms, of in_currentMode] arg_cong[OF assms, of in_reconnectTotal]
  by (simp_all add: hot_def)

lemma rtick_live [simp]: "rg_live (rtick r) = rg_live r"
  by (simp add: rtick_def)

lemma commit_live [simp]: "rg_live (snd (commit e h i info buf r)) = rg_live r"
  by (simp add: commit_def Let_def)

lemma commit_live': "commit e h i info buf r = (st, r') \<Longrightarrow> rg_live r' = rg_live r"
  using commit_live[of e h i info buf r] by simp

lemma writeFrame_live: "writeFrame e w i d n r = Some (st, r') \<Longrightarrow> rg_live r' = rg_live r"
  by (auto simp: writeFrame_def Let_def dest: commit_live' split: prod.splits if_splits option.splits)

lemma writeField_live: "writeField e w i d n h p r = Some (st, r') \<Longrightarrow> rg_live r' = rg_live r"
  by (auto simp: writeField_def Let_def dest: commit_live' split: prod.splits if_splits option.splits)

lemma writePackets_live: "writePackets e w i ps f r = Some (st, r') \<Longrightarrow> rg_live r' = rg_live r"
  by (auto simp: writePackets_def Let_def dest: commit_live' split: prod.splits if_splits option.splits)

lemma writeLoop_live:
  assumes "writeLoop e w start pcm n dl cmap ty cur rem r = Some res"
  shows "rg_live (snd res) = rg_live r"
proof (rule writeLoop.raw_induct[OF _ assms], goal_cases)
  case 1
  from 1(2) show ?case
    by (auto simp: Let_def split: if_splits prod.splits option.splits dest: 1(1))
qed

lemma writeSamples_live: "writeSamples e w i pcm n dl cmap ty r = Some (st, r') \<Longrightarrow> rg_live r' = rg_live r"
  by (auto simp: writeSamples_def dest: writeLoop_live split: if_splits)

lemma writeAudioFlows_live: "writeAudioFlows e c i a fws r = Some r' \<Longrightarrow> rg_live r' = rg_live r"
  by (induction fws arbitrary: r) (auto dest: writeSamples_live split: option.splits)

lemma hot_ring: "rg_live r = rg_live (in_ring s) \<Longrightarrow> hot (s\<lparr>in_ring := r\<rparr>) = hot s"
  by (simp add: hot_def)

lemma hot_ticked [simp]: "hot (in_ticked s) = hot s"
  by (simp add: in_ticked_def hot_ring)

lemma hot_taiNow: "in_taiNow e s = (t, s') \<Longrightarrow> hot s' = hot s"
  by (auto simp: in_taiNow_def)

lemma hot_timestamp: "frameTimestampTai e v s = (t, s') \<Longrightarrow> hot s' = hot s"
  by (auto simp: frameTimestampTai_def in_taiNow_def split: if_splits)

lemma hot_noteSignalLoss [simp]: "hot (noteSignalLoss t s) = hot s"
  by (simp add: noteSignalLoss_def setState_in_def hot_def Let_def)

lemma hot_noteSignal [simp]: "hot (noteSignal s) = hot s"
  by (simp add: noteSignal_def setState_in_def hot_def Let_def)

lemma hot_countFrame [simp]: "hot (countFrame w i t st s) = hot s"
  by (simp add: countFrame_def hot_def Let_def)

lemma hot_nextAudioEnd [simp]: "hot (nextAudioEnd t n s) = hot s"
  by (simp add: nextAudioEnd_def hot_def Let_def)

lemma hot_frameToWrite: "frameToWrite v s = Some (d, n, s') \<Longrightarrow> hot s' = hot s"
  by (auto simp: frameToWrite_def Let_def hot_def split: if_splits option.splits)

lemma hot_writeGrains: "writeGrains e w i d n h s = Some (st, s') \<Longrightarrow> hot s' = hot s"
  by (auto simp: writeGrains_def Let_def intro!: hot_ring dest!: writeField_live writeFrame_live
      split: if_splits option.splits prod.splits)

lemma hot_captureVideo: "captureVideo e v i t s = Some s' \<Longrightarrow> hot s' = hot s"
proof -
  have "hot (s\<lparr>in_framesTotal := n, in_status := st\<rparr>) = hot s" for n st by (simp add: hot_def)
  then show "captureVideo e v i t s = Some s' \<Longrightarrow> hot s' = hot s"
    by (auto simp: captureVideo_def dest!: hot_writeGrains hot_frameToWrite split: option.splits prod.splits)
qed

lemma hot_captureAudio: "captureAudio e a t s = Some s' \<Longrightarrow> hot s' = hot s"
proof -
  have "hot (nextAudioEnd x n s\<lparr>in_ring := r\<rparr>) = hot s" if "rg_live r = rg_live (in_ring (nextAudioEnd x n s))" for x n r
    using hot_ring[OF that] by simp
  then show "captureAudio e a t s = Some s' \<Longrightarrow> hot s' = hot s"
    by (auto simp: captureAudio_def Let_def dest!: writeAudioFlows_live split: option.splits if_splits)
qed

lemma hot_captureAnc: "captureAnc e v i s = Some s' \<Longrightarrow> hot s' = hot s"
  by (auto simp: captureAnc_def Let_def intro!: hot_ring dest!: writePackets_live
      split: option.splits if_splits prod.splits)

lemma hot_captureFrame: "captureFrame e v a s = Some s' \<Longrightarrow> hot s' = hot s"
  by (auto simp: captureFrame_def Let_def
      dest!: hot_captureVideo hot_captureAudio hot_captureAnc hot_timestamp split: option.splits prod.splits)

lemma hot_handleFrame: "handleFrame e owns v a s = Some s' \<Longrightarrow> hot s' = hot s"
  by (auto simp: handleFrame_def Let_def dest!: hot_captureFrame hot_taiNow split: if_splits prod.splits)

subsection \<open>The invariant\<close>

definition shape where
  "shape s = (in_videoWriter s, in_audioFlows s, in_ancWriter s, in_writersValid s, in_flowWriterActive s,
     rg_live (in_ring s), in_streamingUp s, in_capture s, in_pc s)"

text \<open>The invariant: the live handles are those of the writers; a stream that is down has no session and no writer; the
  flag for the callbacks is set only when there is a writer; during the grace period there is none.\<close>

definition in_ok :: "InputChannel \<Rightarrow> bool" where
  "in_ok s \<longleftrightarrow> live_ok s \<and> (in_capture s = in_streamingUp s) \<and> (anyWriter s \<longrightarrow> in_streamingUp s) \<and>
     (in_writersValid s \<longrightarrow> anyWriter s) \<and> (in_flowWriterActive s = anyWriter s) \<and>
     (case in_pc s of AtPending \<Rightarrow> in_streamingUp s | InGrace m \<Rightarrow> in_streamingUp s \<and> \<not> anyWriter s
      | Waiting n \<Rightarrow> \<not> in_streamingUp s | _ \<Rightarrow> True)"

lemma in_ok_shape: "shape s = shape t \<Longrightarrow> in_ok s = in_ok t"
  by (simp add: shape_def in_ok_def live_ok_def writerHandles_def anyWriter_def cong: InPc.case_cong)

lemma shape_hot: "hot s = hot t \<Longrightarrow> shape s = shape t"
  using hot_eqD[of s t] by (simp add: shape_def)

lemma shape_simps [simp]:
  "shape (s\<lparr>in_status := st\<rparr>) = shape s" "shape (s\<lparr>in_hwCalibrator := h\<rparr>) = shape s"
  "shape (s\<lparr>in_useHardwareTimestamps := b\<rparr>) = shape s" "shape (s\<lparr>in_signalLockGauge := b\<rparr>) = shape s"
  "shape (s\<lparr>in_signalLossSinceTai := t\<rparr>) = shape s" "shape (s\<lparr>in_attempt := n\<rparr>) = shape s"
  "shape (s\<lparr>in_reconnectTotal := n\<rparr>) = shape s" "shape (s\<lparr>in_formatChangeCounter := n\<rparr>) = shape s"
  "shape (s\<lparr>in_pendingFormatChange := fc\<rparr>) = shape s" "shape (s\<lparr>in_currentMode := m\<rparr>) = shape s"
  "shape (s\<lparr>in_audioIndexValid := b\<rparr>) = shape s" "shape (s\<lparr>in_announced := a\<rparr>) = shape s"
  "shape (s\<lparr>in_running := b\<rparr>) = shape s" "shape (s\<lparr>in_formatChangesTotal := n\<rparr>) = shape s"
  "shape (setState_in x s) = shape s" "shape (in_ticked s) = shape s"
  by (simp_all add: shape_def setState_in_def in_ticked_def)

lemma shape_taiNow: "shape (snd (in_taiNow e s)) = shape s"
  by (simp add: in_taiNow_def)

lemma shape_calibrateInitially [simp]: "shape (calibrateInitially e s) = shape s"
  by (simp add: calibrateInitially_def in_taiNow_def Let_def split: option.split)

lemma shape_housekeeping [simp]: "shape (housekeeping_in e s) = shape s"
  by (simp add: housekeeping_in_def in_taiNow_def Let_def split: option.split)

lemma in_ok_ticked: "in_ok (in_ticked s) = in_ok s"
  by (rule in_ok_shape) simp

lemma in_ok_setState: "in_ok (setState_in st s) = in_ok s"
  by (rule in_ok_shape) simp

text \<open>After the writers are destroyed and the session is closed.\<close>

lemma down_ok:
  assumes "live_ok s" and "in_pc s = AtTop \<or> in_pc s = AtLoss \<or> in_pc s = Ended \<or> (\<exists>n. in_pc s = Waiting n)"
    and "\<not> in_streamingUp s" "\<not> in_capture s"
  shows "in_ok (destroyWriters s)"
  using assms destroyWriters_live[OF assms(1)]
  by (auto simp: in_ok_def live_ok_def writerHandles_def)

lemma live_shape: "shape s = shape t \<Longrightarrow> live_ok s = live_ok t"
  by (simp add: shape_def live_ok_def writerHandles_def)

lemma shapeD:
  assumes "shape s = shape t"
  shows "in_streamingUp s = in_streamingUp t" "in_capture s = in_capture t" "in_pc s = in_pc t"
    "in_writersValid s = in_writersValid t" "in_flowWriterActive s = in_flowWriterActive t" "anyWriter s = anyWriter t"
  using assms by (simp_all add: shape_def anyWriter_def)

lemma startCapture_ok:
  assumes run: "startCapture e s = (up, t)" and live: "live_ok s" and pc: "in_pc s = AtTop"
    and up: "\<not> in_streamingUp s" "in_capture s" "in_writersValid s = anyWriter s" "in_flowWriterActive s = anyWriter s"
  shows "in_ok t \<and> in_streamingUp t = up \<and> in_pc t = AtTop"
proof (cases "ie_enable e (in_tick s) (captureParams s)")
  case (Some err)
  have sh: "shape ((in_ticked s)\<lparr>in_capture := False\<rparr>) = shape (s\<lparr>in_capture := False\<rparr>)"
    by (simp add: shape_def in_ticked_def)
  have "live_ok (s\<lparr>in_capture := False\<rparr>)" using live by (simp add: live_ok_def writerHandles_def)
  then have l: "live_ok ((in_ticked s)\<lparr>in_capture := False\<rparr>)" using live_shape[OF sh] by simp
  have t: "up = False" "t = destroyWriters ((in_ticked s)\<lparr>in_capture := False\<rparr>)" using run Some by (simp_all add: startCapture_def)
  have "in_ok t" unfolding t(2) by (rule down_ok[OF l]) (use pc up shapeD[OF sh] in simp_all)
  then show ?thesis using t shapeD[OF sh] up pc by simp
next
  case None
  define u where "u = calibrateInitially e (in_ticked s)"
  have u: "shape u = shape s" by (simp add: u_def)
  have lu: "live_ok u" using live live_shape[OF u] by simp
  show ?thesis
  proof (cases "ie_start e (in_tick u)")
    case (Some err)
    have sh: "shape ((in_ticked u)\<lparr>in_capture := False\<rparr>) = shape (u\<lparr>in_capture := False\<rparr>)"
      by (simp add: shape_def in_ticked_def)
    have "live_ok (u\<lparr>in_capture := False\<rparr>)" using lu by (simp add: live_ok_def writerHandles_def)
    then have l: "live_ok ((in_ticked u)\<lparr>in_capture := False\<rparr>)" using live_shape[OF sh] by simp
    have t: "up = False" "t = destroyWriters ((in_ticked u)\<lparr>in_capture := False\<rparr>)"
      using run Some None by (simp_all add: startCapture_def u_def)
    have "in_ok t" unfolding t(2) by (rule down_ok[OF l]) (use pc up shapeD[OF sh] shapeD[OF u] in simp_all)
    then show ?thesis using t shapeD[OF sh] shapeD[OF u] up pc by simp
  next
    case none: None
    have t: "up = True" "t = setState_in Healthy ((in_ticked u)\<lparr>in_audioIndexValid := False, in_streamingUp := True\<rparr>)"
      using run none None by (simp_all add: startCapture_def u_def)
    have "in_ok t"
      unfolding t(2) in_ok_setState using lu up pc shapeD[OF u]
      by (simp add: in_ok_def live_ok_def writerHandles_def anyWriter_def in_ticked_def)
    then show ?thesis using t pc shapeD[OF u] by (simp add: setState_in_def in_ticked_def)
  qed
qed

lemma destroy_closed_ok:
  assumes "live_ok s" and "\<not> in_streamingUp s" and "in_pc s = AtTop"
  shows "in_ok (destroyWriters (s\<lparr>in_capture := False\<rparr>))"
  by (rule down_ok) (use assms in \<open>simp_all add: live_ok_def writerHandles_def\<close>)

lemma bringUp_in_ok:
  assumes run: "bringUp_in e s = (up, t)" and ok: "in_ok s" and down: "\<not> in_streamingUp s" and pc: "in_pc s = AtTop"
  shows "in_ok t \<and> in_streamingUp t = up \<and> in_pc t = AtTop"
proof -
  define m where "m = (if isAutoMode (in_cfg s) then autoStartMode else the (videoMode (in_cfg s)))"
  define s1 where "s1 = (setState_in Init s)\<lparr>in_currentMode := m,
      in_status := (in_status (setState_in Init s))\<lparr>activeModeName := vm_name m\<rparr>\<rparr>"
  have s1: "shape s1 = shape s" "in_cfg s1 = in_cfg s" "in_tick s1 = in_tick (setState_in Init s)"
    by (simp_all add: s1_def shape_def setState_in_def in_tick_def)
  define s2 where "s2 = (if isAutoMode (in_cfg s) then s1 else in_ticked s1)"
  have s2: "shape s2 = shape s" by (simp add: s2_def s1)
  have run': "bringUp_in e s =
      (if \<not> isAutoMode (in_cfg s) \<and> \<not> ie_supportsMode e (in_tick s1) m then (False, in_ticked s1)
       else case createWriters e m (videoFlowId (in_cfg s)) (map af_flowId (audioFlows (in_cfg s))) (ancFlowId (in_cfg s)) s2 of
             (Some err, s) \<Rightarrow> (False, destroyWriters (s\<lparr>in_capture := False\<rparr>))
           | (None, s) \<Rightarrow>
               if \<not> ie_openCapture e (in_tick s) then (False, destroyWriters ((in_ticked s)\<lparr>in_capture := False\<rparr>))
               else startCapture e ((in_ticked s)\<lparr>in_capture := True\<rparr>))"
    unfolding s2_def s1_def m_def
    by (simp add: bringUp_in_def Let_def setState_in_def in_tick_def)
  show ?thesis
  proof (cases "\<not> isAutoMode (in_cfg s) \<and> \<not> ie_supportsMode e (in_tick s1) m")
    case True
    then have "up = False" "t = in_ticked s1" using run run' by simp_all
    moreover have "shape (in_ticked s1) = shape s" by (simp add: s1)
    ultimately show ?thesis using in_ok_shape shapeD down ok pc by metis
  next
    case False
    obtain err u where u: "createWriters e m (videoFlowId (in_cfg s)) (map af_flowId (audioFlows (in_cfg s)))
        (ancFlowId (in_cfg s)) s2 = (err, u)" by fastforce
    have lu: "live_ok u" using live_createWriters[OF u] live_shape[OF s2] ok by (simp add: in_ok_def)
    have cu: "\<not> in_streamingUp u" "in_pc u = AtTop"
      using ctl_eqD[OF ctl_createWriters[OF u]] shapeD[OF s2] down pc by simp_all
    have lt: "live_ok (in_ticked u)" using lu live_shape[of "in_ticked u" u] by simp
    have ct: "\<not> in_streamingUp (in_ticked u)" "in_pc (in_ticked u) = AtTop" using cu by (simp_all add: in_ticked_def)
    show ?thesis
    proof (cases err)
      case (Some x)
      then have "up = False" "t = destroyWriters (u\<lparr>in_capture := False\<rparr>)" using run run' False u by simp_all
      then show ?thesis using destroy_closed_ok[OF lu cu] cu by simp
    next
      case None
      show ?thesis
      proof (cases "ie_openCapture e (in_tick u)")
        case closed: False
        then have "up = False" "t = destroyWriters ((in_ticked u)\<lparr>in_capture := False\<rparr>)"
          using run run' False u None by simp_all
        then show ?thesis using destroy_closed_ok[OF lt ct] ct by simp
      next
        case True
        let ?v = "(in_ticked u)\<lparr>in_capture := True\<rparr>"
        have "startCapture e ?v = (up, t)" using run run' False u None True by simp
        moreover have "live_ok ?v" using lt by (simp add: live_ok_def writerHandles_def)
        moreover have "in_writersValid ?v = anyWriter ?v" "in_flowWriterActive ?v = anyWriter ?v"
          using createWriters_flags[OF u[unfolded None]] by (simp_all add: in_ticked_def anyWriter_def)
        ultimately show ?thesis using ct by (intro startCapture_ok[of e ?v]) simp_all
      qed
    qed
  qed
qed

lemma in_ok_pc:
  assumes "in_ok s" and "case p of AtPending \<Rightarrow> in_streamingUp s | InGrace m \<Rightarrow> in_streamingUp s \<and> \<not> anyWriter s
      | Waiting n \<Rightarrow> \<not> in_streamingUp s | _ \<Rightarrow> True"
  shows "in_ok (s\<lparr>in_pc := p\<rparr>)"
  using assms by (simp add: in_ok_def live_ok_def writerHandles_def anyWriter_def cong: InPc.case_cong)

lemma superviseTop_ok:
  assumes ok: "in_ok s" and pc: "in_pc s = AtTop"
  shows "in_ok (superviseTop e s)"
proof (cases "in_running s \<and> \<not> in_streamingUp s")
  case False
  then show ?thesis using ok by (auto simp: superviseTop_def intro!: in_ok_pc)
next
  case True
  define s1 where "s1 = countAttempt s"
  have s1: "shape s1 = shape s" by (simp add: s1_def countAttempt_def shape_def)
  obtain up t where t: "bringUp_in e s1 = (up, t)" by fastforce
  have b: "in_ok t \<and> in_streamingUp t = up \<and> in_pc t = AtTop"
    by (rule bringUp_in_ok[OF t]) (use in_ok_shape[OF s1] shapeD[OF s1] ok pc True in simp_all)
  have top: "superviseTop e s = (if up then t\<lparr>in_attempt := 0, in_pc := AtPending\<rparr>
      else (setState_in Failed t)\<lparr>in_pc := Waiting (backoffForAttempt (in_attempt t)), in_attempt := in_attempt t + 1\<rparr>)"
    using True t unfolding s1_def by (simp add: superviseTop_def setState_in_def)
  have sh: "shape (t\<lparr>in_attempt := 0, in_pc := AtPending\<rparr>) = shape (t\<lparr>in_pc := AtPending\<rparr>)"
    "shape ((setState_in Failed t)\<lparr>in_pc := Waiting n, in_attempt := k\<rparr>) = shape (t\<lparr>in_pc := Waiting n\<rparr>)" for n k
    by (simp_all add: shape_def setState_in_def)
  show ?thesis
  proof (cases up)
    case True
    then show ?thesis unfolding top using b in_ok_shape[OF sh(1)] in_ok_pc[of t AtPending] by simp
  next
    case False
    then show ?thesis unfolding top using b in_ok_shape[OF sh(2)] in_ok_pc[of t] by simp
  qed
qed

lemma tearDown_ok:
  assumes "live_ok s" and "in_pc s = AtTop \<or> in_pc s = AtLoss \<or> in_pc s = Ended \<or> (\<exists>n. in_pc s = Waiting n)"
  shows "in_ok (tearDownStreaming_in s)"
  unfolding tearDownStreaming_in_def
  by (rule down_ok) (use assms in \<open>simp_all add: live_ok_def writerHandles_def\<close>)

lemma destroyWriters_update_pc: "(destroyWriters s)\<lparr>in_pc := p\<rparr> = destroyWriters (s\<lparr>in_pc := p\<rparr>)"
  by (cases "in_videoWriter s"; cases "in_ancWriter s") (simp_all add: destroyWriters_def clearAudioFlows_def Let_def)

lemma tearDown_update_pc: "(tearDownStreaming_in s)\<lparr>in_pc := p\<rparr> = tearDownStreaming_in (s\<lparr>in_pc := p\<rparr>)"
  unfolding tearDownStreaming_in_def destroyWriters_update_pc by (rule arg_cong[where f = destroyWriters]) simp

lemma live_pc: "live_ok (s\<lparr>in_pc := p\<rparr>) = live_ok s"
  by (simp add: live_ok_def writerHandles_def)

lemma beginFormatChange_ok:
  assumes ok: "in_ok s" and pc: "in_pc s = AtPending"
  shows "\<exists>t. beginFormatChange e s = Some t \<and> in_ok t"
proof -
  have up: "in_streamingUp s" "in_capture s" "live_ok s" using ok pc by (simp_all add: in_ok_def)
  show ?thesis
  proof (cases "in_pendingFormatChange s")
    case None
    then show ?thesis using in_ok_pc[OF ok, of AtLoss] by (simp add: beginFormatChange_def)
  next
    case (Some fc)
    define u where "u = setState_in Degraded (s\<lparr>in_pendingFormatChange := None\<rparr>)"
    have u: "shape u = shape s" by (simp add: u_def)
    have lt: "live_ok (in_ticked u)" using up(3) live_shape[of "in_ticked u" s] u by simp
    show ?thesis
    proof (cases "ie_changeMode e (in_tick u) (fc_newMode fc)")
      case (Some err)
      then have "beginFormatChange e s = Some (tearDownStreaming_in ((in_ticked u)\<lparr>in_pc := AtLoss\<rparr>))"
        using up \<open>in_pendingFormatChange s = Some fc\<close> by (simp add: beginFormatChange_def u_def tearDown_update_pc Let_def)
      moreover have "in_ok (tearDownStreaming_in ((in_ticked u)\<lparr>in_pc := AtLoss\<rparr>))"
        by (rule tearDown_ok) (use lt live_pc in simp_all)
      ultimately show ?thesis by blast
    next
      case None
      define v where "v = (in_ticked u)\<lparr>in_currentMode := fc_newMode fc,
          in_status := (in_status (in_ticked u))\<lparr>activeModeName := vm_name (fc_newMode fc)\<rparr>\<rparr>"
      have v: "shape v = shape s" by (simp add: v_def u)
      have "beginFormatChange e s = Some ((destroyWriters v)\<lparr>in_pc := InGrace (fc_newMode fc)\<rparr>)"
        using up None \<open>in_pendingFormatChange s = Some fc\<close>
        by (simp add: beginFormatChange_def u_def v_def Let_def in_ticked_def)
      moreover have "in_ok ((destroyWriters v)\<lparr>in_pc := InGrace (fc_newMode fc)\<rparr>)"
      proof (rule in_ok_pc)
        have "live_ok v" using up(3) live_shape[OF v] by simp
        then show "in_ok (destroyWriters v)"
          using shapeD[OF v] up pc destroyWriters_live[of v]
          by (simp add: in_ok_def live_ok_def writerHandles_def)
      qed (use shapeD[OF v] up in simp)
      ultimately show ?thesis by blast
    qed
  qed
qed

lemma endFormatChange_ok:
  assumes ok: "in_ok s" and pc: "in_pc s = InGrace m"
  shows "in_ok (endFormatChange e m s)"
proof -
  have up: "in_streamingUp s" "in_capture s" "live_ok s" using ok pc by (simp_all add: in_ok_def)
  define s1 where "s1 = s\<lparr>in_formatChangeCounter := in_formatChangeCounter s + 1\<rparr>"
  have s1: "shape s1 = shape s" by (simp add: s1_def)
  define sig where "sig = vm_name m @ ''#'' @ int_to_string (int (in_formatChangeCounter s1))"
  obtain err u where u: "createWriters e m (deriveUuid (videoFlowId (in_cfg s1)) sig)
      (map (\<lambda>af. deriveUuid (af_flowId af) sig) (audioFlows (in_cfg s1)))
      (map_option (\<lambda>i. deriveUuid i sig) (ancFlowId (in_cfg s1))) s1 = (err, u)" by fastforce
  have lu: "live_ok u" using live_createWriters[OF u] live_shape[OF s1] up by simp
  have cu: "in_streamingUp u" "in_capture u"
    using ctl_eqD[OF ctl_createWriters[OF u]] shapeD[OF s1] up by simp_all
  show ?thesis
  proof (cases err)
    case (Some x)
    then have "endFormatChange e m s = tearDownStreaming_in (u\<lparr>in_pc := AtLoss\<rparr>)"
      using u unfolding sig_def s1_def by (simp add: endFormatChange_def Let_def tearDown_update_pc)
    moreover have "in_ok (tearDownStreaming_in (u\<lparr>in_pc := AtLoss\<rparr>))"
      by (rule tearDown_ok) (use lu live_pc in simp_all)
    ultimately show ?thesis by simp
  next
    case None
    have sh: "shape (endFormatChange e m s) = shape (u\<lparr>in_pc := AtLoss\<rparr>)"
      using u None unfolding sig_def s1_def
      by (simp add: endFormatChange_def Let_def shape_def setState_in_def)
    have "in_ok (u\<lparr>in_pc := AtLoss\<rparr>)"
      using lu cu createWriters_flags[OF u[unfolded None]]
      by (simp add: in_ok_def live_ok_def writerHandles_def anyWriter_def)
    then show ?thesis using in_ok_shape[OF sh] by simp
  qed
qed

lemma superviseLoss_ok:
  assumes "in_ok s" and "superviseLoss e s = Some t"
  shows "in_ok t"
proof -
  have "shape t = shape (s\<lparr>in_pc := AtTop\<rparr>)"
    using assms(2) by (auto simp: superviseLoss_def in_taiNow_def in_ticked_def shape_def Let_def split: if_splits)
  moreover have "in_ok (s\<lparr>in_pc := AtTop\<rparr>)" using in_ok_pc[OF assms(1), of AtTop] by simp
  ultimately show ?thesis using in_ok_shape by blast
qed

lemma superviseStep_ok:
  assumes "in_ok s" and "superviseStep e s = Some t"
  shows "in_ok t"
proof (cases "in_pc s")
  case AtTop
  then show ?thesis using assms superviseTop_ok by (auto simp: superviseStep_def)
next
  case (Waiting n)
  have "\<not> in_streamingUp s" using assms(1) Waiting by (simp add: in_ok_def)
  then have "in_ok (s\<lparr>in_pc := Waiting k\<rparr>)" "in_ok (s\<lparr>in_pc := AtTop\<rparr>)" for k
    using in_ok_pc[OF assms(1), of "Waiting k"] in_ok_pc[OF assms(1), of AtTop] by simp_all
  moreover have "t = s\<lparr>in_pc := Waiting (n - 50)\<rparr> \<or> t = s\<lparr>in_pc := AtTop\<rparr>"
    using assms(2) Waiting by (auto simp: superviseStep_def)
  ultimately show ?thesis by blast
next
  case AtPending
  then show ?thesis using assms beginFormatChange_ok[of s e] by (auto simp: superviseStep_def)
next
  case (InGrace m)
  then show ?thesis using assms endFormatChange_ok[of s m e] by (auto simp: superviseStep_def)
next
  case AtLoss
  then show ?thesis using assms superviseLoss_ok by (auto simp: superviseStep_def)
next
  case Ended
  then show ?thesis using assms by (auto simp: superviseStep_def)
qed

lemma in_step_ok: "in_step e s t \<Longrightarrow> in_ok s \<Longrightarrow> in_ok t"
proof (induction rule: in_step.induct)
  case (frame owns v audio s t)
  then show ?case using in_ok_shape[OF shape_hot[OF hot_handleFrame]] by blast
next
  case (formatChange s fc)
  then show ?case
    by (simp add: in_ok_def handleFormatChange_def live_ok_def writerHandles_def anyWriter_def cong: InPc.case_cong)
next
  case (supervise s t)
  then show ?case using superviseStep_ok by blast
next
  case (housekeeping s)
  then show ?case using in_ok_shape[OF shape_housekeeping] by blast
next
  case (start s)
  then show ?case
    by (simp add: in_ok_def start_in_def live_ok_def writerHandles_def anyWriter_def)
next
  case (requestStop s)
  then show ?case using in_ok_shape[of "requestStop s" s] by (simp add: requestStop_def)
next
  case (finishStop s)
  then show ?case unfolding finishStop_def by (intro tearDown_ok) (simp_all add: in_ok_def)
qed

lemma in_reachable_ok: "in_reachable e g c l s \<Longrightarrow> in_ok s"
proof (induction rule: in_reachable.induct)
  case (init m)
  show ?case by (simp add: in_ok_def newInputChannel_def live_ok_def writerHandles_def anyWriter_def)
next
  case (more s t)
  then show ?case by (blast intro: in_step_ok)
qed

end
