(* ===== verification/InputProps.thy ===== *)
theory InputProps
  imports InputCore WriterProps
begin

text \<open>
  The properties of the capture channel, over all interleavings of its threads and all answers of the card, the
  clocks and MXL.
\<close>

subsection \<open>Memory safety\<close>

definition frame_wf :: "PixelFormat \<Rightarrow> VideoFrameView \<Rightarrow> bool" where
  "frame_wf fmt v \<longleftrightarrow> length (vf_bytes v) = unat (vf_height v) * vf_rowBytes v \<and>
     (fmt = YUV8 \<longrightarrow> unat (vf_width v) \<le> 2 ^ 30 \<and> unat (vf_width v * 2) \<le> vf_rowBytes v)"

definition packet_wf :: "ChannelConfig \<Rightarrow> AudioPacketView option \<Rightarrow> bool" where
  "packet_wf c a \<longleftrightarrow>
     (case a of None \<Rightarrow> True | Some p \<Rightarrow> length (pk_samples p) = pk_sampleFrames p * nat (audioChannelCount c))"

lemma frameToWrite_Some:
  assumes "frame_wf (pixelFormat (in_cfg s)) v"
  shows "\<exists>d n s'. frameToWrite v s = Some (d, n, s') \<and> unat (vf_height v) * n = length d \<and> hot s' = hot s"
proof (cases "pixelFormat (in_cfg s) = YUV8")
  case True
  have wf: "length (vf_bytes v) = unat (vf_height v) * vf_rowBytes v" "unat (vf_width v) \<le> 2 ^ 30"
    "unat (vf_width v * 2) \<le> vf_rowBytes v"
    using assms True by (simp_all add: frame_wf_def)
  let ?n = "unat (v210RowBytes (vf_width v))"
  let ?buf = "resized (in_conversionBuffer s) (?n * unat (vf_height v))"
  have buf: "length ?buf = unat (vf_height v) * ?n" by (simp add: resized_def min_def mult.commute)
  obtain out where "expandUyvyToV210 (vf_bytes v) (vf_rowBytes v) ?buf ?n (vf_width v) (vf_height v) = Some out"
    "length out = length ?buf"
    using expand_returns[OF wf(2,3) order_refl wf(1) buf] by blast
  then show ?thesis using True buf by (auto simp: frameToWrite_def Let_def hot_def)
next
  case False
  then show ?thesis using assms by (simp add: frameToWrite_def frame_wf_def)
qed

lemma unat_xor_1: "unat p \<le> 1 \<Longrightarrow> unat (p XOR 1 :: u32) \<le> 1"
proof -
  assume "unat p \<le> 1"
  then have "p = 0 \<or> p = 1" by (metis le_eq_less_or_eq less_one unat_1 unat_eq_zero word_unat_eq_iff)
  then show ?thesis by auto
qed

lemma fieldParity_le: "unat (fieldParity i bff) \<le> 1"
proof -
  have "i AND 1 = 0 \<or> i AND 1 = 1" by (cases "even i") (simp_all add: and_one_eq even_iff_mod_2_eq_zero odd_iff_mod_2_eq_one)
  then show ?thesis by (auto simp: fieldParity_def)
qed

lemma writeGrains_Some:
  assumes "grain_law (ie_mxl e)" and "unat h * n \<le> length d"
  shows "\<exists>st s'. writeGrains e w i d n h s = Some (st, s')"
proof -
  let ?p = "fieldParity i (vm_bottomFieldFirst (in_currentMode s))"
  have p: "unat ?p \<le> 1" "unat (?p XOR 1) \<le> 1" using fieldParity_le unat_xor_1[OF fieldParity_le] by blast+
  obtain st1 r1 where f1: "writeField (ie_mxl e) w i d n h ?p (in_ring s) = Some (st1, r1)"
    using writeField_Some[OF assms p(1)] by blast
  obtain st2 r2 where f2: "writeField (ie_mxl e) w (i + 1) d n h (?p XOR 1) r1 = Some (st2, r2)"
    using writeField_Some[OF assms p(2)] by blast
  have "n * unat h \<le> length d" using assms(2) by (simp add: mult.commute)
  then obtain st3 r3 where f3: "writeFrame (ie_mxl e) w i d (n * unat h) (in_ring s) = Some (st3, r3)"
    using writeFrame_Some[OF assms(1)] by blast
  show ?thesis using f1 f2 f3 by (simp add: writeGrains_def Let_def)
qed

lemma captureVideo_Some:
  assumes "grain_law (ie_mxl e)" and "frame_wf (pixelFormat (in_cfg s)) v"
  shows "\<exists>t. captureVideo e v i tai s = Some t"
proof (cases "in_videoWriter s")
  case None
  then show ?thesis by (simp add: captureVideo_def)
next
  case (Some w)
  obtain d n s' where d: "frameToWrite v s = Some (d, n, s')" "unat (vf_height v) * n = length d"
    using frameToWrite_Some[OF assms(2)] by blast
  then obtain st u where "writeGrains e w i d n (vf_height v) s' = Some (st, u)"
    using writeGrains_Some[OF assms(1), of "vf_height v" n d w i s'] by auto
  then show ?thesis using Some d(1) by (simp add: captureVideo_def)
qed

lemma writeAudioFlows_Some:
  assumes "sample_law (ie_mxl e)" and "length (pk_samples a) = pk_sampleFrames a * nat (audioChannelCount c)"
  shows "\<exists>r'. writeAudioFlows e c i a fws r = Some r'"
proof (induction fws arbitrary: r)
  case (Cons fw fws)
  obtain st r1 where "writeSamples (ie_mxl e) (fw_writer fw) i (pk_samples a) (pk_sampleFrames a)
      (nat (audioChannelCount c)) (af_deckLinkChannels (fw_cfg fw)) (audioSampleType c) r = Some (st, r1)"
    using writeSamples_returns[OF assms(1), of "pk_sampleFrames a" "nat (audioChannelCount c)" "pk_samples a"] assms(2)
    by fastforce
  then show ?case using Cons.IH by simp
qed simp

lemma captureAudio_Some:
  assumes "sample_law (ie_mxl e)" and "packet_wf (in_cfg s) a"
  shows "\<exists>t. captureAudio e a tai s = Some t"
proof -
  have "in_cfg (nextAudioEnd x n s) = in_cfg s" for x n by (simp add: nextAudioEnd_def Let_def)
  then show ?thesis
    using assms writeAudioFlows_Some[OF assms(1)]
    by (auto simp: captureAudio_def packet_wf_def Let_def split: option.splits)
qed

lemma captureAnc_Some:
  assumes "grain_law (ie_mxl e)"
  shows "\<exists>t. captureAnc e v i s = Some t"
proof -
  have p: "\<exists>st r'. writePackets (ie_mxl e) w j ps f r = Some (st, r')" for w j ps f r
    by (rule writePackets_Some[OF assms])
  show ?thesis
  proof (cases "in_ancWriter s")
    case (Some w)
    obtain st r1 where 1: "writePackets (ie_mxl e) w i (filter (\<lambda>p. \<not> ancLineInSecondField (vm_height (in_currentMode s)) (lineNumber p)) (ancPackets v))
        kAncField1 (in_ring s) = Some (st, r1)" using p by blast
    obtain st2 r2 where 2: "writePackets (ie_mxl e) w (i + 1) (filter (\<lambda>p. ancLineInSecondField (vm_height (in_currentMode s)) (lineNumber p)) (ancPackets v))
        kAncField2 r1 = Some (st2, r2)" using p by blast
    obtain st3 r3 where 3: "writePackets (ie_mxl e) w i (ancPackets v) kAncFieldProgressive (in_ring s) = Some (st3, r3)"
      using p by blast
    show ?thesis using Some 1 2 3 by (simp add: captureAnc_def Let_def)
  qed (simp add: captureAnc_def)
qed

lemma captureFrame_Some:
  assumes laws: "grain_law (ie_mxl e)" "sample_law (ie_mxl e)"
    and wf: "frame_wf (pixelFormat (in_cfg s)) v" "packet_wf (in_cfg s) a"
  shows "\<exists>t. captureFrame e v a s = Some t"
proof -
  obtain tai s1 where t: "frameTimestampTai e v s = (tai, s1)" by fastforce
  have c1: "in_cfg s1 = in_cfg s" using hot_eqD[OF hot_timestamp[OF t]] by simp
  let ?i = "frameGrainIndex e tai s1"
  obtain s2 where s2: "captureVideo e v ?i tai s1 = Some s2" using captureVideo_Some[OF laws(1)] wf(1) c1 by metis
  have c2: "in_cfg s2 = in_cfg s" using hot_eqD[OF hot_captureVideo[OF s2]] c1 by simp
  obtain s3 where s3: "captureAudio e a tai s2 = Some s3" using captureAudio_Some[OF laws(2)] wf(2) c2 by metis
  obtain s4 where "captureAnc e v ?i s3 = Some s4" using captureAnc_Some[OF laws(1)] by blast
  then show ?thesis using t s2 s3 by (simp add: captureFrame_def)
qed

text \<open>C12. Capturing never reads or writes outside a buffer: for a frame and an audio packet of the sizes the card
  announces, any configuration, field order, pixel format and stride, and whatever grain sizes and slice sizes MXL
  grants, the callback runs to its end, in every state of the channel.\<close>

theorem frame_in_bounds:
  assumes "grain_law (ie_mxl e)" and "sample_law (ie_mxl e)"
    and "frame_wf (pixelFormat (in_cfg s)) v" and "packet_wf (in_cfg s) audio"
  shows "\<exists>t. handleFrame e owns v audio s = Some t"
proof -
  let ?s = "noteSignal (in_ticked s)"
  have "in_cfg ?s = in_cfg s" using hot_eqD(11)[of ?s s] by simp
  then have "\<exists>t. captureFrame e v audio ?s = Some t" using captureFrame_Some[OF assms(1,2)] assms(3,4) by metis
  then show ?thesis by (simp add: handleFrame_def in_taiNow_def Let_def)
qed

subsection \<open>Writers and sessions\<close>


subsection \<open>Accounts\<close>

definition in_books :: "InputChannel \<Rightarrow> bool" where
  "in_books s \<longleftrightarrow> framesTotal (in_status s) = of_nat (in_framesTotal s) \<and>
     framesDropped (in_status s) = of_nat (in_framesDropped s) \<and>
     grainsCommitted (in_status s) = of_nat (in_grainsCommitted s) \<and>
     reconnects (in_status s) = of_nat (in_reconnectTotal s) \<and> in_framesDropped s \<le> in_framesTotal s"

definition acct where
  "acct s = (framesTotal (in_status s), framesDropped (in_status s), grainsCommitted (in_status s), reconnects (in_status s),
     in_framesTotal s, in_framesDropped s, in_grainsCommitted s, in_reconnectTotal s)"

lemma in_books_acct: "acct s = acct t \<Longrightarrow> in_books s = in_books t"
  by (simp add: acct_def in_books_def)

lemma acct_simps [simp]:
  "acct (setState_in x s) = acct s" "acct (in_ticked s) = acct s" "acct (noteSignalLoss t s) = acct s" "acct (noteSignal s) = acct s"
  "acct (nextAudioEnd t n s) = acct s" "acct (calibrateInitially e s) = acct s" "acct (housekeeping_in e s) = acct s"
  "acct (handleFormatChange fc s) = acct s" "acct (start_in s) = acct s" "acct (requestStop s) = acct s"
  "acct (s\<lparr>in_pc := p\<rparr>) = acct s" "acct (s\<lparr>in_ring := r\<rparr>) = acct s" "acct (s\<lparr>in_capture := b\<rparr>) = acct s"
  by (simp_all add: acct_def setState_in_def in_ticked_def noteSignalLoss_def noteSignal_def nextAudioEnd_def in_taiNow_def
      calibrateInitially_def housekeeping_in_def handleFormatChange_def start_in_def requestStop_def Let_def split: option.split)

lemma acct_ctl: "ctl s = ctl t \<Longrightarrow> acct s = acct t"
  using ctl_eqD[of s t] by (simp add: acct_def)

lemma acct_destroyWriters [simp]: "acct (destroyWriters s) = acct s"
  by (rule acct_ctl) simp

lemma acct_tearDown [simp]: "acct (tearDownStreaming_in s) = acct s"
  by (simp add: tearDownStreaming_in_def) (simp add: acct_def)

lemma acct_createWriters: "createWriters e m v as n s = (err, t) \<Longrightarrow> acct t = acct s"
  by (rule acct_ctl[OF ctl_createWriters])

lemma acct_startCapture: "startCapture e s = (up, t) \<Longrightarrow> acct t = acct s"
proof -
  have a: "acct (u\<lparr>in_audioIndexValid := b, in_streamingUp := c\<rparr>) = acct u" for u b c by (simp add: acct_def)
  show "startCapture e s = (up, t) \<Longrightarrow> acct t = acct s"
    by (auto simp: startCapture_def Let_def a split: option.splits)
qed

lemma acct_bringUp: "bringUp_in e s = (up, t) \<Longrightarrow> acct t = acct s"
proof -
  have a: "acct ((setState_in Init u)\<lparr>in_currentMode := m, in_status := (in_status (setState_in Init u))\<lparr>activeModeName := n\<rparr>\<rparr>) = acct u"
    for u m n by (simp add: acct_def setState_in_def)
  show "bringUp_in e s = (up, t) \<Longrightarrow> acct t = acct s"
    by (auto simp: bringUp_in_def Let_def a dest!: acct_startCapture acct_createWriters split: if_splits prod.splits option.splits)
qed

lemma acct_beginFormatChange: "beginFormatChange e s = Some t \<Longrightarrow> acct t = acct s"
proof -
  have a: "acct (u\<lparr>in_pendingFormatChange := fc\<rparr>) = acct u"
    "acct ((in_ticked u)\<lparr>in_currentMode := m, in_status := (in_status (in_ticked u))\<lparr>activeModeName := n\<rparr>\<rparr>) = acct u" for u fc m n
    by (simp_all add: acct_def in_ticked_def)
  have b: "in_status (in_ticked u) = in_status u" for u by (simp add: in_ticked_def)
  show "beginFormatChange e s = Some t \<Longrightarrow> acct t = acct s"
    by (auto simp: beginFormatChange_def Let_def a a(2)[unfolded b] split: if_splits option.splits)
qed

lemma acct_endFormatChange: "acct (endFormatChange e m s) = acct s"
proof -
  have a: "acct (u\<lparr>in_formatChangeCounter := k\<rparr>) = acct u"
    "acct (u\<lparr>in_audioIndexValid := b, in_status := (in_status u)\<lparr>activeVideoFlowId := f\<rparr>, in_announced := x\<rparr>) = acct u"
    for u k b f x by (simp_all add: acct_def)
  show ?thesis
    by (auto simp: endFormatChange_def Let_def a dest!: acct_createWriters split: prod.splits option.splits)
qed

lemma acct_superviseLoss: "superviseLoss e s = Some t \<Longrightarrow> acct t = acct s"
proof -
  have a: "acct (u\<lparr>in_signalLossSinceTai := x\<rparr>) = acct u" for u x by (simp add: acct_def)
  show "superviseLoss e s = Some t \<Longrightarrow> acct t = acct s"
    by (auto simp: superviseLoss_def in_taiNow_def Let_def a split: if_splits)
qed

lemma books_superviseTop: "in_books s \<Longrightarrow> in_books (superviseTop e s)"
proof -
  assume b: "in_books s"
  let ?s = "countAttempt s"
  obtain up t where t: "bringUp_in e ?s = (up, t)" by fastforce
  have "in_books ?s" using b by (simp add: in_books_def countAttempt_def)
  then have bt: "in_books t" using in_books_acct[OF acct_bringUp[OF t]] by simp
  have a: "acct (u\<lparr>in_attempt := k\<rparr>) = acct u" "acct (u\<lparr>in_pc := p, in_attempt := k\<rparr>) = acct u"
    for u k p by (simp_all add: acct_def)
  have "acct (superviseTop e s) = acct s \<or> acct (superviseTop e s) = acct t"
    using t by (simp add: superviseTop_def a)
  then show "in_books (superviseTop e s)" using b bt in_books_acct by metis
qed

lemma books_superviseStep: "in_books s \<Longrightarrow> superviseStep e s = Some t \<Longrightarrow> in_books t"
proof -
  assume b: "in_books s" and t: "superviseStep e s = Some t"
  have "t = superviseTop e s \<or> acct t = acct s"
    using t by (auto simp: superviseStep_def acct_endFormatChange
        dest: acct_beginFormatChange acct_superviseLoss split: InPc.splits if_splits)
  then show "in_books t" using b books_superviseTop in_books_acct by metis
qed

text \<open>One frame: what \<open>captureVideo\<close> counts.\<close>

definition counted :: "InputChannel \<Rightarrow> InputChannel \<Rightarrow> bool" where
  "counted s t \<longleftrightarrow> in_framesTotal t = in_framesTotal s + 1 \<and>
     (case in_videoWriter s of
        None \<Rightarrow> in_framesDropped t = in_framesDropped s \<and> in_grainsCommitted t = in_grainsCommitted s
      | Some w \<Rightarrow>
          in_framesDropped t = in_framesDropped s + 1 \<and> in_grainsCommitted t = in_grainsCommitted s \<or>
          in_framesDropped t = in_framesDropped s \<and>
            in_grainsCommitted t = in_grainsCommitted s + (if vm_interlaced (in_currentMode s) then 2 else 1))"

lemma acct_frameToWrite: "frameToWrite v s = Some (d, n, t) \<Longrightarrow> acct t = acct s"
  by (auto simp: frameToWrite_def Let_def acct_def split: if_splits option.splits)

lemma acct_writeGrains: "writeGrains e w i d n h s = Some (st, t) \<Longrightarrow> acct t = acct s"
  by (auto simp: writeGrains_def Let_def split: if_splits option.splits prod.splits)

lemma countFrame_counts:
  assumes "in_videoWriter s = Some w" and "acct u = acct s" and "in_currentMode u = in_currentMode s" and "in_books s"
  shows "counted s (countFrame w i tai st u) \<and> in_books (countFrame w i tai st u)"
  using assms by (auto simp: counted_def countFrame_def in_books_def acct_def Let_def)

lemma captureVideo_counts:
  assumes "captureVideo e v i tai s = Some t" and "in_books s"
  shows "counted s t \<and> in_books t"
proof (cases "in_videoWriter s")
  case None
  then show ?thesis using assms by (auto simp: captureVideo_def counted_def in_books_def)
next
  case (Some w)
  then obtain d n s1 st u where u: "frameToWrite v s = Some (d, n, s1)" "writeGrains e w i d n (vf_height v) s1 = Some (st, u)"
    "t = countFrame w i tai st u"
    using assms(1) by (auto simp: captureVideo_def split: option.splits prod.splits)
  have "acct u = acct s" using acct_writeGrains[OF u(2)] acct_frameToWrite[OF u(1)] by simp
  moreover have "in_currentMode u = in_currentMode s"
    using hot_eqD[OF hot_writeGrains[OF u(2)]] hot_eqD[OF hot_frameToWrite[OF u(1)]] by simp
  ultimately show ?thesis unfolding u(3) using Some assms(2) by (intro countFrame_counts)
qed

lemma acct_captureAudio: "captureAudio e a t s = Some s' \<Longrightarrow> acct s' = acct s"
  by (auto simp: captureAudio_def Let_def split: option.splits if_splits)

lemma acct_captureAnc: "captureAnc e v i s = Some s' \<Longrightarrow> acct s' = acct s"
  by (auto simp: captureAnc_def Let_def split: option.splits if_splits prod.splits)

lemma counted_acct: "acct t = acct u \<Longrightarrow> counted s t = counted s u"
  by (simp add: counted_def acct_def split: option.split)

lemma captureFrame_counts:
  assumes "captureFrame e v a s = Some t" and "in_books s"
  shows "counted s t \<and> in_books t"
proof -
  obtain tai s1 where s1: "frameTimestampTai e v s = (tai, s1)" by fastforce
  then obtain s2 s3 where s2: "captureVideo e v (frameGrainIndex e tai s1) tai s1 = Some s2"
    and s3: "captureAudio e a tai s2 = Some s3" and t: "captureAnc e v (frameGrainIndex e tai s1) s3 = Some t"
    using assms(1) by (auto simp: captureFrame_def Let_def split: option.splits)
  have a1: "acct s1 = acct s" using s1 by (auto simp: frameTimestampTai_def in_taiNow_def split: if_splits)
  then have "counted s1 s2 \<and> in_books s2" using captureVideo_counts[OF s2] in_books_acct assms(2) by blast
  moreover have "counted s1 s2 = counted s s2"
    using a1 hot_eqD[OF hot_timestamp[OF s1]] by (simp add: counted_def acct_def split: option.split)
  moreover have "acct t = acct s2" using acct_captureAudio[OF s3] acct_captureAnc[OF t] by simp
  ultimately show ?thesis using counted_acct in_books_acct by blast
qed

definition skipped :: "bool \<Rightarrow> VideoFrameView \<Rightarrow> InputChannel \<Rightarrow> bool" where
  "skipped owns v s \<longleftrightarrow> hasNoInputSource v \<or> \<not> in_writersValid s \<or> \<not> owns"

lemma handleFrame_counts:
  assumes run: "handleFrame e owns v a s = Some t" and books: "in_books s"
  shows "in_books t \<and> (if skipped owns v s then acct t = acct s \<and> rg_ops (in_ring t) = rg_ops (in_ring s) else counted s t)"
proof -
  let ?s1 = "in_ticked s" and ?s2 = "noteSignal (in_ticked s)"
  have s2: "acct ?s2 = acct s" "hot ?s2 = hot s" by simp_all
  have valid: "in_writersValid ?s2 = in_writersValid s" using hot_eqD[OF s2(2)] by simp
  have ops: "rg_ops (in_ring (noteSignalLoss x ?s1)) = rg_ops (in_ring s)" "rg_ops (in_ring ?s2) = rg_ops (in_ring s)" for x
    by (simp_all add: noteSignalLoss_def noteSignal_def setState_in_def in_ticked_def rtick_def Let_def)
  show ?thesis
  proof (cases "skipped owns v s")
    case True
    then have "(\<exists>x. t = noteSignalLoss x ?s1) \<or> t = ?s2"
      using run valid by (auto simp: handleFrame_def in_taiNow_def skipped_def Let_def split: if_splits)
    then have "acct t = acct s \<and> rg_ops (in_ring t) = rg_ops (in_ring s)" using ops s2 by auto
    then show ?thesis using True books in_books_acct by metis
  next
    case False
    then have "captureFrame e v a ?s2 = Some t"
      using run valid by (simp add: handleFrame_def in_taiNow_def skipped_def Let_def)
    then have "counted ?s2 t \<and> in_books t" using captureFrame_counts in_books_acct[OF s2(1)] books by blast
    moreover have "counted ?s2 t = counted s t" using s2(1) hot_eqD[OF s2(2)] by (simp add: counted_def acct_def split: option.split)
    ultimately show ?thesis using False by simp
  qed
qed

lemma in_reachable_books: "in_reachable e g c l s \<Longrightarrow> in_books s"
proof (induction rule: in_reachable.induct)
  case (init m)
  show ?case by (simp add: in_books_def newInputChannel_def newStatus_def)
next
  case (more s t)
  from more.hyps(2) more.IH show ?case
  proof (induction rule: in_step.induct)
    case (frame owns v audio s t)
    then show ?case using handleFrame_counts by blast
  next
    case (supervise s t)
    then show ?case using books_superviseStep by blast
  next
    case (finishStop s)
    then show ?case using in_books_acct[of "finishStop s" s] by (simp add: finishStop_def)
  qed (use in_books_acct acct_simps in blast)+
qed

text \<open>The accounts of a capture channel are exact: each frame that reaches valid writers is counted once, and either
  as dropped or with all of its grains (two when interlaced); a frame without a signal, during a format change or
  while the writers are locked counts nothing and writes nothing into any flow.  The published status agrees with
  the metrics in every reachable state.\<close>

theorem frame_counted:
  assumes "in_reachable e g c l s" and "handleFrame e owns v audio s = Some t"
  shows "framesTotal (in_status t) = of_nat (in_framesTotal t) \<and> framesDropped (in_status t) = of_nat (in_framesDropped t) \<and>
     grainsCommitted (in_status t) = of_nat (in_grainsCommitted t) \<and> in_framesDropped t \<le> in_framesTotal t \<and>
     (if hasNoInputSource v \<or> \<not> in_writersValid s \<or> \<not> owns
      then in_framesTotal t = in_framesTotal s \<and> in_framesDropped t = in_framesDropped s \<and>
        in_grainsCommitted t = in_grainsCommitted s \<and> rg_ops (in_ring t) = rg_ops (in_ring s)
      else in_framesTotal t = in_framesTotal s + 1 \<and>
        (case in_videoWriter s of
           None \<Rightarrow> in_framesDropped t = in_framesDropped s \<and> in_grainsCommitted t = in_grainsCommitted s
         | Some w \<Rightarrow>
             in_framesDropped t = in_framesDropped s + 1 \<and> in_grainsCommitted t = in_grainsCommitted s \<or>
             in_framesDropped t = in_framesDropped s \<and>
               in_grainsCommitted t = in_grainsCommitted s + (if vm_interlaced (in_currentMode s) then 2 else 1)))"
  using handleFrame_counts[OF assms(2) in_reachable_books[OF assms(1)]]
  by (auto simp: skipped_def counted_def in_books_def acct_def split: if_splits)

subsection \<open>Audio positions\<close>

text \<open>C27. The audio of a capture channel stays in step with its video: after every packet the end index is within 100 ms
  (4800 samples) of the frame's time, and it either continues the packet before without gap or overlap, or is the
  frame's time itself.\<close>

theorem audio_drift_bounded:
  assumes "captureAudio e (Some a) tai s = Some t" and "in_audioFlows s \<noteq> []"
  shows "let nowEnd = ie_timestampToIndex e \<lparr>numerator = 48000, denominator = 1\<rparr> tai; endIndex = in_nextAudioEndIndex t in
     (if endIndex > nowEnd then endIndex - nowEnd else nowEnd - endIndex) \<le> 4800 \<and> in_audioIndexValid t \<and>
     (endIndex = nowEnd \<or> in_audioIndexValid s \<and> endIndex = in_nextAudioEndIndex s + of_nat (pk_sampleFrames a))"
proof -
  let ?now = "ie_timestampToIndex e \<lparr>numerator = 48000, denominator = 1\<rparr> tai"
  let ?u = "nextAudioEnd ?now (pk_sampleFrames a) s"
  have "in_nextAudioEndIndex t = in_nextAudioEndIndex ?u" "in_audioIndexValid t = in_audioIndexValid ?u"
    using assms by (auto simp: captureAudio_def Let_def)
  then show ?thesis by (auto simp: nextAudioEnd_def kMaxDrift_def Let_def not_less)
qed

subsection \<open>Null pointers\<close>

text \<open>C28. The supervisor has exactly one null pointer access: resetting the streams after a signal loss when the capture
  session is gone, which is the case after a failed format change.  The mode change itself always has a session.\<close>

theorem only_null_access:
  assumes "in_reachable e g c l s"
  shows "superviseStep e s = None \<longleftrightarrow>
     in_pc s = AtLoss \<and> in_signalLossSinceTai s \<noteq> 0 \<and> \<not> in_streamingUp s \<and>
     signalLossTimeoutNs s < ie_taiNowNs e (in_tick s) - in_signalLossSinceTai s"
proof -
  have ok: "in_ok s" by (rule in_reachable_ok[OF assms])
  have cap: "in_capture s = in_streamingUp s" using ok by (simp add: in_ok_def)
  have loss: "superviseLoss e s = None \<longleftrightarrow> in_signalLossSinceTai s \<noteq> 0 \<and> \<not> in_streamingUp s \<and>
      signalLossTimeoutNs s < ie_taiNowNs e (in_tick s) - in_signalLossSinceTai s"
    using cap by (simp add: superviseLoss_def in_taiNow_def in_ticked_def signalLossTimeoutNs_def Let_def)
  show ?thesis
  proof (cases "in_pc s")
    case AtPending
    then show ?thesis using beginFormatChange_ok[OF ok, of e] by (auto simp: superviseStep_def)
  qed (use loss in \<open>simp_all add: superviseStep_def\<close>)
qed

subsection \<open>A channel at work\<close>

text \<open>A card with a free-running clock, a granting ring and a mode change that fails.\<close>

definition sampleInEnv :: InEnv where
  "sampleInEnv =
     \<lparr>ie_mxl = grantingEnv, ie_taiNowNs = (\<lambda>t. if t < 8 then 1 else 40000000000), ie_supportsMode = (\<lambda>t m. True),
      ie_openCapture = (\<lambda>t. True), ie_enable = (\<lambda>t p. None), ie_start = (\<lambda>t. None), ie_hardwareClockNowNs = (\<lambda>t. None),
      ie_changeMode = (\<lambda>t m. Some ''busy''), ie_signalLocked = (\<lambda>t. True), ie_timestampToIndex = (\<lambda>r t. t div 20000000)\<rparr>"

definition sampleInput :: ChannelConfig where
  "sampleInput = defaultChannel\<lparr>videoFlowId := \<lparr>bytes = replicate 16 1\<rparr>, audioEnable := False\<rparr>"

definition sampleStarted :: InputChannel where
  "sampleStarted = start_in (newInputChannel defaultConfig sampleInput ''card'' autoStartMode)"

definition sampleUp :: InputChannel where
  "sampleUp = the (superviseStep sampleInEnv sampleStarted)"

lemma sampleStarted_reachable: "in_reachable sampleInEnv defaultConfig sampleInput ''card'' sampleStarted"
  unfolding sampleStarted_def
  by (rule in_reachable.more[OF in_reachable.init in_step.start]) (simp_all add: newInputChannel_def)

lemma sampleUp_step: "superviseStep sampleInEnv sampleStarted = Some sampleUp"
  by (simp add: sampleUp_def superviseStep_def sampleStarted_def start_in_def newInputChannel_def)

lemma sampleUp_state: "in_writersValid sampleUp \<and> in_streamingUp sampleUp \<and> in_pc sampleUp = AtPending \<and> \<not> in_audioIndexValid sampleUp"
  by code_simp

lemma sampleUp_cfg: "in_cfg sampleUp = sampleInput"
  by code_simp

lemma sampleInput_cfg: "audioChannelCount sampleInput = 16" "pixelFormat sampleInput = YUV10"
  by (simp_all add: sampleInput_def defaultChannel_def)

lemma sampleUp_reachable: "in_reachable sampleInEnv defaultConfig sampleInput ''card'' sampleUp"
  by (rule in_reachable.more[OF sampleStarted_reachable in_step.supervise[OF sampleUp_step]])

text \<open>A progressive frame of one v210 line, and a frame without a signal.\<close>

definition sampleFrame :: VideoFrameView where
  "sampleFrame =
     \<lparr>vf_bytes = [1, 2, 3, 4, 5, 6, 7, 8], vf_rowBytes = 8, vf_width = 4, vf_height = 1, hasNoInputSource = False,
      hasHardwareTimestamp = False, hardwareTimestampNs = 0, ancPackets = []\<rparr>"


theorem frame_in_bounds_witness:
  "\<exists>t. handleFrame sampleInEnv True (sampleFrame\<lparr>vf_rowBytes := 4, vf_height := 2\<rparr>) None sampleUp = Some t"
proof (rule frame_in_bounds)
  show "grain_law (ie_mxl sampleInEnv)" "sample_law (ie_mxl sampleInEnv)"
    using grantingEnv_laws by (simp_all add: sampleInEnv_def)
  show "frame_wf (pixelFormat (in_cfg sampleUp)) (sampleFrame\<lparr>vf_rowBytes := 4, vf_height := 2\<rparr>)"
    by (simp add: frame_wf_def sampleFrame_def sampleUp_cfg sampleInput_cfg)
qed (simp add: packet_wf_def)

definition sampleCaptured :: InputChannel where
  "sampleCaptured = the (handleFrame sampleInEnv True sampleFrame None sampleUp)"

lemma sampleCaptured_run: "handleFrame sampleInEnv True sampleFrame None sampleUp = Some sampleCaptured"
  unfolding sampleCaptured_def by code_simp

theorem frame_counted_witness: "in_framesTotal sampleCaptured = in_framesTotal sampleUp + 1"
  using frame_counted[OF sampleUp_reachable sampleCaptured_run] sampleUp_state
  by (simp add: sampleFrame_def)

theorem audio_drift_bounded_witness:
  "let t = the (captureAudio sampleInEnv (Some \<lparr>pk_samples = replicate 16 5, pk_sampleFrames = 1\<rparr>) 60000000
      (sampleUp\<lparr>in_audioFlows := [\<lparr>fw_cfg = defaultAudioFlow, fw_flowId = nilUuid,
         fw_writer = \<lparr>aw_writer = 3, aw_maxWriteLength = 2, aw_flowId = []\<rparr>\<rparr>]\<rparr>)) in
   in_nextAudioEndIndex t \<le> 4803 \<and> in_audioIndexValid t"
proof -
  let ?s = "sampleUp\<lparr>in_audioFlows := [\<lparr>fw_cfg = defaultAudioFlow, fw_flowId = nilUuid,
         fw_writer = \<lparr>aw_writer = 3, aw_maxWriteLength = 2, aw_flowId = []\<rparr>\<rparr>]\<rparr>"
  let ?a = "\<lparr>pk_samples = replicate 16 5, pk_sampleFrames = 1\<rparr>"
  obtain t where t: "captureAudio sampleInEnv (Some ?a) 60000000 ?s = Some t"
    using captureAudio_Some[of sampleInEnv ?s "Some ?a" 60000000] grantingEnv_laws sampleUp_cfg sampleInput_cfg
    by (auto simp: sampleInEnv_def packet_wf_def)
  have "in_nextAudioEndIndex t = 3 \<or> in_audioIndexValid ?s" "in_audioIndexValid t"
    using audio_drift_bounded[OF t] by (auto simp: Let_def sampleInEnv_def)
  moreover have "\<not> in_audioIndexValid ?s" using sampleUp_state by simp
  ultimately show ?thesis using t by simp
qed

text \<open>The null pointer access can be reached: the signal is lost, the mode change of a detected format fails, and the loss
  has lasted longer than the timeout by the time the same round of the supervisor looks at it.\<close>

definition noSignalFrame :: VideoFrameView where
  "noSignalFrame = sampleFrame\<lparr>hasNoInputSource := True\<rparr>"

definition sampleLost :: InputChannel where
  "sampleLost = handleFormatChange \<lparr>fc_newMode = autoStartMode, fc_is10Bit = True\<rparr>
     (the (handleFrame sampleInEnv True noSignalFrame None sampleUp))"

lemma sampleLost_reachable: "in_reachable sampleInEnv defaultConfig sampleInput ''card'' sampleLost"
proof -
  have "handleFrame sampleInEnv True noSignalFrame None sampleUp =
      Some (the (handleFrame sampleInEnv True noSignalFrame None sampleUp))"
    by (simp add: handleFrame_def in_taiNow_def noSignalFrame_def)
  then show ?thesis unfolding sampleLost_def
    by (intro in_reachable.more[OF _ in_step.formatChange] in_reachable.more[OF sampleUp_reachable in_step.frame])
qed

definition sampleFailed :: InputChannel where
  "sampleFailed = the (superviseStep sampleInEnv sampleLost)"

lemma sampleFailed_run: "superviseStep sampleInEnv sampleLost = Some sampleFailed"
  unfolding sampleFailed_def by code_simp

lemma null_capture_reachable:
  "in_reachable sampleInEnv defaultConfig sampleInput ''card'' sampleFailed \<and> superviseStep sampleInEnv sampleFailed = None"
proof
  show r: "in_reachable sampleInEnv defaultConfig sampleInput ''card'' sampleFailed"
    by (rule in_reachable.more[OF sampleLost_reachable in_step.supervise[OF sampleFailed_run]])
  show "superviseStep sampleInEnv sampleFailed = None" by code_simp
qed

theorem only_null_access_witness:
  "superviseStep sampleInEnv sampleUp \<noteq> None"
  using only_null_access[OF sampleUp_reachable] sampleUp_state by simp

subsection \<open>Flow identifiers after a second bring-up\<close>

text \<open>A bring-up opens the configured video flow but leaves the published identifier: after a format change and a later
  failure, the status names a flow that no longer exists.\<close>

lemma newVideoWriter_id: "newVideoWriter e p h r = (Inr w, r') \<Longrightarrow> vw_flowId w = toString (vp_id p)"
  by (auto simp: newVideoWriter_def Let_def split: prod.splits if_splits)

lemma createWriters_video_id:
  assumes "createWriters e m v as n s = (None, t)" and "in_videoWriter s = None" and "in_videoWriter t = Some w"
  shows "vw_flowId w = toString v"
proof -
  have aud: "in_videoWriter t' = in_videoWriter s'" if "createAudio e fs s' = (err, t')" for fs s' t' err
    using that by (induction e fs s' rule: createAudio.induct) (auto split: if_splits prod.splits sum.splits)
  have anc: "in_videoWriter t' = in_videoWriter s'" if "createAnc e m n s' = (err, t')" for s' t' err
    using that by (auto simp: createAnc_def split: if_splits prod.splits sum.splits option.splits)
  have clr: "in_videoWriter (clearAudioFlows u) = in_videoWriter u" for u by (simp add: clearAudioFlows_def)
  have vid: "in_videoWriter u = None \<or> (\<exists>x. in_videoWriter u = Some x \<and> vw_flowId x = toString v)"
    if "createVideo e m v s = (None, u)" for u
    using that assms(2)
    by (auto simp: createVideo_def videoFlowParams_def Let_def dest!: newVideoWriter_id split: if_splits prod.splits sum.splits)
  show ?thesis
    using assms(1,3)
    by (auto simp: createWriters_def Let_def clr dest!: anc aud vid split: prod.splits option.splits if_splits)
qed

lemma endFormatChange_id:
  assumes "createWriters e m (deriveUuid (videoFlowId (in_cfg s)) sig) as n (s\<lparr>in_formatChangeCounter := k\<rparr>) = (None, u)"
    and "k = in_formatChangeCounter s + 1" and "sig = vm_name m @ ''#'' @ int_to_string (int k)"
    and "as = map (\<lambda>af. deriveUuid (af_flowId af) sig) (audioFlows (in_cfg s))"
    and "n = map_option (\<lambda>i. deriveUuid i sig) (ancFlowId (in_cfg s))"
  shows "activeVideoFlowId (in_status (endFormatChange e m s)) = toString (deriveUuid (videoFlowId (in_cfg s)) sig) \<and>
     in_pendingFormatChange (endFormatChange e m s) = in_pendingFormatChange s \<and>
     in_writersValid (endFormatChange e m s) = in_writersValid u"
  using assms ctl_eqD[OF ctl_createWriters[OF assms(1)]]
  by (simp add: endFormatChange_def Let_def setState_in_def)

end
