(* ===== verification/Schema.thy ===== *)
theory Schema
  imports Config
begin

text \<open>
  \<open>src/config/schema.cpp\<close>: the table of settings the web interface edits and the recognition of concrete
  keys (\<open>CH3_DIRECTION\<close>, \<open>CH0_AF2_MAP\<close>).  The help texts are left out of the table.
\<close>

datatype SettingKind = Global | ChannelSetting | AudioFlowSetting

record SettingMeta =
  sm_key :: string
  sm_kind :: SettingKind
  sm_type :: string
  sm_options :: "string list"
  sm_defaultValue :: string
  sm_requiresRestart :: bool

definition mkMeta :: "string \<Rightarrow> SettingKind \<Rightarrow> string \<Rightarrow> string list \<Rightarrow> string \<Rightarrow> bool \<Rightarrow> SettingMeta" where
  "mkMeta k kd t opts d r =
     \<lparr>sm_key = k, sm_kind = kd, sm_type = t, sm_options = opts, sm_defaultValue = d, sm_requiresRestart = r\<rparr>"

definition settingsSchema :: "SettingMeta list" where
  "settingsSchema =
     [mkMeta ''MXL_DECKLINK_CARD_ID'' Global ''hex32'' [] [] True,
      mkMeta ''MXL_DECKLINK_CARD_NAME'' Global ''string'' [] [] True,
      mkMeta ''MXL_DECKLINK_CARD_INDEX'' Global ''int'' [] ''0'' True,
      mkMeta ''MXL_DECKLINK_CARD_PROFILE'' Global ''enum'' 
         [''one-full-duplex'', ''two-half-duplex'', ''four-half-duplex'', ''one-half-duplex''] [] True,
      mkMeta ''MXL_OUTPUT_DOMAIN_DIR'' Global ''path'' [] ''/Volumes/mxl/mxl-decklink'' True,
      mkMeta ''MXL_DOMAIN_PATH'' Global ''path'' [] [] True,
      mkMeta ''MXL_OUTPUT_DOMAIN_ID'' Global ''uuid'' [] [] True,
      mkMeta ''MXL_HISTORY_DURATION_MS'' Global ''int'' [] [] True,
      mkMeta ''MXL_TIMESTAMP_SOURCE'' Global ''enum'' [''hardware'', ''host''] ''hardware'' True,
      mkMeta ''MXL_HUGEPAGE_PATH'' Global ''path'' [] [] True,
      mkMeta ''MXL_CPU_PIN_LIST'' Global ''cpulist'' [] [] True,
      mkMeta ''MXL_REALTIME_PRIORITY'' Global ''int'' [] ''50'' True,
      mkMeta ''RT_SCHED'' Global ''bool'' [] ''false'' True,
      mkMeta ''MXL_PTP_INTERFACE'' Global ''string'' [] [] True,
      mkMeta ''WEB_ENABLE'' Global ''bool'' [] ''true'' True,
      mkMeta ''WEB_PORT'' Global ''port'' [] ''8080'' True,
      mkMeta ''NMOS_ENABLE'' Global ''bool'' [] ''false'' True,
      mkMeta ''NMOS_PORT'' Global ''port'' [] ''3212'' True,
      mkMeta ''NMOS_LABEL'' Global ''string'' [] [] True,
      mkMeta ''NMOS_SEED'' Global ''string'' [] [] True,
      mkMeta ''NMOS_TAGS'' Global ''string'' [] [] True,
      mkMeta ''NMOS_REGISTRY_ADDRESS'' Global ''string'' [] [] True,
      mkMeta ''NMOS_REGISTRY_PORT'' Global ''port'' [] ''3210'' True,
      mkMeta ''NMOS_QUERY_ADDRESS'' Global ''string'' [] [] True,
      mkMeta ''NMOS_QUERY_PORT'' Global ''port'' [] [] True,
      mkMeta ''NMOS_DNS_SD'' Global ''bool'' [] ''false'' True,
      mkMeta ''NMOS_RESUME_CONNECTIONS'' Global ''bool'' [] ''true'' True,
      mkMeta ''NMOS_HOST_ADDRESS'' Global ''string'' [] [] True,
      mkMeta ''CONFIG_DIR'' Global ''path'' [] ''/config'' True,
      mkMeta ''MXL_CONFIG_FILE'' Global ''path'' [] [] True,
      mkMeta ''MXL_CLEANUP_ON_EXIT'' Global ''bool'' [] ''false'' True,
      mkMeta ''MXL_DOMAIN_SCAN_PATH'' Global ''path'' [] ''/Volumes/mxl'' True,
      mkMeta ''MXL_HEALTH_MIN_HEALTHY_CHANNELS'' Global ''int'' [] ''1'' True,
      mkMeta ''SIGNAL_LOSS_TIMEOUT_S'' Global ''int'' [] ''30'' True,
      mkMeta ''STARTUP_MAX_RETRIES'' Global ''int'' [] ''10'' True,
      mkMeta ''SHUTDOWN_TIMEOUT_S'' Global ''int'' [] ''10'' True,
      mkMeta ''LOG_LEVEL'' Global ''enum'' [''trace'', ''debug'', ''info'', ''warn'', ''error''] ''info'' True,
      mkMeta ''LOG_FORMAT'' Global ''enum'' [''json'', ''text''] ''json'' True,
      mkMeta ''DECKLINK_LIB_MODE'' Global ''enum'' [''bundled'', ''hostmount''] ''bundled'' True,
      mkMeta ''MXL_DECKLINK_BACKEND'' Global ''enum'' [''sdk'', ''mock''] ''sdk'' True,
      mkMeta ''DIRECTION'' ChannelSetting ''enum'' [''input'', ''output''] [] False,
      mkMeta ''SUBDEVICE_INDEX'' ChannelSetting ''int'' [] [] False,
      mkMeta ''VIDEO_MODE'' ChannelSetting ''enum'' (''auto'' # map vm_name allVideoModes) ''auto'' False,
      mkMeta ''PIXEL_FORMAT'' ChannelSetting ''enum'' 
         [''10BitYUV'', ''10BitYUVA'', ''8BitYUV''] ''10BitYUV'' False,
      mkMeta ''ALLOW_FORMAT_CONVERSION'' ChannelSetting ''bool'' [] ''false'' False,
      mkMeta ''VIDEO_ANC_ENABLE'' ChannelSetting ''bool'' [] ''false'' False,
      mkMeta ''AUDIO_ENABLE'' ChannelSetting ''bool'' [] ''true'' False,
      mkMeta ''AUDIO_CHANNEL_COUNT'' ChannelSetting ''enum'' 
         [''2'', ''8'', ''16'', ''32'', ''64''] ''16'' False,
      mkMeta ''AUDIO_SAMPLE_TYPE'' ChannelSetting ''enum'' [''16bit'', ''32bit''] ''32bit'' False,
      mkMeta ''MXL_VIDEO_FLOW_ID'' ChannelSetting ''uuid'' [] [] False,
      mkMeta ''MXL_ACTIVE'' ChannelSetting ''bool'' [] ''true'' False,
      mkMeta ''MXL_ANC_FLOW_ID'' ChannelSetting ''uuid'' [] [] False,
      mkMeta ''MXL_VIDEO_FLOW_LABEL'' ChannelSetting ''string'' [] [] False,
      mkMeta ''MXL_GROUP_HINT'' ChannelSetting ''string'' [] [] False,
      mkMeta ''FLOW_ID'' AudioFlowSetting ''uuid'' [] [] False,
      mkMeta ''CHANNEL_COUNT'' AudioFlowSetting ''int'' [] ''2'' False,
      mkMeta ''MAP'' AudioFlowSetting ''intlist'' [] [] False,
      mkMeta ''LABEL'' AudioFlowSetting ''string'' [] [] False,
      mkMeta ''MXL_ACTIVE'' AudioFlowSetting ''bool'' [] ''true'' False,
      mkMeta ''MXL_DEVICE_ID'' ChannelSetting ''uuid'' [] [] False,
      mkMeta ''MXL_SOURCE_ID'' ChannelSetting ''uuid'' [] [] False,
      mkMeta ''GRAIN_COUNT'' ChannelSetting ''int'' [] [] False,
      mkMeta ''AUDIO_BUFFER_MS'' ChannelSetting ''int'' [] ''200'' False,
      mkMeta ''COMMIT_BATCH_HINT'' ChannelSetting ''int'' [] [] False,
      mkMeta ''OUTPUT_PREROLL_GRAINS'' ChannelSetting ''int'' [] ''3'' False,
      mkMeta ''READER_TIMEOUT_MS'' ChannelSetting ''int'' [] ''50'' False,
      mkMeta ''SDI_LEVEL'' ChannelSetting ''enum'' [''A'', ''B'', ''driver''] ''A'' False,
      mkMeta ''READ_OFFSET_GRAINS'' ChannelSetting ''int'' [] ''0'' False,
      mkMeta ''LABEL'' ChannelSetting ''string'' [] [] False]"

subsection \<open>Concrete keys\<close>

text \<open>The index is an \<open>int\<close>; the multiplication wraps around on the platforms the program is built for.\<close>

definition indexValue :: "string \<Rightarrow> int" where
  "indexValue ds = sint (foldl (\<lambda>n c. n * 10 + of_nat (of_char c - 48)) (0 :: u32) ds)"

definition splitIndexed :: "string \<Rightarrow> string \<Rightarrow> (int \<times> string) option" where
  "splitIndexed prefix key =
     (if length key < 4 \<or> take 2 key \<noteq> prefix then None
      else
        let ds = takeWhile isDigit (drop 2 key); r = drop (2 + length ds) key; idx = indexValue ds in
        if ds = [] \<or> r = [] \<or> hd r \<noteq> CHR ''_'' \<or> idx > 15 then None else Some (idx, tl r))"

definition parseChannelKey :: "string \<Rightarrow> (int \<times> string) option" where
  "parseChannelKey = splitIndexed ''CH''"

definition parseAudioFlowSuffix :: "string \<Rightarrow> (int \<times> string) option" where
  "parseAudioFlowSuffix = splitIndexed ''AF''"

definition findMeta :: "SettingKind \<Rightarrow> string \<Rightarrow> SettingMeta option" where
  "findMeta kind key = find (\<lambda>m. sm_kind m = kind \<and> sm_key m = key) settingsSchema"

definition lookupSetting :: "string \<Rightarrow> SettingMeta option" where
  "lookupSetting key =
     (case parseChannelKey key of
        Some (ch, suffix) \<Rightarrow>
          (case parseAudioFlowSuffix suffix of
             Some (af, field) \<Rightarrow> findMeta AudioFlowSetting field
           | None \<Rightarrow> findMeta ChannelSetting suffix)
      | None \<Rightarrow> findMeta Global key)"

end
