(* ===== verification/OrdMap.thy ===== *)
theory OrdMap
  imports Main "HOL-Library.Char_ord" "HOL-Library.List_Lexorder"
begin

text \<open>
  \<open>std::map\<close> as an association list in the order of its keys: insertion, erasure, and the
  contract the configuration store relies on, stated as a locale and interpreted on these definitions.
  Strings compare byte by byte, as \<open>std::string\<close> does.
\<close>

fun putKey :: "'k::linorder \<Rightarrow> 'v \<Rightarrow> ('k \<times> 'v) list \<Rightarrow> ('k \<times> 'v) list" where
  "putKey k v [] = [(k, v)]"
| "putKey k v ((k', v') # m) =
     (if k < k' then (k, v) # (k', v') # m
      else if k = k' then (k, v) # m
      else (k', v') # putKey k v m)"

definition eraseKey :: "'k \<Rightarrow> ('k \<times> 'v) list \<Rightarrow> ('k \<times> 'v) list" where
  "eraseKey k m = filter (\<lambda>e. fst e \<noteq> k) m"

definition ordered :: "('k::linorder \<times> 'v) list \<Rightarrow> bool" where
  "ordered m \<longleftrightarrow> sorted_wrt (<) (map fst m)"

lemma ordered_simps [simp]:
  "ordered []" "ordered (e # m) \<longleftrightarrow> (\<forall>k \<in> fst ` set m. fst e < k) \<and> ordered m"
  by (auto simp: ordered_def)

lemma ordered_distinct: "ordered m \<Longrightarrow> distinct (map fst m)"
  by (auto simp: ordered_def strict_sorted_iff)

lemma keys_putKey [simp]: "fst ` set (putKey k v m) = insert k (fst ` set m)"
  by (induction k v m rule: putKey.induct) auto

lemma ordered_putKey [simp]: "ordered m \<Longrightarrow> ordered (putKey k v m)"
  by (induction k v m rule: putKey.induct) auto

lemma lookup_putKey [simp]: "map_of (putKey k v m) = (map_of m)(k \<mapsto> v)"
  by (induction k v m rule: putKey.induct) (auto simp: fun_eq_iff)

lemma keys_eraseKey [simp]: "fst ` set (eraseKey k m) = fst ` set m - {k}"
  by (auto simp: eraseKey_def)

lemma ordered_eraseKey [simp]: "ordered m \<Longrightarrow> ordered (eraseKey k m)"
  by (induction m) (auto simp: eraseKey_def)

lemma lookup_eraseKey [simp]: "map_of (eraseKey k m) = (map_of m)(k := None)"
  by (induction m) (auto simp: eraseKey_def fun_eq_iff)

text \<open>Two maps with the same entries are the same list.\<close>

lemma ordered_unique:
  assumes "ordered a" "ordered b" "map_of a = map_of b"
  shows "a = b"
proof -
  have d: "distinct (map fst a)" "distinct (map fst b)" using assms ordered_distinct by auto
  have "(k, v) \<in> set a \<longleftrightarrow> (k, v) \<in> set b" for k v
    using assms(3) map_of_eq_Some_iff[OF d(1), of k v] map_of_eq_Some_iff[OF d(2), of k v] by simp
  then have s: "set a = set b" by auto
  have "sorted (map fst a)" "sorted (map fst b)"
    using assms(1,2) by (auto simp: ordered_def strict_sorted_iff)
  moreover have "inj_on fst (set a \<union> set b)" using d(1) by (simp add: s distinct_map)
  ultimately show ?thesis using d s by (auto intro: map_sorted_distinct_set_unique)
qed

subsection \<open>The contract\<close>

text \<open>What the store relies on: how a lookup sees an insertion and an erasure, and that the order is kept.\<close>

locale ordered_map =
  fixes lookup :: "'m \<Rightarrow> 'k \<Rightarrow> 'v option"
    and put :: "'k \<Rightarrow> 'v \<Rightarrow> 'm \<Rightarrow> 'm"
    and erase :: "'k \<Rightarrow> 'm \<Rightarrow> 'm"
    and ok :: "'m \<Rightarrow> bool"
  assumes lookup_put: "lookup (put k v m) = (lookup m)(k \<mapsto> v)"
    and lookup_erase: "lookup (erase k m) = (lookup m)(k := None)"
    and ok_put: "ok m \<Longrightarrow> ok (put k v m)"
    and ok_erase: "ok m \<Longrightarrow> ok (erase k m)"
    and extensional: "ok a \<Longrightarrow> ok b \<Longrightarrow> lookup a = lookup b \<Longrightarrow> a = b"
begin

text \<open>One change: a value is stored, \<open>None\<close> erases.\<close>

definition change :: "'k \<times> 'v option \<Rightarrow> 'm \<Rightarrow> 'm" where
  "change c m = (case snd c of Some v \<Rightarrow> put (fst c) v m | None \<Rightarrow> erase (fst c) m)"

lemma lookup_change: "lookup (change c m) = (lookup m)(fst c := snd c)"
  by (cases "snd c") (simp_all add: change_def lookup_put lookup_erase)

lemma ok_change: "ok m \<Longrightarrow> ok (change c m)"
  by (cases "snd c") (simp_all add: change_def ok_put ok_erase)

lemma lookup_changes:
  "distinct (map fst cs) \<Longrightarrow>
   lookup (fold change cs m) k = (case map_of cs k of Some v \<Rightarrow> v | None \<Rightarrow> lookup m k)"
proof (induction cs arbitrary: m)
  case (Cons c cs)
  then show ?case
    by (cases c) (auto simp: lookup_change split: option.splits dest: map_of_SomeD intro: rev_image_eqI)
qed simp

lemma ok_changes: "ok m \<Longrightarrow> ok (fold change cs m)"
  by (induction cs arbitrary: m) (simp_all add: ok_change)

lemma put_same: "ok m \<Longrightarrow> lookup m k = Some v \<Longrightarrow> put k v m = m"
  by (rule extensional) (auto simp: ok_put lookup_put fun_eq_iff)

lemma erase_absent: "ok m \<Longrightarrow> lookup m k = None \<Longrightarrow> erase k m = m"
  by (rule extensional) (auto simp: ok_erase lookup_erase fun_eq_iff)

end

interpretation std: ordered_map map_of putKey eraseKey ordered
  by unfold_locales (auto intro: ordered_unique)

text \<open>Storing all entries of a map makes it that map.\<close>

lemma map_of_some: "map_of (map (\<lambda>(k, v). (k, Some v)) l) k = map_option Some (map_of l k)"
  by (induction l) auto

lemma change_all:
  assumes "ordered l" and "ordered base" and "\<And>k. map_of base k \<noteq> None \<Longrightarrow> map_of l k \<noteq> None"
  shows "fold std.change (map (\<lambda>(k, v). (k, Some v)) l) base = l"
proof (rule ordered_unique)
  have "distinct (map fst (map (\<lambda>(k, v). (k, Some v)) l))"
    using ordered_distinct[OF assms(1)] by (simp add: comp_def case_prod_beta)
  then show "map_of (fold std.change (map (\<lambda>(k, v). (k, Some v)) l) base) = map_of l"
    using assms(3) by (fastforce simp: fun_eq_iff std.lookup_changes map_of_some split: option.splits)
qed (use assms in \<open>simp_all add: std.ok_changes\<close>)

end
