(* ===== verification/Store.thy ===== *)
theory Store
  imports Schema OrdMap Json
begin

text \<open>
  \<open>src/config/store.cpp\<close>: the layered configuration store.  Its state is the environment reader, the path
  and the file layer; the file itself is a second component of the state, so that what an update leaves
  on the disk can be stated.  What the operating system answers to the attempt to write is the parameter
  \<open>io\<close>; \<open>picojson::parse\<close> is \<open>parseJson\<close>.  The mutex makes the operations atomic.
\<close>

subsection \<open>State\<close>

type_synonym layer = "(string \<times> string) list"

record ConfigStore =
  cs_env :: EnvReader
  cs_filePath :: "string option"
  cs_fileLayer :: layer

datatype FileState = Absent | Unreadable | Contents string

datatype SettingSource = SourceDefault | SourceFile | SourceEnv

datatype WriteOutcome = Written | OpenFailed | WriteFailed | RenameFailed

datatype UpdateError =
  NoConfigFile
  | UnknownSetting string
  | EnvOnlySetting string
  | SetByEnv string
  | Rejected ConfigError
  | CannotWrite
  | ShortWrite
  | CannotReplace
  | BadBody
  | NoSettings
  | NotString string

definition settingSourceName :: "SettingSource \<Rightarrow> string" where
  "settingSourceName s =
     (case s of SourceDefault \<Rightarrow> ''default'' | SourceFile \<Rightarrow> ''file'' | SourceEnv \<Rightarrow> ''env'')"

subsection \<open>Loading\<close>

definition isEnvOnlyKey :: "string \<Rightarrow> bool" where
  "isEnvOnlyKey key \<longleftrightarrow> key = ''MXL_CONFIG_FILE'' \<or> key = ''CONFIG_DIR''"

definition resolveConfigFile :: "EnvReader \<Rightarrow> string option" where
  "resolveConfigFile env =
     (case getEnv env ''MXL_CONFIG_FILE'' of
        Some p \<Rightarrow> Some p
      | None \<Rightarrow>
          Some ((case getEnv env ''CONFIG_DIR'' of Some d \<Rightarrow> d | None \<Rightarrow> ''/config'') @ ''/mxl-decklink.json''))"

text \<open>A setting of a JSON document as text; \<open>None\<close> when it has no such form.\<close>

definition renderValue :: "json \<Rightarrow> string option" where
  "renderValue v =
     (case v of
        JStr s \<Rightarrow> Some s
      | JBool b \<Rightarrow> Some (if b then ''true'' else ''false'')
      | JNum (Some n) \<Rightarrow> Some (int_to_string n)
      | _ \<Rightarrow> None)"

fun loadEntries :: "(string \<times> json) list \<Rightarrow> layer \<Rightarrow> layer res" where
  "loadEntries [] l = Inr l"
| "loadEntries ((key, v) # es) l =
     (if lookupSetting key = None then Inl (UnknownKey key)
      else if isEnvOnlyKey key then Inl (EnvOnlyKey key)
      else case renderValue v of
             None \<Rightarrow> Inl (BadFileValue key)
           | Some r \<Rightarrow> loadEntries es (putKey key r l))"

definition loadFile :: "(string \<Rightarrow> json option) \<Rightarrow> FileState \<Rightarrow> ConfigStore \<Rightarrow> ConfigStore res" where
  "loadFile parseJson disk st =
     (let st = st\<lparr>cs_fileLayer := []\<rparr> in
      if cs_filePath st = None then Inr st
      else
        case disk of
          Absent \<Rightarrow> Inr st
        | Unreadable \<Rightarrow> Inl BadFile
        | Contents text \<Rightarrow>
            (case parseJson text of
               Some (JObj es) \<Rightarrow> bindR (loadEntries es []) (\<lambda>l. Inr (st\<lparr>cs_fileLayer := l\<rparr>))
             | _ \<Rightarrow> Inl BadFile))"

definition newConfigStore :: "(string \<Rightarrow> json option) \<Rightarrow> EnvReader \<Rightarrow> FileState \<Rightarrow> ConfigStore res" where
  "newConfigStore parseJson env disk =
     loadFile parseJson disk \<lparr>cs_env = env, cs_filePath = resolveConfigFile env, cs_fileLayer = []\<rparr>"

subsection \<open>Reading\<close>

definition mergedReader :: "EnvReader \<Rightarrow> layer \<Rightarrow> EnvReader" where
  "mergedReader env l name = (case getEnv env name of Some v \<Rightarrow> Some v | None \<Rightarrow> map_of l name)"

definition effectiveConfig :: "(string \<Rightarrow> json option) \<Rightarrow> (string \<Rightarrow> bool) \<Rightarrow> ConfigStore \<Rightarrow> Config res" where
  "effectiveConfig parseJson isIpLiteral st = loadConfig parseJson isIpLiteral (mergedReader (cs_env st) (cs_fileLayer st))"

definition effectiveValue :: "ConfigStore \<Rightarrow> string \<Rightarrow> string option" where
  "effectiveValue st key = mergedReader (cs_env st) (cs_fileLayer st) key"

definition sourceOf :: "ConfigStore \<Rightarrow> string \<Rightarrow> SettingSource" where
  "sourceOf st key =
     (if hasEnv (cs_env st) key then SourceEnv
      else if map_of (cs_fileLayer st) key \<noteq> None then SourceFile
      else SourceDefault)"

definition hasFileLayer :: "ConfigStore \<Rightarrow> bool" where
  "hasFileLayer st \<longleftrightarrow> cs_filePath st \<noteq> None"

text \<open>The concrete keys of one entry of the schema, and of all of it, in the order they are probed.\<close>

definition metaKeys :: "SettingMeta \<Rightarrow> string list" where
  "metaKeys m =
     (case sm_kind m of
        Global \<Rightarrow> [sm_key m]
      | AudioFlowSetting \<Rightarrow>
          concat (map (\<lambda>i. map (\<lambda>af. afKey (chPrefix i) af (sm_key m)) [0..<16]) [0..<16])
      | ChannelSetting \<Rightarrow> map (\<lambda>i. chPrefix i @ sm_key m) [0..<16])"

definition schemaKeys :: "string list" where
  "schemaKeys = concat (map metaKeys settingsSchema)"

definition presentKeys :: "ConfigStore \<Rightarrow> string list" where
  "presentKeys st =
     map fst (fold (\<lambda>k m. putKey k True m) (filter (hasEnv (cs_env st)) schemaKeys)
       (fold (\<lambda>k m. putKey k True m) (map fst (cs_fileLayer st)) []))"

subsection \<open>Documents\<close>

text \<open>The entries of a map, separated.\<close>

fun joined :: "string \<Rightarrow> (string \<times> string \<Rightarrow> string) \<Rightarrow> layer \<Rightarrow> string" where
  "joined sep f [] = []"
| "joined sep f [e] = f e"
| "joined sep f (e # es) = f e @ sep @ joined sep f es"

definition renderFile :: "layer \<Rightarrow> string" where
  "renderFile l =
     ''{'' @ [CHR 0x0A] @
     joined ('','' @ [CHR 0x0A]) (\<lambda>(k, v). ''  '' @ quoted k @ '': '' @ quoted v) l @
     [CHR 0x0A] @ ''}'' @ [CHR 0x0A]"

definition exportDocument :: "ConfigStore \<Rightarrow> string" where
  "exportDocument st =
     ''{'' @ quoted ''settings'' @ '':{'' @ joined '','' (\<lambda>(k, v). quoted k @ '':'' @ quoted v) (cs_fileLayer st) @ ''}}''"

definition envEntries :: "ConfigStore \<Rightarrow> (string \<times> string) list" where
  "envEntries st =
     concat (map (\<lambda>k. case effectiveValue st k of None \<Rightarrow> [] | Some v \<Rightarrow> [(k, v)]) (presentKeys st))"

definition renderEnvBlock :: "ConfigStore \<Rightarrow> string" where
  "renderEnvBlock st = concat (map (\<lambda>(k, v). k @ ''='' @ v @ [CHR 0x0A]) (envEntries st))"

subsection \<open>Updates\<close>

type_synonym changes = "(string \<times> string option) list"

fun validateKeys :: "EnvReader \<Rightarrow> changes \<Rightarrow> UpdateError option" where
  "validateKeys env [] = None"
| "validateKeys env ((key, v) # cs) =
     (if lookupSetting key = None then Some (UnknownSetting key)
      else if isEnvOnlyKey key then Some (EnvOnlySetting key)
      else if hasEnv env key then Some (SetByEnv key)
      else validateKeys env cs)"

fun applyChanges :: "changes \<Rightarrow> layer \<times> string list \<Rightarrow> layer \<times> string list" where
  "applyChanges [] acc = acc"
| "applyChanges ((key, value) # cs) (candidate, changed) =
     (case value of
        Some v \<Rightarrow>
          if map_of candidate key \<noteq> Some v
          then applyChanges cs (putKey key v candidate, changed @ [key])
          else applyChanges cs (candidate, changed)
      | None \<Rightarrow>
          if map_of candidate key \<noteq> None
          then applyChanges cs (eraseKey key candidate, changed @ [key])
          else applyChanges cs (candidate, changed))"

record UpdateResult =
  ur_config :: Config
  ur_changedKeys :: "string list"

type_synonym updateOutcome = "(UpdateError + UpdateResult) \<times> ConfigStore \<times> FileState"

definition update ::
  "(string \<Rightarrow> json option) \<Rightarrow> (string \<Rightarrow> bool) \<Rightarrow> WriteOutcome \<Rightarrow> changes \<Rightarrow> ConfigStore \<Rightarrow> FileState \<Rightarrow> updateOutcome" where
  "update parseJson isIpLiteral io changes st disk =
     (if cs_filePath st = None then (Inl NoConfigFile, st, disk)
      else
        case validateKeys (cs_env st) changes of
          Some e \<Rightarrow> (Inl e, st, disk)
        | None \<Rightarrow>
            (let (candidate, changed) = applyChanges changes (cs_fileLayer st, []) in
             case loadConfig parseJson isIpLiteral (mergedReader (cs_env st) candidate) of
               Inl e \<Rightarrow> (Inl (Rejected e), st, disk)
             | Inr cfg \<Rightarrow>
                 (case io of
                    OpenFailed \<Rightarrow> (Inl CannotWrite, st, disk)
                  | WriteFailed \<Rightarrow> (Inl ShortWrite, st, disk)
                  | RenameFailed \<Rightarrow> (Inl CannotReplace, st, disk)
                  | Written \<Rightarrow>
                      (Inr \<lparr>ur_config = cfg, ur_changedKeys = changed\<rparr>,
                       st\<lparr>cs_fileLayer := candidate\<rparr>, Contents (renderFile candidate)))))"

fun importValues :: "(string \<times> json) list \<Rightarrow> changes \<Rightarrow> UpdateError + changes" where
  "importValues [] cs = Inr cs"
| "importValues ((key, v) # es) cs =
     (case renderValue v of
        None \<Rightarrow> Inl (NotString key)
      | Some r \<Rightarrow> importValues es (putKey key (Some r) cs))"

text \<open>The keys the import would drop: those of the file layer the environment does not set.\<close>

definition removals :: "ConfigStore \<Rightarrow> changes" where
  "removals st = map (\<lambda>(k, _). (k, None)) (filter (\<lambda>(k, _). \<not> hasEnv (cs_env st) k) (cs_fileLayer st))"

definition importDocument ::
  "(string \<Rightarrow> json option) \<Rightarrow> (string \<Rightarrow> bool) \<Rightarrow> WriteOutcome \<Rightarrow> string \<Rightarrow> ConfigStore \<Rightarrow> FileState \<Rightarrow> updateOutcome" where
  "importDocument parseJson isIpLiteral io document st disk =
     (case parseJson document of
        Some (JObj obj) \<Rightarrow>
          (case map_of obj ''settings'' of
             Some (JObj settings) \<Rightarrow>
               (case importValues settings (removals st) of
                  Inl e \<Rightarrow> (Inl e, st, disk)
                | Inr changes \<Rightarrow> update parseJson isIpLiteral io changes st disk)
           | _ \<Rightarrow> (Inl NoSettings, st, disk))
      | _ \<Rightarrow> (Inl BadBody, st, disk))"

end
