(* ===== verification/ConfigValid.thy ===== *)
theory ConfigValid
  imports Config
begin

text \<open>
  What a loaded configuration satisfies.  \<open>preserves I f\<close> says that a loader step keeps \<open>I\<close>; the
  introduction rules follow the step combinators, so each fact is established at the step that checks
  it and kept by the steps after it.
\<close>

subsection \<open>Steps that preserve\<close>

definition preserves :: "('c \<Rightarrow> bool) \<Rightarrow> ('c \<Rightarrow> 'c res) \<Rightarrow> bool" where
  "preserves I f \<longleftrightarrow> (\<forall>c c'. I c \<longrightarrow> f c = Inr c' \<longrightarrow> I c')"

named_theorems step_intros \<open>introduction rules for preserved properties of loader steps\<close>

lemma parseInt_range: "parseInt key v lo hi = Inr n \<Longrightarrow> lo \<le> n \<and> n \<le> hi"
  by (auto simp: parseInt_def split: option.split_asm if_split_asm)

lemma preserves_setting [step_intros]: "(\<And>v. preserves I (f v)) \<Longrightarrow> preserves I (setting env key f)"
  by (auto simp: preserves_def setting_def split: option.split_asm)

lemma preserves_required [step_intros]: "(\<And>v. preserves I (f v)) \<Longrightarrow> preserves I (required env key f)"
  by (auto simp: preserves_def required_def split: option.split_asm)

lemma preserves_intValue [step_intros]:
  "(\<And>n c. lo \<le> n \<Longrightarrow> n \<le> hi \<Longrightarrow> I c \<Longrightarrow> I (upd n c)) \<Longrightarrow> preserves I (intValue key lo hi upd v)"
  by (auto simp: preserves_def intValue_def bindR_Inr dest!: parseInt_range)

lemma preserves_boolValue [step_intros]: "(\<And>b c. I c \<Longrightarrow> I (upd b c)) \<Longrightarrow> preserves I (boolValue key upd v)"
  by (auto simp: preserves_def boolValue_def bindR_Inr)

lemma preserves_uuidValue [step_intros]: "(\<And>u c. I c \<Longrightarrow> I (upd u c)) \<Longrightarrow> preserves I (uuidValue key upd v)"
  by (auto simp: preserves_def uuidValue_def bindR_Inr)

lemma preserves_textValue [step_intros]: "(\<And>v c. I c \<Longrightarrow> I (upd v c)) \<Longrightarrow> preserves I (textValue upd v)"
  by (auto simp: preserves_def textValue_def)

lemma preserves_choice [step_intros]: "(\<And>x c. I c \<Longrightarrow> I (upd x c)) \<Longrightarrow> preserves I (choice key table upd v)"
  by (auto simp: preserves_def choice_def split: option.split_asm)

lemma preserves_oneOf [step_intros]: "(\<And>v c. I c \<Longrightarrow> I (upd v c)) \<Longrightarrow> preserves I (oneOf key vs upd v)"
  by (auto simp: preserves_def oneOf_def)

lemma runSteps_preserves: "list_all (preserves I) fs \<Longrightarrow> I c \<Longrightarrow> runSteps fs c = Inr c' \<Longrightarrow> I c'"
  by (induction fs arbitrary: c) (auto simp: preserves_def bindR_Inr)

lemma runSteps_append: "runSteps (xs @ ys) c = bindR (runSteps xs c) (runSteps ys)"
proof (induction xs arbitrary: c)
  case (Cons f xs)
  then show ?case by (cases "f c") simp_all
qed simp

text \<open>A fact established at one step from what held before it, and kept by the rest.\<close>

lemma runSteps_at:
  assumes "runSteps fs c = Inr c'" "n < length fs" "J c" "list_all (preserves J) (take n fs)"
    "\<And>a b. J a \<Longrightarrow> (fs ! n) a = Inr b \<Longrightarrow> I b" "list_all (preserves I) (drop (Suc n) fs)"
  shows "I c'"
proof -
  have "fs = take n fs @ fs ! n # drop (Suc n) fs" using assms(2) by (rule id_take_nth_drop)
  then have "runSteps (take n fs @ fs ! n # drop (Suc n) fs) c = Inr c'" using assms(1) by simp
  then obtain a b where "runSteps (take n fs) c = Inr a" "(fs ! n) a = Inr b" "runSteps (drop (Suc n) fs) b = Inr c'"
    by (auto simp: runSteps_append bindR_Inr)
  then show ?thesis using assms(5) runSteps_preserves[OF assms(4,3)] runSteps_preserves[OF assms(6)] by blast
qed

subsection \<open>A channel\<close>

text \<open>The step lemmas of the channel loader that are not built from the combinators.\<close>

lemma preserves_audioWidth [step_intros]:
  "(\<And>n c. n \<in> {2, 8, 16, 32, 64} \<Longrightarrow> I c \<Longrightarrow> I (c\<lparr>audioChannelCount := n\<rparr>)) \<Longrightarrow> preserves I (audioWidthValue key v)"
  by (auto simp: preserves_def audioWidthValue_def bindR_Inr)

lemma preserves_videoFlow [step_intros]:
  "(\<And>u c. \<not> (direction c = Input \<and> isNil u) \<Longrightarrow> I c \<Longrightarrow> I (c\<lparr>videoFlowId := u\<rparr>)) \<Longrightarrow> preserves I (videoFlowValue key v)"
  by (auto simp: preserves_def videoFlowValue_def bindR_Inr)

lemma preserves_checks [step_intros]:
  "preserves I (conversionStep key)" "preserves I (removedStep env p)"
  by (auto simp: preserves_def conversionStep_def removedStep_def)

lemma preserves_videoMode [step_intros]:
  "(\<And>n m c. I c \<Longrightarrow> I (c\<lparr>videoModeName := n\<rparr>)) \<Longrightarrow> (\<And>m c. I c \<Longrightarrow> I (c\<lparr>videoMode := m\<rparr>)) \<Longrightarrow> preserves I (videoModeStep env key)"
  by (auto simp: preserves_def videoModeStep_def Let_def split: option.split_asm if_split_asm)

lemma preserves_anc [step_intros]: "(\<And>u c. I c \<Longrightarrow> I (c\<lparr>ancFlowId := Some u\<rparr>)) \<Longrightarrow> preserves I (ancFlowStep env key)"
  using preserves_uuidValue[of I "\<lambda>u ch. ch\<lparr>ancFlowId := Some u\<rparr>" key]
  by (auto simp: preserves_def ancFlowStep_def split: option.split_asm)

lemma preserves_label [step_intros]: "(\<And>v c. v \<noteq> [] \<Longrightarrow> I c \<Longrightarrow> I (c\<lparr>ch_label := v\<rparr>)) \<Longrightarrow> preserves I (labelStep env i key)"
  by (auto simp: preserves_def labelStep_def getEnv_def split: option.splits)

lemma preserves_groupHint [step_intros]: "(\<And>v c. I c \<Longrightarrow> I (c\<lparr>groupHint := v\<rparr>)) \<Longrightarrow> preserves I groupHintStep"
  by (auto simp: preserves_def groupHintStep_def)

lemma preserves_audioFlows [step_intros]:
  "(\<And>fs c. I c \<Longrightarrow> I (c\<lparr>audioFlows := fs\<rparr>)) \<Longrightarrow> preserves I (audioFlowsStep env i p)"
  by (auto simp: preserves_def audioFlowsStep_def bindR_Inr split: if_split_asm)

text \<open>The facts, each with the steps that come after it.\<close>

definition mode_set :: "ChannelConfig \<Rightarrow> bool" where
  "mode_set c \<longleftrightarrow> (videoModeName c = ''auto'' \<longrightarrow> videoMode c = None \<and> direction c = Input) \<and>
     (videoModeName c \<noteq> ''auto'' \<longrightarrow> videoMode c = lookupVideoMode (videoModeName c) \<and>
        lookupVideoMode (videoModeName c) \<noteq> None)"

definition tuned :: "ChannelConfig \<Rightarrow> bool" where
  "tuned c \<longleftrightarrow> (ch_grainCount c = 0 \<or> 2 \<le> ch_grainCount c) \<and> ch_grainCount c \<le> 1024 \<and>
     10 \<le> audioBufferMs c \<and> audioBufferMs c \<le> 10000 \<and>
     1 \<le> commitBatchHintVideo c \<and> commitBatchHintVideo c \<le> 1048576 \<and>
     1 \<le> commitBatchHintAudio c \<and> commitBatchHintAudio c \<le> 1048576 \<and>
     1 \<le> outputPrerollGrains c \<and> outputPrerollGrains c \<le> 64 \<and> 1 \<le> readerTimeoutMs c \<and> readerTimeoutMs c \<le> 10000 \<and>
     0 \<le> readOffsetGrains c \<and> readOffsetGrains c \<le> 64 \<and>
     audioChannelCount c \<in> {2, 8, 16, 32, 64} \<and> 0 \<le> subdeviceIndex c \<and> subdeviceIndex c \<le> 7"

definition flow_ok :: "Direction \<Rightarrow> int \<Rightarrow> AudioFlowConfig \<Rightarrow> bool" where
  "flow_ok d width f \<longleftrightarrow> 1 \<le> af_channelCount f \<and> af_channelCount f \<le> 64 \<and>
     int (length (af_deckLinkChannels f)) = af_channelCount f \<and>
     (\<forall>dl \<in> set (af_deckLinkChannels f). 0 \<le> dl \<and> dl < width) \<and> (d = Input \<longrightarrow> \<not> isNil (af_flowId f))"

definition audio_ok :: "ChannelConfig \<Rightarrow> bool" where
  "audio_ok c \<longleftrightarrow>
     (if audioEnable c then audioFlows c \<noteq> [] else audioFlows c = []) \<and>
     length (audioFlows c) \<le> kMaxAudioFlows \<and> map af_index (audioFlows c) = map int [0..<length (audioFlows c)] \<and>
     (\<forall>f \<in> set (audioFlows c). flow_ok (direction c) (audioChannelCount c) f) \<and>
     (direction c = Output \<longrightarrow> distinct (concat (map af_deckLinkChannels (audioFlows c))))"

definition chan_ok :: "int \<Rightarrow> ChannelConfig \<Rightarrow> bool" where
  "chan_ok i c \<longleftrightarrow> ch_index c = i \<and> mode_set c \<and> tuned c \<and> audio_ok c \<and>
     (pixelFormat c = YUV8 \<longrightarrow> allowFormatConversion c) \<and> (direction c = Input \<longrightarrow> \<not> isNil (videoFlowId c)) \<and>
     (ancEnable c \<longrightarrow> ancFlowId c \<noteq> None) \<and> ch_label c \<noteq> [] \<and> groupHint c \<noteq> []"

lemmas channel_steps = signalSteps_def tuningSteps_def

lemma parse_tuned: "parseChannel env i p = Inr c \<Longrightarrow> tuned c \<and> ch_index c = i"
  unfolding parseChannel_def
  by (erule runSteps_preserves[rotated 2])
    (simp_all add: channel_steps, (intro conjI step_intros; simp add: tuned_def), simp add: tuned_def defaultChannel_def)

lemma parse_mode: "parseChannel env i p = Inr c \<Longrightarrow> mode_set c"
proof -
  assume "parseChannel env i p = Inr c"
  then show ?thesis unfolding parseChannel_def
  proof (rule runSteps_at[where n = 2 and J = "\<lambda>c. videoMode c = None"])
    show "mode_set b" if "videoMode a = None" "((signalSteps env p @ [audioFlowsStep env i p, ancFlowStep env (p @ ''MXL_ANC_FLOW_ID'')] @
        tuningSteps env i p) ! 2) a = Inr b" for a b
      using that by (auto simp: signalSteps_def videoModeStep_def mode_set_def Let_def split: option.split_asm if_split_asm)
        (metis Direction.exhaust)+
  qed (simp_all add: channel_steps defaultChannel_def, (intro conjI step_intros; simp add: mode_set_def)+)
qed

lemma parse_conversion: "parseChannel env i p = Inr c \<Longrightarrow> pixelFormat c = YUV8 \<longrightarrow> allowFormatConversion c"
  unfolding parseChannel_def
  by (erule runSteps_at[where n = 5 and J = "\<lambda>_. True"])
    (simp_all add: channel_steps conversionStep_def, (intro conjI step_intros; simp)+)

lemma parse_videoFlow: "parseChannel env i p = Inr c \<Longrightarrow> direction c = Input \<longrightarrow> \<not> isNil (videoFlowId c)"
  unfolding parseChannel_def
  by (erule runSteps_at[where n = 10 and J = "\<lambda>_. True"])
    (simp_all add: channel_steps, (intro conjI step_intros; simp),
     (auto simp: required_def videoFlowValue_def bindR_Inr split: option.split_asm)[1],
     (intro conjI step_intros; simp))

lemma parse_anc: "parseChannel env i p = Inr c \<Longrightarrow> ancEnable c \<longrightarrow> ancFlowId c \<noteq> None"
  unfolding parseChannel_def
  by (erule runSteps_at[where n = 14 and J = "\<lambda>_. True"])
    (simp_all add: channel_steps, (intro conjI step_intros; simp),
     (auto simp: ancFlowStep_def uuidValue_def bindR_Inr split: option.split_asm)[1],
     (intro conjI step_intros; simp))

lemma parse_labels: "parseChannel env i p = Inr c \<Longrightarrow> ch_label c \<noteq> [] \<and> groupHint c \<noteq> []"
proof -
  define xs where "xs = signalSteps env p @ [audioFlowsStep env i p, ancFlowStep env (p @ ''MXL_ANC_FLOW_ID'')] @
    butlast (tuningSteps env i p)"
  have xs: "parseChannel env i p = bindR (runSteps xs (defaultChannel\<lparr>ch_index := i\<rparr>)) groupHintStep"
  proof -
    have r: "runSteps (xs @ [groupHintStep]) c = bindR (runSteps xs c) groupHintStep" for c
      by (cases "runSteps xs c") (simp_all add: runSteps_append groupHintStep_def)
    have "signalSteps env p @ [audioFlowsStep env i p, ancFlowStep env (p @ ''MXL_ANC_FLOW_ID'')] @ tuningSteps env i p
        = xs @ [groupHintStep]" by (simp add: xs_def tuningSteps_def)
    then show ?thesis by (simp only: parseChannel_def r)
  qed
  assume "parseChannel env i p = Inr c"
  then obtain b where b: "runSteps xs (defaultChannel\<lparr>ch_index := i\<rparr>) = Inr b" "groupHintStep b = Inr c"
    by (auto simp: xs bindR_Inr)
  from b(1) have "ch_label b \<noteq> []"
    unfolding xs_def
    by (rule runSteps_at[where n = 26 and J = "\<lambda>_. True"])
      (simp_all add: channel_steps, (intro conjI step_intros; simp), auto simp: labelStep_def getEnv_def split: option.splits if_split_asm)
  then show ?thesis using b(2) by (auto simp: groupHintStep_def split: if_split_asm if_split)
qed

subsection \<open>Audio flows\<close>

lemma mapEntries_range: "mapEntries key raw width s = Inr ns \<Longrightarrow> \<forall>n \<in> set ns. 0 \<le> n \<and> n < width"
proof (induction key raw width s arbitrary: ns rule: mapEntries.induct)
  case (1 key raw width s)
  show ?case
  proof (cases "s = []")
    case True
    then show ?thesis using 1(2) by (simp add: mapEntries.simps)
  next
    case False
    define token where "token = takeWhile (\<lambda>c. c \<noteq> CHR '','') s"
    have t: "token \<noteq> []" using 1(2) False by (auto simp: mapEntries.simps[of _ _ _ s] Let_def token_def[symmetric])
    obtain n ms where n: "parseInt key token 0 (width - 1) = Inr n"
        "mapEntries key raw width (drop (length token + 1) s) = Inr ms" "ns = n # ms"
      using 1(2) False t by (subst (asm) mapEntries.simps) (auto simp: Let_def token_def[symmetric] bindR_Inr)
    have "\<forall>n \<in> set ms. 0 \<le> n \<and> n < width"
      using 1(1)[OF False token_def t n(2)] .
    then show ?thesis using parseInt_range[OF n(1)] n(3) by auto
  qed
qed

lemma parseMap_ok:
  "parseMap key width count raw = Inr ns \<Longrightarrow> int (length ns) = count \<and> (\<forall>n \<in> set ns. 0 \<le> n \<and> n < width)"
  using mapEntries_range[of key raw width raw] by (auto simp: parseMap_def bindR_Inr)

lemma audioFlow_ok:
  assumes "audioFlow env i p ch af v = Inr f"
  shows "flow_ok (direction ch) (audioChannelCount ch) f \<and> af_index f = int af"
  using assms
  by (auto simp: audioFlow_def bindR_Inr required_def intValue_def setting_def boolValue_def flow_ok_def
      dest!: parseInt_range parseMap_ok split: if_split_asm option.split_asm)

lemma audioFlowLoop_ok:
  "audioFlowLoop env i p ch afs = Inr fs \<Longrightarrow>
     (\<exists>n \<le> length afs. map af_index fs = map int (take n afs)) \<and> list_all (flow_ok (direction ch) (audioChannelCount ch)) fs"
proof (induction afs arbitrary: fs)
  case (Cons af afs)
  show ?case
  proof (cases "getEnv env (afKey p af ''FLOW_ID'')")
    case None
    then show ?thesis using Cons.prems by (auto split: option.split_asm intro: exI[of _ 0])
  next
    case (Some v)
    then obtain f gs where f: "audioFlow env i p ch af v = Inr f" "audioFlowLoop env i p ch afs = Inr gs" "fs = f # gs"
      using Cons.prems by (auto simp: bindR_Inr)
    obtain n where "n \<le> length afs" "map af_index gs = map int (take n afs)" using Cons.IH[OF f(2)] by blast
    then show ?thesis using Cons.IH[OF f(2)] audioFlow_ok[OF f(1)] f(3) by (auto intro: exI[of _ "Suc n"])
  qed
qed simp

text \<open>The owners of the channels claimed so far: claiming succeeds only for channels not yet claimed.\<close>

definition claimed :: "int list \<Rightarrow> int set \<Rightarrow> bool" where
  "claimed owners S \<longleftrightarrow> (\<forall>k < length owners. (0 \<le> owners ! k) = (int k \<in> S))"

lemma claimChannels_distinct:
  "claimChannels p i dls owners = Inr owners' \<Longrightarrow> 0 \<le> i \<Longrightarrow> claimed owners S \<Longrightarrow>
     \<forall>dl \<in> set dls. 0 \<le> dl \<and> dl < int (length owners) \<Longrightarrow>
     distinct dls \<and> set dls \<inter> S = {} \<and> claimed owners' (S \<union> set dls) \<and> length owners' = length owners"
proof (induction dls arbitrary: owners S)
  case (Cons dl dls)
  have r: "nat dl < length owners" "int (nat dl) = dl" using Cons.prems(4) by auto
  have free: "\<not> 0 \<le> owners ! nat dl" "dl \<notin> S"
    using Cons.prems(1,3) r by (auto simp: claimed_def split: if_split_asm)
  have "claimed (owners[nat dl := i]) (insert dl S)"
    using Cons.prems(2,3) r by (auto simp: claimed_def nth_list_update)
  from Cons.IH[OF _ Cons.prems(2) this] show ?case
    using Cons.prems free by auto
qed simp

lemma claimFlows_distinct:
  "claimFlows p fs owners = Inr owners' \<Longrightarrow> claimed owners S \<Longrightarrow> \<forall>f \<in> set fs. 0 \<le> af_index f \<Longrightarrow>
     \<forall>f \<in> set fs. \<forall>dl \<in> set (af_deckLinkChannels f). 0 \<le> dl \<and> dl < int (length owners) \<Longrightarrow>
     distinct (concat (map af_deckLinkChannels fs)) \<and> set (concat (map af_deckLinkChannels fs)) \<inter> S = {}"
proof (induction fs arbitrary: owners S)
  case (Cons f fs)
  obtain o1 where o1: "claimChannels p (af_index f) (af_deckLinkChannels f) owners = Inr o1" "claimFlows p fs o1 = Inr owners'"
    using Cons.prems(1) by (auto simp: bindR_Inr)
  have c: "distinct (af_deckLinkChannels f)" "set (af_deckLinkChannels f) \<inter> S = {}"
    "claimed o1 (S \<union> set (af_deckLinkChannels f))" "length o1 = length owners"
    using claimChannels_distinct[OF o1(1) _ Cons.prems(2)] Cons.prems(3,4) by auto
  have "distinct (concat (map af_deckLinkChannels fs)) \<and>
      set (concat (map af_deckLinkChannels fs)) \<inter> (S \<union> set (af_deckLinkChannels f)) = {}"
    using Cons.IH[OF o1(2) c(3)] Cons.prems(3,4) c(4) by simp
  then show ?case using c by auto
qed simp

lemma audioFlowsStep_ok:
  assumes "audioFlowsStep env i p a = Inr b" "audioFlows a = []" "0 < audioChannelCount a"
  shows "audio_ok b"
proof (cases "audioEnable a")
  case True
  obtain fs where fs: "audioFlowLoop env i p a [0..<kMaxAudioFlows] = Inr fs" "fs \<noteq> []" "b = a\<lparr>audioFlows := fs\<rparr>"
    and out: "direction a = Output \<Longrightarrow> \<exists>ow. claimFlows p fs (replicate (nat (audioChannelCount a)) (- 1)) = Inr ow"
    using assms(1) True by (auto simp: audioFlowsStep_def bindR_Inr split: if_split_asm)
  obtain n where n: "n \<le> kMaxAudioFlows" "map af_index fs = map int (take n [0..<kMaxAudioFlows])"
    and all: "list_all (flow_ok (direction a) (audioChannelCount a)) fs"
    using audioFlowLoop_ok[OF fs(1)] by auto
  have len: "length fs = n" using n map_eq_imp_length_eq[OF n(2)] by simp
  have idx: "map af_index fs = map int [0..<length fs]" using n len by (simp add: take_upt)
  have nn: "\<forall>f \<in> set fs. 0 \<le> af_index f"
  proof
    fix f assume "f \<in> set fs"
    then have "af_index f \<in> set (map af_index fs)" by simp
    then show "0 \<le> af_index f" unfolding idx by auto
  qed
  have "distinct (concat (map af_deckLinkChannels fs))" if o: "direction a = Output"
  proof -
    obtain ow where "claimFlows p fs (replicate (nat (audioChannelCount a)) (- 1)) = Inr ow" using out[OF o] by blast
    from claimFlows_distinct[OF this, of "{}"] nn all assms(3) show ?thesis
      by (auto simp: claimed_def list_all_iff flow_ok_def)
  qed
  then show ?thesis using fs(2,3) True n(1) len idx all by (auto simp: audio_ok_def list_all_iff)
next
  case False
  then show ?thesis using assms(1,2) by (simp add: audioFlowsStep_def audio_ok_def)
qed

lemma parse_audio: "parseChannel env i p = Inr c \<Longrightarrow> audio_ok c"
proof -
  assume "parseChannel env i p = Inr c"
  then show ?thesis unfolding parseChannel_def
  proof (rule runSteps_at[where n = 13 and J = "\<lambda>c. audioFlows c = [] \<and> 0 < audioChannelCount c"])
    show "audio_ok b" if "audioFlows a = [] \<and> 0 < audioChannelCount a" "((signalSteps env p @
        [audioFlowsStep env i p, ancFlowStep env (p @ ''MXL_ANC_FLOW_ID'')] @ tuningSteps env i p) ! 13) a = Inr b" for a b
      using that audioFlowsStep_ok[of env i p a b] by (simp add: signalSteps_def)
  qed (simp_all add: channel_steps defaultChannel_def, (intro conjI step_intros; auto simp: audio_ok_def)+)
qed

theorem parseChannel_ok: "parseChannel env i p = Inr c \<Longrightarrow> chan_ok i c"
proof -
  assume c: "parseChannel env i p = Inr c"
  show ?thesis
    unfolding chan_ok_def
    using parse_tuned[OF c] parse_mode[OF c] parse_conversion[OF c] parse_videoFlow[OF c] parse_anc[OF c]
      parse_labels[OF c] parse_audio[OF c] by simp
qed

subsection \<open>All channels\<close>

lemma parseChannels_ok:
  "parseChannels env is = Inr chs \<Longrightarrow> map ch_index chs = map int is \<and> list_all (\<lambda>ch. chan_ok (ch_index ch) ch) chs"
proof (induction "is" arbitrary: chs)
  case (Cons i "is")
  then obtain ch cs where "parseChannel env (int i) (chPrefix i) = Inr ch" "parseChannels env is = Inr cs" "chs = ch # cs"
    by (auto simp: bindR_Inr)
  then show ?case using Cons.IH[of cs] parseChannel_ok[of env "int i" "chPrefix i" ch] by (auto simp: chan_ok_def)
qed simp

lemma checkSubdevices_distinct:
  "checkSubdevices chs seen = Inr x \<Longrightarrow>
     distinct (map (\<lambda>ch. (subdeviceIndex ch, direction ch)) chs) \<and>
     (\<lambda>ch. (subdeviceIndex ch, direction ch)) ` set chs \<inter> set seen = {}"
  by (induction chs arbitrary: seen) (fastforce split: if_split_asm)+

definition realIds :: "Uuid list \<Rightarrow> string list" where
  "realIds us = map toString (filter (\<lambda>u. \<not> isNil u) us)"

lemma checkAll_distinct:
  "checkAll us uuids = Inr uuids' \<Longrightarrow>
     distinct (realIds us) \<and> set (realIds us) \<inter> set uuids = {} \<and> set uuids' = set uuids \<union> set (realIds us)"
proof (induction us arbitrary: uuids)
  case (Cons u us)
  then obtain m where m: "checkUnique uuids u = Inr m" "checkAll us m = Inr uuids'" by (auto simp: bindR_Inr)
  from m(1) have "isNil u \<and> m = uuids \<or> \<not> isNil u \<and> toString u \<notin> set uuids \<and> m = toString u # uuids"
    by (auto simp: checkUnique_def split: if_split_asm)
  then show ?case using Cons.IH[OF m(2)] by (auto simp: realIds_def)
qed (simp add: realIds_def)

definition roleIds :: "Direction \<Rightarrow> ChannelConfig list \<Rightarrow> string list" where
  "roleIds d chs = concat (map (\<lambda>ch. realIds (flowIds ch)) (filter (\<lambda>ch. direction ch = d) chs))"

lemma checkFlows_distinct:
  "checkFlows chs (ws, rs) = Inr x \<Longrightarrow>
     distinct (roleIds Input chs) \<and> set (roleIds Input chs) \<inter> set ws = {} \<and>
     distinct (roleIds Output chs) \<and> set (roleIds Output chs) \<inter> set rs = {}"
proof (induction chs arbitrary: ws rs)
  case (Cons ch chs)
  show ?case
  proof (cases "direction ch = Input")
    case True
    then obtain m where m: "checkAll (flowIds ch) ws = Inr m" "checkFlows chs (m, rs) = Inr x"
      using Cons.prems by (auto simp: bindR_Inr)
    then show ?thesis using checkAll_distinct[OF m(1)] Cons.IH[OF m(2)] True by (auto simp: roleIds_def)
  next
    case False
    then have o: "direction ch = Output" by (cases "direction ch") simp_all
    then obtain m where m: "checkAll (flowIds ch) rs = Inr m" "checkFlows chs (ws, m) = Inr x"
      using Cons.prems by (auto simp: bindR_Inr)
    then show ?thesis using checkAll_distinct[OF m(1)] Cons.IH[OF m(2)] o by (auto simp: roleIds_def)
  qed
qed (simp add: roleIds_def)

definition channels_ok :: "ChannelConfig list \<Rightarrow> bool" where
  "channels_ok chs \<longleftrightarrow> list_all (\<lambda>ch. chan_ok (ch_index ch) ch) chs \<and> length chs \<le> kMaxChannels \<and>
     sorted_wrt (<) (map ch_index chs) \<and> distinct (map (\<lambda>ch. (subdeviceIndex ch, direction ch)) chs) \<and>
     distinct (roleIds Input chs) \<and> distinct (roleIds Output chs)"

definition global_ok :: "Config \<Rightarrow> bool" where
  "global_ok c \<longleftrightarrow> countSelectors c = 1 \<and> 1 \<le> webPort c \<and> webPort c \<le> 65535 \<and> 1 \<le> nmosPort c \<and> nmosPort c \<le> 65535 \<and>
     (nmosEnable c \<longrightarrow> nmosPort c \<noteq> webPort c \<and> nmosPort c + 1 \<noteq> webPort c) \<and>
     1 \<le> signalLossTimeoutS c \<and> 0 \<le> startupMaxRetries c \<and> 1 \<le> shutdownTimeoutS c \<and> 1 \<le> realtimePriority c \<and>
     realtimePriority c \<le> 99 \<and> configFile c \<noteq> None"

subsection \<open>The whole configuration\<close>

lemma preserves_selector [step_intros]:
  "(\<And>k v. preserves I (f k v)) \<Longrightarrow> preserves I (selector env legacy key legacyKey f)"
  by (auto simp: preserves_def selector_def split: option.split_asm if_split_asm)

lemma preserves_bind [step_intros]:
  "(\<And>n c. x = Inr n \<Longrightarrow> I c \<Longrightarrow> I (upd n c)) \<Longrightarrow> preserves I (\<lambda>c. bindR x (\<lambda>n. Inr (upd n c)))"
  by (auto simp: preserves_def bindR_Inr)

lemma preserves_Inr [step_intros]: "(\<And>c. I c \<Longrightarrow> I (upd c)) \<Longrightarrow> preserves I (\<lambda>c. Inr (upd c))"
  by (auto simp: preserves_def)

lemma preserves_values [step_intros]:
  "(\<And>v c. I c \<Longrightarrow> I (c\<lparr>outputDomainId := v\<rparr>)) \<Longrightarrow> preserves I (domainIdValue key v)"
  "(\<And>l c. I c \<Longrightarrow> I (c\<lparr>cpuPinList := l\<rparr>)) \<Longrightarrow> preserves I (cpuListValue v)"
  "(\<And>t c. I c \<Longrightarrow> I (c\<lparr>nmosTags := t\<rparr>)) \<Longrightarrow> preserves I (tagsValue parseJson v)"
  "(\<And>v c. I c \<Longrightarrow> I (c\<lparr>nmosHostAddress := v\<rparr>)) \<Longrightarrow> preserves I (hostAddressValue isIpLiteral v)"
  "(\<And>v c. I c \<Longrightarrow> I (c\<lparr>nmosQueryAddress := v\<rparr>)) \<Longrightarrow> (\<And>n c. I c \<Longrightarrow> I (c\<lparr>nmosQueryPort := n\<rparr>)) \<Longrightarrow> preserves I queryDefaults"
  "preserves I portsStep" "preserves I (removedPortsStep env)"
  "(\<And>v c. I c \<Longrightarrow> I (c\<lparr>configFile := Some v\<rparr>)) \<Longrightarrow> preserves I (configFileStep env)"
  "(\<And>chs c. I c \<Longrightarrow> I (c\<lparr>channels := chs\<rparr>)) \<Longrightarrow> preserves I (channelsStep env legacy indices)"
  "preserves I validateCrossChannel"
  "(\<And>c. I c \<Longrightarrow> I (c\<lparr>minHealthyChannels := 0\<rparr>)) \<Longrightarrow> preserves I minHealthyStep"
  by (auto simp: preserves_def domainIdValue_def cpuListValue_def tagsValue_def hostAddressValue_def queryDefaults_def
      portsStep_def removedPortsStep_def configFileStep_def channelsStep_def validateCrossChannel_def minHealthyStep_def
      bindR_Inr Let_def split: option.split_asm json.split_asm if_split_asm)

lemma preserves_selectors [step_intros]:
  "(\<And>c. I c \<Longrightarrow> I (c\<lparr>cardIndex := Some 0\<rparr>)) \<Longrightarrow> preserves I selectorStep"
  by (auto simp: preserves_def selectorStep_def Let_def split: if_split_asm)

definition loadSteps :: "(string \<Rightarrow> json option) \<Rightarrow> (string \<Rightarrow> bool) \<Rightarrow> EnvReader \<Rightarrow> bool \<Rightarrow> (Config \<Rightarrow> Config res) list" where
  "loadSteps parseJson isIpLiteral env legacy =
     selectionSteps env legacy @ domainSteps env @ nmosSteps parseJson isIpLiteral env @ processSteps env"

lemma loadConfig_steps:
  assumes "loadConfig pj ip env = Inr cfg"
  obtains legacy a where "legacy \<longleftrightarrow> presentChannelIndices env = [] \<and> presentLegacyVars env \<noteq> []"
    "runSteps (loadSteps pj ip env legacy) (defaultConfig\<lparr>legacyMode := legacy\<rparr>) = Inr a"
    "runSteps [channelsStep env legacy (presentChannelIndices env), validateCrossChannel, minHealthyStep] a = Inr cfg"
proof -
  define legacy where "legacy \<longleftrightarrow> presentChannelIndices env = [] \<and> presentLegacyVars env \<noteq> []"
  have "runSteps (loadSteps pj ip env legacy @ [channelsStep env legacy (presentChannelIndices env), validateCrossChannel, minHealthyStep])
      (defaultConfig\<lparr>legacyMode := legacy\<rparr>) = Inr cfg"
    using assms by (simp add: loadConfig_def Let_def legacy_def loadSteps_def split: if_split_asm)
  then show ?thesis using that[OF legacy_def] by (auto simp: runSteps_append bindR_Inr simp del: runSteps.simps)
qed

lemmas load_steps = loadSteps_def selectionSteps_def domainSteps_def nmosSteps_def processSteps_def

lemma load_ranges:
  assumes "runSteps (loadSteps pj ip env legacy) (defaultConfig\<lparr>legacyMode := l\<rparr>) = Inr c"
  shows "1 \<le> webPort c \<and> webPort c \<le> 65535 \<and> 1 \<le> nmosPort c \<and> nmosPort c \<le> 65535 \<and>
     1 \<le> signalLossTimeoutS c \<and> 0 \<le> startupMaxRetries c \<and> 1 \<le> shutdownTimeoutS c \<and> 1 \<le> realtimePriority c \<and>
     realtimePriority c \<le> 99 \<and> 0 \<le> minHealthyChannels c"
  using assms
  by (rule runSteps_preserves[rotated 2])
    (simp_all add: load_steps, (intro conjI step_intros; simp), simp add: defaultConfig_def)

lemma load_selectors:
  assumes "runSteps (loadSteps pj ip env legacy) (defaultConfig\<lparr>legacyMode := l\<rparr>) = Inr c"
  shows "countSelectors c = 1"
  using assms
proof (rule runSteps_at[where n = 3 and J = "\<lambda>_. True"])
  show "countSelectors b = 1" if "(loadSteps pj ip env legacy ! 3) a = Inr b" for a b
    using that by (auto simp: load_steps selectorStep_def Let_def countSelectors_def split: if_split_asm)
qed (simp_all add: load_steps, (intro conjI step_intros; simp add: countSelectors_def)+)

lemma load_ports:
  assumes "runSteps (loadSteps pj ip env legacy) (defaultConfig\<lparr>legacyMode := l\<rparr>) = Inr c"
  shows "nmosEnable c \<longrightarrow> nmosPort c \<noteq> webPort c \<and> nmosPort c + 1 \<noteq> webPort c"
  using assms
proof (rule runSteps_at[where n = 32 and J = "\<lambda>_. True"])
  show "nmosEnable b \<longrightarrow> nmosPort b \<noteq> webPort b \<and> nmosPort b + 1 \<noteq> webPort b"
    if "(loadSteps pj ip env legacy ! 32) a = Inr b" for a b
    using that by (auto simp: load_steps portsStep_def)
qed (simp_all add: load_steps, (intro conjI step_intros; simp)+)

lemma load_file:
  assumes "runSteps (loadSteps pj ip env legacy) (defaultConfig\<lparr>legacyMode := l\<rparr>) = Inr c"
  shows "configFile c \<noteq> None"
  using assms
proof (rule runSteps_at[where n = 34 and J = "\<lambda>_. True"])
  show "configFile b \<noteq> None" if "(loadSteps pj ip env legacy ! 34) a = Inr b" for a b
    using that by (auto simp: load_steps configFileStep_def)
qed (simp_all add: load_steps, (intro conjI step_intros; simp)+)

lemma channelsStep_ok:
  assumes "channelsStep env legacy (presentChannelIndices env) a = Inr b"
  shows "list_all (\<lambda>ch. chan_ok (ch_index ch) ch) (channels b) \<and> length (channels b) \<le> kMaxChannels \<and>
    sorted_wrt (<) (map ch_index (channels b))"
proof (cases legacy)
  case True
  then obtain ch where "parseLegacyChannel env = Inr ch" "channels b = [ch]"
    using assms by (auto simp: channelsStep_def bindR_Inr)
  then show ?thesis using parseChannel_ok[of "remappedReader env" 0 "''CH0_''" ch]
    by (auto simp: parseLegacyChannel_def chan_ok_def kMaxChannels_def)
next
  case False
  then obtain chs where c: "parseChannels env (presentChannelIndices env) = Inr chs" "channels b = chs"
    using assms by (auto simp: channelsStep_def bindR_Inr)
  have m: "map ch_index chs = map int (presentChannelIndices env)" using parseChannels_ok[OF c(1)] by simp
  have "length chs = length (presentChannelIndices env)" using map_eq_imp_length_eq[OF m] .
  also have "\<dots> \<le> kMaxChannels" unfolding presentChannelIndices_def by (rule order_trans[OF length_filter_le]) simp
  finally have "length chs \<le> kMaxChannels" .
  moreover have "sorted_wrt (<) (map ch_index chs)"
    unfolding m presentChannelIndices_def
    by (simp add: sorted_wrt_map sorted_wrt_filter sorted_wrt_upt)
  ultimately show ?thesis using parseChannels_ok[OF c(1)] c(2) by simp
qed

lemma loadConfig_ok:
  assumes "loadConfig parseJson isIpLiteral env = Inr cfg"
  shows "global_ok cfg \<and> channels_ok (channels cfg) \<and> 0 \<le> minHealthyChannels cfg \<and>
    minHealthyChannels cfg \<le> int (length (channels cfg))"
proof -
  obtain legacy a where a: "runSteps (loadSteps parseJson isIpLiteral env legacy) (defaultConfig\<lparr>legacyMode := legacy\<rparr>) = Inr a"
    "runSteps [channelsStep env legacy (presentChannelIndices env), validateCrossChannel, minHealthyStep] a = Inr cfg"
    using loadConfig_steps[OF assms] by metis
  then obtain b where b: "channelsStep env legacy (presentChannelIndices env) a = Inr b" "validateCrossChannel b = Inr b"
    "minHealthyStep b = Inr cfg"
    by (auto simp: bindR_Inr validateCrossChannel_def)
  have cross: "distinct (map (\<lambda>ch. (subdeviceIndex ch, direction ch)) (channels b))"
    "distinct (roleIds Input (channels b))" "distinct (roleIds Output (channels b))"
    using b(2) checkSubdevices_distinct[of "channels b" "[]"] checkFlows_distinct[of "channels b" "[]" "[]"]
    by (auto simp: validateCrossChannel_def bindR_Inr)
  obtain chs where ch: "b = a\<lparr>channels := chs\<rparr>" using b(1) by (auto simp: channelsStep_def bindR_Inr)
  have m: "(cfg = b \<or> cfg = b\<lparr>minHealthyChannels := 0\<rparr>) \<and> minHealthyChannels cfg \<le> int (length (channels cfg))"
    using b(3) by (auto simp: minHealthyStep_def split: if_split_asm)
  have "global_ok b \<and> 0 \<le> minHealthyChannels b"
    using load_ranges[OF a(1)] load_selectors[OF a(1)] load_ports[OF a(1)] load_file[OF a(1)]
    by (simp add: ch global_ok_def countSelectors_def)
  moreover have "global_ok (b\<lparr>minHealthyChannels := 0\<rparr>) = global_ok b" by (simp add: global_ok_def countSelectors_def)
  ultimately have "global_ok cfg \<and> 0 \<le> minHealthyChannels cfg" using m by (elim conjE disjE) simp_all
  moreover have "channels_ok (channels cfg)"
    using m channelsStep_ok[OF b(1)] cross by (auto simp: channels_ok_def)
  ultimately show ?thesis using m by simp
qed

text \<open>An input and an output of the same sub-device, looped back through one flow.\<close>

definition demoVars :: EnvReader where
  "demoVars = map_of
     [(''CH0_DIRECTION'', ''input''), (''CH0_SUBDEVICE_INDEX'', ''0''),
      (''CH0_MXL_VIDEO_FLOW_ID'', ''00000000-0000-4000-8000-000000000001''), (''CH0_AUDIO_ENABLE'', ''false''),
      (''CH1_DIRECTION'', ''output''), (''CH1_SUBDEVICE_INDEX'', ''0''), (''CH1_VIDEO_MODE'', ''HD1080p50''),
      (''CH1_MXL_VIDEO_FLOW_ID'', ''00000000-0000-4000-8000-000000000001''),
      (''CH1_AF0_FLOW_ID'', ''00000000-0000-0000-0000-000000000000''), (''CH1_AF0_CHANNEL_COUNT'', ''2''),
      (''CH1_AF0_MAP'', ''0,1'')]"

lemma demoVars_load:
  "case loadConfig (\<lambda>_. None) (\<lambda>_. False) demoVars of Inl e \<Rightarrow> False | Inr cfg \<Rightarrow> length (channels cfg) = 2"
  by code_simp



subsection \<open>Numbers\<close>

text \<open>Integer settings round-trip: the decimal text of a number in range is parsed to that number, the text of
  a number out of range is rejected with the number, and one that does not fit a \<open>long\<close> is no integer.\<close>

theorem parseInt_roundtrip:
  "parseInt key (int_to_string n) lo hi =
     (if \<not> (- (2 ^ 63) \<le> n \<and> n < 2 ^ 63) then Inl (NotInteger key (int_to_string n))
      else if n < lo \<or> hi < n then Inl (OutOfRange key n lo hi) else Inr n)"
  by (simp add: parseInt_def stol_def strtol_int)

end
