(* ===== verification/StoreProps.thy ===== *)
theory StoreProps
  imports Store ConfigValid
begin

text \<open>
  What the configuration store promises: a rejected update changes neither the store nor the file, an accepted
  one does what was asked and nothing else, a restart finds what was saved, an exported document
  restores the settings, and the environment block names everything the loader uses.
\<close>

subsection \<open>The invariant\<close>

definition store_ok :: "ConfigStore \<Rightarrow> bool" where
  "store_ok st \<longleftrightarrow> ordered (cs_fileLayer st) \<and> cs_filePath st = resolveConfigFile (cs_env st) \<and>
     list_all (\<lambda>(k, _). lookupSetting k \<noteq> None \<and> \<not> isEnvOnlyKey k) (cs_fileLayer st)"

definition known_keys :: "layer \<Rightarrow> bool" where
  "known_keys l \<longleftrightarrow> (\<forall>k \<in> fst ` set l. lookupSetting k \<noteq> None \<and> \<not> isEnvOnlyKey k)"

lemma store_ok_iff:
  "store_ok st \<longleftrightarrow> ordered (cs_fileLayer st) \<and> cs_filePath st = resolveConfigFile (cs_env st) \<and> known_keys (cs_fileLayer st)"
  by (auto simp: store_ok_def known_keys_def list_all_iff)

lemma known_Nil [simp]: "known_keys []"
  by (simp add: known_keys_def)

lemma known_putKey: "known_keys l \<Longrightarrow> lookupSetting k \<noteq> None \<Longrightarrow> \<not> isEnvOnlyKey k \<Longrightarrow> known_keys (putKey k v l)"
  by (simp add: known_keys_def)

lemma known_eraseKey: "known_keys l \<Longrightarrow> known_keys (eraseKey k l)"
  by (auto simp: known_keys_def eraseKey_def)

lemma loadEntries_ok: "loadEntries es l = Inr l' \<Longrightarrow> ordered l \<and> known_keys l \<Longrightarrow> ordered l' \<and> known_keys l'"
  by (induction es l rule: loadEntries.induct) (auto split: if_splits option.splits simp: known_putKey)

lemma resolveConfigFile_some: "resolveConfigFile env \<noteq> None"
  by (simp add: resolveConfigFile_def split: option.splits)

lemma newConfigStore_ok: "newConfigStore parseJson env disk = Inr st \<Longrightarrow> store_ok st"
  using loadEntries_ok[of _ "[]"]
  by (auto simp: newConfigStore_def loadFile_def store_ok_iff bindR_Inr Let_def
      split: FileState.splits option.splits json.splits if_splits)

lemma validateKeys_None:
  "validateKeys env cs = None \<longleftrightarrow> (\<forall>k \<in> fst ` set cs. lookupSetting k \<noteq> None \<and> \<not> isEnvOnlyKey k \<and> \<not> hasEnv env k)"
  by (induction cs) (auto split: if_splits)

lemma validateKeys_SetByEnv:
  "\<forall>k \<in> fst ` set cs. lookupSetting k \<noteq> None \<and> \<not> isEnvOnlyKey k \<Longrightarrow> (k, v) \<in> set cs \<Longrightarrow> hasEnv env k \<Longrightarrow>
   \<exists>k'. validateKeys env cs = Some (SetByEnv k')"
  by (induction cs) auto

subsection \<open>Changes\<close>

text \<open>The loop of an update is the fold of the single changes of the map's contract.\<close>

lemma applyChanges_layer: "ordered l \<Longrightarrow> fst (applyChanges cs (l, ch)) = fold std.change cs l"
proof (induction cs arbitrary: l ch)
  case (Cons c cs)
  obtain k v where c: "c = (k, v)" by (cases c)
  show ?case
  proof (cases v)
    case None
    then show ?thesis using Cons by (cases "map_of l k") (simp_all add: c std.change_def std.erase_absent)
  next
    case (Some w)
    then show ?thesis using Cons by (cases "map_of l k = Some w") (auto simp: c std.change_def std.put_same)
  qed
qed simp

lemma applyChanges_keys:
  "distinct (map fst cs) \<Longrightarrow> set (snd (applyChanges cs (l, ch))) = set ch \<union> {k. \<exists>v. map_of cs k = Some v \<and> map_of l k \<noteq> v}"
proof (induction cs arbitrary: l ch)
  case (Cons c cs)
  obtain k v where c: "c = (k, v)" by (cases c)
  have k: "map_of cs k = None" using Cons.prems by (simp add: c map_of_eq_None_iff)
  have eq: "{k'. \<exists>w. map_of cs k' = Some w \<and> ((map_of l)(k := v)) k' \<noteq> w} = {k'. \<exists>w. map_of cs k' = Some w \<and> map_of l k' \<noteq> w}"
    using k by (auto split: if_splits)
  show ?case
  proof (cases v)
    case None
    then show ?thesis using Cons eq k by (cases "map_of l k") (auto simp: c split: if_splits)
  next
    case (Some w)
    then show ?thesis using Cons eq k by (cases "map_of l k = Some w") (auto simp: c split: if_splits)
  qed
qed simp

lemma applyChanges_known:
  "known_keys l \<Longrightarrow> (\<forall>k \<in> fst ` set cs. lookupSetting k \<noteq> None \<and> \<not> isEnvOnlyKey k) \<Longrightarrow>
   known_keys (fst (applyChanges cs (l, ch)))"
proof (induction cs arbitrary: l ch)
  case (Cons c cs)
  then show ?case by (cases c) (auto simp: known_putKey known_eraseKey split: option.splits)
qed simp

text \<open>What a successful update is.\<close>

lemma update_Inr:
  assumes "update parseJson isIpLiteral io cs st disk = (Inr r, st', disk')"
  shows "io = Written \<and> validateKeys (cs_env st) cs = None \<and>
    st' = st\<lparr>cs_fileLayer := fst (applyChanges cs (cs_fileLayer st, []))\<rparr> \<and>
    ur_changedKeys r = snd (applyChanges cs (cs_fileLayer st, [])) \<and>
    loadConfig parseJson isIpLiteral (mergedReader (cs_env st) (cs_fileLayer st')) = Inr (ur_config r) \<and>
    disk' = Contents (renderFile (cs_fileLayer st'))"
  using assms
  by (auto simp: update_def Let_def case_prod_beta split: if_splits option.splits sum.splits WriteOutcome.splits)

lemma update_Inl: "update parseJson isIpLiteral io cs st disk = (Inl e, st', disk') \<Longrightarrow> st' = st \<and> disk' = disk"
  by (auto simp: update_def Let_def case_prod_beta split: if_splits option.splits sum.splits WriteOutcome.splits)

lemma update_ok:
  assumes "store_ok st" and "update parseJson isIpLiteral io cs st disk = (res, st', disk')"
  shows "store_ok st'"
proof (cases res)
  case (Inl e)
  then show ?thesis using assms update_Inl by fastforce
next
  case (Inr r)
  note u = update_Inr[OF assms(2)[unfolded Inr]]
  have "ordered (fst (applyChanges cs (cs_fileLayer st, [])))"
    using assms(1) by (simp add: applyChanges_layer std.ok_changes store_ok_iff)
  moreover have "known_keys (fst (applyChanges cs (cs_fileLayer st, [])))"
    using assms(1) u by (intro applyChanges_known) (auto simp: store_ok_iff validateKeys_None)
  ultimately show ?thesis using assms(1) u by (simp add: store_ok_iff)
qed

lemma update_lookup:
  assumes "store_ok st" "ordered cs" "update parseJson isIpLiteral io cs st disk = (Inr r, st', disk')"
  shows "map_of (cs_fileLayer st') k = (case map_of cs k of Some v \<Rightarrow> v | None \<Rightarrow> map_of (cs_fileLayer st) k)"
  using update_Inr[OF assms(3)] assms(1,2)
  by (simp add: applyChanges_layer store_ok_iff std.lookup_changes ordered_distinct)


text \<open>C3. Updates are transactional: a rejected one leaves the store and the file on the disk as they were; an
  accepted one makes exactly the requested changes to the file layer, reports the keys whose
  value changed, returns the configuration that is effective from then on, writes the new layer to the
  file and keeps the store well-formed.  A setting of the environment is never changed.\<close>

theorem update_transactional:
  assumes "store_ok st" and "ordered cs"
  shows "case update parseJson isIpLiteral io cs st disk of
      (Inl e, st', disk') \<Rightarrow> st' = st \<and> disk' = disk
    | (Inr r, st', disk') \<Rightarrow>
        store_ok st' \<and> effectiveConfig parseJson isIpLiteral st' = Inr (ur_config r) \<and>
        disk' = Contents (renderFile (cs_fileLayer st')) \<and>
        set (ur_changedKeys r) = {k. map_of (cs_fileLayer st') k \<noteq> map_of (cs_fileLayer st) k} \<and>
        (\<forall>k. effectiveValue st' k =
           (if sourceOf st k = SourceEnv then effectiveValue st k
            else case map_of cs k of Some v \<Rightarrow> v | None \<Rightarrow> effectiveValue st k))"
proof -
  obtain res st' disk' where u: "update parseJson isIpLiteral io cs st disk = (res, st', disk')"
    by (cases "update parseJson isIpLiteral io cs st disk") auto
  show ?thesis
  proof (cases res)
    case (Inl e)
    show ?thesis using update_Inl[OF u[unfolded Inl]] by (simp add: u Inl)
  next
    case (Inr r)
    note u = u[unfolded Inr]
    note r = update_Inr[OF u] and l = update_lookup[OF assms u]
    have env: "cs_env st' = cs_env st" using r by simp
    have "effectiveValue st' k = (if sourceOf st k = SourceEnv then effectiveValue st k
        else case map_of cs k of Some v \<Rightarrow> v | None \<Rightarrow> effectiveValue st k)" for k
      by (auto simp: env effectiveValue_def mergedReader_def sourceOf_def hasEnv_def l split: option.splits)
    moreover have "set (ur_changedKeys r) = {k. map_of (cs_fileLayer st') k \<noteq> map_of (cs_fileLayer st) k}"
    proof -
      have "ur_changedKeys r = snd (applyChanges cs (cs_fileLayer st, []))" using r by simp
      then show ?thesis
        using applyChanges_keys[OF ordered_distinct[OF assms(2)], of "cs_fileLayer st" "[]"]
        by (auto simp: l split: option.splits)
    qed
    moreover have "effectiveConfig parseJson isIpLiteral st' = Inr (ur_config r)"
      unfolding effectiveConfig_def env using r by blast
    moreover have "disk' = Contents (renderFile (cs_fileLayer st'))" using r by blast
    ultimately show ?thesis using update_ok[OF assms(1) u] by (simp add: u)
  qed
qed

subsection \<open>Documents\<close>

definition jsonObject :: "layer \<Rightarrow> json" where
  "jsonObject l = JObj (map (\<lambda>(k, v). (k, JStr v)) l)"

lemma loadEntries_strings:
  "known_keys l \<Longrightarrow> loadEntries (map (\<lambda>(k, v). (k, JStr v)) l) acc = Inr (fold std.change (map (\<lambda>(k, v). (k, Some v)) l) acc)"
  by (induction l arbitrary: acc) (auto simp: known_keys_def renderValue_def std.change_def)



text \<open>The parser reads back an exported document.\<close>

definition readsExport :: "(string \<Rightarrow> json option) \<Rightarrow> ConfigStore \<Rightarrow> bool" where
  "readsExport parseJson st \<longleftrightarrow>
     parseJson (exportDocument st) = Some (JObj [(''settings'', jsonObject (cs_fileLayer st))])"

lemma importValues_strings:
  "importValues (map (\<lambda>(k, v). (k, JStr v)) l) cs = Inr (fold (\<lambda>(k, v). putKey k (Some v)) l cs)"
  by (induction l arbitrary: cs) (auto simp: renderValue_def)

lemma fold_putKey_ordered: "ordered m \<Longrightarrow> ordered (fold (\<lambda>(k, v). putKey k (f v)) l m)"
  by (induction l arbitrary: m) auto

lemma fold_putKey_lookup:
  "distinct (map fst l) \<Longrightarrow>
   map_of (fold (\<lambda>(k, v). putKey k (f v)) l m) k = (case map_of l k of Some v \<Rightarrow> Some (f v) | None \<Rightarrow> map_of m k)"
  by (induction l arbitrary: m) (auto simp: map_of_eq_None_iff split: option.splits dest: map_of_SomeD intro: rev_image_eqI)

lemma removals_ordered: "ordered (cs_fileLayer st) \<Longrightarrow> ordered (removals st)"
  unfolding removals_def by (induction "cs_fileLayer st" arbitrary: st) (auto simp: ordered_def sorted_wrt_map sorted_wrt_filter case_prod_beta)


lemma map_of_removals:
  "map_of (map (\<lambda>(k, _). (k, None :: 'b option)) (filter (\<lambda>(k, _). \<not> hasEnv e k) l)) k =
     (if hasEnv e k then None else map_option (\<lambda>_. None) (map_of l k))"
  by (induction l) auto

lemma removals_lookup:
  "map_of (removals st) k =
     (if hasEnv (cs_env st) k then None else map_option (\<lambda>_. None) (map_of (cs_fileLayer st) k))"
  unfolding removals_def by (rule map_of_removals)

text \<open>The changes an exported document asks for.\<close>

definition exportChanges :: "ConfigStore \<Rightarrow> ConfigStore \<Rightarrow> changes" where
  "exportChanges st st2 = fold (\<lambda>(k, v). putKey k (Some v)) (cs_fileLayer st) (removals st2)"

lemma import_export:
  "readsExport parseJson st \<Longrightarrow>
   importDocument parseJson isIpLiteral io (exportDocument st) st2 disk =
     update parseJson isIpLiteral io (exportChanges st st2) st2 disk"
  by (simp add: readsExport_def importDocument_def jsonObject_def importValues_strings exportChanges_def)

lemma exportChanges_ordered: "store_ok st2 \<Longrightarrow> ordered (exportChanges st st2)"
  by (simp add: exportChanges_def fold_putKey_ordered removals_ordered store_ok_iff)

lemma exportChanges_lookup:
  "store_ok st \<Longrightarrow> map_of (exportChanges st st2) k =
     (case map_of (cs_fileLayer st) k of Some v \<Rightarrow> Some (Some v) | None \<Rightarrow> map_of (removals st2) k)"
  by (simp add: exportChanges_def fold_putKey_lookup ordered_distinct store_ok_iff)

text \<open>No setting of the file is shadowed by the environment.\<close>

definition unshadowed :: "ConfigStore \<Rightarrow> bool" where
  "unshadowed st \<longleftrightarrow> list_all (\<lambda>(k, _). \<not> hasEnv (cs_env st) k) (cs_fileLayer st)"

lemma unshadowed_lookup: "unshadowed st \<Longrightarrow> map_of (cs_fileLayer st) k = Some v \<Longrightarrow> \<not> hasEnv (cs_env st) k"
  by (auto simp: unshadowed_def list_all_iff dest: map_of_SomeD)

lemma exportChanges_known:
  assumes "store_ok st"
  shows "\<forall>k \<in> fst ` set (exportChanges st st). lookupSetting k \<noteq> None \<and> \<not> isEnvOnlyKey k"
proof
  fix k assume "k \<in> fst ` set (exportChanges st st)"
  then have "map_of (exportChanges st st) k \<noteq> None" by (simp add: map_of_eq_None_iff)
  then have "map_of (cs_fileLayer st) k \<noteq> None"
    using assms by (auto simp: exportChanges_lookup removals_lookup split: option.splits if_splits)
  then show "lookupSetting k \<noteq> None \<and> \<not> isEnvOnlyKey k"
    using assms by (auto simp: store_ok_iff known_keys_def map_of_eq_None_iff)
qed

lemma exportChanges_valid:
  assumes "store_ok st" "store_ok st2" "unshadowed st" "cs_env st2 = cs_env st"
  shows "validateKeys (cs_env st2) (exportChanges st st2) = None"
  unfolding validateKeys_None
proof
  fix k assume "k \<in> fst ` set (exportChanges st st2)"
  then obtain v where "map_of (exportChanges st st2) k = Some v"
    by (metis map_of_eq_None_iff not_None_eq)
  then consider w where "map_of (cs_fileLayer st) k = Some w" | w where "map_of (cs_fileLayer st2) k = Some w" "\<not> hasEnv (cs_env st2) k"
    using assms(1) by (auto simp: exportChanges_lookup removals_lookup split: option.splits if_splits)
  then show "lookupSetting k \<noteq> None \<and> \<not> isEnvOnlyKey k \<and> \<not> hasEnv (cs_env st2) k"
  proof cases
    case 1
    then show ?thesis using assms unshadowed_lookup[OF assms(3) 1]
      by (auto simp: store_ok_iff known_keys_def dest!: map_of_SomeD intro: rev_image_eqI)
  next
    case 2
    then show ?thesis using assms
      by (auto simp: store_ok_iff known_keys_def dest!: map_of_SomeD intro: rev_image_eqI)
  qed
qed

lemma exportChanges_apply:
  assumes "store_ok st" "store_ok st2" "unshadowed st2" 
  shows "fst (applyChanges (exportChanges st st2) (cs_fileLayer st2, [])) = cs_fileLayer st"
proof (rule ordered_unique)
  have o2: "ordered (cs_fileLayer st2)" using assms(2) by (simp add: store_ok_iff)
  show "ordered (fst (applyChanges (exportChanges st st2) (cs_fileLayer st2, [])))"
    using o2 by (simp add: applyChanges_layer std.ok_changes)
  show "map_of (fst (applyChanges (exportChanges st st2) (cs_fileLayer st2, []))) = map_of (cs_fileLayer st)"
  proof
    fix k
    show "map_of (fst (applyChanges (exportChanges st st2) (cs_fileLayer st2, []))) k = map_of (cs_fileLayer st) k"
      using o2 assms(1) ordered_distinct[OF exportChanges_ordered[OF assms(2)]] unshadowed_lookup[OF assms(3), of k]
      by (cases "map_of (cs_fileLayer st2) k") (auto simp: applyChanges_layer std.lookup_changes exportChanges_lookup removals_lookup split: option.splits)
  qed
qed (use assms(1) in \<open>simp add: store_ok_iff\<close>)

text \<open>Export and import round-trip: importing the document exported from one store into another over the same
  environment makes their file layers equal, whatever settings the other had, when the exported settings
  load and the environment sets none of the two files' keys.\<close>

theorem export_import_roundtrip:
  assumes "store_ok st" "store_ok st2" "cs_env st2 = cs_env st" "unshadowed st" "unshadowed st2"
    and "effectiveConfig parseJson isIpLiteral st = Inr cfg" and "readsExport parseJson st"
  shows "\<exists>r disk'. importDocument parseJson isIpLiteral Written (exportDocument st) st2 disk = (Inr r, st, disk') \<and>
    ur_config r = cfg"
proof -
  have path: "cs_filePath st2 = cs_filePath st" "cs_filePath st2 \<noteq> None"
    using assms(1,2,3) resolveConfigFile_some by (simp_all add: store_ok_iff)
  have "st2\<lparr>cs_fileLayer := cs_fileLayer st\<rparr> = st" using path(1) assms(3) by (cases st; cases st2) simp
  then show ?thesis
    using path(2) assms(3,6) exportChanges_valid[OF assms(1,2,4,3)] exportChanges_apply[OF assms(1,2,5)]
    by (auto simp: import_export[OF assms(7)] update_def effectiveConfig_def Let_def case_prod_beta)
qed


text \<open>A setting of the file that the environment overrides defeats the round trip: the import of the store's
  own export is refused because of that setting, and nothing changes.\<close>

theorem export_import_shadowed:
  assumes "store_ok st" "\<not> unshadowed st" "readsExport parseJson st"
  shows "\<exists>k. importDocument parseJson isIpLiteral io (exportDocument st) st disk = (Inl (SetByEnv k), st, disk)"
proof -
  obtain k v where k: "(k, v) \<in> set (cs_fileLayer st)" "hasEnv (cs_env st) k"
    using assms(2) by (auto simp: unshadowed_def list_all_iff)
  have "map_of (exportChanges st st) k = Some (Some v)"
    using assms(1) k(1) by (simp add: exportChanges_lookup map_of_eq_Some_iff ordered_distinct store_ok_iff)
  then have "(k, Some v) \<in> set (exportChanges st st)" by (rule map_of_SomeD)
  then have "\<exists>k. validateKeys (cs_env st) (exportChanges st st) = Some (SetByEnv k)"
    using validateKeys_SetByEnv exportChanges_known[OF assms(1)] k(2) by blast
  moreover have "cs_filePath st \<noteq> None" using assms(1) resolveConfigFile_some by (simp add: store_ok_iff)
  ultimately show ?thesis by (auto simp: import_export[OF assms(3)] update_def)
qed


subsection \<open>The environment block\<close>

text \<open>One environment within another: it has the same values for the keys of the schema and no others.\<close>

definition within :: "EnvReader \<Rightarrow> EnvReader \<Rightarrow> bool" where
  "within e e2 \<longleftrightarrow> (\<forall>k. getEnv e k = None \<or> getEnv e k = getEnv e2 k) \<and> (\<forall>k \<in> set schemaKeys. getEnv e k = getEnv e2 k)"

lemma findMeta_in: "findMeta kind k \<noteq> None \<Longrightarrow> \<exists>m \<in> set settingsSchema. sm_kind m = kind \<and> sm_key m = k"
  by (auto simp: findMeta_def find_None_iff)

lemma schemaKeys_global: "findMeta Global k \<noteq> None \<Longrightarrow> k \<in> set schemaKeys"
  by (drule findMeta_in) (auto simp: schemaKeys_def metaKeys_def intro!: bexI)

lemma schemaKeys_channel: "findMeta ChannelSetting s \<noteq> None \<Longrightarrow> i < 16 \<Longrightarrow> chPrefix i @ s \<in> set schemaKeys"
  by (drule findMeta_in) (auto simp: schemaKeys_def metaKeys_def image_iff intro!: bexI)

lemma schemaKeys_audio:
  "findMeta AudioFlowSetting f \<noteq> None \<Longrightarrow> i < 16 \<Longrightarrow> af < 16 \<Longrightarrow> afKey (chPrefix i) af f \<in> set schemaKeys"
  by (drule findMeta_in) (auto simp: schemaKeys_def metaKeys_def image_iff intro!: bexI)

text \<open>Every name the loader reads is one of these.\<close>

definition globalNames :: "string list" where
  "globalNames =
     [''MXL_DECKLINK_CARD_ID'', ''MXL_DECKLINK_CARD_NAME'', ''MXL_DECKLINK_CARD_INDEX'', ''MXL_DECKLINK_CARD_PROFILE'',
      ''MXL_DOMAIN_PATH'', ''MXL_OUTPUT_DOMAIN_DIR'', ''MXL_OUTPUT_DOMAIN_ID'', ''MXL_HISTORY_DURATION_MS'',
      ''MXL_TIMESTAMP_SOURCE'', ''MXL_HUGEPAGE_PATH'', ''MXL_CPU_PIN_LIST'', ''MXL_REALTIME_PRIORITY'', ''RT_SCHED'',
      ''MXL_PTP_INTERFACE'', ''WEB_ENABLE'', ''WEB_PORT'', ''NMOS_ENABLE'', ''NMOS_PORT'', ''NMOS_LABEL'',
      ''NMOS_REGISTRY_ADDRESS'', ''NMOS_REGISTRY_PORT'', ''NMOS_SEED'', ''NMOS_TAGS'', ''NMOS_QUERY_ADDRESS'',
      ''NMOS_QUERY_PORT'', ''NMOS_DNS_SD'', ''NMOS_RESUME_CONNECTIONS'', ''NMOS_HOST_ADDRESS'', ''CONFIG_DIR'',
      ''MXL_CLEANUP_ON_EXIT'', ''MXL_CONFIG_FILE'', ''MXL_DOMAIN_SCAN_PATH'', ''MXL_HEALTH_MIN_HEALTHY_CHANNELS'',
      ''SIGNAL_LOSS_TIMEOUT_S'', ''STARTUP_MAX_RETRIES'', ''SHUTDOWN_TIMEOUT_S'', ''LOG_LEVEL'', ''LOG_FORMAT'',
      ''DECKLINK_LIB_MODE'', ''MXL_DECKLINK_BACKEND'']"

definition channelNames :: "string list" where
  "channelNames =
     [''DIRECTION'', ''SUBDEVICE_INDEX'', ''VIDEO_MODE'', ''PIXEL_FORMAT'', ''ALLOW_FORMAT_CONVERSION'',
      ''VIDEO_ANC_ENABLE'', ''AUDIO_ENABLE'', ''AUDIO_CHANNEL_COUNT'', ''AUDIO_SAMPLE_TYPE'', ''MXL_VIDEO_FLOW_ID'',
      ''MXL_ACTIVE'', ''MXL_ANC_FLOW_ID'', ''MXL_VIDEO_FLOW_LABEL'', ''MXL_GROUP_HINT'', ''MXL_DEVICE_ID'',
      ''MXL_SOURCE_ID'', ''GRAIN_COUNT'', ''AUDIO_BUFFER_MS'', ''COMMIT_BATCH_HINT'', ''OUTPUT_PREROLL_GRAINS'',
      ''READER_TIMEOUT_MS'', ''SDI_LEVEL'', ''READ_OFFSET_GRAINS'', ''LABEL'']"

definition audioNames :: "string list" where
  "audioNames = [''FLOW_ID'', ''CHANNEL_COUNT'', ''MAP'', ''LABEL'', ''MXL_ACTIVE'']"

lemma global_names: "list_all (\<lambda>k. findMeta Global k \<noteq> None) globalNames"
  by code_simp

lemma channel_names: "list_all (\<lambda>s. findMeta ChannelSetting s \<noteq> None) channelNames"
  by code_simp

lemma audio_names: "list_all (\<lambda>f. findMeta AudioFlowSetting f \<noteq> None) audioNames"
  by code_simp

lemma within_names:
  assumes "within e e2"
  shows "list_all (\<lambda>k. getEnv e k = getEnv e2 k) globalNames"
    and "i < 16 \<Longrightarrow> list_all (\<lambda>s. getEnv e (chPrefix i @ s) = getEnv e2 (chPrefix i @ s)) channelNames"
    and "i < 16 \<Longrightarrow> af < 16 \<Longrightarrow>
      list_all (\<lambda>f. getEnv e (afKey (chPrefix i) af f) = getEnv e2 (afKey (chPrefix i) af f)) audioNames"
  using assms global_names channel_names audio_names schemaKeys_global schemaKeys_channel schemaKeys_audio
  by (auto simp: within_def list_all_iff)


text \<open>A step that succeeds in the larger environment succeeds alike in the smaller one.\<close>

definition refines :: "('c \<Rightarrow> 'c res) \<Rightarrow> ('c \<Rightarrow> 'c res) \<Rightarrow> bool" where
  "refines f g \<longleftrightarrow> (\<forall>c c'. f c = Inr c' \<longrightarrow> g c = Inr c')"

lemma refines_refl [simp]: "refines f f"
  by (simp add: refines_def)

lemma runSteps_refines: "list_all2 refines fs gs \<Longrightarrow> refines (runSteps fs) (runSteps gs)"
  by (induction rule: list_all2_induct) (auto simp: refines_def bindR_Inr)

lemma getEnv_within:
  assumes "within e e2"
  shows within_global: "k \<in> set globalNames \<Longrightarrow> getEnv e k = getEnv e2 k"
    and within_channel: "i < 16 \<Longrightarrow> s \<in> set channelNames \<Longrightarrow> getEnv e (chPrefix i @ s) = getEnv e2 (chPrefix i @ s)"
    and within_audio: "i < 16 \<Longrightarrow> af < 16 \<Longrightarrow> f \<in> set audioNames \<Longrightarrow>
      getEnv e (afKey (chPrefix i) af f) = getEnv e2 (afKey (chPrefix i) af f)"
  using within_names[OF assms] by (auto simp: list_all_iff)

lemma setting_cong: "getEnv e k = getEnv e2 k \<Longrightarrow> setting e k = setting e2 k"
  by (simp add: setting_def fun_eq_iff)

lemma required_cong: "getEnv e k = getEnv e2 k \<Longrightarrow> required e k = required e2 k"
  by (simp add: required_def fun_eq_iff)

lemma hasEnv_within: "within e e2 \<Longrightarrow> hasEnv e k \<Longrightarrow> hasEnv e2 k"
  by (metis hasEnv_def within_def)

lemma audioFlow_within:
  assumes "within e e2" "i < 16" "af < 16"
  shows "audioFlow e index (chPrefix i) ch af v = audioFlow e2 index (chPrefix i) ch af v"
proof -
  note a = within_audio[OF assms]
  show ?thesis unfolding audioFlow_def
    by (simp add: a required_cong[OF a] setting_cong[OF a] audioNames_def cong: if_cong)
qed

lemma audioFlowLoop_within:
  assumes "within e e2" "i < 16" "\<forall>af \<in> set afs. af < 16"
  shows "audioFlowLoop e index (chPrefix i) ch afs = audioFlowLoop e2 index (chPrefix i) ch afs"
  using assms(3)
proof (induction afs)
  case (Cons af later)
  have "hasAudioKey e (chPrefix i) l = hasAudioKey e2 (chPrefix i) l" if "l \<in> set later" for l
    using Cons.prems that within_audio[OF assms(1,2)] by (simp add: hasAudioKey_def hasEnv_def audioNames_def)
  then have "find (hasAudioKey e (chPrefix i)) later = find (hasAudioKey e2 (chPrefix i)) later"
    by (intro find_cong) auto
  then show ?case
    using Cons within_audio[OF assms(1,2), of af "''FLOW_ID''"] audioFlow_within[OF assms(1,2), of af]
    by (simp add: audioNames_def cong: option.case_cong)
qed simp

lemma parseChannel_within:
  assumes "within e e2" "i < 16" "parseChannel e2 index (chPrefix i) = Inr ch"
  shows "parseChannel e index (chPrefix i) = Inr ch"
proof -
  note c = within_channel[OF assms(1,2)]
  have "refines (removedStep e2 (chPrefix i)) (removedStep e (chPrefix i))"
    using hasEnv_within[OF assms(1)] by (auto simp: refines_def removedStep_def)
  moreover have "videoModeStep e (chPrefix i @ ''VIDEO_MODE'') = videoModeStep e2 (chPrefix i @ ''VIDEO_MODE'')"
    by (simp add: videoModeStep_def fun_eq_iff c channelNames_def)
  ultimately have s: "list_all2 refines (signalSteps e2 (chPrefix i)) (signalSteps e (chPrefix i))"
    by (simp add: signalSteps_def setting_cong[OF c] required_cong[OF c] channelNames_def)
  have "labelStep e index (chPrefix i @ ''LABEL'') = labelStep e2 index (chPrefix i @ ''LABEL'')"
    by (simp add: labelStep_def fun_eq_iff c channelNames_def)
  then have t: "list_all2 refines (tuningSteps e2 index (chPrefix i)) (tuningSteps e index (chPrefix i))"
    by (simp add: tuningSteps_def setting_cong[OF c] channelNames_def)
  have "audioFlowsStep e index (chPrefix i) = audioFlowsStep e2 index (chPrefix i)"
    using audioFlowLoop_within[OF assms(1,2)] by (simp add: audioFlowsStep_def fun_eq_iff kMaxAudioFlows_def)
  moreover have "ancFlowStep e (chPrefix i @ ''MXL_ANC_FLOW_ID'') = ancFlowStep e2 (chPrefix i @ ''MXL_ANC_FLOW_ID'')"
    by (simp add: ancFlowStep_def fun_eq_iff c channelNames_def)
  ultimately have "refines
      (runSteps (signalSteps e2 (chPrefix i) @
        [audioFlowsStep e2 index (chPrefix i), ancFlowStep e2 (chPrefix i @ ''MXL_ANC_FLOW_ID'')] @ tuningSteps e2 index (chPrefix i)))
      (runSteps (signalSteps e (chPrefix i) @
        [audioFlowsStep e index (chPrefix i), ancFlowStep e (chPrefix i @ ''MXL_ANC_FLOW_ID'')] @ tuningSteps e index (chPrefix i)))"
    using s t by (intro runSteps_refines list_all2_appendI) simp_all
  then show ?thesis using assms(3) unfolding parseChannel_def refines_def by blast
qed

lemma parseChannels_within:
  "within e e2 \<Longrightarrow> \<forall>i \<in> set is. i < 16 \<Longrightarrow> parseChannels e2 is = Inr chs \<Longrightarrow> parseChannels e is = Inr chs"
proof (induction "is" arbitrary: chs)
  case (Cons i "is")
  then obtain ch chs' where "parseChannel e2 (int i) (chPrefix i) = Inr ch" "parseChannels e2 is = Inr chs'" "chs = ch # chs'"
    by (auto simp: bindR_Inr)
  then show ?case using Cons parseChannel_within[OF Cons.prems(1), of i "int i" ch] by simp
qed simp

lemma indices_within:
  assumes "within e e2"
  shows "presentChannelIndices e = presentChannelIndices e2" "\<forall>i \<in> set (presentChannelIndices e2). i < 16"
  using within_channel[OF assms]
  by (auto simp: presentChannelIndices_def kMaxChannels_def hasEnv_def channelNames_def intro!: filter_cong)

lemma globalSteps_within:
  assumes "within e e2"
  shows "list_all2 refines (selectionSteps e2 False) (selectionSteps e False)"
    and "list_all2 refines (domainSteps e2) (domainSteps e)"
    and "list_all2 refines (nmosSteps parseJson isIpLiteral e2) (nmosSteps parseJson isIpLiteral e)"
    and "list_all2 refines (processSteps e2) (processSteps e)"
proof -
  note g = within_global[OF assms]
  have sel: "selector e False k l f = selector e2 False k l f" if "k \<in> set globalNames" for k l f
    using g[OF that] by (auto simp: selector_def fun_eq_iff split: option.splits)
  show "list_all2 refines (selectionSteps e2 False) (selectionSteps e False)"
    by (simp add: selectionSteps_def sel globalNames_def)
  show "list_all2 refines (domainSteps e2) (domainSteps e)"
    by (simp add: domainSteps_def setting_cong[OF g] globalNames_def)
  show "list_all2 refines (nmosSteps parseJson isIpLiteral e2) (nmosSteps parseJson isIpLiteral e)"
    by (simp add: nmosSteps_def setting_cong[OF g] globalNames_def)
  have "refines (removedPortsStep e2) (removedPortsStep e)"
    using hasEnv_within[OF assms] by (auto simp: refines_def removedPortsStep_def)
  moreover have "configFileStep e = configFileStep e2"
    by (simp add: configFileStep_def fun_eq_iff g globalNames_def)
  ultimately show "list_all2 refines (processSteps e2) (processSteps e)"
    by (simp add: processSteps_def setting_cong[OF g] globalNames_def)
qed

lemma loadConfig_within:
  assumes "within e e2" "presentLegacyVars e2 = []" "loadConfig parseJson isIpLiteral e2 = Inr cfg"
  shows "loadConfig parseJson isIpLiteral e = Inr cfg"
proof -
  have leg: "presentLegacyVars e = []"
    using assms(2) hasEnv_within[OF assms(1)] by (auto simp: presentLegacyVars_def filter_empty_conv)
  have "refines (channelsStep e2 False (presentChannelIndices e2)) (channelsStep e False (presentChannelIndices e2))"
    using parseChannels_within[OF assms(1) indices_within(2)[OF assms(1)]]
    by (auto simp: refines_def channelsStep_def bindR_Inr)
  then have "refines
      (runSteps (selectionSteps e2 False @ domainSteps e2 @ nmosSteps parseJson isIpLiteral e2 @ processSteps e2 @
        [channelsStep e2 False (presentChannelIndices e2), validateCrossChannel, minHealthyStep]))
      (runSteps (selectionSteps e False @ domainSteps e @ nmosSteps parseJson isIpLiteral e @ processSteps e @
        [channelsStep e False (presentChannelIndices e2), validateCrossChannel, minHealthyStep]))"
    using globalSteps_within[OF assms(1)] by (intro runSteps_refines list_all2_appendI) simp_all
  then show ?thesis
    using assms(2,3) leg unfolding refines_def loadConfig_def Let_def indices_within(1)[OF assms(1)] by simp
qed


lemma keys_fold_put: "fst ` set (fold (\<lambda>k m. putKey k True m) ks m) = set ks \<union> fst ` set m"
  by (induction ks arbitrary: m) auto

lemma presentKeys_set:
  "set (presentKeys st) = fst ` set (cs_fileLayer st) \<union> {k \<in> set schemaKeys. hasEnv (cs_env st) k}"
  by (auto simp: presentKeys_def keys_fold_put)

lemma map_of_entries:
  "map_of (concat (map (\<lambda>k. case f k of None \<Rightarrow> [] | Some v \<Rightarrow> [(k, v)]) ks)) k = (if k \<in> set ks then f k else None)"
  by (induction ks) (auto split: option.splits)

lemma envEntries_lookup: "map_of (envEntries st) k = (if k \<in> set (presentKeys st) then effectiveValue st k else None)"
  by (simp add: envEntries_def map_of_entries)

lemma envEntries_within: "within (map_of (envEntries st)) (effectiveValue st)"
  by (auto simp: within_def getEnv_def envEntries_lookup presentKeys_set effectiveValue_def mergedReader_def hasEnv_def
      map_of_eq_None_iff split: option.splits if_splits dest: map_of_SomeD intro: rev_image_eqI)

text \<open>The environment block is complete: an environment with just the printed settings loads the very
  configuration that is effective, when it does not come from the variables of version 1.0.\<close>

theorem env_block_complete:
  assumes "effectiveConfig parseJson isIpLiteral st = Inr cfg" and "presentLegacyVars (effectiveValue st) = []"
  shows "loadConfig parseJson isIpLiteral (map_of (envEntries st)) = Inr cfg"
proof (rule loadConfig_within[OF envEntries_within assms(2)])
  have "mergedReader (cs_env st) (cs_fileLayer st) = effectiveValue st" by (simp add: fun_eq_iff effectiveValue_def)
  then show "loadConfig parseJson isIpLiteral (effectiveValue st) = Inr cfg"
    using assms(1) by (simp add: effectiveConfig_def)
qed

subsection \<open>A concrete store\<close>

definition noJson :: "string \<Rightarrow> json option" where "noJson = (\<lambda>_. None)"

definition noIp :: "string \<Rightarrow> bool" where "noIp = (\<lambda>_. False)"

definition demoStore :: ConfigStore where
  "demoStore = \<lparr>cs_env = demoVars, cs_filePath = resolveConfigFile demoVars,
     cs_fileLayer = [(''LOG_LEVEL'', ''warn''), (''WEB_PORT'', ''8081'')]\<rparr>"

definition demoChanges :: changes where
  "demoChanges = [(''NMOS_PORT'', Some ''3300''), (''WEB_PORT'', None)]"

definition demoUpdate :: updateOutcome where
  "demoUpdate = update noJson noIp Written demoChanges demoStore Absent"

lemma demoStore_ok: "store_ok demoStore" "unshadowed demoStore" "ordered demoChanges"
  by code_simp+

lemma demoUpdate_accepted: "case fst demoUpdate of Inl e \<Rightarrow> False | Inr r \<Rightarrow> nmosPort (ur_config r) = 3300"
  by code_simp

theorem update_transactional_witness:
  "\<exists>r st' disk'. update noJson noIp Written demoChanges demoStore Absent = (Inr r, st', disk') \<and>
    nmosPort (ur_config r) = 3300 \<and> store_ok st' \<and> effectiveConfig noJson noIp st' = Inr (ur_config r)"
proof -
  obtain r st' disk' where u: "update noJson noIp Written demoChanges demoStore Absent = (Inr r, st', disk')" "nmosPort (ur_config r) = 3300"
    using demoUpdate_accepted unfolding demoUpdate_def
    by (cases "update noJson noIp Written demoChanges demoStore Absent") (auto split: sum.splits)
  then show ?thesis
    using update_transactional[OF demoStore_ok(1,3), where parseJson = noJson and isIpLiteral = noIp and io = Written and disk = Absent]
    by simp
qed

definition demoSaved :: layer where
  "demoSaved = [(''LOG_LEVEL'', ''warn''), (''NMOS_PORT'', ''3300'')]"

definition demoJson :: "string \<Rightarrow> json option" where
  "demoJson s = (if s = renderFile demoSaved then Some (jsonObject demoSaved) else None)"

lemma demoUpdate_json:
  "case update demoJson noIp Written demoChanges demoStore Absent of
     (Inl e, st', disk') \<Rightarrow> False | (Inr r, st', disk') \<Rightarrow> cs_fileLayer st' = demoSaved"
  by code_simp



definition demoOther :: ConfigStore where
  "demoOther = demoStore\<lparr>cs_fileLayer := [(''LOG_FORMAT'', ''text''), (''LOG_LEVEL'', ''error'')]\<rparr>"

definition exportJson :: "ConfigStore \<Rightarrow> string \<Rightarrow> json option" where
  "exportJson st s =
     (if s = exportDocument st then Some (JObj [(''settings'', jsonObject (cs_fileLayer st))]) else None)"

lemma demoOther_ok: "store_ok demoOther" "unshadowed demoOther" "cs_env demoOther = cs_env demoStore"
  by (code_simp, code_simp, simp add: demoOther_def)

lemma exportJson_reads: "readsExport (exportJson st) st"
  by (simp add: readsExport_def exportJson_def)

lemma demoStore_loads:
  "case effectiveConfig (exportJson demoStore) noIp demoStore of Inl e \<Rightarrow> False | Inr cfg \<Rightarrow> webPort cfg = 8081"
  by code_simp

lemma demoStore_cfg: "\<exists>cfg. effectiveConfig (exportJson demoStore) noIp demoStore = Inr cfg \<and> webPort cfg = 8081"
  using demoStore_loads by (auto split: sum.splits)

theorem export_import_roundtrip_witness:
  "\<exists>r disk'. importDocument (exportJson demoStore) noIp Written (exportDocument demoStore) demoOther Absent = (Inr r, demoStore, disk') \<and>
    webPort (ur_config r) = 8081"
proof -
  obtain cfg where "effectiveConfig (exportJson demoStore) noIp demoStore = Inr cfg" "webPort cfg = 8081"
    using demoStore_cfg by blast
  then show ?thesis
    using export_import_roundtrip[OF demoStore_ok(1) demoOther_ok(1,3) demoStore_ok(2) demoOther_ok(2) _ exportJson_reads, of noIp cfg Absent]
    by auto
qed

definition shadowedStore :: ConfigStore where
  "shadowedStore = demoStore\<lparr>cs_fileLayer := [(''CH0_DIRECTION'', ''output'')]\<rparr>"

lemma shadowedStore_ok: "store_ok shadowedStore" "\<not> unshadowed shadowedStore"
  by code_simp+

theorem export_import_shadowed_witness:
  "\<exists>k. importDocument (exportJson shadowedStore) noIp Written (exportDocument shadowedStore) shadowedStore Absent =
    (Inl (SetByEnv k), shadowedStore, Absent)"
  using export_import_shadowed[OF shadowedStore_ok exportJson_reads] by blast

lemma demoStore_noLegacy: "presentLegacyVars (effectiveValue demoStore) = []"
  by code_simp

theorem env_block_complete_witness:
  "\<exists>cfg. loadConfig (exportJson demoStore) noIp (map_of (envEntries demoStore)) = Inr cfg \<and> webPort cfg = 8081"
  using demoStore_cfg env_block_complete[OF _ demoStore_noLegacy] by blast

text \<open>With the variables of version 1.0 the block loses the channel.\<close>

definition legacyVars :: EnvReader where
  "legacyVars = map_of
     [(''DIRECTION'', ''input''), (''MXL_VIDEO_FLOW_ID'', ''00000000-0000-4000-8000-000000000001''),
      (''AUDIO_ENABLE'', ''false'')]"

definition legacyStore :: ConfigStore where
  "legacyStore = \<lparr>cs_env = legacyVars, cs_filePath = resolveConfigFile legacyVars, cs_fileLayer = []\<rparr>"

lemma legacy_loads: "case effectiveConfig noJson noIp legacyStore of Inl e \<Rightarrow> False | Inr cfg \<Rightarrow> length (channels cfg) = 1"
  by code_simp

lemma schemaKeys_form: "k \<in> set schemaKeys \<Longrightarrow> findMeta Global k \<noteq> None \<or> (\<exists>i s. k = chPrefix i @ s)" for k
proof -
  assume "k \<in> set schemaKeys"
  then obtain m where m: "m \<in> set settingsSchema" "k \<in> set (metaKeys m)" by (auto simp: schemaKeys_def)
  then show ?thesis by (cases "sm_kind m") (auto simp: metaKeys_def afKey_def findMeta_def find_None_iff)
qed

lemma nat_to_string_hd: "isDigit (hd (nat_to_string i))"
  using digits_of_nat[of i] by (cases "nat_to_string i") simp_all

lemma legacy_names: "list_all (\<lambda>k. findMeta Global k = None \<and> \<not> (length k > 2 \<and> take 2 k = ''CH'' \<and> isDigit (k ! 2))) kLegacyVars"
  by code_simp

lemma legacy_not_schema: "k \<in> set kLegacyVars \<Longrightarrow> k \<notin> set schemaKeys"
proof
  assume k: "k \<in> set kLegacyVars" "k \<in> set schemaKeys"
  then obtain i s where "k = chPrefix i @ s" using schemaKeys_form legacy_names by (fastforce simp: list_all_iff)
  then have "length k > 2 \<and> take 2 k = ''CH'' \<and> isDigit (k ! 2)"
    using nat_to_string_hd[of i] by (cases "nat_to_string i") (simp_all add: chPrefix_def)
  then show False using k(1) legacy_names by (auto simp: list_all_iff)
qed

lemma legacy_block: "envEntries legacyStore = []"
proof -
  have "k \<in> set kLegacyVars" if "hasEnv legacyVars k" for k
    using that by (auto simp: hasEnv_def getEnv_def legacyVars_def kLegacyVars_def split: if_splits)
  then have "set (presentKeys legacyStore) = {}"
    using presentKeys_set[of legacyStore] legacy_not_schema by (auto simp: legacyStore_def)
  then have "presentKeys legacyStore = []" by simp
  then show ?thesis by (simp add: envEntries_def)
qed

end
