(* ===== verification/SchemaProps.thy ===== *)
theory SchemaProps
  imports StoreProps
begin

text \<open>
  The settings table against the loader: concrete keys are recognised as the entry they come from, and two
  places where the table promises more than the loader does.
\<close>

subsection \<open>Concrete keys\<close>

lemma index_values: "list_all (\<lambda>i. indexValue (nat_to_string i) = int i) [0..<16]"
  by code_simp

lemma indexValue_small: "i < 16 \<Longrightarrow> indexValue (nat_to_string i) = int i"
  using index_values by (simp add: list_all_iff)

lemma takeWhile_digits: "takeWhile isDigit (nat_to_string i @ ''_'' @ s) = nat_to_string i"
  using digits_of_nat[of i] by (simp add: takeWhile_append2 list_all_iff isDigit_def)

lemma splitIndexed_key:
  assumes "i < 16" "length p = 2"
  shows "splitIndexed p (p @ nat_to_string i @ ''_'' @ s) = Some (int i, s)"
proof -
  define key where "key = p @ nat_to_string i @ ''_'' @ s"
  have "0 < length (nat_to_string i)" by simp
  then have "\<not> length key < 4" "take 2 key = p" using assms(2) by (simp_all add: key_def)
  moreover have "takeWhile isDigit (drop 2 key) = nat_to_string i"
    using assms(2) takeWhile_digits by (simp add: key_def)
  moreover have "drop (2 + length (nat_to_string i)) key = ''_'' @ s" using assms(2) by (simp add: key_def)
  ultimately show ?thesis
    unfolding splitIndexed_def Let_def key_def[symmetric] using assms(1) by (simp add: indexValue_small)
qed

lemma parseChannelKey_key: "i < 16 \<Longrightarrow> parseChannelKey (chPrefix i @ s) = Some (int i, s)"
  using splitIndexed_key[of i "''CH''" s] by (simp add: parseChannelKey_def chPrefix_def)

lemma parseAudioFlowSuffix_key: "i < 16 \<Longrightarrow> parseAudioFlowSuffix (''AF'' @ nat_to_string i @ ''_'' @ s) = Some (int i, s)"
  using splitIndexed_key[of i "''AF''" s] by (simp add: parseAudioFlowSuffix_def)

lemma schema_distinct: "list_all (\<lambda>m. findMeta (sm_kind m) (sm_key m) = Some m) settingsSchema"
  by code_simp

lemma schema_unindexed:
  "list_all (\<lambda>m. case sm_kind m of Global \<Rightarrow> parseChannelKey (sm_key m) = None
     | ChannelSetting \<Rightarrow> parseAudioFlowSuffix (sm_key m) = None | AudioFlowSetting \<Rightarrow> True) settingsSchema"
  by code_simp

text \<open>The concrete keys of every entry of the settings table (every global name, every channel setting for
  each of the 16 channels, every audio-flow setting for each of their 16 flows) are recognised as keys
  of that entry and no other.\<close>

theorem keys_recognised: "list_all (\<lambda>m. list_all (\<lambda>k. lookupSetting k = Some m) (metaKeys m)) settingsSchema"
  unfolding list_all_iff
proof (intro ballI)
  fix m k assume m: "m \<in> set settingsSchema" and k: "k \<in> set (metaKeys m)"
  have f: "findMeta (sm_kind m) (sm_key m) = Some m" using m schema_distinct by (simp add: list_all_iff)
  have u: "case sm_kind m of Global \<Rightarrow> parseChannelKey (sm_key m) = None
     | ChannelSetting \<Rightarrow> parseAudioFlowSuffix (sm_key m) = None | AudioFlowSetting \<Rightarrow> True"
    using m schema_unindexed by (simp add: list_all_iff)
  show "lookupSetting k = Some m"
  proof (cases "sm_kind m")
    case Global
    then show ?thesis using k f u by (simp add: metaKeys_def lookupSetting_def)
  next
    case ChannelSetting
    then show ?thesis using k f u by (auto simp: metaKeys_def lookupSetting_def parseChannelKey_key)
  next
    case AudioFlowSetting
    then obtain i af where "i < 16" "af < 16" "k = chPrefix i @ ''AF'' @ nat_to_string af @ ''_'' @ sm_key m"
      using k by (auto simp: metaKeys_def afKey_def)
    then show ?thesis
      using f AudioFlowSetting parseChannelKey_key[of i] parseAudioFlowSuffix_key[of af "sm_key m"]
      by (simp add: lookupSetting_def)
  qed
qed

text \<open>A key with a leading zero, or with an index that wraps around, is accepted although nothing reads it.\<close>

lemma unread_keys_accepted:
  "lookupSetting ''CH00_DIRECTION'' \<noteq> None \<and> lookupSetting ''CH4294967296_DIRECTION'' \<noteq> None"
  by code_simp

subsection \<open>Defaults\<close>

definition baseVars :: "(string \<times> string) list" where
  "baseVars =
     [(''CH0_DIRECTION'', ''input''), (''CH0_SUBDEVICE_INDEX'', ''0''),
      (''CH0_MXL_VIDEO_FLOW_ID'', ''00000000-0000-4000-8000-000000000001''),
      (''CH0_AF0_FLOW_ID'', ''00000000-0000-4000-8000-000000000002''), (''CH0_AF0_CHANNEL_COUNT'', ''2''),
      (''CH0_AF0_MAP'', ''0,1'')]"

text \<open>The default the table shows for the channel count of an audio flow is none: the loader requires the setting.\<close>

lemma channel_count_required:
  "map_option sm_defaultValue (lookupSetting ''CH0_AF0_CHANNEL_COUNT'') = Some ''2'' \<and>
   loadConfig noJson noIp (map_of (filter (\<lambda>e. fst e \<noteq> ''CH0_AF0_CHANNEL_COUNT'') baseVars)) =
     Inl (Missing ''CH0_AF0_CHANNEL_COUNT'')"
  by code_simp

end
