(* ===== verification/Routing.thy ===== *)
theory Routing
  imports Config
begin

text \<open>
  \<open>src/nmos/routing.cpp\<close>: the IS-04 senders and receivers of the channels (legs) and the application of
  one IS-05 activation to the channel configuration.  \<open>isDirectory\<close> stands for
  \<open>std::filesystem::is_directory\<close>.  The C++ function updates \<open>channels\<close> in place and returns an
  optional error; here both are returned.
\<close>

datatype LegKind = VideoLeg | AudioLeg | AncLeg

record Leg =
  lg_id :: string
  lg_channelIndex :: int
  lg_kind :: LegKind
  lg_audioIndex :: int
  lg_sender :: bool
  lg_sourceId :: string
  lg_initialFlowId :: string

record DomainBinding =
  db_id :: string
  db_path :: string

record Activation =
  ac_legId :: string
  ac_masterEnable :: bool
  ac_domainId :: string
  ac_flowId :: "string option"

datatype RouteError =
  NoLeg string
  | NoChannel int
  | UnknownDomain string
  | ForeignDomain string
  | FlowNotUuid
  | NeedsFlow
  | NoAudioFlow int int
  | NoDirectory string
  | DomainLost string

subsection \<open>Identifiers\<close>

definition cardSeed :: "u32 \<Rightarrow> Uuid" where
  "cardSeed pid =
     \<lparr>bytes = [ucast (drop_bit 24 pid), ucast (drop_bit 16 pid), ucast (drop_bit 8 pid), ucast pid,
               0, 0, 0x40, 0, 0x80, 0, 0, 0, 0, 0, 0, 0]\<rparr>"

definition idFor :: "Uuid \<Rightarrow> string \<Rightarrow> string" where
  "idFor seed name = toString (deriveUuid seed name)"

definition idFromSeed :: "string \<Rightarrow> string \<Rightarrow> string" where
  "idFromSeed seed name = toString (uuidV5 uuidNamespaceDns (''mxl-decklink/'' @ seed @ ''/'' @ name))"

definition idNamed :: "Config \<Rightarrow> u32 \<Rightarrow> string \<Rightarrow> string" where
  "idNamed cfg pid name = (if nmosSeed cfg \<noteq> [] then idFromSeed (nmosSeed cfg) name else idFor (cardSeed pid) name)"

definition stableId :: "u32 \<Rightarrow> string \<Rightarrow> string" where
  "stableId pid name = idFor (cardSeed pid) name"

definition nodeIdForCard :: "u32 \<Rightarrow> string" where
  "nodeIdForCard pid = stableId pid ''node''"

definition nodeIdFor :: "Config \<Rightarrow> u32 \<Rightarrow> string" where
  "nodeIdFor cfg pid = idNamed cfg pid ''node''"

subsection \<open>Legs\<close>

definition legOf :: "Config \<Rightarrow> u32 \<Rightarrow> ChannelConfig \<Rightarrow> LegKind \<Rightarrow> int \<Rightarrow> string \<Rightarrow> Uuid \<Rightarrow> Leg" where
  "legOf cfg pid ch kind audio suffix flow =
     (let key = ''ch'' @ int_to_string (ch_index ch) @ ''/'' @ suffix;
          role = (if direction ch = Input then ''sender'' else ''receiver'')
      in \<lparr>lg_id = idNamed cfg pid (role @ ''/'' @ key), lg_channelIndex = ch_index ch, lg_kind = kind,
          lg_audioIndex = audio, lg_sender = (direction ch = Input), lg_sourceId = idNamed cfg pid (''source/'' @ key),
          lg_initialFlowId = toString flow\<rparr>)"

definition channelLegs :: "Config \<Rightarrow> u32 \<Rightarrow> ChannelConfig \<Rightarrow> Leg list" where
  "channelLegs cfg pid ch =
     legOf cfg pid ch VideoLeg (- 1) ''video'' (videoFlowId ch) #
     (if audioEnable ch
      then map (\<lambda>af. legOf cfg pid ch AudioLeg (af_index af) (''audio'' @ int_to_string (af_index af)) (af_flowId af)) (audioFlows ch)
      else []) @
     (if ancEnable ch
      then (case ancFlowId ch of Some u \<Rightarrow> [legOf cfg pid ch AncLeg (- 1) ''anc'' u] | None \<Rightarrow> [])
      else [])"

definition enumerateLegs :: "Config \<Rightarrow> u32 \<Rightarrow> Leg list" where
  "enumerateLegs cfg pid = concat (map (channelLegs cfg pid) (channels cfg))"

subsection \<open>One activation\<close>

definition findLeg :: "Leg list \<Rightarrow> string \<Rightarrow> Leg option" where
  "findLeg legs lid = find (\<lambda>l. lg_id l = lid) legs"

definition findChannel :: "ChannelConfig list \<Rightarrow> int \<Rightarrow> ChannelConfig option" where
  "findChannel chs index = find (\<lambda>c. ch_index c = index) chs"

definition findDomain :: "DomainBinding list \<Rightarrow> string \<Rightarrow> DomainBinding option" where
  "findDomain domains did = find (\<lambda>d. db_id d = did) domains"

text \<open>The first element that satisfies \<open>P\<close>, changed: a loop with \<open>break\<close>, or an assignment through the pointer
  \<open>findChannel\<close> returned.\<close>

fun updateFirst :: "('a \<Rightarrow> bool) \<Rightarrow> ('a \<Rightarrow> 'a) \<Rightarrow> 'a list \<Rightarrow> 'a list" where
  "updateFirst P f [] = []"
| "updateFirst P f (x # xs) = (if P x then f x # xs else x # updateFirst P f xs)"

text \<open>\<open>Some None\<close>: no flow given; \<open>None\<close>: not a UUID.\<close>

definition activationFlow :: "Activation \<Rightarrow> Uuid option option" where
  "activationFlow a =
     (case ac_flowId a of None \<Rightarrow> Some None | Some s \<Rightarrow> map_option Some (parseUuid s))"

definition setAudioLeg :: "bool \<Rightarrow> Uuid option \<Rightarrow> AudioFlowConfig \<Rightarrow> AudioFlowConfig" where
  "setAudioLeg enable flow af =
     af\<lparr>af_mxlActive := enable, af_flowId := (case flow of Some u \<Rightarrow> u | None \<Rightarrow> af_flowId af)\<rparr>"

definition setLeg :: "Leg \<Rightarrow> bool \<Rightarrow> Uuid option \<Rightarrow> ChannelConfig \<Rightarrow> RouteError + ChannelConfig" where
  "setLeg leg enable flow ch =
     (case lg_kind leg of
        VideoLeg \<Rightarrow>
          Inr (ch\<lparr>videoMxlActive := enable, videoFlowId := (case flow of Some u \<Rightarrow> u | None \<Rightarrow> videoFlowId ch)\<rparr>)
      | AudioLeg \<Rightarrow>
          if list_ex (\<lambda>af. af_index af = lg_audioIndex leg) (audioFlows ch)
          then Inr (ch\<lparr>audioFlows := updateFirst (\<lambda>af. af_index af = lg_audioIndex leg) (setAudioLeg enable flow) (audioFlows ch)\<rparr>)
          else Inl (NoAudioFlow (lg_audioIndex leg) (lg_channelIndex leg))
      | AncLeg \<Rightarrow>
          Inr (ch\<lparr>ancMxlActive := enable, ancFlowId := (case flow of Some u \<Rightarrow> Some u | None \<Rightarrow> ancFlowId ch)\<rparr>))"

definition setReaderDomain :: "Leg \<Rightarrow> string \<Rightarrow> ChannelConfig \<Rightarrow> ChannelConfig" where
  "setReaderDomain leg path ch =
     (if lg_kind leg = VideoLeg then ch\<lparr>readerDomainPath := path\<rparr>
      else ch\<lparr>audioFlows := map (\<lambda>af. if af_index af = lg_audioIndex leg then af\<lparr>af_readerDomainPath := path\<rparr> else af) (audioFlows ch)\<rparr>)"

definition readerPath :: "DomainBinding option \<Rightarrow> string \<Rightarrow> string" where
  "readerPath domain primary =
     (case domain of Some d \<Rightarrow> if db_path d \<noteq> primary then db_path d else [] | None \<Rightarrow> [])"

definition activateChannel ::
  "(string \<Rightarrow> bool) \<Rightarrow> Leg \<Rightarrow> Activation \<Rightarrow> DomainBinding option \<Rightarrow> string \<Rightarrow> bool \<Rightarrow> ChannelConfig \<Rightarrow> RouteError + ChannelConfig" where
  "activateChannel isDirectory leg a domain primary requireDir ch =
     (if ac_masterEnable a \<and> domain = None then Inl (UnknownDomain (ac_domainId a))
      else if lg_sender leg \<and> (case domain of Some d \<Rightarrow> db_path d \<noteq> primary | None \<Rightarrow> False) then Inl (ForeignDomain primary)
      else
        case activationFlow a of
          None \<Rightarrow> Inl FlowNotUuid
        | Some flow \<Rightarrow>
            if ac_masterEnable a \<and> (case flow of None \<Rightarrow> True | Some u \<Rightarrow> isNil u) then Inl NeedsFlow
            else
              case setLeg leg (ac_masterEnable a) flow ch of
                Inl e \<Rightarrow> Inl e
              | Inr updated \<Rightarrow>
                  if \<not> lg_sender leg \<and> lg_kind leg \<noteq> AncLeg then
                    (case domain of
                       Some d \<Rightarrow>
                         if requireDir \<and> \<not> isDirectory (db_path d) then Inl (NoDirectory (db_path d))
                         else Inr (setReaderDomain leg (readerPath domain primary) updated)
                     | None \<Rightarrow> Inr (setReaderDomain leg (readerPath domain primary) updated))
                  else Inr updated)"

definition applyActivation ::
  "(string \<Rightarrow> bool) \<Rightarrow> ChannelConfig list \<Rightarrow> Leg list \<Rightarrow> Activation \<Rightarrow> DomainBinding list \<Rightarrow> string \<Rightarrow> bool \<Rightarrow>
   RouteError option \<times> ChannelConfig list" where
  "applyActivation isDirectory chs legs a domains primary requireDir =
     (case findLeg legs (ac_legId a) of
        None \<Rightarrow> (Some (NoLeg (ac_legId a)), chs)
      | Some leg \<Rightarrow>
          (case findChannel chs (lg_channelIndex leg) of
             None \<Rightarrow> (Some (NoChannel (lg_channelIndex leg)), chs)
           | Some ch \<Rightarrow>
               (case activateChannel isDirectory leg a (findDomain domains (ac_domainId a)) primary requireDir ch of
                  Inl e \<Rightarrow> (Some e, chs)
                | Inr updated \<Rightarrow> (None, updateFirst (\<lambda>c. ch_index c = lg_channelIndex leg) (\<lambda>_. updated) chs))))"

end
