(* ===== verification/RouteState.thy ===== *)
theory RouteState
  imports Routing Store
begin

text \<open>
  \<open>src/nmos/route_state.cpp\<close>: the saved IS-05 activations and their restoration at start-up.  The file is the
  \<open>FileState\<close> of the store's theory; \<open>parseJson\<close> and \<open>serialize\<close> are \<open>picojson\<close>'s, \<open>flowExists\<close> tells
  whether a domain directory holds a flow, \<open>isDirectory\<close> is the file system's.  Setting a broken file aside
  renames it; the write itself (temporary file, \<open>fsync\<close>, rename) succeeds or not, as \<open>written\<close> says.
\<close>

record SavedActivation =
  sa_legId :: string
  sa_sender :: bool
  sa_masterEnable :: bool
  sa_domainId :: string
  sa_domainPath :: string
  sa_flowId :: "string option"
  sa_peerId :: "string option"

record RouteState =
  rt_path :: string
  rt_entries :: "(string \<times> SavedActivation) list"

definition newRouteState :: "string \<Rightarrow> RouteState" where
  "newRouteState path = \<lparr>rt_path = path, rt_entries = []\<rparr>"

subsection \<open>The file\<close>

text \<open>\<open>parent_path()\<close> and \<open>operator/\<close> of a path.\<close>

definition parentPath :: "string \<Rightarrow> string" where
  "parentPath p =
     (let r = dropWhile (\<lambda>c. c \<noteq> CHR ''/'') (rev p); q = dropWhile (\<lambda>c. c = CHR ''/'') r
      in if r = [] then [] else if q = [] then ''/'' else rev q)"

definition joinPath :: "string \<Rightarrow> string \<Rightarrow> string" where
  "joinPath d n = (if d = [] \<or> last d = CHR ''/'' then d @ n else d @ ''/'' @ n)"

definition routeStatePath :: "Config \<Rightarrow> string" where
  "routeStatePath cfg =
     (let dir = (case configFile cfg of Some f \<Rightarrow> if f = [] then [] else parentPath f | None \<Rightarrow> []);
          dir = (if dir = [] then configDir cfg else dir)
      in joinPath (joinPath dir ''state'') ''connections.json'')"

definition optionalString :: "string option \<Rightarrow> json" where
  "optionalString s = (case s of Some v \<Rightarrow> JStr v | None \<Rightarrow> JNull)"

definition readOptionalString :: "(string \<times> json) list \<Rightarrow> string \<Rightarrow> string option" where
  "readOptionalString obj key = (case map_of obj key of Some (JStr s) \<Rightarrow> Some s | _ \<Rightarrow> None)"

definition readSaved :: "string \<Rightarrow> (string \<times> json) list \<Rightarrow> (string \<times> json) list \<Rightarrow> SavedActivation" where
  "readSaved lid e a =
     (let sender = (case readOptionalString e ''type'' of Some t \<Rightarrow> t = ''sender'' | None \<Rightarrow> False) in
      \<lparr>sa_legId = lid, sa_sender = sender,
       sa_masterEnable = (case map_of a ''master_enable'' of Some (JBool b) \<Rightarrow> b | _ \<Rightarrow> False),
       sa_domainId = (case readOptionalString a ''mxl_domain_id'' of Some s \<Rightarrow> s | None \<Rightarrow> []),
       sa_domainPath = (case readOptionalString a ''mxl_domain_path'' of Some s \<Rightarrow> s | None \<Rightarrow> []),
       sa_flowId = readOptionalString a ''mxl_flow_id'',
       sa_peerId = readOptionalString a (if sender then ''receiver_id'' else ''sender_id'')\<rparr>)"

text \<open>An entry that is not one of the program's is skipped.\<close>

definition readEntry :: "string \<Rightarrow> json \<Rightarrow> SavedActivation option" where
  "readEntry lid entry =
     (if parseUuid lid = None then None
      else
        case entry of
          JObj e \<Rightarrow> (case map_of e ''active'' of Some (JObj a) \<Rightarrow> Some (readSaved lid e a) | _ \<Rightarrow> None)
        | _ \<Rightarrow> None)"

fun readEntries :: "(string \<times> json) list \<Rightarrow> (string \<times> SavedActivation) list \<Rightarrow> (string \<times> SavedActivation) list" where
  "readEntries [] m = m"
| "readEntries ((lid, entry) # es) m =
     (case readEntry lid entry of
        None \<Rightarrow> readEntries es m
      | Some s \<Rightarrow> readEntries es (putKey lid s m))"

text \<open>The state after \<open>load\<close> and whether the file was set aside.\<close>

definition load :: "(string \<Rightarrow> json option) \<Rightarrow> FileState \<Rightarrow> RouteState \<Rightarrow> RouteState \<times> bool" where
  "load parseJson disk st =
     (let st = st\<lparr>rt_entries := []\<rparr> in
      case disk of
        Contents text \<Rightarrow>
          if text = [] then (st, True)
          else
            (case parseJson text of
               Some (JObj root) \<Rightarrow>
                 (case map_of root ''resources'' of
                    Some (JObj rs) \<Rightarrow> (st\<lparr>rt_entries := readEntries rs []\<rparr>, False)
                  | _ \<Rightarrow> (st, True))
             | _ \<Rightarrow> (st, True))
      | _ \<Rightarrow> (st, False))"

definition savedJson :: "SavedActivation \<Rightarrow> json" where
  "savedJson s =
     JObj [(''active'',
            JObj [(''master_enable'', JBool (sa_masterEnable s)), (''mxl_domain_id'', JStr (sa_domainId s)),
                  (''mxl_domain_path'', JStr (sa_domainPath s)), (''mxl_flow_id'', optionalString (sa_flowId s)),
                  (if sa_sender s then ''receiver_id'' else ''sender_id'', optionalString (sa_peerId s))]),
           (''type'', JStr (if sa_sender s then ''sender'' else ''receiver''))]"

definition stateJson :: "RouteState \<Rightarrow> json" where
  "stateJson st =
     JObj [(''resources'', JObj (map (\<lambda>(lid, s). (lid, savedJson s)) (rt_entries st))), (''version'', JNum (Some 1))]"

definition save :: "(json \<Rightarrow> string) \<Rightarrow> bool \<Rightarrow> SavedActivation \<Rightarrow> RouteState \<Rightarrow> FileState \<Rightarrow> bool \<times> RouteState \<times> FileState" where
  "save serialize written a st disk =
     (let st = st\<lparr>rt_entries := putKey (sa_legId a) a (rt_entries st)\<rparr> in
      if written then (True, st, Contents (serialize (stateJson st))) else (False, st, disk))"

definition allSaved :: "RouteState \<Rightarrow> SavedActivation list" where
  "allSaved st = map snd (rt_entries st)"

definition findSaved :: "RouteState \<Rightarrow> string \<Rightarrow> SavedActivation option" where
  "findSaved st lid = map_of (rt_entries st) lid"

subsection \<open>Restoration\<close>

datatype RestoreKind = Restored | Waiting | Disabled | Skipped

definition restoreKindName :: "RestoreKind \<Rightarrow> string" where
  "restoreKindName k = (case k of Restored \<Rightarrow> ''restored'' | Waiting \<Rightarrow> ''waiting'' | Disabled \<Rightarrow> ''disabled'' | Skipped \<Rightarrow> ''skipped'')"

record RestoreOutcome =
  ro_kind :: RestoreKind
  ro_active :: SavedActivation

text \<open>The flow id the configuration gives a sender: the last match of the loops over channels and flows.\<close>

definition channelFlow :: "Leg \<Rightarrow> ChannelConfig \<Rightarrow> string \<Rightarrow> string" where
  "channelFlow leg ch flow =
     (if ch_index ch \<noteq> lg_channelIndex leg then flow
      else
        case lg_kind leg of
          VideoLeg \<Rightarrow> toString (videoFlowId ch)
        | AncLeg \<Rightarrow> (case ancFlowId ch of Some u \<Rightarrow> toString u | None \<Rightarrow> flow)
        | AudioLeg \<Rightarrow> fold (\<lambda>af f. if af_index af = lg_audioIndex leg then toString (af_flowId af) else f) (audioFlows ch) flow)"

definition senderFlow :: "Leg \<Rightarrow> ChannelConfig list \<Rightarrow> string" where
  "senderFlow leg chs = fold (channelFlow leg) chs (lg_initialFlowId leg)"

text \<open>What is attempted for one saved activation: the activation, the domain bindings, the outcome so far, and the
  error that is known before the attempt.\<close>

definition restorePlan ::
  "(string \<Rightarrow> string \<Rightarrow> bool) \<Rightarrow> ChannelConfig list \<Rightarrow> Leg \<Rightarrow> DomainBinding list \<Rightarrow> string \<Rightarrow> string \<Rightarrow> SavedActivation \<Rightarrow>
   Activation \<times> DomainBinding list \<times> RestoreOutcome \<times> RouteError option" where
  "restorePlan flowExists chs leg domains primaryId primaryPath s =
     (if lg_sender leg then
        let flow = senderFlow leg chs in
        (\<lparr>ac_legId = sa_legId s, ac_masterEnable = sa_masterEnable s, ac_domainId = primaryId, ac_flowId = Some flow\<rparr>, domains,
         \<lparr>ro_kind = Restored, ro_active = s\<lparr>sa_domainId := primaryId, sa_domainPath := primaryPath, sa_flowId := Some flow\<rparr>\<rparr>, None)
      else
        let a = \<lparr>ac_legId = sa_legId s, ac_masterEnable = sa_masterEnable s, ac_domainId = sa_domainId s, ac_flowId = sa_flowId s\<rparr> in
        case findDomain domains (sa_domainId s) of
          None \<Rightarrow>
            if sa_masterEnable s then
              (if sa_domainPath s = [] then (a, domains, \<lparr>ro_kind = Restored, ro_active = s\<rparr>, Some (DomainLost (sa_domainId s)))
               else (a, domains @ [\<lparr>db_id = sa_domainId s, db_path = sa_domainPath s\<rparr>], \<lparr>ro_kind = Waiting, ro_active = s\<rparr>, None))
            else (a, domains, \<lparr>ro_kind = Restored, ro_active = s\<rparr>, None)
        | Some d \<Rightarrow>
            (a, domains,
             \<lparr>ro_kind = (if sa_masterEnable s \<and> (case sa_flowId s of Some f \<Rightarrow> \<not> flowExists (db_path d) f | None \<Rightarrow> False)
                         then Waiting else Restored),
              ro_active = s\<lparr>sa_domainPath := db_path d\<rparr>\<rparr>, None))"

text \<open>A rejected route comes up disabled, with the saved flow id if it is one.\<close>

definition flowIsUuid :: "Activation \<Rightarrow> bool" where
  "flowIsUuid a \<longleftrightarrow> (case ac_flowId a of Some f \<Rightarrow> parseUuid f \<noteq> None | None \<Rightarrow> True)"

definition restoreOne ::
  "(string \<Rightarrow> bool) \<Rightarrow> (string \<Rightarrow> string \<Rightarrow> bool) \<Rightarrow> Leg list \<Rightarrow> DomainBinding list \<Rightarrow> string \<Rightarrow> string \<Rightarrow>
   SavedActivation \<Rightarrow> ChannelConfig list \<Rightarrow> RestoreOutcome \<times> ChannelConfig list" where
  "restoreOne isDirectory flowExists legs domains primaryId primaryPath s chs =
     (case findLeg legs (sa_legId s) of
        None \<Rightarrow> (\<lparr>ro_kind = Skipped, ro_active = s\<rparr>, chs)
      | Some leg \<Rightarrow>
          if lg_sender leg \<noteq> sa_sender s then (\<lparr>ro_kind = Skipped, ro_active = s\<rparr>, chs)
          else
            (case restorePlan flowExists chs leg domains primaryId primaryPath s of
               (a, bindings, outcome, known) \<Rightarrow>
                 (case (case known of
                          Some e \<Rightarrow> (Some e, chs)
                        | None \<Rightarrow> applyActivation isDirectory chs legs a bindings primaryPath False) of
                    (None, chs') \<Rightarrow> (outcome, chs')
                  | (Some e, chs') \<Rightarrow>
                      (let off = a\<lparr>ac_masterEnable := False, ac_flowId := (if flowIsUuid a then ac_flowId a else None)\<rparr>;
                           shown = (ro_active outcome)\<lparr>sa_masterEnable := False,
                             sa_flowId := (if flowIsUuid a then sa_flowId (ro_active outcome) else None)\<rparr>
                       in (\<lparr>ro_kind = Disabled, ro_active = shown\<rparr>,
                           snd (applyActivation isDirectory chs' legs off bindings primaryPath False))))))"

fun restoreActivations ::
  "(string \<Rightarrow> bool) \<Rightarrow> (string \<Rightarrow> string \<Rightarrow> bool) \<Rightarrow> Leg list \<Rightarrow> DomainBinding list \<Rightarrow> string \<Rightarrow> string \<Rightarrow>
   SavedActivation list \<Rightarrow> ChannelConfig list \<Rightarrow> RestoreOutcome list \<times> ChannelConfig list" where
  "restoreActivations isDirectory flowExists legs domains pid pp [] chs = ([], chs)"
| "restoreActivations isDirectory flowExists legs domains pid pp (s # ss) chs =
     (let (out, chs1) = restoreOne isDirectory flowExists legs domains pid pp s chs;
          (outs, chs2) = restoreActivations isDirectory flowExists legs domains pid pp ss chs1
      in (out # outs, chs2))"

end
