(* ===== verification/RoutingProps.thy ===== *)
theory RoutingProps
  imports RouteState ConfigValid
begin

text \<open>
  IS-05 routing against an abstract view of it: a table from connection endpoints to routes.  One activation is
  one update of that table, and the restoration of saved activations leaves the table as the outcomes say.
\<close>

subsection \<open>The table of routes\<close>

record Route =
  route_enable :: bool
  route_flow :: "Uuid option"
  route_path :: string

type_synonym endpoint = "int \<times> LegKind \<times> int"

definition endpointOf :: "Leg \<Rightarrow> endpoint" where
  "endpointOf leg = (lg_channelIndex leg, lg_kind leg, if lg_kind leg = AudioLeg then lg_audioIndex leg else - 1)"

definition channelRoute :: "ChannelConfig \<Rightarrow> LegKind \<Rightarrow> int \<Rightarrow> Route option" where
  "channelRoute ch kind j =
     (case kind of
        VideoLeg \<Rightarrow> if j = - 1 then Some \<lparr>route_enable = videoMxlActive ch, route_flow = Some (videoFlowId ch), route_path = readerDomainPath ch\<rparr> else None
      | AncLeg \<Rightarrow> if j = - 1 then Some \<lparr>route_enable = ancMxlActive ch, route_flow = ancFlowId ch, route_path = []\<rparr> else None
      | AudioLeg \<Rightarrow> map_option (\<lambda>af. \<lparr>route_enable = af_mxlActive af, route_flow = Some (af_flowId af), route_path = af_readerDomainPath af\<rparr>)
          (find (\<lambda>af. af_index af = j) (audioFlows ch)))"

definition routes :: "ChannelConfig list \<Rightarrow> endpoint \<Rightarrow> Route option" where
  "routes chs ep = (case ep of (i, kind, j) \<Rightarrow> (case findChannel chs i of None \<Rightarrow> None | Some ch \<Rightarrow> channelRoute ch kind j))"

text \<open>Everything of a channel that is not a route.\<close>

definition fixedPart :: "ChannelConfig \<Rightarrow> ChannelConfig" where
  "fixedPart ch =
     ch\<lparr>videoMxlActive := False, videoFlowId := nilUuid, readerDomainPath := [], ancMxlActive := False, ancFlowId := None,
        audioFlows := map (\<lambda>af. af\<lparr>af_mxlActive := False, af_flowId := nilUuid, af_readerDomainPath := []\<rparr>) (audioFlows ch)\<rparr>"

text \<open>What an activation makes of the route of its leg.\<close>

definition newRoute :: "Leg \<Rightarrow> Activation \<Rightarrow> DomainBinding option \<Rightarrow> string \<Rightarrow> Route \<Rightarrow> Route" where
  "newRoute leg a domain primary old =
     \<lparr>route_enable = ac_masterEnable a,
      route_flow = (case ac_flowId a of Some f \<Rightarrow> parseUuid f | None \<Rightarrow> route_flow old),
      route_path = (if \<not> lg_sender leg \<and> lg_kind leg \<noteq> AncLeg then readerPath domain primary else route_path old)\<rparr>"

subsection \<open>Updating the first match\<close>

lemma find_updateFirst:
  "(\<And>x. P x \<Longrightarrow> P (f x)) \<Longrightarrow> find P (updateFirst P f xs) = map_option f (find P xs)"
  by (induction xs) auto

lemma find_updateFirst_other:
  "(\<And>x. P x \<Longrightarrow> \<not> Q x \<and> \<not> Q (f x)) \<Longrightarrow> find Q (updateFirst P f xs) = find Q xs"
  by (induction xs) auto

lemma map_updateFirst: "(\<And>x. P x \<Longrightarrow> g (f x) = g x) \<Longrightarrow> map g (updateFirst P f xs) = map g xs"
  by (induction xs) auto

lemma map_updateFirst_const:
  "find P xs = Some x \<Longrightarrow> g y = g x \<Longrightarrow> map g (updateFirst P (\<lambda>_. y) xs) = map g xs"
  by (induction xs) (auto split: if_splits)

lemma find_map_same: "(\<And>x. P (f x) = P x) \<Longrightarrow> find P (map f xs) = map_option f (find P xs)"
  by (induction xs) auto

lemma find_list_ex: "list_ex P xs \<longleftrightarrow> find P xs \<noteq> None"
  by (induction xs) auto

lemma findChannel_update:
  assumes "ch_index new = i"
  shows "findChannel (updateFirst (\<lambda>c. ch_index c = i) (\<lambda>_. new) chs) i' =
    (if i' = i then map_option (\<lambda>_. new) (findChannel chs i) else findChannel chs i')"
  using assms by (auto simp: findChannel_def find_updateFirst intro!: find_updateFirst_other)

lemma find_congD: "find P xs = Some x \<Longrightarrow> P x"
  by (induction xs) (auto split: if_splits)

subsection \<open>One channel\<close>

lemma map_setAudio:
  "map (\<lambda>af. af\<lparr>af_mxlActive := False, af_flowId := nilUuid, af_readerDomainPath := []\<rparr>) (updateFirst P (setAudioLeg enable flow) afs) =
   map (\<lambda>af. af\<lparr>af_mxlActive := False, af_flowId := nilUuid, af_readerDomainPath := []\<rparr>) afs"
  by (rule map_updateFirst) (simp add: setAudioLeg_def)

lemma setLeg_ok:
  assumes "setLeg leg enable flow ch = Inr ch'"
  shows "ch_index ch' = ch_index ch \<and> fixedPart ch' = fixedPart ch"
  using assms
  by (auto simp: setLeg_def fixedPart_def map_setAudio split: LegKind.splits if_splits)

lemma setReaderDomain_ok: "ch_index (setReaderDomain leg p ch) = ch_index ch \<and> fixedPart (setReaderDomain leg p ch) = fixedPart ch"
  by (auto simp: setReaderDomain_def fixedPart_def)

lemma find_setAudio:
  "find (\<lambda>af. af_index af = j) (updateFirst (\<lambda>af. af_index af = k) (setAudioLeg enable flow) afs) =
     (if j = k then map_option (setAudioLeg enable flow) (find (\<lambda>af. af_index af = j) afs) else find (\<lambda>af. af_index af = j) afs)"
  by (auto simp: setAudioLeg_def find_updateFirst intro!: find_updateFirst_other)

lemma find_setPath:
  "find (\<lambda>af. af_index af = j) (map (\<lambda>af. if af_index af = k then af\<lparr>af_readerDomainPath := p\<rparr> else af) afs) =
     (if j = k then map_option (\<lambda>af. af\<lparr>af_readerDomainPath := p\<rparr>) (find (\<lambda>af. af_index af = j) afs) else find (\<lambda>af. af_index af = j) afs)"
  by (induction afs) auto

lemma setLeg_route:
  assumes "setLeg leg enable flow ch = Inr ch'"
  shows "channelRoute ch' kind j =
    (if (lg_channelIndex leg, kind, j) = endpointOf leg
     then map_option (\<lambda>r. r\<lparr>route_enable := enable, route_flow := (case flow of Some u \<Rightarrow> Some u | None \<Rightarrow> route_flow r)\<rparr>) (channelRoute ch kind j)
     else channelRoute ch kind j)"
  using assms
  by (cases kind; cases "lg_kind leg"; cases flow)
    (auto simp: setLeg_def channelRoute_def endpointOf_def find_setAudio option.map_comp setAudioLeg_def comp_def
      split: if_splits)

lemma setReaderDomain_route:
  assumes "lg_kind leg \<noteq> AncLeg"
  shows "channelRoute (setReaderDomain leg p ch) kind j =
    (if (lg_channelIndex leg, kind, j) = endpointOf leg
     then map_option (\<lambda>r. r\<lparr>route_path := p\<rparr>) (channelRoute ch kind j) else channelRoute ch kind j)"
  using assms
  by (cases kind; cases "lg_kind leg")
    (auto simp: setReaderDomain_def channelRoute_def endpointOf_def find_setPath option.map_comp comp_def)

lemma setLeg_exists:
  assumes "setLeg leg enable flow ch = Inr ch'" "endpointOf leg = (i, kind, j)"
  shows "channelRoute ch kind j \<noteq> None"
  using assms
  by (cases "lg_kind leg") (auto simp: setLeg_def channelRoute_def endpointOf_def find_list_ex split: if_splits)


lemma activateChannel_ok:
  assumes "activateChannel isDirectory leg a domain primary requireDir ch = Inr ch'"
  shows "ch_index ch' = ch_index ch \<and> fixedPart ch' = fixedPart ch"
  using assms
  by (auto simp: activateChannel_def setReaderDomain_ok dest!: setLeg_ok split: if_splits option.splits sum.splits)

lemma newRoute_upd:
  "newRoute leg a domain primary r =
     r\<lparr>route_enable := ac_masterEnable a,
       route_flow := (case ac_flowId a of Some f \<Rightarrow> parseUuid f | None \<Rightarrow> route_flow r),
       route_path := (if \<not> lg_sender leg \<and> lg_kind leg \<noteq> AncLeg then readerPath domain primary else route_path r)\<rparr>"
  by (cases r) (simp add: newRoute_def split: option.split)

lemma activateChannel_route:
  assumes "activateChannel isDirectory leg a domain primary requireDir ch = Inr ch'"
  shows "channelRoute ch' kind j =
    (if (lg_channelIndex leg, kind, j) = endpointOf leg
     then map_option (newRoute leg a domain primary) (channelRoute ch kind j) else channelRoute ch kind j)"
proof -
  obtain flow up where f: "activationFlow a = Some flow" and up: "setLeg leg (ac_masterEnable a) flow ch = Inr up"
    and ch': "ch' = (if \<not> lg_sender leg \<and> lg_kind leg \<noteq> AncLeg then setReaderDomain leg (readerPath domain primary) up else up)"
    using assms by (auto simp: activateChannel_def split: if_splits option.splits sum.splits)
  have fl: "(case flow of Some u \<Rightarrow> Some u | None \<Rightarrow> r) = (case ac_flowId a of Some f \<Rightarrow> parseUuid f | None \<Rightarrow> r)" for r
    using f by (auto simp: activationFlow_def split: option.splits)
  show ?thesis
    using setLeg_route[OF up] setReaderDomain_route[of leg "readerPath domain primary" up]
    by (auto simp: ch' newRoute_upd fl option.map_comp comp_def intro!: option.map_cong)
qed

lemma activateChannel_exists:
  assumes "activateChannel isDirectory leg a domain primary requireDir ch = Inr ch'" "endpointOf leg = (i, kind, j)"
  shows "channelRoute ch kind j \<noteq> None"
  using assms setLeg_exists by (fastforce simp: activateChannel_def split: if_splits option.splits sum.splits)

subsection \<open>One activation\<close>

lemma routes_update:
  assumes "findChannel chs i = Some ch" "ch_index new = i"
  shows "routes (updateFirst (\<lambda>c. ch_index c = i) (\<lambda>_. new) chs) (i', kind, j) =
    (if i' = i then channelRoute new kind j else routes chs (i', kind, j))"
  using assms by (simp add: routes_def findChannel_update)

lemma applyActivation_cases:
  obtains (fail) e where "applyActivation isDirectory chs legs a domains primary requireDir = (Some e, chs)"
    | (applied) leg ch ch' where "findLeg legs (ac_legId a) = Some leg" "findChannel chs (lg_channelIndex leg) = Some ch"
      "activateChannel isDirectory leg a (findDomain domains (ac_domainId a)) primary requireDir ch = Inr ch'"
      "applyActivation isDirectory chs legs a domains primary requireDir =
         (None, updateFirst (\<lambda>c. ch_index c = lg_channelIndex leg) (\<lambda>_. ch') chs)"
proof (cases "findLeg legs (ac_legId a)")
  case (Some leg)
  show ?thesis
  proof (cases "findChannel chs (lg_channelIndex leg)")
    case ch: (Some ch)
    show ?thesis
    proof (cases "activateChannel isDirectory leg a (findDomain domains (ac_domainId a)) primary requireDir ch")
      case (Inl e)
      then show ?thesis using Some ch by (intro fail) (simp add: applyActivation_def)
    next
      case (Inr ch')
      then show ?thesis using Some ch by (intro applied) (simp_all add: applyActivation_def)
    qed
  qed (use Some in \<open>intro fail, simp add: applyActivation_def\<close>)
qed (intro fail, simp add: applyActivation_def)

text \<open>The refinement: what one activation does to the table.\<close>

lemma applyActivation_refines:
  "case applyActivation isDirectory chs legs a domains primary requireDir of
     (Some e, chs') \<Rightarrow> chs' = chs
   | (None, chs') \<Rightarrow> \<exists>leg old. findLeg legs (ac_legId a) = Some leg \<and> routes chs (endpointOf leg) = Some old \<and>
       routes chs' = (routes chs)(endpointOf leg \<mapsto> newRoute leg a (findDomain domains (ac_domainId a)) primary old) \<and>
       map fixedPart chs' = map fixedPart chs"
proof -
  consider (fail) e where "applyActivation isDirectory chs legs a domains primary requireDir = (Some e, chs)"
    | (applied) leg ch ch' where "findLeg legs (ac_legId a) = Some leg" "findChannel chs (lg_channelIndex leg) = Some ch"
      "activateChannel isDirectory leg a (findDomain domains (ac_domainId a)) primary requireDir ch = Inr ch'"
      "applyActivation isDirectory chs legs a domains primary requireDir =
         (None, updateFirst (\<lambda>c. ch_index c = lg_channelIndex leg) (\<lambda>_. ch') chs)"
    by (rule applyActivation_cases)
  then show ?thesis
  proof cases
    case applied
    note ok = activateChannel_ok[OF applied(3)]
    have i: "ch_index ch = lg_channelIndex leg" using applied(2) by (auto simp: findChannel_def dest: find_congD)
    obtain kind j where ep: "endpointOf leg = (lg_channelIndex leg, kind, j)" by (simp add: endpointOf_def)
    obtain old where old: "channelRoute ch kind j = Some old" using activateChannel_exists[OF applied(3) ep] by blast
    have r: "routes chs (endpointOf leg) = Some old" using old applied(2) by (simp add: ep routes_def)
    have "routes (updateFirst (\<lambda>c. ch_index c = lg_channelIndex leg) (\<lambda>_. ch') chs) q =
        ((routes chs)(endpointOf leg \<mapsto> newRoute leg a (findDomain domains (ac_domainId a)) primary old)) q" for q
      using activateChannel_route[OF applied(3)] applied(2) ok i old
      by (cases q) (auto simp: routes_update ep, auto simp: routes_def)
    moreover have "map fixedPart (updateFirst (\<lambda>c. ch_index c = lg_channelIndex leg) (\<lambda>_. ch') chs) = map fixedPart chs"
      using applied(2) ok by (intro map_updateFirst_const) (auto simp: findChannel_def)
    ultimately show ?thesis using applied(1) r by (auto simp: applied(4) fun_eq_iff)
  qed simp
qed

text \<open>C4. One IS-05 activation refines one update of the routing table: if it is refused the channels are unchanged;
  otherwise the route of the activated endpoint, and no other, takes the activation's master enable, its
  flow id when it gives one and (for video and audio receivers) its domain directory, and nothing else of
  any channel changes.\<close>

theorem activation_refines_table:
  "case applyActivation isDirectory chs legs a domains primary requireDir of
     (Some e, chs') \<Rightarrow> chs' = chs
   | (None, chs') \<Rightarrow> \<exists>leg old. findLeg legs (ac_legId a) = Some leg \<and> routes chs (endpointOf leg) = Some old \<and>
       routes chs' = (routes chs)(endpointOf leg \<mapsto> newRoute leg a (findDomain domains (ac_domainId a)) primary old) \<and>
       map fixedPart chs' = map fixedPart chs"
  by (rule applyActivation_refines)


subsection \<open>Restored activations\<close>

text \<open>Every leg has a route, and legs with one endpoint are one leg.\<close>

definition legs_ok :: "Leg list \<Rightarrow> ChannelConfig list \<Rightarrow> bool" where
  "legs_ok legs chs \<longleftrightarrow> (\<forall>l \<in> set legs. routes chs (endpointOf l) \<noteq> None) \<and>
     (\<forall>l \<in> set legs. \<forall>l' \<in> set legs. endpointOf l = endpointOf l' \<longrightarrow> lg_id l = lg_id l')"

definition primary_ok :: "DomainBinding list \<Rightarrow> string \<Rightarrow> string \<Rightarrow> bool" where
  "primary_ok domains pid pp \<longleftrightarrow> (case findDomain domains pid of Some d \<Rightarrow> db_path d = pp | None \<Rightarrow> True)"

text \<open>The table holds what an outcome shows.\<close>

definition shownRoute :: "Leg list \<Rightarrow> ChannelConfig list \<Rightarrow> RestoreOutcome \<Rightarrow> bool" where
  "shownRoute legs chs out \<longleftrightarrow>
     (ro_kind out = Skipped \<or>
      (case findLeg legs (sa_legId (ro_active out)) of
         None \<Rightarrow> False
       | Some leg \<Rightarrow>
           (case routes chs (endpointOf leg) of
              None \<Rightarrow> False
            | Some r \<Rightarrow> route_enable r = sa_masterEnable (ro_active out) \<and>
                (case sa_flowId (ro_active out) of Some f \<Rightarrow> route_flow r = parseUuid f | None \<Rightarrow> True))))"

definition frame :: "Leg list \<Rightarrow> string set \<Rightarrow> ChannelConfig list \<Rightarrow> ChannelConfig list \<Rightarrow> bool" where
  "frame legs ids chs chs' \<longleftrightarrow> (\<forall>l \<in> set legs. lg_id l \<notin> ids \<longrightarrow> routes chs' (endpointOf l) = routes chs (endpointOf l)) \<and>
     map fixedPart chs' = map fixedPart chs"

lemma findLeg_in: "findLeg legs lid = Some leg \<Longrightarrow> leg \<in> set legs \<and> lg_id leg = lid"
  by (auto simp: findLeg_def find_Some_iff)

lemma apply_effect:
  assumes "legs_ok legs chs" "applyActivation isDirectory chs legs a domains primary rd = (err, chs')"
  shows "legs_ok legs chs' \<and> frame legs {ac_legId a} chs chs' \<and>
    (err = None \<longrightarrow> (\<exists>leg r. findLeg legs (ac_legId a) = Some leg \<and> routes chs' (endpointOf leg) = Some r \<and>
       route_enable r = ac_masterEnable a \<and> (case ac_flowId a of Some f \<Rightarrow> route_flow r = parseUuid f | None \<Rightarrow> True)))"
proof (cases err)
  case None
  note ref = applyActivation_refines[where isDirectory = isDirectory and chs = chs and legs = legs and a = a and domains = domains
      and primary = primary and requireDir = rd, unfolded assms(2) None prod.case option.case]
  obtain leg old where l: "findLeg legs (ac_legId a) = Some leg" "routes chs (endpointOf leg) = Some old"
      "routes chs' = (routes chs)(endpointOf leg \<mapsto> newRoute leg a (findDomain domains (ac_domainId a)) primary old)"
      "map fixedPart chs' = map fixedPart chs"
    using ref by blast
  have "routes chs' (endpointOf l') = routes chs (endpointOf l')" if "l' \<in> set legs" "lg_id l' \<noteq> ac_legId a" for l'
  proof -
    have "endpointOf l' \<noteq> endpointOf leg"
      using assms(1) that findLeg_in[OF l(1)] unfolding legs_ok_def by metis
    then show ?thesis by (simp add: l(3))
  qed
  then have f: "frame legs {ac_legId a} chs chs'" using l(4) by (simp add: frame_def)
  have "\<forall>l' \<in> set legs. routes chs' (endpointOf l') \<noteq> None"
    using conjunct1[OF assms(1)[unfolded legs_ok_def]] by (simp add: l(3))
  then have ok: "legs_ok legs chs'" using conjunct2[OF assms(1)[unfolded legs_ok_def]] unfolding legs_ok_def by (rule conjI)
  define r where "r = newRoute leg a (findDomain domains (ac_domainId a)) primary old"
  have "route_enable r = ac_masterEnable a" "case ac_flowId a of Some f \<Rightarrow> route_flow r = parseUuid f | None \<Rightarrow> True"
    by (simp_all add: r_def newRoute_def split: option.split)
  moreover have "routes chs' (endpointOf leg) = Some r" by (simp add: l(3) r_def)
  ultimately show ?thesis using ok f l(1) by blast
next
  case (Some e)
  then show ?thesis using applyActivation_refines[where isDirectory = isDirectory and chs = chs and legs = legs and a = a and domains = domains
        and primary = primary and requireDir = rd] assms by (simp add: frame_def)
qed

lemma setLeg_succeeds:
  assumes "routes chs (endpointOf leg) \<noteq> None" "findChannel chs (lg_channelIndex leg) = Some ch"
  shows "\<exists>ch'. setLeg leg enable flow ch = Inr ch'"
  using assms
  by (cases "lg_kind leg") (auto simp: setLeg_def routes_def endpointOf_def channelRoute_def find_list_ex split: option.splits)

text \<open>Disabling a leg cannot fail.\<close>

lemma disable_succeeds:
  assumes "legs_ok legs chs" "findLeg legs (ac_legId a) = Some leg" "\<not> ac_masterEnable a" "flowIsUuid a"
    and "lg_sender leg \<Longrightarrow> primary_ok domains (ac_domainId a) primary"
  shows "fst (applyActivation isDirectory chs legs a domains primary False) = None"
proof -
  have r: "routes chs (endpointOf leg) \<noteq> None" using assms(1) findLeg_in[OF assms(2)] by (simp add: legs_ok_def)
  then obtain ch where ch: "findChannel chs (lg_channelIndex leg) = Some ch"
    by (auto simp: routes_def endpointOf_def split: option.splits)
  obtain flow where "activationFlow a = Some flow"
    using assms(4) by (auto simp: activationFlow_def flowIsUuid_def split: option.splits)
  then have "\<exists>ch'. activateChannel isDirectory leg a (findDomain domains (ac_domainId a)) primary False ch = Inr ch'"
    using assms(3,5) setLeg_succeeds[OF r ch, of False flow]
    by (auto simp: activateChannel_def primary_ok_def split: option.splits sum.splits)
  then show ?thesis using assms(2) ch by (auto simp: applyActivation_def)
qed


lemma plan_facts:
  assumes "restorePlan flowExists chs leg domains pid pp s = (a, bindings, out, known)"
  shows "ac_legId a = sa_legId s \<and> sa_legId (ro_active out) = sa_legId s \<and> ac_masterEnable a = sa_masterEnable (ro_active out) \<and>
    ac_flowId a = sa_flowId (ro_active out) \<and> (lg_sender leg \<longrightarrow> ac_domainId a = pid \<and> bindings = domains)"
  using assms by (auto simp: restorePlan_def Let_def split: if_splits option.splits)

lemma restoreOne_effect:
  assumes "legs_ok legs chs" "primary_ok domains pid pp"
    and "restoreOne isDirectory flowExists legs domains pid pp s chs = (out, chs')"
  shows "legs_ok legs chs' \<and> frame legs {sa_legId s} chs chs' \<and> shownRoute legs chs' out \<and> sa_legId (ro_active out) = sa_legId s"
proof (cases "\<exists>leg. findLeg legs (sa_legId s) = Some leg \<and> lg_sender leg = sa_sender s")
  case False
  then have "out = \<lparr>ro_kind = Skipped, ro_active = s\<rparr>" "chs' = chs"
    using assms(3) by (auto simp: restoreOne_def split: option.splits if_splits)
  then show ?thesis using assms(1) by (simp add: frame_def shownRoute_def)
next
  case True
  then obtain leg where leg: "findLeg legs (sa_legId s) = Some leg" "lg_sender leg = sa_sender s" by blast
  obtain a bindings out0 known where plan: "restorePlan flowExists chs leg domains pid pp s = (a, bindings, out0, known)"
    by (metis prod_cases4)
  note pf = plan_facts[OF plan]
  obtain err chs1 where at: "(case known of Some e \<Rightarrow> (Some e, chs) | None \<Rightarrow> applyActivation isDirectory chs legs a bindings pp False) = (err, chs1)"
    by (meson surj_pair)
  have e1: "legs_ok legs chs1 \<and> frame legs {sa_legId s} chs chs1"
  proof (cases known)
    case None
    then have "applyActivation isDirectory chs legs a bindings pp False = (err, chs1)" using at by simp
    from apply_effect[OF assms(1) this] show ?thesis using pf by simp
  next
    case (Some e)
    then show ?thesis using at assms(1) by (simp add: frame_def)
  qed
  show ?thesis
  proof (cases err)
    case None
    then have "applyActivation isDirectory chs legs a bindings pp False = (None, chs1)" using at by (cases known) auto
    moreover have "out = out0" "chs' = chs1"
      using assms(3) leg plan at None by (auto simp: restoreOne_def)
    ultimately show ?thesis
      using apply_effect[OF assms(1), of isDirectory a bindings pp False None chs1] pf e1
      by (auto simp: shownRoute_def)
  next
    case (Some e)
    define off where "off = a\<lparr>ac_masterEnable := False, ac_flowId := (if flowIsUuid a then ac_flowId a else None)\<rparr>"
    define shown where "shown = (ro_active out0)\<lparr>sa_masterEnable := False, sa_flowId := (if flowIsUuid a then sa_flowId (ro_active out0) else None)\<rparr>"
    have out: "out = \<lparr>ro_kind = Disabled, ro_active = shown\<rparr>" "chs' = snd (applyActivation isDirectory chs1 legs off bindings pp False)"
      using assms(3) leg plan at Some by (auto simp: restoreOne_def off_def shown_def Let_def)
    have offs: "ac_legId off = sa_legId s" "\<not> ac_masterEnable off" "flowIsUuid off"
      using pf by (auto simp: off_def flowIsUuid_def)
    have "fst (applyActivation isDirectory chs1 legs off bindings pp False) = None"
      using e1 leg(1) offs pf assms(2) by (intro disable_succeeds[of _ _ _ leg]) (auto simp: off_def)
    then have ap: "applyActivation isDirectory chs1 legs off bindings pp False = (None, chs')"
      by (simp add: out(2) prod_eq_iff)
    show ?thesis
      using apply_effect[OF conjunct1[OF e1] ap] e1 offs(1) pf
      by (auto simp: shownRoute_def out(1) shown_def off_def frame_def)
  qed
qed

lemma restore_effect:
  assumes "primary_ok domains pid pp"
  shows "legs_ok legs chs \<Longrightarrow> distinct (map sa_legId saved) \<Longrightarrow>
    restoreActivations isDirectory flowExists legs domains pid pp saved chs = (outs, chs') \<Longrightarrow>
    list_all (shownRoute legs chs') outs \<and> frame legs (set (map sa_legId saved)) chs chs' \<and>
    map (\<lambda>out. sa_legId (ro_active out)) outs = map sa_legId saved"
proof (induction saved arbitrary: chs outs)
  case (Cons s ss)
  obtain out chs1 where o: "restoreOne isDirectory flowExists legs domains pid pp s chs = (out, chs1)" by (meson surj_pair)
  obtain os where os: "restoreActivations isDirectory flowExists legs domains pid pp ss chs1 = (os, chs')" "outs = out # os"
    using Cons.prems(3) o by (auto split: prod.splits)
  note e = restoreOne_effect[OF Cons.prems(1) assms o]
  have ih: "list_all (shownRoute legs chs') os \<and> frame legs (set (map sa_legId ss)) chs1 chs' \<and>
      map (\<lambda>out. sa_legId (ro_active out)) os = map sa_legId ss"
    using Cons.IH[OF _ _ os(1)] e Cons.prems(2) by simp
  have "shownRoute legs chs' out"
  proof (cases "findLeg legs (sa_legId s)")
    case (Some leg)
    then have "routes chs' (endpointOf leg) = routes chs1 (endpointOf leg)"
      using ih findLeg_in[OF Some] Cons.prems(2) by (auto simp: frame_def)
    moreover have "sa_legId (ro_active out) = sa_legId s" "shownRoute legs chs1 out" using e by blast+
    ultimately show ?thesis using Some by (simp add: shownRoute_def)
  next
    case None
    have "sa_legId (ro_active out) = sa_legId s" "shownRoute legs chs1 out" using e by blast+
    then show ?thesis using None by (simp add: shownRoute_def)
  qed
  then show ?case using e ih os(2) by (auto simp: frame_def)
qed (simp add: frame_def)


subsection \<open>The legs of a configuration\<close>

definition legName :: "LegKind \<Rightarrow> int \<Rightarrow> string" where
  "legName kind j = (case kind of VideoLeg \<Rightarrow> ''video'' | AncLeg \<Rightarrow> ''anc'' | AudioLeg \<Rightarrow> ''audio'' @ int_to_string j)"

lemma legOf_form:
  assumes "suffix = legName kind j" "kind \<noteq> AudioLeg \<Longrightarrow> j = - 1"
  shows "endpointOf (legOf cfg pid ch kind j suffix flow) = (ch_index ch, kind, j)"
    and "lg_id (legOf cfg pid ch kind j suffix flow) =
      idNamed cfg pid ((if direction ch = Input then ''sender'' else ''receiver'') @ ''/ch'' @ int_to_string (ch_index ch) @ ''/'' @ legName kind j)"
  using assms by (auto simp: legOf_def endpointOf_def Let_def)

lemma channelLegs_form:
  assumes "leg \<in> set (channelLegs cfg pid ch)"
  shows "\<exists>kind j. endpointOf leg = (ch_index ch, kind, j) \<and> channelRoute ch kind j \<noteq> None \<and>
    lg_id leg = idNamed cfg pid ((if direction ch = Input then ''sender'' else ''receiver'') @ ''/ch'' @ int_to_string (ch_index ch) @ ''/'' @ legName kind j)"
proof -
  consider (video) "leg = legOf cfg pid ch VideoLeg (- 1) ''video'' (videoFlowId ch)"
    | (audio) af where "af \<in> set (audioFlows ch)"
      "leg = legOf cfg pid ch AudioLeg (af_index af) (''audio'' @ int_to_string (af_index af)) (af_flowId af)"
    | (anc) u where "leg = legOf cfg pid ch AncLeg (- 1) ''anc'' u"
  proof -
    have "leg = legOf cfg pid ch VideoLeg (- 1) ''video'' (videoFlowId ch) \<or>
        (\<exists>af \<in> set (audioFlows ch). leg = legOf cfg pid ch AudioLeg (af_index af) (''audio'' @ int_to_string (af_index af)) (af_flowId af)) \<or>
        (\<exists>u. leg = legOf cfg pid ch AncLeg (- 1) ''anc'' u)"
      using assms unfolding channelLegs_def
      by (cases "audioEnable ch"; cases "ancEnable ch"; cases "ancFlowId ch"; simp add: image_iff; blast)
    then show ?thesis using that by blast
  qed
  then show ?thesis
  proof cases
    case video
    show ?thesis unfolding video
      by (intro exI[of _ VideoLeg] exI[of _ "- 1"] conjI legOf_form) (simp_all add: legName_def channelRoute_def)
  next
    case (audio af)
    have "channelRoute ch AudioLeg (af_index af) \<noteq> None" using audio(1) by (auto simp: channelRoute_def find_None_iff)
    then show ?thesis unfolding audio(2)
      by (intro exI[of _ AudioLeg] exI[of _ "af_index af"] conjI legOf_form) (simp_all add: legName_def)
  next
    case (anc u)
    show ?thesis unfolding anc
      by (intro exI[of _ AncLeg] exI[of _ "- 1"] conjI legOf_form) (simp_all add: legName_def channelRoute_def)
  qed
qed

lemma findChannel_distinct: "distinct (map ch_index chs) \<Longrightarrow> ch \<in> set chs \<Longrightarrow> findChannel chs (ch_index ch) = Some ch"
  by (induction chs) (auto simp: findChannel_def)

lemma enumerateLegs_ok:
  assumes "distinct (map ch_index (channels cfg))"
  shows "legs_ok (enumerateLegs cfg pid) (channels cfg)"
  unfolding legs_ok_def
proof (intro conjI ballI impI)
  fix l assume "l \<in> set (enumerateLegs cfg pid)"
  then obtain ch where ch: "ch \<in> set (channels cfg)" "l \<in> set (channelLegs cfg pid ch)" by (auto simp: enumerateLegs_def)
  then obtain kind j where f: "endpointOf l = (ch_index ch, kind, j)" "channelRoute ch kind j \<noteq> None"
    "lg_id l = idNamed cfg pid ((if direction ch = Input then ''sender'' else ''receiver'') @ ''/ch'' @ int_to_string (ch_index ch) @ ''/'' @ legName kind j)"
    using channelLegs_form by blast
  show "routes (channels cfg) (endpointOf l) \<noteq> None"
    using findChannel_distinct[OF assms ch(1)] f(2) by (simp add: routes_def f(1))
  fix l' assume "l' \<in> set (enumerateLegs cfg pid)" and eq: "endpointOf l = endpointOf l'"
  then obtain ch' where ch': "ch' \<in> set (channels cfg)" "l' \<in> set (channelLegs cfg pid ch')" by (auto simp: enumerateLegs_def)
  then obtain kind' j' where f': "endpointOf l' = (ch_index ch', kind', j')"
    "lg_id l' = idNamed cfg pid ((if direction ch' = Input then ''sender'' else ''receiver'') @ ''/ch'' @ int_to_string (ch_index ch') @ ''/'' @ legName kind' j')"
    using channelLegs_form by blast
  have "ch' = ch" using assms ch(1) ch'(1) eq f(1) f'(1) by (auto simp: distinct_map inj_on_def)
  then show "lg_id l = lg_id l'" using eq f f' by simp
qed

text \<open>Restoring the saved IS-05 activations over a configuration the loader accepted makes true what the outcomes
  report: for every activation that was not skipped, the route of its sender or receiver has the master
  enable and the flow id shown as active, even when the saved route was refused; nothing but
  routes changes.\<close>

theorem restore_truthful:
  assumes "loadConfig parseJson isIpLiteral env = Inr cfg" and "distinct (map sa_legId saved)" and "primary_ok domains pid pp"
    and "restoreActivations isDirectory flowExists (enumerateLegs cfg persistent) domains pid pp saved (channels cfg) = (outs, chs')"
  shows "list_all (shownRoute (enumerateLegs cfg persistent) chs') outs \<and>
    map (\<lambda>out. sa_legId (ro_active out)) outs = map sa_legId saved \<and> map fixedPart chs' = map fixedPart (channels cfg)"
proof -
  have "distinct (map ch_index (channels cfg))"
    using loadConfig_ok[OF assms(1)] by (simp add: channels_ok_def strict_sorted_iff)
  then show ?thesis using restore_effect[OF assms(3) enumerateLegs_ok assms(2,4)] by (simp add: frame_def)
qed

subsection \<open>Saved activations\<close>

lemma set_putKey: "e \<in> set (putKey k v m) \<Longrightarrow> e = (k, v) \<or> e \<in> set m"
  by (induction k v m rule: putKey.induct) (auto split: if_splits)

definition saved_ok :: "RouteState \<Rightarrow> bool" where
  "saved_ok st \<longleftrightarrow> ordered (rt_entries st) \<and> list_all (\<lambda>(lid, s). sa_legId s = lid \<and> parseUuid lid \<noteq> None) (rt_entries st)"

lemma readOptional [simp]: "readOptionalString ((k, optionalString v) # obj) k' = (if k' = k then v else readOptionalString obj k')"
  by (simp add: readOptionalString_def optionalString_def split: option.splits)

lemma readEntry_saved: "parseUuid (sa_legId s) \<noteq> None \<Longrightarrow> readEntry (sa_legId s) (savedJson s) = Some s"
  by (cases s) (simp add: readEntry_def savedJson_def readSaved_def readOptionalString_def optionalString_def split: option.splits)

lemma readEntries_saved:
  "list_all (\<lambda>(lid, s). sa_legId s = lid \<and> parseUuid lid \<noteq> None) l \<Longrightarrow>
   readEntries (map (\<lambda>(lid, s). (lid, savedJson s)) l) m = fold std.change (map (\<lambda>(k, v). (k, Some v)) l) m"
proof (induction l arbitrary: m)
  case (Cons e l)
  obtain lid s where e: "e = (lid, s)" by (cases e)
  then have "sa_legId s = lid" "parseUuid lid \<noteq> None" using Cons.prems by auto
  then have "readEntry lid (savedJson s) = Some s" using readEntry_saved by blast
  then show ?case using Cons by (simp add: e std.change_def)
qed simp


text \<open>The saved activations survive a restart: when an activation has been saved, loading the file that was written
  restores all of them, given that the serialiser's output is read back.\<close>

theorem save_load_roundtrip:
  assumes "saved_ok st" and "parseUuid (sa_legId a) \<noteq> None" and "save serialize True a st disk = (True, st', disk')"
    and "serialize (stateJson st') \<noteq> []" and "parseJson (serialize (stateJson st')) = Some (stateJson st')"
  shows "load parseJson disk' (newRouteState (rt_path st)) = (st', False) \<and> saved_ok st' \<and>
    findSaved st' = (findSaved st)(sa_legId a \<mapsto> a)"
proof -
  have st': "st' = st\<lparr>rt_entries := putKey (sa_legId a) a (rt_entries st)\<rparr>" "disk' = Contents (serialize (stateJson st'))"
    using assms(3) by (auto simp: save_def Let_def)
  have ok: "saved_ok st'"
    using assms(1,2) by (auto simp: saved_ok_def st'(1) list_all_iff dest: set_putKey)
  then have "readEntries (map (\<lambda>(lid, s). (lid, savedJson s)) (rt_entries st')) [] = rt_entries st'"
    using change_all[of "rt_entries st'" "[]"] by (simp add: readEntries_saved saved_ok_def)
  then have "load parseJson disk' (newRouteState (rt_path st)) = (st', False)"
    using assms(4,5) by (simp add: load_def st'(2) stateJson_def Let_def newRouteState_def) (simp add: st'(1))
  moreover have "findSaved st' = (findSaved st)(sa_legId a \<mapsto> a)" by (simp add: findSaved_def fun_eq_iff st'(1))
  ultimately show ?thesis using ok by simp
qed


subsection \<open>Concrete activations\<close>

definition demoActivation :: "string \<Rightarrow> SavedActivation" where
  "demoActivation lid =
     \<lparr>sa_legId = lid, sa_sender = True, sa_masterEnable = False, sa_domainId = ''d'', sa_domainPath = ''/d'', sa_flowId = None,
      sa_peerId = None\<rparr>"

definition demoDomains :: "DomainBinding list" where
  "demoDomains = [\<lparr>db_id = ''d'', db_path = ''/d''\<rparr>]"

definition demoRestore :: "Config \<Rightarrow> RestoreOutcome list \<times> ChannelConfig list" where
  "demoRestore cfg =
     restoreActivations (\<lambda>_. True) (\<lambda>_ _. True) (enumerateLegs cfg 7) demoDomains ''d'' ''/d''
       (map (\<lambda>l. demoActivation (lg_id l)) (take 1 (enumerateLegs cfg 7))) (channels cfg)"

lemma demoVars_input:
  "case loadConfig (\<lambda>_. None) (\<lambda>_. False) demoVars of Inl e \<Rightarrow> False
   | Inr cfg \<Rightarrow> (case channels cfg of [] \<Rightarrow> False | ch # chs \<Rightarrow> direction ch = Input)"
  by code_simp

lemma plan_not_skipped: "restorePlan flowExists chs leg domains pid pp s = (a, bindings, out, known) \<Longrightarrow> ro_kind out \<noteq> Skipped"
  by (auto simp: restorePlan_def Let_def split: if_splits option.splits)

lemma restoreOne_not_skipped:
  assumes "findLeg legs (sa_legId s) = Some leg" "lg_sender leg = sa_sender s"
  shows "ro_kind (fst (restoreOne isDirectory flowExists legs domains pid pp s chs)) \<noteq> Skipped"
proof -
  obtain a bindings out known where plan: "restorePlan flowExists chs leg domains pid pp s = (a, bindings, out, known)"
    by (metis prod_cases4)
  then show ?thesis using plan_not_skipped[OF plan] assms by (simp add: restoreOne_def Let_def split: prod.splits option.splits)
qed

text \<open>The first leg of a configuration whose first channel is an input is a sender.\<close>

lemma demoRestore_kinds:
  assumes "channels cfg = ch # chs" "direction ch = Input"
  shows "list_all (\<lambda>out. ro_kind out \<noteq> Skipped) (fst (demoRestore cfg)) \<and> length (fst (demoRestore cfg)) = 1"
proof -
  define leg where "leg = legOf cfg 7 ch VideoLeg (- 1) ''video'' (videoFlowId ch)"
  obtain rest where legs: "enumerateLegs cfg 7 = leg # rest"
    using assms(1) by (simp add: enumerateLegs_def channelLegs_def leg_def)
  have "findLeg (leg # rest) (lg_id leg) = Some leg" "lg_sender leg"
    using assms(2) by (simp_all add: findLeg_def leg_def legOf_def Let_def)
  then show ?thesis
    using restoreOne_not_skipped[of "leg # rest" "demoActivation (lg_id leg)" leg "\<lambda>_. True" "\<lambda>_ _. True" demoDomains "''d''" "''/d''" "channels cfg"]
    by (simp add: demoRestore_def legs demoActivation_def case_prod_beta)
qed

theorem restore_truthful_witness:
  "\<exists>cfg. loadConfig (\<lambda>_. None) (\<lambda>_. False) demoVars = Inr cfg \<and> length (fst (demoRestore cfg)) = 1 \<and>
    list_all (\<lambda>out. ro_kind out \<noteq> Skipped) (fst (demoRestore cfg)) \<and>
    list_all (shownRoute (enumerateLegs cfg 7) (snd (demoRestore cfg))) (fst (demoRestore cfg))"
proof -
  obtain cfg ch chs where cfg: "loadConfig (\<lambda>_. None) (\<lambda>_. False) demoVars = Inr cfg" "channels cfg = ch # chs" "direction ch = Input"
    using demoVars_input by (auto split: sum.splits list.splits)
  have "distinct (map sa_legId (map (\<lambda>l. demoActivation (lg_id l)) (take 1 (enumerateLegs cfg 7))))"
    by (cases "enumerateLegs cfg 7") simp_all
  moreover have "primary_ok demoDomains ''d'' ''/d''" by (simp add: primary_ok_def findDomain_def demoDomains_def)
  ultimately have "list_all (shownRoute (enumerateLegs cfg 7) (snd (demoRestore cfg))) (fst (demoRestore cfg))"
    using restore_truthful[OF cfg(1)] unfolding demoRestore_def by (metis prod.collapse)
  then show ?thesis using cfg(1) demoRestore_kinds[OF cfg(2,3)] by blast
qed

definition demoSave :: "bool \<times> RouteState \<times> FileState" where
  "demoSave = save (\<lambda>_. ''x'') True (demoActivation ''00000000-0000-4000-8000-000000000001'') (newRouteState ''/c'') Absent"

theorem save_load_roundtrip_witness:
  "load (\<lambda>_. Some (stateJson (fst (snd demoSave)))) (snd (snd demoSave)) (newRouteState ''/c'') = (fst (snd demoSave), False) \<and>
   findSaved (fst (snd demoSave)) ''00000000-0000-4000-8000-000000000001'' \<noteq> None"
proof -
  have a: "parseUuid (sa_legId (demoActivation ''00000000-0000-4000-8000-000000000001'')) \<noteq> None" by code_simp
  have s: "save (\<lambda>_. ''x'') True (demoActivation ''00000000-0000-4000-8000-000000000001'') (newRouteState ''/c'') Absent =
      (True, fst (snd demoSave), snd (snd demoSave))" by (simp add: demoSave_def save_def Let_def)
  have "saved_ok (newRouteState ''/c'')" by (simp add: saved_ok_def newRouteState_def)
  from save_load_roundtrip[OF this a s, of "\<lambda>_. Some (stateJson (fst (snd demoSave)))"] show ?thesis
    by (simp add: newRouteState_def) (simp add: demoActivation_def)
qed

end
