(* ===== verification/ChannelManager.thy ===== *)
theory ChannelManager
  imports Config ChannelState OrdMap
begin

text \<open>
  \<open>src/channel/channel_manager.cpp\<close>: the set of channels of the card and its runtime reconfiguration.  An
  entry holds its configuration and, while it runs, the configuration its input or output channel was
  constructed with (the \<open>unique_ptr\<close> members).  The card is a record of what \<open>dl::ICard\<close> reports.  The
  starts and stops are recorded in order, so that what a sub-device sees can be stated.
\<close>

record SubDevice =
  supportsCapture :: bool
  supportsPlayback :: bool
  supportsInputFormatDetection :: bool

text \<open>The sub-devices of the card, in order.\<close>

type_synonym Card = "SubDevice list"

record Entry =
  en_cfg :: ChannelConfig
  en_input :: "ChannelConfig option"
  en_output :: "ChannelConfig option"

datatype Event = Started ChannelConfig | Stopped ChannelConfig

record ChannelManager =
  cm_card :: Card
  cm_entries :: "(int \<times> Entry) list"
  cm_started :: bool
  cm_events :: "Event list"

datatype CardError = NoSubDevice int int | NoCapture int | NoPlayback int | NoDetection int

record ApplyResult =
  ar_added :: "int list"
  ar_restarted :: "int list"
  ar_removed :: "int list"

definition newEntry :: "ChannelConfig \<Rightarrow> Entry" where
  "newEntry ch = \<lparr>en_cfg = ch, en_input = None, en_output = None\<rparr>"

text \<open>\<open>emplace\<close> keeps an existing entry.\<close>

definition emplace :: "int \<Rightarrow> Entry \<Rightarrow> (int \<times> Entry) list \<Rightarrow> (int \<times> Entry) list" where
  "emplace i e es = (if map_of es i = None then putKey i e es else es)"

definition newChannelManager :: "Config \<Rightarrow> Card \<Rightarrow> ChannelManager" where
  "newChannelManager cfg c =
     \<lparr>cm_card = c, cm_entries = fold (\<lambda>ch. emplace (ch_index ch) (newEntry ch)) (channels cfg) [],
      cm_started = False, cm_events = []\<rparr>"

subsection \<open>Starting and stopping\<close>

definition startEntry :: "Entry \<Rightarrow> Entry \<times> Event list" where
  "startEntry e =
     (if direction (en_cfg e) = Input
      then (e\<lparr>en_input := Some (en_cfg e)\<rparr>, [Started (en_cfg e)])
      else (e\<lparr>en_output := Some (en_cfg e)\<rparr>, [Started (en_cfg e)]))"

definition stopEvents :: "ChannelConfig option \<Rightarrow> Event list" where
  "stopEvents c = (case c of Some ch \<Rightarrow> [Stopped ch] | None \<Rightarrow> [])"

definition stopEntry :: "Entry \<Rightarrow> Entry \<times> Event list" where
  "stopEntry e = (e\<lparr>en_input := None, en_output := None\<rparr>, stopEvents (en_input e) @ stopEvents (en_output e))"

text \<open>A pass over the entries in the order of their indices, with its events.\<close>

fun eachEntry :: "(Entry \<Rightarrow> Entry \<times> Event list) \<Rightarrow> (int \<times> Entry) list \<Rightarrow> (int \<times> Entry) list \<times> Event list" where
  "eachEntry f [] = ([], [])"
| "eachEntry f ((i, e) # es) =
     (case f e of (e', ev) \<Rightarrow> (case eachEntry f es of (es', evs) \<Rightarrow> ((i, e') # es', ev @ evs)))"

definition startAll :: "ChannelManager \<Rightarrow> ChannelManager" where
  "startAll m =
     (case eachEntry (\<lambda>e. if en_input e = None \<and> en_output e = None then startEntry e else (e, [])) (cm_entries m) of
        (es, ev) \<Rightarrow> m\<lparr>cm_entries := es, cm_started := True, cm_events := cm_events m @ ev\<rparr>)"

definition stopAll :: "ChannelManager \<Rightarrow> ChannelManager" where
  "stopAll m =
     (case eachEntry stopEntry (cm_entries m) of
        (es, ev) \<Rightarrow> m\<lparr>cm_entries := es, cm_started := False, cm_events := cm_events m @ ev\<rparr>)"

subsection \<open>Reconfiguration\<close>

text \<open>A negative index is a huge \<open>std::size_t\<close>.\<close>

definition validateAgainstCard :: "Card \<Rightarrow> ChannelConfig \<Rightarrow> CardError option" where
  "validateAgainstCard c ch =
     (if subdeviceIndex ch < 0 \<or> int (length c) \<le> subdeviceIndex ch then Some (NoSubDevice (ch_index ch) (subdeviceIndex ch))
      else
        let sub = c ! nat (subdeviceIndex ch) in
        if direction ch = Input \<and> \<not> supportsCapture sub then Some (NoCapture (ch_index ch))
        else if direction ch = Output \<and> \<not> supportsPlayback sub then Some (NoPlayback (ch_index ch))
        else if isAutoMode ch \<and> \<not> supportsInputFormatDetection sub then Some (NoDetection (ch_index ch))
        else None)"

fun validateAll :: "Card \<Rightarrow> ChannelConfig list \<Rightarrow> CardError option" where
  "validateAll c [] = None"
| "validateAll c (ch # chs) = (case validateAgainstCard c ch of Some e \<Rightarrow> Some e | None \<Rightarrow> validateAll c chs)"

type_synonym applyState = "(int \<times> Entry) list \<times> ApplyResult \<times> Event list"

text \<open>The removal loop.\<close>

fun removeAbsent :: "ChannelConfig list \<Rightarrow> (int \<times> Entry) list \<Rightarrow> (int \<times> Entry) list \<times> int list \<times> Event list" where
  "removeAbsent chs [] = ([], [], [])"
| "removeAbsent chs ((i, e) # es) =
     (case removeAbsent chs es of
        (kept, removed, ev) \<Rightarrow>
          if list_ex (\<lambda>ch. ch_index ch = i) chs then ((i, e) # kept, removed, ev)
          else (kept, i # removed, snd (stopEntry e) @ ev))"

definition startIf :: "bool \<Rightarrow> Entry \<Rightarrow> Entry \<times> Event list" where
  "startIf started e = (if started then startEntry e else (e, []))"

definition applyOne :: "bool \<Rightarrow> ChannelConfig \<Rightarrow> applyState \<Rightarrow> applyState" where
  "applyOne started ch s =
     (case s of (es, r, ev) \<Rightarrow>
        (case map_of es (ch_index ch) of
           None \<Rightarrow>
             (case startIf started (newEntry ch) of
                (e, ev1) \<Rightarrow> (putKey (ch_index ch) e es, r\<lparr>ar_added := ar_added r @ [ch_index ch]\<rparr>, ev @ ev1))
         | Some e \<Rightarrow>
             if en_cfg e \<noteq> ch then
               (case stopEntry e of
                  (e1, ev1) \<Rightarrow>
                    (case startIf started (e1\<lparr>en_cfg := ch\<rparr>) of
                       (e2, ev2) \<Rightarrow>
                         (putKey (ch_index ch) e2 es, r\<lparr>ar_restarted := ar_restarted r @ [ch_index ch]\<rparr>, ev @ ev1 @ ev2)))
             else s))"

definition applyChannels :: "ChannelConfig list \<Rightarrow> ChannelManager \<Rightarrow> (CardError + ApplyResult) \<times> ChannelManager" where
  "applyChannels chs m =
     (case validateAll (cm_card m) chs of
        Some e \<Rightarrow> (Inl e, m)
      | None \<Rightarrow>
          (case removeAbsent chs (cm_entries m) of
             (kept, removed, ev0) \<Rightarrow>
               (case fold (applyOne (cm_started m)) chs
                       (kept, \<lparr>ar_added = [], ar_restarted = [], ar_removed = removed\<rparr>, cm_events m @ ev0) of
                  (es, r, ev) \<Rightarrow> (Inr r, m\<lparr>cm_entries := es, cm_events := ev\<rparr>))))"

definition channelConfigs :: "ChannelManager \<Rightarrow> ChannelConfig list" where
  "channelConfigs m = map (\<lambda>(_, e). en_cfg e) (cm_entries m)"

subsection \<open>Views\<close>

record ChannelView =
  cv_cfg :: ChannelConfig
  cv_status :: Status

text \<open>\<open>status\<close> is the status of a running channel; a stopped one shows the initial values.\<close>

definition channelView :: "(ChannelConfig \<Rightarrow> Status) \<Rightarrow> Entry \<Rightarrow> ChannelView" where
  "channelView status e =
     \<lparr>cv_cfg = en_cfg e,
      cv_status = (case en_input e of
           Some c \<Rightarrow> status c
         | None \<Rightarrow> (case en_output e of Some c \<Rightarrow> status c | None \<Rightarrow> newStatus))\<rparr>"

definition channelViews :: "(ChannelConfig \<Rightarrow> Status) \<Rightarrow> ChannelManager \<Rightarrow> ChannelView list" where
  "channelViews status m = map (\<lambda>(_, e). channelView status e) (cm_entries m)"

definition healthyCount :: "(ChannelConfig \<Rightarrow> Status) \<Rightarrow> ChannelManager \<Rightarrow> nat" where
  "healthyCount status m = length (filter (\<lambda>v. st_state (cv_status v) = Healthy) (channelViews status m))"

definition totalCount :: "ChannelManager \<Rightarrow> nat" where
  "totalCount m = length (cm_entries m)"

end
