(* ===== verification/HttpServer.thy ===== *)
theory HttpServer
  imports ConfigParse
begin

text \<open>
  \<open>src/ops/httpserver.hpp\<close> and \<open>httpserver.cpp\<close>: the HTTP server of the web interface and the health
  endpoints.

  A connection is the list of the chunks that \<open>recv\<close> returns (a result of zero or less ends it) and the list
  of the results of \<open>send\<close>.  The handler is a function on the state of the program.  The socket calls of
  \<open>start\<close> answer through parameters; the descriptors that are open are part of the state.
\<close>

subsection \<open>Strings\<close>

text \<open>\<open>std::string::find\<close> from the start.\<close>

fun find_str :: "string \<Rightarrow> string \<Rightarrow> nat option" where
  "find_str [] pat = (if pat = [] then Some 0 else None)"
| "find_str (c # s) pat = (if starts_with (c # s) pat then Some 0 else map_option Suc (find_str s pat))"

definition crlf :: string where "crlf = [CHR 0x0D, CHR 0x0A]"

text \<open>\<open>tolower\<close> in the C locale.\<close>

definition toLower :: "char \<Rightarrow> char" where
  "toLower c = (let n = of_char c :: nat in if 65 \<le> n \<and> n \<le> 90 then char_of (n + 32) else c)"

text \<open>\<open>strtoul\<close> with base 10: zero without a number, the largest value on overflow, and a negative number
  wraps around.\<close>

definition strtoul :: "string \<Rightarrow> nat" where
  "strtoul s = (case strtol s of
     None \<Rightarrow> 0
   | Some (v, n) \<Rightarrow> if \<bar>v\<bar> < 2 ^ 64 then nat (v mod 2 ^ 64) else 2 ^ 64 - 1)"

text \<open>\<open>strtol\<close> with base 16.\<close>

definition isHexDigit :: "char \<Rightarrow> bool" where
  "isHexDigit c \<longleftrightarrow> hexDigitValue c \<noteq> None"

definition strtol16 :: "string \<Rightarrow> int" where
  "strtol16 s =
     (let r = dropWhile isSpace s;
          signed = (case r of [] \<Rightarrow> False | c # _ \<Rightarrow> c = CHR ''-'' \<or> c = CHR ''+'');
          neg = (signed \<and> hd r = CHR ''-'');
          r = (if signed then tl r else r);
          r = (if (starts_with r ''0x'' \<or> starts_with r ''0X'') \<and> 2 < length r \<and> isHexDigit (r ! 2) then drop 2 r else r);
          v = foldl (\<lambda>n c. n * 16 + int (the (hexDigitValue c))) 0 (takeWhile isHexDigit r)
      in if neg then - v else v)"

subsection \<open>Requests and responses\<close>

record HttpResponse =
  hr_status :: int
  hr_contentType :: string
  hr_body :: string

definition plainText :: "int \<Rightarrow> string \<Rightarrow> HttpResponse" where
  "plainText status text =
     \<lparr>hr_status = status, hr_contentType = ''text/plain; charset=utf-8'', hr_body = text @ [CHR 0x0A]\<rparr>"

record HttpRequest =
  rq_method :: string
  rq_path :: string
  rq_query :: string
  rq_body :: string

function percentDecode :: "string \<Rightarrow> string" where
  "percentDecode [] = []"
| "percentDecode (c # s) =
     (if c = CHR ''+'' then CHR '' '' # percentDecode s
      else if c = CHR ''%'' \<and> 2 \<le> length s
      then char_of (nat (strtol16 (take 2 s) mod 256)) # percentDecode (drop 2 s)
      else c # percentDecode s)"
  by pat_completeness auto
termination by (relation "measure length") auto

text \<open>The loop over the pairs of the query.\<close>

function paramLoop :: "string \<Rightarrow> string \<Rightarrow> string option" where
  "paramLoop q name =
     (if q = [] then None
      else
        let pair = takeWhile (\<lambda>c. c \<noteq> CHR ''&'') q; key = takeWhile (\<lambda>c. c \<noteq> CHR ''='') pair in
        if key = name then Some (percentDecode (drop (length key + 1) pair))
        else paramLoop (drop (length pair + 1) q) name)"
  by pat_completeness auto
termination by (relation "measure (\<lambda>(q, name). length q)") auto

declare paramLoop.simps [simp del]

definition queryParam :: "HttpRequest \<Rightarrow> string \<Rightarrow> string option" where
  "queryParam req name = paramLoop (rq_query req) name"

subsection \<open>Receiving\<close>

definition kMaxRequest :: nat where "kMaxRequest = 1048576"

definition contentLengthOf :: "string \<Rightarrow> nat option" where
  "contentLengthOf head =
     (let headers = map toLower head in
      map_option (\<lambda>p. strtoul (drop (p + 15) headers)) (find_str headers ''content-length:''))"

text \<open>The receive loop: the bytes received, the end of the header block and the content length.\<close>

fun recvLoop :: "string list \<Rightarrow> string \<Rightarrow> nat option \<Rightarrow> nat \<Rightarrow> string \<times> nat option \<times> nat" where
  "recvLoop chunks request headerEnd contentLength =
     (if kMaxRequest \<le> length request \<or>
         (case headerEnd of Some h \<Rightarrow> h + 4 + contentLength \<le> length request | None \<Rightarrow> False)
      then (request, headerEnd, contentLength)
      else case chunks of
             [] \<Rightarrow> (request, headerEnd, contentLength)
           | chunk # rest \<Rightarrow>
               let request' = request @ chunk in
               if headerEnd \<noteq> None then recvLoop rest request' headerEnd contentLength
               else
                 (case find_str request' (crlf @ crlf) of
                    None \<Rightarrow> recvLoop rest request' None contentLength
                  | Some h \<Rightarrow>
                      (case contentLengthOf (take h request') of
                         None \<Rightarrow> recvLoop rest request' (Some h) contentLength
                       | Some n \<Rightarrow> if kMaxRequest < n then (request', Some h, n) else recvLoop rest request' (Some h) n)))"

declare recvLoop.simps [simp del]

text \<open>The request of the bytes received; \<open>None\<close> is a bad request.\<close>

definition parseRequest :: "string \<times> nat option \<times> nat \<Rightarrow> HttpRequest option" where
  "parseRequest received =
     (let (request, headerEnd, contentLength) = received;
          line = (case find_str request crlf of None \<Rightarrow> request | Some n \<Rightarrow> take n request);
          method = takeWhile (\<lambda>c. c \<noteq> CHR '' '') line;
          rest = drop (length method + 1) line;
          target = takeWhile (\<lambda>c. c \<noteq> CHR '' '') rest;
          path = takeWhile (\<lambda>c. c \<noteq> CHR ''?'') target
      in if CHR '' '' \<notin> set line \<or> CHR '' '' \<notin> set rest then None
         else case headerEnd of
                None \<Rightarrow> None
              | Some h \<Rightarrow>
                  Some \<lparr>rq_method = method, rq_path = path, rq_query = drop (length path + 1) target,
                        rq_body = (if h + 4 \<le> length request then take contentLength (drop (h + 4) request) else [])\<rparr>)"

subsection \<open>Answering\<close>

definition statusText :: "int \<Rightarrow> string" where
  "statusText status =
     (if status = 200 then ''OK''
      else if status = 404 then ''Not Found''
      else if status = 405 then ''Method Not Allowed''
      else if status = 503 then ''Service Unavailable''
      else ''Unknown'')"

definition renderResponse :: "HttpResponse \<Rightarrow> string" where
  "renderResponse resp =
     ''HTTP/1.1 '' @ int_to_string (hr_status resp) @ '' '' @ statusText (hr_status resp) @ crlf @
     ''Content-Type: '' @ hr_contentType resp @ crlf @
     ''Content-Length: '' @ nat_to_string (length (hr_body resp)) @ crlf @
     ''Connection: close'' @ crlf @ crlf @ hr_body resp"

definition badRequest :: string where
  "badRequest = ''HTTP/1.1 400 Bad Request'' @ crlf @ ''Content-Length: 12'' @ crlf @ ''Connection: close'' @ crlf @ crlf @
     ''bad request'' @ [CHR 0x0A]"

text \<open>What the peer receives for the results of \<open>send\<close>.\<close>

fun sendLoop :: "int list \<Rightarrow> string \<Rightarrow> string" where
  "sendLoop results out =
     (if out = [] then []
      else case results of
             [] \<Rightarrow> []
           | n # ns \<Rightarrow> if n \<le> 0 then [] else take (nat n) out @ sendLoop ns (drop (nat n) out))"

declare sendLoop.simps [simp del]

definition sendOnce :: "int list \<Rightarrow> string \<Rightarrow> string" where
  "sendOnce results out = (case results of [] \<Rightarrow> [] | n # _ \<Rightarrow> take (nat n) out)"

type_synonym 's handler = "HttpRequest \<Rightarrow> 's \<Rightarrow> HttpResponse \<times> 's"

definition allowedMethod :: "string \<Rightarrow> bool" where
  "allowedMethod m \<longleftrightarrow> m = ''GET'' \<or> m = ''HEAD'' \<or> m = ''POST'' \<or> m = ''PUT''"

definition answer :: "'s handler \<Rightarrow> HttpRequest \<Rightarrow> 's \<Rightarrow> HttpResponse \<times> 's" where
  "answer handle req s =
     (if \<not> allowedMethod (rq_method req) then (plainText 405 ''method not allowed'', s)
      else let (resp, s) = handle req s in (if rq_method req = ''HEAD'' then resp\<lparr>hr_body := []\<rparr> else resp, s))"

definition handleConnection :: "'s handler \<Rightarrow> string list \<Rightarrow> int list \<Rightarrow> 's \<Rightarrow> string \<times> 's" where
  "handleConnection handle chunks sends s =
     (case parseRequest (recvLoop chunks [] None 0) of
        None \<Rightarrow> (sendOnce sends badRequest, s)
      | Some req \<Rightarrow> let (resp, s) = answer handle req s in (sendLoop sends (renderResponse resp), s))"

subsection \<open>The server\<close>

record HttpServer =
  hs_port :: int
  hs_listenFd :: int
  hs_running :: bool
  hs_thread :: bool
  hs_open :: "int list"

datatype ServerError = SocketFailed | BindFailed int | ListenFailed

definition newHttpServer :: "int \<Rightarrow> HttpServer" where
  "newHttpServer port = \<lparr>hs_port = port, hs_listenFd = - 1, hs_running = False, hs_thread = False, hs_open = []\<rparr>"

definition closeFd :: "int \<Rightarrow> HttpServer \<Rightarrow> HttpServer" where
  "closeFd fd s = s\<lparr>hs_open := remove1 fd (hs_open s)\<rparr>"

text \<open>The answers of \<open>socket\<close>, \<open>bind\<close> and \<open>listen\<close>.\<close>

definition startServer :: "int \<Rightarrow> bool \<Rightarrow> bool \<Rightarrow> HttpServer \<Rightarrow> ServerError option \<times> HttpServer" where
  "startServer fd bound listens s =
     (if fd < 0 then (Some SocketFailed, s\<lparr>hs_listenFd := fd\<rparr>)
      else let s = s\<lparr>hs_listenFd := fd, hs_open := fd # hs_open s\<rparr> in
           if \<not> bound then (Some (BindFailed (hs_port s)), (closeFd fd s)\<lparr>hs_listenFd := - 1\<rparr>)
           else if \<not> listens then (Some ListenFailed, (closeFd fd s)\<lparr>hs_listenFd := - 1\<rparr>)
           else (None, s\<lparr>hs_running := True, hs_thread := True\<rparr>))"

definition stopServer :: "HttpServer \<Rightarrow> HttpServer" where
  "stopServer s =
     (if \<not> hs_running s then s
      else let s = s\<lparr>hs_running := False\<rparr>;
               s = (if 0 \<le> hs_listenFd s then (closeFd (hs_listenFd s) s)\<lparr>hs_listenFd := - 1\<rparr> else s)
           in s\<lparr>hs_thread := False\<rparr>)"

text \<open>One turn of the accept loop: the poll times out, \<open>accept4\<close> fails, or a connection is served and closed.\<close>

datatype AcceptEvent = PollTimeout | AcceptFailed | Connection int "string list" "int list"

fun acceptTurn :: "'s handler \<Rightarrow> AcceptEvent \<Rightarrow> HttpServer \<times> 's \<Rightarrow> string list \<times> HttpServer \<times> 's" where
  "acceptTurn handle (Connection fd chunks sends) (s, w) =
     (let s = s\<lparr>hs_open := fd # hs_open s\<rparr>; (out, w) = handleConnection handle chunks sends w in ([out], closeFd fd s, w))"
| "acceptTurn handle PollTimeout (s, w) = ([], s, w)"
| "acceptTurn handle AcceptFailed (s, w) = ([], s, w)"

text \<open>The loop over the events of a running server; what it sent, connection by connection.\<close>

fun acceptLoop :: "'s handler \<Rightarrow> AcceptEvent list \<Rightarrow> HttpServer \<times> 's \<Rightarrow> string list \<times> HttpServer \<times> 's" where
  "acceptLoop handle [] sw = ([], sw)"
| "acceptLoop handle (ev # evs) (s, w) =
     (if \<not> hs_running s then ([], s, w)
      else let (out, sw) = acceptTurn handle ev (s, w); (outs, sw) = acceptLoop handle evs sw in (out @ outs, sw))"

end
