(* ===== verification/Health.thy ===== *)
theory Health
  imports ChannelManager Store HttpServer
begin

text \<open>
  \<open>src/ops/health.cpp\<close>: the liveness and readiness endpoints, the status report and the metrics page, and
  \<open>sdiOutputJson\<close> of \<open>src/decklink/types.hpp\<close>.  The TAI clock reading and the readiness gate are
  parameters, and so are the SDI output settings that the card reports for a channel.
\<close>

text \<open>The difference is unsigned.\<close>

definition livez :: "u64 \<Rightarrow> u64 \<Rightarrow> HttpResponse" where
  "livez lastHeartbeat now =
     (if now - lastHeartbeat > 5000000000 then plainText 503 ''housekeeping thread stalled'' else plainText 200 ''ok'')"

definition channelJson :: "ChannelView \<Rightarrow> string" where
  "channelJson v =
     ''{'' @ quoted ''index'' @ '':'' @ int_to_string (ch_index (cv_cfg v)) @ '','' @ quoted ''label'' @ '':'' @ quoted (ch_label (cv_cfg v)) @
     '','' @ quoted ''state'' @ '':'' @ quoted (stateName (st_state (cv_status v))) @ ''}''"

definition readyz :: "Config \<Rightarrow> (unit \<Rightarrow> bool) option \<Rightarrow> (ChannelConfig \<Rightarrow> Status) \<Rightarrow> ChannelManager \<Rightarrow> HttpResponse" where
  "readyz cfg gate status m =
     (let healthy = healthyCount status m in
      if (case gate of Some g \<Rightarrow> \<not> g () | None \<Rightarrow> False) then plainText 503 ''nmos node is not registered''
      else if int healthy \<ge> minHealthyChannels cfg then plainText 200 ''ok''
      else
        \<lparr>hr_status = 503, hr_contentType = ''application/json'',
         hr_body = ''{'' @ quoted ''healthy_channels'' @ '':'' @ nat_to_string healthy @ '','' @ quoted ''required'' @ '':'' @
           int_to_string (minHealthyChannels cfg) @ '','' @ quoted ''channels'' @ '':['' @
           commaJoin (map channelJson (channelViews status m)) @ '']}''\<rparr>)"

subsection \<open>The status report\<close>

record SdiOutputConfig =
  so_smpteLevelA :: "bool option"
  so_supportsSmpteLevelA :: "bool option"
  so_output1080pAsPsF :: "bool option"
  so_linkConfiguration :: "string option"
  so_requestedLevel :: "string option"

definition smpteLevelName :: "SdiOutputConfig \<Rightarrow> string" where
  "smpteLevelName c = (case so_smpteLevelA c of None \<Rightarrow> ''unknown'' | Some a \<Rightarrow> if a then ''A'' else ''B'')"

text \<open>The strings are not escaped.\<close>

definition rawString :: "string \<Rightarrow> string" where
  "rawString s = CHR 0x22 # s @ [CHR 0x22]"

definition sdiOutputJson :: "SdiOutputConfig \<Rightarrow> string" where
  "sdiOutputJson c =
     jobj ([(''smpte_level'', if so_smpteLevelA c \<noteq> None then rawString (smpteLevelName c) else ''null''),
       (''supports_smpte_level_a'', jmaybe jbool (so_supportsSmpteLevelA c)),
       (''output_1080p_as_psf'', jmaybe jbool (so_output1080pAsPsF c)),
       (''link_configuration'', jmaybe rawString (so_linkConfiguration c))] @
       (case so_requestedLevel c of None \<Rightarrow> [] | Some l \<Rightarrow> [(''requested_level'', rawString l)]))"

definition audioFlowJson :: "AudioFlowConfig \<Rightarrow> string" where
  "audioFlowJson af =
     jobj [(''index'', int_to_string (af_index af)), (''flow_id'', rawString (toString (af_flowId af))),
       (''channel_count'', int_to_string (af_channelCount af)), (''unassigned'', jbool (isNil (af_flowId af))),
       (''map'', jarr (map int_to_string (af_deckLinkChannels af)))]"

definition statuszChannel :: "SdiOutputConfig \<Rightarrow> ChannelView \<Rightarrow> string" where
  "statuszChannel sdi v =
     (let c = cv_cfg v; s = cv_status v; out = (direction c = Output) in
      jobj ([(''index'', int_to_string (ch_index c)), (''label'', quoted (ch_label c)),
        (''direction'', quoted (directionName (direction c))), (''subdevice_index'', int_to_string (subdeviceIndex c)),
        (''state'', quoted (stateName (st_state s))), (''signal_locked'', jbool (signalLocked s)),
        (''active_video_mode'', quoted (activeModeName s)), (''last_frame_tai_ns'', unum (lastFrameTaiNs s)),
        (''frames_total'', unum (framesTotal s)), (''frames_dropped'', unum (framesDropped s)),
        (''frames_repeated'', unum (framesRepeated s)), (''read_offset_grains'', int_to_string (st_readOffsetGrains s))] @
        (if out then [(''sdi_output'', sdiOutputJson sdi)] else []) @
        [(''reconnects'', unum (reconnects s)), (''grains_committed'', unum (grainsCommitted s)),
         (''active_video_flow_id'', rawString (activeVideoFlowId s)),
         (''audio'', jobj [(''enabled'', jbool (audioEnable c)), (''deck_channel_count'', int_to_string (audioChannelCount c)),
           (''flow_count'', nat_to_string (length (audioFlows c))),
           (''decklink_buffered_audio_frames'', if out then unum (bufferedAudioFrames s) else ''null''),
           (''flows'', jarr (map audioFlowJson (audioFlows c)))])]))"

definition statusz :: "(ChannelConfig \<Rightarrow> SdiOutputConfig) \<Rightarrow> (ChannelConfig \<Rightarrow> Status) \<Rightarrow> ChannelManager \<Rightarrow> HttpResponse" where
  "statusz sdi status m =
     \<lparr>hr_status = 200, hr_contentType = ''application/json'',
      hr_body = jobj [(''channels'', jarr (map (\<lambda>v. statuszChannel (sdi (cv_cfg v)) v) (channelViews status m)))]\<rparr>"

definition metricsText :: "string \<Rightarrow> HttpResponse" where
  "metricsText rendered =
     \<lparr>hr_status = 200, hr_contentType = ''text/plain; version=0.0.4; charset=utf-8'', hr_body = rendered\<rparr>"

end
