(* ===== verification/ManagerProps.thy ===== *)
theory ManagerProps
  imports Health ConfigValid
begin

text \<open>
  The channel manager: what a reconfiguration leaves running, and readiness over the channels of a loaded
  configuration.
\<close>

subsection \<open>The invariant\<close>

text \<open>While the manager is started every channel runs, with its configuration; otherwise none does.\<close>

definition runEntry :: "bool \<Rightarrow> ChannelConfig \<Rightarrow> Entry" where
  "runEntry started ch =
     \<lparr>en_cfg = ch, en_input = (if started \<and> direction ch = Input then Some ch else None),
      en_output = (if started \<and> direction ch = Output then Some ch else None)\<rparr>"

definition entries_ok :: "bool \<Rightarrow> (int \<times> Entry) list \<Rightarrow> bool" where
  "entries_ok started es \<longleftrightarrow> ordered es \<and> (\<forall>p \<in> set es. \<exists>c. snd p = runEntry started c \<and> ch_index c = fst p)"

definition mgr_ok :: "ChannelManager \<Rightarrow> bool" where
  "mgr_ok m \<longleftrightarrow> entries_ok (cm_started m) (cm_entries m)"

lemma startIf_new: "fst (startIf started (newEntry ch)) = runEntry started ch"
  by (cases "direction ch") (simp_all add: startIf_def startEntry_def newEntry_def runEntry_def)

lemma startIf_restart: "fst (startIf started ((fst (stopEntry e))\<lparr>en_cfg := ch\<rparr>)) = runEntry started ch"
  by (cases "direction ch") (simp_all add: startIf_def startEntry_def stopEntry_def runEntry_def)

lemma entries_ok_lookup: "entries_ok started es \<Longrightarrow> map_of es i = Some e \<Longrightarrow> \<exists>c. e = runEntry started c \<and> ch_index c = i"
  by (fastforce simp: entries_ok_def dest: map_of_SomeD)

lemma set_put: "e \<in> set (putKey k v m) \<Longrightarrow> e = (k, v) \<or> e \<in> set m"
  by (induction k v m rule: putKey.induct) (auto split: if_splits)

lemma entries_ok_put: "entries_ok started es \<Longrightarrow> entries_ok started (putKey (ch_index ch) (runEntry started ch) es)"
  by (auto simp: entries_ok_def dest!: set_put)

subsection \<open>One channel\<close>

definition eventIndex :: "Event \<Rightarrow> int" where
  "eventIndex ev = (case ev of Started c \<Rightarrow> ch_index c | Stopped c \<Rightarrow> ch_index c)"

lemma stop_events: "ev \<in> set (snd (stopEntry (runEntry started c))) \<Longrightarrow> eventIndex ev = ch_index c"
  by (auto simp: stopEntry_def stopEvents_def eventIndex_def runEntry_def split: if_splits)

lemma start_events: "ev \<in> set (snd (startIf started e)) \<Longrightarrow> eventIndex ev = ch_index (en_cfg e)"
  by (auto simp: startIf_def startEntry_def eventIndex_def split: if_splits)

lemma applyOne_eq:
  assumes "entries_ok started es"
  shows "\<exists>ev'. applyOne started ch (es, r, ev) =
    (if map_of es (ch_index ch) = Some (runEntry started ch) then es else putKey (ch_index ch) (runEntry started ch) es,
     (if map_of es (ch_index ch) = None then r\<lparr>ar_added := ar_added r @ [ch_index ch]\<rparr>
      else if map_of es (ch_index ch) = Some (runEntry started ch) then r
      else r\<lparr>ar_restarted := ar_restarted r @ [ch_index ch]\<rparr>), ev @ ev') \<and>
    (\<forall>x \<in> set ev'. eventIndex x = ch_index ch) \<and> (map_of es (ch_index ch) = Some (runEntry started ch) \<longrightarrow> ev' = [])"
proof (cases "map_of es (ch_index ch)")
  case None
  then show ?thesis
    using startIf_new[of started ch] start_events[of _ started "newEntry ch"]
    by (intro exI[of _ "snd (startIf started (newEntry ch))"]) (auto simp: applyOne_def newEntry_def case_prod_beta)
next
  case (Some e)
  obtain c where e: "e = runEntry started c" "ch_index c = ch_index ch" using entries_ok_lookup[OF assms Some] by metis
  show ?thesis
  proof (cases "c = ch")
    case True
    then show ?thesis using Some e by (simp add: applyOne_def runEntry_def)
  next
    case False
    define e1 where "e1 = (fst (stopEntry e))\<lparr>en_cfg := ch\<rparr>"
    have ne: "runEntry started c \<noteq> runEntry started ch" "en_cfg (runEntry started c) = c" using False by (auto simp: runEntry_def)
    have eq: "applyOne started ch (es, r, ev) =
        (putKey (ch_index ch) (runEntry started ch) es, r\<lparr>ar_restarted := ar_restarted r @ [ch_index ch]\<rparr>,
         ev @ snd (stopEntry e) @ snd (startIf started e1))"
      using False Some ne startIf_restart[where started = started and e = e and ch = ch]
      by (simp add: applyOne_def e(1) e1_def case_prod_beta)
    have "eventIndex x = ch_index ch" if "x \<in> set (snd (stopEntry e) @ snd (startIf started e1))" for x
      using that stop_events[of x started c] start_events[of x started e1] e by (auto simp: e1_def)
    then show ?thesis unfolding eq using Some ne by (intro exI[of _ "snd (stopEntry e) @ snd (startIf started e1)"]) (simp add: e(1))
  qed
qed


subsection \<open>All channels\<close>

lemma ordered_filter: "ordered es \<Longrightarrow> ordered (filter P es)"
  by (induction es) auto

lemma map_of_filter_key: "map_of (filter (\<lambda>(i, _). P i) es) i = (if P i then map_of es i else None)"
  by (induction es) auto

definition requested :: "ChannelConfig list \<Rightarrow> int \<Rightarrow> ChannelConfig option" where
  "requested chs = map_of (map (\<lambda>ch. (ch_index ch, ch)) chs)"

lemma requested_simps [simp]:
  "requested [] i = None" "requested (ch # chs) i = (if i = ch_index ch then Some ch else requested chs i)"
  by (simp_all add: requested_def)

lemma requested_None: "requested chs i = None \<longleftrightarrow> i \<notin> ch_index ` set chs"
  by (induction chs) auto

text \<open>The loop over the requested channels: the entries it leaves, the channels it added and restarted, and the
  events it caused.\<close>

lemma fold_applyOne:
  assumes "entries_ok started es" "distinct (map ch_index chs)"
  shows "\<exists>es' ad re ev'. fold (applyOne started) chs (es, r, ev) =
      (es', r\<lparr>ar_added := ar_added r @ ad, ar_restarted := ar_restarted r @ re\<rparr>, ev @ ev') \<and> entries_ok started es' \<and>
    (\<forall>i. map_of es' i = (case requested chs i of Some ch \<Rightarrow> Some (runEntry started ch) | None \<Rightarrow> map_of es i)) \<and>
    set ad = {i. requested chs i \<noteq> None \<and> map_of es i = None} \<and>
    set re = {i. \<exists>ch e. requested chs i = Some ch \<and> map_of es i = Some e \<and> e \<noteq> runEntry started ch} \<and>
    (\<forall>x \<in> set ev'. eventIndex x \<in> set ad \<union> set re)"
  using assms
proof (induction chs arbitrary: es r ev)
  case Nil
  then show ?case by (intro exI[of _ es] exI[of _ "[]"]) simp
next
  case (Cons ch chs)
  define i0 where "i0 = ch_index ch"
  define es1 where "es1 = (if map_of es i0 = Some (runEntry started ch) then es else putKey i0 (runEntry started ch) es)"
  define ad0 where "ad0 = (if map_of es i0 = None then [i0] else [])"
  define re0 where "re0 = (if map_of es i0 = None \<or> map_of es i0 = Some (runEntry started ch) then [] else [i0])"
  obtain ev0 where one: "applyOne started ch (es, r, ev) =
      (es1, r\<lparr>ar_added := ar_added r @ ad0, ar_restarted := ar_restarted r @ re0\<rparr>, ev @ ev0)"
      "\<forall>x \<in> set ev0. eventIndex x = i0" "map_of es i0 = Some (runEntry started ch) \<Longrightarrow> ev0 = []"
    using applyOne_eq[OF Cons.prems(1), of ch r ev] by (cases r) (auto simp: es1_def ad0_def re0_def i0_def split: if_splits)
  have ok1: "entries_ok started es1" using Cons.prems(1) entries_ok_put by (simp add: es1_def i0_def)
  have m1: "map_of es1 i = (if i = i0 then Some (runEntry started ch) else map_of es i)" for i by (auto simp: es1_def)
  have i0: "requested chs i0 = None" using Cons.prems(2) by (simp add: requested_None i0_def)
  define r1 where "r1 = r\<lparr>ar_added := ar_added r @ ad0, ar_restarted := ar_restarted r @ re0\<rparr>"
  have dist: "distinct (map ch_index chs)" using Cons.prems(2) by simp
  obtain es' ad re ev' where ih: "fold (applyOne started) chs (es1, r1, ev @ ev0) =
      (es', r1\<lparr>ar_added := ar_added r1 @ ad, ar_restarted := ar_restarted r1 @ re\<rparr>, (ev @ ev0) @ ev')"
      "entries_ok started es'"
      "\<forall>i. map_of es' i = (case requested chs i of Some ch \<Rightarrow> Some (runEntry started ch) | None \<Rightarrow> map_of es1 i)"
      "set ad = {i. requested chs i \<noteq> None \<and> map_of es1 i = None}"
      "set re = {i. \<exists>ch e. requested chs i = Some ch \<and> map_of es1 i = Some e \<and> e \<noteq> runEntry started ch}"
      "\<forall>x \<in> set ev'. eventIndex x \<in> set ad \<union> set re"
    using Cons.IH[OF ok1 dist, of r1 "ev @ ev0"] by (elim exE conjE) (rule that; assumption)
  have "set (ad0 @ ad) = {i. requested (ch # chs) i \<noteq> None \<and> map_of es i = None}"
    using i0 by (auto simp: ih(4) m1 ad0_def i0_def split: if_splits)
  moreover have "set (re0 @ re) = {i. \<exists>c e. requested (ch # chs) i = Some c \<and> map_of es i = Some e \<and> e \<noteq> runEntry started c}"
    using i0 by (auto simp: ih(5) m1 re0_def i0_def split: if_splits)
  moreover have "\<forall>x \<in> set (ev0 @ ev'). eventIndex x \<in> set (ad0 @ ad) \<union> set (re0 @ re)"
    using one(2,3) ih(6) by (auto simp: ad0_def re0_def)
  moreover have "\<forall>i. map_of es' i = (case requested (ch # chs) i of Some ch \<Rightarrow> Some (runEntry started ch) | None \<Rightarrow> map_of es i)"
    using ih(3) i0 by (auto simp: m1 i0_def split: option.splits)
  ultimately show ?case
    using one(1) ih(1,2) unfolding r1_def
    by (intro exI[of _ es'] exI[of _ "ad0 @ ad"] exI[of _ "re0 @ re"] exI[of _ "ev0 @ ev'"]) simp
qed

lemma removeAbsent_eq:
  assumes "\<forall>p \<in> set es. \<exists>c. snd p = runEntry started c \<and> ch_index c = fst p"
  shows "\<exists>ev. removeAbsent chs es =
      (filter (\<lambda>(i, _). requested chs i \<noteq> None) es, map fst (filter (\<lambda>(i, _). requested chs i = None) es), ev) \<and>
    (\<forall>x \<in> set ev. eventIndex x \<in> set (map fst (filter (\<lambda>(i, _). requested chs i = None) es)))"
  using assms
proof (induction es)
  case (Cons p es)
  obtain i e where p: "p = (i, e)" by (cases p)
  obtain c where e: "e = runEntry started c" "ch_index c = i" using Cons.prems by (auto simp: p)
  obtain ev where ev: "removeAbsent chs es =
      (filter (\<lambda>(i, _). requested chs i \<noteq> None) es, map fst (filter (\<lambda>(i, _). requested chs i = None) es), ev)"
    "\<forall>x \<in> set ev. eventIndex x \<in> set (map fst (filter (\<lambda>(i, _). requested chs i = None) es))"
    using Cons.IH Cons.prems by auto
  have "list_ex (\<lambda>ch. ch_index ch = i) chs \<longleftrightarrow> requested chs i \<noteq> None" by (auto simp: requested_None list_ex_iff)
  then show ?case
    using ev stop_events[where started = started and c = c] e by (auto simp: p)
qed simp


lemma applyChannels_spec:
  assumes "mgr_ok m" and "distinct (map ch_index chs)"
  shows "case applyChannels chs m of
      (Inl e, m') \<Rightarrow> m' = m
    | (Inr r, m') \<Rightarrow>
        mgr_ok m' \<and> cm_started m' = cm_started m \<and>
        (\<forall>i. map_of (cm_entries m') i = map_option (runEntry (cm_started m)) (requested chs i)) \<and>
        set (ar_added r) = {i. requested chs i \<noteq> None \<and> map_of (cm_entries m) i = None} \<and>
        set (ar_removed r) = {i. requested chs i = None \<and> map_of (cm_entries m) i \<noteq> None} \<and>
        set (ar_restarted r) = {i. \<exists>ch e. requested chs i = Some ch \<and> map_of (cm_entries m) i = Some e \<and> en_cfg e \<noteq> ch} \<and>
        (\<exists>ev. cm_events m' = cm_events m @ ev \<and>
          list_all (\<lambda>x. eventIndex x \<in> set (ar_added r) \<union> set (ar_removed r) \<union> set (ar_restarted r)) ev)"
proof (cases "validateAll (cm_card m) chs")
  case (Some e)
  then show ?thesis by (simp add: applyChannels_def)
next
  case None
  define started where "started = cm_started m"
  define kept where "kept = filter (\<lambda>(i, _). requested chs i \<noteq> None) (cm_entries m)"
  define removed where "removed = map fst (filter (\<lambda>(i, _). requested chs i = None) (cm_entries m))"
  define r0 where "r0 = \<lparr>ar_added = [], ar_restarted = [], ar_removed = removed\<rparr>"
  have ok: "entries_ok started (cm_entries m)" using assms(1) by (simp add: mgr_ok_def started_def)
  obtain ev0 where ev0: "removeAbsent chs (cm_entries m) = (kept, removed, ev0)" "\<forall>x \<in> set ev0. eventIndex x \<in> set removed"
    using removeAbsent_eq[of "cm_entries m" started chs] ok unfolding kept_def removed_def entries_ok_def by blast
  have okk: "entries_ok started kept" using ok by (auto simp: entries_ok_def kept_def ordered_filter)
  obtain es' ad re ev' where f: "fold (applyOne started) chs (kept, r0, cm_events m @ ev0) =
        (es', r0\<lparr>ar_added := ar_added r0 @ ad, ar_restarted := ar_restarted r0 @ re\<rparr>, (cm_events m @ ev0) @ ev')"
      "entries_ok started es'"
      "\<forall>i. map_of es' i = (case requested chs i of Some ch \<Rightarrow> Some (runEntry started ch) | None \<Rightarrow> map_of kept i)"
      "set ad = {i. requested chs i \<noteq> None \<and> map_of kept i = None}"
      "set re = {i. \<exists>ch e. requested chs i = Some ch \<and> map_of kept i = Some e \<and> e \<noteq> runEntry started ch}"
      "\<forall>x \<in> set ev'. eventIndex x \<in> set ad \<union> set re"
    using fold_applyOne[OF okk assms(2), of r0 "cm_events m @ ev0"] by (elim exE conjE) (rule that; assumption)
  have k: "map_of kept i = (if requested chs i = None then None else map_of (cm_entries m) i)" for i
    by (auto simp: kept_def map_of_filter_key)
  have rem: "set removed = {i. requested chs i = None \<and> map_of (cm_entries m) i \<noteq> None}"
    by (force simp: removed_def map_of_eq_None_iff)
  have ap: "applyChannels chs m = (Inr \<lparr>ar_added = ad, ar_restarted = re, ar_removed = removed\<rparr>,
      m\<lparr>cm_entries := es', cm_events := (cm_events m @ ev0) @ ev'\<rparr>)"
    using None f(1) by (simp add: applyChannels_def ev0(1) started_def[symmetric] r0_def)
  have "\<forall>i. map_of es' i = map_option (runEntry started) (requested chs i)" using f(3) by (auto simp: k split: option.splits)
  moreover have "set ad = {i. requested chs i \<noteq> None \<and> map_of (cm_entries m) i = None}" using f(4) by (auto simp: k)
  moreover have "set re = {i. \<exists>ch e. requested chs i = Some ch \<and> map_of (cm_entries m) i = Some e \<and> en_cfg e \<noteq> ch}"
    using f(5) entries_ok_lookup[OF ok] by (fastforce simp: k runEntry_def)
  moreover have "\<exists>ev. (cm_events m @ ev0) @ ev' = cm_events m @ ev \<and> list_all (\<lambda>x. eventIndex x \<in> set ad \<union> set removed \<union> set re) ev"
    using ev0(2) f(6) by (intro exI[of _ "ev0 @ ev'"]) (auto simp: list_all_iff)
  ultimately show ?thesis using f(2) rem by (simp add: ap mgr_ok_def started_def)
qed

text \<open>C16. A reconfiguration converges: refused by the card, it changes nothing; otherwise exactly the requested
  channels are configured, each running with its own configuration if the manager is started, the
  result names the channels that were added, removed and restarted, and no other channel was started or
  stopped.\<close>

theorem apply_converges:
  assumes "mgr_ok m" and "distinct (map ch_index chs)"
  shows "case applyChannels chs m of
      (Inl e, m') \<Rightarrow> m' = m
    | (Inr r, m') \<Rightarrow>
        mgr_ok m' \<and> cm_started m' = cm_started m \<and>
        (\<forall>i. map_of (cm_entries m') i = map_option (runEntry (cm_started m)) (requested chs i)) \<and>
        set (ar_added r) = {i. requested chs i \<noteq> None \<and> map_of (cm_entries m) i = None} \<and>
        set (ar_removed r) = {i. requested chs i = None \<and> map_of (cm_entries m) i \<noteq> None} \<and>
        set (ar_restarted r) = {i. \<exists>ch e. requested chs i = Some ch \<and> map_of (cm_entries m) i = Some e \<and> en_cfg e \<noteq> ch} \<and>
        (\<exists>ev. cm_events m' = cm_events m @ ev \<and>
          list_all (\<lambda>x. eventIndex x \<in> set (ar_added r) \<union> set (ar_removed r) \<union> set (ar_restarted r)) ev)"
  using assms by (rule applyChannels_spec)

subsection \<open>Construction, start and stop\<close>

lemma emplace_all:
  assumes "entries_ok False es" "distinct (map ch_index chs)" "\<forall>i \<in> fst ` set es. i \<notin> ch_index ` set chs"
  shows "entries_ok False (fold (\<lambda>ch. emplace (ch_index ch) (newEntry ch)) chs es) \<and>
    (\<forall>i. map_of (fold (\<lambda>ch. emplace (ch_index ch) (newEntry ch)) chs es) i =
      (case requested chs i of Some ch \<Rightarrow> Some (runEntry False ch) | None \<Rightarrow> map_of es i))"
  using assms
proof (induction chs arbitrary: es)
  case (Cons ch chs)
  have new: "newEntry ch = runEntry False ch" by (simp add: newEntry_def runEntry_def)
  have "map_of es (ch_index ch) = None" using Cons.prems(3) by (auto simp: map_of_eq_None_iff)
  then have e: "emplace (ch_index ch) (newEntry ch) es = putKey (ch_index ch) (runEntry False ch) es" by (simp add: emplace_def new)
  have "requested chs (ch_index ch) = None" using Cons.prems(2) by (simp add: requested_None)
  then show ?case
    using Cons.IH[of "putKey (ch_index ch) (runEntry False ch) es"] Cons.prems entries_ok_put
    by (auto simp: e split: option.splits)
qed simp

lemma newChannelManager_ok:
  assumes "distinct (map ch_index (channels cfg))"
  shows "mgr_ok (newChannelManager cfg c)"
    and "map_of (cm_entries (newChannelManager cfg c)) i = map_option (runEntry False) (requested (channels cfg) i)"
  using emplace_all[of "[]" "channels cfg"] assms
  by (auto simp: mgr_ok_def newChannelManager_def entries_ok_def split: option.splits)

lemma eachEntry_entries: "fst (eachEntry f es) = map (\<lambda>(i, e). (i, fst (f e))) es"
  by (induction es) (auto simp: case_prod_beta)

lemma entries_ok_in: "entries_ok b es \<Longrightarrow> p \<in> set es \<Longrightarrow> \<exists>c. snd p = runEntry b c \<and> ch_index c = fst p"
  by (simp add: entries_ok_def)

lemma run_all:
  assumes "entries_ok b es" "\<And>c. fst (f (runEntry b c)) = runEntry b' c"
  shows "entries_ok b' (fst (eachEntry f es)) \<and> map_of (fst (eachEntry f es)) i = map_option (\<lambda>e. runEntry b' (en_cfg e)) (map_of es i)"
proof -
  have "(case p of (i, e) \<Rightarrow> (i, fst (f e))) = (fst p, runEntry b' (en_cfg (snd p)))" if p: "p \<in> set es" for p
  proof -
    obtain c where c: "snd p = runEntry b c" using entries_ok_in[OF assms(1) p] by (elim exE conjE)
    have "en_cfg (snd p) = c" unfolding c by (simp add: runEntry_def)
    moreover have "fst (f (snd p)) = runEntry b' c" unfolding c by (rule assms(2))
    ultimately show ?thesis by (simp add: case_prod_beta)
  qed
  then have eq: "fst (eachEntry f es) = map (\<lambda>p. (fst p, runEntry b' (en_cfg (snd p)))) es"
    unfolding eachEntry_entries by (intro map_cong) auto
  have "ordered (map (\<lambda>p. (fst p, g (snd p))) es) = ordered es" for g by (simp add: ordered_def comp_def)
  moreover have "ch_index (en_cfg (snd p)) = fst p" if p: "p \<in> set es" for p
  proof -
    obtain c where c: "snd p = runEntry b c" "ch_index c = fst p" using entries_ok_in[OF assms(1) p] by (elim exE conjE)
    show ?thesis unfolding c(1) by (simp add: runEntry_def c(2))
  qed
  moreover have "map_of (map (\<lambda>p. (fst p, g (snd p))) es) i = map_option g (map_of es i)" for g by (induction es) auto
  ultimately show ?thesis using assms(1) by (auto simp: eq entries_ok_def)
qed

lemma startAll_ok:
  assumes "mgr_ok m" "\<not> cm_started m"
  shows "mgr_ok (startAll m)" and "map_of (cm_entries (startAll m)) i = map_option (\<lambda>e. runEntry True (en_cfg e)) (map_of (cm_entries m) i)"
proof -
  have "fst ((\<lambda>e. if en_input e = None \<and> en_output e = None then startEntry e else (e, [])) (runEntry False c)) = runEntry True c" for c
    by (cases "direction c") (simp_all add: runEntry_def startEntry_def)
  from run_all[OF assms(1)[unfolded mgr_ok_def] , of _ True i] this assms(2)
  show "mgr_ok (startAll m)" "map_of (cm_entries (startAll m)) i = map_option (\<lambda>e. runEntry True (en_cfg e)) (map_of (cm_entries m) i)"
    by (auto simp: startAll_def mgr_ok_def case_prod_beta)
qed

lemma stopAll_ok: "mgr_ok m \<Longrightarrow> mgr_ok (stopAll m)"
proof -
  assume "mgr_ok m"
  moreover have "fst (stopEntry (runEntry b c)) = runEntry False c" for b c by (simp add: runEntry_def stopEntry_def)
  ultimately show ?thesis using run_all[of "cm_started m" "cm_entries m" stopEntry False]
    by (simp add: mgr_ok_def stopAll_def case_prod_beta)
qed


subsection \<open>A concrete card\<close>

definition demoSub :: SubDevice where
  "demoSub = \<lparr>supportsCapture = True, supportsPlayback = True, supportsInputFormatDetection = True\<rparr>"

definition demoInput :: "int \<Rightarrow> int \<Rightarrow> ChannelConfig" where
  "demoInput i sub = defaultChannel\<lparr>ch_index := i, subdeviceIndex := sub\<rparr>"

definition demoManager :: ChannelManager where
  "demoManager = startAll (newChannelManager (defaultConfig\<lparr>channels := [demoInput 0 0, demoInput 1 1]\<rparr>) [demoSub, demoSub])"

lemma demoManager_ok: "mgr_ok demoManager"
  unfolding demoManager_def
  by (intro startAll_ok newChannelManager_ok) (simp_all add: demoInput_def newChannelManager_def)

definition demoChannels :: "ChannelConfig list" where
  "demoChannels = [demoInput 1 1, demoInput 2 0]"

lemma demoApply: "case fst (applyChannels demoChannels demoManager) of Inl e \<Rightarrow> False | Inr r \<Rightarrow> ar_added r = [2] \<and> ar_removed r = [0] \<and> ar_restarted r = []"
  by code_simp

theorem apply_converges_witness:
  "\<exists>r m'. applyChannels demoChannels demoManager = (Inr r, m') \<and> ar_added r = [2] \<and> ar_removed r = [0] \<and> mgr_ok m' \<and>
    map_of (cm_entries m') 2 = Some (runEntry (cm_started demoManager) (demoInput 2 0))"
proof -
  obtain r m' where a: "applyChannels demoChannels demoManager = (Inr r, m')" "ar_added r = [2]" "ar_removed r = [0]"
    using demoApply by (cases "applyChannels demoChannels demoManager") (auto split: sum.splits)
  have "distinct (map ch_index demoChannels)" by (simp add: demoChannels_def demoInput_def)
  from apply_converges[OF demoManager_ok this] a show ?thesis by (simp add: demoChannels_def demoInput_def)
qed

text \<open>The channels that run after some events, and whether two of them ever shared a sub-device in one direction.\<close>

definition running :: "Event list \<Rightarrow> ChannelConfig list" where
  "running ev = fold (\<lambda>e r. case e of Started c \<Rightarrow> c # r | Stopped c \<Rightarrow> remove1 c r) ev []"

definition exclusive :: "Event list \<Rightarrow> bool" where
  "exclusive ev \<longleftrightarrow>
     list_all (\<lambda>n. distinct (map (\<lambda>c. (subdeviceIndex c, direction c = Input)) (running (take n ev)))) [0..<length ev + 1]"

text \<open>Two inputs that swap their sub-devices share one in between: the first is restarted on the sub-device the second
  still runs on.\<close>

definition swapped :: "ChannelConfig list" where
  "swapped = [demoInput 0 1, demoInput 1 0]"

lemma swap_shares_subdevice:
  "exclusive (cm_events demoManager) \<and> \<not> exclusive (cm_events (snd (applyChannels swapped demoManager)))"
  by code_simp

subsection \<open>Readiness\<close>

lemma allHealthy_count:
  assumes "\<forall>(i, e) \<in> set es. \<exists>c. e = runEntry True c" "\<And>c. st_state (status c) = Healthy"
  shows "filter (\<lambda>v. st_state (cv_status v) = Healthy) (map (\<lambda>(_, e). channelView status e) es) = map (\<lambda>(_, e). channelView status e) es"
  using assms(1)
proof (induction es)
  case (Cons p es)
  then obtain i c where p: "p = (i, runEntry True c)" by (cases p) auto
  have "st_state (cv_status (channelView status (runEntry True c))) = Healthy"
    using assms(2) by (cases "direction c") (simp_all add: channelView_def runEntry_def)
  then show ?case using Cons by (simp add: p)
qed simp

text \<open>The started manager of a loaded configuration has an entry for each of its channels.\<close>

lemma started_entries:
  assumes "loadConfig parseJson isIpLiteral env = Inr cfg"
  shows "mgr_ok (startAll (newChannelManager cfg c)) \<and> length (channels cfg) \<le> totalCount (startAll (newChannelManager cfg c))"
proof -
  define m where "m = startAll (newChannelManager cfg c)"
  have d: "distinct (map ch_index (channels cfg))"
    using loadConfig_ok[OF assms] by (simp add: channels_ok_def strict_sorted_iff)
  have s: "\<not> cm_started (newChannelManager cfg c)" by (simp add: newChannelManager_def)
  note n = newChannelManager_ok[OF d]
  have "map_of (cm_entries m) i \<noteq> None" if "i \<in> ch_index ` set (channels cfg)" for i
    using that startAll_ok(2)[OF n(1) s] n(2) by (auto simp: m_def requested_None)
  then have "ch_index ` set (channels cfg) \<subseteq> fst ` set (cm_entries m)" by (auto simp: map_of_eq_None_iff)
  from card_mono[OF _ this] have "card (ch_index ` set (channels cfg)) \<le> card (fst ` set (cm_entries m))" by simp
  also have "\<dots> \<le> length (cm_entries m)" by (metis card_length length_map set_map)
  finally have "length (channels cfg) \<le> length (cm_entries m)"
    using d by (metis distinct_card length_map set_map)
  then show ?thesis using startAll_ok(1)[OF n(1) s] by (simp add: m_def totalCount_def)
qed

text \<open>A loaded configuration can become ready: the readiness endpoint of its started channels answers 200 exactly
  when the gate is open and the configured number of channels is healthy, and that number is never
  more than there are, so when every channel is healthy and the gate open it is reached.\<close>

theorem readiness_reachable:
  assumes "loadConfig parseJson isIpLiteral env = Inr cfg"
  shows "(hr_status (readyz cfg gate status (startAll (newChannelManager cfg c))) = 200 \<longleftrightarrow>
      (case gate of Some g \<Rightarrow> g () | None \<Rightarrow> True) \<and>
      minHealthyChannels cfg \<le> int (healthyCount status (startAll (newChannelManager cfg c)))) \<and>
    ((\<forall>ch. st_state (status ch) = Healthy) \<longrightarrow> (case gate of Some g \<Rightarrow> g () | None \<Rightarrow> True) \<longrightarrow>
      hr_status (readyz cfg gate status (startAll (newChannelManager cfg c))) = 200)"
proof -
  define m where "m = startAll (newChannelManager cfg c)"
  have iff: "hr_status (readyz cfg gate status m) = 200 \<longleftrightarrow>
      (case gate of Some g \<Rightarrow> g () | None \<Rightarrow> True) \<and> minHealthyChannels cfg \<le> int (healthyCount status m)"
    by (auto simp: readyz_def plainText_def Let_def split: option.splits)
  note st = started_entries[OF assms, of c, folded m_def]
  have "minHealthyChannels cfg \<le> int (healthyCount status m)" if h: "\<forall>ch. st_state (status ch) = Healthy"
  proof -
    have "cm_started m" by (simp add: m_def startAll_def case_prod_beta)
    then have "\<forall>(i, e) \<in> set (cm_entries m). \<exists>c. e = runEntry True c"
      using st by (fastforce simp: mgr_ok_def entries_ok_def)
    then have "healthyCount status m = totalCount m"
      using allHealthy_count[of "cm_entries m" status] h by (simp add: healthyCount_def channelViews_def totalCount_def)
    then show ?thesis using st loadConfig_ok[OF assms] by simp
  qed
  then show ?thesis using iff unfolding m_def[symmetric] by blast
qed

theorem readiness_reachable_witness:
  "\<exists>cfg. loadConfig (\<lambda>_. None) (\<lambda>_. False) demoVars = Inr cfg \<and>
    hr_status (readyz cfg (Some (\<lambda>_. True)) (\<lambda>_. newStatus\<lparr>st_state := Healthy\<rparr>) (startAll (newChannelManager cfg [demoSub, demoSub]))) = 200"
proof -
  obtain cfg where cfg: "loadConfig (\<lambda>_. None) (\<lambda>_. False) demoVars = Inr cfg"
    using demoVars_load by (auto split: sum.splits)
  then show ?thesis
    using readiness_reachable[OF cfg, of "Some (\<lambda>_. True)" "\<lambda>_. newStatus\<lparr>st_state := Healthy\<rparr>" "[demoSub, demoSub]"] by simp
qed

text \<open>The liveness endpoint compares an unsigned difference: when the TAI clock has stepped back behind the last
  heartbeat, by however little, the process is reported as stalled.\<close>

lemma livez_clock_step:
  assumes "0 < d" "uint d < 2 ^ 63"
  shows "hr_status (livez beat (beat - d)) = 503"
proof -
  have d: "0 < uint d" using assms(1) by (simp add: word_less_def)
  have "uint (- d) = (- uint d) mod 2 ^ 64" by (simp add: uint_word_ariths)
  also have "\<dots> = (2 ^ 64 - uint d) mod 2 ^ 64" by (simp add: mod_diff_left_eq)
  also have "\<dots> = 2 ^ 64 - uint d" using d assms(2) by (intro mod_pos_pos_trivial) simp_all
  finally have "5000000000 < - d" using assms(2) by (simp add: word_less_def)
  then show ?thesis by (simp add: livez_def plainText_def)
qed

end
