(* ===== verification/OutputState.thy ===== *)
theory OutputState
  imports ConfigTypes ChannelState ReopenSchedule Interlace Mxl
begin

text \<open>
  The state of an output channel (\<open>src/channel/output_channel.hpp\<close>) and the operations that keep
  track of its sources (\<open>output_channel.cpp\<close>): heads, stalls, late runs, catch-ups and flow
  invalidation.

  Everything outside the program (the MXL readers and the sync group, the card, the clocks, the
  \<open>stop\<close> request of another thread) answers through \<open>Env\<close>: each call takes the value at the
  current \<open>tick\<close>, which counts the calls made so far.  The environment is arbitrary, so a theorem
  over all environments holds for every behaviour of the sources, the card and the scheduler.
  \<open>sync\<close> is the list of the reader handles the channel has in its group.  The Prometheus counters
  are natural numbers (the code counts in doubles, exact below \<open>2 ^ 53\<close>); log lines are kept only
  where they carry sums (\<open>OutLog\<close>).
\<close>

subsection \<open>External answers\<close>

text \<open>An open reader: its MXL handle, the flow's configuration and (video) the frame rate and the
  number of frames the ring holds.\<close>

record OpenReader =
  r_handle :: handle
  r_config :: mxlFlowConfigInfo
  r_rate :: mxlRational
  r_frames :: u32

datatype CompletionResult = Completed | DisplayedLate | Dropped | Flushed

record Env =
  steady :: "nat \<Rightarrow> u64"
  taiNow :: "nat \<Rightarrow> u64"
  currentIndex :: "nat \<Rightarrow> mxlRational \<Rightarrow> u64"
  videoHead :: "nat \<Rightarrow> handle \<Rightarrow> u64"
  audioHead :: "nat \<Rightarrow> handle \<Rightarrow> u64"
  videoGrain :: "nat \<Rightarrow> handle \<Rightarrow> u64 \<Rightarrow> u64 \<Rightarrow> mxlStatus \<times> Grain"
  audioRead :: "nat \<Rightarrow> handle \<Rightarrow> u64 \<Rightarrow> nat \<Rightarrow> u64 \<Rightarrow> nat \<Rightarrow> int list \<Rightarrow> int list \<Rightarrow> mxlStatus \<times> int list"
  videoGone :: "nat \<Rightarrow> handle \<Rightarrow> bool"
  audioGone :: "nat \<Rightarrow> handle \<Rightarrow> bool"
  syncTimestamp :: "handle \<Rightarrow> u64 \<Rightarrow> u64"
  waitFor :: "nat \<Rightarrow> handle list \<Rightarrow> u64 \<Rightarrow> u64 \<Rightarrow> mxlStatus"
  addOk :: "nat \<Rightarrow> handle \<Rightarrow> bool"
  openVideo :: "nat \<Rightarrow> string \<Rightarrow> Uuid \<Rightarrow> OpenReader option"
  openAudio :: "nat \<Rightarrow> string \<Rightarrow> Uuid \<Rightarrow> OpenReader option"
  frameAccepted :: "nat \<Rightarrow> u8 list \<Rightarrow> i64 \<Rightarrow> bool"
  streamTime :: "nat \<Rightarrow> u64 option"
  bufferedVideo :: "nat \<Rightarrow> u32"
  bufferedAudio :: "nat \<Rightarrow> u32"
  referenceLocked :: "nat \<Rightarrow> bool"
  sampleIndexOfFrame :: "mxlRational \<Rightarrow> u64 \<Rightarrow> u64"
  statusCode :: "mxlStatus \<Rightarrow> int"
  supportsMode :: "VideoMode \<Rightarrow> bool"
  groupOk :: "nat \<Rightarrow> bool"
  playbackOk :: "nat \<Rightarrow> bool"
  enableOk :: "nat \<Rightarrow> bool"
  startOk :: "nat \<Rightarrow> bool"
  stillRunning :: "nat \<Rightarrow> bool"

subsection \<open>State\<close>

record AudioFlowReader =
  a_cfg :: AudioFlowConfig
  a_reader :: "OpenReader option"
  a_flowInvalid :: bool
  a_stalled :: bool
  a_stallHead :: u64
  a_lastHead :: u64
  a_headChangeNs :: u64
  a_config :: mxlFlowConfigInfo

datatype RepeatReason = SourceStall | SourceLate | FlowReopen | SourceInvalid | ReadError

text \<open>The summed-up log lines of \<open>superviseStalls\<close>, with the numbers they carry.\<close>

datatype OutLog =
  LogStall
  | LogStallEnded u64 u64
  | LogLate u64
  | LogLateEnded u64
  | LogCaughtUp u64 u64 bool
  | LogInvalidGrain u64
  | LogReadError u64 int
  | LogFramesLost u64 u64 u64

record OutputChannel =
  cfg :: ChannelConfig
  status :: Status
  tick :: nat
  \<comment> \<open>readers and playback\<close>
  playback :: bool
  videoReader :: "OpenReader option"
  videoFlowInvalid :: bool
  videoRate :: mxlRational
  videoConfig :: mxlFlowConfigInfo
  aflows :: "AudioFlowReader list"
  sync :: "handle list option"
  mode :: VideoMode
  playing :: bool
  resetRequested :: bool
  streamingUp :: bool
  reopenRequested :: bool
  \<comment> \<open>scheduling\<close>
  nextGrainIndex :: u64
  scheduledFrames :: u64
  frameWaitNs :: u64
  scheduleMarginNs :: u64
  streamProbed :: bool
  streamWholeFrames :: bool
  lastCompletionNs :: u64
  lastCallbackEndNs :: u64
  readDeadlineNs :: u64
  lastFrame :: "u8 list"
  audioEndFrame :: u64
  maxSamplesPerFrame :: nat
  recentLateOrDropped :: u64
  recentWindowStart :: u64
  periodNs :: u64
  readOffset :: int
  behindSinceNs :: u64
  \<comment> \<open>stalls\<close>
  videoStalled :: bool
  videoStallHead :: u64
  videoLastHead :: u64
  videoHeadChangeNs :: u64
  stallSinceNs :: u64
  stallRepeatsAtStart :: u64
  stallsEnded :: u64
  endedStallRepeats :: u64
  lastStallNs :: u64
  \<comment> \<open>late runs, catch-ups, errors\<close>
  lateRunId :: u64
  lateRunCount :: u64
  prevLateRunCount :: u64
  lateRunStartNs :: u64
  lateSinceNs :: u64
  lateLastNs :: u64
  catchUps :: u64
  catchUpGrains :: u64
  lastCatchUpOutOfRing :: bool
  readErrors :: u64
  invalidGrains :: u64
  lastReadError :: int
  cardLate :: u64
  cardDropped :: u64
  notScheduled :: u64
  \<comment> \<open>supervisor\<close>
  reopen :: ReopenSchedule
  reopenDegraded :: bool
  lateDegraded :: bool
  stallDegraded :: bool
  stallLogged :: bool
  stallsEndedLogged :: u64
  endedStallRepeatsLogged :: u64
  stallEndLogNs :: u64
  lateRunStartLogged :: u64
  lateRunEndLogged :: u64
  catchUpsLogged :: u64
  catchUpGrainsLogged :: u64
  catchUpLogNs :: u64
  invalidGrainsLogged :: u64
  invalidLogNs :: u64
  readErrorsLogged :: u64
  readErrorLogNs :: u64
  cardLateLogged :: u64
  cardDroppedLogged :: u64
  notScheduledLogged :: u64
  cardLogNs :: u64
  logs :: "OutLog list"
  \<comment> \<open>metrics\<close>
  m_framesTotal :: nat
  m_framesDropped :: nat
  m_framesLate :: nat
  m_reconnectTotal :: nat
  m_flowReopens :: nat
  m_repeatedSourceStall :: nat
  m_repeatedSourceLate :: nat
  m_repeatedFlowReopen :: nat
  m_repeatedSourceInvalid :: nat
  m_repeatedReadError :: nat
  m_stallsVideo :: nat
  m_stallsAudio :: nat
  m_readerLag :: u64
  \<comment> \<open>what the card was given: frames with their display times, audio blocks\<close>
  shown :: "(u8 list \<times> i64) list"
  played :: "int list list"

subsection \<open>Constants\<close>

definition kLateWindowNs :: u64 where "kLateWindowNs = 10000000000"
definition kLateThreshold :: u64 where "kLateThreshold = 25"
definition kScheduleMarginNs :: u64 where "kScheduleMarginNs = 8000000"
definition kHeldUpNs :: u64 where "kHeldUpNs = 1000000"
definition kStallDegradedNs :: u64 where "kStallDegradedNs = 1000000000"
definition kStallLogNs :: u64 where "kStallLogNs = 200000000"
definition kStallPeriods :: u64 where "kStallPeriods = 2"
definition kCatchUpGrains :: u64 where "kCatchUpGrains = 2"
definition kCatchUpAfterNs :: u64 where "kCatchUpAfterNs = 1000000000"
definition kLateDegradedNs :: u64 where "kLateDegradedNs = 1000000000"
definition kLateRunLog :: u64 where "kLateRunLog = 3"
definition kLateRunGapNs :: u64 where "kLateRunGapNs = 1000000000"
definition kEventLogIntervalNs :: u64 where "kEventLogIntervalNs = 1000000000"
definition kInvalidGrain :: int where "kInvalidGrain = -1"

definition backoffForAttempt :: "nat \<Rightarrow> nat" where
  "backoffForAttempt attempt =
     (let kBackoffMs = [500, 1000, 2000, 5000, 10000]; n = length kBackoffMs
      in kBackoffMs ! (if attempt < n then attempt else n - 1))"

definition sameRate :: "mxlRational \<Rightarrow> mxlRational \<Rightarrow> bool" where
  "sameRate a b \<longleftrightarrow> numerator a = numerator b \<and> denominator a = denominator b"

definition sameVideoFormat :: "mxlFlowConfigInfo \<Rightarrow> mxlFlowConfigInfo \<Rightarrow> bool" where
  "sameVideoFormat a b \<longleftrightarrow> fc_format a = fc_format b \<and> sameRate (fc_grainRate a) (fc_grainRate b) \<and>
     fc_sliceSize0 a = fc_sliceSize0 b"

definition sameAudioFormat :: "mxlFlowConfigInfo \<Rightarrow> mxlFlowConfigInfo \<Rightarrow> bool" where
  "sameAudioFormat a b \<longleftrightarrow> fc_format a = fc_format b \<and> sameRate (fc_grainRate a) (fc_grainRate b) \<and>
     fc_channelCount a = fc_channelCount b"

subsection \<open>Calls into the environment\<close>

definition ticked :: "OutputChannel \<Rightarrow> OutputChannel" where
  "ticked s = s\<lparr>tick := Suc (tick s)\<rparr>"

definition steadyNowNs :: "Env \<Rightarrow> OutputChannel \<Rightarrow> u64 \<times> OutputChannel" where
  "steadyNowNs e s = (steady e (tick s), ticked s)"

definition taiNowNs :: "Env \<Rightarrow> OutputChannel \<Rightarrow> u64 \<times> OutputChannel" where
  "taiNowNs e s = (taiNow e (tick s), ticked s)"

definition videoHeadIndex :: "Env \<Rightarrow> OpenReader \<Rightarrow> OutputChannel \<Rightarrow> u64 \<times> OutputChannel" where
  "videoHeadIndex e r s = (videoHead e (tick s) (r_handle r), ticked s)"

definition audioHeadIndex :: "Env \<Rightarrow> OpenReader \<Rightarrow> OutputChannel \<Rightarrow> u64 \<times> OutputChannel" where
  "audioHeadIndex e r s = (audioHead e (tick s) (r_handle r), ticked s)"

definition getGrain :: "Env \<Rightarrow> OpenReader \<Rightarrow> u64 \<Rightarrow> u64 \<Rightarrow> OutputChannel \<Rightarrow> (mxlStatus \<times> Grain) \<times> OutputChannel" where
  "getGrain e r index timeoutNs s = (videoGrain e (tick s) (r_handle r) index timeoutNs, ticked s)"

text \<open>The sync group: removing never fails, adding may.\<close>

definition syncRemove :: "handle \<Rightarrow> OutputChannel \<Rightarrow> OutputChannel" where
  "syncRemove h s = s\<lparr>sync := map_option (removeAll h) (sync s)\<rparr>"

definition syncAdd :: "Env \<Rightarrow> handle \<Rightarrow> OutputChannel \<Rightarrow> bool \<times> OutputChannel" where
  "syncAdd e h s =
     (case sync s of
        None \<Rightarrow> (True, s)
      | Some hs \<Rightarrow> if addOk e (tick s) h then (True, (ticked s)\<lparr>sync := Some (List.insert h hs)\<rparr>)
                   else (False, ticked s))"

subsection \<open>Channel state\<close>

definition setState :: "State \<Rightarrow> OutputChannel \<Rightarrow> OutputChannel" where
  "setState st s = s\<lparr>status := (status s)\<lparr>st_state := st\<rparr>\<rparr>"

definition updateRunningState :: "OutputChannel \<Rightarrow> OutputChannel" where
  "updateRunningState s =
     (if \<not> streamingUp s then s
      else setState (if reopenDegraded s \<or> stallDegraded s \<or> lateDegraded s then Degraded else Healthy) s)"

definition requestReopen :: "OutputChannel \<Rightarrow> OutputChannel" where
  "requestReopen s = s\<lparr>reopenRequested := True\<rparr>"

subsection \<open>Heads and stalls\<close>

definition noteHead :: "u64 \<Rightarrow> u64 \<Rightarrow> u64 \<times> u64 \<Rightarrow> u64 \<times> u64" where
  "noteHead head nowNs = (\<lambda>(lastHead, changedNs).
     if head \<noteq> lastHead \<or> changedNs = 0 then (head, nowNs) else (lastHead, changedNs))"

definition noteVideoHead :: "u64 \<Rightarrow> u64 \<Rightarrow> OutputChannel \<Rightarrow> OutputChannel" where
  "noteVideoHead head nowNs s =
     (let (h, c) = noteHead head nowNs (videoLastHead s, videoHeadChangeNs s)
      in s\<lparr>videoLastHead := h, videoHeadChangeNs := c\<rparr>)"

definition noteAudioHead :: "nat \<Rightarrow> u64 \<Rightarrow> u64 \<Rightarrow> OutputChannel \<Rightarrow> OutputChannel" where
  "noteAudioHead slot head nowNs s =
     (let af = aflows s ! slot; (h, c) = noteHead head nowNs (a_lastHead af, a_headChangeNs af)
      in s\<lparr>aflows := (aflows s)[slot := af\<lparr>a_lastHead := h, a_headChangeNs := c\<rparr>]\<rparr>)"

definition forSlots :: "(nat \<Rightarrow> OutputChannel \<Rightarrow> OutputChannel) \<Rightarrow> OutputChannel \<Rightarrow> OutputChannel" where
  "forSlots f s = fold f [0..<length (aflows s)] s"

definition anyStalled :: "OutputChannel \<Rightarrow> bool" where
  "anyStalled s \<longleftrightarrow> videoStalled s \<or>
     list_ex (\<lambda>af. a_stalled af \<and> a_reader af \<noteq> None \<and> \<not> a_flowInvalid af) (aflows s)"

definition updateStallClock :: "Env \<Rightarrow> OutputChannel \<Rightarrow> OutputChannel" where
  "updateStallClock e s =
     (let since = stallSinceNs s in
      if anyStalled s \<and> since = 0 then
        let (t, s) = steadyNowNs e s
        in s\<lparr>stallRepeatsAtStart := of_nat (m_repeatedSourceStall s), stallSinceNs := t\<rparr>
      else if \<not> anyStalled s \<and> since \<noteq> 0 then
        let (t, s) = steadyNowNs e s
        in s\<lparr>lastStallNs := t - since,
             endedStallRepeats := endedStallRepeats s + (of_nat (m_repeatedSourceStall s) - stallRepeatsAtStart s),
             stallsEnded := stallsEnded s + 1, stallSinceNs := 0\<rparr>
      else s)"

definition setVideoStalled :: "Env \<Rightarrow> bool \<Rightarrow> OutputChannel \<Rightarrow> OutputChannel" where
  "setVideoStalled e stalled s =
     (case videoReader s of
        None \<Rightarrow> s
      | Some r \<Rightarrow>
          if videoStalled s = stalled then s
          else
            let (head, s) = (if stalled then videoHeadIndex e r s else (0, s));
                s = s\<lparr>videoStalled := stalled, videoStallHead := head\<rparr>;
                s = (if stalled then syncRemove (r_handle r) s else snd (syncAdd e (r_handle r) s));
                s = (if stalled then s\<lparr>m_stallsVideo := m_stallsVideo s + 1\<rparr> else s)
            in updateStallClock e s)"

definition setAudioStalled :: "Env \<Rightarrow> nat \<Rightarrow> bool \<Rightarrow> OutputChannel \<Rightarrow> OutputChannel" where
  "setAudioStalled e slot stalled s =
     (case a_reader (aflows s ! slot) of
        None \<Rightarrow> s
      | Some r \<Rightarrow>
          if a_stalled (aflows s ! slot) = stalled then s
          else
            let (head, s) = (if stalled then audioHeadIndex e r s else (0, s));
                s = s\<lparr>aflows := map (\<lambda>af.
                      if map_option r_handle (a_reader af) = Some (r_handle r) \<and> \<not> a_flowInvalid af
                      then af\<lparr>a_stalled := stalled, a_stallHead := head\<rparr> else af) (aflows s)\<rparr>;
                s = (if stalled then syncRemove (r_handle r) s else snd (syncAdd e (r_handle r) s));
                s = (if stalled then s\<lparr>m_stallsAudio := m_stallsAudio s + 1\<rparr> else s)
            in updateStallClock e s)"

definition readable :: "AudioFlowReader \<Rightarrow> bool" where
  "readable af \<longleftrightarrow> a_reader af \<noteq> None \<and> \<not> a_flowInvalid af"

definition markStalledSlot :: "Env \<Rightarrow> u64 \<Rightarrow> nat \<Rightarrow> OutputChannel \<Rightarrow> OutputChannel" where
  "markStalledSlot e now slot s =
     (case a_reader (aflows s ! slot) of
        None \<Rightarrow> s
      | Some r \<Rightarrow>
          if \<not> a_flowInvalid (aflows s ! slot) \<and> \<not> a_stalled (aflows s ! slot) then
            let (head, s) = audioHeadIndex e r s; s = noteAudioHead slot head now s
            in if now - a_headChangeNs (aflows s ! slot) \<ge> kStallPeriods * periodNs s
               then setAudioStalled e slot True s else s
          else s)"

definition markStalledAudio :: "Env \<Rightarrow> OutputChannel \<Rightarrow> OutputChannel" where
  "markStalledAudio e s = (let (now, s) = steadyNowNs e s in forSlots (markStalledSlot e now) s)"

subsection \<open>Re-created flows\<close>

definition markVideoFlowInvalid :: "Env \<Rightarrow> OutputChannel \<Rightarrow> OutputChannel" where
  "markVideoFlowInvalid e s =
     (case videoReader s of
        None \<Rightarrow> s
      | Some r \<Rightarrow>
          if videoFlowInvalid s then s
          else
            let s = s\<lparr>videoFlowInvalid := True\<rparr>;
                s = syncRemove (r_handle r) s;
                s = s\<lparr>videoStalled := False\<rparr>
            in requestReopen (updateStallClock e s))"

definition markAudioFlowInvalid :: "Env \<Rightarrow> nat \<Rightarrow> OutputChannel \<Rightarrow> OutputChannel" where
  "markAudioFlowInvalid e slot s =
     (let flowId = af_flowId (a_cfg (aflows s ! slot));
          hit = (\<lambda>af. readable af \<and> af_flowId (a_cfg af) = flowId);
          handles = map (\<lambda>af. r_handle (the (a_reader af))) (filter hit (aflows s));
          marked = handles \<noteq> [];
          s = s\<lparr>aflows := map (\<lambda>af. if hit af then af\<lparr>a_flowInvalid := True, a_stalled := False\<rparr> else af) (aflows s)\<rparr>;
          s = fold syncRemove handles s
      in if marked then requestReopen (updateStallClock e s) else s)"

definition findInvalidSlot :: "Env \<Rightarrow> nat \<Rightarrow> OutputChannel \<Rightarrow> OutputChannel" where
  "findInvalidSlot e slot s =
     (case a_reader (aflows s ! slot) of
        None \<Rightarrow> s
      | Some r \<Rightarrow>
          if a_flowInvalid (aflows s ! slot) then s
          else if audioGone e (tick s) (r_handle r) then markAudioFlowInvalid e slot (ticked s) else ticked s)"

definition findInvalidReaders :: "Env \<Rightarrow> OutputChannel \<Rightarrow> OutputChannel" where
  "findInvalidReaders e s =
     (let s = (case videoReader s of
                 None \<Rightarrow> s
               | Some r \<Rightarrow>
                   if videoFlowInvalid s then s
                   else if videoGone e (tick s) (r_handle r) then markVideoFlowInvalid e (ticked s) else ticked s)
      in forSlots (findInvalidSlot e) s)"

subsection \<open>Late runs and the read position\<close>

definition noteLate :: "u64 \<Rightarrow> OutputChannel \<Rightarrow> OutputChannel" where
  "noteLate nowNs s =
     (let last = lateLastNs s;
          s = (if last = 0 \<or> nowNs - last > kLateRunGapNs
               then s\<lparr>prevLateRunCount := lateRunCount s, lateRunCount := 0, lateRunStartNs := nowNs,
                      lateRunId := lateRunId s + 1\<rparr>
               else s)
      in s\<lparr>lateRunCount := lateRunCount s + 1, lateLastNs := nowNs\<rparr>)"

definition catchUp :: "Env \<Rightarrow> u64 \<Rightarrow> u64 \<Rightarrow> bool \<Rightarrow> OutputChannel \<Rightarrow> i64 \<times> OutputChannel" where
  "catchUp e grainIndex head now s =
     (if \<not> playing s then (0, s)
      else
        let offset = of_int (readOffset s) in
        if head \<le> grainIndex + offset + kCatchUpGrains then (0, s\<lparr>behindSinceNs := 0\<rparr>)
        else
          let (t, s) = steadyNowNs e s;
              s = (if behindSinceNs s = 0 then s\<lparr>behindSinceNs := t\<rparr> else s)
          in if \<not> now \<and> t - behindSinceNs s < kCatchUpAfterNs then (0, s)
             else
               let skip = head - grainIndex - offset - 1
               in (skip, s\<lparr>behindSinceNs := 0, catchUpGrains := catchUpGrains s + skip,
                           lastCatchUpOutOfRing := now, catchUps := catchUps s + 1\<rparr>))"

definition showable :: "Grain \<Rightarrow> bool" where
  "showable g \<longleftrightarrow> g_payload g \<noteq> None \<and> \<not> g_invalid g"

definition resumeAt :: "Env \<Rightarrow> OpenReader \<Rightarrow> u64 \<Rightarrow> u64 \<Rightarrow> Grain \<Rightarrow> mxlStatus \<Rightarrow> OutputChannel \<Rightarrow>
    (i64 \<times> Grain \<times> mxlStatus) \<times> OutputChannel" where
  "resumeAt e r grainIndex head grain st s =
     (let offset = of_int (readOffset s) in
      if head < offset \<or> head - offset \<le> grainIndex then ((0, grain, st), s)
      else
        let target = head - offset;
            ((read, newest), s) = getGrain e r target 0 s
        in if read \<noteq> MXL_STATUS_OK \<or> \<not> showable newest then ((0, grain, st), s)
           else
             let skip = target - grainIndex
             in ((skip, newest, read),
                 s\<lparr>lateSinceNs := 0, catchUpGrains := catchUpGrains s + skip,
                   lastCatchUpOutOfRing := True, catchUps := catchUps s + 1\<rparr>))"

definition capSlot :: "int \<Rightarrow> nat \<Rightarrow> int \<Rightarrow> AudioFlowReader \<Rightarrow> int" where
  "capSlot preroll maxSamples cap af =
     (case a_reader af of
        None \<Rightarrow> cap
      | Some r \<Rightarrow>
          if maxSamples > 0
          then min cap (int (unat (fc_bufferLength (r_config r)) div 2 div maxSamples) - 1 - preroll)
          else cap)"

definition capReadOffset :: "u64 \<Rightarrow> OutputChannel \<Rightarrow> OutputChannel" where
  "capReadOffset preroll s =
     (let requested = readOffsetGrains (cfg s);
          cap = (case videoReader s of
                   None \<Rightarrow> requested
                 | Some r \<Rightarrow> min requested (int (unat (r_frames r)) - 3 - int (unat preroll)));
          cap = foldl (capSlot (int (unat preroll)) (maxSamplesPerFrame s)) cap (aflows s)
      in s\<lparr>readOffset := max cap 0, status := (status s)\<lparr>st_readOffsetGrains := max cap 0\<rparr>\<rparr>)"

end
