(* ===== verification/OutputChannel.thy ===== *)
theory OutputChannel
  imports OutputState AudioConv
begin

text \<open>
  The callbacks and the supervisor of an output channel (\<open>src/channel/output_channel.cpp\<close>):
  reading and scheduling a grain, the completion and audio callbacks, re-opening readers, stall
  supervision, teardown.  The callbacks run under \<open>_callbackMutex\<close>, so each is one step; the
  re-open of the supervisor has two critical sections and is split at them.
\<close>

subsection \<open>Reading a grain\<close>

text \<open>The heads before the wait.\<close>

definition noteSlotBefore :: "Env \<Rightarrow> u64 \<Rightarrow> nat \<Rightarrow> OutputChannel \<Rightarrow> OutputChannel" where
  "noteSlotBefore e beforeNs slot s =
     (case a_reader (aflows s ! slot) of
        None \<Rightarrow> s
      | Some r \<Rightarrow>
          if \<not> a_flowInvalid (aflows s ! slot) \<and> \<not> a_stalled (aflows s ! slot)
          then let (head, s) = audioHeadIndex e r s in noteAudioHead slot head beforeNs s
          else s)"

definition noteHeadsBefore :: "Env \<Rightarrow> OpenReader \<Rightarrow> OutputChannel \<Rightarrow> OutputChannel" where
  "noteHeadsBefore e r s =
     (let (beforeNs, s) = steadyNowNs e s;
          (head, s) = videoHeadIndex e r s;
          s = noteVideoHead head beforeNs s
      in forSlots (noteSlotBefore e beforeNs) s)"

text \<open>The wait of the sync group; the result is the timeout left for the grain read.\<close>

definition waitForGroup :: "Env \<Rightarrow> OpenReader \<Rightarrow> u64 \<Rightarrow> u64 \<Rightarrow> OutputChannel \<Rightarrow> u64 \<times> OutputChannel" where
  "waitForGroup e r grainIndex timeoutNs s =
     (let grainTimeoutNs = (if videoStalled s then 0 else timeoutNs) in
      case sync s of
        None \<Rightarrow> (grainTimeoutNs, s)
      | Some hs \<Rightarrow>
          let timestamp = syncTimestamp e (r_handle r) grainIndex in
          if timestamp = - 1 then (grainTimeoutNs, s)
          else
            let waited = waitFor e (tick s) hs timestamp timeoutNs; s = ticked s in
            if waited = MXL_STATUS_OK then (0, s)
            else if waited = MXL_ERR_FLOW_INVALID then (0, findInvalidReaders e s)
            else if waited = MXL_ERR_OUT_OF_RANGE_TOO_EARLY \<or> waited = MXL_ERR_TIMEOUT
                 then (0, markStalledAudio e s)
            else (0, s))"

text \<open>What one read found: the status and the grain to show, why the frame is repeated if it is, and
  the change of the read position.\<close>

record ReadResult =
  rd_status :: mxlStatus
  rd_grain :: Grain
  rd_reason :: RepeatReason
  rd_adjust :: i64

definition missing :: "mxlStatus \<Rightarrow> bool" where
  "missing st \<longleftrightarrow> st = MXL_ERR_OUT_OF_RANGE_TOO_EARLY \<or> st = MXL_ERR_TIMEOUT"

text \<open>The grain was read (possibly one its writer marked invalid).\<close>

definition onGrainRead :: "Env \<Rightarrow> OpenReader \<Rightarrow> u64 \<Rightarrow> u64 \<Rightarrow> Grain \<Rightarrow> OutputChannel \<Rightarrow> ReadResult \<times> OutputChannel" where
  "onGrainRead e r grainIndex head grain s =
     (let wasStalled = videoStalled s;
          s = setVideoStalled e False s;
          s = s\<lparr>lateSinceNs := 0\<rparr>;
          offset = of_int (readOffset s)
      in if \<not> showable grain \<and> (wasStalled \<or> head > grainIndex + offset + 1)
         then let ((adjust, grain, st), s) = resumeAt e r grainIndex head grain MXL_STATUS_OK s
              in (\<lparr>rd_status = st, rd_grain = grain, rd_reason = SourceInvalid, rd_adjust = adjust\<rparr>, s)
         else let (adjust, s) = catchUp e grainIndex head False s
              in (\<lparr>rd_status = MXL_STATUS_OK, rd_grain = grain, rd_reason = SourceInvalid, rd_adjust = adjust\<rparr>, s))"

text \<open>The grain is not there yet.\<close>

definition onGrainMissing :: "Env \<Rightarrow> OpenReader \<Rightarrow> u64 \<Rightarrow> u64 \<Rightarrow> u64 \<Rightarrow> mxlStatus \<Rightarrow> Grain \<Rightarrow> OutputChannel \<Rightarrow>
    ReadResult \<times> OutputChannel" where
  "onGrainMissing e r grainIndex head now st grain s =
     (let res = \<lparr>rd_status = st, rd_grain = grain, rd_reason = SourceStall, rd_adjust = 0\<rparr> in
      if videoStalled s then
        if head \<noteq> videoStallHead s then
          let s = setVideoStalled e False s;
              ((adjust, grain, st), s) = resumeAt e r grainIndex head grain st s
          in (\<lparr>rd_status = st, rd_grain = grain, rd_reason = SourceStall, rd_adjust = adjust\<rparr>, s)
        else (res, s)
      else if grainIndex < head then (res\<lparr>rd_reason := ReadError\<rparr>, s)
      else if now - videoHeadChangeNs s \<ge> kStallPeriods * periodNs s then (res, setVideoStalled e True s)
      else
        let s = (if playing s
                 then let s = noteLate now s
                      in if lateSinceNs s = 0 then s\<lparr>lateSinceNs := now\<rparr> else s
                 else s)
        in (res\<lparr>rd_reason := SourceLate, rd_adjust := - 1\<rparr>, s))"

text \<open>Any other error; out of the ring, the read position moves to the source.\<close>

definition onGrainError :: "Env \<Rightarrow> OpenReader \<Rightarrow> u64 \<Rightarrow> u64 \<Rightarrow> mxlStatus \<Rightarrow> Grain \<Rightarrow> OutputChannel \<Rightarrow>
    ReadResult \<times> OutputChannel" where
  "onGrainError e r grainIndex head st grain s =
     (if st = MXL_ERR_OUT_OF_RANGE_TOO_LATE then
        let ((adjust, grain, st), s) = resumeAt e r grainIndex head grain st s in
        if st = MXL_STATUS_OK
        then (\<lparr>rd_status = st, rd_grain = grain, rd_reason = ReadError, rd_adjust = adjust\<rparr>, setVideoStalled e False s)
        else
          let (adjust, s) = (if adjust = 0 then catchUp e grainIndex head True s else (adjust, s))
          in (\<lparr>rd_status = st, rd_grain = grain, rd_reason = ReadError, rd_adjust = adjust\<rparr>, s)
      else (\<lparr>rd_status = st, rd_grain = grain, rd_reason = ReadError, rd_adjust = 0\<rparr>, s))"

definition readAfterWait :: "Env \<Rightarrow> OpenReader \<Rightarrow> u64 \<Rightarrow> u64 \<Rightarrow> OutputChannel \<Rightarrow> ReadResult \<times> OutputChannel" where
  "readAfterWait e r grainIndex grainTimeoutNs s =
     (let ((st, grain), s) = getGrain e r grainIndex grainTimeoutNs s in
      if st = MXL_ERR_FLOW_INVALID
      then (\<lparr>rd_status = st, rd_grain = grain, rd_reason = FlowReopen, rd_adjust = 0\<rparr>, markVideoFlowInvalid e s)
      else
        let (now, s) = steadyNowNs e s;
            (head, s) = videoHeadIndex e r s;
            s = noteVideoHead head now s;
            ((st, grain), s) =
              (if missing st \<and> grainIndex < head then getGrain e r grainIndex 0 s else ((st, grain), s))
        in if st = MXL_STATUS_OK then onGrainRead e r grainIndex head grain s
           else if missing st then onGrainMissing e r grainIndex head now st grain s
           else onGrainError e r grainIndex head st grain s)"

definition noRead :: ReadResult where
  "noRead = \<lparr>rd_status = MXL_ERR_UNKNOWN, rd_grain = noGrain, rd_reason = FlowReopen, rd_adjust = 0\<rparr>"

definition readGrain :: "Env \<Rightarrow> u64 \<Rightarrow> u64 \<Rightarrow> OutputChannel \<Rightarrow> ReadResult \<times> OutputChannel" where
  "readGrain e grainIndex waitNs s =
     (case videoReader s of
        None \<Rightarrow> (noRead, s)
      | Some r \<Rightarrow>
          if videoFlowInvalid s then (noRead, s)
          else
            let s = noteHeadsBefore e r s;
                (grainTimeoutNs, s) = waitForGroup e r grainIndex waitNs s
            in if videoFlowInvalid s then (noRead, s) else readAfterWait e r grainIndex grainTimeoutNs s)"

subsection \<open>Scheduling\<close>

text \<open>The read position moves, and the audio read position with it.\<close>

definition moveReadPosition :: "u64 \<Rightarrow> i64 \<Rightarrow> OutputChannel \<Rightarrow> OutputChannel" where
  "moveReadPosition grainIndex adjust s =
     (let before = nextGrainIndex s;
          s = (if sint adjust < 0 \<and> nextGrainIndex s > grainIndex then s\<lparr>nextGrainIndex := grainIndex\<rparr>
               else if 0 < sint adjust then s\<lparr>nextGrainIndex := nextGrainIndex s + adjust\<rparr>
               else s)
      in if nextGrainIndex s \<noteq> before \<and> aflows s \<noteq> []
         then s\<lparr>audioEndFrame := audioEndFrame s + (nextGrainIndex s - before)\<rparr>
         else s)"

definition countRepeat :: "Env \<Rightarrow> RepeatReason \<Rightarrow> mxlStatus \<Rightarrow> OutputChannel \<Rightarrow> OutputChannel" where
  "countRepeat e reason st s =
     (let s = (case reason of
                 SourceStall \<Rightarrow> s\<lparr>m_repeatedSourceStall := m_repeatedSourceStall s + 1\<rparr>
               | SourceLate \<Rightarrow> s\<lparr>m_repeatedSourceLate := m_repeatedSourceLate s + 1\<rparr>
               | FlowReopen \<Rightarrow> s\<lparr>m_repeatedFlowReopen := m_repeatedFlowReopen s + 1\<rparr>
               | SourceInvalid \<Rightarrow> s\<lparr>m_repeatedSourceInvalid := m_repeatedSourceInvalid s + 1,
                                    invalidGrains := invalidGrains s + 1\<rparr>
               | ReadError \<Rightarrow> s\<lparr>m_repeatedReadError := m_repeatedReadError s + 1,
                                readErrors := readErrors s + 1,
                                lastReadError := (if st = MXL_STATUS_OK then kInvalidGrain else statusCode e st)\<rparr>)
      in s\<lparr>status := (status s)\<lparr>framesRepeated := framesRepeated (status s) + 1\<rparr>\<rparr>)"

text \<open>Handing \<open>lastFrame\<close> to the card, which may refuse it, and the counters of a frame it took.\<close>

definition presentFrame :: "Env \<Rightarrow> bool \<Rightarrow> ReadResult \<Rightarrow> OutputChannel \<Rightarrow> bool \<times> OutputChannel" where
  "presentFrame e repeated rd s =
     (let displayTime = scheduledFrames s * vm_rateDenominator (mode s) * 1000 in
      if \<not> frameAccepted e (tick s) (lastFrame s) displayTime then (False, ticked s)
      else
        let s = ticked s;
            s = s\<lparr>shown := shown s @ [(lastFrame s, displayTime)],
                  scheduledFrames := scheduledFrames s + 1,
                  m_framesTotal := m_framesTotal s + 1,
                  status := (status s)\<lparr>framesTotal := framesTotal (status s) + 1\<rparr>\<rparr>
        in if repeated then (True, countRepeat e (rd_reason rd) (rd_status rd) s)
           else
             let (t, s) = taiNowNs e s
             in (True, s\<lparr>status := (status s)\<lparr>lastFrameTaiNs := t,
                   grainsCommitted := grainsCommitted (status s) + 1\<rparr>\<rparr>))"

definition commitFrame :: "Env \<Rightarrow> ReadResult \<Rightarrow> OutputChannel \<Rightarrow> bool \<times> OutputChannel" where
  "commitFrame e rd s =
     (if rd_status rd = MXL_STATUS_OK \<and> showable (rd_grain rd)
      then presentFrame e False rd (s\<lparr>lastFrame := the (g_payload (rd_grain rd))\<rparr>)
      else if lastFrame s \<noteq> [] then presentFrame e True rd s
      else (False, s))"

definition scheduleGrain :: "Env \<Rightarrow> u64 \<Rightarrow> u64 \<Rightarrow> OutputChannel \<Rightarrow> bool \<times> OutputChannel" where
  "scheduleGrain e grainIndex waitNs s =
     (let (rd, s) = readGrain e grainIndex waitNs s;
          s = moveReadPosition grainIndex (rd_adjust rd) s
      in commitFrame e rd s)"

subsection \<open>The completion callback\<close>

definition framePeriodNs :: "VideoMode \<Rightarrow> u64" where
  "framePeriodNs m = 1000000000 * vm_rateDenominator m div vm_rateNumerator m"

definition readBudgetNs :: "Env \<Rightarrow> OutputChannel \<Rightarrow> u64 \<times> OutputChannel" where
  "readBudgetNs e s =
     (if readDeadlineNs s = 0 then (frameWaitNs s, s)
      else let (now, s) = steadyNowNs e s
           in (if readDeadlineNs s > now then min (readDeadlineNs s - now) (frameWaitNs s) else 0, s))"

text \<open>A late or dropped frame: the counters and the window of the preroll reset.  The result says
  whether the reset was requested (the callback then ends).\<close>

definition countLateOrDropped :: "Env \<Rightarrow> CompletionResult \<Rightarrow> OutputChannel \<Rightarrow> bool \<times> OutputChannel" where
  "countLateOrDropped e result s =
     (let s = (if result = DisplayedLate
               then s\<lparr>m_framesLate := m_framesLate s + 1, cardLate := cardLate s + 1\<rparr>
               else s\<lparr>m_framesDropped := m_framesDropped s + 1,
                      status := (status s)\<lparr>framesDropped := framesDropped (status s) + 1\<rparr>,
                      cardDropped := cardDropped s + 1\<rparr>);
          (now, s) = taiNowNs e s;
          s = (if now - recentWindowStart s > kLateWindowNs
               then s\<lparr>recentWindowStart := now, recentLateOrDropped := 0\<rparr> else s);
          s = s\<lparr>recentLateOrDropped := recentLateOrDropped s + 1\<rparr>
      in if recentLateOrDropped s \<ge> kLateThreshold then (True, s\<lparr>resetRequested := True\<rparr>) else (False, s))"

definition estimateDeadline :: "Env \<Rightarrow> u64 \<Rightarrow> OutputChannel \<Rightarrow> OutputChannel" where
  "estimateDeadline e deliveredNs s =
     (let completedNs =
            (if lastCompletionNs s \<noteq> 0 \<and> deliveredNs \<le> lastCallbackEndNs s + kHeldUpNs
             then min deliveredNs (lastCompletionNs s + framePeriodNs (mode s)) else deliveredNs);
          s = s\<lparr>lastCompletionNs := completedNs, readDeadlineNs := completedNs + frameWaitNs s\<rparr>
      in if \<not> playback s then s
         else
           case streamTime e (tick s) of
             None \<Rightarrow> ticked s
           | Some stream \<Rightarrow>
               let s = ticked s;
                   shownAt = scheduledFrames s * 1000000000 * vm_rateDenominator (mode s) div vm_rateNumerator (mode s);
                   (now, s) = steadyNowNs e s;
                   slack = (if shownAt > stream + scheduleMarginNs s then shownAt - stream - scheduleMarginNs s else 0);
                   fromStream = now + min slack (frameWaitNs s)
               in s\<lparr>readDeadlineNs := (if streamWholeFrames s then min fromStream (readDeadlineNs s) else fromStream)\<rparr>)"

text \<open>The end of a completion callback: a frame that could not be scheduled is lost.\<close>

definition finishCallback :: "Env \<Rightarrow> bool \<times> OutputChannel \<Rightarrow> OutputChannel" where
  "finishCallback e = (\<lambda>(ok, s).
     let s = (if ok then s
              else s\<lparr>m_framesDropped := m_framesDropped s + 1,
                     status := (status s)\<lparr>framesDropped := framesDropped (status s) + 1\<rparr>,
                     notScheduled := notScheduled s + 1\<rparr>);
         (t, s) = steadyNowNs e s
     in s\<lparr>lastCallbackEndNs := t\<rparr>)"

definition scheduleNext :: "Env \<Rightarrow> u64 \<Rightarrow> OutputChannel \<Rightarrow> OutputChannel" where
  "scheduleNext e deliveredNs s =
     (let idx = nextGrainIndex s;
          s = s\<lparr>nextGrainIndex := idx + 1\<rparr>;
          s = estimateDeadline e deliveredNs s;
          (budget, s) = readBudgetNs e s
      in finishCallback e (scheduleGrain e idx budget s))"

definition onFrameCompleted :: "Env \<Rightarrow> CompletionResult \<Rightarrow> OutputChannel \<Rightarrow> OutputChannel" where
  "onFrameCompleted e result s =
     (let (deliveredNs, s) = steadyNowNs e s in
      if \<not> playing s then s
      else
        let (reset, s) = (if result = DisplayedLate \<or> result = Dropped
                          then countLateOrDropped e result s else (False, s))
        in if reset then s else scheduleNext e deliveredNs s)"

subsection \<open>The audio callback\<close>

record AudioPass =
  ap_pcm :: "int list"
  ap_anyOk :: bool
  ap_tooEarly :: bool
  ap_tooLate :: bool

text \<open>What a read of one slot means: a stalled source that writes again, silence, a block that is not
  there yet, or one that fell out of the ring.\<close>

definition afterAudioRead :: "Env \<Rightarrow> nat \<Rightarrow> OpenReader \<Rightarrow> mxlStatus \<Rightarrow> AudioPass \<Rightarrow> OutputChannel \<Rightarrow> AudioPass \<times> OutputChannel" where
  "afterAudioRead e slot r st ap s =
     (let (now, s) = steadyNowNs e s;
          (head, s) = audioHeadIndex e r s;
          s = noteAudioHead slot head now s;
          af = aflows s ! slot
      in if a_stalled af then
           let ap = ap\<lparr>ap_anyOk := ap_anyOk ap \<or> st = MXL_STATUS_OK\<rparr> in
           if head \<noteq> a_stallHead af
           then (ap\<lparr>ap_tooEarly := ap_tooEarly ap \<or> missing st\<rparr>, setAudioStalled e slot False s)
           else (ap, s)
         else if st = MXL_STATUS_OK then (ap\<lparr>ap_anyOk := True\<rparr>, s)
         else if missing st then
           if now - a_headChangeNs af \<ge> kStallPeriods * periodNs s
           then (ap, setAudioStalled e slot True s)
           else (ap\<lparr>ap_tooEarly := True\<rparr>, s)
         else if st = MXL_ERR_OUT_OF_RANGE_TOO_LATE then (ap\<lparr>ap_tooLate := True\<rparr>, s)
         else (ap, s))"

definition readSlot :: "Env \<Rightarrow> u64 \<Rightarrow> nat \<Rightarrow> u64 \<Rightarrow> nat \<Rightarrow> OpenReader \<Rightarrow> int list \<Rightarrow> OutputChannel \<Rightarrow>
    (mxlStatus \<times> int list) \<times> OutputChannel" where
  "readSlot e blockEnd blockSamples timeoutNs slot r pcm s =
     (let (head, s) = audioHeadIndex e r s;
          (now, s) = steadyNowNs e s;
          s = noteAudioHead slot head now s;
          af = aflows s ! slot
      in (audioRead e (tick s) (r_handle r) blockEnd blockSamples (if a_stalled af then 0 else timeoutNs)
            (nat (audioChannelCount (cfg s))) (af_deckLinkChannels (a_cfg af)) pcm, ticked s))"

definition renderSlot :: "Env \<Rightarrow> u64 \<Rightarrow> nat \<Rightarrow> u64 \<Rightarrow> nat \<Rightarrow> AudioPass \<times> OutputChannel \<Rightarrow> AudioPass \<times> OutputChannel" where
  "renderSlot e blockEnd blockSamples timeoutNs slot = (\<lambda>(ap, s).
     case a_reader (aflows s ! slot) of
       None \<Rightarrow> (ap, s)
     | Some r \<Rightarrow>
         if a_flowInvalid (aflows s ! slot) then (ap, s)
         else
           let ((st, pcm), s) = readSlot e blockEnd blockSamples timeoutNs slot r (ap_pcm ap) s;
               ap = ap\<lparr>ap_pcm := pcm\<rparr>
           in if st = MXL_ERR_FLOW_INVALID then (ap, markAudioFlowInvalid e slot s)
              else afterAudioRead e slot r st ap s)"

text \<open>The end of an audio callback: the block goes to the card, or is read again next time; out of the
  ring, the position goes back to the video's.\<close>

definition playBlock :: "AudioPass \<Rightarrow> OutputChannel \<Rightarrow> OutputChannel" where
  "playBlock ap s =
     (let s = (if ap_anyOk ap \<or> \<not> ap_tooEarly ap
               then s\<lparr>played := played s @ [ap_pcm ap]\<rparr>
               else s\<lparr>audioEndFrame := audioEndFrame s - 1\<rparr>)
      in if ap_tooLate ap \<and> \<not> ap_anyOk ap then
           let behind = (if outputPrerollGrains (cfg s) > 1 then of_int (outputPrerollGrains (cfg s) - 1) else 0)
           in s\<lparr>audioEndFrame := (if nextGrainIndex s > behind then nextGrainIndex s - behind else 0)\<rparr>
         else s)"

definition onRenderAudio :: "Env \<Rightarrow> OutputChannel \<Rightarrow> OutputChannel" where
  "onRenderAudio e s =
     (if aflows s = [] \<or> \<not> playback s then s
      else
        let s = s\<lparr>audioEndFrame := audioEndFrame s + 1\<rparr>;
            blockEnd = sampleIndexOfFrame e (videoRate s) (audioEndFrame s);
            blockSamples = unat (blockEnd - sampleIndexOfFrame e (videoRate s) (audioEndFrame s - 1));
            (timeoutNs, s) = readBudgetNs e s;
            pcm = replicate (blockSamples * nat (audioChannelCount (cfg s))) 0;
            (ap, s) = fold (renderSlot e blockEnd blockSamples timeoutNs) [0..<length (aflows s)]
              (\<lparr>ap_pcm = pcm, ap_anyOk = False, ap_tooEarly = False, ap_tooLate = False\<rparr>, s)
        in playBlock ap s)"

subsection \<open>Teardown and housekeeping\<close>

definition tearDownStreaming :: "OutputChannel \<Rightarrow> OutputChannel" where
  "tearDownStreaming s =
     s\<lparr>streamingUp := False, playing := False, sync := None, playback := False, videoReader := None,
       videoFlowInvalid := False, aflows := []\<rparr>"

definition housekeeping :: "Env \<Rightarrow> OutputChannel \<Rightarrow> OutputChannel" where
  "housekeeping e s =
     (if \<not> streamingUp s \<or> \<not> playback s then s
      else
        let audioBuffered = bufferedAudio e (tick s);
            s = s\<lparr>status := (status s)\<lparr>bufferedVideoFrames := bufferedVideo e (tick s),
                    bufferedAudioFrames := audioBuffered, signalLocked := referenceLocked e (tick s)\<rparr>\<rparr>;
            s = ticked s
        in case videoReader s of
             None \<Rightarrow> s
           | Some r \<Rightarrow>
               if videoFlowInvalid s then s
               else let (head, s) = videoHeadIndex e r s; next = nextGrainIndex s
                    in s\<lparr>m_readerLag := (if head > next then head - next else 0)\<rparr>)"

end
