(* ===== verification/OutputSupervisor.thy ===== *)
theory OutputSupervisor
  imports OutputChannel
begin

text \<open>
  The supervisor thread of an output channel (\<open>src/channel/output_channel.cpp\<close>): opening the readers
  of re-created flows again, the supervision of stalls and late runs with its summed-up log lines,
  bring-up with its waits and its preroll, and one round of the supervisor loop.  Waiting loops
  have fuel, the number of rounds; \<open>None\<close> means that they are still waiting.
\<close>

subsection \<open>Re-opening\<close>

record ReopenWork =
  rw_now :: u64
  rw_wantVideo :: bool
  rw_wantAudio :: "nat list"

text \<open>First critical section: the invalid readers are taken out and counted once per flow.\<close>

definition takeInvalid :: "u64 \<Rightarrow> OutputChannel \<Rightarrow> ReopenWork \<times> OutputChannel" where
  "takeInvalid now s =
     (let wantVideo = videoFlowInvalid s;
          oldVideo = (wantVideo \<and> videoReader s \<noteq> None);
          wantAudio = filter (\<lambda>i. a_flowInvalid (aflows s ! i)) [0..<length (aflows s)];
          newEvents = filter (\<lambda>i. a_reader (aflows s ! i) \<noteq> None) wantAudio;
          flows = remdups (map (\<lambda>i. af_flowId (a_cfg (aflows s ! i))) newEvents);
          s = (if wantVideo then s\<lparr>videoReader := None\<rparr> else s);
          s = s\<lparr>aflows := map (\<lambda>af. if a_flowInvalid af then af\<lparr>a_reader := None\<rparr> else af) (aflows s),
                m_flowReopens := m_flowReopens s + (if oldVideo then 1 else 0) + length flows\<rparr>
      in (\<lparr>rw_now = now, rw_wantVideo = wantVideo, rw_wantAudio = wantAudio\<rparr>, s))"

definition noteReopenDegraded :: "u64 \<Rightarrow> OutputChannel \<Rightarrow> OutputChannel" where
  "noteReopenDegraded now s =
     (if \<not> reopenDegraded s \<and> rs_degraded (reopen s) now
      then updateRunningState (s\<lparr>reopenDegraded := True\<rparr>) else s)"

definition acceptRequest :: "u64 \<Rightarrow> OutputChannel \<Rightarrow> OutputChannel" where
  "acceptRequest now s =
     (if reopenRequested s then s\<lparr>reopenRequested := False, reopen := flowInvalid (reopen s) now\<rparr> else s)"

definition reopenBegin :: "Env \<Rightarrow> OutputChannel \<Rightarrow> ReopenWork option \<times> OutputChannel" where
  "reopenBegin e s =
     (let (now, s) = steadyNowNs e s; s = acceptRequest now s
      in if \<not> rs_pending (reopen s) then (None, s)
         else if \<not> streamingUp s then (None, s\<lparr>reopen := clear (reopen s)\<rparr>)
         else if \<not> due (reopen s) now then (None, noteReopenDegraded now s)
         else let (w, s) = takeInvalid now s in (Some w, s))"

record ReopenResult =
  ro_video :: "OpenReader option"
  ro_audio :: "(nat \<times> OpenReader) list"
  ro_error :: bool
  ro_formatChanged :: bool

definition openSlot :: "Env \<Rightarrow> nat \<Rightarrow> ReopenResult \<times> OutputChannel \<Rightarrow> ReopenResult \<times> OutputChannel" where
  "openSlot e slot = (\<lambda>(res, s).
     let af = aflows s ! slot in
     case openAudio e (tick s) (af_readerDomainPath (a_cfg af)) (af_flowId (a_cfg af)) of
       None \<Rightarrow> (res\<lparr>ro_error := True\<rparr>, ticked s)
     | Some r \<Rightarrow>
         (res\<lparr>ro_formatChanged := ro_formatChanged res \<or> \<not> sameAudioFormat (r_config r) (a_config af),
              ro_audio := ro_audio res @ [(slot, r)]\<rparr>, ticked s))"

definition reopenOpen :: "Env \<Rightarrow> ReopenWork \<Rightarrow> OutputChannel \<Rightarrow> ReopenResult \<times> OutputChannel" where
  "reopenOpen e w s =
     (let res0 = \<lparr>ro_video = None, ro_audio = [], ro_error = False, ro_formatChanged = False\<rparr>;
          (res, s) =
            (if rw_wantVideo w then
               case openVideo e (tick s) (readerDomainPath (cfg s)) (videoFlowId (cfg s)) of
                 None \<Rightarrow> (res0\<lparr>ro_error := True\<rparr>, ticked s)
               | Some r \<Rightarrow>
                   (res0\<lparr>ro_video := Some r,
                         ro_formatChanged := \<not> sameVideoFormat (r_config r) (videoConfig s) \<or>
                           \<not> sameRate (r_rate r) (videoRate s)\<rparr>, ticked s)
             else (res0, s))
      in fold (openSlot e) (rw_wantAudio w) (res, s))"

text \<open>Second critical section: the new readers go in.  Adding to the group may fail, which restarts the
  channel.\<close>

definition installVideo :: "Env \<Rightarrow> OpenReader option \<Rightarrow> OutputChannel \<Rightarrow> bool \<times> OutputChannel" where
  "installVideo e v s =
     (case v of
        None \<Rightarrow> (True, s)
      | Some r \<Rightarrow> syncAdd e (r_handle r) (s\<lparr>videoReader := Some r, videoFlowInvalid := False\<rparr>))"

fun installAudio :: "Env \<Rightarrow> (nat \<times> OpenReader) list \<Rightarrow> OutputChannel \<Rightarrow> bool \<times> OutputChannel" where
  "installAudio e [] s = (True, s)"
| "installAudio e ((slot, r) # rs) s =
     (let s = s\<lparr>aflows := (aflows s)[slot := (aflows s ! slot)\<lparr>a_reader := Some r, a_flowInvalid := False, a_stalled := False\<rparr>]\<rparr>;
          (ok, s) = syncAdd e (r_handle r) s
      in if ok then installAudio e rs s else (False, s))"

definition reopenFinish :: "Env \<Rightarrow> ReopenWork \<Rightarrow> ReopenResult \<Rightarrow> OutputChannel \<Rightarrow> OutputChannel" where
  "reopenFinish e w res s =
     (if ro_formatChanged res then s\<lparr>reopen := clear (reopen s), resetRequested := True\<rparr>
      else
        let (ok, s) = installVideo e (ro_video res) s;
            (ok, s) = (if ok then installAudio e (ro_audio res) s else (False, s))
        in if \<not> ok then s\<lparr>reopen := clear (reopen s), resetRequested := True\<rparr>
           else if ro_error res
           then noteReopenDegraded (rw_now w) (s\<lparr>reopen := openFailed (reopen s) (rw_now w)\<rparr>)
           else
             let s = s\<lparr>reopen := clear (reopen s)\<rparr>
             in if reopenDegraded s then updateRunningState (s\<lparr>reopenDegraded := False\<rparr>) else s)"

definition reopenInvalidReaders :: "Env \<Rightarrow> OutputChannel \<Rightarrow> OutputChannel" where
  "reopenInvalidReaders e s =
     (case reopenBegin e s of
        (None, s) \<Rightarrow> s
      | (Some w, s) \<Rightarrow> let (res, s) = reopenOpen e w s in reopenFinish e w res s)"

subsection \<open>Supervision\<close>

definition logDue :: "u64 \<Rightarrow> u64 \<Rightarrow> bool" where
  "logDue now lastNs \<longleftrightarrow> lastNs = 0 \<or> now - lastNs \<ge> kEventLogIntervalNs"

definition addLog :: "OutLog \<Rightarrow> OutputChannel \<Rightarrow> OutputChannel" where
  "addLog l s = s\<lparr>logs := logs s @ [l]\<rparr>"

definition logStallStart :: "u64 \<Rightarrow> OutputChannel \<Rightarrow> OutputChannel" where
  "logStallStart now s =
     (if stallSinceNs s \<noteq> 0 \<and> \<not> stallLogged s \<and> now - stallSinceNs s \<ge> kStallLogNs
      then (addLog LogStall s)\<lparr>stallLogged := True\<rparr> else s)"

definition logStallEnded :: "u64 \<Rightarrow> OutputChannel \<Rightarrow> OutputChannel" where
  "logStallEnded now s =
     (if stallsEnded s \<noteq> stallsEndedLogged s \<and> (stallLogged s \<or> logDue now (stallEndLogNs s))
      then (addLog (LogStallEnded (stallsEnded s - stallsEndedLogged s)
              (endedStallRepeats s - endedStallRepeatsLogged s)) s)
           \<lparr>stallsEndedLogged := stallsEnded s, endedStallRepeatsLogged := endedStallRepeats s,
            stallEndLogNs := now, stallLogged := False\<rparr>
      else s)"

definition noteStallDegraded :: "u64 \<Rightarrow> OutputChannel \<Rightarrow> OutputChannel" where
  "noteStallDegraded now s =
     (let degraded = (stallSinceNs s \<noteq> 0 \<and> now - stallSinceNs s \<ge> kStallDegradedNs)
      in if degraded \<noteq> stallDegraded s then updateRunningState (s\<lparr>stallDegraded := degraded\<rparr>) else s)"

definition logLateStart :: "OutputChannel \<Rightarrow> OutputChannel" where
  "logLateStart s =
     (if lateRunId s \<noteq> lateRunStartLogged s \<and> lateRunCount s \<ge> kLateRunLog
      then (addLog (LogLate (lateRunCount s)) s)\<lparr>lateRunStartLogged := lateRunId s\<rparr> else s)"

definition logLateEnded :: "u64 \<Rightarrow> OutputChannel \<Rightarrow> OutputChannel" where
  "logLateEnded now s =
     (let runOver = (lateLastNs s \<noteq> 0 \<and> now > lateLastNs s \<and> now - lateLastNs s \<ge> kLateRunGapNs)
      in if lateRunStartLogged s \<noteq> lateRunEndLogged s \<and> (lateRunId s \<noteq> lateRunStartLogged s \<or> runOver)
         then (addLog (LogLateEnded (if lateRunId s = lateRunStartLogged s then lateRunCount s else prevLateRunCount s)) s)
              \<lparr>lateRunEndLogged := lateRunStartLogged s\<rparr>
         else s)"

definition noteLateDegraded :: "u64 \<Rightarrow> OutputChannel \<Rightarrow> OutputChannel" where
  "noteLateDegraded now s =
     (let late = (lateSinceNs s \<noteq> 0 \<and> now > lateSinceNs s \<and> now - lateSinceNs s \<ge> kLateDegradedNs)
      in if late \<noteq> lateDegraded s then updateRunningState (s\<lparr>lateDegraded := late\<rparr>) else s)"

definition logCatchUps :: "u64 \<Rightarrow> OutputChannel \<Rightarrow> OutputChannel" where
  "logCatchUps now s =
     (if catchUps s \<noteq> catchUpsLogged s \<and> logDue now (catchUpLogNs s)
      then (addLog (LogCaughtUp (catchUps s - catchUpsLogged s) (catchUpGrains s - catchUpGrainsLogged s)
              (lastCatchUpOutOfRing s)) s)
           \<lparr>catchUpsLogged := catchUps s, catchUpGrainsLogged := catchUpGrains s, catchUpLogNs := now\<rparr>
      else s)"

definition logInvalidGrains :: "u64 \<Rightarrow> OutputChannel \<Rightarrow> OutputChannel" where
  "logInvalidGrains now s =
     (if invalidGrains s \<noteq> invalidGrainsLogged s \<and> logDue now (invalidLogNs s)
      then (addLog (LogInvalidGrain (invalidGrains s - invalidGrainsLogged s)) s)
           \<lparr>invalidGrainsLogged := invalidGrains s, invalidLogNs := now\<rparr>
      else s)"

definition logReadErrors :: "u64 \<Rightarrow> OutputChannel \<Rightarrow> OutputChannel" where
  "logReadErrors now s =
     (if readErrors s \<noteq> readErrorsLogged s \<and> logDue now (readErrorLogNs s)
      then (addLog (LogReadError (readErrors s - readErrorsLogged s) (lastReadError s)) s)
           \<lparr>readErrorsLogged := readErrors s, readErrorLogNs := now\<rparr>
      else s)"

definition logFramesLost :: "u64 \<Rightarrow> OutputChannel \<Rightarrow> OutputChannel" where
  "logFramesLost now s =
     (if (cardLate s \<noteq> cardLateLogged s \<or> cardDropped s \<noteq> cardDroppedLogged s \<or>
          notScheduled s \<noteq> notScheduledLogged s) \<and> logDue now (cardLogNs s)
      then (addLog (LogFramesLost (cardLate s - cardLateLogged s) (cardDropped s - cardDroppedLogged s)
              (notScheduled s - notScheduledLogged s)) s)
           \<lparr>cardLateLogged := cardLate s, cardDroppedLogged := cardDropped s,
            notScheduledLogged := notScheduled s, cardLogNs := now\<rparr>
      else s)"

definition superviseStalls :: "Env \<Rightarrow> OutputChannel \<Rightarrow> OutputChannel" where
  "superviseStalls e s =
     (let (now, s) = steadyNowNs e s;
          s = noteStallDegraded now (logStallEnded now (logStallStart now s));
          s = noteLateDegraded now (logLateEnded now (logLateStart s))
      in logFramesLost now (logReadErrors now (logInvalidGrains now (logCatchUps now s))))"

subsection \<open>Bring-up\<close>

definition kFirstGrainGiveUpNs :: u64 where "kFirstGrainGiveUpNs = 10000000000"
definition kFirstGrainNoteNs :: u64 where "kFirstGrainNoteNs = 1000000000"

definition isRunning :: "Env \<Rightarrow> OutputChannel \<Rightarrow> bool \<times> OutputChannel" where
  "isRunning e s = (stillRunning e (tick s), ticked s)"

definition resetSession :: "OutputChannel \<Rightarrow> OutputChannel" where
  "resetSession s =
     (setState Init s)\<lparr>videoFlowInvalid := False, reopenRequested := False, reopen := clear (reopen s),
       reopenDegraded := False, videoStalled := False, lastFrame := [], videoLastHead := 0,
       videoHeadChangeNs := 0, streamProbed := False, streamWholeFrames := False, lateDegraded := False,
       behindSinceNs := 0, lateRunCount := 0, lateLastNs := 0, lateSinceNs := 0, stallSinceNs := 0,
       stallDegraded := False, stallLogged := False\<rparr>"

text \<open>Opening the audio readers in slot order; \<open>None\<close> stands for the exception.\<close>

fun openAudioSlots :: "Env \<Rightarrow> AudioFlowConfig list \<Rightarrow> OutputChannel \<Rightarrow> bool \<times> OutputChannel" where
  "openAudioSlots e [] s = (True, s)"
| "openAudioSlots e (c # cs) s =
     (let slot = \<lparr>a_cfg = c, a_reader = None, a_flowInvalid = False, a_stalled = False, a_stallHead = 0,
                  a_lastHead = 0, a_headChangeNs = 0, a_config = zeroConfig\<rparr> in
      if \<not> isNil (af_flowId c) \<and> af_mxlActive c then
        case openAudio e (tick s) (af_readerDomainPath c) (af_flowId c) of
          None \<Rightarrow> (False, ticked s)
        | Some r \<Rightarrow>
            openAudioSlots e cs ((ticked s)\<lparr>aflows := aflows s @ [slot\<lparr>a_reader := Some r, a_config := r_config r\<rparr>]\<rparr>)
      else openAudioSlots e cs (s\<lparr>aflows := aflows s @ [slot]\<rparr>))"

fun joinGroup :: "Env \<Rightarrow> handle list \<Rightarrow> OutputChannel \<Rightarrow> bool \<times> OutputChannel" where
  "joinGroup e [] s = (True, s)"
| "joinGroup e (h # hs) s = (let (ok, s) = syncAdd e h s in if ok then joinGroup e hs s else (False, s))"

definition openReaders :: "Env \<Rightarrow> OutputChannel \<Rightarrow> bool \<times> OutputChannel" where
  "openReaders e s =
     (case openVideo e (tick s) (readerDomainPath (cfg s)) (videoFlowId (cfg s)) of
        None \<Rightarrow> (False, ticked s)
      | Some r \<Rightarrow>
          let s = (ticked s)\<lparr>videoReader := Some r, videoRate := r_rate r, videoConfig := r_config r, aflows := []\<rparr>;
              (ok, s) = (if audioEnable (cfg s) then openAudioSlots e (audioFlows (cfg s)) s else (True, s))
          in if \<not> ok then (False, s)
             else if \<not> groupOk e (tick s) then (False, ticked s)
             else joinGroup e (r_handle r # map r_handle (List.map_filter a_reader (aflows s)))
                    ((ticked s)\<lparr>sync := Some []\<rparr>))"

definition setTimings :: "OutputChannel \<Rightarrow> OutputChannel" where
  "setTimings s =
     (let p = framePeriodNs (mode s);
          marginNs = max kScheduleMarginNs (p div 3);
          ahead = of_int (if outputPrerollGrains (cfg s) > 1 then outputPrerollGrains (cfg s) - 1 else 0) * p
      in s\<lparr>periodNs := p, scheduleMarginNs := marginNs,
           frameWaitNs := min (if ahead > marginNs then ahead - marginNs else 0)
             (of_int (readerTimeoutMs (cfg s)) * 1000000),
           maxSamplesPerFrame := maxAudioSamplesPerFrame (videoRate s)\<rparr>)"

fun waitFirstGrain :: "nat \<Rightarrow> Env \<Rightarrow> OpenReader \<Rightarrow> u64 \<Rightarrow> bool \<Rightarrow> u64 \<Rightarrow> OutputChannel \<Rightarrow> (u64 \<times> OutputChannel) option" where
  "waitFirstGrain 0 e r waitStart noted head s = None"
| "waitFirstGrain (Suc n) e r waitStart noted head s =
     (if head \<noteq> 0 then Some (head, s)
      else
        let (run, s) = isRunning e s in
        if \<not> run then Some (head, s)
        else
          let (t, s) = steadyNowNs e s in
          if \<not> t - waitStart < kFirstGrainGiveUpNs then Some (head, s)
          else
            let (noted, s) =
                  (if noted then (True, s)
                   else let (t2, s) = steadyNowNs e s in (t2 - waitStart \<ge> kFirstGrainNoteNs, s));
                (head, s) = videoHeadIndex e r s
            in waitFirstGrain n e r waitStart noted head s)"

fun waitForOffset :: "nat \<Rightarrow> Env \<Rightarrow> OpenReader \<Rightarrow> u64 \<Rightarrow> u64 \<Rightarrow> u64 \<Rightarrow> OutputChannel \<Rightarrow> (u64 \<times> OutputChannel) option" where
  "waitForOffset 0 e r need until head s = None"
| "waitForOffset (Suc n) e r need until head s =
     (if \<not> head < need then Some (head, s)
      else
        let (run, s) = isRunning e s in
        if \<not> run then Some (head, s)
        else
          let (t, s) = steadyNowNs e s in
          if \<not> t < until then Some (head, s)
          else let (head, s) = videoHeadIndex e r s in waitForOffset n e r need until head s)"

text \<open>The start position: \<open>behind\<close> grains before now, but no later than the source's newest grain
  allows.\<close>

definition startIndex :: "u64 \<Rightarrow> u64 \<Rightarrow> u64 \<Rightarrow> u64" where
  "startIndex now behind sourceHead =
     (let start = (if now > behind then now - behind else 0)
      in if sourceHead \<noteq> 0 \<and> sourceHead + 1 < start + behind
         then (if sourceHead + 1 > behind then sourceHead + 1 - behind else 0)
         else start)"

definition findStart :: "nat \<Rightarrow> Env \<Rightarrow> OpenReader \<Rightarrow> u64 \<Rightarrow> OutputChannel \<Rightarrow> (u64 option \<times> OutputChannel) option" where
  "findStart fuel e r preroll s =
     (let now = currentIndex e (tick s) (videoRate s);
          s = capReadOffset preroll (ticked s);
          behind = preroll + of_int (readOffset s);
          (head, s) = videoHeadIndex e r s
      in if head \<noteq> 0 then Some (Some (startIndex now behind head), s)
         else
           let (waitStart, s) = steadyNowNs e s in
           case waitFirstGrain fuel e r waitStart False head s of
             None \<Rightarrow> None
           | Some (head, s) \<Rightarrow>
               let (_, s) = steadyNowNs e s in
               if head = 0 then Some (None, snd (isRunning e s))
               else
                 let need = head + of_int (readOffset s) + preroll;
                     (t, s) = steadyNowNs e s;
                     until = t + (need - head + 3) * periodNs s
                 in case waitForOffset fuel e r need until head s of
                      None \<Rightarrow> None
                    | Some (head, s) \<Rightarrow>
                        let now = currentIndex e (tick s) (videoRate s)
                        in Some (Some (startIndex now behind head), ticked s))"

definition startPosition :: "Env \<Rightarrow> u64 \<Rightarrow> OutputChannel \<Rightarrow> OutputChannel" where
  "startPosition e start s =
     (let (t, s) = taiNowNs e s;
          s = s\<lparr>nextGrainIndex := start, scheduledFrames := 0, lastCompletionNs := 0, lastCallbackEndNs := 0,
                readDeadlineNs := 0, recentLateOrDropped := 0, recentWindowStart := t, shown := []\<rparr>
      in if aflows s \<noteq> [] then s\<lparr>audioEndFrame := nextGrainIndex s\<rparr> else s)"

fun prerollLoop :: "nat \<Rightarrow> Env \<Rightarrow> u64 \<Rightarrow> u64 \<Rightarrow> u64 \<Rightarrow> u64 \<Rightarrow> bool \<Rightarrow> OutputChannel \<Rightarrow> (bool \<times> OutputChannel) option" where
  "prerollLoop 0 e preroll timeoutNs deadline scheduled wasShown s = None"
| "prerollLoop (Suc n) e preroll timeoutNs deadline scheduled wasShown s =
     (if \<not> scheduled < preroll then Some (True, s)
      else
        let idx = nextGrainIndex s;
            s = s\<lparr>nextGrainIndex := idx + 1\<rparr>;
            (head, s) = (case videoReader s of None \<Rightarrow> (0, s) | Some r \<Rightarrow> videoHeadIndex e r s);
            (now, s) = steadyNowNs e s;
            left = (if deadline > now then deadline - now else 0);
            (ok, s) = scheduleGrain e idx (if idx < head then 0 else min timeoutNs left) s
        in if ok then
             let s = (if \<not> wasShown \<and> aflows s \<noteq> [] then s\<lparr>audioEndFrame := nextGrainIndex s - 1\<rparr> else s)
             in prerollLoop n e preroll timeoutNs deadline (scheduled + 1) True s
           else
             let (t, s) = steadyNowNs e s in
             if t \<ge> deadline then Some (False, s)
             else if idx \<ge> head
             then prerollLoop n e preroll timeoutNs deadline scheduled wasShown
                    (snd (steadyNowNs e (s\<lparr>nextGrainIndex := idx\<rparr>)))
             else prerollLoop n e preroll timeoutNs deadline scheduled wasShown s)"

text \<open>From the enabled playback session to the start of playback.\<close>

definition runPreroll :: "nat \<Rightarrow> Env \<Rightarrow> u64 \<Rightarrow> OutputChannel \<Rightarrow> (bool \<times> OutputChannel) option" where
  "runPreroll fuel e preroll s =
     (let timeoutNs = of_int (readerTimeoutMs (cfg s)) * 1000000;
          (t, s) = steadyNowNs e s;
          deadline = t + timeoutNs + (preroll + 3) * periodNs s
      in case prerollLoop fuel e preroll timeoutNs deadline 0 False s of
           None \<Rightarrow> None
         | Some (ok, s) \<Rightarrow>
             if \<not> ok then Some (False, tearDownStreaming s)
             else if \<not> startOk e (tick s) then Some (False, tearDownStreaming (ticked s))
             else Some (True, setState Healthy ((ticked s)\<lparr>playing := True, streamingUp := True\<rparr>)))"

definition bringUp :: "nat \<Rightarrow> Env \<Rightarrow> OutputChannel \<Rightarrow> (bool \<times> OutputChannel) option" where
  "bringUp fuel e s =
     (let s = resetSession s;
          m = the (videoMode (cfg s));
          s = s\<lparr>mode := m, status := (status s)\<lparr>activeModeName := vm_name m\<rparr>\<rparr>
      in if \<not> supportsMode e m then Some (False, s)
         else if isNil (videoFlowId (cfg s)) then Some (False, s)
         else
           let (ok, s) = openReaders e s in
           if \<not> ok then Some (False, tearDownStreaming s)
           else if \<not> playbackOk e (tick s) then Some (False, tearDownStreaming (ticked s))
           else
             let s = (ticked s)\<lparr>playback := True\<rparr> in
             if \<not> enableOk e (tick s) then Some (False, tearDownStreaming (ticked s))
             else
               let s = setTimings (ticked s); preroll = of_int (outputPrerollGrains (cfg s)) in
               case videoReader s of
                 None \<Rightarrow> Some (False, s)
               | Some r \<Rightarrow>
                   case findStart fuel e r preroll s of
                     None \<Rightarrow> None
                   | Some (None, s) \<Rightarrow> Some (False, tearDownStreaming s)
                   | Some (Some start, s) \<Rightarrow> runPreroll fuel e preroll (startPosition e start s))"

subsection \<open>The card's playback clock\<close>

fun collectStream :: "nat \<Rightarrow> Env \<Rightarrow> u64 \<Rightarrow> u64 list \<Rightarrow> OutputChannel \<Rightarrow> (u64 list \<times> OutputChannel) option" where
  "collectStream 0 e until values s = None"
| "collectStream (Suc n) e until values s =
     (let (t, s) = steadyNowNs e s in
      if \<not> t < until then Some (values, s)
      else
        let values = (case streamTime e (tick s) of
                        None \<Rightarrow> values
                      | Some v \<Rightarrow> if values = [] \<or> last values \<noteq> v then values @ [v] else values)
        in collectStream n e until values (ticked s))"

text \<open>The smallest step forward between successive values; 0 when there is none.\<close>

fun streamStep :: "u64 \<Rightarrow> u64 list \<Rightarrow> u64" where
  "streamStep step (a # b # vs) =
     streamStep (if b > a then (if step = 0 then b - a else min step (b - a)) else step) (b # vs)"
| "streamStep step vs = step"

definition probeStreamTime :: "nat \<Rightarrow> Env \<Rightarrow> OutputChannel \<Rightarrow> OutputChannel option" where
  "probeStreamTime fuel e s =
     (let s = s\<lparr>streamProbed := True\<rparr> in
      if \<not> playback s then Some s
      else
        let (t, s) = steadyNowNs e s in
        case collectStream fuel e (t + periodNs s * 3 div 2) [] s of
          None \<Rightarrow> None
        | Some (values, s) \<Rightarrow>
            if values = [] then Some s
            else
              let step = streamStep 0 values;
                  whole = (length values \<le> 3 \<and> (step = 0 \<or> step * 10 \<ge> periodNs s * 9))
              in Some (s\<lparr>streamWholeFrames := whole\<rparr>))"

subsection \<open>The supervisor loop\<close>

text \<open>One round; \<open>attempt\<close> counts the failed bring-ups in a row.\<close>

definition supervisorRound :: "nat \<Rightarrow> Env \<Rightarrow> nat \<Rightarrow> OutputChannel \<Rightarrow> (nat \<times> OutputChannel) option" where
  "supervisorRound fuel e attempt s =
     (if \<not> videoMxlActive (cfg s) then Some (attempt, setState Init s)
      else
        let afterUp = (\<lambda>attempt s.
              if resetRequested s then Some (attempt, tearDownStreaming (s\<lparr>resetRequested := False\<rparr>))
              else
                let s = reopenInvalidReaders e s in
                if streamingUp s \<and> \<not> streamProbed s
                then map_option (\<lambda>s. (attempt, superviseStalls e s)) (probeStreamTime fuel e s)
                else Some (attempt, superviseStalls e s))
        in if streamingUp s then afterUp attempt s
           else
             let s = (if attempt > 0
                      then s\<lparr>m_reconnectTotal := m_reconnectTotal s + 1,
                             status := (status s)\<lparr>reconnects := reconnects (status s) + 1\<rparr>\<rparr>
                      else s)
             in case bringUp fuel e s of
                  None \<Rightarrow> None
                | Some (True, s) \<Rightarrow> afterUp 0 s
                | Some (False, s) \<Rightarrow> Some (attempt + 1, setState Failed s))"

end
