(* ===== verification/OutputCore.thy ===== *)
theory OutputCore
  imports OutputSupervisor
begin

text \<open>
  The frame conditions of the output channel.  \<open>core\<close> is the part of the state the read path leaves alone;
  each operation of the read path has one lemma that says so, and the properties of a callback
  follow from these lemmas and from the scheduling part, which is unfolded.
\<close>

subsection \<open>What the read path leaves alone\<close>

definition maskSlot :: "AudioFlowReader \<Rightarrow> AudioFlowReader" where
  "maskSlot af = af\<lparr>a_flowInvalid := False, a_stalled := False, a_stallHead := 0, a_lastHead := 0, a_headChangeNs := 0\<rparr>"

definition core :: "OutputChannel \<Rightarrow> OutputChannel" where
  "core s = s\<lparr>tick := 0, sync := None, videoFlowInvalid := False, aflows := map maskSlot (aflows s),
     videoStalled := False, videoStallHead := 0, videoLastHead := 0, videoHeadChangeNs := 0,
     stallSinceNs := 0, stallRepeatsAtStart := 0, stallsEnded := 0, endedStallRepeats := 0, lastStallNs := 0,
     lateRunId := 0, lateRunCount := 0, prevLateRunCount := 0, lateRunStartNs := 0, lateSinceNs := 0,
     lateLastNs := 0, behindSinceNs := 0, catchUps := 0, catchUpGrains := 0, lastCatchUpOutOfRing := False,
     reopenRequested := False, m_stallsVideo := 0, m_stallsAudio := 0\<rparr>"

lemma maskSlot_simps [simp]:
  "maskSlot (af\<lparr>a_flowInvalid := b\<rparr>) = maskSlot af" "maskSlot (af\<lparr>a_stalled := b\<rparr>) = maskSlot af"
  "maskSlot (af\<lparr>a_stallHead := x\<rparr>) = maskSlot af" "maskSlot (af\<lparr>a_lastHead := x\<rparr>) = maskSlot af"
  "maskSlot (af\<lparr>a_headChangeNs := x\<rparr>) = maskSlot af"
  by (simp_all add: maskSlot_def)

lemma map_maskSlot_same: "maskSlot af = maskSlot (xs ! i) \<Longrightarrow> map maskSlot (xs[i := af]) = map maskSlot xs"
  by (cases "i < length xs") (simp_all add: map_update list_update_same_conv list_update_beyond)

lemma core_ticked [chan_simps]: "core (ticked s) = core s"
  by (simp add: core_def ticked_def)

lemma core_calls [chan_simps]:
  "core (snd (steadyNowNs e s)) = core s" "core (snd (taiNowNs e s)) = core s"
  "core (snd (videoHeadIndex e r s)) = core s" "core (snd (audioHeadIndex e r s)) = core s"
  "core (snd (getGrain e r i t s)) = core s"
  by (simp_all add: steadyNowNs_def taiNowNs_def videoHeadIndex_def audioHeadIndex_def getGrain_def core_ticked)

lemma core_sync [chan_simps]: "core (syncRemove h s) = core s" "core (snd (syncAdd e h s)) = core s"
  by (simp_all add: core_def syncRemove_def syncAdd_def ticked_def split: option.split)

lemma core_fold_syncRemove [chan_simps]: "core (fold syncRemove hs s) = core s"
  by (induction hs arbitrary: s) (simp_all add: core_sync)

lemma core_updateStallClock [chan_simps]: "core (updateStallClock e s) = core s"
  by (simp add: core_def updateStallClock_def steadyNowNs_def ticked_def Let_def)

lemma core_requestReopen [chan_simps]: "core (requestReopen s) = core s"
  by (simp add: core_def requestReopen_def)

lemma core_volatile [chan_simps]:
  "core (s\<lparr>videoStalled := b, videoStallHead := h\<rparr>) = core s" "core (s\<lparr>videoStalled := b\<rparr>) = core s"
  "core (s\<lparr>videoFlowInvalid := b\<rparr>) = core s" "core (s\<lparr>m_stallsVideo := n\<rparr>) = core s"
  "core (s\<lparr>m_stallsAudio := n\<rparr>) = core s" "core (s\<lparr>lateSinceNs := t\<rparr>) = core s"
  "core (s\<lparr>videoLastHead := h, videoHeadChangeNs := t\<rparr>) = core s"
  "core (s\<lparr>behindSinceNs := t\<rparr>) = core s"
  by (simp_all add: core_def)

lemma core_aflows [chan_simps]: "map maskSlot xs = map maskSlot (aflows s) \<Longrightarrow> core (s\<lparr>aflows := xs\<rparr>) = core s"
  by (simp add: core_def)

lemma core_noteVideoHead [chan_simps]: "core (noteVideoHead h t s) = core s"
  by (simp add: noteVideoHead_def Let_def split_beta core_volatile)

lemma core_noteAudioHead [chan_simps]: "core (noteAudioHead i h t s) = core s"
  by (simp add: noteAudioHead_def Let_def split_beta core_aflows map_maskSlot_same)

lemma core_fold:
  "(\<And>i s. core (f i s) = core s) \<Longrightarrow> core (fold f xs s) = core s"
  by (induction xs arbitrary: s) simp_all

lemma core_forSlots [chan_simps]: "(\<And>i s. core (f i s) = core s) \<Longrightarrow> core (forSlots f s) = core s"
  unfolding forSlots_def by (rule core_fold)

lemma core_setVideoStalled [chan_simps]: "core (setVideoStalled e b s) = core s"
  by (simp add: setVideoStalled_def Let_def split_beta chan_simps split: option.split)

lemma core_setAudioStalled [chan_simps]: "core (setAudioStalled e i b s) = core s"
proof -
  have m: "map maskSlot (map (\<lambda>af. if P af then af\<lparr>a_stalled := b, a_stallHead := h\<rparr> else af) xs) = map maskSlot xs"
    for P h xs by simp
  show ?thesis
    by (simp add: setAudioStalled_def Let_def split_beta chan_simps m split: option.split)
qed

lemma core_markStalledSlot [chan_simps]: "core (markStalledSlot e t i s) = core s"
  by (simp add: markStalledSlot_def Let_def split_beta chan_simps split: option.split)

lemma core_markStalledAudio [chan_simps]: "core (markStalledAudio e s) = core s"
  by (simp add: markStalledAudio_def split_beta chan_simps)

lemma core_markVideoFlowInvalid [chan_simps]: "core (markVideoFlowInvalid e s) = core s"
  by (simp add: markVideoFlowInvalid_def Let_def chan_simps split: option.split)

lemma core_markAudioFlowInvalid [chan_simps]: "core (markAudioFlowInvalid e i s) = core s"
proof -
  have m: "map maskSlot (map (\<lambda>af. if P af then af\<lparr>a_flowInvalid := True, a_stalled := False\<rparr> else af) xs) = map maskSlot xs"
    for P xs by simp
  show ?thesis by (simp add: markAudioFlowInvalid_def Let_def chan_simps m)
qed

lemma core_findInvalidReaders [chan_simps]: "core (findInvalidReaders e s) = core s"
  by (simp add: findInvalidReaders_def findInvalidSlot_def Let_def chan_simps split: option.split)

lemma core_noteLate [chan_simps]: "core (noteLate t s) = core s"
  by (simp add: noteLate_def core_def Let_def)

lemma core_catchUp [chan_simps]: "core (snd (catchUp e i h b s)) = core s"
  by (simp add: catchUp_def core_def steadyNowNs_def ticked_def Let_def)

lemma core_resumeAt [chan_simps]: "core (snd (resumeAt e r i h g st s)) = core s"
  by (simp add: resumeAt_def core_def getGrain_def ticked_def Let_def split_beta)

lemma core_noteHeadsBefore [chan_simps]: "core (noteHeadsBefore e r s) = core s"
  by (simp add: noteHeadsBefore_def noteSlotBefore_def Let_def split_beta chan_simps split: option.split)

lemma core_waitForGroup [chan_simps]: "core (snd (waitForGroup e r i t s)) = core s"
  by (simp add: waitForGroup_def Let_def chan_simps split: option.split)

lemma core_onGrainRead [chan_simps]: "core (snd (onGrainRead e r i h g s)) = core s"
  by (simp add: onGrainRead_def Let_def split_beta chan_simps)

lemma core_onGrainMissing [chan_simps]: "core (snd (onGrainMissing e r i h t st g s)) = core s"
  by (simp add: onGrainMissing_def Let_def split_beta chan_simps)

lemma core_onGrainError [chan_simps]: "core (snd (onGrainError e r i h st g s)) = core s"
  by (simp add: onGrainError_def Let_def split_beta chan_simps)

lemma core_readAfterWait [chan_simps]: "core (snd (readAfterWait e r i t s)) = core s"
  by (simp add: readAfterWait_def Let_def split_beta chan_simps)

lemma core_readGrain [chan_simps]: "core (snd (readGrain e i t s)) = core s"
  by (simp add: readGrain_def Let_def split_beta chan_simps split: option.split)

text \<open>The fields a caller needs from it.\<close>

lemma core_eqD:
  assumes "core s = core t"
  shows "status s = status t" "shown s = shown t" "scheduledFrames s = scheduledFrames t" "mode s = mode t"
    "nextGrainIndex s = nextGrainIndex t" "audioEndFrame s = audioEndFrame t" "lastFrame s = lastFrame t"
    "cfg s = cfg t" "playback s = playback t" "playing s = playing t" "videoReader s = videoReader t"
    "streamingUp s = streamingUp t" "resetRequested s = resetRequested t"
    "m_framesTotal s = m_framesTotal t" "m_framesDropped s = m_framesDropped t"
    "m_repeatedSourceStall s = m_repeatedSourceStall t" "m_repeatedSourceLate s = m_repeatedSourceLate t"
    "m_repeatedFlowReopen s = m_repeatedFlowReopen t" "m_repeatedSourceInvalid s = m_repeatedSourceInvalid t"
    "m_repeatedReadError s = m_repeatedReadError t" "readErrors s = readErrors t" "invalidGrains s = invalidGrains t"
    "cardDropped s = cardDropped t" "notScheduled s = notScheduled t" "readOffset s = readOffset t"
    "length (aflows s) = length (aflows t)" "recentLateOrDropped s = recentLateOrDropped t"
    "recentWindowStart s = recentWindowStart t" "frameWaitNs s = frameWaitNs t"
  using arg_cong[OF assms, of status] arg_cong[OF assms, of shown] arg_cong[OF assms, of scheduledFrames]
    arg_cong[OF assms, of mode] arg_cong[OF assms, of nextGrainIndex] arg_cong[OF assms, of audioEndFrame]
    arg_cong[OF assms, of lastFrame] arg_cong[OF assms, of cfg] arg_cong[OF assms, of playback]
    arg_cong[OF assms, of playing] arg_cong[OF assms, of videoReader] arg_cong[OF assms, of streamingUp]
    arg_cong[OF assms, of resetRequested] arg_cong[OF assms, of m_framesTotal] arg_cong[OF assms, of m_framesDropped]
    arg_cong[OF assms, of m_repeatedSourceStall] arg_cong[OF assms, of m_repeatedSourceLate]
    arg_cong[OF assms, of m_repeatedFlowReopen] arg_cong[OF assms, of m_repeatedSourceInvalid]
    arg_cong[OF assms, of m_repeatedReadError] arg_cong[OF assms, of readErrors] arg_cong[OF assms, of invalidGrains]
    arg_cong[OF assms, of cardDropped] arg_cong[OF assms, of notScheduled] arg_cong[OF assms, of readOffset]
    arg_cong[OF assms, of "\<lambda>s. length (aflows s)"] arg_cong[OF assms, of recentLateOrDropped]
    arg_cong[OF assms, of recentWindowStart] arg_cong[OF assms, of frameWaitNs]
  by (simp_all add: core_def)

end
