(* ===== verification/OutputAccounting.thy ===== *)
theory OutputAccounting
  imports OutputCore
begin

text \<open>
  Accounting, display times, read position and deadlines of the output channel's callbacks.
\<close>

lemma if_pred: "(b \<Longrightarrow> P x) \<Longrightarrow> (\<not> b \<Longrightarrow> P y) \<Longrightarrow> P (if b then x else y)"
  by simp

lemma snd_if_pred: "(b \<Longrightarrow> P (snd x)) \<Longrightarrow> (\<not> b \<Longrightarrow> P (snd y)) \<Longrightarrow> P (snd (if b then x else y))"
  by simp

subsection \<open>Accounting\<close>

definition repeats :: "OutputChannel \<Rightarrow> nat" where
  "repeats s = m_repeatedSourceStall s + m_repeatedSourceLate s + m_repeatedFlowReopen s +
     m_repeatedSourceInvalid s + m_repeatedReadError s"

text \<open>The books of a channel: the status counters, the metrics and what the card was given agree.\<close>

definition books_ok :: "OutputChannel \<Rightarrow> bool" where
  "books_ok s \<longleftrightarrow>
     grainsCommitted (status s) = of_nat (m_framesTotal s) - of_nat (repeats s) \<and>
     framesTotal (status s) = of_nat (m_framesTotal s) \<and>
     framesRepeated (status s) = of_nat (repeats s) \<and>
     cardDropped s = of_nat (m_framesDropped s) - notScheduled s \<and>
     framesDropped (status s) = of_nat (m_framesDropped s) \<and>
     readErrors s = of_nat (m_repeatedReadError s) \<and> invalidGrains s = of_nat (m_repeatedSourceInvalid s)"

text \<open>The frames of a session are shown back to back: frame \<open>k\<close> at \<open>k\<close> frame durations.\<close>

definition gapless :: "OutputChannel \<Rightarrow> bool" where
  "gapless s \<longleftrightarrow> scheduledFrames s = of_nat (length (shown s)) \<and>
     map snd (shown s) = map (\<lambda>k. of_nat k * vm_rateDenominator (mode s) * 1000) [0..<length (shown s)]"

lemma books_core: "core s = core t \<Longrightarrow> books_ok s = books_ok t"
  by (simp add: books_ok_def repeats_def core_eqD[of s t])

lemma gapless_core: "core s = core t \<Longrightarrow> gapless s = gapless t"
  by (simp add: gapless_def core_eqD[of s t])

lemma moveReadPosition_keeps [chan_simps]:
  "books_ok (moveReadPosition i a s) = books_ok s" "gapless (moveReadPosition i a s) = gapless s"
  by (simp_all add: moveReadPosition_def Let_def books_ok_def repeats_def gapless_def)

lemma books_updates [chan_simps]:
  "books_ok (ticked s) = books_ok s" "books_ok (s\<lparr>lastFrame := f\<rparr>) = books_ok s"
  by (simp_all add: books_ok_def repeats_def ticked_def)

lemma countRepeat_books:
  "books_ok s \<Longrightarrow> books_ok (countRepeat e reason st (s\<lparr>shown := sh, scheduledFrames := n,
     m_framesTotal := Suc (m_framesTotal s),
     status := (status s)\<lparr>framesTotal := framesTotal (status s) + 1\<rparr>\<rparr>))"
  by (cases reason) (simp_all add: countRepeat_def Let_def books_ok_def repeats_def algebra_simps)

lemma fresh_books:
  "books_ok s \<Longrightarrow> books_ok (s\<lparr>shown := sh, scheduledFrames := n, m_framesTotal := Suc (m_framesTotal s),
     tick := k, status := (status s)\<lparr>framesTotal := framesTotal (status s) + 1, lastFrameTaiNs := t,
       grainsCommitted := grainsCommitted (status s) + 1\<rparr>\<rparr>)"
  by (simp add: books_ok_def repeats_def algebra_simps)

lemma countRepeat_gapless: "gapless (countRepeat e reason st s) = gapless s"
  by (cases reason) (simp_all add: countRepeat_def Let_def gapless_def)

lemma presentFrame_books: "books_ok s \<Longrightarrow> books_ok (snd (presentFrame e b rd s))"
  using countRepeat_books[of "ticked s"] fresh_books[of "ticked s"]
  by (simp add: presentFrame_def Let_def split_beta taiNowNs_def chan_simps) (simp add: ticked_def)

lemma presentFrame_gapless: "gapless s \<Longrightarrow> gapless (snd (presentFrame e b rd s))"
  by (simp add: presentFrame_def Let_def split_beta taiNowNs_def countRepeat_gapless)
    (auto simp: gapless_def ticked_def)

lemma commitFrame_books: "books_ok s \<Longrightarrow> books_ok (snd (commitFrame e rd s))"
  unfolding commitFrame_def
  by (intro snd_if_pred[of _ books_ok] presentFrame_books) (simp_all add: chan_simps)

lemma commitFrame_gapless: "gapless s \<Longrightarrow> gapless (snd (commitFrame e rd s))"
  unfolding commitFrame_def
  by (intro snd_if_pred[of _ gapless] presentFrame_gapless) (simp_all add: gapless_def)

lemma scheduleGrain_books: "books_ok s \<Longrightarrow> books_ok (snd (scheduleGrain e i w s))"
  using books_core[OF core_readGrain, of e i w s]
  by (simp add: scheduleGrain_def Let_def split_beta commitFrame_books moveReadPosition_keeps)

lemma scheduleGrain_gapless: "gapless s \<Longrightarrow> gapless (snd (scheduleGrain e i w s))"
  using gapless_core[OF core_readGrain, of e i w s]
  by (simp add: scheduleGrain_def Let_def split_beta commitFrame_gapless moveReadPosition_keeps)

lemma core_audio [chan_simps]: "core (snd (readBudgetNs e s)) = core s"
  by (simp add: readBudgetNs_def Let_def split_beta chan_simps)

lemma deadline_keeps:
  "books_ok (estimateDeadline e d s) = books_ok s" "gapless (estimateDeadline e d s) = gapless s"
  by (simp_all add: estimateDeadline_def Let_def split_beta steadyNowNs_def ticked_def books_ok_def
      repeats_def gapless_def split: option.split)

lemma countLateOrDropped_keeps:
  "books_ok s \<Longrightarrow> books_ok (snd (countLateOrDropped e r s))" "gapless (snd (countLateOrDropped e r s)) = gapless s"
  by (simp_all add: countLateOrDropped_def Let_def split_beta taiNowNs_def ticked_def books_ok_def
      repeats_def gapless_def)

lemma deadline_keeps':
  "books_ok s \<Longrightarrow> books_ok (estimateDeadline e d s)" "gapless s \<Longrightarrow> gapless (estimateDeadline e d s)"
  by (simp_all add: deadline_keeps)

subsection \<open>Invariants of the callbacks\<close>

text \<open>The contract an invariant of the channel has with the parts of the completion callback.  An
  interpretation gives the preservation by the whole callback.\<close>

locale completion_invariant =
  fixes I :: "OutputChannel \<Rightarrow> bool"
  assumes tick: "I s \<Longrightarrow> I (ticked s)"
    and late: "I s \<Longrightarrow> I (snd (countLateOrDropped e r s))"
    and position: "I s \<Longrightarrow> I (s\<lparr>nextGrainIndex := i\<rparr>)"
    and deadline: "I s \<Longrightarrow> I (estimateDeadline e d s)"
    and schedule: "I s \<Longrightarrow> I (snd (scheduleGrain e i w s))"
    and lost: "I s \<Longrightarrow> I (s\<lparr>m_framesDropped := m_framesDropped s + 1,
        status := (status s)\<lparr>framesDropped := framesDropped (status s) + 1\<rparr>, notScheduled := notScheduled s + 1\<rparr>)"
    and returned: "I s \<Longrightarrow> I (s\<lparr>lastCallbackEndNs := t\<rparr>)"
begin

lemma budget: "I s \<Longrightarrow> I (snd (readBudgetNs e s))"
  by (simp add: readBudgetNs_def Let_def steadyNowNs_def tick)

lemma finishCallback: "I (snd q) \<Longrightarrow> I (finishCallback e q)"
  unfolding finishCallback_def Let_def split_beta steadyNowNs_def fst_conv snd_conv
  by (intro if_pred[of _ I] returned tick lost) simp_all

lemma scheduleNext: "I s \<Longrightarrow> I (scheduleNext e d s)"
  unfolding scheduleNext_def Let_def split_beta
  by (intro finishCallback schedule budget deadline position)

lemma onFrameCompleted: "I s \<Longrightarrow> I (onFrameCompleted e r s)"
  unfolding onFrameCompleted_def Let_def split_beta steadyNowNs_def fst_conv snd_conv
  by (intro if_pred[of _ I] snd_if_pred[of _ I] scheduleNext tick late) (simp_all add: tick)

end

interpretation books: completion_invariant books_ok
proof
  show "books_ok s \<Longrightarrow> books_ok (snd (scheduleGrain e i w s))" for s e i w by (rule scheduleGrain_books)
  show "books_ok s \<Longrightarrow> books_ok (estimateDeadline e d s)" for s e d by (rule deadline_keeps')
  show "books_ok s \<Longrightarrow> books_ok (snd (countLateOrDropped e r s))" for s e r by (rule countLateOrDropped_keeps)
qed (simp_all add: books_ok_def repeats_def ticked_def)

interpretation gapless: completion_invariant gapless
proof
  show "gapless s \<Longrightarrow> gapless (snd (scheduleGrain e i w s))" for s e i w by (rule scheduleGrain_gapless)
  show "gapless s \<Longrightarrow> gapless (estimateDeadline e d s)" for s e d by (rule deadline_keeps')
  show "gapless s \<Longrightarrow> gapless (snd (countLateOrDropped e r s))" for s e r by (simp add: countLateOrDropped_keeps)
qed (simp_all add: gapless_def ticked_def)

end
