(* ===== verification/OutputSync.thy ===== *)
theory OutputSync
  imports OutputAccounting "HOL-Library.Sublist"
begin

text \<open>
  The sync group of an output channel: it only ever holds handles of readers the channel owns, whose
  flow is valid and whose source is not stalled.  A handle that stayed behind would be a dangling
  pointer in MXL, or every later wait would block on a dead source.
\<close>

subsection \<open>The invariant\<close>

type_synonym slotkey = "OpenReader option \<times> bool \<times> bool"

definition slotKey :: "AudioFlowReader \<Rightarrow> slotkey" where
  "slotKey af = (a_reader af, a_flowInvalid af, a_stalled af)"

text \<open>A reader that is waited for: open, its flow valid, its source not stalled.\<close>

definition keyLive :: "handle \<Rightarrow> slotkey \<Rightarrow> bool" where
  "keyLive h = (\<lambda>(r, iv, st). (\<exists>x. r = Some x \<and> r_handle x = h) \<and> \<not> iv \<and> \<not> st)"

definition keyFlags :: "slotkey \<Rightarrow> bool" where
  "keyFlags = (\<lambda>(r, iv, st). iv \<longrightarrow> \<not> st)"

definition grp :: "handle list option \<Rightarrow> slotkey \<Rightarrow> slotkey list \<Rightarrow> bool" where
  "grp sy v ks \<longleftrightarrow> (\<forall>hs. sy = Some hs \<longrightarrow> (\<forall>h \<in> set hs. keyLive h v \<or> list_ex (keyLive h) ks)) \<and>
     keyFlags v \<and> list_all keyFlags ks"

definition videoKey :: "OutputChannel \<Rightarrow> slotkey" where
  "videoKey s = (videoReader s, videoFlowInvalid s, videoStalled s)"

definition group_ok :: "OutputChannel \<Rightarrow> bool" where
  "group_ok s \<longleftrightarrow> grp (sync s) (videoKey s) (map slotKey (aflows s))"

lemma grp_remove: "grp sy v ks \<Longrightarrow> grp (map_option (removeAll h) sy) v ks"
  by (auto simp: grp_def)

lemma grp_video:
  assumes "grp sy (Some r, iv, st) ks" "iv' \<or> st'" "iv' \<longrightarrow> \<not> st'"
  shows "grp (map_option (removeAll (r_handle r)) sy) (Some r, iv', st') ks"
  using assms by (auto simp: grp_def keyLive_def keyFlags_def)

lemma grp_video_insert:
  assumes "grp (Some hs) v ks" "v = (Some r, False, st)"
  shows "grp (Some (List.insert (r_handle r) hs)) (Some r, False, False) ks"
  using assms by (auto simp: grp_def keyLive_def keyFlags_def)

text \<open>Changing audio slots: those that stop being live have their handles removed.\<close>

lemma grp_audio:
  assumes "grp sy v ks" "length ks' = length ks" "list_all keyFlags ks'"
    and "\<And>h i. i < length ks \<Longrightarrow> keyLive h (ks ! i) \<Longrightarrow> \<not> keyLive h (ks' ! i) \<Longrightarrow> h \<in> set gone"
  shows "grp (map_option (\<lambda>hs. filter (\<lambda>h. h \<notin> set gone) hs) sy) v ks'"
  using assms unfolding grp_def list_ex_length by fastforce

lemma grp_audio_mono:
  assumes "grp sy v ks" "length ks' = length ks" "list_all keyFlags ks'"
    and "\<And>h i. i < length ks \<Longrightarrow> keyLive h (ks ! i) \<Longrightarrow> keyLive h (ks' ! i)"
  shows "grp sy v ks'"
  using assms unfolding grp_def list_ex_length by fastforce

lemma grp_audio_insert:
  assumes "grp (Some hs) v ks" "length ks' = length ks" "list_all keyFlags ks'"
    and "\<And>h i. i < length ks \<Longrightarrow> keyLive h (ks ! i) \<Longrightarrow> keyLive h (ks' ! i)"
    and "i < length ks" "keyLive h (ks' ! i)"
  shows "grp (Some (List.insert h hs)) v ks'"
  using assms unfolding grp_def list_ex_length by fastforce

lemma fold_syncRemove_sync:
  "sync (fold syncRemove gone s) = map_option (\<lambda>hs. filter (\<lambda>h. h \<notin> set gone) hs) (sync s)"
proof (induction gone arbitrary: s)
  case Nil
  then show ?case by (cases "sync s") simp_all
next
  case (Cons h gone)
  then show ?case
    by (cases "sync s") (auto simp: syncRemove_def removeAll_filter_not_eq intro: filter_cong)
qed

lemma fold_syncRemove_other [simp]:
  "videoKey (fold syncRemove gone s) = videoKey s" "aflows (fold syncRemove gone s) = aflows s"
  by (induction gone arbitrary: s) (simp_all add: syncRemove_def videoKey_def)

subsection \<open>Each operation keeps it\<close>

lemma group_fields:
  "sync s = sync t \<Longrightarrow> videoKey s = videoKey t \<Longrightarrow> map slotKey (aflows s) = map slotKey (aflows t) \<Longrightarrow>
     group_ok s = group_ok t"
  by (simp add: group_ok_def)

lemma group_calls [chan_simps]:
  "group_ok (ticked s) = group_ok s" "group_ok (noteVideoHead h t s) = group_ok s"
  "group_ok (requestReopen s) = group_ok s" "group_ok (noteLate t s) = group_ok s"
  "group_ok (s\<lparr>lateSinceNs := t\<rparr>) = group_ok s" "group_ok (updateStallClock e s) = group_ok s"
  "group_ok (snd (catchUp e i h b s)) = group_ok s" "group_ok (snd (resumeAt e r i h g st s)) = group_ok s"
  by (rule group_fields; simp add: ticked_def noteVideoHead_def requestReopen_def noteLate_def
      updateStallClock_def catchUp_def resumeAt_def steadyNowNs_def getGrain_def videoKey_def Let_def split_beta)+

lemma slotKey_same: "slotKey af = slotKey (xs ! i) \<Longrightarrow> map slotKey (xs[i := af]) = map slotKey xs"
  by (cases "i < length xs") (simp_all add: map_update list_update_same_conv list_update_beyond)

lemma group_noteAudioHead [chan_simps]: "group_ok (noteAudioHead i h t s) = group_ok s"
  by (rule group_fields) (simp_all add: noteAudioHead_def Let_def split_beta videoKey_def slotKey_same slotKey_def)

lemma group_setVideoStalled:
  assumes "group_ok s" "\<not> videoFlowInvalid s"
  shows "group_ok (setVideoStalled e b s)"
proof (cases "videoReader s")
  case (Some r)
  have g: "grp (sync s) (Some r, False, videoStalled s) (map slotKey (aflows s))"
    using assms Some by (simp add: group_ok_def videoKey_def)
  show ?thesis
  proof (cases b)
    case True
    then show ?thesis using Some assms grp_video[OF g, of False True]
      by (simp add: setVideoStalled_def Let_def split_beta chan_simps)
        (simp add: group_ok_def videoKey_def videoHeadIndex_def ticked_def syncRemove_def)
  next
    case False
    have "grp (Some (List.insert (r_handle r) hs)) (Some r, False, False) (map slotKey (aflows s))"
      "grp (Some hs) (Some r, False, False) (map slotKey (aflows s))" if "sync s = Some hs" for hs
      using grp_video_insert[OF g[unfolded that] refl] by (auto simp: grp_def keyLive_def keyFlags_def)
    with False Some assms show ?thesis
      by (simp add: setVideoStalled_def Let_def split_beta chan_simps)
        (auto simp: group_ok_def videoKey_def syncAdd_def ticked_def grp_def keyFlags_def split: option.split)
  qed
qed (simp add: setVideoStalled_def assms)

lemma removeAll_as_filter: "(\<lambda>hs. filter (\<lambda>x. x \<notin> set [h]) hs) = removeAll h"
  by (rule ext) (auto simp: removeAll_filter_not_eq intro: filter_cong)

lemma group_setAudioStalled:
  assumes "group_ok s" "i < length (aflows s)" "\<not> a_flowInvalid (aflows s ! i)"
  shows "group_ok (setAudioStalled e i b s)"
proof (cases "a_reader (aflows s ! i)")
  case (Some r)
  let ?hit = "\<lambda>af. (\<exists>r'. a_reader af = Some r' \<and> r_handle r' = r_handle r) \<and> \<not> a_flowInvalid af"
  let ?ks = "map slotKey (aflows s)"
  define ks' where "ks' x = map slotKey (map (\<lambda>af. if ?hit af then af\<lparr>a_stalled := b, a_stallHead := x\<rparr> else af) (aflows s))"
    for x :: u64
  have g: "grp (sync s) (videoKey s) ?ks" using assms(1) by (simp add: group_ok_def)
  have flags: "list_all keyFlags (ks' x)" for x
    using g by (auto simp: grp_def list_all_iff keyFlags_def slotKey_def ks'_def)
  have at: "ks' x ! j = (if ?hit (aflows s ! j) then (a_reader (aflows s ! j), a_flowInvalid (aflows s ! j), b)
      else slotKey (aflows s ! j))" if "j < length (aflows s)" for x j
    using that by (auto simp: slotKey_def ks'_def)
  have len: "length (ks' x) = length ?ks" for x by (simp add: ks'_def)
  show ?thesis
  proof (cases b)
    case True
    have "grp (map_option (\<lambda>hs. filter (\<lambda>h. h \<notin> set [r_handle r]) hs) (sync s)) (videoKey s) (ks' x)" for x
      using g len flags
      by (rule grp_audio) (auto simp: at keyLive_def slotKey_def split: if_splits)
    then have "grp (map_option (removeAll (r_handle r)) (sync s)) (videoKey s) (ks' (fst (audioHeadIndex e r s)))"
      unfolding removeAll_as_filter by blast
    moreover have bt: "b = True" using True by simp
    ultimately show ?thesis using Some assms unfolding bt ks'_def
      by (simp add: setAudioStalled_def Let_def split_beta chan_simps)
        (simp add: group_ok_def videoKey_def audioHeadIndex_def ticked_def syncRemove_def)
  next
    case False
    have live: "keyLive (r_handle r) (ks' x ! i)" for x
      using assms Some False by (auto simp: at keyLive_def)
    have mono: "keyLive h (ks' x ! j)" if "j < length ?ks" "keyLive h (?ks ! j)" for x h j
      using that False by (auto simp: at keyLive_def slotKey_def)
    have ins: "grp (Some (List.insert (r_handle r) hs)) (videoKey s) (ks' x)" if "sync s = Some hs" for hs x
      using g[unfolded that] len flags mono _ live by (rule grp_audio_insert) (use assms in simp_all)
    have keep: "grp (sync s) (videoKey s) (ks' x)" for x
      using g len flags mono by (rule grp_audio_mono)
    have bf: "b = False" using False by simp
    from Some assms show ?thesis
      using ins[of _ 0] keep[of 0] unfolding bf ks'_def
      by (simp add: setAudioStalled_def Let_def split_beta chan_simps cong: if_cong)
        (auto simp: group_ok_def videoKey_def syncAdd_def ticked_def split: option.split)
  qed
qed (simp add: setAudioStalled_def assms)

lemma group_markVideoFlowInvalid: "group_ok s \<Longrightarrow> group_ok (markVideoFlowInvalid e s)"
proof (cases "videoReader s")
  case (Some r)
  assume "group_ok s"
  then have g: "grp (sync s) (Some r, videoFlowInvalid s, videoStalled s) (map slotKey (aflows s))"
    using Some by (simp add: group_ok_def videoKey_def)
  show ?thesis using Some \<open>group_ok s\<close> grp_video[OF g, of True False]
    by (simp add: markVideoFlowInvalid_def Let_def chan_simps)
      (simp add: group_ok_def videoKey_def syncRemove_def)
qed (simp add: markVideoFlowInvalid_def)

lemma group_markAudioFlowInvalid:
  assumes "group_ok s"
  shows "group_ok (markAudioFlowInvalid e i s)"
proof -
  define hit where "hit = (\<lambda>af. readable af \<and> af_flowId (a_cfg af) = af_flowId (a_cfg (aflows s ! i)))"
  define gone where "gone = map (\<lambda>af. r_handle (the (a_reader af))) (filter hit (aflows s))"
  define new where "new = map (\<lambda>af. if hit af then af\<lparr>a_flowInvalid := True, a_stalled := False\<rparr> else af) (aflows s)"
  have g: "grp (sync s) (videoKey s) (map slotKey (aflows s))" using assms by (simp add: group_ok_def)
  have "grp (map_option (\<lambda>hs. filter (\<lambda>h. h \<notin> set gone) hs) (sync s)) (videoKey s) (map slotKey new)"
    using g
  proof (rule grp_audio)
    show "list_all keyFlags (map slotKey new)"
      using g by (auto simp: grp_def list_all_iff keyFlags_def slotKey_def new_def)
    fix h j assume j: "j < length (map slotKey (aflows s))" "keyLive h (map slotKey (aflows s) ! j)"
      "\<not> keyLive h (map slotKey new ! j)"
    then have "hit (aflows s ! j)" by (auto simp: new_def split: if_splits)
    moreover have "aflows s ! j \<in> set (aflows s)" using j(1) by simp
    moreover have "h = r_handle (the (a_reader (aflows s ! j)))"
      using j(1,2) by (auto simp: keyLive_def slotKey_def)
    ultimately show "h \<in> set gone" by (auto simp: gone_def)
  qed (simp add: new_def)
  then have "group_ok (fold syncRemove gone (s\<lparr>aflows := new\<rparr>))"
    by (simp add: group_ok_def fold_syncRemove_sync) (simp add: videoKey_def)
  moreover have "markAudioFlowInvalid e i s =
      (let t = fold syncRemove gone (s\<lparr>aflows := new\<rparr>) in if gone \<noteq> [] then requestReopen (updateStallClock e t) else t)"
    by (simp only: markAudioFlowInvalid_def Let_def hit_def gone_def new_def)
  ultimately show ?thesis by (cases "gone = []") (simp_all add: Let_def chan_simps)
qed

subsection \<open>The callbacks keep it\<close>

lemma fold_slots:
  assumes "\<And>i s. i < n \<Longrightarrow> I s \<Longrightarrow> I (f i s)" "I s"
  shows "I (fold f [0..<n] s)"
proof -
  have "(\<And>i s. i \<in> set xs \<Longrightarrow> I s \<Longrightarrow> I (f i s)) \<Longrightarrow> I s \<Longrightarrow> I (fold f xs s)" for xs s
    by (induction xs arbitrary: s) auto
  from this[of "[0..<n]" s] show ?thesis using assms by auto
qed

text \<open>The invariant together with the number of slots, which never changes.\<close>

definition group_n :: "nat \<Rightarrow> OutputChannel \<Rightarrow> bool" where
  "group_n n s \<longleftrightarrow> group_ok s \<and> length (aflows s) = n"

lemma group_n_core: "group_ok t \<Longrightarrow> core t = core s \<Longrightarrow> group_n n s \<Longrightarrow> group_n n t"
  using core_eqD(26)[of t s] by (simp add: group_n_def)

lemma group_forSlots:
  assumes "group_ok s"
    and "\<And>i s. i < length (aflows s) \<Longrightarrow> group_ok s \<Longrightarrow> group_ok (f i s)" "\<And>i s. core (f i s) = core s"
  shows "group_ok (forSlots f s)"
proof -
  let ?n = "length (aflows s)"
  have "group_n ?n (fold f [0..<?n] s)"
  proof (rule fold_slots)
    fix i t assume "i < ?n" "group_n ?n t"
    then show "group_n ?n (f i t)"
      using assms(2)[of i t] by (intro group_n_core[OF _ assms(3)]) (simp_all add: group_n_def)
  qed (simp add: assms(1) group_n_def)
  then show ?thesis by (simp add: forSlots_def group_n_def)
qed

lemma group_snd_calls [chan_simps]:
  "group_ok (snd (steadyNowNs e s)) = group_ok s" "group_ok (snd (videoHeadIndex e r s)) = group_ok s"
  "group_ok (snd (audioHeadIndex e r s)) = group_ok s" "group_ok (snd (getGrain e r i t s)) = group_ok s"
  by (simp_all add: steadyNowNs_def videoHeadIndex_def audioHeadIndex_def getGrain_def chan_simps)

lemma noteAudioHead_slot [simp]:
  "length (aflows (noteAudioHead i h t s)) = length (aflows s)"
  "a_flowInvalid (aflows (noteAudioHead i h t s) ! i) = a_flowInvalid (aflows s ! i)"
  "a_reader (aflows (noteAudioHead i h t s) ! i) = a_reader (aflows s ! i)"
  "videoFlowInvalid (noteAudioHead i h t s) = videoFlowInvalid s"
  by (cases "i < length (aflows s)", simp_all add: noteAudioHead_def Let_def split_beta list_update_beyond)+

lemma call_fields [simp]:
  "aflows (snd (audioHeadIndex e r s)) = aflows s" "aflows (snd (steadyNowNs e s)) = aflows s"
  "aflows (ticked s) = aflows s" "videoFlowInvalid (ticked s) = videoFlowInvalid s"
  "videoFlowInvalid (snd (steadyNowNs e s)) = videoFlowInvalid s"
  "videoFlowInvalid (snd (videoHeadIndex e r s)) = videoFlowInvalid s"
  "videoFlowInvalid (snd (getGrain e r i t s)) = videoFlowInvalid s"
  "videoFlowInvalid (noteVideoHead h x s) = videoFlowInvalid s"
  "videoFlowInvalid (snd (resumeAt e r i h g st s)) = videoFlowInvalid s"
  by (simp_all add: audioHeadIndex_def steadyNowNs_def videoHeadIndex_def getGrain_def ticked_def
      noteVideoHead_def resumeAt_def Let_def split_beta)

lemma group_markStalledSlot:
  "i < length (aflows s) \<Longrightarrow> group_ok s \<Longrightarrow> group_ok (markStalledSlot e t i s)"
  by (auto simp: markStalledSlot_def Let_def split_beta chan_simps split: option.split intro!: group_setAudioStalled)

lemma group_markStalledAudio: "group_ok s \<Longrightarrow> group_ok (markStalledAudio e s)"
  unfolding markStalledAudio_def Let_def split_beta
  by (rule group_forSlots) (simp_all add: chan_simps group_markStalledSlot)

lemma group_findInvalidReaders: "group_ok s \<Longrightarrow> group_ok (findInvalidReaders e s)"
proof -
  assume g: "group_ok s"
  have slot: "group_ok s \<Longrightarrow> group_ok (findInvalidSlot e i s)" "core (findInvalidSlot e i s) = core s" for i s
    by (auto simp: findInvalidSlot_def chan_simps split: option.split intro!: group_markAudioFlowInvalid)
  have "group_ok (case videoReader s of None \<Rightarrow> s | Some r \<Rightarrow>
      if videoFlowInvalid s then s
      else if videoGone e (tick s) (r_handle r) then markVideoFlowInvalid e (ticked s) else ticked s)"
    using g by (auto simp: chan_simps split: option.split intro!: group_markVideoFlowInvalid)
  then show ?thesis unfolding findInvalidReaders_def Let_def by (rule group_forSlots) (auto intro: slot)
qed

lemma group_noteHeadsBefore: "group_ok s \<Longrightarrow> group_ok (noteHeadsBefore e r s)"
  unfolding noteHeadsBefore_def Let_def split_beta
  by (rule group_forSlots) (auto simp: noteSlotBefore_def Let_def split_beta chan_simps split: option.split)

lemma group_waitForGroup: "group_ok s \<Longrightarrow> group_ok (snd (waitForGroup e r i t s))"
  by (auto simp: waitForGroup_def Let_def chan_simps split: option.split
      intro!: group_findInvalidReaders group_markStalledAudio)

lemma group_onGrainRead: "group_ok s \<Longrightarrow> \<not> videoFlowInvalid s \<Longrightarrow> group_ok (snd (onGrainRead e r i h g s))"
  using group_setVideoStalled[of s e False] by (simp add: onGrainRead_def Let_def split_beta chan_simps)

lemma group_onGrainMissing:
  "group_ok s \<Longrightarrow> \<not> videoFlowInvalid s \<Longrightarrow> group_ok (snd (onGrainMissing e r i h t st g s))"
  using group_setVideoStalled[of s e] by (simp add: onGrainMissing_def Let_def split_beta chan_simps)

lemma group_onGrainError:
  "group_ok s \<Longrightarrow> \<not> videoFlowInvalid s \<Longrightarrow> group_ok (snd (onGrainError e r i h st g s))"
  by (simp add: onGrainError_def Let_def split_beta chan_simps group_setVideoStalled)

lemma group_readAfterWait:
  "group_ok s \<Longrightarrow> \<not> videoFlowInvalid s \<Longrightarrow> group_ok (snd (readAfterWait e r i t s))"
  by (simp add: readAfterWait_def Let_def split_beta chan_simps group_markVideoFlowInvalid
      group_onGrainRead group_onGrainMissing group_onGrainError)

lemma group_readGrain: "group_ok s \<Longrightarrow> group_ok (snd (readGrain e i t s))"
  using group_waitForGroup[OF group_noteHeadsBefore]
  by (simp add: readGrain_def Let_def split_beta group_readAfterWait split: option.split)

lemma group_position [chan_simps]:
  "group_ok (moveReadPosition i a s) = group_ok s" "group_ok (snd (presentFrame e b rd s)) = group_ok s"
  "group_ok (s\<lparr>lastFrame := f\<rparr>) = group_ok s" "group_ok (s\<lparr>nextGrainIndex := j\<rparr>) = group_ok s"
  "group_ok (s\<lparr>audioEndFrame := j\<rparr>) = group_ok s" "group_ok (s\<lparr>played := x\<rparr>) = group_ok s"
  by (rule group_fields; simp add: moveReadPosition_def presentFrame_def countRepeat_def taiNowNs_def ticked_def
      videoKey_def Let_def split_beta split: RepeatReason.split)+

lemma group_scheduleGrain: "group_ok s \<Longrightarrow> group_ok (snd (scheduleGrain e i w s))"
  using group_readGrain[of s e i w]
  by (simp add: scheduleGrain_def commitFrame_def Let_def split_beta chan_simps)

interpretation group: completion_invariant group_ok
proof
  show "group_ok s \<Longrightarrow> group_ok (snd (scheduleGrain e i w s))" for s e i w by (rule group_scheduleGrain)
  have deadline: "group_ok (estimateDeadline e d s) = group_ok s" for e d s
    by (rule group_fields; simp add: estimateDeadline_def steadyNowNs_def ticked_def videoKey_def Let_def split_beta
        split: option.split)
  then show "group_ok s \<Longrightarrow> group_ok (estimateDeadline e d s)" for s e d by simp
  have late: "group_ok (snd (countLateOrDropped e r s)) = group_ok s" for e r s
    by (rule group_fields; simp add: countLateOrDropped_def taiNowNs_def ticked_def videoKey_def Let_def split_beta)
  then show "group_ok s \<Longrightarrow> group_ok (snd (countLateOrDropped e r s))" for s e r by simp
qed (simp_all add: group_ok_def videoKey_def ticked_def)

lemma core_readSlot [chan_simps]: "core (snd (readSlot e b n t i r pcm s)) = core s"
  by (simp add: readSlot_def Let_def split_beta chan_simps)

lemma core_afterAudioRead [chan_simps]: "core (snd (afterAudioRead e i r st ap s)) = core s"
proof -
  define t where "t = noteAudioHead i (fst (audioHeadIndex e r (snd (steadyNowNs e s)))) (fst (steadyNowNs e s))
    (snd (audioHeadIndex e r (snd (steadyNowNs e s))))"
  have "core t = core s" by (simp add: t_def chan_simps)
  then show ?thesis
    unfolding afterAudioRead_def Let_def split_beta t_def[symmetric] by (simp add: core_setAudioStalled)
qed

lemma core_renderSlot [chan_simps]: "core (snd (renderSlot e b n t i (ap, s))) = core s"
  by (simp add: renderSlot_def Let_def split_beta chan_simps split: option.split)

lemma group_readSlot [chan_simps]:
  "group_ok (snd (readSlot e b n t i r pcm s)) = group_ok s"
  "length (aflows (snd (readSlot e b n t i r pcm s))) = length (aflows s)"
  "a_flowInvalid (aflows (snd (readSlot e b n t i r pcm s)) ! i) = a_flowInvalid (aflows s ! i)"
  by (simp_all add: readSlot_def Let_def split_beta chan_simps)

lemma group_afterAudioRead:
  assumes "i < length (aflows s)" "group_ok s" "\<not> a_flowInvalid (aflows s ! i)"
  shows "group_ok (snd (afterAudioRead e i r st ap s))"
proof -
  define t where "t = noteAudioHead i (fst (audioHeadIndex e r (snd (steadyNowNs e s)))) (fst (steadyNowNs e s))
    (snd (audioHeadIndex e r (snd (steadyNowNs e s))))"
  have t: "group_ok t" "i < length (aflows t)" "\<not> a_flowInvalid (aflows t ! i)"
    using assms by (simp_all add: t_def chan_simps)
  show ?thesis
    unfolding afterAudioRead_def Let_def split_beta t_def[symmetric]
    using t group_setAudioStalled[OF t, of e] by simp
qed

lemma group_renderSlot:
  "i < length (aflows s) \<Longrightarrow> group_ok s \<Longrightarrow> group_ok (snd (renderSlot e b n t i (ap, s)))"
  by (simp add: renderSlot_def Let_def split_beta chan_simps group_markAudioFlowInvalid group_afterAudioRead split: option.split)

lemma group_playBlock [chan_simps]: "group_ok (playBlock ap s) = group_ok s"
  by (simp add: playBlock_def Let_def chan_simps)

lemma group_onRenderAudio: "group_ok s \<Longrightarrow> group_ok (onRenderAudio e s)"
proof -
  assume g: "group_ok s"
  have fold: "group_n m (snd (fold (renderSlot e b n t) [0..<m] (ap, s)))" if "group_n m s" for m b n t ap s
  proof -
    have "group_n m (snd (renderSlot e b n t i p))" if "i < m" "group_n m (snd p)" for i p
    proof (rule group_n_core[of _ "snd p"])
      show "group_ok (snd (renderSlot e b n t i p))"
        using that group_renderSlot[of i "snd p" e b n t "fst p"] by (simp add: group_n_def)
      show "core (snd (renderSlot e b n t i p)) = core (snd p)"
        using core_renderSlot[of e b n t i "fst p" "snd p"] by simp
    qed (rule that)
    then show ?thesis using fold_slots[of m "\<lambda>p. group_n m (snd p)" "renderSlot e b n t" "(ap, s)"] that by simp
  qed
  define t where "t = snd (readBudgetNs e (s\<lparr>audioEndFrame := audioEndFrame s + 1\<rparr>))"
  have "group_ok t"
    using g group.budget[of "s\<lparr>audioEndFrame := audioEndFrame s + 1\<rparr>" e] by (simp add: t_def chan_simps)
  then have "group_ok (playBlock (fst x) (snd x))"
    if "x = fold (renderSlot e b n w) [0..<length (aflows t)] (ap, t)" for x b n w ap
    using fold[of "length (aflows t)" t b n w ap] that by (simp add: group_n_def chan_simps)
  then show ?thesis
    unfolding onRenderAudio_def Let_def split_beta t_def[symmetric] using g by simp
qed

subsection \<open>The supervisor keeps it\<close>

lemma group_tearDown: "group_ok s \<Longrightarrow> group_ok (tearDownStreaming s)"
  by (auto simp: group_ok_def grp_def videoKey_def keyFlags_def tearDownStreaming_def)

lemma group_takeInvalid: "group_ok s \<Longrightarrow> group_ok (snd (takeInvalid now s))"
proof -
  assume "group_ok s"
  then have g: "grp (sync s) (videoKey s) (map slotKey (aflows s))" by (simp add: group_ok_def)
  define new where "new = map (\<lambda>af. if a_flowInvalid af then af\<lparr>a_reader := None\<rparr> else af) (aflows s)"
  have "grp (sync s) (videoKey s) (map slotKey new)"
    using g by (rule grp_audio_mono)
      (use g in \<open>auto simp: new_def grp_def list_all_iff keyFlags_def keyLive_def slotKey_def\<close>)
  moreover have "grp sy (None, True, st) ks" if "grp sy (r, True, st) ks" for sy r st ks
    using that by (auto simp: grp_def keyLive_def keyFlags_def)
  ultimately show ?thesis
    by (auto simp: takeInvalid_def Let_def group_ok_def videoKey_def new_def)
qed

lemma group_state [chan_simps]:
  "group_ok (setState st s) = group_ok s" "group_ok (updateRunningState s) = group_ok s"
  "group_ok (noteReopenDegraded t s) = group_ok s" "group_ok (s\<lparr>reopen := x\<rparr>) = group_ok s"
  "group_ok (s\<lparr>reopenDegraded := b\<rparr>) = group_ok s" "group_ok (s\<lparr>reopen := x, resetRequested := b\<rparr>) = group_ok s"
  "group_ok (acceptRequest t s) = group_ok s"
  by (rule group_fields; simp add: updateRunningState_def noteReopenDegraded_def setState_def acceptRequest_def
      videoKey_def)+

lemma group_supervise [chan_simps]:
  "group_ok (logStallStart t s) = group_ok s" "group_ok (logStallEnded t s) = group_ok s"
  "group_ok (noteStallDegraded t s) = group_ok s" "group_ok (logLateStart s) = group_ok s"
  "group_ok (logLateEnded t s) = group_ok s" "group_ok (noteLateDegraded t s) = group_ok s"
  "group_ok (logCatchUps t s) = group_ok s" "group_ok (logInvalidGrains t s) = group_ok s"
  "group_ok (logReadErrors t s) = group_ok s" "group_ok (logFramesLost t s) = group_ok s"
  by (rule group_fields; simp add: logStallStart_def logStallEnded_def noteStallDegraded_def logLateStart_def
      logLateEnded_def noteLateDegraded_def logCatchUps_def logInvalidGrains_def logReadErrors_def
      logFramesLost_def updateRunningState_def setState_def addLog_def videoKey_def Let_def)+

lemma group_superviseStalls [chan_simps]: "group_ok (superviseStalls e s) = group_ok s"
  by (simp add: superviseStalls_def Let_def split_beta chan_simps)

lemma group_reopenBegin: "group_ok s \<Longrightarrow> group_ok (snd (reopenBegin e s))"
  by (simp add: reopenBegin_def Let_def split_beta chan_simps group_takeInvalid)

lemma subseq_subset: "subseq xs ys \<Longrightarrow> set xs \<subseteq> set ys"
  by (induction rule: list_emb.induct) auto

lemma subseq_distinct: "subseq xs ys \<Longrightarrow> distinct ys \<Longrightarrow> distinct xs"
  by (induction rule: list_emb.induct) (auto dest: list_emb_set)

text \<open>Opening readers only talks to MXL.\<close>

lemma openSlot_cases:
  "\<exists>res'. openSlot e x (res, s) = (res', ticked s) \<and> ro_video res' = ro_video res \<and>
     (map fst (ro_audio res') = map fst (ro_audio res) \<or> map fst (ro_audio res') = map fst (ro_audio res) @ [x])"
  by (cases "openAudio e (tick s) (af_readerDomainPath (a_cfg (aflows s ! x))) (af_flowId (a_cfg (aflows s ! x)))")
    (auto simp: openSlot_def Let_def)

lemma fold_openSlot:
  "\<exists>k. snd (fold (openSlot e) xs (res, s)) = s\<lparr>tick := k\<rparr> \<and>
     ro_video (fst (fold (openSlot e) xs (res, s))) = ro_video res \<and>
     subseq (map fst (ro_audio (fst (fold (openSlot e) xs (res, s))))) (map fst (ro_audio res) @ xs)"
proof (induction xs arbitrary: res s)
  case Nil
  show ?case by (rule exI[of _ "tick s"]) simp
next
  case (Cons x xs)
  obtain res' where o: "openSlot e x (res, s) = (res', ticked s)" "ro_video res' = ro_video res"
    "map fst (ro_audio res') = map fst (ro_audio res) \<or> map fst (ro_audio res') = map fst (ro_audio res) @ [x]"
    using openSlot_cases by blast
  have eq: "fold (openSlot e) (x # xs) (res, s) = fold (openSlot e) xs (res', ticked s)" by (simp add: o(1))
  have sub: "subseq (map fst (ro_audio res') @ xs) (map fst (ro_audio res) @ x # xs)"
    using o(3) by (auto intro: list_emb_append_mono subseq_order.refl)
  obtain k where "snd (fold (openSlot e) xs (res', ticked s)) = (ticked s)\<lparr>tick := k\<rparr>"
    "ro_video (fst (fold (openSlot e) xs (res', ticked s))) = ro_video res'"
    "subseq (map fst (ro_audio (fst (fold (openSlot e) xs (res', ticked s))))) (map fst (ro_audio res') @ xs)"
    using Cons.IH by blast
  then show ?case unfolding eq
    using o(2) sub by (intro exI[of _ k]) (auto simp: ticked_def intro: subseq_order.trans)
qed

text \<open>The slots a re-open works on stay empty until it finishes: the callbacks skip them.\<close>

definition work_ok :: "ReopenWork \<Rightarrow> OutputChannel \<Rightarrow> bool" where
  "work_ok w s \<longleftrightarrow> (rw_wantVideo w \<longrightarrow> videoReader s = None \<and> videoFlowInvalid s) \<and>
     (\<forall>i \<in> set (rw_wantAudio w). i < length (aflows s) \<and> a_reader (aflows s ! i) = None) \<and>
     distinct (rw_wantAudio w)"

definition result_ok :: "ReopenWork \<Rightarrow> ReopenResult \<Rightarrow> bool" where
  "result_ok w res \<longleftrightarrow> (ro_video res \<noteq> None \<longrightarrow> rw_wantVideo w) \<and> subseq (map fst (ro_audio res)) (rw_wantAudio w)"

lemma reopenOpen_result:
  "\<exists>k. snd (reopenOpen e w s) = s\<lparr>tick := k\<rparr>" "result_ok w (fst (reopenOpen e w s))"
proof -
  define res0 :: ReopenResult where "res0 = \<lparr>ro_video = None, ro_audio = [], ro_error = False, ro_formatChanged = False\<rparr>"
  have "\<exists>res k. reopenOpen e w s = fold (openSlot e) (rw_wantAudio w) (res, s\<lparr>tick := k\<rparr>) \<and>
      (ro_video res \<noteq> None \<longrightarrow> rw_wantVideo w) \<and> ro_audio res = []"
  proof (cases "rw_wantVideo w")
    case True
    then show ?thesis
      by (cases "openVideo e (tick s) (readerDomainPath (cfg s)) (videoFlowId (cfg s))")
        (auto simp: reopenOpen_def Let_def ticked_def intro!: exI)
  next
    case False
    then show ?thesis
      by (auto simp: reopenOpen_def Let_def intro!: exI[of _ res0] exI[of _ "tick s"]) (auto simp: res0_def)
  qed
  then obtain res k where r: "reopenOpen e w s = fold (openSlot e) (rw_wantAudio w) (res, s\<lparr>tick := k\<rparr>)"
    "ro_video res \<noteq> None \<longrightarrow> rw_wantVideo w" "ro_audio res = []" by blast
  show "\<exists>k. snd (reopenOpen e w s) = s\<lparr>tick := k\<rparr>"
    using fold_openSlot[of e "rw_wantAudio w" res "s\<lparr>tick := k\<rparr>"] r(1) by auto
  show "result_ok w (fst (reopenOpen e w s))"
    using fold_openSlot[of e "rw_wantAudio w" res "s\<lparr>tick := k\<rparr>"] r by (auto simp: result_ok_def)
qed

lemma takeInvalid_work: "work_ok (fst (takeInvalid now s)) (snd (takeInvalid now s))"
  by (auto simp: takeInvalid_def Let_def work_ok_def)

lemma grp_install:
  assumes "grp sy (None, True, st) ks"
  shows "grp sy (Some r, False, False) ks"
    and "sy = Some hs \<Longrightarrow> grp (Some (List.insert (r_handle r) hs)) (Some r, False, False) ks"
  using assms by (auto simp: grp_def keyLive_def keyFlags_def)

lemma group_installVideo:
  assumes "group_ok s" "v \<noteq> None \<longrightarrow> videoReader s = None \<and> videoFlowInvalid s"
  shows "group_ok (snd (installVideo e v s))"
proof (cases v)
  case (Some r)
  then have g: "grp (sync s) (None, True, videoStalled s) (map slotKey (aflows s))"
    using assms by (simp add: group_ok_def videoKey_def)
  then have "\<not> videoStalled s" by (simp add: grp_def keyFlags_def)
  then show ?thesis using Some grp_install[OF g]
    by (auto simp: installVideo_def syncAdd_def ticked_def group_ok_def videoKey_def split: option.split)
qed (simp add: installVideo_def assms)

lemma group_installAudio:
  "group_ok s \<Longrightarrow> distinct (map fst rs) \<Longrightarrow>
     (\<And>i. i \<in> set (map fst rs) \<Longrightarrow> i < length (aflows s) \<and> a_reader (aflows s ! i) = None) \<Longrightarrow>
     group_ok (snd (installAudio e rs s))"
proof (induction rs arbitrary: s)
  case (Cons x rs)
  obtain i r where x: "x = (i, r)" by (cases x)
  have i: "i < length (aflows s)" "a_reader (aflows s ! i) = None" using Cons.prems(3)[of i] x by auto
  define new where "new = (aflows s)[i := (aflows s ! i)\<lparr>a_reader := Some r, a_flowInvalid := False, a_stalled := False\<rparr>]"
  define t where "t = snd (syncAdd e (r_handle r) (s\<lparr>aflows := new\<rparr>))"
  have g: "grp (sync s) (videoKey s) (map slotKey (aflows s))" using Cons.prems(1) by (simp add: group_ok_def)
  have flags: "list_all keyFlags (map slotKey new)"
    using g i by (auto simp: grp_def list_all_length new_def nth_list_update keyFlags_def slotKey_def)
  have mono: "keyLive h (map slotKey new ! j)" if "j < length (map slotKey (aflows s))" "keyLive h (map slotKey (aflows s) ! j)" for h j
    using that i by (auto simp: new_def nth_list_update keyLive_def slotKey_def)
  have live: "keyLive (r_handle r) (map slotKey new ! i)"
    using i by (simp add: new_def keyLive_def slotKey_def)
  have len: "length (map slotKey new) = length (map slotKey (aflows s))" by (simp add: new_def)
  have "group_ok t"
    using grp_audio_mono[OF g len flags mono] grp_audio_insert[OF _ len flags mono _ live] g i
    by (auto simp: t_def syncAdd_def ticked_def group_ok_def videoKey_def split: option.split)
  moreover have "aflows t = new" by (simp add: t_def syncAdd_def ticked_def split: option.split)
  ultimately have "group_ok (snd (installAudio e rs t))"
    using Cons.prems(2,3) x by (intro Cons.IH) (auto simp: new_def nth_list_update image_iff)
  then show ?case
    using \<open>group_ok t\<close> by (simp add: x Let_def split_beta new_def[symmetric] t_def[symmetric])
qed simp

lemma group_reopenFinish:
  assumes "group_ok s" "work_ok w s" "result_ok w res"
  shows "group_ok (reopenFinish e w res s)"
proof -
  have v: "group_ok (snd (installVideo e (ro_video res) s))"
    using assms by (intro group_installVideo) (auto simp: work_ok_def result_ok_def)
  have af: "aflows (snd (installVideo e (ro_video res) s)) = aflows s"
    by (simp add: installVideo_def syncAdd_def ticked_def split: option.split)
  have sub: "set (map fst (ro_audio res)) \<subseteq> set (rw_wantAudio w)" "distinct (map fst (ro_audio res))"
    using assms(2,3) subseq_subset subseq_distinct unfolding result_ok_def work_ok_def by blast+
  have a: "group_ok (snd (installAudio e (ro_audio res) (snd (installVideo e (ro_video res) s))))"
    using v sub assms(2) by (intro group_installAudio) (auto simp: af work_ok_def)
  show ?thesis using v a assms(1)
    by (simp add: reopenFinish_def Let_def split_beta chan_simps)
qed

subsection \<open>Bring-up establishes it\<close>

text \<open>While readers are being opened: no group yet, every slot fresh.\<close>

definition fresh_slots :: "OutputChannel \<Rightarrow> bool" where
  "fresh_slots s \<longleftrightarrow> sync s = None \<and> \<not> videoFlowInvalid s \<and> \<not> videoStalled s \<and>
     list_all (\<lambda>af. \<not> a_flowInvalid af \<and> \<not> a_stalled af) (aflows s)"

lemma openAudioSlots_fresh: "fresh_slots s \<Longrightarrow> fresh_slots (snd (openAudioSlots e cs s))"
  by (induction cs arbitrary: s) (auto simp: fresh_slots_def Let_def ticked_def split: option.split)

lemma openAudioSlots_video: "videoReader (snd (openAudioSlots e cs s)) = videoReader s"
  by (induction cs arbitrary: s) (auto simp: Let_def ticked_def split: option.split)

lemma joinGroup_group:
  "group_ok s \<Longrightarrow> (\<And>h. h \<in> set hs \<Longrightarrow> keyLive h (videoKey s) \<or> list_ex (keyLive h) (map slotKey (aflows s))) \<Longrightarrow>
     group_ok (snd (joinGroup e hs s))"
proof (induction hs arbitrary: s)
  case (Cons h hs)
  define t where "t = snd (syncAdd e h s)"
  have f: "videoKey t = videoKey s" "aflows t = aflows s"
    by (simp_all add: t_def syncAdd_def ticked_def videoKey_def split: option.split)
  have "group_ok t"
    using Cons.prems by (auto simp: t_def syncAdd_def ticked_def group_ok_def grp_def videoKey_def split: option.split)
  then show ?case using Cons.IH[of t] Cons.prems(2) f
    by (simp add: Let_def split_beta t_def[symmetric])
qed simp

lemma openReaders_group:
  assumes "fresh_slots s"
  shows "group_ok (snd (openReaders e s))"
proof (cases "openVideo e (tick s) (readerDomainPath (cfg s)) (videoFlowId (cfg s))")
  case None
  then show ?thesis using assms
    by (auto simp: openReaders_def fresh_slots_def group_ok_def grp_def ticked_def videoKey_def keyFlags_def
        slotKey_def list_all_iff)
next
  case (Some r)
  define s1 where "s1 = (ticked s)\<lparr>videoReader := Some r, videoRate := r_rate r, videoConfig := r_config r, aflows := []\<rparr>"
  define p where "p = (if audioEnable (cfg s1) then openAudioSlots e (audioFlows (cfg s1)) s1 else (True, s1))"
  define s2 where "s2 = snd p"
  have "fresh_slots s1" using assms by (simp add: s1_def fresh_slots_def ticked_def)
  then have f: "fresh_slots s2" "videoReader s2 = Some r"
    using openAudioSlots_fresh openAudioSlots_video by (auto simp: s2_def p_def s1_def)
  then have g: "group_ok s2" "group_ok (ticked s2)"
    by (auto simp: fresh_slots_def group_ok_def grp_def ticked_def videoKey_def keyFlags_def slotKey_def list_all_iff)
  have "group_ok (snd (joinGroup e (r_handle r # map r_handle (List.map_filter a_reader (aflows s2))) ((ticked s2)\<lparr>sync := Some []\<rparr>)))"
  proof (rule joinGroup_group)
    show "group_ok ((ticked s2)\<lparr>sync := Some []\<rparr>)"
      using g(2) by (auto simp: group_ok_def grp_def videoKey_def)
    show "keyLive h (videoKey ((ticked s2)\<lparr>sync := Some []\<rparr>)) \<or>
        list_ex (keyLive h) (map slotKey (aflows ((ticked s2)\<lparr>sync := Some []\<rparr>)))"
      if "h \<in> set (r_handle r # map r_handle (List.map_filter a_reader (aflows s2)))" for h
      using that f by (force simp: fresh_slots_def ticked_def videoKey_def keyLive_def slotKey_def list_all_iff
          list_ex_iff map_filter_def)
  qed
  then show ?thesis using g
    unfolding openReaders_def Some Let_def split_beta option.case s1_def[symmetric] p_def[symmetric] s2_def[symmetric]
    by (simp del: joinGroup.simps)
qed

end
