(* ===== verification/OutputSystem.thy ===== *)
theory OutputSystem
  imports OutputSync
begin

text \<open>
  The output channel as a transition system.  The card's callbacks, the housekeeping of another
  thread and the sections of the supervisor thread are steps that interleave; the re-open of
  \<open>reopenInvalidReaders\<close> is three steps, so callbacks run while readers are being opened.  A
  bring-up is one step: of the callbacks that can run inside it, a completion does nothing
  (\<open>_playing\<close> is false) and the audio callbacks of the card's preroll are left out.
\<close>

subsection \<open>Steps\<close>

definition newOutputChannel :: "ChannelConfig \<Rightarrow> VideoMode \<Rightarrow> OutputChannel" where
  "newOutputChannel c m =
     \<lparr>cfg = c, status = newStatus, tick = 0,
      playback = False, videoReader = None, videoFlowInvalid = False,
      videoRate = \<lparr>numerator = 0, denominator = 0\<rparr>, videoConfig = zeroConfig, aflows = [], sync = None, mode = m,
      playing = False, resetRequested = False, streamingUp = False, reopenRequested = False,
      nextGrainIndex = 0, scheduledFrames = 0, frameWaitNs = 0, scheduleMarginNs = 8000000,
      streamProbed = False, streamWholeFrames = False, lastCompletionNs = 0, lastCallbackEndNs = 0,
      readDeadlineNs = 0, lastFrame = [], audioEndFrame = 0, maxSamplesPerFrame = 0,
      recentLateOrDropped = 0, recentWindowStart = 0, periodNs = 20000000, readOffset = 0, behindSinceNs = 0,
      videoStalled = False, videoStallHead = 0, videoLastHead = 0, videoHeadChangeNs = 0,
      stallSinceNs = 0, stallRepeatsAtStart = 0, stallsEnded = 0, endedStallRepeats = 0, lastStallNs = 0,
      lateRunId = 0, lateRunCount = 0, prevLateRunCount = 0, lateRunStartNs = 0, lateSinceNs = 0, lateLastNs = 0,
      catchUps = 0, catchUpGrains = 0, lastCatchUpOutOfRing = False, readErrors = 0, invalidGrains = 0,
      lastReadError = 0, cardLate = 0, cardDropped = 0, notScheduled = 0,
      reopen = newReopenSchedule, reopenDegraded = False, lateDegraded = False, stallDegraded = False,
      stallLogged = False, stallsEndedLogged = 0, endedStallRepeatsLogged = 0, stallEndLogNs = 0,
      lateRunStartLogged = 0, lateRunEndLogged = 0, catchUpsLogged = 0, catchUpGrainsLogged = 0,
      catchUpLogNs = 0, invalidGrainsLogged = 0, invalidLogNs = 0, readErrorsLogged = 0, readErrorLogNs = 0,
      cardLateLogged = 0, cardDroppedLogged = 0, notScheduledLogged = 0, cardLogNs = 0, logs = [],
      m_framesTotal = 0, m_framesDropped = 0, m_framesLate = 0, m_reconnectTotal = 0, m_flowReopens = 0,
      m_repeatedSourceStall = 0, m_repeatedSourceLate = 0, m_repeatedFlowReopen = 0,
      m_repeatedSourceInvalid = 0, m_repeatedReadError = 0, m_stallsVideo = 0, m_stallsAudio = 0,
      m_readerLag = 0, shown = [], played = []\<rparr>"

text \<open>Where the supervisor is: between its sections, or inside a re-open.\<close>

datatype Phase = Idle | Opening ReopenWork | Opened ReopenWork ReopenResult

inductive step :: "Env \<Rightarrow> OutputChannel \<times> Phase \<Rightarrow> OutputChannel \<times> Phase \<Rightarrow> bool" for e where
  complete: "step e (s, p) (onFrameCompleted e r s, p)"
| audio: "step e (s, p) (onRenderAudio e s, p)"
| stopped: "step e (s, p) (s\<lparr>playing := False\<rparr>, p)"
| house: "step e (s, p) (housekeeping e s, p)"
| noReopen: "reopenBegin e s = (None, s') \<Longrightarrow> step e (s, Idle) (s', Idle)"
| beginReopen: "reopenBegin e s = (Some w, s') \<Longrightarrow> step e (s, Idle) (s', Opening w)"
| openReopen: "reopenOpen e w s = (res, s') \<Longrightarrow> step e (s, Opening w) (s', Opened w res)"
| finishReopen: "step e (s, Opened w res) (reopenFinish e w res s, Idle)"
| supervise: "step e (s, Idle) (superviseStalls e s, Idle)"
| probe: "probeStreamTime fuel e s = Some s' \<Longrightarrow> step e (s, Idle) (s', Idle)"
| reset: "resetRequested s \<Longrightarrow> step e (s, Idle) (tearDownStreaming (s\<lparr>resetRequested := False\<rparr>), Idle)"
| broughtUp: "\<not> streamingUp s \<Longrightarrow> bringUp fuel e s = Some (True, s') \<Longrightarrow> step e (s, Idle) (s', Idle)"
| bringUpFailed: "\<not> streamingUp s \<Longrightarrow> bringUp fuel e s = Some (False, s') \<Longrightarrow> step e (s, Idle) (setState Failed s', Idle)"
| stop: "step e (s, Idle) (tearDownStreaming s, Idle)"

inductive_cases step_finishE: "step e (s, Opened w res) t"

inductive reachable :: "Env \<Rightarrow> ChannelConfig \<Rightarrow> OutputChannel \<times> Phase \<Rightarrow> bool" for e c where
  init: "reachable e c (newOutputChannel c m, Idle)"
| more: "reachable e c x \<Longrightarrow> step e x y \<Longrightarrow> reachable e c y"

subsection \<open>Invariants through preroll\<close>

text \<open>An invariant of the completion callback that does not depend on the audio position holds through
  the preroll.\<close>

locale preroll_invariant = completion_invariant +
  assumes audioPosition: "I s \<Longrightarrow> I (s\<lparr>audioEndFrame := x\<rparr>)"
begin

lemma now: "I s \<Longrightarrow> I (snd (steadyNowNs e s))"
  by (simp add: steadyNowNs_def tick)

lemma prerollLoop: "I s \<Longrightarrow> prerollLoop n e preroll timeoutNs deadline scheduled w s = Some (ok, s') \<Longrightarrow> I s'"
proof (induction n arbitrary: s scheduled w)
  case (Suc n)
  define s1 where "s1 = s\<lparr>nextGrainIndex := nextGrainIndex s + 1\<rparr>"
  define h where "h = (case videoReader s1 of None \<Rightarrow> (0, s1) | Some r \<Rightarrow> videoHeadIndex e r s1)"
  define s3 where "s3 = snd (steadyNowNs e (snd h))"
  define wait where "wait = (if nextGrainIndex s < fst h then 0 else min timeoutNs
    (if fst (steadyNowNs e (snd h)) < deadline then deadline - fst (steadyNowNs e (snd h)) else 0))"
  define q where "q = scheduleGrain e (nextGrainIndex s) wait s3"
  define t where "t = snd q"
  have "I s1" using Suc.prems(1) by (simp add: s1_def position)
  then have "I (snd h)" by (simp add: h_def videoHeadIndex_def tick split: option.split)
  then have "I s3" by (simp add: s3_def now)
  then have t: "I t" unfolding t_def q_def by (rule schedule)
  then have 1: "I t" "I (t\<lparr>audioEndFrame := x\<rparr>)" "I (snd (steadyNowNs e t))"
    "I (snd (steadyNowNs e ((snd (steadyNowNs e t))\<lparr>nextGrainIndex := i\<rparr>)))" for x i
    by (simp_all add: audioPosition position now)
  show ?case
    using Suc.prems(2) Suc.prems(1) 1
    unfolding prerollLoop.simps Let_def split_beta s1_def[symmetric] h_def[symmetric] s3_def[symmetric]
      wait_def[symmetric] q_def[symmetric] t_def[symmetric]
    by (auto split: if_split_asm dest: Suc.IH[rotated])
qed simp

end

interpretation books_pre: preroll_invariant books_ok
  by unfold_locales (simp add: books_ok_def repeats_def)

interpretation gapless_pre: preroll_invariant gapless
  by unfold_locales (simp add: gapless_def)

interpretation group_pre: preroll_invariant group_ok
  by unfold_locales (simp add: group_ok_def videoKey_def)

subsection \<open>The readers a re-open works on\<close>

lemma core_readers: "core s = core t \<Longrightarrow> map a_reader (aflows s) = map a_reader (aflows t)"
proof -
  assume "core s = core t"
  then have "map a_reader (aflows (core s)) = map a_reader (aflows (core t))" by simp
  then show ?thesis by (simp add: core_def maskSlot_def comp_def)
qed

lemma work_core:
  assumes "core t = core s" "rw_wantVideo w \<Longrightarrow> videoFlowInvalid t = videoFlowInvalid s"
  shows "work_ok w t = work_ok w s"
proof -
  have m: "map a_reader (aflows t) = map a_reader (aflows s)" using core_readers assms(1) .
  then have l: "length (aflows t) = length (aflows s)" using map_eq_imp_length_eq by blast
  have "a_reader (aflows t ! i) = a_reader (aflows s ! i)" if "i < length (aflows s)" for i
    using arg_cong[OF m, of "\<lambda>xs. xs ! i"] that l by simp
  then show ?thesis
    using assms l core_eqD(11)[OF assms(1)] by (auto simp: work_ok_def)
qed

lemma work_readGrain: "work_ok w s \<Longrightarrow> work_ok w (snd (readGrain e i t s))"
  using work_core[of "snd (readGrain e i t s)" s w] core_readGrain[of e i t s]
  by (cases "rw_wantVideo w") (auto simp: work_ok_def readGrain_def)

lemma work_fields:
  "videoReader t = videoReader s \<Longrightarrow> videoFlowInvalid t = videoFlowInvalid s \<Longrightarrow> aflows t = aflows s \<Longrightarrow>
     work_ok w t = work_ok w s"
  by (simp add: work_ok_def)

lemma position_readers [simp]:
  "videoReader (moveReadPosition i a s) = videoReader s" "videoFlowInvalid (moveReadPosition i a s) = videoFlowInvalid s"
  "aflows (moveReadPosition i a s) = aflows s"
  by (simp_all add: moveReadPosition_def Let_def)

lemma commitFrame_readers [simp]:
  "videoReader (snd (commitFrame e rd s)) = videoReader s"
  "videoFlowInvalid (snd (commitFrame e rd s)) = videoFlowInvalid s"
  "aflows (snd (commitFrame e rd s)) = aflows s"
  by (simp_all add: commitFrame_def presentFrame_def countRepeat_def Let_def split_beta ticked_def taiNowNs_def
      split: RepeatReason.split)

lemma work_scheduleGrain: "work_ok w s \<Longrightarrow> work_ok w (snd (scheduleGrain e i t s))"
  using work_readGrain[of w s e i t]
  by (simp add: scheduleGrain_def Let_def split_beta work_fields[of "snd (commitFrame _ _ _)" "snd (readGrain e i t s)"])

interpretation work: completion_invariant "work_ok w" for w
proof
  show "work_ok w s \<Longrightarrow> work_ok w (snd (scheduleGrain e i t s))" for s e i t by (rule work_scheduleGrain)
  show "work_ok w s \<Longrightarrow> work_ok w (estimateDeadline e d s)" for s e d
    by (simp add: estimateDeadline_def Let_def steadyNowNs_def ticked_def work_ok_def split: option.split)
  show "work_ok w s \<Longrightarrow> work_ok w (snd (countLateOrDropped e r s))" for s e r
    by (simp add: countLateOrDropped_def Let_def split_beta taiNowNs_def ticked_def work_ok_def)
qed (simp_all add: work_ok_def ticked_def)

lemma audio_invalid [simp]:
  "videoFlowInvalid (noteAudioHead i h t s) = videoFlowInvalid s"
  "videoFlowInvalid (updateStallClock e s) = videoFlowInvalid s"
  "videoFlowInvalid (snd (readBudgetNs e s)) = videoFlowInvalid s"
  "videoFlowInvalid (playBlock ap s) = videoFlowInvalid s"
  by (simp_all add: noteAudioHead_def updateStallClock_def readBudgetNs_def playBlock_def Let_def split_beta
      steadyNowNs_def ticked_def)

lemma stalled_invalid [simp]: "videoFlowInvalid (setAudioStalled e i b s) = videoFlowInvalid s"
  by (simp add: setAudioStalled_def Let_def split_beta audioHeadIndex_def ticked_def syncRemove_def syncAdd_def
      split: option.split)

lemma removed_invalid [simp]: "videoFlowInvalid (fold syncRemove hs s) = videoFlowInvalid s"
  by (induction hs arbitrary: s) (simp_all add: syncRemove_def)

lemma markAudio_invalid [simp]: "videoFlowInvalid (markAudioFlowInvalid e i s) = videoFlowInvalid s"
  by (simp add: markAudioFlowInvalid_def Let_def requestReopen_def)

lemma renderSlot_invalid [simp]: "videoFlowInvalid (snd (renderSlot e b n t i x)) = videoFlowInvalid (snd x)"
  by (cases x) (simp add: renderSlot_def readSlot_def afterAudioRead_def Let_def split_beta audioHeadIndex_def
      steadyNowNs_def ticked_def split: option.split)

lemma fold_renderSlot:
  "core (snd (fold (renderSlot e b n t) xs x)) = core (snd x) \<and>
   videoFlowInvalid (snd (fold (renderSlot e b n t) xs x)) = videoFlowInvalid (snd x)"
proof (induction xs arbitrary: x)
  case (Cons i xs)
  then show ?case using core_renderSlot[of e b n t i "fst x" "snd x"] by simp
qed simp

text \<open>The audio callback is the read path plus the audio position and the block played.\<close>

lemma onRenderAudio_frame:
  "\<exists>t k b. onRenderAudio e s = t\<lparr>audioEndFrame := k, played := b\<rparr> \<and> core t = core (s\<lparr>audioEndFrame := audioEndFrame t\<rparr>) \<and>
     videoFlowInvalid t = videoFlowInvalid s"
proof (cases "aflows s = [] \<or> \<not> playback s")
  case False
  define s1 where "s1 = snd (readBudgetNs e (s\<lparr>audioEndFrame := audioEndFrame s + 1\<rparr>))"
  have c1: "core s1 = core (s\<lparr>audioEndFrame := audioEndFrame s + 1\<rparr>)" "videoFlowInvalid s1 = videoFlowInvalid s"
    by (simp_all add: s1_def core_audio)
  have play: "\<exists>k b. playBlock ap t = t\<lparr>audioEndFrame := k, played := b\<rparr>" for ap t
    by (intro exI[of _ "audioEndFrame (playBlock ap t)"] exI[of _ "played (playBlock ap t)"])
      (simp add: playBlock_def Let_def)
  obtain x b n w where "onRenderAudio e s = playBlock (fst x) (snd x)"
    "x = fold (renderSlot e b n w) [0..<length (aflows s1)]
      (\<lparr>ap_pcm = replicate (n * nat (audioChannelCount (cfg s1))) 0, ap_anyOk = False, ap_tooEarly = False, ap_tooLate = False\<rparr>, s1)"
    using False unfolding onRenderAudio_def Let_def split_beta s1_def[symmetric] by simp
  moreover from this fold_renderSlot have "core (snd x) = core s1" "videoFlowInvalid (snd x) = videoFlowInvalid s1"
    by auto
  moreover from this c1 have "audioEndFrame (snd x) = audioEndFrame s + 1"
    using core_eqD(6)[of "snd x" "s\<lparr>audioEndFrame := audioEndFrame s + 1\<rparr>"] by simp
  ultimately show ?thesis using c1 play[of "fst x" "snd x"] by metis
next
  case True
  then show ?thesis
    by (auto simp: onRenderAudio_def intro!: exI[of _ s] exI[of _ "audioEndFrame s"] exI[of _ "played s"])
qed

lemma work_onRenderAudio: "work_ok w s \<Longrightarrow> work_ok w (onRenderAudio e s)"
proof -
  assume w: "work_ok w s"
  obtain t k b where t: "onRenderAudio e s = t\<lparr>audioEndFrame := k, played := b\<rparr>"
    "core t = core (s\<lparr>audioEndFrame := audioEndFrame t\<rparr>)" "videoFlowInvalid t = videoFlowInvalid s"
    using onRenderAudio_frame by blast
  have "work_ok w t" using work_core[OF t(2), of w] t(3) w by (simp add: work_ok_def)
  then show ?thesis by (simp add: t(1) work_ok_def)
qed

subsection \<open>The accounts\<close>

text \<open>The fields the accounts and the display times are about; only a frame handed to the card and a
  bring-up change them.\<close>

definition acct :: "OutputChannel \<Rightarrow> OutputChannel" where
  "acct s = (core s)\<lparr>status := newStatus\<lparr>framesTotal := framesTotal (status s), framesDropped := framesDropped (status s),
       framesRepeated := framesRepeated (status s), grainsCommitted := grainsCommitted (status s)\<rparr>,
     videoReader := None, aflows := [], playback := False, playing := False, reopen := newReopenSchedule,
     resetRequested := False, nextGrainIndex := 0, lastFrame := [], audioEndFrame := 0, played := [], logs := [],
     videoRate := \<lparr>numerator = 0, denominator = 0\<rparr>, videoConfig := zeroConfig,
     frameWaitNs := 0, scheduleMarginNs := 0, periodNs := 0, maxSamplesPerFrame := 0, readOffset := 0,
     streamProbed := False, streamWholeFrames := False, reopenDegraded := False, lateDegraded := False,
     stallDegraded := False, stallLogged := False, stallsEndedLogged := 0, endedStallRepeatsLogged := 0,
     stallEndLogNs := 0, lateRunStartLogged := 0, lateRunEndLogged := 0, catchUpsLogged := 0, catchUpGrainsLogged := 0,
     catchUpLogNs := 0, invalidGrainsLogged := 0, invalidLogNs := 0, readErrorsLogged := 0, readErrorLogNs := 0,
     cardLateLogged := 0, cardDroppedLogged := 0, notScheduledLogged := 0, cardLogNs := 0, m_flowReopens := 0,
     m_readerLag := 0, m_reconnectTotal := 0\<rparr>"

lemma acct_fields:
  "grainsCommitted (status (acct s)) = grainsCommitted (status s)" "framesTotal (status (acct s)) = framesTotal (status s)"
  "framesRepeated (status (acct s)) = framesRepeated (status s)" "framesDropped (status (acct s)) = framesDropped (status s)"
  "m_framesTotal (acct s) = m_framesTotal s" "m_framesDropped (acct s) = m_framesDropped s" "repeats (acct s) = repeats s"
  "cardDropped (acct s) = cardDropped s" "notScheduled (acct s) = notScheduled s" "readErrors (acct s) = readErrors s"
  "invalidGrains (acct s) = invalidGrains s" "m_repeatedReadError (acct s) = m_repeatedReadError s"
  "m_repeatedSourceInvalid (acct s) = m_repeatedSourceInvalid s" "shown (acct s) = shown s"
  "scheduledFrames (acct s) = scheduledFrames s" "mode (acct s) = mode s" "streamingUp (acct s) = streamingUp s"
  by (simp_all add: acct_def core_def repeats_def)

lemma acctD:
  assumes "acct s = acct t"
  shows "books_ok s = books_ok t" "gapless s = gapless t" "streamingUp s = streamingUp t"
proof -
  show "books_ok s = books_ok t"
    using arg_cong[OF assms, of books_ok] by (simp add: books_ok_def acct_fields)
  show "gapless s = gapless t"
    using arg_cong[OF assms, of gapless] by (simp add: gapless_def acct_fields)
  show "streamingUp s = streamingUp t"
    using arg_cong[OF assms, of streamingUp] by (simp add: acct_fields)
qed

lemma acct_core: "core s = core t \<Longrightarrow> acct s = acct t"
  using core_eqD(1)[of s t] by (simp add: acct_def)

lemma acct_update:
  "acct (s\<lparr>tick := k\<rparr>) = acct s" "acct (s\<lparr>audioEndFrame := k', played := b\<rparr>) = acct s"
  "acct (s\<lparr>audioEndFrame := k'\<rparr>) = acct s" "acct (s\<lparr>playing := p\<rparr>) = acct s" "acct (s\<lparr>reopen := r\<rparr>) = acct s"
  "acct (s\<lparr>resetRequested := p\<rparr>) = acct s" "acct (ticked s) = acct s" "acct (setState st s) = acct s"
  "acct (updateRunningState s) = acct s" "acct (s\<lparr>reopenDegraded := p\<rparr>) = acct s"
  by (simp_all add: acct_def core_def ticked_def setState_def updateRunningState_def)

lemma acct_onRenderAudio: "acct (onRenderAudio e s) = acct s"
proof -
  obtain t k b where t: "onRenderAudio e s = t\<lparr>audioEndFrame := k, played := b\<rparr>"
    "core t = core (s\<lparr>audioEndFrame := audioEndFrame t\<rparr>)"
    using onRenderAudio_frame by blast
  show ?thesis using acct_core[OF t(2)] by (simp add: t(1) acct_update)
qed

lemma acct_housekeeping: "acct (housekeeping e s) = acct s"
  by (simp add: housekeeping_def Let_def split_beta ticked_def videoHeadIndex_def acct_def core_def split: option.split)

lemma acct_logged:
  "acct (s\<lparr>stallLogged := p\<rparr>) = acct s" "acct (s\<lparr>stallDegraded := p\<rparr>) = acct s"
  "acct (s\<lparr>lateDegraded := p\<rparr>) = acct s" "acct (s\<lparr>stallsEndedLogged := a\<rparr>) = acct s"
  "acct (s\<lparr>endedStallRepeatsLogged := a\<rparr>) = acct s" "acct (s\<lparr>stallEndLogNs := a\<rparr>) = acct s"
  "acct (s\<lparr>lateRunStartLogged := a\<rparr>) = acct s" "acct (s\<lparr>lateRunEndLogged := a\<rparr>) = acct s"
  "acct (s\<lparr>catchUpsLogged := a\<rparr>) = acct s" "acct (s\<lparr>catchUpGrainsLogged := a\<rparr>) = acct s"
  "acct (s\<lparr>catchUpLogNs := a\<rparr>) = acct s" "acct (s\<lparr>invalidGrainsLogged := a\<rparr>) = acct s"
  "acct (s\<lparr>invalidLogNs := a\<rparr>) = acct s" "acct (s\<lparr>readErrorsLogged := a\<rparr>) = acct s"
  "acct (s\<lparr>readErrorLogNs := a\<rparr>) = acct s" "acct (s\<lparr>cardLateLogged := a\<rparr>) = acct s"
  "acct (s\<lparr>cardDroppedLogged := a\<rparr>) = acct s" "acct (s\<lparr>notScheduledLogged := a\<rparr>) = acct s"
  "acct (s\<lparr>cardLogNs := a\<rparr>) = acct s"
  "acct (addLog l s) = acct s"
  by (simp_all add: addLog_def acct_def core_def)

lemma acct_logs:
  "acct (logStallStart t s) = acct s" "acct (logStallEnded t s) = acct s" "acct (noteStallDegraded t s) = acct s"
  "acct (logLateStart s) = acct s" "acct (logLateEnded t s) = acct s" "acct (noteLateDegraded t s) = acct s"
  "acct (logCatchUps t s) = acct s" "acct (logInvalidGrains t s) = acct s" "acct (logReadErrors t s) = acct s"
  "acct (logFramesLost t s) = acct s"
  unfolding logStallStart_def logStallEnded_def noteStallDegraded_def logLateStart_def
      logLateEnded_def noteLateDegraded_def logCatchUps_def logInvalidGrains_def logReadErrors_def
      logFramesLost_def Let_def
  by (intro if_pred[of _ "\<lambda>x. acct x = acct s"]; simp only: acct_logged acct_update)+

lemma acct_superviseStalls: "acct (superviseStalls e s) = acct s"
  by (simp add: superviseStalls_def Let_def steadyNowNs_def acct_logs acct_update)

lemma acct_reopen:
  "acct (noteReopenDegraded t s) = acct s" "acct (acceptRequest t s) = acct s" "acct (snd (takeInvalid t s)) = acct s"
  "acct (snd (syncAdd e h s)) = acct s"
  by (simp_all add: noteReopenDegraded_def acceptRequest_def takeInvalid_def updateRunningState_def setState_def syncAdd_def
      ticked_def Let_def acct_def core_def split: option.split)

lemma acct_reopenBegin: "acct (snd (reopenBegin e s)) = acct s"
  by (simp add: reopenBegin_def Let_def split_beta steadyNowNs_def acct_reopen acct_update)

lemma acct_installVideo: "acct (snd (installVideo e v s)) = acct s"
  by (simp add: installVideo_def acct_reopen split: option.split) (simp add: acct_def core_def)

lemma acct_installAudio: "acct (snd (installAudio e rs s)) = acct s"
proof (induction rs arbitrary: s)
  case (Cons x rs)
  have "acct (s\<lparr>aflows := xs\<rparr>) = acct s" for xs by (simp add: acct_def core_def)
  then show ?case using Cons by (cases x) (simp add: Let_def split_beta acct_reopen)
qed simp

lemma acct_reopenFinish: "acct (reopenFinish e w res s) = acct s"
proof -
  have "acct (u\<lparr>reopen := x, resetRequested := b\<rparr>) = acct u" for u x b by (simp add: acct_def core_def)
  then show ?thesis
    by (simp add: reopenFinish_def Let_def split_beta acct_reopen acct_update acct_installVideo acct_installAudio)
qed

lemma acct_probe: "probeStreamTime fuel e s = Some s' \<Longrightarrow> acct s' = acct s"
proof -
  have c: "collectStream n e u vs t = Some (vs', t') \<Longrightarrow> acct t' = acct t" for n u vs vs' t t'
    by (induction n arbitrary: vs t) (auto simp: Let_def steadyNowNs_def acct_update split: if_split_asm)
  have f: "acct (s\<lparr>streamProbed := b\<rparr>) = acct s" "acct (t\<lparr>streamWholeFrames := b\<rparr>) = acct t" for t b
    by (simp_all add: acct_def core_def)
  assume "probeStreamTime fuel e s = Some s'"
  then show ?thesis
    by (auto simp: probeStreamTime_def Let_def steadyNowNs_def f acct_update dest!: c split: if_split_asm option.split_asm)
qed

lemma acct_resetSession: "acct (resetSession s) = acct s"
  by (simp add: resetSession_def setState_def acct_def core_def)

lemma acct_openAudioSlots: "acct (snd (openAudioSlots e cs s)) = acct s"
proof (induction cs arbitrary: s)
  case (Cons c cs)
  have "acct (t\<lparr>aflows := xs\<rparr>) = acct t" for t xs by (simp add: acct_def core_def)
  then show ?case using Cons by (simp add: Let_def acct_update split: option.split)
qed simp

lemma acct_joinGroup: "acct (snd (joinGroup e hs s)) = acct s"
  by (induction hs arbitrary: s) (simp_all add: Let_def split_beta acct_reopen)

lemma acct_openReaders: "acct (snd (openReaders e s)) = acct s"
proof -
  have "acct (t\<lparr>videoReader := v, videoRate := r, videoConfig := c, aflows := xs\<rparr>) = acct t"
    "acct (t\<lparr>sync := y\<rparr>) = acct t" for t v r c xs y
    by (simp_all add: acct_def core_def)
  then show ?thesis
    by (simp add: openReaders_def Let_def split_beta acct_update acct_openAudioSlots acct_joinGroup del: joinGroup.simps
        split: option.split)
qed

subsection \<open>Bring-up\<close>

text \<open>A channel that is down holds no reader, no group and no playback session.\<close>

definition closed :: "OutputChannel \<Rightarrow> bool" where
  "closed s \<longleftrightarrow> \<not> streamingUp s \<and> sync s = None \<and> videoReader s = None \<and> aflows s = [] \<and> \<not> playback s \<and> \<not> playing s"

lemma tearDown_down: "closed (tearDownStreaming s)" "group_ok (tearDownStreaming s)" "books_ok (tearDownStreaming s) = books_ok s"
  by (simp_all add: tearDownStreaming_def closed_def group_ok_def grp_def videoKey_def keyFlags_def books_ok_def repeats_def)

text \<open>The waits only ask the environment.\<close>

lemma ticked_tick: "\<exists>k. ticked s = s\<lparr>tick := k\<rparr>"
  by (auto simp: ticked_def)

lemma waitFirstGrain_tick: "waitFirstGrain n e r w b h s = Some (h', s') \<Longrightarrow> \<exists>k. s' = s\<lparr>tick := k\<rparr>"
proof (induction n arbitrary: s b h)
  case (Suc n)
  have "\<exists>k. s' = s\<lparr>tick := k\<rparr>" if "waitFirstGrain n e r w b' h'' (s\<lparr>tick := j\<rparr>) = Some (h', s')" for b' h'' j
    using Suc.IH[OF that] by simp
  then show ?case using Suc.prems
    by (auto simp: Let_def split_beta isRunning_def steadyNowNs_def videoHeadIndex_def ticked_def
        intro: exI[of _ "tick s"] split: if_split_asm)
qed simp

lemma waitForOffset_tick: "waitForOffset n e r need u h s = Some (h', s') \<Longrightarrow> \<exists>k. s' = s\<lparr>tick := k\<rparr>"
proof (induction n arbitrary: s h)
  case (Suc n)
  have "\<exists>k. s' = s\<lparr>tick := k\<rparr>" if "waitForOffset n e r need u h'' (s\<lparr>tick := j\<rparr>) = Some (h', s')" for h'' j
    using Suc.IH[OF that] by simp
  then show ?case using Suc.prems
    by (auto simp: Let_def split_beta isRunning_def steadyNowNs_def videoHeadIndex_def ticked_def
        intro: exI[of _ "tick s"] split: if_split_asm)
qed simp

lemma findStart_frame:
  assumes "findStart fuel e r preroll s = Some (st, s')"
  shows "\<exists>k. s' = (capReadOffset preroll s)\<lparr>tick := k\<rparr>"
proof -
  define c where "c = capReadOffset preroll (ticked s)"
  have c: "c\<lparr>tick := k\<rparr> = (capReadOffset preroll s)\<lparr>tick := k\<rparr>" for k
    by (simp add: c_def capReadOffset_def ticked_def Let_def)
  have "\<exists>k. s' = c\<lparr>tick := k\<rparr>"
    using assms unfolding findStart_def Let_def split_beta c_def[symmetric]
    by (auto simp: isRunning_def steadyNowNs_def videoHeadIndex_def ticked_def
        dest!: waitFirstGrain_tick waitForOffset_tick split: if_split_asm option.split_asm)
  then show ?thesis using c by simp
qed

lemma group_capReadOffset: "group_ok (capReadOffset p s) = group_ok s"
  by (simp add: capReadOffset_def Let_def group_ok_def videoKey_def)

lemma acct_capReadOffset: "acct (capReadOffset p s) = acct s"
  by (simp add: capReadOffset_def Let_def acct_def core_def)

lemma acct_setTimings: "acct (setTimings s) = acct s"
  by (simp add: setTimings_def Let_def acct_def core_def)

lemma startPosition_ok:
  "books_ok (startPosition e i s) = books_ok s" "gapless (startPosition e i s)" "group_ok (startPosition e i s) = group_ok s"
  by (simp_all add: startPosition_def Let_def split_beta taiNowNs_def ticked_def books_ok_def repeats_def gapless_def
      group_ok_def videoKey_def)

text \<open>What a bring-up leaves behind.\<close>

definition upOrDown :: "bool \<Rightarrow> OutputChannel \<Rightarrow> bool" where
  "upOrDown ok s \<longleftrightarrow> books_ok s \<and> group_ok s \<and> (if ok then streamingUp s \<and> gapless s else closed s)"

lemma runPreroll_ok:
  assumes "books_ok s" "group_ok s" "gapless s" "runPreroll fuel e preroll s = Some (ok, s')"
  shows "upOrDown ok s'"
proof -
  define t where "t = snd (steadyNowNs e s)"
  obtain timeoutNs deadline ok' u where loop: "prerollLoop fuel e preroll timeoutNs deadline 0 False t = Some (ok', u)"
    and u: "if ok' \<and> startOk e (tick u) then ok \<and> s' = setState Healthy ((ticked u)\<lparr>playing := True, streamingUp := True\<rparr>)
            else \<not> ok \<and> (s' = tearDownStreaming u \<or> s' = tearDownStreaming (ticked u))"
    using assms(4) unfolding runPreroll_def Let_def split_beta t_def[symmetric]
    by (auto split: option.split_asm if_split_asm)
  have t: "books_ok t" "gapless t" "group_ok t"
    using assms(1-3) by (simp_all add: t_def books_pre.now gapless_pre.now group_pre.now)
  then have "books_ok u" "gapless u" "group_ok u"
    using books_pre.prerollLoop[OF _ loop] gapless_pre.prerollLoop[OF _ loop] group_pre.prerollLoop[OF _ loop] by blast+
  moreover from this have "upOrDown True (setState Healthy ((ticked u)\<lparr>playing := True, streamingUp := True\<rparr>))"
    by (simp add: upOrDown_def ticked_def setState_def books_ok_def repeats_def gapless_def group_ok_def videoKey_def)
  ultimately show ?thesis using u
    by (auto simp: upOrDown_def tearDown_down books_updates split: if_split_asm)
qed

lemma openReaders_video: "fst (openReaders e s) \<Longrightarrow> videoReader (snd (openReaders e s)) \<noteq> None"
proof -
  have j: "videoReader (snd (joinGroup e hs t)) = videoReader t" for hs t
    by (induction hs arbitrary: t) (simp_all add: Let_def split_beta syncAdd_def ticked_def split: option.split)
  assume "fst (openReaders e s)"
  then show ?thesis
    by (auto simp: openReaders_def Let_def split_beta j openAudioSlots_video ticked_def simp del: joinGroup.simps
        split: option.split_asm if_split_asm)
qed

lemma bringUp_ok:
  assumes "closed s" "books_ok s" "bringUp fuel e s = Some (ok, s')"
  shows "upOrDown ok s'"
proof -
  define m where "m = the (videoMode (cfg (resetSession s)))"
  define s1 where "s1 = (resetSession s)\<lparr>mode := m, status := (status (resetSession s))\<lparr>activeModeName := vm_name m\<rparr>\<rparr>"
  define q where "q = openReaders e s1"
  define t where "t = setTimings (ticked ((ticked (snd q))\<lparr>playback := True\<rparr>))"
  have b1: "books_ok s1"
    using assms(2) acctD(1)[OF acct_resetSession[of s]] by (simp add: s1_def books_ok_def repeats_def)
  have f: "fresh_slots s1" "closed s1" "group_ok s1"
    using assms(1) by (simp_all add: s1_def closed_def fresh_slots_def resetSession_def setState_def group_ok_def grp_def
        videoKey_def keyFlags_def)
  have 1: "upOrDown False s1" using b1 f by (simp add: upOrDown_def)
  have bq: "books_ok (snd q)" "group_ok (snd q)"
    using b1 f(1) openReaders_group acctD(1)[OF acct_openReaders] by (auto simp: q_def)
  have 2: "upOrDown False (tearDownStreaming x)" if "books_ok x" for x
    using that by (simp add: upOrDown_def tearDown_down)
  have pb: "acct (x\<lparr>playback := b\<rparr>) = acct x" for x b by (simp add: acct_def core_def)
  then have at: "acct t = acct (snd q)" by (simp add: t_def acct_setTimings acct_update)
  have bt: "books_ok t" "group_ok t"
    using bq acctD(1)[OF at] by (simp_all add: t_def setTimings_def Let_def ticked_def group_ok_def videoKey_def)
  have vt: "videoReader t = videoReader (snd q)" by (simp add: t_def setTimings_def Let_def ticked_def)
  have 3: "books_ok u \<and> group_ok u" if "findStart fuel e r p t = Some (st, u)" for r p st u
  proof -
    obtain k where k: "u = (capReadOffset p t)\<lparr>tick := k\<rparr>" using findStart_frame[OF \<open>findStart fuel e r p t = Some (st, u)\<close>] by blast
    have "acct u = acct t" by (simp add: k acct_update acct_capReadOffset)
    then have "books_ok u" using acctD(1)[of u t] bt(1) by simp
    moreover have "group_ok u" using bt(2) group_capReadOffset[of p t] by (simp add: k group_ok_def videoKey_def)
    ultimately show ?thesis ..
  qed
  have bp: "books_ok ((ticked (snd q))\<lparr>playback := True\<rparr>)" "books_ok (ticked ((ticked (snd q))\<lparr>playback := True\<rparr>))"
    "books_ok (ticked (snd q))"
    using bq by (simp_all add: books_ok_def repeats_def ticked_def)
  have 4: "upOrDown ok' v" if "findStart fuel e r p t = Some (Some i, u)" "runPreroll fuel e p (startPosition e i u) = Some (ok', v)" for r p i u v ok'
    using 3[OF that(1)] that(2) by (intro runPreroll_ok[OF _ _ _ that(2)]) (simp_all add: startPosition_ok)
  show ?thesis
    using assms(3) openReaders_video[of e s1] 1 2 3 4 bq bp vt
    unfolding bringUp_def Let_def split_beta m_def[symmetric] s1_def[symmetric] q_def[symmetric] t_def[symmetric]
    by (auto split: if_split_asm option.split_asm)
qed

subsection \<open>The invariant of the system\<close>

fun phase_ok :: "Phase \<Rightarrow> OutputChannel \<Rightarrow> bool" where
  "phase_ok Idle s = True"
| "phase_ok (Opening w) s = (streamingUp s \<and> work_ok w s)"
| "phase_ok (Opened w res) s = (streamingUp s \<and> work_ok w s \<and> result_ok w res)"

definition sys_ok :: "OutputChannel \<times> Phase \<Rightarrow> bool" where
  "sys_ok = (\<lambda>(s, p). books_ok s \<and> group_ok s \<and> (if streamingUp s then gapless s else closed s) \<and> phase_ok p s)"

interpretation up: completion_invariant streamingUp
proof
  have "streamingUp (snd (commitFrame e rd t)) = streamingUp t" for e rd t
    by (simp add: commitFrame_def presentFrame_def countRepeat_def Let_def split_beta ticked_def taiNowNs_def
        split: RepeatReason.split)
  moreover have "streamingUp (moveReadPosition i a t) = streamingUp t" for i a t
    by (simp add: moveReadPosition_def Let_def)
  ultimately show "streamingUp s \<Longrightarrow> streamingUp (snd (scheduleGrain e i t s))" for s e i t
    using core_eqD(12)[OF core_readGrain, of e i t s] by (simp add: scheduleGrain_def Let_def split_beta)
  show "streamingUp s \<Longrightarrow> streamingUp (estimateDeadline e d s)" for s e d
    by (simp add: estimateDeadline_def Let_def steadyNowNs_def ticked_def split: option.split)
  show "streamingUp s \<Longrightarrow> streamingUp (snd (countLateOrDropped e r s))" for s e r
    by (simp add: countLateOrDropped_def Let_def split_beta taiNowNs_def ticked_def)
qed (simp_all add: ticked_def)

lemma closed_callbacks:
  assumes "closed s"
  shows "onFrameCompleted e r s = ticked s" "onRenderAudio e s = s" "housekeeping e s = s"
    "reopenOpen e w s = (res, s') \<Longrightarrow> closed s'"
  using assms reopenOpen_result(1)[of e w s]
  by (auto simp: closed_def onFrameCompleted_def steadyNowNs_def ticked_def onRenderAudio_def housekeeping_def)

lemma housekeeping_fields:
  "sync (housekeeping e s) = sync s" "videoReader (housekeeping e s) = videoReader s"
  "videoFlowInvalid (housekeeping e s) = videoFlowInvalid s" "videoStalled (housekeeping e s) = videoStalled s"
  "aflows (housekeeping e s) = aflows s"
  by (simp_all add: housekeeping_def Let_def split_beta ticked_def videoHeadIndex_def split: option.split)

lemma work_housekeeping: "work_ok w (housekeeping e s) = work_ok w s" "group_ok (housekeeping e s) = group_ok s"
  by (simp_all add: work_ok_def group_ok_def videoKey_def housekeeping_fields)

lemma probe_fields:
  assumes "probeStreamTime fuel e s = Some s'"
  shows "sync s' = sync s \<and> videoKey s' = videoKey s \<and> aflows s' = aflows s \<and> playback s' = playback s \<and>
    playing s' = playing s \<and> streamingUp s' = streamingUp s"
proof -
  have c: "collectStream n e u vs t = Some (vs', t') \<Longrightarrow> \<exists>k. t' = t\<lparr>tick := k\<rparr>" for n u vs vs' t t'
  proof (induction n arbitrary: vs t)
    case (Suc n)
    have "\<exists>k. t' = t\<lparr>tick := k\<rparr>" if "collectStream n e u ws (t\<lparr>tick := j\<rparr>) = Some (vs', t')" for ws j
      using Suc.IH[OF that] by simp
    then show ?case using Suc.prems
      by (auto simp: Let_def steadyNowNs_def ticked_def intro: exI[of _ "tick t"] split: if_split_asm)
  qed simp
  show ?thesis using assms
    by (auto simp: probeStreamTime_def Let_def steadyNowNs_def ticked_def videoKey_def dest!: c split: if_split_asm option.split_asm)
qed

lemma sys_acct:
  assumes "sys_ok (s, p)" "acct t = acct s" "group_ok t" "phase_ok q t" "\<not> streamingUp s \<Longrightarrow> closed t"
  shows "sys_ok (t, q)"
  using assms acctD[OF assms(2)] by (auto simp: sys_ok_def)

lemma closed_supervise: "closed s \<Longrightarrow> closed (superviseStalls e s)"
proof -
  have "closed (logStallStart t u) = closed u" "closed (logStallEnded t u) = closed u" "closed (noteStallDegraded t u) = closed u"
    "closed (logLateStart u) = closed u" "closed (logLateEnded t u) = closed u" "closed (noteLateDegraded t u) = closed u"
    "closed (logCatchUps t u) = closed u" "closed (logInvalidGrains t u) = closed u" "closed (logReadErrors t u) = closed u"
    "closed (logFramesLost t u) = closed u" "closed (ticked u) = closed u" for t u
    by (simp_all add: closed_def logStallStart_def logStallEnded_def noteStallDegraded_def logLateStart_def
        logLateEnded_def noteLateDegraded_def logCatchUps_def logInvalidGrains_def logReadErrors_def
        logFramesLost_def updateRunningState_def setState_def addLog_def Let_def ticked_def)
  then show "closed s \<Longrightarrow> closed (superviseStalls e s)"
    by (simp add: superviseStalls_def Let_def steadyNowNs_def)
qed

lemma reopenBegin_closed: "closed s \<Longrightarrow> fst (reopenBegin e s) = None \<and> closed (snd (reopenBegin e s))"
  by (simp add: reopenBegin_def Let_def split_beta steadyNowNs_def acceptRequest_def ticked_def closed_def)

lemma reopenBegin_work:
  "reopenBegin e s = (Some w, s') \<Longrightarrow> work_ok w s' \<and> streamingUp s'"
  using takeInvalid_work[of "fst (steadyNowNs e s)" "acceptRequest (fst (steadyNowNs e s)) (snd (steadyNowNs e s))"]
  by (auto simp: reopenBegin_def Let_def split_beta takeInvalid_def split: if_split_asm)

lemma sys_okD:
  assumes "sys_ok (s, p)"
  shows "books_ok s" "group_ok s" "phase_ok p s" "streamingUp s \<Longrightarrow> gapless s" "\<not> streamingUp s \<Longrightarrow> closed s"
    "p \<noteq> Idle \<Longrightarrow> streamingUp s"
  using assms by (cases p; simp add: sys_ok_def split: if_split_asm)+

lemma phase_work: "(\<And>w. work_ok w s \<Longrightarrow> work_ok w t) \<Longrightarrow> (streamingUp s \<Longrightarrow> streamingUp t) \<Longrightarrow> phase_ok p s \<Longrightarrow> phase_ok p t"
  by (cases p) auto

lemma sys_complete: "sys_ok (s, p) \<Longrightarrow> sys_ok (onFrameCompleted e r s, p)"
proof (cases "streamingUp s")
  case True
  assume "sys_ok (s, p)"
  note ok = sys_okD[OF this]
  have "phase_ok p (onFrameCompleted e r s)"
    using phase_work[OF work.onFrameCompleted up.onFrameCompleted ok(3)] .
  then show ?thesis
    using ok(1,2) ok(4)[OF True] up.onFrameCompleted[OF True]
    by (simp add: sys_ok_def books.onFrameCompleted gapless.onFrameCompleted group.onFrameCompleted)
next
  case False
  assume s: "sys_ok (s, p)"
  then have "p = Idle" "closed s" using sys_okD False by blast+
  moreover from this have "closed (ticked s)" by (simp add: closed_def ticked_def)
  ultimately show ?thesis
    using sys_acct[OF s, of "ticked s" Idle] sys_okD(2)[OF s]
    by (simp add: closed_callbacks acct_update group.tick)
qed

lemma sys_audio: "sys_ok (s, p) \<Longrightarrow> sys_ok (onRenderAudio e s, p)"
proof -
  assume s: "sys_ok (s, p)"
  have up: "streamingUp (onRenderAudio e s) = streamingUp s" by (rule acctD(3)[OF acct_onRenderAudio])
  show ?thesis
    by (rule sys_acct[OF s acct_onRenderAudio])
      (use sys_okD[OF s] up in \<open>auto intro: group_onRenderAudio phase_work[of s] work_onRenderAudio simp: closed_callbacks\<close>)
qed

lemma sys_house: "sys_ok (s, p) \<Longrightarrow> sys_ok (housekeeping e s, p)"
proof -
  assume s: "sys_ok (s, p)"
  have up: "streamingUp (housekeeping e s) = streamingUp s" by (rule acctD(3)[OF acct_housekeeping])
  show ?thesis
    by (rule sys_acct[OF s acct_housekeeping])
      (use sys_okD[OF s] up in \<open>auto intro: phase_work[of s] simp: closed_callbacks work_housekeeping\<close>)
qed

lemma sys_stopped: "sys_ok (s, p) \<Longrightarrow> sys_ok (s\<lparr>playing := False\<rparr>, p)"
  by (rule sys_acct, assumption, simp add: acct_update)
    (auto dest: sys_okD intro: phase_work[of s] simp: group_ok_def videoKey_def work_ok_def closed_def)

lemma sys_idle:
  assumes "sys_ok (s, p)" "acct t = acct s" "group_ok t" "closed s \<Longrightarrow> closed t"
  shows "sys_ok (t, Idle)"
  using assms by (intro sys_acct[OF assms(1,2)]) (auto dest: sys_okD)

lemma reopenFinish_sys: "sys_ok (s, Opened w res) \<Longrightarrow> sys_ok (reopenFinish e w res s, Idle)"
  using sys_okD[of s "Opened w res"]
  by (intro sys_idle[of s "Opened w res"]) (auto simp: acct_reopenFinish closed_def intro: group_reopenFinish)

lemma reopenOpen_sys:
  assumes "sys_ok (s, Opening w)" "reopenOpen e w s = (res, s')"
  shows "sys_ok (s', Opened w res)"
proof -
  obtain k where k: "s' = s\<lparr>tick := k\<rparr>" using reopenOpen_result(1)[of e w s] assms(2) by auto
  have r: "result_ok w res" using reopenOpen_result(2)[of w e s] assms(2) by simp
  show ?thesis
    by (rule sys_acct[OF assms(1)])
      (use sys_okD[OF assms(1)] r in \<open>auto simp: k acct_update group_ok_def videoKey_def work_ok_def closed_def\<close>)
qed

theorem step_sys_ok: "step e x y \<Longrightarrow> sys_ok x \<Longrightarrow> sys_ok y"
proof (induction rule: step.induct)
  case (noReopen s s')
  have "s' = snd (reopenBegin e s)" by (simp add: noReopen.hyps)
  then show ?case
    using acct_reopenBegin[of e s] group_reopenBegin[OF sys_okD(2)[OF noReopen.prems]] reopenBegin_closed[of s e]
    by (intro sys_idle[OF noReopen.prems]) simp_all
next
  case (beginReopen s w s')
  have s': "s' = snd (reopenBegin e s)" by (simp add: beginReopen.hyps)
  have "\<not> closed s" using reopenBegin_closed[of s e] beginReopen.hyps by auto
  then show ?case
    using acct_reopenBegin[of e s] group_reopenBegin[OF sys_okD(2)[OF beginReopen.prems]]
      reopenBegin_work[OF beginReopen.hyps] sys_okD(5)[OF beginReopen.prems]
    by (intro sys_acct[OF beginReopen.prems]) (simp_all add: s')
next
  case (supervise s)
  then show ?case
    by (intro sys_idle[OF supervise.prems]) (auto simp: acct_superviseStalls chan_simps intro: closed_supervise dest: sys_okD)
next
  case (probe fuel s s')
  then show ?case
    using probe_fields[OF probe.hyps] sys_okD(2)[OF probe.prems]
    by (intro sys_idle[OF probe.prems acct_probe[OF probe.hyps]]) (auto simp: group_ok_def closed_def videoKey_def)
next
  case (reset s)
  then have "books_ok (s\<lparr>resetRequested := False\<rparr>)" by (simp add: sys_ok_def books_ok_def repeats_def)
  then show ?case using tearDown_down[of "s\<lparr>resetRequested := False\<rparr>"]
    by (simp add: sys_ok_def closed_def)
next
  case (broughtUp s fuel s')
  have "upOrDown True s'"
    using bringUp_ok[OF sys_okD(5)[OF broughtUp.prems broughtUp.hyps(1)] sys_okD(1)[OF broughtUp.prems] broughtUp.hyps(2)] .
  then show ?case by (simp add: sys_ok_def upOrDown_def)
next
  case (bringUpFailed s fuel s')
  have u: "upOrDown False s'"
    using bringUp_ok[OF sys_okD(5)[OF bringUpFailed.prems bringUpFailed.hyps(1)] sys_okD(1)[OF bringUpFailed.prems]
        bringUpFailed.hyps(2)] .
  moreover have "acct (setState Failed s') = acct s'" by (simp add: acct_update)
  ultimately show ?case
    using acctD(1)[of "setState Failed s'" s'] by (auto simp: upOrDown_def sys_ok_def closed_def setState_def group_ok_def videoKey_def)
next
  case (stop s)
  then show ?case using tearDown_down[of s] by (simp add: sys_ok_def closed_def)
qed (auto intro: sys_complete sys_audio sys_house sys_stopped reopenFinish_sys reopenOpen_sys)

theorem reachable_sys_ok: "reachable e c x \<Longrightarrow> sys_ok x"
proof (induction rule: reachable.induct)
  case (init m)
  show ?case by (simp add: sys_ok_def newOutputChannel_def newStatus_def books_ok_def repeats_def group_ok_def grp_def
      videoKey_def keyFlags_def closed_def)
qed (rule step_sys_ok)

end
