(* ===== verification/OutputProps.thy ===== *)
theory OutputProps
  imports OutputSystem
begin

text \<open>
  What the output channel promises in every reachable state and of each of its operations.
\<close>

subsection \<open>A concrete run\<close>

text \<open>A source that always has the grain and a card that takes every frame; each call takes a
  millisecond.  The examples run on it.\<close>

definition demoReader :: "handle \<Rightarrow> OpenReader" where
  "demoReader h = \<lparr>r_handle = h, r_config = zeroConfig\<lparr>fc_bufferLength := 96000\<rparr>,
     r_rate = \<lparr>numerator = 50, denominator = 1\<rparr>, r_frames = 10\<rparr>"

definition demoEnv :: Env where
  "demoEnv =
     \<lparr>steady = (\<lambda>n. of_nat n * 1000000), taiNow = (\<lambda>n. of_nat n * 1000000), currentIndex = (\<lambda>n r. 100),
      videoHead = (\<lambda>n h. 100), audioHead = (\<lambda>n h. 192000),
      videoGrain = (\<lambda>n h i t. (MXL_STATUS_OK, \<lparr>g_payload = Some [7], g_invalid = False\<rparr>)),
      audioRead = (\<lambda>n h b m t c d pcm. (MXL_STATUS_OK, pcm)), videoGone = (\<lambda>n h. False), audioGone = (\<lambda>n h. False),
      syncTimestamp = (\<lambda>h i. i), waitFor = (\<lambda>n hs i t. MXL_STATUS_OK), addOk = (\<lambda>n h. True),
      openVideo = (\<lambda>n d f. Some (demoReader 5)), openAudio = (\<lambda>n d f. Some (demoReader 2)),
      frameAccepted = (\<lambda>n f t. True), streamTime = (\<lambda>n. None), bufferedVideo = (\<lambda>n. 3), bufferedAudio = (\<lambda>n. 0),
      referenceLocked = (\<lambda>n. True), sampleIndexOfFrame = (\<lambda>r i. i * 960), statusCode = (\<lambda>st. 0),
      supportsMode = (\<lambda>m. True), groupOk = (\<lambda>n. True), playbackOk = (\<lambda>n. True), enableOk = (\<lambda>n. True),
      startOk = (\<lambda>n. True), stillRunning = (\<lambda>n. True)\<rparr>"

definition demoCfg :: ChannelConfig where
  "demoCfg = defaultChannel\<lparr>direction := Output, outputPrerollGrains := 1, audioEnable := False, videoMode := lookupVideoMode ''HD1080p50'',
     videoFlowId := \<lparr>bytes = replicate 16 1\<rparr>,
     audioFlows := [defaultAudioFlow\<lparr>af_flowId := \<lparr>bytes = replicate 16 2\<rparr>, af_deckLinkChannels := [1, 2]\<rparr>]\<rparr>"

definition demoSlot :: AudioFlowReader where
  "demoSlot = \<lparr>a_cfg = defaultAudioFlow, a_reader = Some (demoReader 6), a_flowInvalid = False, a_stalled = False,
     a_stallHead = 0, a_lastHead = 0, a_headChangeNs = 0, a_config = zeroConfig\<rparr>"

definition demoStart :: OutputChannel where
  "demoStart = newOutputChannel demoCfg (the (lookupVideoMode ''HD1080p50''))"

text \<open>The fields the run depends on.\<close>

definition demoReady :: "OutputChannel \<Rightarrow> bool" where
  "demoReady s \<longleftrightarrow> cfg s = demoCfg \<and> videoReader s = Some (demoReader 5) \<and> \<not> videoFlowInvalid s \<and> \<not> videoStalled s \<and>
     sync s = Some [5] \<and> aflows s = [] \<and> \<not> playing s"

lemma demoReady_ticked [simp]: "demoReady (ticked s) = demoReady s"
  by (simp add: demoReady_def ticked_def)

lemma demoReady_noteVideoHead [simp]: "demoReady (noteVideoHead h t s) = demoReady s"
  by (simp add: demoReady_def noteVideoHead_def split_beta Let_def)

lemma demo_answers:
  "videoHeadIndex demoEnv r s = (100, ticked s)" "waitFor demoEnv n hs i t = MXL_STATUS_OK"
  "getGrain demoEnv r i t s = ((MXL_STATUS_OK, \<lparr>g_payload = Some [7], g_invalid = False\<rparr>), ticked s)"
  "syncTimestamp demoEnv h i = i" "frameAccepted demoEnv n f d"
  by (simp_all add: videoHeadIndex_def getGrain_def demoEnv_def)

lemma demo_heads: "demoReady s \<Longrightarrow> demoReady (noteHeadsBefore demoEnv r s)"
  by (simp add: noteHeadsBefore_def steadyNowNs_def demo_answers forSlots_def)
    (simp add: demoReady_def noteVideoHead_def split_beta Let_def ticked_def)

lemma demo_wait: "demoReady s \<Longrightarrow> i \<noteq> - 1 \<Longrightarrow> waitForGroup demoEnv r i t s = (0, ticked s)"
  by (simp add: waitForGroup_def demo_answers Let_def demoReady_def)

definition demoRead :: ReadResult where
  "demoRead = \<lparr>rd_status = MXL_STATUS_OK, rd_grain = \<lparr>g_payload = Some [7], g_invalid = False\<rparr>,
     rd_reason = SourceInvalid, rd_adjust = 0\<rparr>"

lemma demo_onRead:
  assumes "demoReady s"
  shows "onGrainRead demoEnv r i h \<lparr>g_payload = Some [7], g_invalid = False\<rparr> s = (demoRead, s\<lparr>lateSinceNs := 0\<rparr>)"
  using assms by (simp add: onGrainRead_def setVideoStalled_def demoReady_def showable_def catchUp_def Let_def demoRead_def)

lemma demoReady_late [simp]: "demoReady (s\<lparr>lateSinceNs := t\<rparr>) = demoReady s"
  by (simp add: demoReady_def)

lemma demo_after:
  assumes "demoReady s"
  shows "\<exists>t. readAfterWait demoEnv r i w s = (demoRead, t) \<and> demoReady t"
  using assms by (simp add: readAfterWait_def demo_answers steadyNowNs_def missing_def demo_onRead Let_def split_beta)

lemma demo_readGrain:
  assumes "demoReady s" "i \<noteq> - 1"
  shows "fst (readGrain demoEnv i w s) = demoRead" "demoReady (snd (readGrain demoEnv i w s))"
proof -
  have "demoReady (ticked (noteHeadsBefore demoEnv (demoReader 5) s))" using demo_heads[OF assms(1)] by simp
  note d = demo_after[OF this, of "demoReader 5" i 0]
  have iv: "\<not> videoFlowInvalid (ticked (noteHeadsBefore demoEnv (demoReader 5) s))"
    using demo_heads[OF assms(1), of "demoReader 5"] by (simp add: demoReady_def ticked_def)
  have "readGrain demoEnv i w s = readAfterWait demoEnv (demoReader 5) i 0 (ticked (noteHeadsBefore demoEnv (demoReader 5) s))"
    using assms iv demo_wait[OF demo_heads[OF assms(1)] assms(2)]
    by (simp add: readGrain_def Let_def demoReady_def)
  then show "fst (readGrain demoEnv i w s) = demoRead" "demoReady (snd (readGrain demoEnv i w s))" using d by auto
qed

lemma demo_schedule:
  assumes "demoReady s" "i \<noteq> - 1"
  shows "fst (scheduleGrain demoEnv i w s)" "demoReady (snd (scheduleGrain demoEnv i w s))"
    "shown (snd (scheduleGrain demoEnv i w s)) = shown s @ [([7], scheduledFrames s * vm_rateDenominator (mode s) * 1000)]"
proof -
  define t where "t = snd (readGrain demoEnv i w s)"
  have t: "demoReady t" "shown t = shown s" "scheduledFrames t = scheduledFrames s" "mode t = mode s"
    using demo_readGrain(2)[OF assms] core_eqD(2,3,4)[OF core_readGrain, of demoEnv i w s] by (simp_all add: t_def)
  have "moveReadPosition i 0 t = t" by (simp add: moveReadPosition_def Let_def)
  then have "scheduleGrain demoEnv i w s = commitFrame demoEnv demoRead t"
    using demo_readGrain(1)[OF assms, of w] by (simp add: scheduleGrain_def split_beta Let_def t_def demoRead_def)
  then show "fst (scheduleGrain demoEnv i w s)" "demoReady (snd (scheduleGrain demoEnv i w s))"
    "shown (snd (scheduleGrain demoEnv i w s)) = shown s @ [([7], scheduledFrames s * vm_rateDenominator (mode s) * 1000)]"
    using t by (simp_all add: commitFrame_def demoRead_def showable_def presentFrame_def demo_answers taiNowNs_def ticked_def
        demoReady_def Let_def)
qed

lemma demo_findStart:
  assumes "demoReady t"
  shows "\<exists>u. findStart n demoEnv (demoReader 5) 1 t = Some (Some 99, u) \<and> demoReady u"
proof -
  define c where "c = capReadOffset 1 (ticked t)"
  have c: "demoReady c" "readOffset c = 0"
    using assms by (simp_all add: c_def capReadOffset_def ticked_def demoReady_def Let_def demoCfg_def defaultChannel_def
        demoReader_def)
  have "startIndex 100 1 100 = 99" by (simp add: startIndex_def)
  moreover have "currentIndex demoEnv k q = 100" for k q by (simp add: demoEnv_def)
  ultimately have "findStart n demoEnv (demoReader 5) 1 t = Some (Some 99, ticked c)"
    unfolding findStart_def Let_def split_beta c_def[symmetric] by (simp add: demo_answers c)
  then show ?thesis using c by simp
qed

lemma prerollLoop_done: "\<not> scheduled < preroll \<Longrightarrow> prerollLoop (Suc n) e preroll timeoutNs deadline scheduled w s = Some (True, s)"
  by simp

lemma demo_preroll:
  assumes "demoReady s" "nextGrainIndex s = 99" "shown s = []" "scheduledFrames s = 0"
  shows "\<exists>t. runPreroll 2 demoEnv 1 s = Some (True, t) \<and> sync t = Some [5] \<and> shown t = [([7], 0)]"
proof -
  define h where "h = videoHeadIndex demoEnv (demoReader 5) ((ticked s)\<lparr>nextGrainIndex := 100\<rparr>)"
  define u where "u = snd (steadyNowNs demoEnv (snd h))"
  have u: "demoReady u" "shown u = []" "scheduledFrames u = 0"
    using assms by (simp_all add: h_def u_def demo_answers demoReady_def ticked_def steadyNowNs_def)
  have s: "videoReader ((ticked s)\<lparr>nextGrainIndex := 100\<rparr>) = Some (demoReader 5)" "nextGrainIndex (ticked s) = 99" "fst h = 100"
    using assms by (simp_all add: demoReady_def ticked_def h_def demo_answers)
  define q where "q = scheduleGrain demoEnv 99 0 u"
  have q: "fst q" "demoReady (snd q)" "shown (snd q) = [([7], 0)]"
    using demo_schedule[OF u(1), of 99 0] u by (simp_all add: q_def)
  have a: "aflows (snd q) = []" "sync (snd q) = Some [5]" using q(2) by (simp_all add: demoReady_def)
  have "prerollLoop (Suc (Suc 0)) demoEnv 1 timeoutNs d 0 False (ticked s) = Some (True, snd q)" for timeoutNs d
    unfolding prerollLoop.simps(2)[of "Suc 0"] Let_def split_beta
    by (simp del: prerollLoop.simps add: s h_def[symmetric] u_def[symmetric] q_def[symmetric] q a prerollLoop_done)
  moreover have "startOk demoEnv k" for k by (simp add: demoEnv_def)
  ultimately show ?thesis
    using q(3) a(2)
    by (simp del: prerollLoop.simps add: runPreroll_def Let_def steadyNowNs_def setState_def numeral_2_eq_2)
      (simp add: ticked_def)
qed

lemma demo_bringUp: "\<exists>t. bringUp 2 demoEnv demoStart = Some (True, t) \<and> sync t = Some [5] \<and> shown t = [([7], 0)]"
proof -
  define m where "m = the (videoMode (cfg (resetSession demoStart)))"
  define s1 where "s1 = (resetSession demoStart)\<lparr>mode := m, status := (status (resetSession demoStart))\<lparr>activeModeName := vm_name m\<rparr>\<rparr>"
  define q where "q = openReaders demoEnv s1"
  define t where "t = setTimings (ticked ((ticked (snd q))\<lparr>playback := True\<rparr>))"
  have s1: "cfg s1 = demoCfg" "\<not> videoFlowInvalid s1" "\<not> videoStalled s1" "\<not> playing s1"
    by (simp_all add: s1_def resetSession_def demoStart_def newOutputChannel_def setState_def)
  have q: "fst q" "demoReady (snd q)"
    using s1 by (simp_all add: q_def openReaders_def demoEnv_def demoReady_def ticked_def demoCfg_def defaultChannel_def
        syncAdd_def Let_def map_filter_def demoReader_def)
  then have t: "demoReady t" by (simp add: t_def demoReady_def setTimings_def ticked_def Let_def)
  obtain u where u: "findStart 2 demoEnv (demoReader 5) 1 t = Some (Some 99, u)" "demoReady u"
    using demo_findStart[OF t] by blast
  have "demoReady (startPosition demoEnv 99 u)" "nextGrainIndex (startPosition demoEnv 99 u) = 99"
    "shown (startPosition demoEnv 99 u) = []" "scheduledFrames (startPosition demoEnv 99 u) = 0"
    using u(2) by (simp_all add: startPosition_def taiNowNs_def ticked_def demoReady_def Let_def)
  note p = demo_preroll[OF this]
  have e: "supportsMode demoEnv m" "playbackOk demoEnv k" "enableOk demoEnv k" for k by (simp_all add: demoEnv_def)
  have n: "\<not> isNil (videoFlowId (cfg s1))" "videoReader t = Some (demoReader 5)" "outputPrerollGrains (cfg t) = 1"
    using t by (simp_all add: s1 demoCfg_def isNil_def demoReady_def)
  show ?thesis
    unfolding bringUp_def Let_def split_beta m_def[symmetric] s1_def[symmetric] q_def[symmetric] t_def[symmetric]
    using p by (simp add: e n q u)
qed

lemma demo_reachable: "\<exists>t. reachable demoEnv demoCfg (t, Idle) \<and> sync t = Some [5] \<and> shown t = [([7], 0)] \<and> streamingUp t"
proof -
  obtain t where t: "bringUp 2 demoEnv demoStart = Some (True, t)" "sync t = Some [5]" "shown t = [([7], 0)]"
    using demo_bringUp by blast
  have "reachable demoEnv demoCfg (demoStart, Idle)" unfolding demoStart_def by (rule reachable.init)
  moreover have "step demoEnv (demoStart, Idle) (t, Idle)"
    by (rule step.broughtUp[OF _ t(1)]) (simp add: demoStart_def newOutputChannel_def)
  ultimately have r: "reachable demoEnv demoCfg (t, Idle)" by (rule reachable.more)
  moreover have "streamingUp t" using reachable_sys_ok[OF r] t(2) by (auto simp: sys_ok_def closed_def split: if_split_asm)
  ultimately show ?thesis using t by blast
qed

subsection \<open>In every reachable state\<close>

text \<open>C1. In every reachable state, whatever the sources, the card and the interleaving of callbacks and
  supervisor do, each handle in the sync group belongs to a reader the channel still owns, whose flow
  was not re-created and whose source is not stalled: the group never waits on a closed or a dead
  reader.\<close>

theorem sync_group_live:
  assumes "reachable e c (s, p)" "sync s = Some hs" "h \<in> set hs"
  shows "(\<exists>r. videoReader s = Some r \<and> r_handle r = h \<and> \<not> videoFlowInvalid s \<and> \<not> videoStalled s) \<or>
     (\<exists>af. af \<in> set (aflows s) \<and> (\<exists>r. a_reader af = Some r \<and> r_handle r = h) \<and> \<not> a_flowInvalid af \<and> \<not> a_stalled af)"
  using sys_okD(2)[OF reachable_sys_ok[OF assms(1)]] assms(2,3)
  by (fastforce simp: group_ok_def grp_def videoKey_def keyLive_def slotKey_def list_ex_iff)

theorem sync_group_live_witness:
  "\<exists>s. reachable demoEnv demoCfg (s, Idle) \<and> sync s = Some [5] \<and>
     ((\<exists>r. videoReader s = Some r \<and> r_handle r = 5 \<and> \<not> videoFlowInvalid s \<and> \<not> videoStalled s) \<or>
      (\<exists>af. af \<in> set (aflows s) \<and> (\<exists>r. a_reader af = Some r \<and> r_handle r = 5) \<and> \<not> a_flowInvalid af \<and> \<not> a_stalled af))"
proof -
  obtain t where t: "reachable demoEnv demoCfg (t, Idle)" "sync t = Some [5]" using demo_reachable by blast
  have "5 \<in> set [5::nat]" by simp
  from sync_group_live[OF t this] t show ?thesis by blast
qed

text \<open>C9. In every reachable state the books of the channel agree: every frame given to the card is either
  a new grain or a repeat, every repeat is counted under exactly one reason, and every dropped frame
  was dropped by the card or could not be scheduled (modulo the width of the counters).\<close>

theorem frame_accounts:
  assumes "reachable e c (s, p)"
  shows "framesTotal (status s) = grainsCommitted (status s) + framesRepeated (status s) \<and>
    framesTotal (status s) = of_nat (m_framesTotal s) \<and>
    framesRepeated (status s) = of_nat (m_repeatedSourceStall s + m_repeatedSourceLate s + m_repeatedFlowReopen s +
       m_repeatedSourceInvalid s + m_repeatedReadError s) \<and>
    framesDropped (status s) = cardDropped s + notScheduled s \<and> framesDropped (status s) = of_nat (m_framesDropped s)"
  using sys_okD(1)[OF reachable_sys_ok[OF assms]] by (simp_all add: books_ok_def repeats_def)

theorem frame_accounts_witness:
  "\<exists>s. reachable demoEnv demoCfg (s, Idle) \<and> shown s = [([7], 0)] \<and>
     framesTotal (status s) = grainsCommitted (status s) + framesRepeated (status s) \<and>
     framesDropped (status s) = cardDropped s + notScheduled s"
  using demo_reachable frame_accounts by blast

text \<open>C8. While a channel streams, the frames of the session are shown back to back: the k-th frame given
  to the card has the display time of k frame durations, and the next one follows it, whatever
  was repeated, skipped, refused or re-opened in between.\<close>

theorem display_times_gapless:
  assumes "reachable e c (s, p)" "streamingUp s" "k < length (shown s)"
  shows "snd (shown s ! k) = of_nat k * vm_rateDenominator (mode s) * 1000 \<and> scheduledFrames s = of_nat (length (shown s))"
proof
  have g: "gapless s" using sys_okD(4)[OF reachable_sys_ok[OF assms(1)] assms(2)] .
  then have "map snd (shown s) ! k = map (\<lambda>k. of_nat k * vm_rateDenominator (mode s) * 1000) [0..<length (shown s)] ! k"
    by (simp add: gapless_def)
  then show "snd (shown s ! k) = of_nat k * vm_rateDenominator (mode s) * 1000" using assms(3) by simp
  show "scheduledFrames s = of_nat (length (shown s))" using g by (simp add: gapless_def)
qed

theorem display_times_gapless_witness:
  "\<exists>s. reachable demoEnv demoCfg (s, Idle) \<and> streamingUp s \<and> length (shown s) = 1 \<and>
     snd (shown s ! 0) = of_nat 0 * vm_rateDenominator (mode s) * 1000"
proof -
  obtain t where t: "reachable demoEnv demoCfg (t, Idle)" "shown t = [([7], 0)]" "streamingUp t" using demo_reachable by blast
  have "0 < length (shown t)" using t(2) by simp
  from display_times_gapless[OF t(1,3) this] t show ?thesis by (metis One_nat_def length_Cons list.size(3))
qed



subsection \<open>Read position\<close>

lemma commitFrame_position [simp]:
  "nextGrainIndex (snd (commitFrame e rd s)) = nextGrainIndex s" "audioEndFrame (snd (commitFrame e rd s)) = audioEndFrame s"
  by (simp_all add: commitFrame_def presentFrame_def countRepeat_def Let_def split_beta ticked_def taiNowNs_def
      split: RepeatReason.split)

lemma moveReadPosition_lip:
  "aflows s \<noteq> [] \<Longrightarrow> nextGrainIndex (moveReadPosition i a s) - audioEndFrame (moveReadPosition i a s) = nextGrainIndex s - audioEndFrame s"
  by (simp add: moveReadPosition_def Let_def)

lemma scheduleGrain_lip:
  assumes "aflows s \<noteq> []"
  shows "nextGrainIndex (snd (scheduleGrain e i w s)) - audioEndFrame (snd (scheduleGrain e i w s)) = nextGrainIndex s - audioEndFrame s"
proof -
  define t where "t = snd (readGrain e i w s)"
  have c: "core t = core s" by (simp add: t_def core_readGrain)
  have "aflows t \<noteq> []" using assms core_eqD(26)[OF c] by auto
  then show ?thesis
    using moveReadPosition_lip[of t] core_eqD(5,6)[OF c] by (simp add: scheduleGrain_def Let_def split_beta t_def[symmetric])
qed

lemma deadline_position [simp]:
  "nextGrainIndex (estimateDeadline e d s) = nextGrainIndex s" "audioEndFrame (estimateDeadline e d s) = audioEndFrame s"
  "aflows (estimateDeadline e d s) = aflows s" "nextGrainIndex (snd (readBudgetNs e s)) = nextGrainIndex s"
  "audioEndFrame (snd (readBudgetNs e s)) = audioEndFrame s" "aflows (snd (readBudgetNs e s)) = aflows s"
  by (simp_all add: estimateDeadline_def readBudgetNs_def Let_def steadyNowNs_def ticked_def split: option.split)

lemma scheduleNext_lip:
  assumes "aflows s \<noteq> []"
  shows "nextGrainIndex (scheduleNext e d s) - audioEndFrame (scheduleNext e d s) = nextGrainIndex s - audioEndFrame s + 1"
proof -
  have f: "nextGrainIndex (finishCallback e q) = nextGrainIndex (snd q)" "audioEndFrame (finishCallback e q) = audioEndFrame (snd q)" for q
    by (simp_all add: finishCallback_def Let_def split_beta steadyNowNs_def ticked_def)
  define u where "u = estimateDeadline e d (s\<lparr>nextGrainIndex := nextGrainIndex s + 1\<rparr>)"
  have u: "nextGrainIndex u = nextGrainIndex s + 1" "audioEndFrame u = audioEndFrame s" "aflows u \<noteq> []"
    using assms by (simp_all add: u_def)
  then show ?thesis
    using scheduleGrain_lip[of "snd (readBudgetNs e u)" e "nextGrainIndex s" "fst (readBudgetNs e u)"]
    by (simp add: scheduleNext_def Let_def split_beta u_def[symmetric] f)
qed

text \<open>C2. Lip sync: a completed frame moves the read position of the video one frame further relative to
  the audio's, and nothing else does: when a late source makes the channel read a grain again, or it
  catches up, or resumes after a stall, the audio position moves by the same number of frames.\<close>

theorem lip_sync:
  assumes "playing s" "aflows s \<noteq> []"
  shows "nextGrainIndex (onFrameCompleted e Completed s) - audioEndFrame (onFrameCompleted e Completed s) =
     nextGrainIndex s - audioEndFrame s + 1"
  using assms scheduleNext_lip[of "ticked s"] by (simp add: onFrameCompleted_def steadyNowNs_def ticked_def)

theorem lip_sync_witness:
  "nextGrainIndex (onFrameCompleted demoEnv Completed (demoStart\<lparr>playing := True, aflows := [demoSlot]\<rparr>)) -
     audioEndFrame (onFrameCompleted demoEnv Completed (demoStart\<lparr>playing := True, aflows := [demoSlot]\<rparr>)) = 1"
proof -
  define s where "s = demoStart\<lparr>playing := True, aflows := [demoSlot]\<rparr>"
  have "playing s" "aflows s \<noteq> []" by (simp_all add: s_def)
  from lip_sync[OF this, of demoEnv] show ?thesis
    unfolding s_def[symmetric] by (simp add: s_def demoStart_def newOutputChannel_def)
qed

subsection \<open>The preroll reset\<close>

text \<open>The counters of the reset; scheduling a frame leaves them alone.\<close>

definition lateView :: "OutputChannel \<Rightarrow> bool \<times> u64 \<times> u64 \<times> bool" where
  "lateView s = (playing s, recentWindowStart s, recentLateOrDropped s, resetRequested s)"

lemma lateView_scheduleGrain: "lateView (snd (scheduleGrain e i w s)) = lateView s"
proof -
  have "lateView (snd (commitFrame e rd t)) = lateView t" for rd t
    by (simp add: commitFrame_def presentFrame_def countRepeat_def Let_def split_beta ticked_def taiNowNs_def lateView_def
        split: RepeatReason.split)
  moreover have "lateView (moveReadPosition i a t) = lateView t" for a t by (simp add: moveReadPosition_def Let_def lateView_def)
  ultimately show ?thesis
    using core_eqD(10,13,27,28)[OF core_readGrain, of e i w s] by (simp add: scheduleGrain_def Let_def split_beta) (simp add: lateView_def)
qed

lemma lateView_scheduleNext: "lateView (scheduleNext e d s) = lateView s"
proof -
  have "lateView (finishCallback e q) = lateView (snd q)" for q
    by (simp add: finishCallback_def Let_def split_beta steadyNowNs_def ticked_def lateView_def)
  moreover have "lateView (estimateDeadline e d t) = lateView t" "lateView (snd (readBudgetNs e t)) = lateView t"
    "lateView (t\<lparr>nextGrainIndex := k\<rparr>) = lateView t" for t k
    by (simp_all add: estimateDeadline_def readBudgetNs_def Let_def steadyNowNs_def ticked_def lateView_def split: option.split)
  ultimately show ?thesis by (simp add: scheduleNext_def Let_def split_beta lateView_scheduleGrain)
qed

lemma late_step:
  assumes "playing s" "r = DisplayedLate \<or> r = Dropped" "\<And>n. taiNow e n - recentWindowStart s \<le> kLateWindowNs"
  shows "lateView (onFrameCompleted e r s) =
     (True, recentWindowStart s, recentLateOrDropped s + 1, resetRequested s \<or> kLateThreshold \<le> recentLateOrDropped s + 1)"
proof -
  define q where "q = countLateOrDropped e r (ticked s)"
  have n: "\<not> taiNow e k - recentWindowStart s > kLateWindowNs" for k using assms(3)[of k] by (simp add: linorder_not_less)
  have q: "lateView (snd q) = (True, recentWindowStart s, recentLateOrDropped s + 1,
      resetRequested s \<or> kLateThreshold \<le> recentLateOrDropped s + 1)"
    using assms(1) n by (simp add: q_def countLateOrDropped_def Let_def split_beta taiNowNs_def ticked_def lateView_def)
  have "onFrameCompleted e r s = (if fst q then snd q else scheduleNext e (steady e (tick s)) (snd q))"
    using assms(1,2) by (simp add: onFrameCompleted_def Let_def split_beta steadyNowNs_def q_def)
      (auto simp: ticked_def)
  then show ?thesis using q by (simp add: lateView_scheduleNext)
qed

text \<open>The preroll reset: with all the late or dropped frames inside one window of 10 s, the reset is requested
  by exactly the 25th of them, and not before.\<close>

theorem preroll_reset_at_25:
  assumes "playing s" "\<not> resetRequested s" "recentLateOrDropped s = 0" "r = DisplayedLate \<or> r = Dropped"
    "\<And>n. taiNow e n - recentWindowStart s \<le> kLateWindowNs" "n \<le> 25"
  shows "resetRequested ((onFrameCompleted e r ^^ n) s) = (n = 25)"
proof -
  have "n \<le> 25 \<Longrightarrow> lateView ((onFrameCompleted e r ^^ n) s) = (True, recentWindowStart s, of_nat n, n = 25)"
  proof (induction n)
    case (Suc n)
    define t where "t = (onFrameCompleted e r ^^ n) s"
    have t: "playing t" "recentWindowStart t = recentWindowStart s" "recentLateOrDropped t = of_nat n" "\<not> resetRequested t"
      using Suc by (simp_all add: t_def lateView_def)
    have "lateView (onFrameCompleted e r t) = (True, recentWindowStart s, of_nat (Suc n), kLateThreshold \<le> of_nat (Suc n))"
      using late_step[OF t(1) assms(4)] assms(5) t by (simp add: add.commute)
    moreover have "(kLateThreshold \<le> of_nat (Suc n)) = (Suc n = 25)"
    proof -
      have "unat (of_nat (Suc n) :: u64) = Suc n" using Suc.prems by (simp add: unat_of_nat del: of_nat_Suc)
      then show ?thesis using Suc.prems by (simp add: kLateThreshold_def word_le_nat_alt del: of_nat_Suc)
    qed
    ultimately show ?case by (simp add: t_def)
  qed (simp add: lateView_def assms)
  then show ?thesis using assms(6) by (simp add: lateView_def)
qed

theorem preroll_reset_at_25_witness:
  "resetRequested ((onFrameCompleted (demoEnv\<lparr>taiNow := \<lambda>n. 0\<rparr>) Dropped ^^ 25) (demoStart\<lparr>playing := True\<rparr>)) = (25 = (25::nat))"
  by (rule preroll_reset_at_25) (simp_all add: demoStart_def newOutputChannel_def demoEnv_def)

subsection \<open>How long a callback may wait\<close>

lemma mode_periods: "list_all (\<lambda>m. 16000000 \<le> unat (framePeriodNs m) \<and> unat (framePeriodNs m) \<le> 50000000) allVideoModes"
  by (simp add: allVideoModes_def mkMode_def framePeriodNs_def)

lemma unat_of_int_word: "0 \<le> x \<Longrightarrow> x < 2 ^ LENGTH('a) \<Longrightarrow> unat (of_int x :: 'a::len word) = nat x"
  by (simp add: unat_eq_nat_uint uint_word_of_int take_bit_eq_mod)

lemma unat_mult_small: "unat a * unat b < 2 ^ LENGTH('a) \<Longrightarrow> unat (a * b :: 'a::len word) = unat a * unat b"
  by (simp add: unat_word_ariths)

lemma unat_min_word: "unat (min a b :: 'a::len word) = min (unat a) (unat b)"
  by (simp add: min_def word_le_nat_alt)

lemma unat_max_word: "unat (max a b :: 'a::len word) = max (unat a) (unat b)"
  by (simp add: max_def word_le_nat_alt)

text \<open>C32. The wait of a completion callback leaves the schedule margin: for every mode of the table and every
  preroll and reader timeout the configuration allows, the longest wait fits the reader timeout
  and, unless it is 0, ends at least the margin (8 ms and a third of a frame) before the frames already
  queued run out.  No 64-bit computation in it wraps.\<close>

theorem read_wait_bound:
  assumes "mode s \<in> set allVideoModes" "1 \<le> outputPrerollGrains (cfg s)" "outputPrerollGrains (cfg s) \<le> 64"
    "1 \<le> readerTimeoutMs (cfg s)" "readerTimeoutMs (cfg s) \<le> 10000"
  shows "unat (frameWaitNs (setTimings s)) \<le> nat (readerTimeoutMs (cfg s)) * 1000000 \<and>
    (frameWaitNs (setTimings s) = 0 \<or>
     unat (frameWaitNs (setTimings s)) + unat (scheduleMarginNs (setTimings s)) \<le>
       nat (outputPrerollGrains (cfg s) - 1) * unat (periodNs (setTimings s))) \<and>
    8000000 \<le> unat (scheduleMarginNs (setTimings s)) \<and>
    unat (periodNs (setTimings s)) div 3 \<le> unat (scheduleMarginNs (setTimings s))"
proof -
  define p where "p = framePeriodNs (mode s)"
  define k where "k = outputPrerollGrains (cfg s) - 1"
  define m where "m = max kScheduleMarginNs (p div 3)"
  have p: "16000000 \<le> unat p" "unat p \<le> 50000000" using mode_periods assms(1) by (auto simp: p_def list_all_iff)
  have k: "0 \<le> k" "k \<le> 63" using assms(2,3) by (simp_all add: k_def)
  have uk: "unat (of_int k :: u64) = nat k" using k by (intro unat_of_int_word) simp_all
  have "nat k * unat p \<le> 63 * 50000000" using k p by (intro mult_le_mono) simp_all
  then have ahead: "unat (of_int k * p) = nat k * unat p" using uk by (subst unat_mult_small) simp_all
  have ut: "unat (of_int (readerTimeoutMs (cfg s)) :: u64) = nat (readerTimeoutMs (cfg s))"
    using assms(4,5) by (intro unat_of_int_word) simp_all
  have "nat (readerTimeoutMs (cfg s)) * 1000000 \<le> 10000 * 1000000" using assms(4,5) by (intro mult_le_mono1) simp
  then have t: "unat (of_int (readerTimeoutMs (cfg s)) * 1000000 :: u64) = nat (readerTimeoutMs (cfg s)) * 1000000"
    using ut by (subst unat_mult_small) simp_all
  have m: "unat m = max 8000000 (unat p div 3)"
    by (simp add: m_def unat_max_word kScheduleMarginNs_def unat_div)
  have e: "(if outputPrerollGrains (cfg s) > 1 then outputPrerollGrains (cfg s) - 1 else 0) = k" using assms(2) by (simp add: k_def)
  have w: "frameWaitNs (setTimings s) = min (if of_int k * p > m then of_int k * p - m else 0) (of_int (readerTimeoutMs (cfg s)) * 1000000)"
    "scheduleMarginNs (setTimings s) = m" "periodNs (setTimings s) = p"
    by (simp_all only: setTimings_def Let_def e p_def[symmetric] m_def[symmetric]) simp_all
  have d: "unat (of_int k * p - m) = nat k * unat p - unat m" if "m < of_int k * p"
    using that ahead by (subst unat_sub) (simp_all add: order_less_imp_le)
  define a where "a = (if of_int k * p > m then of_int k * p - m else 0)"
  have a: "a = 0 \<or> unat a = nat k * unat p - unat m \<and> unat m < nat k * unat p"
    using d ahead by (simp add: a_def word_less_nat_alt)
  have f: "unat (frameWaitNs (setTimings s)) = min (unat a) (nat (readerTimeoutMs (cfg s)) * 1000000)"
    by (simp only: w(1) a_def[symmetric] unat_min_word t)
  have z: "frameWaitNs (setTimings s) = 0" if "a = 0" using f that by (simp add: unsigned_eq_0_iff)
  have "frameWaitNs (setTimings s) = 0 \<or> unat (frameWaitNs (setTimings s)) + unat m \<le> nat k * unat p"
    using a z f by linarith
  moreover have "unat p div 3 \<le> unat m" "8000000 \<le> unat m" using m by simp_all
  ultimately show ?thesis
    unfolding w(2,3) k_def[symmetric] f by simp
qed

theorem read_wait_bound_witness:
  "unat (frameWaitNs (setTimings demoStart)) \<le> nat (readerTimeoutMs (cfg demoStart)) * 1000000 \<and>
    (frameWaitNs (setTimings demoStart) = 0 \<or>
     unat (frameWaitNs (setTimings demoStart)) + unat (scheduleMarginNs (setTimings demoStart)) \<le>
       nat (outputPrerollGrains (cfg demoStart) - 1) * unat (periodNs (setTimings demoStart))) \<and>
    8000000 \<le> unat (scheduleMarginNs (setTimings demoStart)) \<and>
    unat (periodNs (setTimings demoStart)) div 3 \<le> unat (scheduleMarginNs (setTimings demoStart))"
proof (rule read_wait_bound)
  show "mode demoStart \<in> set allVideoModes"
    by (simp add: demoStart_def newOutputChannel_def lookupVideoMode_def allVideoModes_def mkMode_def)
qed (simp_all add: demoStart_def newOutputChannel_def demoCfg_def defaultChannel_def)

end
