(* ===== verification/HttpProps.thy ===== *)
theory HttpProps
  imports HttpServer
begin

text \<open>
  Properties of the HTTP server: what the handler gets does not depend on how the bytes of a request arrive, a
  well-formed request is delivered as it was written, query values survive percent encoding, and the server keeps no
  descriptor open that it does not serve.
\<close>

subsection \<open>Searching\<close>

lemma starts_with_length: "starts_with s p \<Longrightarrow> length p \<le> length s"
  unfolding starts_with_def by (metis length_take min.cobounded1 nle_le)

lemma starts_with_append: "starts_with s p \<Longrightarrow> starts_with (s @ t) p"
  using starts_with_length[of s p] by (simp add: starts_with_def)

lemma starts_with_shorten: "starts_with (s @ t) p \<Longrightarrow> length p \<le> length s \<Longrightarrow> starts_with s p"
  by (simp add: starts_with_def)

lemma find_str_Some: "find_str s p = Some n \<Longrightarrow> starts_with (drop n s) p \<and> n + length p \<le> length s"
proof (induction s arbitrary: n)
  case (Cons c s)
  then show ?case using starts_with_length[of "c # s" p] by (auto split: if_splits)
qed (auto simp: starts_with_def split: if_splits)

lemma find_str_nth:
  assumes "find_str s p = Some n" and "i < length p"
  shows "s ! (n + i) = p ! i"
proof -
  have p: "take (length p) (drop n s) = p" "n + length p \<le> length s"
    using find_str_Some[OF assms(1)] by (simp_all add: starts_with_def)
  have "p ! i = take (length p) (drop n s) ! i" by (simp only: p(1))
  then show ?thesis using assms(2) p(2) by simp
qed

lemma find_str_least: "starts_with (drop m s) p \<Longrightarrow> m \<le> length s \<Longrightarrow> \<exists>n \<le> m. find_str s p = Some n"
proof (induction s arbitrary: m)
  case (Cons c s)
  show ?case
  proof (cases "starts_with (c # s) p")
    case False
    then obtain k where "m = Suc k" using Cons.prems by (cases m) auto
    then show ?thesis using Cons False by fastforce
  qed simp
qed (auto simp: starts_with_def)

lemma find_str_append: "find_str s p = Some n \<Longrightarrow> find_str (s @ t) p = Some n"
proof (induction s arbitrary: n)
  case (Cons c s)
  show ?case
  proof (cases "starts_with (c # s) p")
    case True
    then show ?thesis using Cons.prems starts_with_append[OF True, of t] by simp
  next
    case False
    then obtain k where k: "find_str s p = Some k" "n = Suc k" using Cons.prems by auto
    then have "length p \<le> length (c # s)" using find_str_Some[OF k(1)] by simp
    then have "\<not> starts_with (c # s @ t) p" using False starts_with_shorten[of "c # s" t p] by auto
    then show ?thesis using Cons.IH[OF k(1)] k(2) by simp
  qed
qed (cases t; auto simp: starts_with_def split: if_splits)

lemma find_str_shorten: "find_str (s @ t) p = Some n \<Longrightarrow> n + length p \<le> length s \<Longrightarrow> find_str s p = Some n"
proof -
  assume f: "find_str (s @ t) p = Some n" and n: "n + length p \<le> length s"
  have "starts_with (drop n s) p"
    using find_str_Some[OF f] n starts_with_shorten[of "drop n s" t p] by simp
  then obtain m where "find_str s p = Some m" using find_str_least[of n s p] n by auto
  then show "find_str s p = Some n" using f find_str_append by fastforce
qed

lemma starts_with_prefix: "starts_with s (p @ q) \<Longrightarrow> starts_with s p"
proof -
  assume "starts_with s (p @ q)"
  then have "take (length (p @ q)) s = p @ q" by (simp add: starts_with_def)
  then have "take (length p) (take (length (p @ q)) s) = take (length p) (p @ q)" by (rule arg_cong)
  then show "starts_with s p" by (simp add: starts_with_def)
qed

text \<open>A pattern is not found inside a text without its first character.\<close>

lemma find_str_skip: "c \<notin> set s \<Longrightarrow> find_str (s @ t) (c # p) = map_option (\<lambda>n. length s + n) (find_str t (c # p))"
proof (induction s)
  case (Cons d s)
  then show ?case by (cases "find_str t (c # p)") (auto simp: starts_with_def)
qed (cases "find_str t (c # p)"; simp)

subsection \<open>Chunks\<close>

text \<open>The content length a complete stream asks for.\<close>

definition bodyLength :: "string \<Rightarrow> nat \<Rightarrow> nat" where
  "bodyLength stream h = (case contentLengthOf (take h stream) of None \<Rightarrow> 0 | Some n \<Rightarrow> n)"

text \<open>A stream that holds a header block and the body it announces, within the limit.\<close>

definition complete :: "string \<Rightarrow> bool" where
  "complete stream \<longleftrightarrow> (\<exists>h. find_str stream (crlf @ crlf) = Some h \<and>
     h + 4 + bodyLength stream h \<le> length stream \<and> h + 4 + bodyLength stream h \<le> kMaxRequest)"

lemma recvLoop_complete:
  assumes h: "find_str stream (crlf @ crlf) = Some h"
    and n: "h + 4 + bodyLength stream h \<le> length stream" "h + 4 + bodyLength stream h \<le> kMaxRequest"
  shows "request @ concat chunks = stream \<Longrightarrow>
     \<exists>r rest. recvLoop chunks request (find_str request (crlf @ crlf))
         (if find_str request (crlf @ crlf) = None then 0 else bodyLength stream h) = (r, Some h, bodyLength stream h) \<and>
       r @ rest = stream \<and> h + 4 + bodyLength stream h \<le> length r"
proof (induction chunks arbitrary: request)
  case Nil
  then show ?case using h n by (subst recvLoop.simps) auto
next
  case (Cons chunk chunks)
  let ?f = "find_str request (crlf @ crlf)"
  have len: "length (crlf @ crlf) = 4" by (simp add: crlf_def)
  have stream: "stream = request @ chunk @ concat chunks" using Cons.prems by simp
  have same: "find_str r (crlf @ crlf) = Some h" if "r @ t = stream" "h + 4 \<le> length r" for r t
    using h find_str_shorten[of r t "crlf @ crlf" h] that len by simp
  have found: "k = h \<and> h + 4 \<le> length r" if "find_str r (crlf @ crlf) = Some k" "r @ t = stream" for r t k
    using find_str_append[OF that(1), of t] find_str_Some[OF that(1)] that(2) h len by simp
  show ?case
  proof (cases "h + 4 + bodyLength stream h \<le> length request")
    case True
    then have "?f = Some h" using same[of request "chunk @ concat chunks"] stream by simp
    then show ?thesis using True stream by (subst recvLoop.simps) auto
  next
    case False
    then have small: "\<not> kMaxRequest \<le> length request" using n by simp
    have ih: "\<exists>r rest. recvLoop chunks (request @ chunk) (find_str (request @ chunk) (crlf @ crlf))
         (if find_str (request @ chunk) (crlf @ crlf) = None then 0 else bodyLength stream h) = (r, Some h, bodyLength stream h) \<and>
       r @ rest = stream \<and> h + 4 + bodyLength stream h \<le> length r"
      using Cons.IH[of "request @ chunk"] stream by simp
    have step: "recvLoop (chunk # chunks) request ?f (if ?f = None then 0 else bodyLength stream h) =
        recvLoop chunks (request @ chunk) (find_str (request @ chunk) (crlf @ crlf))
         (if find_str (request @ chunk) (crlf @ crlf) = None then 0 else bodyLength stream h)"
    proof (cases ?f)
      case (Some k)
      then have "k = h" using found[of request k "chunk @ concat chunks"] stream by simp
      then show ?thesis using Some False small find_str_append[OF Some, of chunk]
        by (subst recvLoop.simps) (simp add: Let_def)
    next
      case None
      show ?thesis
      proof (cases "find_str (request @ chunk) (crlf @ crlf)")
        case None
        then show ?thesis using \<open>?f = None\<close> small by (subst recvLoop.simps) (simp add: Let_def)
      next
        case (Some k)
        then have k: "k = h" "h + 4 \<le> length (request @ chunk)"
          using found[of "request @ chunk" k "concat chunks"] stream by simp_all
        then have "take h (request @ chunk) = take h stream" using stream by simp
        then have "bodyLength stream h = (case contentLengthOf (take h (request @ chunk)) of None \<Rightarrow> 0 | Some m \<Rightarrow> m)"
          by (simp add: bodyLength_def)
        then show ?thesis using \<open>?f = None\<close> small Some k(1) n(2)
          by (subst recvLoop.simps) (auto simp: Let_def split: option.split)
      qed
    qed
    show ?thesis unfolding step by (rule ih)
  qed
qed

lemma parseRequest_prefix:
  assumes "find_str stream (crlf @ crlf) = Some h" and "r @ rest = stream" and "h + 4 + n \<le> length r"
  shows "parseRequest (r, Some h, n) = parseRequest (stream, Some h, n)"
proof -
  have "starts_with (drop h stream) (crlf @ crlf)" "h + 4 \<le> length stream"
    using find_str_Some[OF assms(1)] by (simp_all add: crlf_def)
  then have "starts_with (drop h stream) crlf" by (blast intro: starts_with_prefix)
  then obtain k where k: "k \<le> h" "find_str stream crlf = Some k"
    using find_str_least[of h stream crlf] \<open>h + 4 \<le> length stream\<close> by auto
  then have "find_str r crlf = Some k"
    using find_str_shorten[of r rest crlf k] assms by (simp add: crlf_def)
  moreover have s: "stream = r @ rest" using assms(2) by simp
  have "take k r = take k stream" using k(1) assms(3) by (simp add: s)
  moreover have "take n (drop (h + 4) r) = take n (drop (h + 4) stream)" using assms(3) by (simp add: s)
  moreover have "h + 4 \<le> length r" "h + 4 \<le> length stream" using assms(3) by (simp_all add: s)
  ultimately show ?thesis using k(2) by (simp add: parseRequest_def Let_def)
qed

text \<open>The request of a complete stream, however it is cut into chunks.\<close>

lemma received_complete:
  assumes "find_str (concat chunks) (crlf @ crlf) = Some h"
    and "h + 4 + bodyLength (concat chunks) h \<le> length (concat chunks)"
    and "h + 4 + bodyLength (concat chunks) h \<le> kMaxRequest"
  shows "parseRequest (recvLoop chunks [] None 0) = parseRequest (concat chunks, Some h, bodyLength (concat chunks) h)"
proof -
  have none: "find_str [] (crlf @ crlf) = None" by (simp add: crlf_def)
  obtain r rest where "recvLoop chunks [] None 0 = (r, Some h, bodyLength (concat chunks) h)"
      "r @ rest = concat chunks" "h + 4 + bodyLength (concat chunks) h \<le> length r"
    using recvLoop_complete[OF assms, of "[]" chunks] none by auto
  then show ?thesis using parseRequest_prefix[OF assms(1)] by simp
qed

subsection \<open>A request from end to end\<close>

definition requestLine :: "string \<Rightarrow> string \<Rightarrow> string \<Rightarrow> string" where
  "requestLine m path query = m @ '' '' @ path @ ''?'' @ query @ '' HTTP/1.1''"

definition headerLines :: "string list \<Rightarrow> string" where
  "headerLines ls = concat (map (\<lambda>l. crlf @ l) ls)"

definition contentLine :: "nat \<Rightarrow> string" where
  "contentLine n = ''Content-Length: '' @ nat_to_string n"

definition requestText :: "string \<Rightarrow> string \<Rightarrow> string \<Rightarrow> string list \<Rightarrow> string \<Rightarrow> string" where
  "requestText m path query extra body =
     requestLine m path query @ headerLines (contentLine (length body) # extra) @ crlf @ crlf @ body"

text \<open>The parts of a request line, and the lines of further headers.\<close>

definition plain :: "string \<Rightarrow> bool" where
  "plain s \<longleftrightarrow> CHR '' '' \<notin> set s \<and> CHR '':'' \<notin> set s \<and> CHR 0x0D \<notin> set s"

definition header_line :: "string \<Rightarrow> bool" where
  "header_line l \<longleftrightarrow> l \<noteq> [] \<and> CHR 0x0D \<notin> set l"

lemma digits_no: "\<not> isDigit c \<Longrightarrow> c \<notin> set (nat_to_string n)"
  using digits_of_nat[of n] by (auto simp: list_all_iff)

lemma contentLine_header: "header_line (contentLine n)"
  using digits_no[of "CHR 0x0D" n] by (simp add: header_line_def contentLine_def isDigit_def)

lemma crlf_in_lines:
  assumes "\<forall>l \<in> set ls. header_line l"
  shows "find_str (headerLines ls @ crlf @ crlf @ body) (crlf @ crlf) = Some (length (headerLines ls))"
  using assms
proof (induction ls)
  case Nil
  then show ?case by (simp add: headerLines_def crlf_def starts_with_def)
next
  case (Cons l ls)
  let ?t = "headerLines ls @ crlf @ crlf @ body"
  obtain c l' where l: "l = c # l'" "c \<noteq> CHR 0x0D" "CHR 0x0D \<notin> set l'"
    using Cons.prems by (cases l) (auto simp: header_line_def)
  have "CHR 0x0D \<notin> set (CHR 0x0A # l)" using l by simp
  from find_str_skip[OF this, of ?t "CHR 0x0A # crlf"] Cons
  have "find_str ((CHR 0x0A # l) @ ?t) (crlf @ crlf) = Some (length (CHR 0x0A # l) + length (headerLines ls))"
    by (simp add: crlf_def del: find_str.simps)
  moreover have "\<not> starts_with (CHR 0x0D # (CHR 0x0A # l) @ ?t) (crlf @ crlf)"
    using l(1,2) by (simp add: starts_with_def crlf_def)
  moreover have "headerLines (l # ls) @ crlf @ crlf @ body = CHR 0x0D # ((CHR 0x0A # l) @ ?t)"
    by (simp add: headerLines_def crlf_def)
  ultimately show ?case by (simp add: headerLines_def crlf_def)
qed

lemma head_found:
  assumes "plain m" "plain path" "plain query" "\<forall>l \<in> set ls. header_line l"
  shows "find_str (requestLine m path query @ headerLines ls @ crlf @ crlf @ body) (crlf @ crlf) =
    Some (length (requestLine m path query @ headerLines ls))"
proof -
  have "CHR 0x0D \<notin> set (requestLine m path query)" using assms(1-3) by (simp add: requestLine_def plain_def)
  from find_str_skip[OF this, of "headerLines ls @ crlf @ crlf @ body" "CHR 0x0A # crlf"] crlf_in_lines[OF assms(4), of body]
  show ?thesis by (simp add: crlf_def)
qed

lemma line_found:
  assumes "plain m" "plain path" "plain query"
  shows "find_str (requestLine m path query @ headerLines (l # ls) @ t) crlf = Some (length (requestLine m path query))"
proof -
  have "CHR 0x0D \<notin> set (requestLine m path query)" using assms by (simp add: requestLine_def plain_def)
  from find_str_skip[OF this, of "headerLines (l # ls) @ t" "[CHR 0x0A]"]
  show ?thesis by (simp add: crlf_def headerLines_def starts_with_def)
qed

text \<open>The content length of such a head.\<close>

lemma toLower_digit: "isDigit c \<Longrightarrow> toLower c = c"
  by (auto simp: isDigit_def toLower_def Let_def)

lemma toLower_colon: "toLower c = CHR '':'' \<longleftrightarrow> c = CHR '':''"
proof
  assume a: "toLower c = CHR '':''"
  show "c = CHR '':''"
  proof (cases "65 \<le> (of_char c :: nat) \<and> (of_char c :: nat) \<le> 90")
    case True
    then have "(of_char (toLower c) :: nat) = of_char c + 32" by (simp add: toLower_def Let_def)
    moreover have "(of_char (toLower c) :: nat) = 58" using a by simp
    ultimately show ?thesis using True by simp
  next
    case False
    have "toLower c = c" unfolding toLower_def Let_def using False by (rule if_not_P)
    then show ?thesis using a by simp
  qed
qed (simp add: toLower_def)

lemma strtoul_number:
  assumes "n < 2 ^ 64" and "tl' = [] \<or> \<not> isDigit (hd tl')"
  shows "strtoul ('' '' @ nat_to_string n @ tl') = n"
proof -
  obtain c cs where c: "nat_to_string n = c # cs" by (cases "nat_to_string n") simp_all
  have d: "isDigit c" "\<forall>x \<in> set cs. isDigit x" using digits_of_nat[of n] by (simp_all add: c list_all_iff)
  have "takeWhile isDigit tl' = []" using assms(2) by (cases tl') simp_all
  then have tw: "takeWhile isDigit (cs @ tl') = cs" using d by simp
  have "\<not> isSpace c" "c \<noteq> CHR ''-''" "c \<noteq> CHR ''+''" using digit_not_space digit_not_sign d(1) by blast+
  moreover have "isSpace CHR '' ''" by (simp add: isSpace_def)
  ultimately have "strtol ('' '' @ c # cs @ tl') = Some (int (digitsValue (c # cs)), 1 + length (c # cs))"
    using d(1) by (simp add: strtol_def Let_def tw)
  then show ?thesis using digits_of_nat[of n] assms(1) by (simp add: strtoul_def c nat_mod_distrib)
qed

lemma contentLength_found:
  assumes "plain m" "plain path" "plain query" and "n < 2 ^ 64"
  shows "contentLengthOf (requestLine m path query @ headerLines (contentLine n # extra)) = Some n"
proof -
  let ?a = "map toLower (requestLine m path query) @ crlf" and ?p = "''content-length:''"
  let ?z = "nat_to_string n @ map toLower (headerLines extra)"
  let ?l = "?a @ ?p @ '' '' @ ?z"
  have low: "map toLower (requestLine m path query @ headerLines (contentLine n # extra)) = ?l"
  proof -
    have "map toLower ''Content-Length: '' = ?p @ '' ''" "map toLower crlf = crlf" by code_simp+
    moreover have "map toLower (nat_to_string n) = nat_to_string n"
      using digits_of_nat[of n] toLower_digit by (simp add: list_all_iff map_idI)
    ultimately show ?thesis by (simp only: headerLines_def contentLine_def map_append list.map concat.simps append_assoc)
  qed
  have no: "CHR '':'' \<notin> set ?a"
    using assms(1-3) by (auto simp: requestLine_def plain_def crlf_def toLower_colon dest!: sym[of "CHR '':''"])
  have "starts_with (drop (length ?a) ?l) ?p" by (simp add: starts_with_def)
  then obtain k where k: "k \<le> length ?a" "find_str ?l ?p = Some k" using find_str_least[of "length ?a" ?l ?p] by auto
  have "k = length ?a"
  proof (rule ccontr)
    assume "k \<noteq> length ?a"
    then have lt: "k + 14 < length (?a @ ''content-length'')" using k(1) by simp
    have "?l ! (k + 14) = ?p ! 14" using find_str_nth[OF k(2), of 14] by simp
    moreover have "?p ! 14 = CHR '':''" by simp
    moreover have "?l = (?a @ ''content-length'') @ CHR '':'' # '' '' @ ?z" by simp
    moreover have "((?a @ ''content-length'') @ CHR '':'' # '' '' @ ?z) ! (k + 14) = (?a @ ''content-length'') ! (k + 14)"
      using lt by (simp only: nth_append if_True)
    ultimately have "(?a @ ''content-length'') ! (k + 14) = CHR '':''" by (simp only:)
    then have "CHR '':'' \<in> set (?a @ ''content-length'')" using nth_mem[OF lt] by (simp only:)
    then show False using no by simp
  qed
  moreover have "drop (length ?a + 15) ?l = '' '' @ ?z" by simp
  moreover have "map toLower (headerLines extra) = [] \<or> \<not> isDigit (hd (map toLower (headerLines extra)))"
    by (cases extra) (simp_all add: headerLines_def crlf_def isDigit_def toLower_def)
  ultimately have "map_option (\<lambda>p. strtoul (drop (p + 15) ?l)) (find_str ?l ?p) = Some n"
    using strtoul_number[OF assms(4), of "map toLower (headerLines extra)"] k(2) by simp
  then show ?thesis unfolding contentLengthOf_def Let_def low .
qed

lemma takeWhile_upto: "c \<notin> set s \<Longrightarrow> takeWhile (\<lambda>x. x \<noteq> c) (s @ c # t) = s"
  by (induction s) auto



subsection \<open>Query values\<close>

definition hexPair :: "char \<Rightarrow> string" where
  "hexPair c = (let n = of_char c :: nat; digit = (\<lambda>d. if d < 10 then char_of (48 + d) else char_of (55 + d)) in
     [digit (n div 16), digit (n mod 16)])"

definition percentEncode :: "string \<Rightarrow> string" where
  "percentEncode v = concat (map (\<lambda>c. CHR ''%'' # hexPair c) v)"

lemma hexPair_value: "strtol16 (hexPair c) = int (of_char c)" "CHR ''&'' \<notin> set (hexPair c)" "length (hexPair c) = 2"
proof -
  define digit where "digit = (\<lambda>d :: nat. if d < 10 then char_of (48 + d) else (char_of (55 + d) :: char))"
  let ?n = "of_char c :: nat"
  have d: "hexDigitValue (digit d) = Some d \<and> \<not> isSpace (digit d) \<and> digit d \<noteq> CHR ''-'' \<and> digit d \<noteq> CHR ''+'' \<and> digit d \<noteq> CHR ''&''"
    if "d < 16" for d
  proof -
    have n: "(of_char (digit d) :: nat) = (if d < 10 then 48 + d else 55 + d)"
      using that by (simp add: digit_def of_char_char_of)
    have "(of_char CHR ''-'' :: nat) = 45" "(of_char CHR ''+'' :: nat) = 43" "(of_char CHR ''&'' :: nat) = 38" "(of_char CHR '' '' :: nat) = 32"
      by simp_all
    then have "digit d \<noteq> CHR ''-''" "digit d \<noteq> CHR ''+''" "digit d \<noteq> CHR ''&''" "digit d \<noteq> CHR '' ''"
      using n by (auto split: if_splits)
    then show ?thesis using n that by (simp add: hexDigitValue_def isSpace_def)
  qed
  have "?n < 256" by (rule nat_of_char_less_256)
  then have lt: "?n div 16 < 16" "?n mod 16 < 16" by presburger+
  have pair: "hexPair c = [digit (?n div 16), digit (?n mod 16)]" by (simp add: hexPair_def digit_def Let_def)
  have "int (?n div 16 * 16 + ?n mod 16) = int ?n" by (simp only: div_mult_mod_eq)
  then have "int (?n div 16) * 16 + int (?n mod 16) = int ?n" by (simp only: of_nat_add of_nat_mult of_nat_numeral)
  then show "strtol16 (hexPair c) = int ?n"
    using d[OF lt(1)] d[OF lt(2)] by (simp add: pair strtol16_def isHexDigit_def)
  show "CHR ''&'' \<notin> set (hexPair c)" "length (hexPair c) = 2"
    using d[OF lt(1)] d[OF lt(2)] by (auto simp: pair)
qed

lemma percentDecode_encode: "percentDecode (percentEncode v) = v"
proof (induction v)
  case (Cons c v)
  have "percentEncode (c # v) = CHR ''%'' # hexPair c @ percentEncode v" by (simp add: percentEncode_def)
  moreover have "nat (strtol16 (hexPair c) mod 256) = of_char c"
    using nat_of_char_less_256[of c] by (simp add: hexPair_value)
  ultimately show ?case using Cons by (simp add: hexPair_value)
qed (simp add: percentEncode_def)

text \<open>A value of any bytes, percent encoded, comes back from \<open>queryParam\<close>, behind parameters of other names.\<close>

lemma queryParam_encoded:
  assumes "CHR ''&'' \<notin> set name" "CHR ''='' \<notin> set name"
    and "list_all (\<lambda>(k, v). CHR ''&'' \<notin> set k \<and> CHR ''='' \<notin> set k \<and> CHR ''&'' \<notin> set v \<and> k \<noteq> name) before"
  shows "paramLoop (concat (map (\<lambda>(k, v). k @ ''='' @ v @ ''&'') before) @ name @ ''='' @ percentEncode value) name = Some value"
  using assms(3)
proof (induction before)
  case Nil
  have amp: "CHR ''&'' \<notin> set (percentEncode value)" using hexPair_value(2) by (auto simp: percentEncode_def)
  have pair: "takeWhile (\<lambda>c. c \<noteq> CHR ''&'') (name @ ''='' @ percentEncode value) = name @ ''='' @ percentEncode value"
    using assms(1) amp by (subst takeWhile_eq_all_conv) auto
  have key: "takeWhile (\<lambda>c. c \<noteq> CHR ''='') (name @ ''='' @ percentEncode value) = name"
    using takeWhile_upto[of "CHR ''=''" name] assms(2) by simp
  show ?case
    by (subst paramLoop.simps) (simp only: Let_def pair key list.map concat.simps append_Nil, simp add: percentDecode_encode)
next
  case (Cons p before)
  obtain k v where p: "p = (k, v)" by (cases p)
  let ?rest = "concat (map (\<lambda>(k, v). k @ ''='' @ v @ ''&'') before) @ name @ ''='' @ percentEncode value"
  have pair: "takeWhile (\<lambda>c. c \<noteq> CHR ''&'') ((k @ ''='' @ v) @ CHR ''&'' # ?rest) = k @ ''='' @ v"
    using Cons.prems p by (intro takeWhile_upto) simp
  have key: "takeWhile (\<lambda>c. c \<noteq> CHR ''='') (k @ CHR ''='' # v) = k"
    using Cons.prems p by (intro takeWhile_upto) simp
  show ?case using pair key Cons p by (subst paramLoop.simps) (simp add: Let_def)
qed

subsection \<open>Answers\<close>

text \<open>A \<open>HEAD\<close> request is answered with the content length 0, not with the length of the body that a
  \<open>GET\<close> returns: the body is cleared before the header is written.\<close>

lemma head_length_zero:
  assumes "rq_method req = ''HEAD''"
  shows "answer handle req s = ((fst (handle req s))\<lparr>hr_body := []\<rparr>, snd (handle req s))" and
    "renderResponse (fst (answer handle req s)) =
       ''HTTP/1.1 '' @ int_to_string (hr_status (fst (handle req s))) @ '' '' @ statusText (hr_status (fst (handle req s))) @ crlf @
       ''Content-Type: '' @ hr_contentType (fst (handle req s)) @ crlf @ ''Content-Length: 0'' @ crlf @ ''Connection: close'' @ crlf @ crlf"
proof -
  have "nat_to_string 0 = ''0''" by code_simp
  then show "renderResponse (fst (answer handle req s)) =
       ''HTTP/1.1 '' @ int_to_string (hr_status (fst (handle req s))) @ '' '' @ statusText (hr_status (fst (handle req s))) @ crlf @
       ''Content-Type: '' @ hr_contentType (fst (handle req s)) @ crlf @ ''Content-Length: 0'' @ crlf @ ''Connection: close'' @ crlf @ crlf"
    using assms by (simp add: answer_def allowedMethod_def renderResponse_def split_beta)
qed (use assms in \<open>simp add: answer_def allowedMethod_def split_beta\<close>)

text \<open>Any header whose name ends in \<open>Content-Length\<close> is taken for the length of the body when it comes first.\<close>

lemma content_length_suffix:
  "contentLengthOf (requestLine ''POST'' ''/'' [] @ headerLines [''X-Content-Length: 7'', ''Content-Length: 2'']) = Some 7"
  by code_simp

text \<open>Every connection is closed after its answer, and a start that fails leaves no descriptor open.\<close>

lemma startServer_failed: "startServer fd bound listens s = (Some err, s') \<Longrightarrow> hs_open s' = hs_open s \<and> hs_running s' = hs_running s"
  by (auto simp: startServer_def closeFd_def Let_def split: if_splits)

lemma start_stop: "startServer fd bound listens s = (None, s') \<Longrightarrow> hs_open (stopServer s') = hs_open s \<and> \<not> hs_thread (stopServer s')"
  by (auto simp: startServer_def stopServer_def closeFd_def Let_def split: if_splits)

lemma acceptTurn_open: "acceptTurn handle ev (s, w) = (out, s', w') \<Longrightarrow> hs_open s' = hs_open s \<and> hs_running s' = hs_running s"
  by (cases ev) (auto simp: closeFd_def Let_def split: prod.splits)

lemma acceptLoop_open: "acceptLoop handle evs (s, w) = (outs, s', w') \<Longrightarrow> hs_open s' = hs_open s"
proof (induction evs arbitrary: s w outs s' w')
  case (Cons ev evs)
  show ?case
  proof (cases "hs_running s")
    case True
    obtain out s1 w1 where t: "acceptTurn handle ev (s, w) = (out, s1, w1)" using prod_cases3 by blast
    obtain outs1 s2 w2 where l: "acceptLoop handle evs (s1, w1) = (outs1, s2, w2)" using prod_cases3 by blast
    show ?thesis using Cons.IH[OF l] acceptTurn_open[OF t] Cons.prems True by (auto simp: t l)
  qed (use Cons in simp)
qed simp

end
