(* ===== verification/FileSystem.thy ===== *)
theory FileSystem
  imports Prelude
begin

text \<open>
  What the code uses of \<open>std::filesystem\<close> and \<open>std::fstream\<close>, on an explicit file system: a list of
  nodes by absolute path, with directories, files and symbolic links, in the order in which a directory is iterated.

  A path is its text, split at the slashes; a trailing slash is a last empty component, as for \<open>fs::path\<close>.
  Following a path resolves links as POSIX does, with at most forty links.  Which calls fail for lack of permission
  or space is a parameter of the operations that change the file system.
\<close>

subsection \<open>Paths\<close>

type_synonym path = "string list"

record Path =
  pa_abs :: bool
  pa_comps :: "string list"

text \<open>The components between the slashes; a doubled slash counts once.\<close>

fun splitSlash :: "string \<Rightarrow> string \<Rightarrow> string list" where
  "splitSlash cur [] = (if cur = [] then [] else [rev cur])"
| "splitSlash cur (c # s) =
     (if c = CHR ''/'' then (if cur = [] then splitSlash [] s else rev cur # splitSlash [] s) else splitSlash (c # cur) s)"

definition pathOf :: "string \<Rightarrow> Path" where
  "pathOf t =
     (let names = splitSlash [] t in
      \<lparr>pa_abs = (t \<noteq> [] \<and> hd t = CHR ''/''), pa_comps = (if names \<noteq> [] \<and> List.last t = CHR ''/'' then names @ [[]] else names)\<rparr>)"

definition slashed :: "string list \<Rightarrow> string" where
  "slashed cs = concat (map (\<lambda>c. CHR ''/'' # c) cs)"

definition textOf :: "Path \<Rightarrow> string" where
  "textOf p =
     (if pa_abs p then (if pa_comps p = [] then ''/'' else slashed (pa_comps p))
      else drop 1 (slashed (pa_comps p)))"

text \<open>\<open>operator/\<close> with a file name.\<close>

definition child :: "Path \<Rightarrow> string \<Rightarrow> Path" where
  "child p name =
     p\<lparr>pa_comps := (if pa_comps p \<noteq> [] \<and> List.last (pa_comps p) = [] then butlast (pa_comps p) else pa_comps p) @ [name]\<rparr>"

definition filename :: "Path \<Rightarrow> string" where
  "filename p = (if pa_comps p = [] then [] else List.last (pa_comps p))"

text \<open>\<open>stem\<close> and \<open>extension\<close> of a file name: split at the last dot, which is not the first character.\<close>

definition stemExt :: "string \<Rightarrow> string \<times> string" where
  "stemExt name =
     (let ext = rev (takeWhile (\<lambda>c. c \<noteq> CHR ''.'') (rev name)); k = length name - length ext in
      if name = ''.'' \<or> name = ''..'' \<or> k \<le> 1 then (name, []) else (take (k - 1) name, CHR ''.'' # ext))"

subsection \<open>Nodes\<close>

datatype FsNode = FsDir | FsFile string | FsLink string

type_synonym FS = "(path \<times> FsNode) list"

definition nodeAt :: "FS \<Rightarrow> path \<Rightarrow> FsNode option" where
  "nodeAt fs p = (if p = [] then Some FsDir else map_of fs p)"

fun putNode :: "path \<Rightarrow> FsNode \<Rightarrow> FS \<Rightarrow> FS" where
  "putNode p n [] = [(p, n)]"
| "putNode p n ((q, m) # fs) = (if q = p then (p, n) # fs else (q, m) # putNode p n fs)"

definition entryNames :: "FS \<Rightarrow> path \<Rightarrow> string list" where
  "entryNames fs d = map (List.last \<circ> fst) (filter (\<lambda>(p, n). p \<noteq> [] \<and> butlast p = d) fs)"

subsection \<open>Following a path\<close>

datatype Walk = Found path | NotFound | TooManyLinks

definition dotless :: "string \<Rightarrow> bool" where
  "dotless c \<longleftrightarrow> c \<noteq> [] \<and> c \<noteq> ''.'' \<and> c \<noteq> ''..''"

text \<open>One component: on to the next directory or node, along a link, or nothing there.\<close>

datatype Hop = Missing | Step path | Jump path "string list"

definition hop :: "FS \<Rightarrow> path \<Rightarrow> string \<Rightarrow> Hop" where
  "hop fs base c =
     (if nodeAt fs base \<noteq> Some FsDir then Missing
      else if c = [] \<or> c = ''.'' then Step base
      else if c = ''..'' then Step (butlast base)
      else case nodeAt fs (base @ [c]) of
             None \<Rightarrow> Missing
           | Some (FsLink t) \<Rightarrow> let p = pathOf t in Jump (if pa_abs p then [] else base) (pa_comps p)
           | Some _ \<Rightarrow> Step (base @ [c]))"

function realPath :: "FS \<Rightarrow> nat \<Rightarrow> path \<Rightarrow> string list \<Rightarrow> Walk" where
  "realPath fs n base [] = Found base"
| "realPath fs n base (c # cs) =
     (case hop fs base c of
        Missing \<Rightarrow> NotFound
      | Step b \<Rightarrow> realPath fs n b cs
      | Jump b link \<Rightarrow> if n = 0 then TooManyLinks else realPath fs (n - 1) b (link @ cs))"
  by pat_completeness auto
termination by (relation "measures [\<lambda>(fs, n, base, cs). n, \<lambda>(fs, n, base, cs). length cs]") auto

definition kMaxLinks :: nat where "kMaxLinks = 40"

definition osComps :: "path \<Rightarrow> Path \<Rightarrow> string list" where
  "osComps cwd p = (if pa_abs p then pa_comps p else cwd @ pa_comps p)"

text \<open>\<open>status\<close>: the node a path leads to; an empty path leads nowhere.\<close>

definition follow :: "FS \<Rightarrow> path \<Rightarrow> Path \<Rightarrow> Walk" where
  "follow fs cwd p = (if \<not> pa_abs p \<and> pa_comps p = [] then NotFound else realPath fs kMaxLinks [] (osComps cwd p))"

definition existsAt :: "FS \<Rightarrow> path \<Rightarrow> Path \<Rightarrow> bool" where
  "existsAt fs cwd p = (case follow fs cwd p of Found _ \<Rightarrow> True | _ \<Rightarrow> False)"

definition isDirectory :: "FS \<Rightarrow> path \<Rightarrow> Path \<Rightarrow> bool" where
  "isDirectory fs cwd p = (case follow fs cwd p of Found q \<Rightarrow> nodeAt fs q = Some FsDir | _ \<Rightarrow> False)"

text \<open>\<open>is_symlink\<close> of the entry \<open>name\<close> of a directory.\<close>

definition isSymlink :: "FS \<Rightarrow> path \<Rightarrow> bool" where
  "isSymlink fs p = (case nodeAt fs p of Some (FsLink t) \<Rightarrow> True | _ \<Rightarrow> False)"

text \<open>\<open>directory_iterator\<close> with an error code: nothing when the path is not a directory.\<close>

definition iterate :: "FS \<Rightarrow> path \<Rightarrow> Path \<Rightarrow> string list" where
  "iterate fs cwd p = (case follow fs cwd p of Found q \<Rightarrow> if nodeAt fs q = Some FsDir then entryNames fs q else [] | _ \<Rightarrow> [])"

definition readFile :: "FS \<Rightarrow> path \<Rightarrow> Path \<Rightarrow> string option" where
  "readFile fs cwd p =
     (case follow fs cwd p of Found q \<Rightarrow> (case nodeAt fs q of Some (FsFile s) \<Rightarrow> Some s | _ \<Rightarrow> None) | _ \<Rightarrow> None)"

subsection \<open>\<open>weakly_canonical\<close>\<close>

text \<open>\<open>lexically_normal\<close> of components below an absolute path, and of a relative path.\<close>

fun normalAbs :: "string list \<Rightarrow> string list \<Rightarrow> string list" where
  "normalAbs stack [] = stack"
| "normalAbs stack (c # cs) =
     (if c = [] \<or> c = ''.'' then normalAbs stack cs
      else if c = ''..'' then normalAbs (butlast stack) cs
      else normalAbs (stack @ [c]) cs)"

fun normalRel :: "string list \<Rightarrow> string list \<Rightarrow> string list" where
  "normalRel stack [] = stack"
| "normalRel stack (c # cs) =
     (if c = [] \<or> c = ''.'' then normalRel stack cs
      else if c = ''..'' \<and> stack \<noteq> [] \<and> List.last stack \<noteq> ''..'' then normalRel (butlast stack) cs
      else normalRel (stack @ [c]) cs)"

definition trailing :: "string list \<Rightarrow> string list \<Rightarrow> string list" where
  "trailing cs out =
     (if cs \<noteq> [] \<and> \<not> dotless (List.last cs) \<and> out \<noteq> [] \<and> List.last out \<noteq> ''..'' then out @ [[]] else out)"

text \<open>The number of leading components that exist.\<close>

function leading :: "FS \<Rightarrow> path \<Rightarrow> Path \<Rightarrow> nat \<Rightarrow> nat + unit" where
  "leading fs cwd p k =
     (if length (pa_comps p) \<le> k then Inl k
      else case follow fs cwd (p\<lparr>pa_comps := take (k + 1) (pa_comps p)\<rparr>) of
             Found _ \<Rightarrow> leading fs cwd p (k + 1)
           | NotFound \<Rightarrow> Inl k
           | TooManyLinks \<Rightarrow> Inr ())"
  by pat_completeness auto
termination by (relation "measure (\<lambda>(fs, cwd, p, k). length (pa_comps p) - k)") auto

declare leading.simps [simp del]

text \<open>\<open>None\<close> is an error code; an empty path is returned empty.\<close>

definition weaklyCanonical :: "FS \<Rightarrow> path \<Rightarrow> Path \<Rightarrow> Path option" where
  "weaklyCanonical fs cwd p =
     (case follow fs cwd p of
        Found q \<Rightarrow> Some \<lparr>pa_abs = True, pa_comps = q\<rparr>
      | TooManyLinks \<Rightarrow> None
      | NotFound \<Rightarrow>
          (case leading fs cwd p 0 of
             Inr _ \<Rightarrow> None
           | Inl k \<Rightarrow>
               let rest = drop k (pa_comps p) in
               if \<not> pa_abs p \<and> k = 0 then
                 let out = normalRel [] rest in
                 Some \<lparr>pa_abs = False, pa_comps = (if rest = [] then [] else if out = [] then [''.''] else trailing rest out)\<rparr>
               else
                 (case follow fs cwd (p\<lparr>pa_comps := take k (pa_comps p)\<rparr>) of
                    Found q \<Rightarrow> Some \<lparr>pa_abs = True, pa_comps = trailing rest (normalAbs q rest)\<rparr>
                  | _ \<Rightarrow> None)))"

definition isEmptyPath :: "Path \<Rightarrow> bool" where
  "isEmptyPath p \<longleftrightarrow> \<not> pa_abs p \<and> pa_comps p = []"

subsection \<open>Changing the file system\<close>

text \<open>\<open>create_directories\<close>: the walk that creates what is missing.  The result says whether it succeeded.\<close>

fun mkdirWalk :: "(path \<Rightarrow> bool) \<Rightarrow> path \<Rightarrow> string list \<Rightarrow> FS \<Rightarrow> bool \<times> FS" where
  "mkdirWalk fails base [] fs = (True, fs)"
| "mkdirWalk fails base (c # cs) fs =
     (if c = [] \<or> c = ''.'' then mkdirWalk fails base cs fs
      else if c = ''..'' then mkdirWalk fails (butlast base) cs fs
      else case realPath fs kMaxLinks base [c] of
             Found q \<Rightarrow> if nodeAt fs q = Some FsDir then mkdirWalk fails q cs fs else (False, fs)
           | TooManyLinks \<Rightarrow> (False, fs)
           | NotFound \<Rightarrow>
               if nodeAt fs (base @ [c]) \<noteq> None \<or> fails (base @ [c]) then (False, fs)
               else mkdirWalk fails (base @ [c]) cs (putNode (base @ [c]) FsDir fs))"

definition createDirectories :: "(path \<Rightarrow> bool) \<Rightarrow> path \<Rightarrow> Path \<Rightarrow> FS \<Rightarrow> bool \<times> FS" where
  "createDirectories fails cwd p fs =
     (if isEmptyPath p then (False, fs) else mkdirWalk fails [] (osComps cwd p) fs)"

text \<open>Where \<open>open\<close> with \<open>O_CREAT | O_TRUNC\<close> puts a file: a link is followed, also when it leads to
  nothing.\<close>

fun openTarget :: "FS \<Rightarrow> nat \<Rightarrow> path \<Rightarrow> string list \<Rightarrow> path option" where
  "openTarget fs n base cs =
     (if cs = [] \<or> \<not> dotless (List.last cs) then None
      else case realPath fs kMaxLinks base (butlast cs) of
             Found d \<Rightarrow>
               if nodeAt fs d \<noteq> Some FsDir then None
               else (case nodeAt fs (d @ [List.last cs]) of
                       None \<Rightarrow> Some (d @ [List.last cs])
                     | Some (FsFile s) \<Rightarrow> Some (d @ [List.last cs])
                     | Some FsDir \<Rightarrow> None
                     | Some (FsLink t) \<Rightarrow>
                         (case n of 0 \<Rightarrow> None
                          | Suc m \<Rightarrow> let p = pathOf t in openTarget fs m (if pa_abs p then [] else d) (pa_comps p)))
           | _ \<Rightarrow> None)"

declare openTarget.simps [simp del]

text \<open>\<open>std::ofstream out(p, trunc); out << text\<close>; \<open>None\<close> when it cannot be opened.\<close>

definition writeFile :: "(path \<Rightarrow> bool) \<Rightarrow> path \<Rightarrow> Path \<Rightarrow> string \<Rightarrow> FS \<Rightarrow> FS option" where
  "writeFile fails cwd p text fs =
     (case openTarget fs kMaxLinks [] (osComps cwd p) of
        None \<Rightarrow> None
      | Some q \<Rightarrow> if fails q then None else Some (putNode q (FsFile text) fs))"

end
