(* ===== verification/DomainScan.thy ===== *)
theory DomainScan
  imports FileSystem Uuid Json Mxl
begin

text \<open>
  \<open>src/mxlbridge/domainscan.hpp\<close> and \<open>domainscan.cpp\<close>, and the directory part of \<open>domain.cpp\<close>: finding the
  MXL domains below a directory, listing the flows of one, and creating or adopting a domain, on the file system of
  \<open>FileSystem\<close>.

  Parameters (\<open>FsEnv\<close>): which changes the operating system refuses, the \<open>tmpfs\<close> test of MXL, the lock and the
  header of a flow's data file, \<open>picojson::parse\<close>, the conversion of a number that is no integer, and the random
  device.
\<close>

record FlowHeader =
  fh_version :: u32
  fh_headIndex :: u64
  fh_lastWriteTime :: u64
  fh_format :: int
  fh_grainCount :: u32

record FsEnv =
  fe_cwd :: path
  fe_mkdirFails :: "path \<Rightarrow> bool"
  fe_openFails :: "path \<Rightarrow> bool"
  fe_isTmpFs :: "string \<Rightarrow> mxlStatus \<times> bool"
  fe_opens :: "bool \<Rightarrow> string \<Rightarrow> bool"
  fe_locked :: "string \<Rightarrow> bool"
  fe_pread :: "string \<Rightarrow> nat \<times> FlowHeader"
  fe_isDiscrete :: "int \<Rightarrow> bool"
  fe_parseJson :: "string \<Rightarrow> json option"
  fe_truncated :: u64
  fe_random :: "nat \<Rightarrow> u32"

definition kFlowSuffix :: string where "kFlowSuffix = ''.mxl-flow''"
definition kDomainDefFile :: string where "kDomainDefFile = ''domain_def.json''"
definition kOptionsFile :: string where "kOptionsFile = ''options.json''"
definition kHistoryOption :: string where "kHistoryOption = ''urn:x-mxl:option:history_duration/v1.0''"

subsection \<open>Reading\<close>

definition readJsonObject :: "FsEnv \<Rightarrow> FS \<Rightarrow> Path \<Rightarrow> json option" where
  "readJsonObject e fs file =
     (case readFile fs (fe_cwd e) file of
        None \<Rightarrow> None
      | Some text \<Rightarrow> (case fe_parseJson e text of Some (JObj obj) \<Rightarrow> Some (JObj obj) | _ \<Rightarrow> None))"

definition getString :: "json \<Rightarrow> string \<Rightarrow> string option" where
  "getString obj key = (case member_of obj key of Some (JStr s) \<Rightarrow> Some s | _ \<Rightarrow> None)"

text \<open>The cast of a JSON number to an unsigned integer.\<close>

definition numU64 :: "FsEnv \<Rightarrow> int option \<Rightarrow> u64" where
  "numU64 e n = (case n of Some i \<Rightarrow> of_int i | None \<Rightarrow> fe_truncated e)"

definition getNum :: "FsEnv \<Rightarrow> json \<Rightarrow> string \<Rightarrow> u64 option" where
  "getNum e obj key = (case member_of obj key of Some (JNum n) \<Rightarrow> Some (numU64 e n) | _ \<Rightarrow> None)"

definition isTmpfsPath :: "FsEnv \<Rightarrow> Path \<Rightarrow> bool" where
  "isTmpfsPath e p = (case fe_isTmpFs e (textOf p) of (st, tmpfs) \<Rightarrow> st = MXL_STATUS_OK \<and> tmpfs)"

definition flowDirs :: "FsEnv \<Rightarrow> FS \<Rightarrow> Path \<Rightarrow> string list" where
  "flowDirs e fs dir =
     filter (\<lambda>name. isDirectory fs (fe_cwd e) (child dir name) \<and> snd (stemExt name) = kFlowSuffix)
       (iterate fs (fe_cwd e) dir)"

definition countFlows :: "FsEnv \<Rightarrow> FS \<Rightarrow> Path \<Rightarrow> nat" where
  "countFlows e fs dir = length (flowDirs e fs dir)"

definition flowActive :: "FsEnv \<Rightarrow> string \<Rightarrow> bool" where
  "flowActive e dataFile = (if fe_opens e True dataFile \<or> fe_opens e False dataFile then fe_locked e dataFile else False)"

definition readFlowInfo :: "FsEnv \<Rightarrow> string \<Rightarrow> FlowHeader option" where
  "readFlowInfo e dataFile =
     (if \<not> fe_opens e False dataFile then None
      else let (n, info) = fe_pread e dataFile in if n \<noteq> 2048 \<or> fh_version info \<noteq> 1 then None else Some info)"

definition randomUuid :: "FsEnv \<Rightarrow> Uuid" where
  "randomUuid e =
     (let b = map (\<lambda>i. ucast (fe_random e i AND 0xff) :: u8) [0..<16];
          b = b[6 := (b ! 6 AND 0x0f) OR 0x40];
          b = b[8 := (b ! 8 AND 0x3f) OR 0x80]
      in \<lparr>bytes = b\<rparr>)"

record DomainInfo =
  di_path :: string
  di_id :: "string option"
  di_label :: "string option"
  di_description :: "string option"
  di_isTmpfs :: bool
  di_hasOptionsJson :: bool
  di_historyDurationNs :: "u64 option"
  di_flowCount :: nat

definition inspectDomainDir :: "FsEnv \<Rightarrow> FS \<Rightarrow> Path \<Rightarrow> DomainInfo option" where
  "inspectDomainDir e fs dir =
     (let hasDomainDef = existsAt fs (fe_cwd e) (child dir kDomainDefFile);
          hasOptions = existsAt fs (fe_cwd e) (child dir kOptionsFile);
          flows = countFlows e fs dir
      in if \<not> hasDomainDef \<and> \<not> hasOptions \<and> flows = 0 then None
         else
           let def = (if hasDomainDef then readJsonObject e fs (child dir kDomainDefFile) else None);
               opts = (if hasOptions then readJsonObject e fs (child dir kOptionsFile) else None);
               str = (\<lambda>key. case def of None \<Rightarrow> None | Some d \<Rightarrow> getString d key)
           in Some \<lparr>di_path = textOf dir, di_id = str ''id'', di_label = str ''label'', di_description = str ''description'',
                    di_isTmpfs = isTmpfsPath e dir, di_hasOptionsJson = hasOptions,
                    di_historyDurationNs = (case opts of None \<Rightarrow> None | Some o' \<Rightarrow> getNum e o' kHistoryOption),
                    di_flowCount = flows\<rparr>)"

text \<open>The subdirectories a scan descends into: not the symbolic links.\<close>

definition subdirNames :: "FsEnv \<Rightarrow> FS \<Rightarrow> Path \<Rightarrow> string list" where
  "subdirNames e fs dir =
     filter (\<lambda>name. isDirectory fs (fe_cwd e) (child dir name) \<and>
         \<not> (case follow fs (fe_cwd e) dir of Found d \<Rightarrow> isSymlink fs (d @ [name]) | _ \<Rightarrow> False))
       (iterate fs (fe_cwd e) dir)"

text \<open>The recursion with \<open>depth + 1\<close> levels left.\<close>

fun scanRecursive :: "FsEnv \<Rightarrow> FS \<Rightarrow> nat \<Rightarrow> Path \<Rightarrow> DomainInfo list" where
  "scanRecursive e fs 0 dir = []"
| "scanRecursive e fs (Suc depth) dir =
     (case inspectDomainDir e fs dir of
        Some info \<Rightarrow> [info]
      | None \<Rightarrow> concat (map (\<lambda>name. scanRecursive e fs depth (child dir name)) (subdirNames e fs dir)))"

definition scanDomains :: "FsEnv \<Rightarrow> FS \<Rightarrow> string \<Rightarrow> int \<Rightarrow> DomainInfo list" where
  "scanDomains e fs rootText maxDepth =
     (if \<not> isDirectory fs (fe_cwd e) (pathOf rootText) then []
      else scanRecursive e fs (nat (maxDepth + 1)) (pathOf rootText))"

subsection \<open>Flows\<close>

record FlowSummary =
  fs_id :: string
  fs_format :: string
  fs_mediaType :: string
  fs_label :: string
  fs_groupHint :: string
  fs_width :: "u32 option"
  fs_height :: "u32 option"
  fs_rateNumerator :: "i64 option"
  fs_rateDenominator :: "i64 option"
  fs_interlaced :: bool
  fs_channelCount :: "u32 option"
  fs_active :: bool
  fs_headIndex :: "u64 option"
  fs_lastWriteTimeNs :: "u64 option"
  fs_grainCount :: "u32 option"

definition noFlow :: "string \<Rightarrow> FlowSummary" where
  "noFlow ident =
     \<lparr>fs_id = ident, fs_format = [], fs_mediaType = [], fs_label = [], fs_groupHint = [], fs_width = None, fs_height = None,
      fs_rateNumerator = None, fs_rateDenominator = None, fs_interlaced = False, fs_channelCount = None, fs_active = False,
      fs_headIndex = None, fs_lastWriteTimeNs = None, fs_grainCount = None\<rparr>"

definition firstString :: "json option \<Rightarrow> string" where
  "firstString v = (case v of Some (JArr (JStr s # _)) \<Rightarrow> s | _ \<Rightarrow> [])"

definition describeFlow :: "FsEnv \<Rightarrow> json \<Rightarrow> FlowSummary \<Rightarrow> FlowSummary" where
  "describeFlow e def f =
     (let text = (\<lambda>key. case getString def key of Some s \<Rightarrow> s | None \<Rightarrow> []);
          u32Of = (\<lambda>key. map_option (\<lambda>n. ucast n :: u32) (getNum e def key));
          rateKey = (if text ''format'' = ''urn:x-nmos:format:audio'' then ''sample_rate'' else ''grain_rate'');
          rate = (case member_of def rateKey of Some (JObj r) \<Rightarrow> Some (JObj r) | _ \<Rightarrow> None);
          num = (case rate of None \<Rightarrow> None | Some r \<Rightarrow> getNum e r ''numerator'');
          den = (case rate of
                   None \<Rightarrow> None
                 | Some r \<Rightarrow> (case getNum e r ''denominator'' of Some d \<Rightarrow> Some d | None \<Rightarrow> if num \<noteq> None then Some 1 else None))
      in f\<lparr>fs_format := text ''format'', fs_mediaType := text ''media_type'', fs_label := text ''label'',
           fs_groupHint := (case member_of def ''tags'' of
                              Some (JObj t) \<Rightarrow> firstString (member_of (JObj t) ''urn:x-nmos:tag:grouphint/v1.0'')
                            | _ \<Rightarrow> []),
           fs_width := u32Of ''frame_width'', fs_height := u32Of ''frame_height'', fs_channelCount := u32Of ''channel_count'',
           fs_interlaced := (case getString def ''interlace_mode'' of Some m \<Rightarrow> m \<noteq> ''progressive'' | None \<Rightarrow> False),
           fs_rateNumerator := num, fs_rateDenominator := den\<rparr>)"

definition flowRuntime :: "FsEnv \<Rightarrow> string \<Rightarrow> FlowSummary \<Rightarrow> FlowSummary" where
  "flowRuntime e dataFile f =
     (let f = f\<lparr>fs_active := flowActive e dataFile\<rparr> in
      case readFlowInfo e dataFile of
        None \<Rightarrow> f
      | Some info \<Rightarrow>
          f\<lparr>fs_headIndex := Some (fh_headIndex info), fs_lastWriteTimeNs := Some (fh_lastWriteTime info),
            fs_grainCount := (if fe_isDiscrete e (fh_format info) then Some (fh_grainCount info) else fs_grainCount f)\<rparr>)"

definition listFlows :: "FsEnv \<Rightarrow> FS \<Rightarrow> string \<Rightarrow> FlowSummary list" where
  "listFlows e fs domainText =
     map (\<lambda>name.
       let dir = child (pathOf domainText) name;
           f = noFlow (fst (stemExt name));
           f = (case readJsonObject e fs (child dir ''flow_def.json'') of None \<Rightarrow> f | Some def \<Rightarrow> describeFlow e def f)
       in flowRuntime e (textOf (child dir ''data'')) f)
     (flowDirs e fs (pathOf domainText))"

subsection \<open>Creating a domain\<close>

definition pathIsUnderRoot :: "FsEnv \<Rightarrow> FS \<Rightarrow> string \<Rightarrow> string \<Rightarrow> bool" where
  "pathIsUnderRoot e fs pathText rootText =
     (case weaklyCanonical fs (fe_cwd e) (pathOf rootText) of
        None \<Rightarrow> False
      | Some rootCanon \<Rightarrow>
          if isEmptyPath rootCanon then False
          else case weaklyCanonical fs (fe_cwd e) (pathOf pathText) of
                 None \<Rightarrow> False
               | Some target \<Rightarrow>
                   if isEmptyPath target then False
                   else textOf target = textOf rootCanon \<or> starts_with (textOf target) (textOf rootCanon @ ''/''))"

record CreateDomainRequest =
  cd_path :: string
  cd_label :: string
  cd_description :: string
  cd_historyDurationNs :: "u64 option"

record CreateDomainResult =
  cr_path :: string
  cr_id :: string
  cr_isTmpfs :: bool

datatype CreateError =
  NoScanRoot string | InvalidPath string | OutsideRoot string | IsRoot | DomainExists string | CannotCreate string | CannotWrite string

definition defText :: "string \<Rightarrow> string \<Rightarrow> string \<Rightarrow> string" where
  "defText ident label description =
     (let nl = [CHR 0x0A]; dq = (\<lambda>s. CHR 0x22 # s @ [CHR 0x22]) in
      ''{'' @ nl @ ''  '' @ dq ''id'' @ '': '' @ dq ident @ '','' @ nl @ ''  '' @ dq ''label'' @ '': '' @ dq label @ '','' @ nl @
      ''  '' @ dq ''description'' @ '': '' @ dq description @ '','' @ nl @ ''  '' @ dq ''tags'' @ '': {}'' @ nl @ ''}'' @ nl)"

definition optionsText :: "u64 \<Rightarrow> string" where
  "optionsText ns =
     (let nl = [CHR 0x0A] in
      ''{'' @ nl @ ''  '' @ CHR 0x22 # kHistoryOption @ [CHR 0x22] @ '': '' @ nat_to_string (unat ns) @ nl @ ''}'' @ nl)"

definition createAt :: "FsEnv \<Rightarrow> CreateDomainRequest \<Rightarrow> Path \<Rightarrow> FS \<Rightarrow> (CreateError + CreateDomainResult) \<times> FS" where
  "createAt e request target fs =
     (let (made, fs) = createDirectories (fe_mkdirFails e) (fe_cwd e) target fs in
      if \<not> made then (Inl (CannotCreate (textOf target)), fs)
      else
        let ident = randomUuid e in
        case writeFile (fe_openFails e) (fe_cwd e) (child target kDomainDefFile)
               (defText (toString ident) (jsonEscape (cd_label request)) (jsonEscape (cd_description request))) fs of
          None \<Rightarrow> (Inl (CannotWrite (textOf (child target kDomainDefFile))), fs)
        | Some fs \<Rightarrow>
            (case cd_historyDurationNs request of
               None \<Rightarrow> (Inr \<lparr>cr_path = textOf target, cr_id = toString ident, cr_isTmpfs = isTmpfsPath e target\<rparr>, fs)
             | Some ns \<Rightarrow>
                 (case writeFile (fe_openFails e) (fe_cwd e) (child target kOptionsFile) (optionsText ns) fs of
                    None \<Rightarrow> (Inl (CannotWrite (textOf (child target kOptionsFile))), fs)
                  | Some fs \<Rightarrow> (Inr \<lparr>cr_path = textOf target, cr_id = toString ident, cr_isTmpfs = isTmpfsPath e target\<rparr>, fs))))"

definition createDomain :: "FsEnv \<Rightarrow> CreateDomainRequest \<Rightarrow> string \<Rightarrow> FS \<Rightarrow> (CreateError + CreateDomainResult) \<times> FS" where
  "createDomain e request scanRoot fs =
     (case weaklyCanonical fs (fe_cwd e) (pathOf scanRoot) of
        None \<Rightarrow> (Inl (NoScanRoot scanRoot), fs)
      | Some rootCanon \<Rightarrow>
          if isEmptyPath rootCanon then (Inl (NoScanRoot scanRoot), fs)
          else case weaklyCanonical fs (fe_cwd e) (pathOf (cd_path request)) of
                 None \<Rightarrow> (Inl (InvalidPath (cd_path request)), fs)
               | Some target \<Rightarrow>
                   if isEmptyPath target then (Inl (InvalidPath (cd_path request)), fs)
                   else if \<not> pathIsUnderRoot e fs (textOf target) (textOf rootCanon) then (Inl (OutsideRoot (textOf rootCanon)), fs)
                   else if textOf target = textOf rootCanon then (Inl IsRoot, fs)
                   else if existsAt fs (fe_cwd e) (child target kDomainDefFile) \<or> countFlows e fs target > 0
                   then (Inl (DomainExists (textOf target)), fs)
                   else createAt e request target fs)"

subsection \<open>The output domain\<close>

record OutputDomainSpec =
  od_path :: string
  od_id :: "string option"
  od_historyDurationNs :: "u64 option"

datatype AdoptError = NoUsableId string | DomainIdMismatch string string string | CannotCreateDir string | CannotWriteDef string

text \<open>The options of the domain, when asked for; a file that cannot be opened is left out.\<close>

definition writeOptions :: "FsEnv \<Rightarrow> Path \<Rightarrow> u64 option \<Rightarrow> FS \<Rightarrow> FS" where
  "writeOptions e dir history fs =
     (case history of
        None \<Rightarrow> fs
      | Some ns \<Rightarrow>
          (case writeFile (fe_openFails e) (fe_cwd e) (child dir kOptionsFile) (optionsText ns) fs of None \<Rightarrow> fs | Some fs' \<Rightarrow> fs'))"

definition adoptExisting :: "FsEnv \<Rightarrow> OutputDomainSpec \<Rightarrow> json \<Rightarrow> FS \<Rightarrow> (AdoptError + string) \<times> FS" where
  "adoptExisting e spec def fs =
     (let dir = pathOf (od_path spec) in
      case getString def ''id'' of
        None \<Rightarrow> (Inl (NoUsableId (textOf dir)), fs)
      | Some ident \<Rightarrow>
          if parseUuid ident = None then (Inl (NoUsableId (textOf dir)), fs)
          else if (case od_id spec of Some i \<Rightarrow> i \<noteq> ident | None \<Rightarrow> False)
          then (Inl (DomainIdMismatch (textOf dir) ident (the (od_id spec))), fs)
          else (Inr ident, if existsAt fs (fe_cwd e) (child dir kOptionsFile) then fs
                           else writeOptions e dir (od_historyDurationNs spec) fs))"

definition domainSeed :: Uuid where
  "domainSeed = \<lparr>bytes = (replicate 16 0)[6 := 0x40, 8 := 0x80, 15 := 0x4d]\<rparr>"

definition newDomainId :: "FsEnv \<Rightarrow> OutputDomainSpec \<Rightarrow> FS \<Rightarrow> string" where
  "newDomainId e spec fs =
     (let dir = pathOf (od_path spec); ident = (case od_id spec of Some i \<Rightarrow> i | None \<Rightarrow> []) in
      if ident \<noteq> [] then ident
      else toString (deriveUuid domainSeed
             (case weaklyCanonical fs (fe_cwd e) dir of None \<Rightarrow> textOf dir | Some canon \<Rightarrow> textOf canon)))"

definition adoptOutputDomain :: "FsEnv \<Rightarrow> OutputDomainSpec \<Rightarrow> FS \<Rightarrow> (AdoptError + string) \<times> FS" where
  "adoptOutputDomain e spec fs =
     (let dir = pathOf (od_path spec) in
      case readJsonObject e fs (child dir kDomainDefFile) of
        Some existing \<Rightarrow> adoptExisting e spec existing fs
      | None \<Rightarrow>
          (let ident = newDomainId e spec fs;
               (made, fs) = createDirectories (fe_mkdirFails e) (fe_cwd e) dir fs in
           if \<not> made \<or> \<not> isDirectory fs (fe_cwd e) dir then (Inl (CannotCreateDir (textOf dir)), fs)
           else case writeFile (fe_openFails e) (fe_cwd e) (child dir kDomainDefFile)
                       (defText ident (jsonEscape (filename dir)) ''MXL domain'') fs of
                  None \<Rightarrow> (Inl (CannotWriteDef (textOf dir)), fs)
                | Some fs \<Rightarrow> (Inr ident, writeOptions e dir (od_historyDurationNs spec) fs)))"

definition ensureDomainId :: "FsEnv \<Rightarrow> string \<Rightarrow> FS \<Rightarrow> (AdoptError + string) \<times> FS" where
  "ensureDomainId e domainPath fs =
     adoptOutputDomain e \<lparr>od_path = domainPath, od_id = None, od_historyDurationNs = None\<rparr> fs"

subsection \<open>Opening a domain\<close>

text \<open>The constructor of \<open>Domain\<close> up to the MXL instance, which is the answer of \<open>mxlCreateInstance\<close>.\<close>

datatype DomainError = NoSuchDomain string | CannotCreateDomain string | InstanceCreationFailed string

definition openDomain :: "FsEnv \<Rightarrow> (string \<Rightarrow> 'i option) \<Rightarrow> bool \<Rightarrow> string \<Rightarrow> FS \<Rightarrow> (DomainError + 'i) \<times> FS" where
  "openDomain e mxlCreateInstance failWhenMissing domainPath fs =
     (let p = pathOf domainPath; there = isDirectory fs (fe_cwd e) p in
      if failWhenMissing \<and> \<not> there then (Inl (NoSuchDomain domainPath), fs)
      else
        let (made, fs) = (if there then (True, fs) else createDirectories (fe_mkdirFails e) (fe_cwd e) p fs) in
        if \<not> there \<and> (\<not> made \<or> \<not> isDirectory fs (fe_cwd e) p) then (Inl (CannotCreateDomain domainPath), fs)
        else case mxlCreateInstance domainPath of
               None \<Rightarrow> (Inl (InstanceCreationFailed domainPath), fs)
             | Some i \<Rightarrow> (Inr i, fs))"

end
