(* ===== verification/DomainProps.thy ===== *)
theory DomainProps
  imports DomainScan
begin

text \<open>
  Properties of the domain operations.  Creating a domain changes the file system only below the scan root, also
  with dots and symbolic links in the request; adopting an output domain keeps its identity; a scan reports
  directories that do not nest.
\<close>

subsection \<open>File systems\<close>

definition good :: "string \<Rightarrow> bool" where
  "good c \<longleftrightarrow> dotless c \<and> CHR ''/'' \<notin> set c"

text \<open>Every node has a name and lies in a directory.\<close>

definition fs_wf :: "FS \<Rightarrow> bool" where
  "fs_wf fs \<longleftrightarrow> list_all (\<lambda>(p, n). p \<noteq> [] \<and> list_all good p \<and> nodeAt fs (butlast p) = Some FsDir) fs"

lemma nodeAt_root [simp]: "nodeAt fs [] = Some FsDir"
  by (simp add: nodeAt_def)

lemma nodeAt_putNode: "nodeAt (putNode p n fs) q = (if q = p \<and> p \<noteq> [] then Some n else nodeAt fs q)"
proof (cases "q = []")
  case False
  have "map_of (putNode p n fs) q = (if q = p then Some n else map_of fs q)" by (induction fs) auto
  then show ?thesis using False by (auto simp: nodeAt_def)
qed auto

lemma wf_parent:
  assumes "fs_wf fs" and "nodeAt fs p = Some n" and "p \<noteq> []"
  shows "nodeAt fs (butlast p) = Some FsDir" and "list_all good p"
  using assms map_of_SomeD[of fs p n] by (auto simp: fs_wf_def nodeAt_def list_all_iff dest!: bspec)

lemma wf_above: "fs_wf fs \<Longrightarrow> nodeAt fs (p @ q) = Some n \<Longrightarrow> q \<noteq> [] \<Longrightarrow> nodeAt fs p = Some FsDir"
proof (induction q arbitrary: n rule: rev_induct)
  case (snoc c q)
  have "nodeAt fs (p @ q) = Some FsDir" using wf_parent(1)[OF snoc.prems(1,2)] by (simp add: butlast_append)
  then show ?case using snoc.IH snoc.prems(1) by (cases "q = []") auto
qed simp

lemma wf_below: "fs_wf fs \<Longrightarrow> nodeAt fs p = None \<Longrightarrow> nodeAt fs (p @ q) = None"
  using wf_above[of fs p q] by (cases "q = []"; cases "nodeAt fs (p @ q)") auto

lemma wf_good: "fs_wf fs \<Longrightarrow> nodeAt fs p = Some n \<Longrightarrow> list_all good p"
  using wf_parent(2)[of fs p n] by (cases "p = []") auto

subsection \<open>Following paths\<close>

lemma realPath_split: "realPath fs n base xs = Found p \<Longrightarrow> \<exists>m \<le> n. \<forall>ys. realPath fs n base (xs @ ys) = realPath fs m p ys"
proof (induction fs n base xs rule: realPath.induct)
  case (2 fs n base c cs)
  show ?case
  proof (cases "hop fs base c")
    case (Jump b link)
    then have n: "n \<noteq> 0" using "2.prems" by (auto split: if_splits)
    then obtain m where "m \<le> n - 1" "\<forall>ys. realPath fs (n - 1) b (link @ cs @ ys) = realPath fs m p ys"
      using "2.IH"(2)[OF Jump n] "2.prems" Jump by auto
    then show ?thesis using Jump n by (intro exI[of _ m]) simp
  qed (use "2.IH"(1) "2.prems" in auto)
qed auto

lemma realPath_more: "realPath fs n base cs \<noteq> TooManyLinks \<Longrightarrow> n \<le> m \<Longrightarrow> realPath fs m base cs = realPath fs n base cs"
proof (induction fs n base cs arbitrary: m rule: realPath.induct)
  case (2 fs n base c cs)
  show ?case
  proof (cases "hop fs base c")
    case (Jump b link)
    then have n: "n \<noteq> 0" using "2.prems" by (auto split: if_splits)
    then show ?thesis using "2.IH"(2)[OF Jump n, of "m - 1"] "2.prems" Jump by auto
  next
    case (Step b)
    then show ?thesis using "2.IH"(1)[OF Step, of m] "2.prems" by simp
  qed simp
qed simp

text \<open>What is found is a directory or a file, and its own name leads to it.\<close>

definition solid :: "FS \<Rightarrow> path \<Rightarrow> bool" where
  "solid fs p \<longleftrightarrow> (case nodeAt fs p of None \<Rightarrow> False | Some (FsLink t) \<Rightarrow> False | _ \<Rightarrow> True)"

lemma solid_dir: "nodeAt fs p = Some FsDir \<Longrightarrow> solid fs p"
  by (simp add: solid_def)

lemma hop_Step:
  assumes "fs_wf fs" and "hop fs base c = Step b"
  shows "solid fs b" and "dotless c \<Longrightarrow> b = base @ [c]" and "\<not> dotless c \<Longrightarrow> nodeAt fs b = Some FsDir"
proof -
  have "nodeAt fs (butlast base) = Some FsDir" if "nodeAt fs base = Some FsDir"
    using wf_parent(1)[OF assms(1) that] by (cases "base = []") auto
  then show "solid fs b" "dotless c \<Longrightarrow> b = base @ [c]" "\<not> dotless c \<Longrightarrow> nodeAt fs b = Some FsDir"
    using assms(2)
    by (auto simp: hop_def solid_def dotless_def Let_def split: if_splits option.splits FsNode.splits)
qed

lemma hop_Jump: "hop fs base c = Jump b link \<Longrightarrow> nodeAt fs base = Some FsDir \<and> (b = [] \<or> b = base)"
  by (auto simp: hop_def Let_def split: if_splits option.splits FsNode.splits)

lemma realPath_solid: "fs_wf fs \<Longrightarrow> solid fs base \<Longrightarrow> realPath fs n base cs = Found q \<Longrightarrow> solid fs q"
proof (induction fs n base cs rule: realPath.induct)
  case (2 fs n base c cs)
  show ?case
  proof (cases "hop fs base c")
    case (Jump b link)
    then have "solid fs b" using hop_Jump[OF Jump] by (auto simp: solid_dir)
    then show ?thesis using "2.IH"(2)[OF Jump] "2.prems" Jump by (auto split: if_splits)
  qed (use "2.IH"(1) "2.prems" hop_Step(1) in auto)
qed simp

lemma realPath_self:
  "fs_wf fs \<Longrightarrow> solid fs (base @ cs) \<Longrightarrow> list_all good cs \<Longrightarrow> realPath fs n base cs = Found (base @ cs)"
proof (induction cs arbitrary: base)
  case (Cons c cs)
  obtain x where x: "nodeAt fs (base @ c # cs) = Some x" using Cons.prems(2) by (auto simp: solid_def split: option.splits)
  have base: "nodeAt fs base = Some FsDir" using wf_above[OF Cons.prems(1) x] by simp
  have c: "dotless c" using Cons.prems(3) by (simp add: good_def)
  have "solid fs (base @ [c])"
  proof (cases "cs = []")
    case False
    then show ?thesis using wf_above[of fs "base @ [c]" cs x] Cons.prems(1) x by (simp add: solid_dir)
  qed (use Cons.prems(2) in simp)
  then have "hop fs base c = Step (base @ [c])"
    using base c by (auto simp: hop_def solid_def dotless_def split: option.splits FsNode.splits)
  then show ?case using Cons.IH[of "base @ [c]"] Cons.prems by simp
qed simp

text \<open>Adding nodes, or replacing the content of files, leaves what was found where it was.\<close>

definition grown :: "FS \<Rightarrow> FS \<Rightarrow> bool" where
  "grown fs fs' \<longleftrightarrow> (\<forall>p n. nodeAt fs p = Some n \<longrightarrow> nodeAt fs' p = Some n \<or> (\<exists>s t. n = FsFile s \<and> nodeAt fs' p = Some (FsFile t)))"

lemma grownD: "grown fs fs' \<Longrightarrow> nodeAt fs p = Some n \<Longrightarrow> nodeAt fs' p = Some n \<or> (\<exists>s t. n = FsFile s \<and> nodeAt fs' p = Some (FsFile t))"
  unfolding grown_def by blast

lemma hop_grown: "grown fs fs' \<Longrightarrow> hop fs base c \<noteq> Missing \<Longrightarrow> hop fs' base c = hop fs base c"
  using grownD[of fs fs' base] grownD[of fs fs' "base @ [c]"]
  by (fastforce simp: hop_def Let_def split: option.splits FsNode.splits if_splits)

lemma realPath_grown: "grown fs fs' \<Longrightarrow> realPath fs n base cs = Found q \<Longrightarrow> realPath fs' n base cs = Found q"
proof (induction fs n base cs rule: realPath.induct)
  case (2 fs n base c cs)
  show ?case
  proof (cases "hop fs base c")
    case (Step b)
    then show ?thesis using "2.IH"(1) "2.prems" hop_grown[of fs fs' base c] by simp
  next
    case (Jump b link)
    then show ?thesis using "2.IH"(2) "2.prems" hop_grown[of fs fs' base c] by (simp split: if_splits)
  qed (use "2.prems" in simp)
qed simp

lemma realPath_prefix: "realPath fs n base (xs @ ys) = Found q \<Longrightarrow> \<exists>p. realPath fs n base xs = Found p"
proof (induction fs n base xs rule: realPath.induct)
  case (2 fs n base c cs)
  then show ?case by (cases "hop fs base c") (auto split: if_splits)
qed simp

lemma realPath_dirs:
  "\<forall>q r. cs = q @ r \<longrightarrow> nodeAt fs (base @ q) = Some FsDir \<Longrightarrow> list_all dotless cs \<Longrightarrow> realPath fs n base cs = Found (base @ cs)"
proof (induction cs arbitrary: base)
  case (Cons c cs)
  have b: "nodeAt fs base = Some FsDir" "nodeAt fs (base @ [c]) = Some FsDir"
    using Cons.prems(1)[rule_format, of "[]"] Cons.prems(1)[rule_format, of "[c]"] by simp_all
  have "\<forall>q r. cs = q @ r \<longrightarrow> nodeAt fs ((base @ [c]) @ q) = Some FsDir"
    using Cons.prems(1)[rule_format, of "c # _"] by simp
  moreover have "hop fs base c = Step (base @ [c])" using b Cons.prems(2) by (simp add: hop_def dotless_def)
  ultimately show ?case using Cons.IH[of "base @ [c]"] Cons.prems(2) by simp
qed simp

subsection \<open>Creating directories\<close>

definition names :: "string list \<Rightarrow> string list" where
  "names cs = filter (\<lambda>c. c \<noteq> []) cs"

text \<open>Where directories are created below a directory with nothing under the path.\<close>

definition made_below :: "FS \<Rightarrow> path \<Rightarrow> string list \<Rightarrow> bool \<Rightarrow> FS \<Rightarrow> bool" where
  "made_below fs base cs ok fs' \<longleftrightarrow>
     (\<forall>p. nodeAt fs' p \<noteq> nodeAt fs p \<longrightarrow> nodeAt fs p = None \<and> nodeAt fs' p = Some FsDir \<and> (\<exists>q r. q \<noteq> [] \<and> p = base @ q \<and> names cs = q @ r)) \<and>
     (ok \<longrightarrow> (\<forall>q r. names cs = q @ r \<longrightarrow> nodeAt fs' (base @ q) = Some FsDir))"

lemma made_below_none: "made_below fs base cs False fs"
  by (simp add: made_below_def)

lemma made_below_step:
  assumes "c \<noteq> []" and "nodeAt fs base = Some FsDir" and "nodeAt fs (base @ [c]) = None"
    and m: "made_below (putNode (base @ [c]) FsDir fs) (base @ [c]) cs ok fs'"
  shows "made_below fs base (c # cs) ok fs'"
proof -
  have n: "names (c # cs) = c # names cs" using assms(1) by (simp add: names_def)
  have "nodeAt fs p = None \<and> nodeAt fs' p = Some FsDir \<and> (\<exists>q r. q \<noteq> [] \<and> p = base @ q \<and> names (c # cs) = q @ r)"
    if p: "nodeAt fs' p \<noteq> nodeAt fs p" for p
  proof (cases "nodeAt fs' p = nodeAt (putNode (base @ [c]) FsDir fs) p")
    case True
    then have "p = base @ [c]" "nodeAt fs' p = Some FsDir" using p by (auto simp: nodeAt_putNode split: if_splits)
    then show ?thesis using assms(3) n by (intro conjI exI[of _ "[c]"] exI[of _ "names cs"]) simp_all
  next
    case False
    then obtain q r where q: "nodeAt (putNode (base @ [c]) FsDir fs) p = None" "nodeAt fs' p = Some FsDir"
      "p = (base @ [c]) @ q" "names cs = q @ r"
      using m[unfolded made_below_def] by blast
    then show ?thesis using n by (intro conjI exI[of _ "c # q"] exI[of _ r]) (auto simp: nodeAt_putNode split: if_splits)
  qed
  moreover have "nodeAt fs' (base @ q) = Some FsDir" if "ok" "names (c # cs) = q @ r" for q r
  proof (cases q)
    case Nil
    have "nodeAt fs' base = Some FsDir"
    proof (rule ccontr)
      assume "nodeAt fs' base \<noteq> Some FsDir"
      then have "nodeAt fs' base \<noteq> nodeAt (putNode (base @ [c]) FsDir fs) base" using assms(2) by (simp add: nodeAt_putNode)
      then show False using m[unfolded made_below_def] by fastforce
    qed
    then show ?thesis using Nil by simp
  next
    case (Cons d q')
    then have "d = c" "names cs = q' @ r" using that(2) n by simp_all
    then show ?thesis using m[unfolded made_below_def] that(1) Cons by force
  qed
  ultimately show ?thesis by (auto simp: made_below_def)
qed

lemma mkdirWalk_fresh:
  "nodeAt fs base = Some FsDir \<Longrightarrow> \<forall>q. q \<noteq> [] \<longrightarrow> nodeAt fs (base @ q) = None \<Longrightarrow> list_all (\<lambda>c. c = [] \<or> dotless c) cs \<Longrightarrow>
   mkdirWalk fails base cs fs = (ok, fs') \<Longrightarrow> made_below fs base cs ok fs'"
proof (induction cs arbitrary: base fs)
  case Nil
  then show ?case by (simp add: made_below_def names_def)
next
  case (Cons c cs)
  show ?case
  proof (cases "c = []")
    case True
    then show ?thesis using Cons by (simp add: made_below_def names_def)
  next
    case False
    then have c: "dotless c" using Cons.prems(3) by simp
    have none: "nodeAt fs (base @ [c]) = None" using Cons.prems(2) by simp
    then have "realPath fs kMaxLinks base [c] = NotFound"
      using c Cons.prems(1) by (simp add: hop_def dotless_def)
    then have walk: "mkdirWalk fails base (c # cs) fs =
        (if fails (base @ [c]) then (False, fs) else mkdirWalk fails (base @ [c]) cs (putNode (base @ [c]) FsDir fs))"
      using c none by (simp add: dotless_def)
    show ?thesis
    proof (cases "fails (base @ [c])")
      case True
      then show ?thesis using walk Cons.prems(4) made_below_none by simp
    next
      case nf: False
      have "made_below (putNode (base @ [c]) FsDir fs) (base @ [c]) cs ok fs'"
        using Cons.prems walk nf by (intro Cons.IH) (auto simp: nodeAt_putNode)
      then show ?thesis by (rule made_below_step[OF False Cons.prems(1) none])
    qed
  qed
qed

text \<open>The walk over the part of a path that exists.\<close>

lemma mkdirWalk_prefix:
  assumes wf: "fs_wf fs" and cs: "list_all (\<lambda>c. c = [] \<or> dotless c) cs"
  shows "k \<le> length cs \<Longrightarrow> \<forall>i < k. \<exists>q. realPath fs kMaxLinks [] (take (Suc i) cs) = Found q \<Longrightarrow>
    mkdirWalk fails [] cs fs = (False, fs) \<or>
    (\<exists>P. realPath fs kMaxLinks [] (take k cs) = Found P \<and> nodeAt fs P = Some FsDir \<and>
         mkdirWalk fails [] cs fs = mkdirWalk fails P (drop k cs) fs)"
proof (induction k)
  case (Suc k)
  show ?case
  proof (cases "mkdirWalk fails [] cs fs = (False, fs)")
    case False
    then obtain P where P: "realPath fs kMaxLinks [] (take k cs) = Found P" "nodeAt fs P = Some FsDir"
      "mkdirWalk fails [] cs fs = mkdirWalk fails P (drop k cs) fs"
      using Suc by auto
    obtain c cs' where c: "drop k cs = c # cs'" "cs ! k = c" "drop (Suc k) cs = cs'"
      using Suc.prems(1) by (metis Cons_nth_drop_Suc Suc_le_eq)
    have take: "take (Suc k) cs = take k cs @ [c]" using Suc.prems(1) c(2) by (simp add: take_Suc_conv_app_nth)
    obtain q where q: "realPath fs kMaxLinks [] (take (Suc k) cs) = Found q" using Suc.prems(2) by blast
    obtain m where "m \<le> kMaxLinks" "realPath fs m P [c] = Found q"
      using realPath_split[OF P(1)] q take by metis
    then have qc: "realPath fs kMaxLinks P [c] = Found q" using realPath_more[of fs m P "[c]" kMaxLinks] by simp
    have "c \<in> set cs" using Suc.prems(1) c(2) by (metis Suc_le_eq nth_mem)
    then have "c = [] \<or> dotless c" using cs by (auto simp: list_all_iff)
    then show ?thesis
    proof
      assume "c = []"
      then have "q = P" using qc P(2) by (simp add: hop_def)
      then show ?thesis using P q c \<open>c = []\<close> by simp
    next
      assume "dotless c"
      then have "mkdirWalk fails P (c # cs') fs = (if nodeAt fs q = Some FsDir then mkdirWalk fails q cs' fs else (False, fs))"
        using qc by (simp add: dotless_def)
      then show ?thesis using P(3) q c False by (auto split: if_splits)
    qed
  qed simp
qed simp

lemma leading_found:
  "leading fs cwd p k = Inl j \<Longrightarrow> k \<le> length (pa_comps p) \<Longrightarrow>
     k \<le> j \<and> j \<le> length (pa_comps p) \<and>
     (\<forall>i. k \<le> i \<and> i < j \<longrightarrow> (\<exists>q. follow fs cwd (p\<lparr>pa_comps := take (Suc i) (pa_comps p)\<rparr>) = Found q)) \<and>
     (j < length (pa_comps p) \<longrightarrow> follow fs cwd (p\<lparr>pa_comps := take (Suc j) (pa_comps p)\<rparr>) = NotFound)"
proof (induction fs cwd p k rule: leading.induct)
  case (1 fs cwd p k)
  show ?case
  proof (cases "length (pa_comps p) \<le> k")
    case True
    then show ?thesis using "1.prems" by (auto simp: leading.simps)
  next
    case False
    show ?thesis
    proof (cases "follow fs cwd (p\<lparr>pa_comps := take (k + 1) (pa_comps p)\<rparr>)")
      case (Found q)
      have l: "leading fs cwd p (k + 1) = Inl j" using "1.prems"(1) False Found by (simp add: leading.simps)
      have ih: "k + 1 \<le> j \<and> j \<le> length (pa_comps p) \<and>
         (\<forall>i. k + 1 \<le> i \<and> i < j \<longrightarrow> (\<exists>q. follow fs cwd (p\<lparr>pa_comps := take (Suc i) (pa_comps p)\<rparr>) = Found q)) \<and>
         (j < length (pa_comps p) \<longrightarrow> follow fs cwd (p\<lparr>pa_comps := take (Suc j) (pa_comps p)\<rparr>) = NotFound)"
        by (rule "1.IH"[OF False Found l]) (use False in simp)
      have "\<exists>q. follow fs cwd (p\<lparr>pa_comps := take (Suc i) (pa_comps p)\<rparr>) = Found q" if "k \<le> i" "i < j" for i
        using ih that Found by (cases "i = k") auto
      then show ?thesis using ih by auto
    qed (use "1.prems" False in \<open>auto simp: leading.simps\<close>)
  qed
qed

lemma normalAbs_names: "list_all (\<lambda>c. c = [] \<or> dotless c) cs \<Longrightarrow> normalAbs stack cs = stack @ names cs"
  by (induction cs arbitrary: stack) (auto simp: names_def dotless_def)

lemma names_good: "list_all good p \<Longrightarrow> names p = p"
  by (induction p) (auto simp: names_def good_def dotless_def)

lemma names_names [simp]: "names (names cs) = names cs"
  by (simp add: names_def)

lemma names_append [simp]: "names (xs @ ys) = names xs @ names ys"
  by (simp add: names_def)

lemma names_trailing: "names (trailing cs out) = names out"
  by (simp add: trailing_def) (simp add: names_def)

lemma made_below_grown: "made_below fs base cs ok fs' \<Longrightarrow> grown fs fs'"
  unfolding made_below_def grown_def by (metis option.distinct(1))

text \<open>What \<open>create_directories\<close> creates lies on the canonical path, and leads to it.\<close>

lemma created_path:
  assumes wf: "fs_wf fs" and B: "list_all good B" and tr: "tr = [] \<or> tr = [[]]"
    and W: "weaklyCanonical fs cwd \<lparr>pa_abs = True, pa_comps = B @ tr\<rparr> = Some W"
    and mk: "mkdirWalk fails [] (B @ tr) fs = (ok, fs')"
  shows "pa_abs W \<and> grown fs fs' \<and>
    (\<forall>p. nodeAt fs' p \<noteq> nodeAt fs p \<longrightarrow> nodeAt fs p = None \<and> nodeAt fs' p = Some FsDir \<and> (\<exists>r. names (pa_comps W) = p @ r)) \<and>
    (ok \<longrightarrow> realPath fs' kMaxLinks [] B = Found (names (pa_comps W)) \<and> nodeAt fs' (names (pa_comps W)) = Some FsDir)"
proof -
  let ?C = "B @ tr" and ?T = "\<lparr>pa_abs = True, pa_comps = B @ tr\<rparr>"
  have C: "list_all (\<lambda>c. c = [] \<or> dotless c) ?C" using B tr by (auto simp: list_all_iff good_def)
  have nB: "names B = B" by (rule names_good[OF B])
  have fol: "follow fs cwd (?T\<lparr>pa_comps := take i ?C\<rparr>) = realPath fs kMaxLinks [] (take i ?C)" for i
    by (simp add: follow_def osComps_def)
  have folT: "follow fs cwd \<lparr>pa_abs = True, pa_comps = cs\<rparr> = realPath fs kMaxLinks [] cs" for cs by (simp add: follow_def osComps_def)
  have refl: "grown fs fs" by (simp add: grown_def)
  show ?thesis
  proof (cases "realPath fs kMaxLinks [] ?C")
    case (Found q)
    then have Wq: "W = \<lparr>pa_abs = True, pa_comps = q\<rparr>" using W by (simp add: weaklyCanonical_def folT)
    have "solid fs q" by (rule realPath_solid[OF wf _ Found]) (simp add: solid_dir)
    then have "list_all good q" using wf_good[OF wf] by (auto simp: solid_def split: option.splits)
    then have nq: "names q = q" by (rule names_good)
    have "\<forall>i < length ?C. \<exists>q. realPath fs kMaxLinks [] (take (Suc i) ?C) = Found q"
      using realPath_prefix[of fs kMaxLinks "[]" _ _ q] Found append_take_drop_id by metis
    then have "mkdirWalk fails [] ?C fs = (False, fs) \<or> nodeAt fs q = Some FsDir \<and> mkdirWalk fails [] ?C fs = (True, fs)"
      using mkdirWalk_prefix[OF wf C, of "length ?C" fails] Found by auto
    moreover have "realPath fs kMaxLinks [] B = Found q" if "nodeAt fs q = Some FsDir"
    proof -
      obtain p where p: "realPath fs kMaxLinks [] B = Found p" using realPath_prefix[of fs kMaxLinks "[]" B tr q] Found by blast
      obtain m where "realPath fs kMaxLinks [] (B @ tr) = realPath fs m p tr" using realPath_split[OF p] by blast
      then have "q = p" using Found tr by (auto simp: hop_def split: if_splits)
      then show ?thesis using p by simp
    qed
    ultimately show ?thesis using mk Wq nq refl by auto
  next
    case NotFound
    then obtain k P where k: "leading fs cwd ?T 0 = Inl k" and P: "realPath fs kMaxLinks [] (take k ?C) = Found P"
      and Wk: "W = \<lparr>pa_abs = True, pa_comps = trailing (drop k ?C) (normalAbs P (drop k ?C))\<rparr>"
      using W by (auto simp: weaklyCanonical_def folT fol Let_def split: sum.splits Walk.splits)
    have lead: "k \<le> length ?C" "\<And>i. i < k \<Longrightarrow> \<exists>q. realPath fs kMaxLinks [] (take (Suc i) ?C) = Found q"
      "k < length ?C \<Longrightarrow> realPath fs kMaxLinks [] (take (Suc k) ?C) = NotFound"
      using leading_found[OF k] by (auto simp: folT)
    have kl: "k < length ?C" using lead(1) NotFound P by (cases "k = length ?C") auto
    have rest: "list_all (\<lambda>c. c = [] \<or> dotless c) (drop k ?C)"
      using C in_set_dropD by (fastforce simp: list_all_iff)
    have "solid fs P" by (rule realPath_solid[OF wf _ P]) (simp add: solid_dir)
    then have "list_all good P" using wf_good[OF wf] by (auto simp: solid_def split: option.splits)
    then have "names P = P" by (rule names_good)
    then have Wn: "names (pa_comps W) = P @ names (drop k ?C)" "pa_abs W"
      by (simp_all only: Wk Path.select_convs names_trailing normalAbs_names[OF rest] names_append names_names)
    have "mkdirWalk fails [] ?C fs = (False, fs) \<or>
        nodeAt fs P = Some FsDir \<and> mkdirWalk fails [] ?C fs = mkdirWalk fails P (drop k ?C) fs"
      using mkdirWalk_prefix[OF wf C, of k fails] lead(1,2) P by auto
    then show ?thesis
    proof
      assume "mkdirWalk fails [] ?C fs = (False, fs)"
      then show ?thesis using mk Wn refl by simp
    next
      assume walk: "nodeAt fs P = Some FsDir \<and> mkdirWalk fails [] ?C fs = mkdirWalk fails P (drop k ?C) fs"
      let ?c = "?C ! k" and ?cs = "drop (Suc k) ?C"
      have d: "drop k ?C = ?c # ?cs" using kl by (rule Cons_nth_drop_Suc[symmetric])
      have "take (Suc k) ?C = take k ?C @ [?c]" using kl by (rule take_Suc_conv_app_nth)
      then obtain m where m: "m \<le> kMaxLinks" "realPath fs m P [?c] = NotFound"
        using realPath_split[OF P] lead(3)[OF kl] by metis
      then have nf: "realPath fs kMaxLinks P [?c] = NotFound" using realPath_more[of fs m P "[?c]" kMaxLinks] by simp
      then have c: "?c \<noteq> []" using walk by (auto simp: hop_def)
      then have dl: "dotless ?c" using rest unfolding d by simp
      have "made_below fs P (drop k ?C) ok fs'"
      proof (cases "nodeAt fs (P @ [?c]) \<noteq> None \<or> fails (P @ [?c])")
        case True
        then have "mkdirWalk fails P (?c # ?cs) fs = (False, fs)"
          using nf dl by (auto simp: dotless_def)
        then show ?thesis using walk mk d made_below_none by simp
      next
        case False
        then have none: "nodeAt fs (P @ [?c]) = None" by simp
        have "mkdirWalk fails P (?c # ?cs) fs = mkdirWalk fails (P @ [?c]) ?cs (putNode (P @ [?c]) FsDir fs)"
          using False nf dl by (auto simp: dotless_def)
        then have mk': "mkdirWalk fails (P @ [?c]) ?cs (putNode (P @ [?c]) FsDir fs) = (ok, fs')" using walk mk d by simp
        have "made_below (putNode (P @ [?c]) FsDir fs) (P @ [?c]) ?cs ok fs'"
        proof (rule mkdirWalk_fresh[OF _ _ _ mk'])
          show "\<forall>q. q \<noteq> [] \<longrightarrow> nodeAt (putNode (P @ [?c]) FsDir fs) ((P @ [?c]) @ q) = None"
            using wf_below[OF wf none] by (simp add: nodeAt_putNode)
          show "list_all (\<lambda>c. c = [] \<or> dotless c) ?cs" using rest unfolding d by simp
        qed (simp add: nodeAt_putNode)
        then show ?thesis unfolding d using made_below_step[OF c _ none] walk by blast
      qed
      then have made: "grown fs fs'"
        "\<And>p. nodeAt fs' p \<noteq> nodeAt fs p \<Longrightarrow> nodeAt fs p = None \<and> nodeAt fs' p = Some FsDir \<and> (\<exists>q r. p = P @ q \<and> names (drop k ?C) = q @ r)"
        "ok \<Longrightarrow> \<forall>q r. names (drop k ?C) = q @ r \<longrightarrow> nodeAt fs' (P @ q) = Some FsDir"
        using made_below_grown unfolding made_below_def by blast+
      have "realPath fs' kMaxLinks [] B = Found (P @ names (drop k ?C)) \<and> nodeAt fs' (P @ names (drop k ?C)) = Some FsDir" if ok: ok
      proof -
        have kB: "k < length B" using kl c tr by (auto simp: nth_append split: if_splits)
        have "list_all good (drop k B)" using B by (auto simp: list_all_iff dest: in_set_dropD)
        then have "names (drop k B) = drop k B" by (rule names_good)
        then have "take k ?C = take k B" "names (drop k ?C) = drop k B"
          using tr kB by (auto simp: names_def)
        moreover have "realPath fs' kMaxLinks [] (take k ?C) = Found P" by (rule realPath_grown[OF made(1) P])
        ultimately obtain m where "realPath fs' kMaxLinks [] (take k B @ drop k B) = realPath fs' m P (names (drop k ?C))"
          using realPath_split by metis
        moreover have "list_all dotless (names (drop k ?C))" using rest by (auto simp: names_def list_all_iff)
        ultimately show ?thesis using realPath_dirs[OF made(3)[OF ok]] made(3)[OF ok] by simp
      qed
      then show ?thesis using made(1,2) Wn by (metis append.assoc)
    qed
  next
    case TooManyLinks
    then show ?thesis using W by (simp add: weaklyCanonical_def folT)
  qed
qed

subsection \<open>Text and paths\<close>

lemma splitSlash_name:
  "CHR ''/'' \<notin> set c \<Longrightarrow> splitSlash cur (c @ t) = splitSlash (rev c @ cur) t"
  by (induction c arbitrary: cur) auto

lemma splitSlash_slashed:
  "list_all good cs \<Longrightarrow> cur \<noteq> [] \<Longrightarrow> splitSlash cur (slashed cs) = rev cur # cs"
proof (induction cs arbitrary: cur)
  case (Cons c cs)
  then have c: "c \<noteq> []" "CHR ''/'' \<notin> set c" by (simp_all add: good_def dotless_def)
  have "splitSlash cur (slashed (c # cs)) = rev cur # splitSlash [] (c @ slashed cs)"
    using Cons.prems(2) by (simp add: slashed_def)
  also have "splitSlash [] (c @ slashed cs) = splitSlash (rev c) (slashed cs)" using splitSlash_name[OF c(2)] by simp
  also have "\<dots> = c # cs" using Cons.IH[of "rev c"] Cons.prems(1) c(1) by simp
  finally show ?case .
qed (simp add: slashed_def)

lemma splitSlash_names: "list_all good cs \<Longrightarrow> splitSlash [] (slashed cs) = cs"
proof (cases cs)
  case (Cons c cs')
  assume g: "list_all good cs"
  then have c: "c \<noteq> []" "CHR ''/'' \<notin> set c" using Cons by (simp_all add: good_def dotless_def)
  have "splitSlash [] (slashed cs) = splitSlash [] (c @ slashed cs')" using Cons by (simp add: slashed_def)
  then show ?thesis using splitSlash_name[OF c(2)] splitSlash_slashed[of cs' "rev c"] g c(1) Cons by simp
qed (simp add: slashed_def)

lemma splitSlash_end: "splitSlash cur (t @ ''/'') = splitSlash cur t"
  by (induction cur t rule: splitSlash.induct) auto

lemma slashed_last: "list_all good cs \<Longrightarrow> cs \<noteq> [] \<Longrightarrow> List.last (slashed cs) \<noteq> CHR ''/''"
proof (induction cs rule: rev_induct)
  case (snoc c cs)
  then have "c \<noteq> []" "CHR ''/'' \<notin> set c" by (simp_all add: good_def dotless_def)
  moreover have "List.last (slashed (cs @ [c])) = List.last c" if "c \<noteq> []" using that by (simp add: slashed_def)
  ultimately show ?case using last_in_set[of c] by metis
qed simp

text \<open>An absolute path whose components are names, perhaps with a trailing slash, is the path of its text.\<close>

lemma pathOf_textOf:
  assumes "list_all good B" and "tr = [] \<or> (tr = [[]] \<and> B \<noteq> [])"
  shows "pathOf (textOf \<lparr>pa_abs = True, pa_comps = B @ tr\<rparr>) = \<lparr>pa_abs = True, pa_comps = B @ tr\<rparr>"
proof (cases "B = []")
  case True
  then show ?thesis using assms(2) by (auto simp: textOf_def pathOf_def)
next
  case False
  then have s: "slashed B \<noteq> []" "hd (slashed B) = CHR ''/''" by (cases B; simp add: slashed_def)+
  show ?thesis
  proof (cases "tr = []")
    case True
    then show ?thesis using False s splitSlash_names[OF assms(1)] slashed_last[OF assms(1) False]
      by (simp add: textOf_def pathOf_def Let_def)
  next
    case tr: False
    then have "textOf \<lparr>pa_abs = True, pa_comps = B @ tr\<rparr> = slashed B @ ''/''" using assms(2) by (simp add: textOf_def slashed_def)
    then show ?thesis using tr assms(2) s splitSlash_end[of "[]" "slashed B"] splitSlash_names[OF assms(1)]
      by (simp add: pathOf_def Let_def)
  qed
qed

lemma slash_prefix:
  "list_all good R \<Longrightarrow> list_all (\<lambda>c. CHR ''/'' \<notin> set c) C \<Longrightarrow> starts_with (slashed C) (slashed R @ ''/'') \<Longrightarrow> \<exists>s. C = R @ s"
proof (induction R arbitrary: C)
  case (Cons r R)
  obtain t where t: "slashed C = slashed (r # R) @ CHR ''/'' # t"
    using Cons.prems(3) unfolding starts_with_def by (metis append_Cons append_Nil append_assoc append_take_drop_id)
  then obtain w C' where C: "C = w # C'" by (cases C) (simp_all add: slashed_def)
  have no: "CHR ''/'' \<notin> set w" "CHR ''/'' \<notin> set r" using Cons.prems(1,2) C by (simp_all add: good_def)
  have e: "w @ slashed C' = r @ slashed R @ CHR ''/'' # t" using t C by (simp add: slashed_def)
  obtain u where u: "slashed R @ CHR ''/'' # t = CHR ''/'' # u" by (cases R) (simp_all add: slashed_def)
  have r: "takeWhile (\<lambda>c. c \<noteq> CHR ''/'') (r @ CHR ''/'' # u) = r" using no(2) by (induction r) auto
  have "w = r"
  proof (cases C')
    case Nil
    then have "CHR ''/'' \<in> set w" using e u by (simp add: slashed_def)
    then show ?thesis using no(1) by simp
  next
    case (Cons d C'')
    then obtain v where v: "slashed C' = CHR ''/'' # v" by (simp add: slashed_def)
    have "takeWhile (\<lambda>c. c \<noteq> CHR ''/'') (w @ CHR ''/'' # v) = w" using no(1) by (induction w) auto
    then show ?thesis using e u v r by metis
  qed
  then have "starts_with (slashed C') (slashed R @ ''/'')" using e by (simp add: starts_with_def)
  then obtain s where "C' = R @ s" using Cons.IH[of C'] Cons.prems(1,2) C by auto
  then show ?case using C \<open>w = r\<close> by auto
qed simp

lemma hop_good_link: "hop fs base c = Jump b link \<Longrightarrow> \<exists>t. link = pa_comps (pathOf t)"
  by (auto simp: hop_def Let_def split: if_splits option.splits FsNode.splits)

lemma splitSlash_noslash: "CHR ''/'' \<notin> set cur \<Longrightarrow> c \<in> set (splitSlash cur t) \<Longrightarrow> c \<noteq> [] \<and> CHR ''/'' \<notin> set c"
  by (induction cur t rule: splitSlash.induct) (auto split: if_splits)

lemma pathOf_noslash: "c \<in> set (pa_comps (pathOf t)) \<Longrightarrow> CHR ''/'' \<notin> set c"
  using splitSlash_noslash[of "[]" c t] by (auto simp: pathOf_def Let_def split: if_splits)

subsection \<open>Containment\<close>

lemma normalAbs_good:
  "list_all good stack \<Longrightarrow> list_all (\<lambda>c. CHR ''/'' \<notin> set c) cs \<Longrightarrow> list_all good (normalAbs stack cs)"
proof (induction stack cs rule: normalAbs.induct)
  case (2 stack c cs)
  have b: "list_all good (butlast stack)" using "2.prems"(1) by (auto simp: list_all_iff dest: in_set_butlastD)
  have c: "list_all good (stack @ [c])" if "\<not> (c = [] \<or> c = ''.'')" "c \<noteq> ''..''"
  proof -
    have "good c" using that "2.prems"(2) by (simp add: good_def dotless_def)
    then show ?thesis using "2.prems"(1) by simp
  qed
  have cs: "list_all (\<lambda>c. CHR ''/'' \<notin> set c) cs" using "2.prems"(2) by simp
  show ?case
    using "2.IH"(1)[OF _ "2.prems"(1) cs] "2.IH"(2)[OF _ _ b cs] "2.IH"(3)[OF _ _ c cs] by simp
qed simp

text \<open>The canonical form of an absolute path consists of names, perhaps with a trailing slash.\<close>

lemma weaklyCanonical_shape:
  assumes wf: "fs_wf fs" and abs: "pa_abs p" and no: "list_all (\<lambda>c. CHR ''/'' \<notin> set c) (pa_comps p)"
    and T: "weaklyCanonical fs cwd p = Some T"
  shows "pa_abs T \<and> (\<exists>B tr. pa_comps T = B @ tr \<and> list_all good B \<and> (tr = [] \<or> (tr = [[]] \<and> B \<noteq> [])))"
proof -
  have fol: "follow fs cwd (p\<lparr>pa_comps := cs\<rparr>) = realPath fs kMaxLinks [] cs" for cs
    using abs by (simp add: follow_def osComps_def)
  have fnd: "list_all good q" if "realPath fs kMaxLinks [] cs = Found q" for cs q
    using realPath_solid[OF wf _ that] wf_good[OF wf] by (auto simp: solid_def split: option.splits)
  show ?thesis
  proof (cases "follow fs cwd p")
    case (Found q)
    then have "T = \<lparr>pa_abs = True, pa_comps = q\<rparr>" using T by (simp add: weaklyCanonical_def)
    moreover have "list_all good q" using Found fol[of "pa_comps p"] fnd by simp
    ultimately show ?thesis by (intro conjI exI[of _ q] exI[of _ "[]"]) simp_all
  next
    case NotFound
    then obtain k P where P: "realPath fs kMaxLinks [] (take k (pa_comps p)) = Found P"
      and Tk: "T = \<lparr>pa_abs = True, pa_comps = trailing (drop k (pa_comps p)) (normalAbs P (drop k (pa_comps p)))\<rparr>"
      using T abs by (auto simp: weaklyCanonical_def fol Let_def split: sum.splits Walk.splits)
    let ?out = "normalAbs P (drop k (pa_comps p))"
    have "list_all good ?out"
      by (rule normalAbs_good[OF fnd[OF P]]) (use no in \<open>auto simp: list_all_iff dest: in_set_dropD\<close>)
    moreover have "trailing (drop k (pa_comps p)) ?out = ?out @ [] \<or> trailing (drop k (pa_comps p)) ?out = ?out @ [[]] \<and> ?out \<noteq> []"
      by (simp add: trailing_def)
    ultimately show ?thesis using Tk by (metis Path.select_convs)
  next
    case TooManyLinks
    then show ?thesis using T by (simp add: weaklyCanonical_def)
  qed
qed

lemma pathOf_noslash_all: "list_all (\<lambda>c. CHR ''/'' \<notin> set c) (pa_comps (pathOf t))"
  using pathOf_noslash by (auto simp: list_all_iff)

text \<open>A path that passes the check of \<open>pathIsUnderRoot\<close> resolves to the root or below it.\<close>

lemma under_root:
  assumes wf: "fs_wf fs" and R: "nodeAt fs R = Some FsDir"
    and T: "list_all good B" "tr = [] \<or> (tr = [[]] \<and> B \<noteq> [])"
    and u: "pathIsUnderRoot e fs (textOf \<lparr>pa_abs = True, pa_comps = B @ tr\<rparr>) (textOf \<lparr>pa_abs = True, pa_comps = R\<rparr>)"
  shows "\<exists>W s. weaklyCanonical fs (fe_cwd e) \<lparr>pa_abs = True, pa_comps = B @ tr\<rparr> = Some W \<and> names (pa_comps W) = R @ s"
proof -
  let ?root = "\<lparr>pa_abs = True, pa_comps = R\<rparr>" and ?T = "\<lparr>pa_abs = True, pa_comps = B @ tr\<rparr>"
  have gR: "list_all good R" using wf_good[OF wf R] .
  have "realPath fs kMaxLinks [] R = Found R" using realPath_self[OF wf, of "[]" R kMaxLinks] R gR by (simp add: solid_dir)
  then have "weaklyCanonical fs (fe_cwd e) ?root = Some ?root" by (simp add: weaklyCanonical_def follow_def osComps_def)
  moreover have "pathOf (textOf ?root) = ?root" using pathOf_textOf[OF gR, of "[]"] by simp
  ultimately obtain W where W: "weaklyCanonical fs (fe_cwd e) ?T = Some W"
    and words: "textOf W = textOf ?root \<or> starts_with (textOf W) (textOf ?root @ ''/'')"
    using u pathOf_textOf[OF T] by (auto simp: pathIsUnderRoot_def split: option.splits if_splits)
  have "list_all (\<lambda>c. CHR ''/'' \<notin> set c) (B @ tr)" using T by (auto simp: list_all_iff good_def)
  then obtain B' tr' where W': "pa_abs W" "pa_comps W = B' @ tr'" "list_all good B'" "tr' = [] \<or> (tr' = [[]] \<and> B' \<noteq> [])"
    using weaklyCanonical_shape[OF wf _ _ W] by auto
  then have Weq: "W = \<lparr>pa_abs = True, pa_comps = B' @ tr'\<rparr>" by simp
  have "\<exists>s. names (pa_comps W) = R @ s"
    using words
  proof
    assume "textOf W = textOf ?root"
    then have "W = ?root" using pathOf_textOf[OF gR, of "[]"] pathOf_textOf[OF W'(3,4)] Weq by simp
    then show ?thesis using names_good[OF gR] by simp
  next
    assume st: "starts_with (textOf W) (textOf ?root @ ''/'')"
    show ?thesis
    proof (cases "R = []")
      case False
      then have rt: "textOf ?root = slashed R" "2 \<le> length (slashed R)"
        using gR by (cases R; cases "hd R"; simp add: textOf_def slashed_def good_def dotless_def)+
      have "pa_comps W \<noteq> []" using st rt W'(1) by (auto simp: textOf_def starts_with_def)
      then have "textOf W = slashed (pa_comps W)" using W'(1) by (simp add: textOf_def)
      moreover have "list_all (\<lambda>c. CHR ''/'' \<notin> set c) (pa_comps W)" using W' by (auto simp: list_all_iff good_def)
      ultimately obtain s where "pa_comps W = R @ s" using slash_prefix[OF gR] st rt(1) by auto
      then show ?thesis using names_good[OF gR] by simp
    qed simp
  qed
  then show ?thesis using W by blast
qed

text \<open>No symbolic link carries the name of a file that the program writes into a domain.\<close>

definition no_file_links :: "FS \<Rightarrow> bool" where
  "no_file_links fs \<longleftrightarrow> list_all (\<lambda>(p, n). isSymlink fs p \<longrightarrow> List.last p \<noteq> kDomainDefFile \<and> List.last p \<noteq> kOptionsFile) fs"

lemma no_file_linksD:
  assumes "no_file_links fs" and "name = kDomainDefFile \<or> name = kOptionsFile"
  shows "nodeAt fs (d @ [name]) \<noteq> Some (FsLink t)"
proof
  assume n: "nodeAt fs (d @ [name]) = Some (FsLink t)"
  then have "(d @ [name], FsLink t) \<in> set fs" by (simp add: nodeAt_def map_of_SomeD)
  moreover have "isSymlink fs (d @ [name])" using n by (simp add: isSymlink_def)
  ultimately show False using assms by (auto simp: no_file_links_def list_all_iff)
qed

lemma child_comps:
  assumes "list_all good B" and "tr = [] \<or> (tr = [[]] \<and> B \<noteq> [])"
  shows "child \<lparr>pa_abs = a, pa_comps = B @ tr\<rparr> name = \<lparr>pa_abs = a, pa_comps = B @ [name]\<rparr>"
  using assms by (cases B rule: rev_cases) (auto simp: child_def good_def dotless_def butlast_append)

lemma writeFile_at:
  assumes "osComps cwd p = cs @ [name]" and "realPath fs kMaxLinks [] cs = Found D" and "\<And>t. nodeAt fs (D @ [name]) \<noteq> Some (FsLink t)"
    and w: "writeFile fails cwd p contents fs = Some fs'"
  shows "fs' = putNode (D @ [name]) (FsFile contents) fs" and "grown fs fs'" and "nodeAt fs D = Some FsDir"
proof -
  have t: "openTarget fs kMaxLinks [] (cs @ [name]) = Some q \<Longrightarrow> q = D @ [name] \<and> nodeAt fs q \<noteq> Some FsDir \<and> nodeAt fs D = Some FsDir" for q
    using assms(2,3) by (subst (asm) openTarget.simps) (auto split: if_splits option.splits FsNode.splits)
  then have o: "fs' = putNode (D @ [name]) (FsFile contents) fs \<and> nodeAt fs (D @ [name]) \<noteq> Some FsDir \<and> nodeAt fs D = Some FsDir"
    using w assms(1) by (auto simp: writeFile_def split: option.splits if_splits)
  then show "fs' = putNode (D @ [name]) (FsFile contents) fs" "nodeAt fs D = Some FsDir" by auto
  show "grown fs fs'"
    unfolding grown_def
  proof (intro allI impI)
    fix p n assume n: "nodeAt fs p = Some n"
    show "nodeAt fs' p = Some n \<or> (\<exists>s t. n = FsFile s \<and> nodeAt fs' p = Some (FsFile t))"
      using o n assms(3) by (cases n) (auto simp: nodeAt_putNode)
  qed
qed

lemma child_target:
  assumes "list_all good B" and "tr = [] \<or> (tr = [[]] \<and> B \<noteq> [])"
  shows "osComps cwd (child \<lparr>pa_abs = True, pa_comps = B @ tr\<rparr> name) = B @ [name]"
  using child_comps[OF assms] by (simp add: osComps_def)


end
