(* ===== verification/ScanProps.thy ===== *)
theory ScanProps
  imports DomainProps
begin

text \<open>
  More properties of the domain operations: what a scan finds, that adopting an output domain keeps its identity, and
  two limits of the code, with examples.
\<close>

subsection \<open>Scanning\<close>

text \<open>A chain of subdirectories that are no domains themselves.\<close>

fun below :: "FsEnv \<Rightarrow> FS \<Rightarrow> Path \<Rightarrow> string list \<Rightarrow> bool" where
  "below e fs dir [] = True"
| "below e fs dir (x # xs) = (inspectDomainDir e fs dir = None \<and> x \<in> set (subdirNames e fs dir) \<and> below e fs (child dir x) xs)"

lemma scanRecursive_set:
  "info \<in> set (scanRecursive e fs n dir) \<longleftrightarrow>
     (\<exists>xs. length xs < n \<and> below e fs dir xs \<and> inspectDomainDir e fs (foldl child dir xs) = Some info)"
proof (induction n arbitrary: dir)
  case (Suc n)
  show ?case
  proof (cases "inspectDomainDir e fs dir")
    case (Some i)
    have "below e fs dir xs \<longleftrightarrow> xs = []" for xs using Some by (cases xs) simp_all
    then show ?thesis using Some by auto
  next
    case None
    have "info \<in> set (scanRecursive e fs (Suc n) dir) \<longleftrightarrow>
        (\<exists>x xs. length xs < n \<and> x \<in> set (subdirNames e fs dir) \<and> below e fs (child dir x) xs \<and>
           inspectDomainDir e fs (foldl child (child dir x) xs) = Some info)"
      using None Suc.IH by auto
    also have "\<dots> \<longleftrightarrow> (\<exists>xs. length xs < Suc n \<and> below e fs dir xs \<and> inspectDomainDir e fs (foldl child dir xs) = Some info)"
    proof (intro iffI; elim exE conjE)
      fix x xs assume "length xs < n" "x \<in> set (subdirNames e fs dir)" "below e fs (child dir x) xs"
        "inspectDomainDir e fs (foldl child (child dir x) xs) = Some info"
      then show "\<exists>xs. length xs < Suc n \<and> below e fs dir xs \<and> inspectDomainDir e fs (foldl child dir xs) = Some info"
        using None by (intro exI[of _ "x # xs"]) simp
    next
      fix xs assume h: "length xs < Suc n" "below e fs dir xs" "inspectDomainDir e fs (foldl child dir xs) = Some info"
      then obtain y ys where "xs = y # ys" using None by (cases xs) auto
      then show "\<exists>x xs. length xs < n \<and> x \<in> set (subdirNames e fs dir) \<and> below e fs (child dir x) xs \<and>
           inspectDomainDir e fs (foldl child (child dir x) xs) = Some info"
        using h by auto
    qed
    finally show ?thesis .
  qed
qed simp

text \<open>C31. What a scan finds: exactly the domains that a chain of at most \<open>maxDepth\<close> real subdirectories
  leads to, none of which above the domain is a domain itself.  So a scan reports no domain inside another one, follows
  no symbolic link and ends at its depth.\<close>

theorem scanDomains_exact:
  "info \<in> set (scanDomains e fs scanRoot maxDepth) \<longleftrightarrow>
     isDirectory fs (fe_cwd e) (pathOf scanRoot) \<and>
     (\<exists>xs. int (length xs) \<le> maxDepth \<and> below e fs (pathOf scanRoot) xs \<and>
        inspectDomainDir e fs (foldl child (pathOf scanRoot) xs) = Some info)"
proof -
  have "length xs < nat (maxDepth + 1) \<longleftrightarrow> int (length xs) \<le> maxDepth" for xs :: "string list" by linarith
  then show ?thesis by (auto simp: scanDomains_def scanRecursive_set)
qed

subsection \<open>Files of a directory\<close>

lemma mkdirWalk_adds: "mkdirWalk fails base cs fs = (ok, fs') \<Longrightarrow> nodeAt fs' p = nodeAt fs p \<or> (nodeAt fs p = None \<and> nodeAt fs' p = Some FsDir)"
proof (induction fails base cs fs rule: mkdirWalk.induct)
  case (2 fails base c cs fs)
  show ?case
  proof (cases "c = [] \<or> c = ''.'' \<or> c = ''..''")
    case True
    then show ?thesis using 2 by (auto split: if_splits)
  next
    case False
    show ?thesis
    proof (cases "realPath fs kMaxLinks base [c]")
      case (Found q)
      then show ?thesis using 2 False by (auto simp del: realPath.simps split: if_splits)
    next
      case NotFound
      show ?thesis
      proof (cases "nodeAt fs (base @ [c]) \<noteq> None \<or> fails (base @ [c])")
        case True
        then show ?thesis using "2.prems" False NotFound by (auto simp del: realPath.simps)
      next
        case go: False
        then have "mkdirWalk fails (base @ [c]) cs (putNode (base @ [c]) FsDir fs) = (ok, fs')"
          using "2.prems" False NotFound by (simp del: realPath.simps)
        then have "nodeAt fs' p = nodeAt (putNode (base @ [c]) FsDir fs) p \<or>
            (nodeAt (putNode (base @ [c]) FsDir fs) p = None \<and> nodeAt fs' p = Some FsDir)"
          using "2.IH"(4) False NotFound go by (simp del: realPath.simps)
        then show ?thesis using go by (auto simp: nodeAt_putNode split: if_splits)
      qed
    next
      case TooManyLinks
      then show ?thesis using "2.prems" False by (simp del: realPath.simps)
    qed
  qed
qed simp

text \<open>The files of a directory are named by its components and one more.\<close>

lemma child_base:
  assumes "follow fs cwd dir = Found D"
  obtains cs where "\<And>name. osComps cwd (child dir name) = cs @ [name]" and "realPath fs kMaxLinks [] cs = Found D"
proof (cases "pa_comps dir \<noteq> [] \<and> List.last (pa_comps dir) = []")
  case True
  then have d: "pa_comps dir = butlast (pa_comps dir) @ [[]]" by (metis append_butlast_last_id)
  let ?cs = "osComps cwd (dir\<lparr>pa_comps := butlast (pa_comps dir)\<rparr>)"
  have os: "osComps cwd dir = ?cs @ [[]]" using d by (simp add: osComps_def split: if_splits)
  have f: "realPath fs kMaxLinks [] (?cs @ [[]]) = Found D" using assms os by (simp add: follow_def split: if_splits)
  then obtain p where p: "realPath fs kMaxLinks [] ?cs = Found p" using realPath_prefix by blast
  obtain m where "realPath fs kMaxLinks [] (?cs @ [[]]) = realPath fs m p [[]]" using realPath_split[OF p] by blast
  then have "p = D" using f by (auto simp: hop_def split: if_splits)
  then show ?thesis using that[of ?cs] p True by (simp add: child_def osComps_def)
next
  case False
  then show ?thesis using assms that[of "osComps cwd dir"] by (auto simp: child_def osComps_def follow_def split: if_splits)
qed

lemma follow_file:
  assumes "osComps cwd p = cs @ [name]" and "realPath fs kMaxLinks [] cs = Found D" and "pa_comps p \<noteq> []" and "dotless name"
    and "\<And>t. nodeAt fs (D @ [name]) \<noteq> Some (FsLink t)"
  shows "follow fs cwd p = (if nodeAt fs D = Some FsDir \<and> nodeAt fs (D @ [name]) \<noteq> None then Found (D @ [name]) else NotFound)"
proof -
  obtain m where "realPath fs kMaxLinks [] (cs @ [name]) = realPath fs m D [name]" using realPath_split[OF assms(2)] by blast
  then show ?thesis using assms by (auto simp: follow_def hop_def dotless_def Let_def split: option.splits FsNode.splits)
qed

lemma child_nonempty [simp]: "pa_comps (child p name) \<noteq> []"
  by (simp add: child_def)

lemma file_names: "dotless kDomainDefFile" "dotless kOptionsFile" "kDomainDefFile \<noteq> kOptionsFile"
  by (simp_all add: dotless_def kDomainDefFile_def kOptionsFile_def)

subsection \<open>Adopting\<close>

text \<open>Reading a file of a directory.\<close>

lemma readFile_at:
  assumes "osComps cwd p = cs @ [name]" and "realPath fs kMaxLinks [] cs = Found D" and "pa_comps p \<noteq> []" and "dotless name"
    and "nodeAt fs D = Some FsDir" and "nodeAt fs (D @ [name]) = Some (FsFile contents)"
  shows "readFile fs cwd p = Some contents"
proof -
  have "follow fs cwd p = Found (D @ [name])" using follow_file[OF assms(1-4)] assms(5,6) by simp
  then show ?thesis using assms(6) by (simp add: readFile_def)
qed

lemma readFile_node:
  assumes r: "readFile fs cwd (child dir name) = Some contents" and "dotless name"
    and "\<And>D t. nodeAt fs (D @ [name]) \<noteq> Some (FsLink t)"
    and cs: "\<And>n. osComps cwd (child dir n) = cs @ [n]"
  shows "\<exists>D. realPath fs kMaxLinks [] cs = Found D \<and> nodeAt fs D = Some FsDir \<and> nodeAt fs (D @ [name]) = Some (FsFile contents)"
proof -
  obtain q where q: "follow fs cwd (child dir name) = Found q" "nodeAt fs q = Some (FsFile contents)"
    using r by (auto simp: readFile_def split: Walk.splits option.splits FsNode.splits)
  then have "realPath fs kMaxLinks [] (cs @ [name]) = Found q" using cs by (simp add: follow_def split: if_splits)
  then obtain D where D: "realPath fs kMaxLinks [] cs = Found D" using realPath_prefix by blast
  show ?thesis
    using follow_file[OF cs D child_nonempty assms(2) assms(3)] q D by (auto split: if_splits)
qed

lemma child_comps_ex: "\<exists>cs. \<forall>n. osComps cwd (child dir n) = cs @ [n]"
  by (auto simp: child_def osComps_def)

lemma writeOptions_keeps:
  assumes cs: "\<And>n. osComps (fe_cwd e) (child dir n) = cs @ [n]" and D: "realPath fs kMaxLinks [] cs = Found D"
    and "nodeAt fs (D @ [kDomainDefFile]) = Some (FsFile contents)" and link: "\<And>t. nodeAt fs (D @ [kOptionsFile]) \<noteq> Some (FsLink t)"
    and "nodeAt fs D = Some FsDir"
  shows "readFile (writeOptions e dir h fs) (fe_cwd e) (child dir kDomainDefFile) = Some contents"
proof (cases "writeOptions e dir h fs = fs")
  case True
  then show ?thesis using readFile_at[OF cs D child_nonempty file_names(1) assms(5,3)] by simp
next
  case False
  then obtain ns fs' where w: "writeFile (fe_openFails e) (fe_cwd e) (child dir kOptionsFile) (optionsText ns) fs = Some fs'"
    "writeOptions e dir h fs = fs'"
    by (auto simp: writeOptions_def split: option.splits)
  note f = writeFile_at[OF cs D link w(1)]
  have "nodeAt fs' (D @ [kDomainDefFile]) = Some (FsFile contents)" "nodeAt fs' D = Some FsDir"
    using assms(3,5) f(1) file_names(3) by (simp_all add: nodeAt_putNode)
  then show ?thesis using readFile_at[OF cs realPath_grown[OF f(2) D] child_nonempty file_names(1)] w(2) by simp
qed

text \<open>A directory whose definition file reads as the identity \<open>ident\<close>.\<close>

lemma adopt_known:
  assumes "readFile fs (fe_cwd e) (child (pathOf (od_path spec)) kDomainDefFile) = Some contents"
    and "fe_parseJson e contents = Some (JObj obj)" "map_of obj ''id'' = Some (JStr ident)" "parseUuid ident \<noteq> None"
  shows "fst (adoptOutputDomain e spec fs) =
    (case od_id spec of
       Some i \<Rightarrow> if i = ident then Inr ident else Inl (DomainIdMismatch (textOf (pathOf (od_path spec))) ident i)
     | None \<Rightarrow> Inr ident)"
  using assms
  by (auto simp: adoptOutputDomain_def readJsonObject_def adoptExisting_def getString_def member_of_def Let_def split: option.splits)

lemma newDomainId_valid:
  assumes "\<And>i. od_id spec = Some i \<Longrightarrow> parseUuid i \<noteq> None"
  shows "parseUuid (newDomainId e spec fs) \<noteq> None"
proof (cases "(case od_id spec of Some i \<Rightarrow> i | None \<Rightarrow> []) = []")
  case True
  have "uuid_wf (deriveUuid domainSeed n)" for n by (simp add: uuid_wf_def deriveUuid_def Let_def)
  then show ?thesis using True uuid_text.parse_print by (simp add: newDomainId_def Let_def)
next
  case False
  then show ?thesis using assms by (auto simp: newDomainId_def Let_def split: option.splits)
qed

text \<open>The identity of an output domain is stable: once \<open>adoptOutputDomain\<close> has returned an
  identity for a path, every later call for that path returns the same one, whether it is asked for or not, and fails
  when another one is asked for.  The parser is only relied on to read the definition file back that was written.\<close>

theorem adopt_stable:
  assumes "no_file_links fs" and "\<forall>i. od_id spec = Some i \<longrightarrow> parseUuid i \<noteq> None"
    and "adoptOutputDomain e spec fs = (Inr ident, fs')"
    and "\<exists>obj. fe_parseJson e (defText ident (jsonEscape (filename (pathOf (od_path spec)))) ''MXL domain'') = Some (JObj obj) \<and>
           map_of obj ''id'' = Some (JStr ident)"
  shows "fst (adoptOutputDomain e (spec\<lparr>od_id := want, od_historyDurationNs := h\<rparr>) fs') =
    (case want of
       Some i \<Rightarrow> if i = ident then Inr ident else Inl (DomainIdMismatch (textOf (pathOf (od_path spec))) ident i)
     | None \<Rightarrow> Inr ident)"
proof -
  let ?dir = "pathOf (od_path spec)"
  obtain cs where cs: "\<And>n. osComps (fe_cwd e) (child ?dir n) = cs @ [n]" using child_comps_ex by metis
  have link: "nodeAt fs (D @ [name]) \<noteq> Some (FsLink t)" if "name = kDomainDefFile \<or> name = kOptionsFile" for D name t
    by (rule no_file_linksD[OF assms(1) that])
  have "\<exists>contents obj. readFile fs' (fe_cwd e) (child ?dir kDomainDefFile) = Some contents \<and>
      fe_parseJson e contents = Some (JObj obj) \<and> map_of obj ''id'' = Some (JStr ident) \<and> parseUuid ident \<noteq> None"
  proof (cases "readJsonObject e fs (child ?dir kDomainDefFile)")
    case (Some existing)
    then obtain contents obj where c: "readFile fs (fe_cwd e) (child ?dir kDomainDefFile) = Some contents"
      "fe_parseJson e contents = Some (JObj obj)" "existing = JObj obj"
      by (auto simp: readJsonObject_def split: option.splits json.splits)
    have ad: "adoptExisting e spec existing fs = (Inr ident, fs')" using assms(3) Some by (simp add: adoptOutputDomain_def)
    then have i: "map_of obj ''id'' = Some (JStr ident)" "parseUuid ident \<noteq> None"
      and w: "fs' = fs \<or> fs' = writeOptions e ?dir (od_historyDurationNs spec) fs"
      using c(3) by (auto simp: adoptExisting_def getString_def member_of_def Let_def split: option.splits json.splits if_splits)
    obtain D where D: "realPath fs kMaxLinks [] cs = Found D" "nodeAt fs D = Some FsDir" "nodeAt fs (D @ [kDomainDefFile]) = Some (FsFile contents)"
      using readFile_node[OF c(1) file_names(1) link cs] by auto
    have "readFile (writeOptions e ?dir (od_historyDurationNs spec) fs) (fe_cwd e) (child ?dir kDomainDefFile) = Some contents"
      by (rule writeOptions_keeps[OF cs D(1,3) link D(2)]) simp
    then show ?thesis using w c i by auto
  next
    case None
    let ?text = "defText ident (jsonEscape (filename ?dir)) ''MXL domain''"
    obtain ok fs1 where mk: "createDirectories (fe_mkdirFails e) (fe_cwd e) ?dir fs = (ok, fs1)" by fastforce
    then obtain fs2 where ident: "ident = newDomainId e spec fs" and dir: "isDirectory fs1 (fe_cwd e) ?dir"
      and w: "writeFile (fe_openFails e) (fe_cwd e) (child ?dir kDomainDefFile) ?text fs1 = Some fs2"
      and fs': "fs' = writeOptions e ?dir (od_historyDurationNs spec) fs2"
      using assms(3) None by (auto simp: adoptOutputDomain_def Let_def split: option.splits if_splits)
    obtain D where D: "follow fs1 (fe_cwd e) ?dir = Found D" "nodeAt fs1 D = Some FsDir"
      using dir by (auto simp: isDirectory_def split: Walk.splits)
    obtain cs' where "\<And>n. osComps (fe_cwd e) (child ?dir n) = cs' @ [n]" "realPath fs1 kMaxLinks [] cs' = Found D"
      using child_base[OF D(1)] by metis
    then have r: "realPath fs1 kMaxLinks [] cs = Found D" using cs by simp
    have link1: "nodeAt fs1 (D @ [name]) \<noteq> Some (FsLink t)" if "name = kDomainDefFile \<or> name = kOptionsFile" for name t
    proof -
      have "nodeAt fs1 q = nodeAt fs q \<or> (nodeAt fs q = None \<and> nodeAt fs1 q = Some FsDir)" for q
        using mk mkdirWalk_adds by (auto simp: createDirectories_def split: if_splits)
      then show ?thesis using link[OF that, of D t] by (metis FsNode.distinct(3) option.inject)
    qed
    note f = writeFile_at[OF cs r link1[of kDomainDefFile] w]
    have "nodeAt fs2 (D @ [kDomainDefFile]) = Some (FsFile ?text)" "nodeAt fs2 D = Some FsDir"
      "nodeAt fs2 (D @ [kOptionsFile]) \<noteq> Some (FsLink t)" for t
      using f(1) D(2) link1[of kOptionsFile] file_names(3) by (simp_all add: nodeAt_putNode)
    then have "readFile fs' (fe_cwd e) (child ?dir kDomainDefFile) = Some ?text"
      unfolding fs' using writeOptions_keeps[OF cs realPath_grown[OF f(2) r]] by blast
    moreover have "parseUuid ident \<noteq> None" unfolding ident using newDomainId_valid assms(2) by blast
    ultimately show ?thesis using assms(4) by blast
  qed
  then obtain contents obj where "readFile fs' (fe_cwd e) (child ?dir kDomainDefFile) = Some contents"
      "fe_parseJson e contents = Some (JObj obj)" "map_of obj ''id'' = Some (JStr ident)" "parseUuid ident \<noteq> None" by blast
  then show ?thesis using adopt_known[of fs' e "spec\<lparr>od_id := want, od_historyDurationNs := h\<rparr>" contents obj ident] by (simp split: option.split)
qed

subsection \<open>Examples\<close>

text \<open>A file system with a scan root \<open>/shm\<close>, one domain in it, and a link out of it; an operating system that
  refuses nothing; a parser that reads the definition file of the example.\<close>

definition demoFS :: FS where
  "demoFS =
     [([''shm''], FsDir), ([''etc''], FsDir), ([''shm'', ''a''], FsDir), ([''shm'', ''a'', kDomainDefFile], FsFile ''{}''),
      ([''shm'', ''out''], FsLink ''../etc'')]"

definition demoFsEnv :: FsEnv where
  "demoFsEnv =
     \<lparr>fe_cwd = [], fe_mkdirFails = (\<lambda>p. False), fe_openFails = (\<lambda>p. False), fe_isTmpFs = (\<lambda>t. (MXL_STATUS_OK, True)),
      fe_opens = (\<lambda>n f. False), fe_locked = (\<lambda>f. False), fe_pread = (\<lambda>f. (0, \<lparr>fh_version = 0, fh_headIndex = 0,
        fh_lastWriteTime = 0, fh_format = 0, fh_grainCount = 0\<rparr>)), fe_isDiscrete = (\<lambda>f. False),
      fe_parseJson = (\<lambda>t. if t = ''{}'' then None else Some (JObj [(''id'', JStr ''01020304-0506-0708-090a-0b0c0d0e0f10'')])),
      fe_truncated = 0, fe_random = of_nat\<rparr>"

definition demoRequest :: CreateDomainRequest where
  "demoRequest = \<lparr>cd_path = ''/shm/new/../b//c/'', cd_label = ''B'', cd_description = [], cd_historyDurationNs = Some 5\<rparr>"

lemma demoFS_wf: "fs_wf demoFS \<and> no_file_links demoFS"
  by code_simp


text \<open>A request through the link is refused: the canonical target is outside.\<close>

lemma link_refused:
  "createDomain demoFsEnv (demoRequest\<lparr>cd_path := ''/shm/nope/../out/x''\<rparr>) ''/shm'' demoFS = (Inl (OutsideRoot ''/shm''), demoFS)"
  by code_simp

text \<open>The condition on links is needed: a link called \<open>options.json\<close> in an empty directory is followed, and a file
  outside the scan root is overwritten.\<close>

lemma options_link_followed:
  "nodeAt (snd (createDomain demoFsEnv (demoRequest\<lparr>cd_path := ''/shm/e''\<rparr>) ''/shm''
     ([([''shm'', ''e''], FsDir), ([''shm'', ''e'', kOptionsFile], FsLink ''/etc/passwd''), ([''etc'', ''passwd''], FsFile ''root'')] @ demoFS)))
     [''etc'', ''passwd''] \<noteq> Some (FsFile ''root'')"
  by code_simp

text \<open>A definition file that cannot be parsed is replaced by a new one, with a new identity, although the header says
  that an existing file is never rewritten.\<close>

definition demoSpec :: OutputDomainSpec where
  "demoSpec = \<lparr>od_path = ''/shm/a'', od_id = Some ''01020304-0506-0708-090a-0b0c0d0e0f10'', od_historyDurationNs = None\<rparr>"

lemma broken_definition_replaced:
  "nodeAt demoFS [''shm'', ''a'', kDomainDefFile] = Some (FsFile ''{}'') \<and>
   nodeAt (snd (adoptOutputDomain demoFsEnv demoSpec demoFS)) [''shm'', ''a'', kDomainDefFile] =
     Some (FsFile (defText ''01020304-0506-0708-090a-0b0c0d0e0f10'' ''a'' ''MXL domain''))"
  by code_simp

lemma demoSpec_id: "fst (adoptOutputDomain demoFsEnv demoSpec demoFS) = Inr ''01020304-0506-0708-090a-0b0c0d0e0f10''"
  by code_simp

lemma demoSpec_valid: "parseUuid ''01020304-0506-0708-090a-0b0c0d0e0f10'' \<noteq> None"
  by code_simp

lemma demoSpec_parsed:
  "fe_parseJson demoFsEnv (defText ''01020304-0506-0708-090a-0b0c0d0e0f10'' (jsonEscape (filename (pathOf (od_path demoSpec)))) ''MXL domain'') =
     Some (JObj [(''id'', JStr ''01020304-0506-0708-090a-0b0c0d0e0f10'')])"
  by code_simp

theorem adopt_stable_witness:
  "fst (adoptOutputDomain demoFsEnv (demoSpec\<lparr>od_id := None, od_historyDurationNs := Some 7\<rparr>)
     (snd (adoptOutputDomain demoFsEnv demoSpec demoFS))) = Inr ''01020304-0506-0708-090a-0b0c0d0e0f10''"
proof -
  have "adoptOutputDomain demoFsEnv demoSpec demoFS =
      (Inr ''01020304-0506-0708-090a-0b0c0d0e0f10'', snd (adoptOutputDomain demoFsEnv demoSpec demoFS))"
    using demoSpec_id by (metis prod.collapse)
  from adopt_stable[OF conjunct2[OF demoFS_wf] _ this, of "Some 7" None] show ?thesis
    using demoSpec_valid demoSpec_parsed by (simp add: demoSpec_def)
qed

end
