(* ===== verification/WebApi.thy ===== *)
theory WebApi
  imports Health DomainScan
begin

text \<open>
  \<open>src/ops/webapi.cpp\<close>: the web interface.  One request is a function on the state of the program that the
  interface can reach: the configuration store and its file, the channels, the file system and the restart flag.

  Parameters (\<open>WebEnv\<close>): the parser, what the operating system answers to the store's write, the file system
  calls of \<open>FsEnv\<close>, the clock, what the card, MXL and the channels report, and the help texts of the schema.
  \<open>std::unordered_map::emplace\<close> keeps the first flow of an identifier, as \<open>map_of\<close> does.
\<close>

record SubDeviceInfo =
  si_displayName :: string
  si_modelName :: string
  si_supportsCapture :: bool
  si_supportsPlayback :: bool
  si_supportsInputFormatDetection :: bool
  si_hasProfileManager :: bool

record SubDeviceStatus =
  ss_detectedInputMode :: "string option"
  ss_currentInputMode :: "string option"
  ss_currentOutputMode :: "string option"
  ss_currentInputPixelFormat :: "string option"
  ss_lastOutputPixelFormat :: "string option"
  ss_inputSignalLocked :: bool
  ss_referenceLocked :: bool
  ss_captureBusy :: bool
  ss_playbackBusy :: bool
  ss_pcieLinkWidth :: "i64 option"
  ss_pcieLinkSpeed :: "i64 option"
  ss_temperatureText :: "string option"
  ss_sdiOutput :: SdiOutputConfig

record WebEnv =
  we_fs :: FsEnv
  we_isIpLiteral :: "string \<Rightarrow> bool"
  we_io :: WriteOutcome
  we_now :: u64
  we_lastHeartbeat :: u64
  we_readyGate :: "(unit \<Rightarrow> bool) option"
  we_status :: "ChannelConfig \<Rightarrow> Status"
  we_sdi :: "ChannelConfig \<Rightarrow> SdiOutputConfig"
  we_metrics :: string
  we_indexHtml :: string
  we_version :: string
  we_mxlVersion :: "string option"
  we_dlVersion :: string
  we_cardName :: string
  we_cardIdText :: string
  we_subDevices :: "(SubDeviceInfo \<times> SubDeviceStatus) list"
  we_domainPath :: string
  we_domainTmpfs :: bool
  we_help :: "SettingMeta \<Rightarrow> string"
  we_activeCfg :: Config
  we_startedAt :: u64
  we_errorText :: "UpdateError \<Rightarrow> string"
  we_cardErrorText :: "CardError \<Rightarrow> string"
  we_createErrorText :: "CreateError \<Rightarrow> string"

record Web =
  w_store :: ConfigStore
  w_disk :: FileState
  w_manager :: ChannelManager
  w_fs :: FS
  w_restartRequired :: bool

definition jsonResponse :: "int \<Rightarrow> string \<Rightarrow> HttpResponse" where
  "jsonResponse status body = \<lparr>hr_status = status, hr_contentType = ''application/json'', hr_body = body\<rparr>"

definition jsonError :: "int \<Rightarrow> string \<Rightarrow> HttpResponse" where
  "jsonError status message = jsonResponse status (jobj [(''error'', quoted message)])"

subsection \<open>Status\<close>

definition audioSampleTypeName :: "AudioSampleType \<Rightarrow> string" where
  "audioSampleTypeName t = (if t = Int16 then ''16bit'' else ''32bit'')"

definition flowMembers :: "FlowSummary option \<Rightarrow> (string \<times> string) list" where
  "flowMembers f =
     (case f of
        Some s \<Rightarrow>
          [(''mxl_present'', ''true''), (''mxl_active'', jbool (fs_active s)), (''mxl_head_index'', jmaybe unum (fs_headIndex s)),
           (''mxl_last_write_time_ns'', jmaybe unum (fs_lastWriteTimeNs s)), (''mxl_channel_count'', jmaybe unum (fs_channelCount s))]
      | None \<Rightarrow>
          [(''mxl_present'', ''false''), (''mxl_active'', ''false''), (''mxl_head_index'', ''null''),
           (''mxl_last_write_time_ns'', ''null''), (''mxl_channel_count'', ''null'')])"

definition audioJson :: "(string \<times> FlowSummary) list \<Rightarrow> ChannelView \<Rightarrow> string" where
  "audioJson flowById v =
     (let c = cv_cfg v; s = cv_status v; out = (direction c = Output) in
      jobj [(''enabled'', jbool (audioEnable c)), (''deck_channel_count'', int_to_string (audioChannelCount c)),
        (''sample_type'', quoted (audioSampleTypeName (audioSampleType c))),
        (''decklink_buffered_audio_frames'', if out then unum (bufferedAudioFrames s) else ''null''),
        (''decklink_buffered_video_frames'', if out then unum (bufferedVideoFrames s) else ''null''),
        (''flows'', jarr (map (\<lambda>af.
           jobj ([(''index'', int_to_string (af_index af)), (''flow_id'', quoted (toString (af_flowId af))),
             (''channel_count'', int_to_string (af_channelCount af)), (''label'', quoted (af_label af)),
             (''unassigned'', jbool (isNil (af_flowId af))), (''map'', jarr (map int_to_string (af_deckLinkChannels af)))] @
             flowMembers (if isNil (af_flowId af) then None else map_of flowById (toString (af_flowId af)))))
          (audioFlows c)))])"

definition statusChannel :: "(string \<times> FlowSummary) list \<Rightarrow> ChannelView \<Rightarrow> string" where
  "statusChannel flowById v =
     (let c = cv_cfg v; s = cv_status v in
      jobj [(''index'', int_to_string (ch_index c)), (''label'', quoted (ch_label c)),
        (''direction'', quoted (directionName (direction c))), (''subdevice_index'', int_to_string (subdeviceIndex c)),
        (''state'', quoted (stateName (st_state s))), (''signal_locked'', jbool (signalLocked s)),
        (''active_video_mode'', quoted (activeModeName s)), (''video_mode_setting'', quoted (videoModeName c)),
        (''active_video_flow_id'', quoted (activeVideoFlowId s)), (''frames_total'', unum (framesTotal s)),
        (''frames_dropped'', unum (framesDropped s)), (''frames_repeated'', unum (framesRepeated s)),
        (''read_offset_grains'', int_to_string (st_readOffsetGrains s)), (''reconnects'', unum (reconnects s)),
        (''grains_committed'', unum (grainsCommitted s)), (''last_frame_tai_ns'', unum (lastFrameTaiNs s)),
        (''audio'', audioJson flowById v)])"

definition apiStatus :: "WebEnv \<Rightarrow> Web \<Rightarrow> HttpResponse" where
  "apiStatus e w =
     (let flowById = map (\<lambda>f. (fs_id f, f)) (listFlows (we_fs e) (w_fs w) (we_domainPath e)) in
      jsonResponse 200 (jobj
        [(''version'', quoted (we_version e)), (''mxl_version'', quoted (case we_mxlVersion e of Some v \<Rightarrow> v | None \<Rightarrow> ''?'')),
         (''decklink_api_version'', if we_dlVersion e = [] then ''null'' else quoted (we_dlVersion e)),
         (''backend'', quoted (backend (we_activeCfg e))), (''card_open_fallback'', jbool (cardOpenFallback (we_activeCfg e))),
         (''uptime_s'', unum ((we_now e - we_startedAt e) div 1000000000)), (''restart_required'', jbool (w_restartRequired w)),
         (''card'', jobj [(''name'', quoted (we_cardName e)), (''persistent_id'', quoted (we_cardIdText e)),
            (''subdevices'', nat_to_string (length (we_subDevices e)))]),
         (''domain'', jobj [(''path'', quoted (we_domainPath e)), (''tmpfs'', jbool (we_domainTmpfs e))]),
         (''channels'', jarr (map (statusChannel flowById) (channelViews (we_status e) (w_manager w))))]))"

definition subDeviceJson :: "nat \<Rightarrow> SubDeviceInfo \<times> SubDeviceStatus \<Rightarrow> string" where
  "subDeviceJson i sub =
     (case sub of (info, st) \<Rightarrow>
      jobj [(''index'', nat_to_string i), (''display_name'', quoted (si_displayName info)), (''model'', quoted (si_modelName info)),
        (''supports_capture'', jbool (si_supportsCapture info)), (''supports_playback'', jbool (si_supportsPlayback info)),
        (''supports_format_detection'', jbool (si_supportsInputFormatDetection info)),
        (''has_profile_manager'', jbool (si_hasProfileManager info)),
        (''status'', jobj [(''detected_input_mode'', jopt (ss_detectedInputMode st)),
           (''current_input_mode'', jopt (ss_currentInputMode st)), (''current_output_mode'', jopt (ss_currentOutputMode st)),
           (''current_input_pixel_format'', jopt (ss_currentInputPixelFormat st)),
           (''last_output_pixel_format'', jopt (ss_lastOutputPixelFormat st)),
           (''input_signal_locked'', jbool (ss_inputSignalLocked st)), (''reference_locked'', jbool (ss_referenceLocked st)),
           (''capture_busy'', jbool (ss_captureBusy st)), (''playback_busy'', jbool (ss_playbackBusy st)),
           (''pcie_link_width'', jmaybe snum (ss_pcieLinkWidth st)), (''pcie_link_speed'', jmaybe snum (ss_pcieLinkSpeed st)),
           (''temperature_c'', jmaybe id (ss_temperatureText st)), (''sdi_output'', sdiOutputJson (ss_sdiOutput st))])])"

definition apiCard :: "WebEnv \<Rightarrow> HttpResponse" where
  "apiCard e =
     jsonResponse 200 (jobj [(''name'', quoted (we_cardName e)), (''persistent_id'', quoted (we_cardIdText e)),
       (''subdevices'', jarr (map (\<lambda>i. subDeviceJson i (we_subDevices e ! i)) [0..<length (we_subDevices e)]))])"

subsection \<open>Configuration\<close>

definition kindName :: "SettingKind \<Rightarrow> string" where
  "kindName k = (case k of Global \<Rightarrow> ''global'' | AudioFlowSetting \<Rightarrow> ''audio_flow'' | ChannelSetting \<Rightarrow> ''channel'')"

definition metaJson :: "WebEnv \<Rightarrow> SettingMeta \<Rightarrow> string" where
  "metaJson e m =
     jobj [(''key'', quoted (sm_key m)), (''kind'', quoted (kindName (sm_kind m))), (''type'', quoted (sm_type m)),
       (''default'', quoted (sm_defaultValue m)), (''help'', quoted (we_help e m)),
       (''requires_restart'', jbool (sm_requiresRestart m)), (''options'', jarr (map quoted (sm_options m)))]"

definition valueMembers :: "ConfigStore \<Rightarrow> (string \<times> string) list" where
  "valueMembers st =
     concat (map (\<lambda>key. case effectiveValue st key of
         None \<Rightarrow> []
       | Some v \<Rightarrow> [(key, jobj [(''value'', quoted v), (''source'', quoted (settingSourceName (sourceOf st key))),
             (''editable'', jbool (sourceOf st key \<noteq> SourceEnv \<and> hasFileLayer st))])]) (presentKeys st))"

definition apiConfigGet :: "WebEnv \<Rightarrow> Web \<Rightarrow> HttpResponse" where
  "apiConfigGet e w =
     jsonResponse 200 (jobj
       [(''file'', jopt (cs_filePath (w_store w))), (''restart_required'', jbool (w_restartRequired w)),
        (''schema'', jarr (map (metaJson e) settingsSchema)), (''values'', jobj (valueMembers (w_store w))),
        (''env_block'', quoted (renderEnvBlock (w_store w))), (''card_subdevices'', nat_to_string (length (we_subDevices e)))])"

text \<open>The members of \<open>set\<close> and the keys of \<open>unset\<close>, into the map of changes.\<close>

fun readSet :: "(string \<times> json) list \<Rightarrow> changes \<Rightarrow> string + changes" where
  "readSet [] cs = Inr cs"
| "readSet ((key, v) # es) cs =
     (case renderValue v of
        None \<Rightarrow> Inl (''value for '' @ CHR 0x27 # key @ CHR 0x27 # '' must be a string/integer/bool'')
      | Some r \<Rightarrow> readSet es (putKey key (Some r) cs))"

fun readUnset :: "json list \<Rightarrow> changes \<Rightarrow> string + changes" where
  "readUnset [] cs = Inr cs"
| "readUnset (k # ks) cs =
     (case k of
        JStr key \<Rightarrow> readUnset ks (putKey key None cs)
      | _ \<Rightarrow> Inl (CHR 0x27 # ''unset'' @ CHR 0x27 # '' entries must be strings''))"

definition readChanges :: "json \<Rightarrow> string + changes" where
  "readChanges body =
     (let set1 = (case member_of body ''set'' of
            None \<Rightarrow> Inr []
          | Some (JObj es) \<Rightarrow> readSet es []
          | Some _ \<Rightarrow> Inl (CHR 0x27 # ''set'' @ CHR 0x27 # '' must be an object of KEY: value pairs''))
      in case set1 of
           Inl err \<Rightarrow> Inl err
         | Inr cs \<Rightarrow>
             (case member_of body ''unset'' of
                None \<Rightarrow> Inr cs
              | Some (JArr ks) \<Rightarrow> readUnset ks cs
              | Some _ \<Rightarrow> Inl (CHR 0x27 # ''unset'' @ CHR 0x27 # '' must be an array of keys'')))"

definition putResponse :: "ApplyResult \<Rightarrow> Web \<Rightarrow> HttpResponse" where
  "putResponse r w =
     jsonResponse 200 (jobj [(''ok'', ''true''), (''restart_required'', jbool (w_restartRequired w)),
       (''channels_added'', jarr (map int_to_string (ar_added r))), (''channels_restarted'', jarr (map int_to_string (ar_restarted r))),
       (''channels_removed'', jarr (map int_to_string (ar_removed r)))])"

text \<open>A change that is stored and then applied to the channels.\<close>

definition applyUpdate :: "WebEnv \<Rightarrow> Config \<Rightarrow> Web \<Rightarrow> HttpResponse \<times> Web" where
  "applyUpdate e cfg w =
     (let restart = (\<not> globalPartEquals cfg (we_activeCfg e)) in
      case applyChannels (channels cfg) (w_manager w) of
        (Inl err, m) \<Rightarrow>
          (jsonError 422 (we_cardErrorText e err @ '' (persisted to file, but not applied)''), w\<lparr>w_manager := m\<rparr>)
      | (Inr r, m) \<Rightarrow>
          (let w = w\<lparr>w_manager := m, w_restartRequired := (restart \<or> w_restartRequired w)\<rparr> in (putResponse r w, w)))"

definition apiConfigPut :: "WebEnv \<Rightarrow> HttpRequest \<Rightarrow> Web \<Rightarrow> HttpResponse \<times> Web" where
  "apiConfigPut e req w =
     (case fe_parseJson (we_fs e) (rq_body req) of
        Some (JObj obj) \<Rightarrow>
          (case readChanges (JObj obj) of
             Inl err \<Rightarrow> (jsonError 400 err, w)
           | Inr changes \<Rightarrow>
               if changes = [] then (jsonError 400 ''nothing to change'', w)
               else case update (fe_parseJson (we_fs e)) (we_isIpLiteral e) (we_io e) changes (w_store w) (w_disk w) of
                      (Inl err, st, disk) \<Rightarrow> (jsonError 422 (we_errorText e err), w\<lparr>w_store := st, w_disk := disk\<rparr>)
                    | (Inr u, st, disk) \<Rightarrow> applyUpdate e (ur_config u) (w\<lparr>w_store := st, w_disk := disk\<rparr>))
      | _ \<Rightarrow> (jsonError 400 ''body must be a JSON object: {\"set\": {KEY: value}, \"unset\": [KEY]}'', w))"

definition apiConfigImport :: "WebEnv \<Rightarrow> HttpRequest \<Rightarrow> Web \<Rightarrow> HttpResponse \<times> Web" where
  "apiConfigImport e req w =
     (case importDocument (fe_parseJson (we_fs e)) (we_isIpLiteral e) (we_io e) (rq_body req) (w_store w) (w_disk w) of
        (Inl err, st, disk) \<Rightarrow> (jsonError 400 (we_errorText e err), w\<lparr>w_store := st, w_disk := disk\<rparr>)
      | (Inr u, st, disk) \<Rightarrow>
          (jsonResponse 200 (jobj [(''restart_required'', ''true'')]),
           w\<lparr>w_store := st, w_disk := disk, w_restartRequired := True\<rparr>))"

subsection \<open>Domains and flows\<close>

definition apiDomainsGet :: "WebEnv \<Rightarrow> Web \<Rightarrow> HttpResponse" where
  "apiDomainsGet e w =
     (let scan = domainScanPath (we_activeCfg e) in
      jsonResponse 200 (jobj [(''scan_path'', quoted scan), (''domains'', jarr (map (\<lambda>d.
        jobj [(''path'', quoted (di_path d)), (''id'', jopt (di_id d)), (''label'', jopt (di_label d)),
          (''description'', jopt (di_description d)), (''tmpfs'', jbool (di_isTmpfs d)),
          (''flow_count'', nat_to_string (di_flowCount d)), (''history_duration_ns'', jmaybe unum (di_historyDurationNs d)),
          (''current'', jbool (di_path d = we_domainPath e))])
        (scanDomains (we_fs e) (w_fs w) scan 3)))]))"

text \<open>\<open>history_ms\<close> is multiplied in floating point; a whole number of milliseconds is exact.\<close>

definition historyNs :: "FsEnv \<Rightarrow> json \<Rightarrow> u64 option" where
  "historyNs e body =
     (case member_of body ''history_ms'' of
        Some (JNum (Some n)) \<Rightarrow> Some (of_int (n * 1000000))
      | Some (JNum None) \<Rightarrow> Some (fe_truncated e)
      | _ \<Rightarrow> None)"

definition orEmpty :: "string option \<Rightarrow> string" where
  "orEmpty s = (case s of Some t \<Rightarrow> t | None \<Rightarrow> [])"

definition apiDomainsPost :: "WebEnv \<Rightarrow> HttpRequest \<Rightarrow> Web \<Rightarrow> HttpResponse \<times> Web" where
  "apiDomainsPost e req w =
     (case fe_parseJson (we_fs e) (rq_body req) of
        Some (JObj obj) \<Rightarrow>
          (let body = JObj obj; p = getString body ''path'' in
           if p = None \<or> p = Some [] then (jsonError 400 (CHR 0x27 # ''path'' @ CHR 0x27 # '' is required (absolute, inside the scan root)''), w)
           else
             let request = \<lparr>cd_path = the p, cd_label = orEmpty (getString body ''label''),
                   cd_description = orEmpty (getString body ''description''), cd_historyDurationNs = historyNs (we_fs e) body\<rparr>
             in case createDomain (we_fs e) request (domainScanPath (we_activeCfg e)) (w_fs w) of
                  (Inl err, fs) \<Rightarrow> (jsonError 422 (we_createErrorText e err), w\<lparr>w_fs := fs\<rparr>)
                | (Inr created, fs) \<Rightarrow>
                    (jsonResponse 200 (jobj [(''ok'', ''true''), (''path'', quoted (cr_path created)), (''id'', quoted (cr_id created)),
                       (''tmpfs'', jbool (cr_isTmpfs created))]), w\<lparr>w_fs := fs\<rparr>))
      | _ \<Rightarrow> (jsonError 400 ''body must be a JSON object: {path, label, description?, history_ms?}'', w))"

definition flowJson :: "FlowSummary \<Rightarrow> string" where
  "flowJson f =
     jobj [(''id'', quoted (fs_id f)), (''format'', quoted (fs_format f)), (''media_type'', quoted (fs_mediaType f)),
       (''label'', quoted (fs_label f)), (''group_hint'', quoted (fs_groupHint f)), (''width'', jmaybe unum (fs_width f)),
       (''height'', jmaybe unum (fs_height f)), (''rate_numerator'', jmaybe snum (fs_rateNumerator f)),
       (''rate_denominator'', jmaybe snum (fs_rateDenominator f)), (''interlaced'', jbool (fs_interlaced f)),
       (''channel_count'', jmaybe unum (fs_channelCount f)), (''active'', jbool (fs_active f)),
       (''head_index'', jmaybe unum (fs_headIndex f)), (''last_write_time_ns'', jmaybe unum (fs_lastWriteTimeNs f)),
       (''grain_count'', jmaybe unum (fs_grainCount f))]"

definition apiFlowsGet :: "WebEnv \<Rightarrow> HttpRequest \<Rightarrow> Web \<Rightarrow> HttpResponse" where
  "apiFlowsGet e req w =
     (let raw = (case queryParam req ''domain'' of Some d \<Rightarrow> d | None \<Rightarrow> we_domainPath e); cwd = fe_cwd (we_fs e) in
      case weaklyCanonical (w_fs w) cwd (pathOf raw) of
        None \<Rightarrow> jsonError 400 ''invalid domain path''
      | Some canon \<Rightarrow>
          if isEmptyPath canon then jsonError 400 ''invalid domain path''
          else
            let active = (case weaklyCanonical (w_fs w) cwd (pathOf (we_domainPath e)) of
                  Some a \<Rightarrow> \<not> isEmptyPath a \<and> canon = a | None \<Rightarrow> False)
            in if \<not> active \<and> \<not> pathIsUnderRoot (we_fs e) (w_fs w) (textOf canon) (domainScanPath (we_activeCfg e))
               then jsonError 400 ''domain must be inside MXL_DOMAIN_SCAN_PATH''
               else jsonResponse 200 (jobj [(''domain'', quoted (textOf canon)),
                      (''flows'', jarr (map flowJson (listFlows (we_fs e) (w_fs w) (textOf canon))))]))"

subsection \<open>Dispatch\<close>

definition disabledText :: string where
  "disabledText = ''web interface disabled (WEB_ENABLE=false); available endpoints: /livez /readyz /statusz /metrics /api/v1/config/export /api/v1/config/import''"

definition handleRequest :: "WebEnv \<Rightarrow> HttpRequest \<Rightarrow> Web \<Rightarrow> HttpResponse \<times> Web" where
  "handleRequest e req w =
     (let p = rq_path req; get = (rq_method req = ''GET'') in
      if p = ''/livez'' then (livez (we_lastHeartbeat e) (we_now e), w)
      else if p = ''/readyz'' then (readyz (we_activeCfg e) (we_readyGate e) (we_status e) (w_manager w), w)
      else if p = ''/statusz'' then (statusz (we_sdi e) (we_status e) (w_manager w), w)
      else if p = ''/metrics'' then (metricsText (we_metrics e), w)
      else if p = ''/api/v1/config/export'' \<and> get then (jsonResponse 200 (exportDocument (w_store w)), w)
      else if p = ''/api/v1/config/import'' \<and> rq_method req = ''POST'' then apiConfigImport e req w
      else if \<not> webEnable (we_activeCfg e) then (jsonError 404 disabledText, w)
      else if p = ''/'' \<or> p = ''/index.html'' then
        (\<lparr>hr_status = 200, hr_contentType = ''text/html; charset=utf-8'', hr_body = we_indexHtml e\<rparr>, w)
      else if p = ''/api/status'' \<and> get then (apiStatus e w, w)
      else if p = ''/api/card'' \<and> get then (apiCard e, w)
      else if p = ''/api/config'' \<and> get then (apiConfigGet e w, w)
      else if p = ''/api/config'' \<and> rq_method req = ''PUT'' then apiConfigPut e req w
      else if p = ''/api/domains'' \<and> get then (apiDomainsGet e w, w)
      else if p = ''/api/domains'' \<and> rq_method req = ''POST'' then apiDomainsPost e req w
      else if p = ''/api/flows'' \<and> get then (apiFlowsGet e req w, w)
      else (jsonError 404 ''not found'', w))"

text \<open>A connection of the web server.\<close>

definition webConnection :: "WebEnv \<Rightarrow> string list \<Rightarrow> int list \<Rightarrow> Web \<Rightarrow> string \<times> Web" where
  "webConnection e = handleConnection (handleRequest e)"

end
