(* ===== verification/WebProps.thy ===== *)
theory WebProps
  imports WebApi ManagerProps StoreProps ScanProps
begin

text \<open>
  Properties of the web interface: which requests change which part of the program, what a change of the
  configuration leaves behind, and that the interface writes to the file system only below the scan root.
\<close>

subsection \<open>Which request changes what\<close>

lemma applyUpdate_frame:
  "applyUpdate e cfg w = (resp, w') \<Longrightarrow> w_store w' = w_store w \<and> w_disk w' = w_disk w \<and> w_fs w' = w_fs w"
  by (auto simp: applyUpdate_def Let_def split: prod.splits sum.splits)

lemma apiConfigPut_frame: "apiConfigPut e req w = (resp, w') \<Longrightarrow> w_fs w' = w_fs w"
  by (auto simp: apiConfigPut_def split: option.splits json.splits sum.splits prod.splits if_splits dest!: applyUpdate_frame)

lemma apiConfigImport_frame: "apiConfigImport e req w = (resp, w') \<Longrightarrow> w_fs w' = w_fs w \<and> w_manager w' = w_manager w"
  by (auto simp: apiConfigImport_def split: sum.splits prod.splits)

lemma apiDomainsPost_frame:
  "apiDomainsPost e req w = (resp, w') \<Longrightarrow>
     w_store w' = w_store w \<and> w_disk w' = w_disk w \<and> w_manager w' = w_manager w \<and> w_restartRequired w' = w_restartRequired w"
  by (auto simp: apiDomainsPost_def Let_def split: option.splits json.splits sum.splits prod.splits if_splits)

lemma handleRequest_cases:
  assumes "handleRequest e req w = (resp, w')"
  shows "w' = w \<or>
    (rq_path req = ''/api/v1/config/import'' \<and> rq_method req = ''POST'' \<and> apiConfigImport e req w = (resp, w')) \<or>
    (webEnable (we_activeCfg e) \<and> rq_path req = ''/api/config'' \<and> rq_method req = ''PUT'' \<and> apiConfigPut e req w = (resp, w')) \<or>
    (webEnable (we_activeCfg e) \<and> rq_path req = ''/api/domains'' \<and> rq_method req = ''POST'' \<and> apiDomainsPost e req w = (resp, w'))"
  using assms unfolding handleRequest_def Let_def by (auto split: if_splits)


subsection \<open>Changing the configuration\<close>

text \<open>What runs is what is configured.\<close>

definition runs :: "Web \<Rightarrow> Config \<Rightarrow> bool" where
  "runs w cfg \<longleftrightarrow> mgr_ok (w_manager w) \<and>
     (\<forall>i. map_of (cm_entries (w_manager w)) i = map_option (runEntry (cm_started (w_manager w))) (requested (channels cfg) i))"

lemma loaded_distinct: "loadConfig parseJson isIpLiteral env = Inr cfg \<Longrightarrow> distinct (map ch_index (channels cfg))"
  using loadConfig_ok[of parseJson isIpLiteral env cfg]
  by (auto simp: channels_ok_def strict_sorted_iff)

lemma applyUpdate_outcome:
  assumes "mgr_ok (w_manager w)" and "distinct (map ch_index (channels cfg))" and "applyUpdate e cfg w = (resp, w')"
  shows "(hr_status resp = 422 \<and> w' = w) \<or>
    (hr_status resp = 200 \<and> runs w' cfg \<and> cm_started (w_manager w') = cm_started (w_manager w) \<and>
     (w_restartRequired w' \<longleftrightarrow> w_restartRequired w \<or> \<not> globalPartEquals cfg (we_activeCfg e)))"
  using applyChannels_spec[OF assms(1,2)] assms(3)
  by (auto simp: applyUpdate_def runs_def Let_def jsonError_def jsonResponse_def putResponse_def split: prod.splits sum.splits)

lemma config_put_facts:
  assumes "store_ok (w_store w)" and "mgr_ok (w_manager w)" and "apiConfigPut e req w = (resp, w')"
  shows "store_ok (w_store w') \<and> mgr_ok (w_manager w') \<and>
    ((hr_status resp = 400 \<and> w' = w) \<or>
     (hr_status resp = 422 \<and> w_manager w' = w_manager w \<and> w_restartRequired w' = w_restartRequired w \<and>
        ((w_store w' = w_store w \<and> w_disk w' = w_disk w) \<or> w_disk w' = Contents (renderFile (cs_fileLayer (w_store w'))))) \<or>
     (hr_status resp = 200 \<and> w_disk w' = Contents (renderFile (cs_fileLayer (w_store w'))) \<and>
        (\<exists>cfg. effectiveConfig (fe_parseJson (we_fs e)) (we_isIpLiteral e) (w_store w') = Inr cfg \<and> runs w' cfg \<and>
          (w_restartRequired w' \<longleftrightarrow> w_restartRequired w \<or> \<not> globalPartEquals cfg (we_activeCfg e)))))"
proof -
  consider (bad) m where "resp = jsonError 400 m" "w' = w"
    | (upd) changes where "(case update (fe_parseJson (we_fs e)) (we_isIpLiteral e) (we_io e) changes (w_store w) (w_disk w) of
                      (Inl err, st, disk) \<Rightarrow> (jsonError 422 (we_errorText e err), w\<lparr>w_store := st, w_disk := disk\<rparr>)
                    | (Inr u, st, disk) \<Rightarrow> applyUpdate e (ur_config u) (w\<lparr>w_store := st, w_disk := disk\<rparr>)) = (resp, w')"
    using assms(3) by (auto simp: apiConfigPut_def split: option.splits json.splits sum.splits if_splits)
  then show ?thesis
  proof cases
    case bad
    then show ?thesis using assms by (simp add: jsonError_def jsonResponse_def)
  next
    case upd
    obtain res st disk where u: "update (fe_parseJson (we_fs e)) (we_isIpLiteral e) (we_io e) changes (w_store w) (w_disk w) = (res, st, disk)"
      using prod_cases3 by blast
    have st: "store_ok st" by (rule update_ok[OF assms(1) u])
    show ?thesis
    proof (cases res)
      case (Inl err)
      have "st = w_store w \<and> disk = w_disk w" by (rule update_Inl[OF u[unfolded Inl]])
      moreover have "resp = jsonError 422 (we_errorText e err)" "w' = w\<lparr>w_store := st, w_disk := disk\<rparr>"
        using upd u Inl by simp_all
      ultimately show ?thesis using assms(1,2) by (simp add: jsonError_def jsonResponse_def)
    next
      case (Inr r)
      note i = update_Inr[OF u[unfolded Inr]]
      let ?w = "w\<lparr>w_store := st, w_disk := disk\<rparr>"
      have a: "applyUpdate e (ur_config r) ?w = (resp, w')" using upd u Inr by simp
      have ld: "loadConfig (fe_parseJson (we_fs e)) (we_isIpLiteral e) (mergedReader (cs_env (w_store w)) (cs_fileLayer st)) = Inr (ur_config r)"
        using i by blast
      have env: "cs_env st = cs_env (w_store w)" using i by simp
      have eff: "effectiveConfig (fe_parseJson (we_fs e)) (we_isIpLiteral e) st = Inr (ur_config r)"
        using ld by (simp add: effectiveConfig_def env)
      have disk: "disk = Contents (renderFile (cs_fileLayer st))" using i by blast
      note f = applyUpdate_frame[OF a]
      have "mgr_ok (w_manager ?w)" using assms(2) by simp
      from applyUpdate_outcome[OF this loaded_distinct[OF ld] a]
      consider (refused) "hr_status resp = 422" "w' = ?w"
        | (applied) "hr_status resp = 200" "runs w' (ur_config r)"
            "w_restartRequired w' \<longleftrightarrow> w_restartRequired w \<or> \<not> globalPartEquals (ur_config r) (we_activeCfg e)"
        by auto
      then show ?thesis
      proof cases
        case refused
        then show ?thesis using st disk assms(2) by simp
      next
        case applied
        then show ?thesis using f st disk eff by (simp add: runs_def)
      qed
    qed
  qed
qed


text \<open>A change of a port over a program that runs two channels.\<close>

definition demoBody :: "string \<Rightarrow> json option" where
  "demoBody s = (if s = ''change'' then Some (JObj [(''set'', JObj [(''NMOS_PORT'', JStr ''3300'')]), (''unset'', JArr [JStr ''WEB_PORT''])])
     else None)"

definition demoWebEnv :: WebEnv where
  "demoWebEnv = \<lparr>we_fs = demoFsEnv\<lparr>fe_parseJson := demoBody\<rparr>, we_isIpLiteral = noIp, we_io = Written, we_now = 0, we_lastHeartbeat = 0, we_readyGate = None,
     we_status = (\<lambda>_. newStatus), we_sdi = (\<lambda>_. \<lparr>so_smpteLevelA = None, so_supportsSmpteLevelA = None,
       so_output1080pAsPsF = None, so_linkConfiguration = None, so_requestedLevel = None\<rparr>), we_metrics = [], we_indexHtml = [], we_version = [], we_mxlVersion = None,
     we_dlVersion = [], we_cardName = [], we_cardIdText = [], we_subDevices = [], we_domainPath = [], we_domainTmpfs = True,
     we_help = (\<lambda>_. []), we_activeCfg = defaultConfig, we_startedAt = 0, we_errorText = (\<lambda>_. []), we_cardErrorText = (\<lambda>_. []),
     we_createErrorText = (\<lambda>_. [])\<rparr>"

definition demoWeb :: Web where
  "demoWeb = \<lparr>w_store = demoStore, w_disk = Absent, w_manager = demoManager, w_fs = demoFS, w_restartRequired = False\<rparr>"

definition demoPut :: HttpRequest where
  "demoPut = \<lparr>rq_method = ''PUT'', rq_path = ''/api/config'', rq_query = [], rq_body = ''change''\<rparr>"

lemma demoPut_accepted: "hr_status (fst (apiConfigPut demoWebEnv demoPut demoWeb)) = 200"
  by code_simp


text \<open>The restart flag is not set when the change is stored but the card refuses the channels, although a global
  setting may have changed with it.\<close>

lemma refused_change_forgets_restart:
  assumes "applyChannels (channels cfg) (w_manager w) = (Inl err, m)" and "\<not> w_restartRequired w"
  shows "\<not> w_restartRequired (snd (applyUpdate e cfg w))"
  using assms by (simp add: applyUpdate_def Let_def)

subsection \<open>The file system\<close>

lemma apiDomainsPost_fs:
  "apiDomainsPost e req w = (resp, w') \<Longrightarrow> w_fs w' \<noteq> w_fs w \<Longrightarrow>
     \<exists>path label description history result obj.
       createDomain (we_fs e) \<lparr>cd_path = path, cd_label = label, cd_description = description, cd_historyDurationNs = history\<rparr>
         (domainScanPath (we_activeCfg e)) (w_fs w) = (result, w_fs w') \<and>
       fe_parseJson (we_fs e) (rq_body req) = Some (JObj obj) \<and> getString (JObj obj) ''path'' = Some path"
  by (force simp: apiDomainsPost_def Let_def split: option.splits json.splits sum.splits prod.splits if_splits)

text \<open>\<open>GET /api/flows\<close> lists the flows of the active domain or of a directory below the scan root only.\<close>

lemma flows_confined:
  assumes "hr_status (apiFlowsGet e req w) = 200"
  shows "\<exists>canon. weaklyCanonical (w_fs w) (fe_cwd (we_fs e)) (pathOf (case queryParam req ''domain'' of Some d \<Rightarrow> d | None \<Rightarrow> we_domainPath e)) = Some canon \<and>
    (weaklyCanonical (w_fs w) (fe_cwd (we_fs e)) (pathOf (we_domainPath e)) = Some canon \<or>
     pathIsUnderRoot (we_fs e) (w_fs w) (textOf canon) (domainScanPath (we_activeCfg e)))"
  using assms by (auto simp: apiFlowsGet_def Let_def jsonError_def jsonResponse_def split: option.splits if_splits)

end
