(* ===== verification/Metrics.thy ===== *)
theory Metrics
  imports Complex_Main Json OrdMap "HOL-Library.Product_Lexorder"
begin

text \<open>
  \<open>src/ops/metrics.hpp\<close> and \<open>metrics.cpp\<close>: counters, gauges, histograms, the registry and its text.  A double
  is the rational number it stands for (the values are finite); the rounded addition and the format \<open>%g\<close> are
  parameters.  A reference to an instrument is its name and the text of its labels, the key under which the
  registry keeps it.
\<close>

type_synonym double = rat

type_synonym labels = "(string \<times> string) list"

subsection \<open>Histograms\<close>

record Histogram =
  h_bounds :: "double list"
  h_counts :: "u64 list"
  h_count :: u64
  h_sum :: double

record Snapshot =
  sn_bounds :: "double list"
  sn_bucketCounts :: "u64 list"
  sn_count :: u64
  sn_sum :: double

definition newHistogram :: "double list \<Rightarrow> Histogram" where
  "newHistogram buckets =
     \<lparr>h_bounds = sort buckets, h_counts = replicate (length buckets + 1) 0, h_count = 0, h_sum = 0\<rparr>"

text \<open>The loop that finds the bucket.\<close>

fun bucketIndex :: "double \<Rightarrow> double list \<Rightarrow> nat" where
  "bucketIndex v [] = 0"
| "bucketIndex v (b # bs) = (if v > b then Suc (bucketIndex v bs) else 0)"

definition observe :: "(double \<Rightarrow> double \<Rightarrow> double) \<Rightarrow> double \<Rightarrow> Histogram \<Rightarrow> Histogram" where
  "observe fadd v h =
     (let i = bucketIndex v (h_bounds h) in
      h\<lparr>h_counts := (h_counts h)[i := h_counts h ! i + 1], h_count := h_count h + 1, h_sum := fadd (h_sum h) v\<rparr>)"

fun cumulate :: "u64 \<Rightarrow> u64 list \<Rightarrow> u64 list" where
  "cumulate acc [] = []"
| "cumulate acc (c # cs) = (acc + c) # cumulate (acc + c) cs"

definition snapshot :: "Histogram \<Rightarrow> Snapshot" where
  "snapshot h =
     \<lparr>sn_bounds = h_bounds h, sn_bucketCounts = cumulate 0 (take (length (h_bounds h)) (h_counts h)),
      sn_count = h_count h, sn_sum = h_sum h\<rparr>"

subsection \<open>The registry\<close>

record Family =
  fa_help :: string
  fa_type :: string
  fa_counters :: "(string \<times> double) list"
  fa_gauges :: "(string \<times> double) list"
  fa_histograms :: "(string \<times> Histogram) list"

type_synonym Registry = "(string \<times> Family) list"

definition labelText :: "string \<times> string \<Rightarrow> string" where
  "labelText l = fst l @ ''='' @ quoted (snd l)"

definition labelString :: "labels \<Rightarrow> string" where
  "labelString ls = (if ls = [] then [] else ''{'' @ commaJoin (map labelText (sort ls)) @ ''}'')"

text \<open>\<open>_families[name]\<close>: a family that is not there yet is empty.\<close>

definition familyOf :: "string \<Rightarrow> Registry \<Rightarrow> Family" where
  "familyOf name reg =
     (case map_of reg name of
        Some f \<Rightarrow> f
      | None \<Rightarrow> \<lparr>fa_help = [], fa_type = [], fa_counters = [], fa_gauges = [], fa_histograms = []\<rparr>)"

text \<open>An instrument is created once.\<close>

definition slot :: "string \<Rightarrow> 'v \<Rightarrow> (string \<times> 'v) list \<Rightarrow> (string \<times> 'v) list" where
  "slot key new m = (if map_of m key = None then putKey key new m else m)"

definition registerCounter :: "string \<Rightarrow> string \<Rightarrow> labels \<Rightarrow> Registry \<Rightarrow> Registry" where
  "registerCounter name help ls reg =
     (let f = (familyOf name reg)\<lparr>fa_help := help, fa_type := ''counter''\<rparr> in
      putKey name (f\<lparr>fa_counters := slot (labelString ls) 0 (fa_counters f)\<rparr>) reg)"

definition registerGauge :: "string \<Rightarrow> string \<Rightarrow> labels \<Rightarrow> Registry \<Rightarrow> Registry" where
  "registerGauge name help ls reg =
     (let f = (familyOf name reg)\<lparr>fa_help := help, fa_type := ''gauge''\<rparr> in
      putKey name (f\<lparr>fa_gauges := slot (labelString ls) 0 (fa_gauges f)\<rparr>) reg)"

definition registerHistogram :: "string \<Rightarrow> string \<Rightarrow> double list \<Rightarrow> labels \<Rightarrow> Registry \<Rightarrow> Registry" where
  "registerHistogram name help buckets ls reg =
     (let f = (familyOf name reg)\<lparr>fa_help := help, fa_type := ''histogram''\<rparr> in
      putKey name (f\<lparr>fa_histograms := slot (labelString ls) (newHistogram buckets) (fa_histograms f)\<rparr>) reg)"

text \<open>The operations of an instrument, through the reference the registry gave out.\<close>

definition changeAt :: "string \<Rightarrow> ('v \<Rightarrow> 'v) \<Rightarrow> (string \<times> 'v) list \<Rightarrow> (string \<times> 'v) list" where
  "changeAt key f m = (case map_of m key of Some v \<Rightarrow> putKey key (f v) m | None \<Rightarrow> m)"

definition incCounter :: "(double \<Rightarrow> double \<Rightarrow> double) \<Rightarrow> string \<Rightarrow> string \<Rightarrow> double \<Rightarrow> Registry \<Rightarrow> Registry" where
  "incCounter fadd name key v = changeAt name (\<lambda>f. f\<lparr>fa_counters := changeAt key (\<lambda>cur. fadd cur v) (fa_counters f)\<rparr>)"

definition setGauge :: "string \<Rightarrow> string \<Rightarrow> double \<Rightarrow> Registry \<Rightarrow> Registry" where
  "setGauge name key v = changeAt name (\<lambda>f. f\<lparr>fa_gauges := changeAt key (\<lambda>_. v) (fa_gauges f)\<rparr>)"

definition observeAt :: "(double \<Rightarrow> double \<Rightarrow> double) \<Rightarrow> string \<Rightarrow> string \<Rightarrow> double \<Rightarrow> Registry \<Rightarrow> Registry" where
  "observeAt fadd name key v = changeAt name (\<lambda>f. f\<lparr>fa_histograms := changeAt key (observe fadd v) (fa_histograms f)\<rparr>)"

definition latencyBuckets :: "double list" where
  "latencyBuckets = map (\<lambda>n. of_int n / 100000) [10, 25, 50, 100, 250, 500, 1000, 2500, 5000, 10000]"

subsection \<open>The text\<close>

text \<open>A whole number that fits 64 bits is written as one.\<close>

definition formatDouble :: "(double \<Rightarrow> string) \<Rightarrow> double \<Rightarrow> string" where
  "formatDouble general v =
     (if v = of_int \<lfloor>v\<rfloor> \<and> - (2 ^ 63) \<le> \<lfloor>v\<rfloor> \<and> \<lfloor>v\<rfloor> < 2 ^ 63 then int_to_string \<lfloor>v\<rfloor> else general v)"

definition newline :: string where "newline = [CHR 0x0A]"

definition withLe :: "string \<Rightarrow> string \<Rightarrow> string" where
  "withLe ls le =
     (if ls = [] then ''{le='' @ CHR 0x22 # le @ CHR 0x22 # ''}''
      else butlast ls @ '',le='' @ CHR 0x22 # le @ CHR 0x22 # ''}'')"

definition renderHistogram :: "(double \<Rightarrow> string) \<Rightarrow> string \<Rightarrow> string \<Rightarrow> Histogram \<Rightarrow> string" where
  "renderHistogram general name ls h =
     (let s = snapshot h in
      concat (map (\<lambda>(b, c). name @ ''_bucket'' @ withLe ls (formatDouble general b) @ '' '' @ unum c @ newline)
        (zip (sn_bounds s) (sn_bucketCounts s))) @
      name @ ''_bucket'' @ withLe ls ''+Inf'' @ '' '' @ unum (sn_count s) @ newline @
      name @ ''_sum'' @ ls @ '' '' @ formatDouble general (sn_sum s) @ newline @
      name @ ''_count'' @ ls @ '' '' @ unum (sn_count s) @ newline)"

definition renderFamily :: "(double \<Rightarrow> string) \<Rightarrow> string \<times> Family \<Rightarrow> string" where
  "renderFamily general entry =
     (case entry of (name, f) \<Rightarrow>
        ''# HELP '' @ name @ '' '' @ fa_help f @ newline @ ''# TYPE '' @ name @ '' '' @ fa_type f @ newline @
        concat (map (\<lambda>(ls, v). name @ ls @ '' '' @ formatDouble general v @ newline) (fa_counters f)) @
        concat (map (\<lambda>(ls, v). name @ ls @ '' '' @ formatDouble general v @ newline) (fa_gauges f)) @
        concat (map (\<lambda>(ls, h). renderHistogram general name ls h) (fa_histograms f)))"

definition render :: "(double \<Rightarrow> string) \<Rightarrow> Registry \<Rightarrow> string" where
  "render general reg = concat (map (renderFamily general) reg)"

end
