(* ===== verification/JsonProps.thy ===== *)
theory JsonProps
  imports Json
begin

text \<open>
  A reader for JSON strings, after RFC 8259, and the proof that it reads back what \<open>jsonEscape\<close> wrote: the
  escaped text of every string, whatever its bytes, ends at the closing quote and not before.
\<close>

fun hexValue :: "char \<Rightarrow> nat option" where
  "hexValue c =
     (let n = of_char c :: nat in
      if 48 \<le> n \<and> n \<le> 57 then Some (n - 48)
      else if 97 \<le> n \<and> n \<le> 102 then Some (n - 87)
      else if 65 \<le> n \<and> n \<le> 70 then Some (n - 55)
      else None)"

declare hexValue.simps [simp del]

text \<open>A code unit below 256, all that the writer produces.\<close>

definition readUnicode :: "string \<Rightarrow> (char \<times> string) option" where
  "readUnicode s =
     (case s of
        a # b # c # d # rest \<Rightarrow>
          (case (hexValue a, hexValue b, hexValue c, hexValue d) of
             (Some 0, Some 0, Some x, Some y) \<Rightarrow> Some (char_of (16 * x + y), rest)
           | _ \<Rightarrow> None)
      | _ \<Rightarrow> None)"

text \<open>One character of a string: plain or escaped.\<close>

definition readChar :: "string \<Rightarrow> (char \<times> string) option" where
  "readChar s =
     (case s of
        [] \<Rightarrow> None
      | c # rest \<Rightarrow>
          if c \<noteq> CHR 0x5C then (if c = CHR 0x22 \<or> (of_char c :: nat) < 32 then None else Some (c, rest))
          else (case rest of
                  [] \<Rightarrow> None
                | d # rest \<Rightarrow>
                    if d = CHR 0x22 \<or> d = CHR 0x5C \<or> d = CHR ''/'' then Some (d, rest)
                    else if d = CHR ''n'' then Some (CHR 0x0A, rest)
                    else if d = CHR ''r'' then Some (CHR 0x0D, rest)
                    else if d = CHR ''t'' then Some (CHR 0x09, rest)
                    else if d = CHR ''b'' then Some (CHR 0x08, rest)
                    else if d = CHR ''f'' then Some (CHR 0x0C, rest)
                    else if d = CHR ''u'' then readUnicode rest
                    else None))"

lemma readUnicode_shorter: "readUnicode s = Some (c, rest) \<Longrightarrow> length rest < length s"
  by (auto simp: readUnicode_def split: list.splits option.splits nat.splits)

lemma readChar_shorter: "readChar s = Some (c, rest) \<Longrightarrow> length rest < length s"
  by (auto simp: readChar_def split: list.splits if_splits dest: readUnicode_shorter)

text \<open>The characters up to the closing quote, and what follows it.\<close>

function readChars :: "string \<Rightarrow> (string \<times> string) option" where
  "readChars s =
     (case s of
        [] \<Rightarrow> None
      | c # rest \<Rightarrow>
          if c = CHR 0x22 then Some ([], rest)
          else (case readChar s of
                  None \<Rightarrow> None
                | Some (d, rest) \<Rightarrow> map_option (\<lambda>(t, r). (d # t, r)) (readChars rest)))"
  by pat_completeness auto
termination by (relation "measure length") (auto dest: readChar_shorter)

declare readChars.simps [simp del]

definition readString :: "string \<Rightarrow> (string \<times> string) option" where
  "readString s = (case s of c # rest \<Rightarrow> if c = CHR 0x22 then readChars rest else None | [] \<Rightarrow> None)"

lemma hexValue_hexChar: "d < 16 \<Longrightarrow> hexValue (hexChar d) = Some d"
  by (auto simp: hexValue.simps hexChar_def Let_def)

lemma hexValue_zero: "hexValue (CHR ''0'') = Some 0"
  by (simp add: hexValue.simps)

lemma readChar_escape: "readChar (escapeChar c @ rest) = Some (c, rest)"
proof (cases "c = CHR 0x22 \<or> c = CHR 0x5C \<or> c = CHR 0x0A \<or> c = CHR 0x0D \<or> c = CHR 0x09")
  case True
  then show ?thesis by (auto simp: readChar_def escapeChar_def)
next
  case False
  show ?thesis
  proof (cases "(of_char c :: nat) < 32")
    case True
    let ?n = "of_char c :: nat"
    have "hexValue (hexChar (?n div 16)) = Some (?n div 16)" "hexValue (hexChar (?n mod 16)) = Some (?n mod 16)"
      using True by (simp_all add: hexValue_hexChar)
    then have "readUnicode (''00'' @ [hexChar (?n div 16), hexChar (?n mod 16)] @ rest) = Some (c, rest)"
      by (simp add: readUnicode_def hexValue_zero)
    then show ?thesis using False True by (simp add: readChar_def escapeChar_def)
  next
    case large: False
    then show ?thesis using False by (simp add: readChar_def escapeChar_def)
  qed
qed

lemma escapeChar_head: "\<exists>d t. escapeChar c = d # t \<and> d \<noteq> CHR 0x22"
  by (auto simp: escapeChar_def)

lemma readChars_escape: "readChars (jsonEscape s @ CHR 0x22 # rest) = Some (s, rest)"
proof (induction s)
  case Nil
  then show ?case by (simp add: jsonEscape_def readChars.simps)
next
  case (Cons c s)
  have e: "jsonEscape (c # s) @ CHR 0x22 # rest = escapeChar c @ (jsonEscape s @ CHR 0x22 # rest)"
    by (simp add: jsonEscape_def)
  obtain d t where dt: "escapeChar c = d # t" "d \<noteq> CHR 0x22" using escapeChar_head by blast
  have "readChar (d # t @ jsonEscape s @ CHR 0x22 # rest) = Some (c, jsonEscape s @ CHR 0x22 # rest)"
    using readChar_escape[of c "jsonEscape s @ CHR 0x22 # rest"] by (simp add: dt(1))
  then show ?case unfolding e dt(1) by (subst readChars.simps) (simp add: dt(2) Cons.IH)
qed

lemma readString_quoted: "readString (quoted s @ rest) = Some (s, rest)"
  by (simp add: readString_def quoted_def readChars_escape)

text \<open>So two quoted strings followed by anything agree only if the strings and the rests do.\<close>

lemma quoted_append_inject [simp]: "quoted s @ r = quoted s' @ r' \<longleftrightarrow> s = s' \<and> r = r'"
  by (metis readString_quoted option.inject prod.inject)

lemma quoted_inject [simp]: "quoted s = quoted s' \<longleftrightarrow> s = s'"
  using quoted_append_inject[of s "[]" s' "[]"] by simp

end
