(* ===== verification/MetricsProps.thy ===== *)
theory MetricsProps
  imports Metrics JsonProps "HOL-Library.Multiset"
begin

text \<open>
  A histogram against its definition: how many observations are at most a bound.  Two label lists denote one time
  series exactly when they are permutations of each other.
\<close>

subsection \<open>Histograms\<close>

definition hits :: "(double \<Rightarrow> bool) \<Rightarrow> double list \<Rightarrow> u64" where
  "hits P vs = of_nat (length (filter P vs))"

lemma hits_append: "hits P (vs @ [v]) = (if P v then hits P vs + 1 else hits P vs)"
  by (simp add: hits_def)

lemma hits_or: "(\<And>v. \<not> (P v \<and> Q v)) \<Longrightarrow> hits (\<lambda>v. P v \<or> Q v) vs = hits P vs + hits Q vs"
  by (induction vs) (auto simp: hits_def)

lemma hits_cong: "(\<And>v. P v = Q v) \<Longrightarrow> hits P vs = hits Q vs"
  by presburger

lemma bucketIndex_le_length: "bucketIndex v bs \<le> length bs"
  by (induction bs) auto

lemma bucketIndex_le: "sorted bs \<Longrightarrow> k < length bs \<Longrightarrow> bucketIndex v bs \<le> k \<longleftrightarrow> v \<le> bs ! k"
proof (induction bs arbitrary: k)
  case (Cons b bs)
  show ?case
  proof (cases k)
    case (Suc j)
    then have b: "b \<le> bs ! j" using Cons.prems by simp
    show ?thesis
    proof (cases "v \<le> b")
      case True
      then have "v \<le> bs ! j" using b by (rule order_trans)
      then show ?thesis using True Suc by simp
    next
      case False
      then show ?thesis using Cons Suc by simp
    qed
  qed auto
qed simp

text \<open>The state after some observations.\<close>

lemma observe_all:
  assumes "h = fold (observe fadd) vs (newHistogram buckets)"
  shows "h_bounds h = sort buckets \<and> h_counts h = map (\<lambda>i. hits (\<lambda>v. bucketIndex v (sort buckets) = i) vs) [0..<length buckets + 1] \<and>
    h_count h = hits (\<lambda>_. True) vs \<and> h_sum h = fold (\<lambda>v s. fadd s v) vs 0"
  using assms
proof (induction vs arbitrary: h rule: rev_induct)
  case Nil
  then show ?case by (auto simp: newHistogram_def hits_def map_replicate_const)
next
  case (snoc v vs)
  define h0 where "h0 = fold (observe fadd) vs (newHistogram buckets)"
  have ih: "h_bounds h0 = sort buckets" "h_counts h0 = map (\<lambda>i. hits (\<lambda>v. bucketIndex v (sort buckets) = i) vs) [0..<length buckets + 1]"
    "h_count h0 = hits (\<lambda>_. True) vs" "h_sum h0 = fold (\<lambda>v s. fadd s v) vs 0"
    using snoc.IH[OF h0_def] by auto
  have h: "h = observe fadd v h0" using snoc.prems by (simp add: h0_def)
  let ?i = "bucketIndex v (sort buckets)"
  have i: "?i < length buckets + 1" using bucketIndex_le_length[of v "sort buckets"] by simp
  have "h_counts h = map (\<lambda>i. hits (\<lambda>v. bucketIndex v (sort buckets) = i) (vs @ [v])) [0..<length buckets + 1]"
    using i unfolding h observe_def Let_def ih(1) by (intro nth_equalityI) (auto simp: ih(2) hits_append nth_list_update simp del: upt_Suc)
  then show ?case using ih by (auto simp: h observe_def Let_def hits_append)
qed

lemma cumulate_sums: "length (cumulate acc cs) = length cs \<and> (k < length cs \<longrightarrow> cumulate acc cs ! k = acc + sum_list (take (Suc k) cs))"
proof (induction cs arbitrary: acc k)
  case (Cons c cs)
  then show ?case by (cases k) (auto simp: add.assoc)
qed simp

lemma sum_hits: "sum_list (map (\<lambda>i. hits (\<lambda>v. f v = i) vs) [0..<n]) = hits (\<lambda>v. f v < (n :: nat)) vs"
proof (induction n)
  case (Suc n)
  have "hits (\<lambda>v. f v < Suc n) vs = hits (\<lambda>v. f v < n \<or> f v = n) vs" by (rule hits_cong) auto
  also have "\<dots> = hits (\<lambda>v. f v < n) vs + hits (\<lambda>v. f v = n) vs" by (rule hits_or) auto
  finally show ?case using Suc by simp
qed (simp add: hits_def)

text \<open>C38. What a histogram shows: its bounds are the buckets in ascending order, and whatever was observed, in
  whatever order, the number shown at a bound is the number of observations that are at most that bound, the total
  is the number of observations and the sum is that of the observations, added in their order.\<close>

theorem histogram_exact:
  "snapshot (fold (observe fadd) vs (newHistogram buckets)) =
     \<lparr>sn_bounds = sort buckets, sn_bucketCounts = map (\<lambda>b. of_nat (length (filter (\<lambda>v. v \<le> b) vs))) (sort buckets),
      sn_count = of_nat (length vs), sn_sum = fold (\<lambda>v s. fadd s v) vs 0\<rparr>"
proof -
  define h where "h = fold (observe fadd) vs (newHistogram buckets)"
  note o = observe_all[OF h_def]
  let ?cs = "take (length buckets) (h_counts h)"
  have cs: "?cs = map (\<lambda>i. hits (\<lambda>v. bucketIndex v (sort buckets) = i) vs) [0..<length buckets]" using o by simp
  have "cumulate 0 ?cs = map (\<lambda>b. hits (\<lambda>v. v \<le> b) vs) (sort buckets)"
  proof (rule nth_equalityI)
    show "length (cumulate 0 ?cs) = length (map (\<lambda>b. hits (\<lambda>v. v \<le> b) vs) (sort buckets))"
      using cumulate_sums[of 0 ?cs] cs by simp
    fix k assume "k < length (cumulate 0 ?cs)"
    then have k: "k < length buckets" using cumulate_sums[of 0 ?cs] cs by simp
    have "take (Suc k) ?cs = map (\<lambda>i. hits (\<lambda>v. bucketIndex v (sort buckets) = i) vs) [0..<Suc k]"
      using k by (simp add: cs take_map del: upt_Suc)
    then have "cumulate 0 ?cs ! k = hits (\<lambda>v. bucketIndex v (sort buckets) < Suc k) vs"
      using cumulate_sums[of 0 ?cs k] k sum_hits[of _ vs "Suc k"] by (simp add: cs del: upt_Suc)
    also have "\<dots> = hits (\<lambda>v. v \<le> sort buckets ! k) vs"
      using k by (intro hits_cong) (simp add: bucketIndex_le[symmetric] less_Suc_eq_le)
    finally show "cumulate 0 ?cs ! k = map (\<lambda>b. hits (\<lambda>v. v \<le> b) vs) (sort buckets) ! k" using k by simp
  qed
  then show ?thesis using o unfolding h_def[symmetric] by (simp add: snapshot_def hits_def)
qed

subsection \<open>Series\<close>

definition plainKeys :: "labels \<Rightarrow> bool" where
  "plainKeys ls \<longleftrightarrow> list_all (\<lambda>l. CHR ''='' \<notin> set (fst l)) ls"

lemma append_mark_inject: "c \<notin> set a \<Longrightarrow> c \<notin> set b \<Longrightarrow> a @ c # r = b @ c # r' \<longleftrightarrow> a = b \<and> r = r'"
proof (induction a arbitrary: b)
  case Nil
  then show ?case by (cases b) auto
next
  case (Cons x a)
  then show ?case by (cases b) auto
qed

lemma labelText_inject:
  assumes "CHR ''='' \<notin> set (fst l)" "CHR ''='' \<notin> set (fst l')"
  shows "labelText l @ r = labelText l' @ r' \<longleftrightarrow> l = l' \<and> r = r'"
  using assms append_mark_inject[of "CHR ''=''" "fst l" "fst l'" "quoted (snd l) @ r" "quoted (snd l') @ r'"]
  by (auto simp: labelText_def prod_eq_iff)

lemma commaJoin_Cons: "commaJoin (x # xs) = x @ (if xs = [] then [] else '','' @ commaJoin xs)"
  by (cases xs) auto

lemma labelText_nonempty [simp]: "labelText l \<noteq> []" "labelText l @ r \<noteq> []"
  by (simp_all add: labelText_def)

lemma commaJoin_labels:
  "plainKeys a \<Longrightarrow> plainKeys b \<Longrightarrow> commaJoin (map labelText a) @ ''}'' = commaJoin (map labelText b) @ ''}'' \<longleftrightarrow> a = b"
proof (induction a arbitrary: b)
  case Nil
  show ?case by (cases b) (auto simp: commaJoin_Cons labelText_def quoted_def)
next
  case (Cons x a)
  show ?case
  proof (cases b)
    case Nil
    then show ?thesis by (auto simp: commaJoin_Cons labelText_def quoted_def)
  next
    case (Cons y b')
    let ?rest = "\<lambda>c. (if map labelText c = [] then [] else '','' @ commaJoin (map labelText c)) @ ''}''"
    have "commaJoin (map labelText (x # a)) @ ''}'' = commaJoin (map labelText (y # b')) @ ''}'' \<longleftrightarrow>
        x = y \<and> ?rest a = ?rest b'"
      using labelText_inject[of x y "?rest a" "?rest b'"] Cons.prems Cons by (simp add: commaJoin_Cons plainKeys_def)
    moreover have "?rest a = ?rest b' \<longleftrightarrow> a = b'" using Cons.IH[of b'] Cons.prems Cons by (auto simp: plainKeys_def)
    ultimately show ?thesis using Cons by simp
  qed
qed

lemma series_same:
  assumes "plainKeys a" and "plainKeys b"
  shows "labelString a = labelString b \<longleftrightarrow> mset a = mset b"
proof -
  have p: "plainKeys (sort a)" "plainKeys (sort b)" using assms by (simp_all add: plainKeys_def list_all_iff)
  have "sort a = sort b \<longleftrightarrow> mset a = mset b" by (metis mset_sort sort_key_def properties_for_sort sorted_sort)
  then show ?thesis using commaJoin_labels[OF p] by (auto simp: labelString_def)
qed

text \<open>Two label lists name one time series exactly when one is a permutation of the other: the order of the
  labels does not matter, and no choice of label values, quotes and braces included, makes two different lists collide.
  The keys are plain names.\<close>

theorem series_identity:
  assumes "plainKeys a" and "plainKeys b"
  shows "labelString a = labelString b \<longleftrightarrow> mset a = mset b"
  by (rule series_same[OF assms])

theorem series_identity_witness:
  "labelString [(''flow_id'', ''a''), (''channel'', [CHR 0x22, CHR '','', CHR 0x22])] =
   labelString [(''channel'', [CHR 0x22, CHR '','', CHR 0x22]), (''flow_id'', ''a'')]"
proof -
  have "plainKeys [(''flow_id'', ''a''), (''channel'', [CHR 0x22, CHR '','', CHR 0x22])]"
    "plainKeys [(''channel'', [CHR 0x22, CHR '','', CHR 0x22]), (''flow_id'', ''a'')]"
    by (simp_all add: plainKeys_def)
  from series_identity[OF this] show ?thesis by simp
qed

text \<open>The same instrument is found again: registering it a second time leaves its value.\<close>

lemma lookup_slot: "map_of (slot key new m) = (if map_of m key = None then (map_of m)(key \<mapsto> new) else map_of m)"
  by (simp add: slot_def)

lemma lookup_changeAt: "map_of (changeAt key f m) = (map_of m)(key := map_option f (map_of m key))"
  by (auto simp: changeAt_def fun_eq_iff split: option.split)

lemma register_keeps_value:
  "map_of (fa_counters (familyOf name (registerCounter name help ls reg))) (labelString ls) =
     Some (case map_of (fa_counters (familyOf name reg)) (labelString ls) of Some v \<Rightarrow> v | None \<Rightarrow> 0)"
  by (auto simp: registerCounter_def familyOf_def Let_def lookup_slot split: option.splits)

end
