(* ===== verification/ChannelMetrics.thy ===== *)
theory ChannelMetrics
  imports MetricsProps Config Uuid
begin

text \<open>
  The instruments of a channel: what the constructors of \<open>src/channel/input_channel.cpp\<close> and
  \<open>src/channel/output_channel.cpp\<close> register, with the card's label of \<open>src/channel/channel_manager.cpp\<close>.
\<close>

subsection \<open>Registration\<close>

datatype Instrument =
  CounterOf string string labels
  | GaugeOf string string labels
  | HistogramOf string string "double list" labels

fun registerOne :: "Instrument \<Rightarrow> Registry \<Rightarrow> Registry" where
  "registerOne (CounterOf name help ls) reg = registerCounter name help ls reg"
| "registerOne (GaugeOf name help ls) reg = registerGauge name help ls reg"
| "registerOne (HistogramOf name help buckets ls) reg = registerHistogram name help buckets ls reg"

definition cardIdLabel :: "u32 \<Rightarrow> string" where
  "cardIdLabel pid = ''0x'' @ concat (map hex2 [ucast (drop_bit 24 pid), ucast (drop_bit 16 pid), ucast (drop_bit 8 pid), ucast pid])"

definition channelLabels :: "string \<Rightarrow> string \<Rightarrow> ChannelConfig \<Rightarrow> labels" where
  "channelLabels idLabel dir c =
     [(''card_id'', idLabel), (''channel_index'', int_to_string (ch_index c)), (''channel_label'', ch_label c), (''direction'', dir),
      (''subdevice_index'', int_to_string (subdeviceIndex c))]"

definition inputInstruments :: "string \<Rightarrow> ChannelConfig \<Rightarrow> Instrument list" where
  "inputInstruments idLabel c =
     (let ls = channelLabels idLabel ''input'' c in
      [CounterOf ''mxl_decklink_frames_total'' ''Frames processed'' ls,
       CounterOf ''mxl_decklink_frames_dropped_total'' ''Frames dropped'' ls,
       CounterOf ''mxl_decklink_signal_lost_total'' ''Signal loss events'' ls,
       CounterOf ''mxl_decklink_format_changes_total'' ''Input format changes'' ls,
       CounterOf ''mxl_decklink_reconnect_total'' ''Channel reconnect attempts'' ls,
       CounterOf ''mxl_decklink_grains_committed_total'' ''MXL grains committed'' ls,
       CounterOf ''mxl_decklink_grains_written_bytes_total'' ''Bytes written into MXL grains'' ls,
       GaugeOf ''mxl_decklink_channel_state'' ''Channel state (0=init 1=healthy 2=degraded 3=failed)'' ls,
       GaugeOf ''mxl_decklink_signal_lock'' ''Input signal lock (0/1)'' ls,
       GaugeOf ''mxl_decklink_ringbuffer_head_index'' ''Last committed grain index'' ls,
       GaugeOf ''mxl_decklink_flow_writer_active'' ''Flow writer active (0/1)'' ls,
       HistogramOf ''mxl_decklink_grain_commit_latency_seconds''
         (''Grain open'' @ map (\<lambda>n. char_of (n :: nat)) [0xE2, 0x86, 0x92] @ ''commit latency'') latencyBuckets ls,
       HistogramOf ''mxl_decklink_callback_duration_seconds'' ''DeckLink callback duration'' latencyBuckets ls])"

definition outputInstruments :: "string \<Rightarrow> ChannelConfig \<Rightarrow> Instrument list" where
  "outputInstruments idLabel c =
     (let ls = channelLabels idLabel ''output'' c; withLabel = (\<lambda>n v. ls @ [(n, v)]);
          repeatedHelp = ''Output frames that repeated the last frame because no new grain could be read'';
          stallsHelp = ''Output source stalls: an MXL flow stopped getting new grains or samples'' in
      [CounterOf ''mxl_decklink_frames_total'' ''Frames processed'' ls,
       CounterOf ''mxl_decklink_frames_dropped_total'' ''Frames dropped'' ls,
       CounterOf ''mxl_decklink_frames_repeated_total'' repeatedHelp (withLabel ''reason'' ''source_stall''),
       CounterOf ''mxl_decklink_frames_repeated_total'' repeatedHelp (withLabel ''reason'' ''source_late''),
       CounterOf ''mxl_decklink_frames_repeated_total'' repeatedHelp (withLabel ''reason'' ''flow_reopen''),
       CounterOf ''mxl_decklink_frames_repeated_total'' repeatedHelp (withLabel ''reason'' ''source_invalid''),
       CounterOf ''mxl_decklink_frames_repeated_total'' repeatedHelp (withLabel ''reason'' ''read_error''),
       CounterOf ''mxl_decklink_source_stalls_total'' stallsHelp (withLabel ''essence'' ''video''),
       CounterOf ''mxl_decklink_source_stalls_total'' stallsHelp (withLabel ''essence'' ''audio''),
       CounterOf ''mxl_decklink_frames_late_total'' ''Frames displayed late'' ls,
       CounterOf ''mxl_decklink_reconnect_total'' ''Channel reconnect attempts'' ls,
       CounterOf ''mxl_decklink_flow_reopens_total'' ''MXL flows re-created by their writer; the reader was re-opened'' ls,
       GaugeOf ''mxl_decklink_channel_state'' ''Channel state (0=init 1=healthy 2=degraded 3=failed)'' ls,
       GaugeOf ''mxl_decklink_buffered_video_frames'' ''Frames buffered in the device'' ls,
       GaugeOf ''mxl_decklink_buffered_audio_samples'' ''Audio sample frames buffered in the device'' ls,
       GaugeOf ''mxl_decklink_read_offset_grains'' ''Output: grains read behind the newest grain (CHx_READ_OFFSET_GRAINS, capped)'' ls,
       GaugeOf ''mxl_decklink_reader_lag_grains'' ''Reader lag behind the flow head in grains'' ls])"

text \<open>A channel is constructed each time it is started.\<close>

definition channelInstruments :: "string \<Rightarrow> ChannelConfig \<Rightarrow> Instrument list" where
  "channelInstruments idLabel c = (if direction c = Input then inputInstruments idLabel c else outputInstruments idLabel c)"

definition registerChannel :: "u32 \<Rightarrow> ChannelConfig \<Rightarrow> Registry \<Rightarrow> Registry" where
  "registerChannel pid c reg = fold registerOne (channelInstruments (cardIdLabel pid) c) reg"

subsection \<open>Series\<close>

fun labelsOf :: "Instrument \<Rightarrow> labels" where
  "labelsOf (CounterOf name help ls) = ls"
| "labelsOf (GaugeOf name help ls) = ls"
| "labelsOf (HistogramOf name help buckets ls) = ls"

fun nameOf :: "Instrument \<Rightarrow> string" where
  "nameOf (CounterOf name help ls) = name"
| "nameOf (GaugeOf name help ls) = name"
| "nameOf (HistogramOf name help buckets ls) = name"

definition seriesOf :: "u32 \<Rightarrow> ChannelConfig \<Rightarrow> (string \<times> string) set" where
  "seriesOf pid c = (\<lambda>i. (nameOf i, labelString (labelsOf i))) ` set (channelInstruments (cardIdLabel pid) c)"

lemma int_to_string_inject [simp]: "int_to_string a = int_to_string b \<longleftrightarrow> a = b"
  by (metis strtol_int option.inject prod.inject)

lemma directionName_inject: "(if direction a = Input then ''input'' else ''output'') = (if direction b = Input then ''input'' else ''output'') \<longleftrightarrow> direction a = direction b"
  by (cases "direction a"; cases "direction b") simp_all

text \<open>The labels of an instrument: distinct plain names, with the channel's values.\<close>

definition labelled :: "ChannelConfig \<Rightarrow> labels \<Rightarrow> bool" where
  "labelled c ls \<longleftrightarrow> plainKeys ls \<and> distinct (map fst ls) \<and>
     map_of ls ''channel_index'' = Some (int_to_string (ch_index c)) \<and> map_of ls ''channel_label'' = Some (ch_label c) \<and>
     map_of ls ''direction'' = Some (if direction c = Input then ''input'' else ''output'') \<and>
     map_of ls ''subdevice_index'' = Some (int_to_string (subdeviceIndex c))"

lemma channel_labelled: "list_all (\<lambda>i. labelled c (labelsOf i)) (channelInstruments idLabel c)"
  by (simp add: channelInstruments_def inputInstruments_def outputInstruments_def Let_def labelled_def channelLabels_def plainKeys_def)

lemma same_labels:
  assumes "labelled a ls" and "labelled b ls'" and "labelString ls = labelString ls'"
  shows "ch_index a = ch_index b \<and> ch_label a = ch_label b \<and> direction a = direction b \<and> subdeviceIndex a = subdeviceIndex b"
proof -
  have "mset ls = mset ls'" using assms series_same[of ls ls'] by (simp add: labelled_def)
  then have "set ls = set ls'" by (rule mset_eq_setD)
  then have "map_of ls = map_of ls'" using assms map_of_inject_set[of ls ls'] by (simp add: labelled_def)
  then show ?thesis using assms directionName_inject[of a b] by (simp add: labelled_def)
qed

text \<open>C39. The time series of a channel are its own.  Two channels on a card have a series in common exactly when they
  agree on the index, the label, the direction and the sub-device, that is, when one is a later start of the other: no
  choice of labels makes the numbers of two channels run together.\<close>

theorem channel_series_private:
  "seriesOf pid a \<inter> seriesOf pid b \<noteq> {} \<longleftrightarrow>
     ch_index a = ch_index b \<and> ch_label a = ch_label b \<and> direction a = direction b \<and> subdeviceIndex a = subdeviceIndex b"
proof
  assume "seriesOf pid a \<inter> seriesOf pid b \<noteq> {}"
  then obtain i j where ij: "i \<in> set (channelInstruments (cardIdLabel pid) a)" "j \<in> set (channelInstruments (cardIdLabel pid) b)"
    "labelString (labelsOf i) = labelString (labelsOf j)" by (auto simp: seriesOf_def)
  have "labelled a (labelsOf i)" "labelled b (labelsOf j)" using channel_labelled ij by (simp_all add: list_all_iff)
  then show "ch_index a = ch_index b \<and> ch_label a = ch_label b \<and> direction a = direction b \<and> subdeviceIndex a = subdeviceIndex b"
    using ij(3) by (rule same_labels)
next
  assume same: "ch_index a = ch_index b \<and> ch_label a = ch_label b \<and> direction a = direction b \<and> subdeviceIndex a = subdeviceIndex b"
  then have "channelInstruments (cardIdLabel pid) a = channelInstruments (cardIdLabel pid) b"
    by (simp add: channelInstruments_def inputInstruments_def outputInstruments_def channelLabels_def)
  moreover have "channelInstruments (cardIdLabel pid) b \<noteq> []"
    by (simp add: channelInstruments_def inputInstruments_def outputInstruments_def Let_def)
  ultimately show "seriesOf pid a \<inter> seriesOf pid b \<noteq> {}" by (simp add: seriesOf_def)
qed

subsection \<open>Restarts\<close>

definition counterAt :: "Registry \<Rightarrow> string \<Rightarrow> string \<Rightarrow> double option" where
  "counterAt reg name key = map_of (fa_counters (familyOf name reg)) key"

definition gaugeAt :: "Registry \<Rightarrow> string \<Rightarrow> string \<Rightarrow> double option" where
  "gaugeAt reg name key = map_of (fa_gauges (familyOf name reg)) key"

definition histogramAt :: "Registry \<Rightarrow> string \<Rightarrow> string \<Rightarrow> Histogram option" where
  "histogramAt reg name key = map_of (fa_histograms (familyOf name reg)) key"

text \<open>The keys an instrument registers.\<close>

fun counterKey :: "Instrument \<Rightarrow> (string \<times> string) option" where
  "counterKey (CounterOf name help ls) = Some (name, labelString ls)"
| "counterKey i = None"

fun gaugeKey :: "Instrument \<Rightarrow> (string \<times> string) option" where
  "gaugeKey (GaugeOf name help ls) = Some (name, labelString ls)"
| "gaugeKey i = None"

text \<open>What was there stays; what was not there and is registered begins at \<open>new\<close>.\<close>

definition registered :: "'v option \<Rightarrow> bool \<Rightarrow> 'v \<Rightarrow> 'v option" where
  "registered old added new = (case old of Some v \<Rightarrow> Some v | None \<Rightarrow> if added then Some new else None)"

lemma registered_twice: "registered (registered old a new) b new = registered old (a \<or> b) new"
  by (simp add: registered_def split: option.split)

lemma familyOf_putKey: "familyOf n (putKey name f reg) = (if n = name then f else familyOf n reg)"
  by (simp add: familyOf_def)

lemma lookup_slot_registered: "map_of (slot key new m) k = registered (map_of m k) (key = k) new"
  by (auto simp: slot_def registered_def split: option.split)

lemma registerOne_counter: "counterAt (registerOne i reg) n k = registered (counterAt reg n k) (counterKey i = Some (n, k)) 0"
  by (cases i) (auto simp: counterAt_def registerCounter_def registerGauge_def registerHistogram_def Let_def familyOf_putKey
      lookup_slot_registered registered_def split: option.split)

lemma registerOne_gauge: "gaugeAt (registerOne i reg) n k = registered (gaugeAt reg n k) (gaugeKey i = Some (n, k)) 0"
  by (cases i) (auto simp: gaugeAt_def registerCounter_def registerGauge_def registerHistogram_def Let_def familyOf_putKey
      lookup_slot_registered registered_def split: option.split)

lemma registerOne_histogram: "histogramAt reg n k = Some h \<Longrightarrow> histogramAt (registerOne i reg) n k = Some h"
  by (cases i) (auto simp: histogramAt_def registerCounter_def registerGauge_def registerHistogram_def Let_def familyOf_putKey
      lookup_slot_registered registered_def)

lemma registerAll_counter:
  "counterAt (fold registerOne xs reg) n k = registered (counterAt reg n k) (\<exists>i \<in> set xs. counterKey i = Some (n, k)) 0"
proof (induction xs arbitrary: reg)
  case (Cons i xs)
  then show ?case by (simp add: registerOne_counter registered_twice)
qed (simp add: registered_def split: option.split)

lemma registerAll_gauge:
  "gaugeAt (fold registerOne xs reg) n k = registered (gaugeAt reg n k) (\<exists>i \<in> set xs. gaugeKey i = Some (n, k)) 0"
proof (induction xs arbitrary: reg)
  case (Cons i xs)
  then show ?case by (simp add: registerOne_gauge registered_twice)
qed (simp add: registered_def split: option.split)

lemma registerAll_histogram: "histogramAt reg n k = Some h \<Longrightarrow> histogramAt (fold registerOne xs reg) n k = Some h"
  by (induction xs arbitrary: reg) (simp_all add: registerOne_histogram)

text \<open>A restarted channel goes on counting where it was: constructing it registers what is missing, at zero, and changes no
  counter or gauge that is there, its own or another channel's; no histogram loses its observations.\<close>

lemma restart_keeps_metrics:
  "counterAt (registerChannel pid c reg) n k =
     registered (counterAt reg n k) (\<exists>i \<in> set (channelInstruments (cardIdLabel pid) c). counterKey i = Some (n, k)) 0"
  "gaugeAt (registerChannel pid c reg) n k =
     registered (gaugeAt reg n k) (\<exists>i \<in> set (channelInstruments (cardIdLabel pid) c). gaugeKey i = Some (n, k)) 0"
  "histogramAt reg n k = Some h \<Longrightarrow> histogramAt (registerChannel pid c reg) n k = Some h"
  by (simp_all add: registerChannel_def registerAll_counter registerAll_gauge registerAll_histogram)

end
