(* ===== verification/ReaderDomain.thy ===== *)
theory ReaderDomain
  imports DomainScan
begin

text \<open>
  The MXL instances an output channel reads through: \<open>readerDomain\<close> of \<open>src/channel/output_channel.cpp\<close>, one instance for
  each domain, opened on first use.  The answer of \<open>mxlCreateInstance\<close> is an argument of the call.
\<close>

definition legPath :: "string \<Rightarrow> string \<Rightarrow> string" where
  "legPath own leg = (if leg = [] then own else leg)"

definition readerDomain ::
  "FsEnv \<Rightarrow> (string \<Rightarrow> 'i option) \<Rightarrow> string \<Rightarrow> string \<Rightarrow> (string \<times> 'i) list \<Rightarrow> FS \<Rightarrow> (DomainError + 'i) \<times> (string \<times> 'i) list \<times> FS" where
  "readerDomain e mxlCreateInstance own leg ds fs =
     (let path = legPath own leg in
      case map_of ds path of
        Some i \<Rightarrow> (Inr i, ds, fs)
      | None \<Rightarrow>
          (case openDomain e mxlCreateInstance (path \<noteq> own) path fs of
             (Inl err, fs) \<Rightarrow> (Inl err, ds, fs)
           | (Inr i, fs) \<Rightarrow> (Inr i, ds @ [(path, i)], fs)))"

text \<open>A domain that must exist is opened without a change of the file system.\<close>

lemma openDomain_foreign: "snd (openDomain e create True path fs) = fs"
  by (simp add: openDomain_def Let_def split: option.split)

text \<open>There is one instance for each path; it is found again, whatever the file system and MXL say later; another
  function's domain is never created; and a failure leaves the instances as they were.\<close>

lemma readerDomain_outcome:
  assumes "distinct (map fst ds)" and "readerDomain e create own leg ds fs = (r, ds', fs')"
  shows "distinct (map fst ds')" and "legPath own leg \<noteq> own \<Longrightarrow> fs' = fs" and "r = Inl err \<Longrightarrow> ds' = ds"
    and "r = Inr i \<Longrightarrow> readerDomain e create' own leg ds' fs'' = (Inr i, ds', fs'')"
    and "map_of ds path = Some k \<Longrightarrow> map_of ds' path = Some k"
proof -
  obtain a fs1 where o: "openDomain e create (legPath own leg \<noteq> own) (legPath own leg) fs = (a, fs1)" by fastforce
  consider (known) j where "map_of ds (legPath own leg) = Some j" "r = Inr j" "ds' = ds" "fs' = fs"
    | (failed) x where "map_of ds (legPath own leg) = None" "r = Inl x" "ds' = ds" "fs' = fs1"
    | (opened) j where "map_of ds (legPath own leg) = None" "r = Inr j" "ds' = ds @ [(legPath own leg, j)]" "fs' = fs1"
    using assms(2) o by (auto simp: readerDomain_def Let_def split: option.splits sum.splits)
  note cases = this
  have foreign: "legPath own leg \<noteq> own \<Longrightarrow> fs1 = fs"
    using openDomain_foreign[of e create "legPath own leg" fs] o by simp
  show "distinct (map fst ds')" using assms(1) by (cases rule: cases) (auto simp: map_of_eq_None_iff)
  show "legPath own leg \<noteq> own \<Longrightarrow> fs' = fs" using foreign by (cases rule: cases) simp_all
  show "r = Inl err \<Longrightarrow> ds' = ds" by (cases rule: cases) simp_all
  show "r = Inr i \<Longrightarrow> readerDomain e create' own leg ds' fs'' = (Inr i, ds', fs'')"
    by (cases rule: cases) (simp_all add: readerDomain_def map_add_def)
  show "map_of ds path = Some k \<Longrightarrow> map_of ds' path = Some k" by (cases rule: cases) (simp_all add: map_add_def)
qed

end
