(* ===== verification/Logging.thy ===== *)
theory Logging
  imports JsonProps
begin

text \<open>
  \<open>src/util/logging.hpp\<close> and \<open>logging.cpp\<close>: the structured log.  The text of the system clock is a parameter;
  the state is the level, the format, the lines written to the error stream and those handed to the sink of the tests.
  \<open>jsonEscape\<close> is in \<open>Json\<close>.
\<close>

datatype Level = LevelTrace | LevelDebug | LevelInfo | LevelWarn | LevelError

datatype Format = FormatJson | FormatText

text \<open>The order of the levels is that of their numbers.\<close>

instantiation Level :: linorder
begin

definition levelNumber :: "Level \<Rightarrow> nat" where
  "levelNumber l = (case l of LevelTrace \<Rightarrow> 0 | LevelDebug \<Rightarrow> 1 | LevelInfo \<Rightarrow> 2 | LevelWarn \<Rightarrow> 3 | LevelError \<Rightarrow> 4)"

definition less_eq_Level :: "Level \<Rightarrow> Level \<Rightarrow> bool" where
  "less_eq_Level a b \<longleftrightarrow> levelNumber a \<le> levelNumber b"

definition less_Level :: "Level \<Rightarrow> Level \<Rightarrow> bool" where
  "less_Level a b \<longleftrightarrow> levelNumber a < levelNumber b"

instance
  by standard (auto simp: less_eq_Level_def less_Level_def levelNumber_def split: Level.splits)

end

record LogField =
  lf_key :: string
  lf_value :: string
  lf_isRaw :: bool

text \<open>The constructors of a field: a string is quoted, a flag or a number is not.\<close>

definition stringField :: "string \<Rightarrow> string \<Rightarrow> LogField" where
  "stringField k v = \<lparr>lf_key = k, lf_value = v, lf_isRaw = False\<rparr>"

definition boolField :: "string \<Rightarrow> bool \<Rightarrow> LogField" where
  "boolField k v = \<lparr>lf_key = k, lf_value = jbool v, lf_isRaw = True\<rparr>"

definition intField :: "string \<Rightarrow> int \<Rightarrow> LogField" where
  "intField k v = \<lparr>lf_key = k, lf_value = int_to_string v, lf_isRaw = True\<rparr>"

record Log =
  lo_level :: Level
  lo_format :: Format
  lo_lines :: "string list"
  lo_sink :: bool
  lo_sunk :: "string list"

definition levelName :: "Level \<Rightarrow> string" where
  "levelName l = (case l of LevelTrace \<Rightarrow> ''trace'' | LevelDebug \<Rightarrow> ''debug'' | LevelInfo \<Rightarrow> ''info'' | LevelWarn \<Rightarrow> ''warn''
     | LevelError \<Rightarrow> ''error'')"

definition initialLog :: Log where
  "initialLog = \<lparr>lo_level = LevelInfo, lo_format = FormatJson, lo_lines = [], lo_sink = False, lo_sunk = []\<rparr>"

definition configureLog :: "Level \<Rightarrow> Format \<Rightarrow> Log \<Rightarrow> Log" where
  "configureLog level format g = g\<lparr>lo_level := level, lo_format := format\<rparr>"

text \<open>\<open>None\<close> is \<open>std::invalid_argument\<close>.\<close>

definition parseLevel :: "string \<Rightarrow> Level option" where
  "parseLevel s =
     (if s = ''trace'' then Some LevelTrace
      else if s = ''debug'' then Some LevelDebug
      else if s = ''info'' then Some LevelInfo
      else if s = ''warn'' then Some LevelWarn
      else if s = ''error'' then Some LevelError
      else None)"

definition parseFormat :: "string \<Rightarrow> Format option" where
  "parseFormat s = (if s = ''json'' then Some FormatJson else if s = ''text'' then Some FormatText else None)"

definition setSink :: "bool \<Rightarrow> Log \<Rightarrow> Log" where
  "setSink on g = g\<lparr>lo_sink := on\<rparr>"

subsection \<open>A line\<close>

definition valueText :: "LogField \<Rightarrow> string" where
  "valueText f = (if lf_isRaw f then lf_value f else quoted (lf_value f))"

definition fieldJson :: "LogField \<Rightarrow> string" where
  "fieldJson f = '','' @ quoted (lf_key f) @ '':'' @ valueText f"

definition jsonLine :: "string \<Rightarrow> Level \<Rightarrow> string \<Rightarrow> LogField list \<Rightarrow> string" where
  "jsonLine now level event fs =
     ''{'' @ CHR 0x22 # ''ts'' @ CHR 0x22 # '':'' @ CHR 0x22 # now @ CHR 0x22 # '','' @
     CHR 0x22 # ''level'' @ CHR 0x22 # '':'' @ CHR 0x22 # levelName level @ CHR 0x22 # '','' @
     CHR 0x22 # ''event'' @ CHR 0x22 # '':'' @ quoted event @ concat (map fieldJson fs) @ ''}'' @ [CHR 0x0A]"

definition textLine :: "string \<Rightarrow> Level \<Rightarrow> string \<Rightarrow> LogField list \<Rightarrow> string" where
  "textLine now level event fs =
     now @ '' '' @ levelName level @ '' '' @ event @ concat (map (\<lambda>f. '' '' @ lf_key f @ ''='' @ lf_value f) fs) @ [CHR 0x0A]"

definition writeLog :: "string \<Rightarrow> Level \<Rightarrow> string \<Rightarrow> LogField list \<Rightarrow> Log \<Rightarrow> Log" where
  "writeLog now level event fs g =
     (if level < lo_level g then g
      else let line = (if lo_format g = FormatJson then jsonLine now level event fs else textLine now level event fs) in
           g\<lparr>lo_lines := lo_lines g @ [line], lo_sunk := (if lo_sink g then lo_sunk g @ [line] else lo_sunk g)\<rparr>)"

subsection \<open>Reading a line\<close>

text \<open>A reader of the objects a line holds: strings and bare values (numbers, flags) up to the comma or brace.\<close>

datatype LogValue = Quoted string | Bare string

definition readValue :: "string \<Rightarrow> (LogValue \<times> string) option" where
  "readValue s =
     (case s of
        [] \<Rightarrow> None
      | c # _ \<Rightarrow>
          if c = CHR 0x22 then map_option (\<lambda>(t, r). (Quoted t, r)) (readString s)
          else let v = takeWhile (\<lambda>c. c \<noteq> CHR '','' \<and> c \<noteq> CHR ''}'') s in Some (Bare v, drop (length v) s))"

text \<open>The members, with fuel for each.\<close>

fun readMembers :: "nat \<Rightarrow> string \<Rightarrow> (string \<times> LogValue) list option" where
  "readMembers 0 s = None"
| "readMembers (Suc n) s =
     (case readString s of
        Some (k, c # rest) \<Rightarrow>
          if c \<noteq> CHR '':'' then None
          else (case readValue rest of
                  Some (v, d # rest) \<Rightarrow>
                    if d = CHR ''}'' \<and> rest = [CHR 0x0A] then Some [(k, v)]
                    else if d = CHR '','' then map_option (\<lambda>ms. (k, v) # ms) (readMembers n rest)
                    else None
                | _ \<Rightarrow> None)
      | _ \<Rightarrow> None)"

definition readLine :: "string \<Rightarrow> (string \<times> LogValue) list option" where
  "readLine s = (case s of c # rest \<Rightarrow> if c = CHR ''{'' then readMembers (length s) rest else None | [] \<Rightarrow> None)"

text \<open>What a line should say.\<close>

definition fieldValue :: "LogField \<Rightarrow> string \<times> LogValue" where
  "fieldValue f = (lf_key f, if lf_isRaw f then Bare (lf_value f) else Quoted (lf_value f))"

definition rawOk :: "LogField \<Rightarrow> bool" where
  "rawOk f \<longleftrightarrow> (lf_isRaw f \<longrightarrow> lf_value f \<noteq> [] \<and> list_all (\<lambda>c. c \<notin> {CHR 0x22, CHR '','', CHR ''}'', CHR 0x0A}) (lf_value f))"

lemma plain_quoted:
  "list_all (\<lambda>c. c \<noteq> CHR 0x22 \<and> c \<noteq> CHR 0x5C \<and> 32 \<le> (of_char c :: nat)) s \<Longrightarrow> CHR 0x22 # s @ CHR 0x22 # r = quoted s @ r"
proof -
  assume "list_all (\<lambda>c. c \<noteq> CHR 0x22 \<and> c \<noteq> CHR 0x5C \<and> 32 \<le> (of_char c :: nat)) s"
  then have "jsonEscape s = s"
    by (induction s) (auto simp: jsonEscape_def escapeChar_def)
  then show ?thesis by (simp add: quoted_def)
qed

lemma readValue_quoted: "readValue (quoted s @ r) = Some (Quoted s, r)"
proof -
  have "readValue (quoted s @ r) = map_option (\<lambda>(t, r). (Quoted t, r)) (readString (quoted s @ r))"
    by (simp add: readValue_def quoted_def)
  then show ?thesis by (simp add: readString_quoted)
qed

lemma readValue_field:
  assumes "rawOk f" and "c = CHR '','' \<or> c = CHR ''}''"
  shows "readValue (valueText f @ c # r) = Some (snd (fieldValue f), c # r)"
proof (cases "lf_isRaw f")
  case True
  define p where "p = (\<lambda>c. c \<noteq> CHR '','' \<and> c \<noteq> CHR ''}'')"
  obtain d v where v: "lf_value f = d # v" "d \<noteq> CHR 0x22" "list_all p (lf_value f)"
    using assms(1) True by (cases "lf_value f") (auto simp: rawOk_def p_def list_all_iff)
  have "takeWhile p (lf_value f @ c # r) = lf_value f"
    using v(3) assms(2) by (auto simp: takeWhile_append list_all_iff p_def)
  then show ?thesis using True v(1,2) by (simp add: readValue_def fieldValue_def valueText_def p_def Let_def)
next
  case False
  then show ?thesis by (simp add: readValue_quoted fieldValue_def valueText_def)
qed

text \<open>A member is read: the last one, and one before a comma.\<close>

lemma readMembers_last:
  "rawOk f \<Longrightarrow> readMembers (Suc n) (quoted (lf_key f) @ CHR '':'' # valueText f @ ''}'' @ [CHR 0x0A]) = Some [fieldValue f]"
  using readValue_field[of f "CHR ''}''" "[CHR 0x0A]"] by (simp add: readString_quoted) (simp add: fieldValue_def)

lemma readMembers_comma:
  assumes "rawOk f"
  shows "readMembers (Suc n) (quoted (lf_key f) @ CHR '':'' # valueText f @ CHR '','' # rest) = map_option (\<lambda>ms. fieldValue f # ms) (readMembers n rest)"
proof -
  have "readValue (valueText f @ CHR '','' # rest) = Some (snd (fieldValue f), CHR '','' # rest)"
    using readValue_field[OF assms] by blast
  then show ?thesis by (simp add: readString_quoted) (simp add: fieldValue_def)
qed

lemma readMembers_fields:
  "rawOk f \<Longrightarrow> list_all rawOk fs \<Longrightarrow> length fs < n \<Longrightarrow>
   readMembers n (quoted (lf_key f) @ CHR '':'' # valueText f @ concat (map fieldJson fs) @ ''}'' @ [CHR 0x0A]) =
     Some (fieldValue f # map fieldValue fs)"
proof (induction fs arbitrary: n f)
  case Nil
  then obtain m where n: "n = Suc m" by (cases n) auto
  show ?case unfolding n using readMembers_last[OF Nil(1)] by simp
next
  case (Cons g gs)
  then obtain m where n: "n = Suc m" "length gs < m" by (cases n) auto
  have g: "rawOk g" "list_all rawOk gs" using Cons.prems by auto
  have t: "concat (map fieldJson (g # gs)) @ ''}'' @ [CHR 0x0A] =
      CHR '','' # quoted (lf_key g) @ CHR '':'' # valueText g @ concat (map fieldJson gs) @ ''}'' @ [CHR 0x0A]"
    by (simp add: fieldJson_def)
  show ?case unfolding t n(1) readMembers_comma[OF Cons.prems(1)] Cons.IH[OF g n(2)] by simp
qed

subsection \<open>What is logged\<close>

definition plainString :: "string \<Rightarrow> bool" where
  "plainString s \<longleftrightarrow> list_all (\<lambda>c. c \<noteq> CHR 0x22 \<and> c \<noteq> CHR 0x5C \<and> 32 \<le> (of_char c :: nat)) s"

lemma levelName_plain: "plainString (levelName l)"
  by (cases l) (simp_all add: levelName_def plainString_def)

lemma jsonLine_fields:
  assumes "plainString now"
  shows "jsonLine now level event fs =
    ''{'' @ quoted ''ts'' @ CHR '':'' # valueText (stringField ''ts'' now) @
      concat (map fieldJson (stringField ''level'' (levelName level) # stringField ''event'' event # fs)) @ ''}'' @ [CHR 0x0A]"
  using plain_quoted[of now] plain_quoted[of "levelName level"] assms levelName_plain[of level]
  by (simp add: jsonLine_def fieldJson_def valueText_def stringField_def plainString_def)
    (simp add: quoted_def jsonEscape_def escapeChar_def)

lemma escape_no_newline: "CHR 0x0A \<notin> set (jsonEscape s)"
proof (induction s)
  case (Cons c s)
  let ?n = "of_char c :: nat"
  have hex: "hexChar d \<noteq> CHR 0x0A" if "d < 16" for d
  proof
    assume "hexChar d = CHR 0x0A"
    then have "hexValue (CHR 0x0A) = Some d" using hexValue_hexChar[OF that] by simp
    then show False by (simp add: hexValue.simps)
  qed
  have "hexChar (?n div 16) \<noteq> CHR 0x0A" if "?n < 32" using that by (intro hex) simp
  moreover have "hexChar (?n mod 16) \<noteq> CHR 0x0A" by (intro hex) simp
  ultimately have "CHR 0x0A \<notin> set (escapeChar c)" unfolding escapeChar_def by (auto dest: sym)
  then show ?case using Cons by (simp add: jsonEscape_def)
qed (simp add: jsonEscape_def)

lemma field_no_newline: "rawOk f \<Longrightarrow> CHR 0x0A \<notin> set (fieldJson f)"
  using escape_no_newline by (auto simp: fieldJson_def valueText_def quoted_def rawOk_def list_all_iff)

text \<open>C35. A JSON log line is one line and says what was logged: for any event, keys and values, with quotes, line
  breaks and control characters in them, the line of an event that is not filtered reads back as the time, the level, the
  event and the fields in their order, and its only line break is at its end.  Bare values are numbers and flags.\<close>

theorem log_line_reads_back:
  assumes "plainString now" and "list_all rawOk fs" and "lo_format g = FormatJson" and "lo_level g \<le> level"
  shows "\<exists>body. lo_lines (writeLog now level event fs g) = lo_lines g @ [body @ [CHR 0x0A]] \<and> CHR 0x0A \<notin> set body \<and>
    readLine (body @ [CHR 0x0A]) =
      Some ((''ts'', Quoted now) # (''level'', Quoted (levelName level)) # (''event'', Quoted event) # map fieldValue fs)"
proof -
  let ?all = "stringField ''level'' (levelName level) # stringField ''event'' event # fs"
  let ?ts = "stringField ''ts'' now"
  let ?body = "''{'' @ quoted ''ts'' @ CHR '':'' # valueText ?ts @ concat (map fieldJson ?all) @ ''}''"
  have line: "jsonLine now level event fs = ?body @ [CHR 0x0A]" by (simp add: jsonLine_fields[OF assms(1)])
  have ok: "rawOk ?ts" "list_all rawOk ?all" using assms(2) by (simp_all add: rawOk_def stringField_def)
  have len: "length ?all < length (?body @ [CHR 0x0A])"
  proof -
    have "length gs \<le> length (concat (map fieldJson gs))" for gs
      by (induction gs) (auto simp: fieldJson_def)
    from this[of ?all] show ?thesis by simp
  qed
  have "readLine (?body @ [CHR 0x0A]) = Some (fieldValue ?ts # map fieldValue ?all)"
    using readMembers_fields[OF ok len] by (simp add: readLine_def stringField_def)
  moreover have "CHR 0x0A \<notin> set ?body"
    using ok escape_no_newline field_no_newline
    by (auto simp: quoted_def valueText_def stringField_def list_all_iff)
  moreover have "lo_lines (writeLog now level event fs g) = lo_lines g @ [?body @ [CHR 0x0A]]"
    using assms(3,4) line by (simp add: writeLog_def Let_def not_less[symmetric])
  ultimately show ?thesis by (auto simp: fieldValue_def stringField_def)
qed

theorem log_line_reads_back_witness:
  "\<exists>body. readLine (body @ [CHR 0x0A]) =
     Some [(''ts'', Quoted ''12:00''), (''level'', Quoted ''warn''), (''event'', Quoted ''e''), (''details'', Quoted [CHR 0x0A, CHR 0x22]), (''n'', Bare ''7'')]"
proof -
  have "plainString ''12:00''" "list_all rawOk [stringField ''details'' [CHR 0x0A, CHR 0x22], \<lparr>lf_key = ''n'', lf_value = ''7'', lf_isRaw = True\<rparr>]"
    "lo_format initialLog = FormatJson" "lo_level initialLog \<le> LevelWarn"
    by (simp_all add: plainString_def rawOk_def stringField_def initialLog_def less_eq_Level_def levelNumber_def)
  from log_line_reads_back[OF this, of "''e''"] show ?thesis
    by (auto simp: fieldValue_def stringField_def levelName_def)
qed

text \<open>The text format escapes nothing: a value with a line break makes a second line.\<close>

lemma text_line_forged:
  "textLine now LevelInfo ''flow'' [stringField ''label'' (''a'' @ [CHR 0x0A] @ now @ '' error forged'')] =
     textLine now LevelInfo ''flow'' [stringField ''label'' ''a''] @ textLine now LevelError ''forged'' []"
  by (simp add: textLine_def stringField_def levelName_def)

lemma filtered: "level < lo_level g \<Longrightarrow> writeLog now level event fs g = g"
  by (simp add: writeLog_def)

end
