(* ===== verification/MockBackend.thy ===== *)
theory MockBackend
  imports InputChannel WebApi
begin

text \<open>
  \<open>src/decklink/mock/mockbackend.cpp\<close>: the software card that runs without hardware.  A turn of its capture
  thread and one of its playback thread take the TAI time they woke up at and return what the callbacks receive; the
  1 kHz tone is a parameter, by the number of the sample.  \<open>None\<close> is a write outside a buffer.  Starting and
  joining the threads is the flag \<open>running\<close>.
\<close>

subsection \<open>Options\<close>

record MockOptions =
  mo_subDeviceCount :: int
  mo_signalLossAfterFrames :: int
  mo_signalLossDurationFrames :: int
  mo_formatChangeAfterFrames :: int
  mo_formatChangeMode :: string
  mo_playbackFrameFile :: string

text \<open>\<open>None\<close> is an exception of \<open>std::stoll\<close>; what follows the digits is ignored.\<close>

definition readMockInt :: "EnvReader \<Rightarrow> string \<Rightarrow> int \<Rightarrow> int option" where
  "readMockInt env name fallback =
     (case env name of None \<Rightarrow> Some fallback | Some v \<Rightarrow> if v = [] then Some fallback else map_option fst (stol v))"

definition readMockString :: "EnvReader \<Rightarrow> string \<Rightarrow> string \<Rightarrow> string" where
  "readMockString env name fallback = (case env name of None \<Rightarrow> fallback | Some v \<Rightarrow> if v = [] then fallback else v)"

definition toInt32 :: "int \<Rightarrow> int" where
  "toInt32 i = sint (of_int i :: 32 word)"

definition readMockOptions :: "EnvReader \<Rightarrow> MockOptions option" where
  "readMockOptions env =
     (case (readMockInt env ''MOCK_SUBDEVICE_COUNT'' 4, readMockInt env ''MOCK_SIGNAL_LOSS_AFTER_FRAMES'' (- 1),
            readMockInt env ''MOCK_SIGNAL_LOSS_DURATION_FRAMES'' 50, readMockInt env ''MOCK_FORMAT_CHANGE_AFTER_FRAMES'' (- 1)) of
        (Some n, Some loss, Some duration, Some change) \<Rightarrow>
          Some \<lparr>mo_subDeviceCount = toInt32 n, mo_signalLossAfterFrames = loss, mo_signalLossDurationFrames = duration,
                mo_formatChangeAfterFrames = change, mo_formatChangeMode = readMockString env ''MOCK_FORMAT_CHANGE_MODE'' ''HD720p50'',
                mo_playbackFrameFile = readMockString env ''MOCK_PLAYBACK_FRAME_FILE'' []\<rparr>
      | _ \<Rightarrow> None)"

subsection \<open>The picture\<close>

definition kBars :: "(u16 \<times> u16 \<times> u16) list" where
  "kBars = [(721, 512, 512), (646, 176, 543), (525, 625, 176), (450, 289, 208), (335, 735, 816), (260, 399, 848), (139, 848, 481),
     (64, 512, 512)]"

text \<open>Component \<open>idx\<close> of line \<open>y\<close>: chroma of the bar, and luma of the bar or of the counter band.\<close>

definition barComponent :: "u32 \<Rightarrow> u32 \<Rightarrow> u32 \<Rightarrow> bool \<Rightarrow> u64 \<Rightarrow> u32 \<Rightarrow> u16" where
  "barComponent width bandStart y interlaced counter idx =
     (let pixel = idx div 2; (luma, cb, cr) = kBars ! unat ((pixel * 8) div width) in
      if idx mod 2 = 1 then
        (if y \<ge> bandStart \<and> interlaced \<and> y AND 1 \<noteq> 0 then 512
         else if y \<ge> bandStart then (if (ucast (pixel div 16) + counter) mod 2 = 0 then 940 else 64)
         else luma)
      else if idx mod 4 = 0 then cb else cr)"

text \<open>Three components to a word.\<close>

fun packComponents :: "u16 list \<Rightarrow> u32 \<Rightarrow> nat \<Rightarrow> u32 list" where
  "packComponents [] accum n = (if n \<noteq> 0 then [accum] else [])"
| "packComponents (c # cs) accum n =
     (let accum = accum OR push_bit (10 * n) (ucast (c AND 0x3ff)) in
      if n + 1 = 3 then accum # packComponents cs 0 0 else packComponents cs accum (n + 1))"

definition barRow :: "u32 \<Rightarrow> u32 \<Rightarrow> u32 \<Rightarrow> bool \<Rightarrow> u64 \<Rightarrow> u8 list" where
  "barRow width height y interlaced counter =
     (let bandStart = (if height > 32 then height - 32 else 0) in
      concat (map leBytes (packComponents
        (map (\<lambda>i. barComponent width bandStart y interlaced counter (of_nat i)) [0..<unat (width * 2)]) 0 0)))"

fun renderRows :: "(u32 \<Rightarrow> u8 list) \<Rightarrow> nat \<Rightarrow> nat list \<Rightarrow> u8 list \<Rightarrow> u8 list option" where
  "renderRows row rb [] frame = Some frame"
| "renderRows row rb (y # ys) frame =
     (let r = row (of_nat y) in
      case memcpy frame (y * rb) r 0 (length r) of None \<Rightarrow> None | Some frame \<Rightarrow> renderRows row rb ys frame)"

definition renderBars :: "u32 \<Rightarrow> u32 \<Rightarrow> nat \<Rightarrow> u64 \<Rightarrow> bool \<Rightarrow> u8 list option" where
  "renderBars width height rb counter interlaced =
     renderRows (\<lambda>y. barRow width height y interlaced counter) rb [0..<unat height]
       (replicate (rb * unat height) 0)"

subsection \<open>Capture\<close>

record MockSharedStatus =
  ms_signalLocked :: bool
  ms_currentModeBmd :: u32
  ms_capturing :: bool
  ms_playing :: bool
  ms_levelA :: bool
  ms_singleLink :: bool

definition newMockStatus :: MockSharedStatus where
  "newMockStatus = \<lparr>ms_signalLocked = False, ms_currentModeBmd = 0, ms_capturing = False, ms_playing = False, ms_levelA = False,
     ms_singleLink = False\<rparr>"

text \<open>\<open>mk_frameCounter\<close> and \<open>mk_tone\<close> are the local variables of the capture thread.\<close>

record MockCapture =
  mk_options :: MockOptions
  mk_params :: CaptureParams
  mk_running :: bool
  mk_inSignalLoss :: bool
  mk_modeChanged :: bool
  mk_resets :: nat
  mk_frameCounter :: u64
  mk_tone :: nat

definition enableCapture :: "CaptureParams \<Rightarrow> MockCapture \<Rightarrow> MockCapture" where
  "enableCapture params c = c\<lparr>mk_params := params\<rparr>"

definition startMockCapture :: "MockCapture \<Rightarrow> MockSharedStatus \<Rightarrow> MockCapture \<times> MockSharedStatus" where
  "startMockCapture c sh =
     (if mk_running c then (c, sh)
      else (c\<lparr>mk_running := True, mk_frameCounter := 0, mk_tone := 0\<rparr>,
            sh\<lparr>ms_capturing := True, ms_currentModeBmd := vm_bmdDisplayMode (cp_mode (mk_params c))\<rparr>))"

definition stopMockCapture :: "MockCapture \<Rightarrow> MockSharedStatus \<Rightarrow> MockCapture \<times> MockSharedStatus" where
  "stopMockCapture c sh = (c\<lparr>mk_running := False\<rparr>, sh\<lparr>ms_capturing := False, ms_signalLocked := False\<rparr>)"

definition resetStreams :: "MockCapture \<Rightarrow> MockCapture" where
  "resetStreams c = c\<lparr>mk_resets := mk_resets c + 1\<rparr>"

definition changeMockMode :: "VideoMode \<Rightarrow> MockCapture \<Rightarrow> MockSharedStatus \<Rightarrow> MockCapture \<times> MockSharedStatus" where
  "changeMockMode m c sh =
     (c\<lparr>mk_params := (mk_params c)\<lparr>cp_mode := m\<rparr>, mk_modeChanged := True\<rparr>, sh\<lparr>ms_currentModeBmd := vm_bmdDisplayMode m\<rparr>)"

definition signalLocked_mock :: "MockCapture \<Rightarrow> bool" where
  "signalLocked_mock c \<longleftrightarrow> \<not> mk_inSignalLoss c"

definition kHardwareClockOffsetNs :: u64 where "kHardwareClockOffsetNs = 123456789000"

definition hardwareClockNowNs_mock :: "u64 \<Rightarrow> u64" where
  "hardwareClockNowNs_mock taiNow = taiNow - kHardwareClockOffsetNs"

text \<open>The frame grid of the TAI clock.\<close>

definition frameDurNs :: "VideoMode \<Rightarrow> u64" where
  "frameDurNs m = (1000000000 * vm_rateDenominator m) div vm_rateNumerator m"

definition nextEdge :: "u64 \<Rightarrow> u64 \<Rightarrow> u64" where
  "nextEdge dur now = (now div dur + 1) * dur"

definition samplesPerFrame :: "VideoMode \<Rightarrow> u64" where
  "samplesPerFrame m = (48000 * vm_rateDenominator m) div vm_rateNumerator m"

definition inLossWindow :: "MockOptions \<Rightarrow> u64 \<Rightarrow> bool" where
  "inLossWindow o' counter \<longleftrightarrow>
     0 \<le> mo_signalLossAfterFrames o' \<and> counter > of_int (mo_signalLossAfterFrames o') \<and>
     counter \<le> of_int (mo_signalLossAfterFrames o' + mo_signalLossDurationFrames o')"

text \<open>The format change fires for the frame of its number, when the new mode is another one.\<close>

definition formatChangeDue :: "MockCapture \<Rightarrow> VideoMode \<Rightarrow> u64 \<Rightarrow> bool \<Rightarrow> FormatChange option" where
  "formatChangeDue c m counter hasCallback =
     (if 0 \<le> mo_formatChangeAfterFrames (mk_options c) \<and> counter = of_int (mo_formatChangeAfterFrames (mk_options c)) \<and>
         cp_enableFormatDetection (mk_params c) \<and> hasCallback
      then (case lookupVideoMode (mo_formatChangeMode (mk_options c)) of
              Some n \<Rightarrow> if vm_bmdDisplayMode n \<noteq> vm_bmdDisplayMode m then Some \<lparr>fc_newMode = n, fc_is10Bit = True\<rparr> else None
            | None \<Rightarrow> None)
      else None)"

definition mockAnc :: "u64 \<Rightarrow> AncPacket" where
  "mockAnc counter =
     \<lparr>did = 0x61, sdid = 0x02, lineNumber = 9, dataStreamIndex = 0,
      userData = [ucast (counter AND 0xff), ucast (drop_bit 8 counter AND 0xff), 0xaa, 0x55]\<rparr>"

definition mockAudio :: "(nat \<Rightarrow> int) \<Rightarrow> CaptureParams \<Rightarrow> VideoMode \<Rightarrow> nat \<Rightarrow> AudioPacketView" where
  "mockAudio tone p m t =
     (let samples = unat (samplesPerFrame m) in
      \<lparr>pk_samples = concat (map (\<lambda>i. replicate (nat (cp_audioChannelCount p)) (tone (t + i))) [0..<samples]), pk_sampleFrames = samples\<rparr>)"

definition mockRowBytes :: "CaptureParams \<Rightarrow> VideoMode \<Rightarrow> nat" where
  "mockRowBytes p m = (if cp_pixelFormat p = YUV8 then unat (vm_width m) * 2 else unat (v210RowBytes (vm_width m)))"

definition mockPicture :: "CaptureParams \<Rightarrow> VideoMode \<Rightarrow> u64 \<Rightarrow> u8 list option" where
  "mockPicture p m counter =
     (let n = mockRowBytes p m in
      if cp_pixelFormat p = YUV8 then Some (replicate (n * unat (vm_height m)) 0x80)
      else renderBars (vm_width m) (vm_height m) n counter (vm_interlaced m))"

text \<open>What a turn hands to the callbacks.\<close>

datatype MockOutput = NoOutput | FormatChanged FormatChange | FrameArrived VideoFrameView "AudioPacketView option"

definition mockFrame :: "(nat \<Rightarrow> int) \<Rightarrow> CaptureParams \<Rightarrow> VideoMode \<Rightarrow> u64 \<Rightarrow> u64 \<Rightarrow> bool \<Rightarrow> nat \<Rightarrow> MockOutput option" where
  "mockFrame tone p m counter edge lost t =
     (case (if lost then Some [] else mockPicture p m counter) of
        None \<Rightarrow> None
      | Some picture \<Rightarrow>
          Some (FrameArrived
            \<lparr>vf_bytes = picture, vf_rowBytes = mockRowBytes p m, vf_width = vm_width m, vf_height = vm_height m,
             hasNoInputSource = lost, hasHardwareTimestamp = True, hardwareTimestampNs = edge - kHardwareClockOffsetNs,
             ancPackets = (if \<not> lost \<and> cp_collectAncPackets p then [mockAnc counter] else [])\<rparr>
            (if cp_audioEnable p \<and> \<not> lost then Some (mockAudio tone p m t) else None)))"

text \<open>One turn of the capture thread; \<open>stillRunning\<close> is the flag after the sleep.\<close>

definition captureTurn ::
  "(nat \<Rightarrow> int) \<Rightarrow> bool \<Rightarrow> u64 \<Rightarrow> bool \<Rightarrow> MockCapture \<Rightarrow> MockSharedStatus \<Rightarrow> (MockOutput \<times> MockCapture \<times> MockSharedStatus) option" where
  "captureTurn tone hasFormatCallback now stillRunning c sh =
     (let p = mk_params c; m = cp_mode p; edge = nextEdge (frameDurNs m) now in
      if \<not> stillRunning then Some (NoOutput, c\<lparr>mk_running := False\<rparr>, sh)
      else
        let counter = mk_frameCounter c + 1;
            lost = inLossWindow (mk_options c) counter;
            c = c\<lparr>mk_frameCounter := counter, mk_inSignalLoss := lost\<rparr>;
            sh = sh\<lparr>ms_signalLocked := \<not> lost\<rparr>
        in case formatChangeDue c m counter hasFormatCallback of
             Some fc \<Rightarrow> Some (FormatChanged fc, c, sh)
           | None \<Rightarrow>
               map_option (\<lambda>out. (out, if cp_audioEnable p \<and> \<not> lost then c\<lparr>mk_tone := mk_tone c + unat (samplesPerFrame m)\<rparr> else c, sh))
                 (mockFrame tone p m counter edge lost (mk_tone c)))"

subsection \<open>Playback\<close>

record MockPlayback =
  mp_mode :: VideoMode
  mp_audioEnable :: bool
  mp_running :: bool
  mp_nextFrameId :: u64
  mp_bufferedFrames :: u32
  mp_bufferedAudio :: u32
  mp_completedId :: u64
  mp_frameFile :: string
  mp_files :: "(string \<times> u8 list) list"

datatype PlaybackEvent = FrameCompleted u64 | RenderAudio bool | PlaybackStopped

definition newMockPlayback :: "string \<Rightarrow> VideoMode \<Rightarrow> bool \<Rightarrow> MockPlayback" where
  "newMockPlayback frameFile m audio =
     \<lparr>mp_mode = m, mp_audioEnable = audio, mp_running = False, mp_nextFrameId = 1, mp_bufferedFrames = 0, mp_bufferedAudio = 0,
      mp_completedId = 0, mp_frameFile = frameFile, mp_files = []\<rparr>"

text \<open>Every 25th frame goes to the frame file, through a temporary file that is renamed.\<close>

definition scheduleFrame_mock :: "u8 list \<Rightarrow> MockPlayback \<Rightarrow> u64 \<times> MockPlayback" where
  "scheduleFrame_mock picture p =
     (let i = mp_nextFrameId p;
          p = p\<lparr>mp_nextFrameId := i + 1\<rparr>;
          p = (if mp_frameFile p \<noteq> [] \<and> i mod 25 = 0 then p\<lparr>mp_files := (mp_frameFile p, picture) # mp_files p\<rparr> else p)
      in (i, p\<lparr>mp_bufferedFrames := mp_bufferedFrames p + 1\<rparr>))"

definition scheduleAudio_mock :: "u32 \<Rightarrow> MockPlayback \<Rightarrow> MockPlayback" where
  "scheduleAudio_mock n p = p\<lparr>mp_bufferedAudio := mp_bufferedAudio p + n\<rparr>"

definition beginAudioPreroll_mock :: "MockPlayback \<Rightarrow> PlaybackEvent list" where
  "beginAudioPreroll_mock p = (if mp_audioEnable p then [RenderAudio True] else [])"

text \<open>The thread counts the completed frames from zero again.\<close>

definition startPlayback_mock :: "MockPlayback \<Rightarrow> MockSharedStatus \<Rightarrow> MockPlayback \<times> MockSharedStatus" where
  "startPlayback_mock p sh =
     (if mp_running p then (p, sh) else (p\<lparr>mp_running := True, mp_completedId := 0\<rparr>, sh\<lparr>ms_playing := True\<rparr>))"

definition stopPlayback_mock :: "MockPlayback \<Rightarrow> MockSharedStatus \<Rightarrow> PlaybackEvent list \<times> MockPlayback \<times> MockSharedStatus" where
  "stopPlayback_mock p sh =
     (if mp_running p then [PlaybackStopped] else [], p\<lparr>mp_running := False\<rparr>, sh\<lparr>ms_playing := False\<rparr>)"

definition playbackTurn :: "bool \<Rightarrow> MockPlayback \<Rightarrow> PlaybackEvent list \<times> MockPlayback" where
  "playbackTurn stillRunning p =
     (if \<not> stillRunning then ([], p)
      else
        let (evs, p) =
              (if mp_bufferedFrames p > 0
               then ([FrameCompleted (mp_completedId p + 1)],
                     p\<lparr>mp_bufferedFrames := mp_bufferedFrames p - 1, mp_completedId := mp_completedId p + 1\<rparr>)
               else ([], p));
            n = samplesPerFrame (mp_mode p);
            p = p\<lparr>mp_bufferedAudio := (if ucast (mp_bufferedAudio p) > n then mp_bufferedAudio p - ucast n else 0)\<rparr>
        in (evs @ (if mp_audioEnable p then [RenderAudio False] else []), p))"

subsection \<open>Card\<close>

definition mockSubDeviceInfo :: "int \<Rightarrow> SubDeviceInfo" where
  "mockSubDeviceInfo index =
     \<lparr>si_displayName = ''Mock DeckLink ('' @ int_to_string (index + 1) @ '')'', si_modelName = ''Mock DeckLink'',
      si_supportsCapture = True, si_supportsPlayback = True, si_supportsInputFormatDetection = True, si_hasProfileManager = False\<rparr>"

definition mockStatus :: "MockSharedStatus \<Rightarrow> SubDeviceStatus" where
  "mockStatus sh =
     (let m = (if ms_currentModeBmd sh \<noteq> 0 then lookupVideoModeByBmd (ms_currentModeBmd sh) else None) in
      \<lparr>ss_detectedInputMode = (if ms_signalLocked sh then map_option vm_name m else None),
       ss_currentInputMode = map_option vm_name m, ss_currentOutputMode = None,
       ss_currentInputPixelFormat = Some ''10BitYUV'', ss_lastOutputPixelFormat = None,
       ss_inputSignalLocked = ms_signalLocked sh, ss_referenceLocked = True, ss_captureBusy = ms_capturing sh,
       ss_playbackBusy = ms_playing sh, ss_pcieLinkWidth = Some 8, ss_pcieLinkSpeed = Some 3, ss_temperatureText = Some ''42.000000'',
       ss_sdiOutput = \<lparr>so_smpteLevelA = Some (ms_levelA sh), so_supportsSmpteLevelA = Some True, so_output1080pAsPsF = Some False,
         so_linkConfiguration = Some (if ms_singleLink sh then ''single'' else ''dual''), so_requestedLevel = None\<rparr>\<rparr>)"

record SdiLevelResult =
  sl_applied :: bool
  sl_fallback :: bool
  sl_linkChanged :: bool
  sl_partial :: bool
  sl_details :: string

definition setSdiOutputLevel_mock :: "SdiLevel \<Rightarrow> VideoMode \<Rightarrow> MockSharedStatus \<Rightarrow> SdiLevelResult \<times> MockSharedStatus" where
  "setSdiOutputLevel_mock level m sh =
     (let r = \<lparr>sl_applied = False, sl_fallback = False, sl_linkChanged = False, sl_partial = False, sl_details = []\<rparr> in
      if level = Driver then (r\<lparr>sl_details := ''CHx_SDI_LEVEL=driver: the driver'' @ CHR 0x27 # ''s setting stays''\<rparr>, sh)
      else
        let sh = sh\<lparr>ms_levelA := (level = LevelA)\<rparr>; r = r\<lparr>sl_applied := True\<rparr> in
        if level = LevelA \<and> vm_height m \<le> 1080
        then (r\<lparr>sl_linkChanged := \<not> ms_singleLink sh\<rparr>, sh\<lparr>ms_singleLink := True\<rparr>)
        else (r, sh))"

record OpenedCard =
  oc_displayName :: string
  oc_persistentId :: u32
  oc_subDevices :: Card

record CardSelector =
  sc_persistentId :: "u32 option"
  sc_displayName :: "string option"
  sc_index :: "int option"

definition kMockId :: u32 where "kMockId = 0xa1b2c3d4"

definition mockCard :: "MockOptions \<Rightarrow> OpenedCard" where
  "mockCard o' =
     \<lparr>oc_displayName = ''Mock DeckLink'', oc_persistentId = kMockId,
      oc_subDevices = map (\<lambda>i. let info = mockSubDeviceInfo (int i) in
          \<lparr>supportsCapture = si_supportsCapture info, supportsPlayback = si_supportsPlayback info,
           supportsInputFormatDetection = si_supportsInputFormatDetection info\<rparr>) [0..<nat (mo_subDeviceCount o')]\<rparr>"

datatype MockOpenError = NoCardWithId u32 | NoCardNamed string | NoCardAt int

definition openMockCard :: "MockOptions \<Rightarrow> CardSelector \<Rightarrow> MockOpenError + OpenedCard" where
  "openMockCard o' sel =
     (if (case sc_persistentId sel of Some i \<Rightarrow> i \<noteq> kMockId | None \<Rightarrow> False)
      then Inl (NoCardWithId (the (sc_persistentId sel)))
      else if (case sc_displayName sel of Some n \<Rightarrow> take (length n) ''Mock DeckLink'' \<noteq> n | None \<Rightarrow> False)
      then Inl (NoCardNamed (the (sc_displayName sel)))
      else if (case sc_index sel of Some i \<Rightarrow> i \<noteq> 0 | None \<Rightarrow> False) then Inl (NoCardAt (the (sc_index sel)))
      else Inr (mockCard o'))"

end
