(* ===== verification/MockProps.thy ===== *)
theory MockProps
  imports MockBackend InputProps
begin

text \<open>
  The picture of the mock card reads back component by component, and what a turn of its capture thread hands over
  has the sizes the capture channel relies on.
\<close>

subsection \<open>One line\<close>

lemma ten_bits_of_word:
  fixes a b c :: u16
  shows "(ucast (a AND 0x3ff) OR push_bit 10 (ucast (b AND 0x3ff)) OR push_bit 20 (ucast (c AND 0x3ff)) :: u32) AND 0x3FF = ucast (a AND 0x3ff)"
    and "drop_bit 10 (ucast (a AND 0x3ff) OR push_bit 10 (ucast (b AND 0x3ff)) OR push_bit 20 (ucast (c AND 0x3ff)) :: u32) AND 0x3FF = ucast (b AND 0x3ff)"
    and "drop_bit 20 (ucast (a AND 0x3ff) OR push_bit 10 (ucast (b AND 0x3ff)) OR push_bit 20 (ucast (c AND 0x3ff)) :: u32) AND 0x3FF = ucast (c AND 0x3ff)"
proof -
  have "(0x3FF :: u16) = mask 10" by (simp add: mask_eq_exp_minus_1)
  then have ten: "bit (x AND 0x3ff) n \<longleftrightarrow> bit x n \<and> n < 10" for x :: u16 and n
    by (simp only: bit_and_iff bit_mask_iff) (auto dest: bit_imp_le_length)
  show "(ucast (a AND 0x3ff) OR push_bit 10 (ucast (b AND 0x3ff)) OR push_bit 20 (ucast (c AND 0x3ff)) :: u32) AND 0x3FF = ucast (a AND 0x3ff)"
    "drop_bit 10 (ucast (a AND 0x3ff) OR push_bit 10 (ucast (b AND 0x3ff)) OR push_bit 20 (ucast (c AND 0x3ff)) :: u32) AND 0x3FF = ucast (b AND 0x3ff)"
    "drop_bit 20 (ucast (a AND 0x3ff) OR push_bit 10 (ucast (b AND 0x3ff)) OR push_bit 20 (ucast (c AND 0x3ff)) :: u32) AND 0x3FF = ucast (c AND 0x3ff)"
    by (rule bit_word_eqI, auto simp: bit_ten bit_or_iff bit_push_bit_iff bit_drop_bit_eq bit_ucast_iff ten)+
qed

fun packTriples :: "u16 list \<Rightarrow> u32 list" where
  "packTriples (a # b # c # cs) =
     (ucast (a AND 0x3ff) OR push_bit 10 (ucast (b AND 0x3ff)) OR push_bit 20 (ucast (c AND 0x3ff))) # packTriples cs"
| "packTriples [a, b] = [ucast (a AND 0x3ff) OR push_bit 10 (ucast (b AND 0x3ff))]"
| "packTriples [a] = [ucast (a AND 0x3ff)]"
| "packTriples [] = []"

text \<open>The accumulator of the loop amounts to packing triples.\<close>

lemma packComponents_eq: "packComponents cs 0 0 = packTriples cs"
  by (induction cs rule: packTriples.induct) (simp_all add: Let_def or.assoc)

lemma length_packTriples: "length (packTriples cs) = (length cs + 2) div 3"
proof (induction cs rule: packTriples.induct)
  case (1 a b c cs)
  have "(length (a # b # c # cs) + 2) div 3 = Suc ((length cs + 2) div 3)" by simp
  with 1 show ?case by simp
qed simp_all

lemma length_concat_leBytes: "length (concat (map leBytes ws)) = 4 * length ws"
  by (induction ws) simp_all

lemma v210Component_packed:
  "c < length cs \<Longrightarrow> v210Component (concat (map leBytes (packTriples cs)) @ bs) c = ucast (cs ! c AND 0x3ff)"
proof (induction cs arbitrary: c rule: packTriples.induct)
  case (1 x y z cs)
  show ?case
  proof (cases "c < 3")
    case True
    then show ?thesis
      using less_3_cases[OF True] ten_bits_of_word[of x y z] by (auto simp: v210Component_low)
  next
    case False
    then obtain d where "c = d + 3" by (metis add.commute le_iff_add not_less)
    then show ?thesis using 1 by (simp add: v210Component_skip)
  qed
next
  case (2 x y)
  have "c = 0 \<or> c = 1" using 2 by auto
  then show ?case using ten_bits_of_word[of x y 0] by (auto simp: v210Component_low)
next
  case (3 x)
  then show ?case using ten_bits_of_word[of x 0 0] by (auto simp: v210Component_low)
qed simp

lemma barRow_components:
  assumes "c < unat (w * 2)"
  shows "v210Component (barRow w h y i n @ bs) c =
     ucast (barComponent w (if h > 32 then h - 32 else 0) y i n (of_nat c) AND 0x3ff)"
proof -
  have "\<not> unat (w * 2) \<le> c" using assms by simp
  then show ?thesis unfolding barRow_def Let_def packComponents_eq
    using v210Component_packed[of c "map (\<lambda>k. barComponent w (if h > 32 then h - 32 else 0) y i n (of_nat k)) [0..<unat (w * 2)]" bs]
    by simp
qed

lemma length_barRow: "length (barRow w h y i n) = 4 * ((unat (w * 2) + 2) div 3)"
  by (simp add: barRow_def Let_def packComponents_eq length_packTriples length_concat_leBytes)

subsection \<open>The frame\<close>

lemma renderRows_Some:
  assumes "\<And>y. y \<in> set ys \<Longrightarrow> (y + 1) * d \<le> length frame" and "\<And>y. length (line y) = n" and "n \<le> d" and "distinct ys"
  shows "\<exists>out. renderRows line d ys frame = Some out \<and> length out = length frame \<and>
     (\<forall>q. block out (q * d) d =
        (if q \<in> set ys then line (of_nat q) @ drop n (block frame (q * d) d) else block frame (q * d) d))"
  using assms(1,4)
proof (induction ys arbitrary: frame)
  case (Cons y ys)
  let ?f = "take (y * d) frame @ line (of_nat y) @ drop (y * d + n) frame"
  have y: "(y + 1) * d \<le> length frame" using Cons.prems(1)[of y] by simp
  have step: "memcpy frame (y * d) (line (of_nat y)) 0 (length (line (of_nat y))) = Some ?f"
    using y assms(2,3) by (simp add: memcpy_def)
  have tk: "length (take (y * d) frame) = y * d" using y by simp
  have len: "length ?f = length frame" using tk y assms(2,3) by simp
  have here: "block ?f (y * d) d = line (of_nat y) @ drop n (block frame (y * d) d)"
    using block_append_skip[of "take (y * d) frame" _ d] tk assms(2,3) by (simp add: block_def drop_take add.commute)
  have there: "block ?f (q * d) d = block frame (q * d) d" if "q \<noteq> y" for q
    using that tk assms(2,3) by (intro block_stride_other) (simp_all add: block_def add.commute)
  obtain out where out: "renderRows line d ys ?f = Some out" "length out = length ?f"
    "\<And>q. block out (q * d) d =
        (if q \<in> set ys then line (of_nat q) @ drop n (block ?f (q * d) d) else block ?f (q * d) d)"
    using Cons.IH[of ?f] Cons.prems len by auto
  have "y \<notin> set ys" using Cons.prems(2) by simp
  then have "block out (q * d) d =
      (if q \<in> set (y # ys) then line (of_nat q) @ drop n (block frame (q * d) d) else block frame (q * d) d)" for q
    using out(3)[of q] here there[of q] by (cases "q = y") simp_all
  then show ?case using step out(1,2) len by (simp add: Let_def)
qed simp

lemma renderBars_Some:
  assumes "4 * ((unat (w * 2) + 2) div 3) \<le> d"
  shows "\<exists>out. renderBars w h d n i = Some out \<and> length out = unat h * d \<and>
     (\<forall>q < unat h. block out (q * d) d =
        barRow w h (of_nat q) i n @ replicate (d - 4 * ((unat (w * 2) + 2) div 3)) 0)"
proof -
  let ?z = "replicate (d * unat h) (0 :: u8)"
  have inside: "(y + 1) * d \<le> length ?z" if "y \<in> set [0..<unat h]" for y
  proof -
    have "y + 1 \<le> unat h" using that by simp
    then show ?thesis using mult_le_mono1[of "y + 1" "unat h" d] by (simp add: mult.commute)
  qed
  have zero: "drop k (block ?z (q * d) d) = replicate (d - k) 0" if "q < unat h" for q k
    using inside[of q] that by (simp add: block_def min_def)
  have "\<exists>out. renderBars w h d n i = Some out \<and> length out = length ?z \<and>
     (\<forall>q. block out (q * d) d = (if q \<in> set [0..<unat h] then barRow w h (of_nat q) i n @
          drop (4 * ((unat (w * 2) + 2) div 3)) (block ?z (q * d) d) else block ?z (q * d) d))"
    unfolding renderBars_def by (rule renderRows_Some) (use inside length_barRow assms in simp_all)
  then obtain out where out: "renderBars w h d n i = Some out" "length out = length ?z"
      "\<And>q. block out (q * d) d = (if q \<in> set [0..<unat h] then barRow w h (of_nat q) i n @
          drop (4 * ((unat (w * 2) + 2) div 3)) (block ?z (q * d) d) else block ?z (q * d) d)"
    by (elim exE conjE) (rule that, assumption+, erule spec)
  have "block out (q * d) d = barRow w h (of_nat q) i n @ replicate (d - 4 * ((unat (w * 2) + 2) div 3)) 0"
    if "q < unat h" for q
    using out(3)[of q] zero[OF that, of "4 * ((unat (w * 2) + 2) div 3)"] that by simp
  then show ?thesis using out(1,2) by (simp add: mult.commute)
qed

text \<open>C37. The test picture is what it says: for a width up to \<open>2 ^ 30\<close> the renderer stays inside its buffer, every line
  has the v210 stride, each component of the line reads back as the component of its colour bar or counter band, cut to
  ten bits, and the bytes after the last word are zero.\<close>

theorem mock_picture_reads_back:
  assumes "unat w \<le> 2 ^ 30"
  shows "\<exists>out. renderBars w h (unat (v210RowBytes w)) n i = Some out \<and> length out = unat h * unat (v210RowBytes w) \<and>
     (\<forall>q < unat h. \<forall>c < 2 * unat w. v210Component (block out (q * unat (v210RowBytes w)) (unat (v210RowBytes w))) c =
        ucast (barComponent w (if h > 32 then h - 32 else 0) (of_nat q) i n (of_nat c) AND 0x3ff)) \<and>
     (\<forall>q < unat h. \<forall>j < unat (v210RowBytes w). 4 * ((2 * unat w + 2) div 3) \<le> j \<longrightarrow>
        block out (q * unat (v210RowBytes w)) (unat (v210RowBytes w)) ! j = 0)"
proof -
  note e = v210RowBytes_enough[OF assms]
  obtain out where out: "renderBars w h (unat (v210RowBytes w)) n i = Some out"
      "length out = unat h * unat (v210RowBytes w)"
      "\<And>q. q < unat h \<Longrightarrow> block out (q * unat (v210RowBytes w)) (unat (v210RowBytes w)) =
         barRow w h (of_nat q) i n @ replicate (unat (v210RowBytes w) - 4 * ((unat (w * 2) + 2) div 3)) 0"
    using renderBars_Some[OF e(1)] by metis
  have "v210Component (block out (q * unat (v210RowBytes w)) (unat (v210RowBytes w))) c =
      ucast (barComponent w (if h > 32 then h - 32 else 0) (of_nat q) i n (of_nat c) AND 0x3ff)"
    if "q < unat h" "c < 2 * unat w" for q c
    using out(3)[OF that(1)] barRow_components[of c w h] that(2) e(2) by simp
  moreover have "block out (q * unat (v210RowBytes w)) (unat (v210RowBytes w)) ! j = 0"
    if "q < unat h" "j < unat (v210RowBytes w)" "4 * ((2 * unat w + 2) div 3) \<le> j" for q j
    using out(3)[OF that(1)] that(2,3) e length_barRow[of w h "of_nat q" i n] by (simp add: nth_append)
  ultimately show ?thesis using out(1,2) by blast
qed

theorem mock_picture_reads_back_witness:
  "\<exists>out. renderBars 96 2 (unat (v210RowBytes 96)) 7 False = Some out \<and> length out = 2 * unat (v210RowBytes 96)"
  using mock_picture_reads_back[of 96 2 7 False] by auto

subsection \<open>A turn of the capture thread\<close>

lemma mockPicture_Some:
  assumes "unat (vm_width m) \<le> 2 ^ 30"
  shows "\<exists>bs. mockPicture p m n = Some bs \<and> length bs = unat (vm_height m) * mockRowBytes p m"
proof (cases "cp_pixelFormat p = YUV8")
  case False
  obtain out where "renderBars (vm_width m) (vm_height m) (unat (v210RowBytes (vm_width m))) n (vm_interlaced m) = Some out"
      "length out = unat (vm_height m) * unat (v210RowBytes (vm_width m))"
    using renderBars_Some[OF v210RowBytes_enough(1)[OF assms]] by metis
  then show ?thesis using False by (simp add: mockPicture_def mockRowBytes_def)
qed (simp add: mockPicture_def mockRowBytes_def Let_def)

lemma length_mockAudio: "length (pk_samples (mockAudio tone p m t)) = pk_sampleFrames (mockAudio tone p m t) * nat (cp_audioChannelCount p)"
  by (simp add: mockAudio_def Let_def length_concat comp_def sum_list_triv)

lemma mockFrame_Some:
  assumes "unat (vm_width m) \<le> 2 ^ 30"
  shows "\<exists>v a. mockFrame tone p m n edge lost t = Some (FrameArrived v a) \<and> hasNoInputSource v = lost \<and>
     (\<not> lost \<longrightarrow> frame_wf (cp_pixelFormat p) v) \<and>
     (case a of None \<Rightarrow> True | Some k \<Rightarrow> length (pk_samples k) = pk_sampleFrames k * nat (cp_audioChannelCount p))"
proof (cases lost)
  case False
  obtain bs where bs: "mockPicture p m n = Some bs" "length bs = unat (vm_height m) * mockRowBytes p m"
    using mockPicture_Some[OF assms] by metis
  have "cp_pixelFormat p = YUV8 \<Longrightarrow> unat (vm_width m * 2) \<le> mockRowBytes p m"
    using v210RowBytes_enough(2)[OF assms] by (simp add: mockRowBytes_def)
  then show ?thesis using False bs assms by (auto simp: mockFrame_def frame_wf_def length_mockAudio)
qed (simp add: mockFrame_def)

text \<open>C36. The mock card and the capture channel fit: in every state of a session opened with the channel's parameters,
  for a mode of a width up to \<open>2 ^ 30\<close> and any time, a turn of the generator writes inside its buffers, and the frame and
  audio packet it hands over run through the channel's callback to the end, whatever MXL grants within its laws.  With
  the signal lost the channel gets no picture and no audio, and the counters step once per turn.\<close>

theorem mock_feeds_channel:
  assumes "unat (vm_width (cp_mode (mk_params c))) \<le> 2 ^ 30" and "grain_law (ie_mxl e)" and "sample_law (ie_mxl e)"
    and "cp_pixelFormat (mk_params c) = pixelFormat (in_cfg s)"
    and "cp_audioChannelCount (mk_params c) = audioChannelCount (in_cfg s)"
  shows "\<exists>out c' sh'. captureTurn tone cb now True c sh = Some (out, c', sh') \<and>
     mk_frameCounter c' = mk_frameCounter c + 1 \<and> mk_params c' = mk_params c \<and>
     out \<noteq> NoOutput \<and>
     (\<forall>v a. out = FrameArrived v a \<longrightarrow>
        hasNoInputSource v = inLossWindow (mk_options c) (mk_frameCounter c + 1) \<and>
        hardwareTimestampNs v = nextEdge (frameDurNs (cp_mode (mk_params c))) now - kHardwareClockOffsetNs \<and>
        (\<exists>t. handleFrame e owns v a s = Some t))"
proof -
  let ?p = "mk_params c" and ?n = "mk_frameCounter c + 1"
  let ?lost = "inLossWindow (mk_options c) ?n" and ?edge = "nextEdge (frameDurNs (cp_mode ?p)) now"
  obtain v a where f: "mockFrame tone ?p (cp_mode ?p) ?n ?edge ?lost (mk_tone c) = Some (FrameArrived v a)"
      "hasNoInputSource v = ?lost" "\<not> ?lost \<longrightarrow> frame_wf (cp_pixelFormat ?p) v"
      "case a of None \<Rightarrow> True | Some k \<Rightarrow> length (pk_samples k) = pk_sampleFrames k * nat (cp_audioChannelCount ?p)"
    using mockFrame_Some[OF assms(1), of tone ?p ?n ?edge ?lost "mk_tone c"] by (elim exE conjE) (rule that; assumption)
  have ts: "hardwareTimestampNs v = ?edge - kHardwareClockOffsetNs"
    using f(1) by (auto simp: mockFrame_def split: option.splits if_splits)
  have "\<exists>t. handleFrame e owns v a s = Some t"
  proof (cases ?lost)
    case True
    then show ?thesis using f(2) by (simp add: handleFrame_def Let_def split: prod.split)
  next
    case False
    have "in_cfg (noteSignal (in_ticked s)) = in_cfg s" using hot_eqD(11)[of "noteSignal (in_ticked s)" s] by simp
    moreover have "packet_wf (in_cfg s) a" using f(4) assms(5) by (simp add: packet_wf_def split: option.splits)
    moreover have "frame_wf (pixelFormat (in_cfg s)) v" using f(3) False assms(4) by simp
    ultimately have "\<exists>t. captureFrame e v a (noteSignal (in_ticked s)) = Some t"
      using captureFrame_Some[OF assms(2,3)] by metis
    then show ?thesis by (simp add: handleFrame_def in_taiNow_def Let_def)
  qed
  note fits = this
  let ?c = "c\<lparr>mk_frameCounter := ?n, mk_inSignalLoss := ?lost\<rparr>"
  show ?thesis
  proof (cases "formatChangeDue ?c (cp_mode ?p) ?n cb")
    case None
    let ?c' = "if cp_audioEnable ?p \<and> \<not> ?lost then ?c\<lparr>mk_tone := mk_tone ?c + unat (samplesPerFrame (cp_mode ?p))\<rparr> else ?c"
    have "captureTurn tone cb now True c sh = Some (FrameArrived v a, ?c', sh\<lparr>ms_signalLocked := \<not> ?lost\<rparr>)"
      using None f(1) by (simp add: captureTurn_def Let_def)
    then show ?thesis using f(2) ts fits by auto
  next
    case (Some fc)
    have "captureTurn tone cb now True c sh = Some (FormatChanged fc, ?c, sh\<lparr>ms_signalLocked := \<not> ?lost\<rparr>)"
      using Some by (simp add: captureTurn_def Let_def)
    then show ?thesis by auto
  qed
qed

definition demoMock :: MockCapture where
  "demoMock =
     \<lparr>mk_options = the (readMockOptions (\<lambda>_. None)),
      mk_params = \<lparr>cp_mode = mkMode ''PAL'' 0x70616C20 720 576 25 1 True False, cp_enableFormatDetection = False,
        cp_pixelFormat = pixelFormat (in_cfg sampleUp), cp_audioEnable = True,
        cp_audioChannelCount = audioChannelCount (in_cfg sampleUp), cp_audioSampleType = Int32, cp_collectAncPackets = True\<rparr>,
      mk_running = True, mk_inSignalLoss = False, mk_modeChanged = False, mk_resets = 0, mk_frameCounter = 41, mk_tone = 0\<rparr>"

theorem mock_feeds_channel_witness:
  "\<exists>v a c' sh' t. captureTurn (\<lambda>_. 0) False 1000 True demoMock newMockStatus = Some (FrameArrived v a, c', sh') \<and>
     mk_frameCounter c' = 42 \<and> handleFrame sampleInEnv True v a sampleUp = Some t"
proof -
  have laws: "grain_law (ie_mxl sampleInEnv)" "sample_law (ie_mxl sampleInEnv)"
    using grantingEnv_laws by (simp_all add: sampleInEnv_def)
  obtain out c' sh' where turn: "captureTurn (\<lambda>_. 0) False 1000 True demoMock newMockStatus = Some (out, c', sh')"
      "mk_frameCounter c' = mk_frameCounter demoMock + 1" "out \<noteq> NoOutput"
      "\<forall>v a. out = FrameArrived v a \<longrightarrow> (\<exists>t. handleFrame sampleInEnv True v a sampleUp = Some t)"
    using mock_feeds_channel[of demoMock sampleInEnv sampleUp "\<lambda>_. 0" False 1000 newMockStatus True] laws
    by (auto simp: demoMock_def mkMode_def)
  have "\<nexists>fc. out = FormatChanged fc"
    using turn(1) by (auto simp: captureTurn_def Let_def formatChangeDue_def mockFrame_def split: option.splits)
  then obtain v a where "out = FrameArrived v a" using turn(3) by (cases out) auto
  then show ?thesis using turn(1,2,4) by (auto simp: demoMock_def)
qed

end
