(* ===== verification/DeviceManager.thy ===== *)
theory DeviceManager
  imports MockBackend ManagerProps
begin

text \<open>
  \<open>src/decklink/devicemanager.cpp\<close>: opening the configured card on the configured backend, and checking every
  channel against it.  The SDK backend is a parameter: what its \<open>openCard\<close> returns for a selector.
  \<open>None\<close> is an exception, which only the options of the mock backend can throw.  And
  \<open>src/util/hostaddr.cpp\<close>: the first address of the host that is not a loopback address.
\<close>

subsection \<open>The configured card\<close>

datatype OpenError = SdkError string | MockError MockOpenError | ChannelError CardError

definition cardSelector :: "Config \<Rightarrow> CardSelector" where
  "cardSelector cfg = \<lparr>sc_persistentId = cardId cfg, sc_displayName = cardName cfg, sc_index = cardIndex cfg\<rparr>"

definition mapLeft :: "('a \<Rightarrow> 'b) \<Rightarrow> 'a + 'c \<Rightarrow> 'b + 'c" where
  "mapLeft f r = (case r of Inl a \<Rightarrow> Inl (f a) | Inr c \<Rightarrow> Inr c)"

definition openBackendCard ::
  "(CardSelector \<Rightarrow> string + OpenedCard) \<Rightarrow> EnvReader \<Rightarrow> Config \<Rightarrow> (OpenError + OpenedCard) option" where
  "openBackendCard sdk env cfg =
     (if backend cfg = ''mock''
      then map_option (\<lambda>o'. mapLeft MockError (openMockCard o' (cardSelector cfg))) (readMockOptions env)
      else Some (mapLeft SdkError (sdk (cardSelector cfg))))"

text \<open>The cross-check of one channel.  \<open>size_t\<close> makes a negative index a huge one.\<close>

definition checkChannel :: "OpenedCard \<Rightarrow> ChannelConfig \<Rightarrow> CardError option" where
  "checkChannel c ch =
     (let subs = oc_subDevices c; i = subdeviceIndex ch in
      if i < 0 \<or> nat i \<ge> length subs then Some (NoSubDevice (ch_index ch) i)
      else
        let sub = subs ! nat i in
        if direction ch = Input \<and> \<not> supportsCapture sub then Some (NoCapture (ch_index ch))
        else if direction ch = Output \<and> \<not> supportsPlayback sub then Some (NoPlayback (ch_index ch))
        else if isAutoMode ch \<and> \<not> supportsInputFormatDetection sub then Some (NoDetection (ch_index ch))
        else None)"

fun checkChannels :: "OpenedCard \<Rightarrow> ChannelConfig list \<Rightarrow> CardError option" where
  "checkChannels c [] = None"
| "checkChannels c (ch # chs) = (case checkChannel c ch of Some e \<Rightarrow> Some e | None \<Rightarrow> checkChannels c chs)"

definition openConfiguredCard ::
  "(CardSelector \<Rightarrow> string + OpenedCard) \<Rightarrow> EnvReader \<Rightarrow> Config \<Rightarrow> (OpenError + OpenedCard) option" where
  "openConfiguredCard sdk env cfg =
     (case openBackendCard sdk env cfg of
        None \<Rightarrow> None
      | Some (Inl e) \<Rightarrow> Some (Inl e)
      | Some (Inr c) \<Rightarrow>
          Some (case checkChannels c (channels cfg) of Some e \<Rightarrow> Inl (ChannelError e) | None \<Rightarrow> Inr c))"

text \<open>The check at startup is the one of every later reconfiguration.\<close>

lemma checkChannel_eq: "checkChannel c ch = validateAgainstCard (oc_subDevices c) ch"
proof (cases "subdeviceIndex ch < 0")
  case False
  then have "nat (subdeviceIndex ch) \<ge> length (oc_subDevices c) \<longleftrightarrow> int (length (oc_subDevices c)) \<le> subdeviceIndex ch"
    by linarith
  then show ?thesis by (simp add: checkChannel_def validateAgainstCard_def Let_def)
qed (simp add: checkChannel_def validateAgainstCard_def Let_def)

lemma checkChannels_eq: "checkChannels c chs = validateAll (oc_subDevices c) chs"
  by (induction chs) (auto simp: checkChannel_eq split: option.splits)

lemma openConfiguredCard_Inr:
  assumes "openConfiguredCard sdk env cfg = Some (Inr c)"
  shows "openBackendCard sdk env cfg = Some (Inr c)" and "validateAll (oc_subDevices c) (channels cfg) = None"
  using assms by (auto simp: openConfiguredCard_def checkChannels_eq split: option.splits sum.splits)

subsection \<open>The address to announce\<close>

text \<open>An interface without an IPv4 address, or its four octets; \<open>inet_ntop\<close> prints them with dots.\<close>

type_synonym Interface = "u8 list option"

definition octet :: "u8 \<Rightarrow> string" where "octet b = nat_to_string (unat b)"

definition inetNtop :: "u8 list \<Rightarrow> string" where
  "inetNtop bs = drop 1 (concat (map (\<lambda>b. CHR ''.'' # octet b) bs))"

definition isLoopbackText :: "string \<Rightarrow> bool" where
  "isLoopbackText ip \<longleftrightarrow> take 4 ip = ''127.''"

fun firstAddress :: "Interface list \<Rightarrow> string option" where
  "firstAddress [] = None"
| "firstAddress (None # ifs) = firstAddress ifs"
| "firstAddress (Some bs # ifs) =
     (let ip = inetNtop bs in if isLoopbackText ip then firstAddress ifs else Some ip)"

text \<open>\<open>None\<close> is a failed \<open>getifaddrs\<close>.\<close>

definition firstNonLoopbackIpv4 :: "Interface list option \<Rightarrow> string option" where
  "firstNonLoopbackIpv4 list = (case list of None \<Rightarrow> None | Some ifs \<Rightarrow> firstAddress ifs)"

end
