(* ===== verification/Housekeeping.thy ===== *)
theory Housekeeping
  imports MetricsProps ChannelManager
begin

text \<open>
  \<open>src/ops/housekeeping.cpp\<close>: the loop that runs once a second.  One iteration takes the TAI time and the views
  of the channels; \<open>hk_channelRuns\<close> and \<open>hk_collections\<close> count the calls of \<open>ChannelManager::housekeeping\<close> and
  \<open>Domain::garbageCollect\<close>.
\<close>

record Housekeeping =
  hk_running :: bool
  hk_thread :: bool
  hk_lastHeartbeat :: u64
  hk_metrics :: Registry
  hk_channelRuns :: nat
  hk_collections :: nat
  hk_gcCountdown :: int

definition newHousekeeping :: "u64 \<Rightarrow> Registry \<Rightarrow> Housekeeping" where
  "newHousekeeping started reg =
     \<lparr>hk_running = False, hk_thread = False, hk_lastHeartbeat = started, hk_metrics = reg, hk_channelRuns = 0,
      hk_collections = 0, hk_gcCountdown = 0\<rparr>"

text \<open>The counter of the loop is a local variable: it starts at zero with the thread.\<close>

definition startHousekeeping :: "Housekeeping \<Rightarrow> Housekeeping" where
  "startHousekeeping h = h\<lparr>hk_running := True, hk_thread := True, hk_gcCountdown := 0\<rparr>"

definition stopHousekeeping :: "Housekeeping \<Rightarrow> Housekeeping" where
  "stopHousekeeping h = h\<lparr>hk_running := False, hk_thread := False\<rparr>"

definition kFlowInfo :: string where "kFlowInfo = ''mxl_decklink_active_video_flow_id''"

definition flowInfoLabels :: "ChannelView \<Rightarrow> labels" where
  "flowInfoLabels v =
     [(''channel_index'', int_to_string (ch_index (cv_cfg v))), (''channel_label'', ch_label (cv_cfg v)),
      (''direction'', directionName (direction (cv_cfg v))), (''flow_id'', activeVideoFlowId (cv_status v))]"

definition publishFlow :: "ChannelView \<Rightarrow> Registry \<Rightarrow> Registry" where
  "publishFlow v reg =
     setGauge kFlowInfo (labelString (flowInfoLabels v)) 1
       (registerGauge kFlowInfo ''Active video flow UUID (info metric, value is always 1)'' (flowInfoLabels v) reg)"

definition housekeepingTurn :: "u64 \<times> ChannelView list \<Rightarrow> Housekeeping \<Rightarrow> Housekeeping" where
  "housekeepingTurn turn h =
     (case turn of (now, views) \<Rightarrow>
        let countdown = hk_gcCountdown h - 1;
            h = h\<lparr>hk_lastHeartbeat := now, hk_channelRuns := hk_channelRuns h + 1,
                  hk_metrics := fold publishFlow views (hk_metrics h), hk_gcCountdown := countdown\<rparr>
        in if countdown \<le> 0 then h\<lparr>hk_collections := hk_collections h + 1, hk_gcCountdown := 60\<rparr> else h)"

text \<open>The turns up to the stop.\<close>

fun housekeepingLoop :: "(u64 \<times> ChannelView list) list \<Rightarrow> Housekeeping \<Rightarrow> Housekeeping" where
  "housekeepingLoop [] h = h"
| "housekeepingLoop (t # ts) h = (if \<not> hk_running h then h else housekeepingLoop ts (housekeepingTurn t h))"

lemma turn_effects:
  "hk_running (housekeepingTurn t h) = hk_running h" "hk_lastHeartbeat (housekeepingTurn t h) = fst t"
  "hk_channelRuns (housekeepingTurn t h) = hk_channelRuns h + 1"
  "hk_metrics (housekeepingTurn t h) = fold publishFlow (snd t) (hk_metrics h)"
  "hk_gcCountdown (housekeepingTurn t h) = (if hk_gcCountdown h \<le> 1 then 60 else hk_gcCountdown h - 1)"
  "hk_collections (housekeepingTurn t h) = (if hk_gcCountdown h \<le> 1 then hk_collections h + 1 else hk_collections h)"
  by (auto simp: housekeepingTurn_def Let_def split: prod.splits)

lemma loop_fold: "hk_running h \<Longrightarrow> housekeepingLoop ts h = fold housekeepingTurn ts h"
  by (induction ts arbitrary: h) (auto simp: turn_effects)

subsection \<open>The schedule\<close>

lemma next_sixty: "(Suc (Suc n) + 59) div 60 = (Suc n + 59) div 60 + (if n mod 60 = 59 then 1 else 0)"
proof -
  have "(Suc (Suc n) + 59) div 60 = Suc n div 60 + 1" "(Suc n + 59) div 60 = n div 60 + 1"
    using div_add_self2[of 60 "Suc n"] div_add_self2[of 60 n] by (simp_all add: add.commute)
  moreover have "Suc n div 60 = n div 60 + (if n mod 60 = 59 then 1 else 0)"
    by (simp add: div_Suc mod_Suc dvd_eq_mod_eq_0)
  ultimately show ?thesis by simp
qed

lemma countdown:
  assumes "h = fold housekeepingTurn ts (startHousekeeping h0)"
  shows "hk_channelRuns h = hk_channelRuns h0 + length ts \<and>
    hk_collections h = hk_collections h0 + (length ts + 59) div 60 \<and>
    (if ts = [] then hk_gcCountdown h = 0 else hk_gcCountdown h = 60 - int ((length ts - 1) mod 60) \<and> hk_lastHeartbeat h = fst (last ts))"
  using assms
proof (induction ts arbitrary: h rule: rev_induct)
  case Nil
  then show ?case by (simp add: startHousekeeping_def)
next
  case (snoc t ts)
  define h1 where "h1 = fold housekeepingTurn ts (startHousekeeping h0)"
  have h: "h = housekeepingTurn t h1" using snoc.prems by (simp add: h1_def)
  note ih = snoc.IH[OF h1_def]
  show ?case
  proof (cases ts rule: rev_cases)
    case Nil
    then show ?thesis using ih by (simp add: h turn_effects)
  next
    case (snoc us u)
    define n where "n = length us"
    have l: "length ts = Suc n" "ts \<noteq> []" using snoc by (simp_all add: n_def)
    have r: "hk_channelRuns h1 = hk_channelRuns h0 + Suc n"
      by (rule conjunct1[OF ih, unfolded l(1)])
    have g: "hk_collections h1 = hk_collections h0 + (Suc n + 59) div 60"
      by (rule conjunct1[OF conjunct2[OF ih], unfolded l(1)])
    have "hk_gcCountdown h1 = 60 - int ((length ts - 1) mod 60)"
      using conjunct2[OF conjunct2[OF ih]] l(2) by (rule iffD1[OF if_not_P, THEN conjunct1, rotated])
    then have c: "hk_gcCountdown h1 = 60 - int (n mod 60)" unfolding l(1) diff_Suc_1 .
    show ?thesis
    proof (cases "n mod 60 = 59")
      case True
      then have "(Suc (Suc n) + 59) div 60 = (Suc n + 59) div 60 + 1" "Suc n mod 60 = 0"
        using next_sixty[of n] by (simp_all add: mod_Suc)
      then show ?thesis using c g r l True by (simp add: h turn_effects)
    next
      case False
      then have "(Suc (Suc n) + 59) div 60 = (Suc n + 59) div 60" "Suc n mod 60 = n mod 60 + 1" "n mod 60 < 59"
        using next_sixty[of n] mod_less_divisor[of 60 n] by (simp_all add: mod_Suc)
      then show ?thesis using c g r l False by (simp add: h turn_effects)
    qed
  qed
qed

text \<open>The schedule of the housekeeping thread: every turn runs the channels' housekeeping and refreshes the
  heartbeat that the liveness probe reads, and the flows of dead writers are collected in the first turn and then in
  every sixtieth.\<close>

theorem housekeeping_schedule:
  "let h = housekeepingLoop turns (startHousekeeping h0) in
     hk_channelRuns h = hk_channelRuns h0 + length turns \<and>
     hk_collections h = hk_collections h0 + (length turns + 59) div 60 \<and>
     hk_lastHeartbeat h = (if turns = [] then hk_lastHeartbeat h0 else fst (last turns))"
proof -
  have r: "hk_running (startHousekeeping h0)" by (simp add: startHousekeeping_def)
  show ?thesis
    using countdown[OF refl, of turns h0] unfolding loop_fold[OF r] Let_def
    by (cases "turns = []") (auto simp: startHousekeeping_def)
qed

subsection \<open>The flow identifiers\<close>

definition gaugeOf :: "Registry \<Rightarrow> string \<Rightarrow> string \<Rightarrow> double option" where
  "gaugeOf reg name key = map_of (fa_gauges (familyOf name reg)) key"

lemma gauge_publish:
  "gaugeOf (publishFlow v reg) kFlowInfo key =
     (if key = labelString (flowInfoLabels v) then Some 1 else gaugeOf reg kFlowInfo key)"
  by (auto simp: gaugeOf_def publishFlow_def setGauge_def registerGauge_def familyOf_def Let_def changeAt_def lookup_slot
      split: option.splits)

lemma gauge_publish_all:
  "gaugeOf (fold publishFlow vs reg) kFlowInfo key =
     (if key \<in> (\<lambda>v. labelString (flowInfoLabels v)) ` set vs then Some 1 else gaugeOf reg kFlowInfo key)"
  by (induction vs arbitrary: reg) (auto simp: gauge_publish)

text \<open>A series is never taken back: after a channel has changed its flow, the registry shows both identifiers as
  active.\<close>

lemma gauge_kept:
  "gaugeOf (hk_metrics h) kFlowInfo key = Some 1 \<Longrightarrow> gaugeOf (hk_metrics (fold housekeepingTurn ts h)) kFlowInfo key = Some 1"
  by (induction ts arbitrary: h) (auto simp: turn_effects gauge_publish_all)

lemma stale_flow_series:
  assumes "v \<in> set (snd t)" and "v' \<in> set (snd t')"
  shows "let reg = hk_metrics (fold housekeepingTurn (t # ts @ [t']) h) in
    gaugeOf reg kFlowInfo (labelString (flowInfoLabels v)) = Some 1 \<and>
    gaugeOf reg kFlowInfo (labelString (flowInfoLabels v')) = Some 1"
proof -
  have "gaugeOf (hk_metrics (housekeepingTurn t h)) kFlowInfo (labelString (flowInfoLabels v)) = Some 1"
    using assms(1) by (simp add: turn_effects gauge_publish_all)
  from gauge_kept[OF this, of "ts @ [t']"] show ?thesis
    using assms(2) by (simp add: turn_effects gauge_publish_all)
qed

end
