(* ===== verification/FsRemove.thy ===== *)
theory FsRemove
  imports DomainProps
begin

text \<open>
  \<open>std::filesystem::remove_all\<close>, which the shutdown of the program calls: links in the directories of the path are
  followed, the last component is not; a tree goes children first, in the order a directory is iterated, up to the
  first failure.  A path that ends in a dot name has its contents removed, then fails.  Which removals the system
  refuses is a parameter.
\<close>

definition dropNode :: "path \<Rightarrow> FS \<Rightarrow> FS" where
  "dropNode p fs = filter (\<lambda>(q, n). q \<noteq> p) fs"

fun removeSeq :: "(path \<Rightarrow> bool) \<Rightarrow> path list \<Rightarrow> FS \<Rightarrow> bool \<times> FS" where
  "removeSeq fails [] fs = (True, fs)"
| "removeSeq fails (p # ps) fs = (if p = [] \<or> fails p then (False, fs) else removeSeq fails ps (dropNode p fs))"

text \<open>The nodes of a tree, children first, to the depth of the file system.\<close>

fun postorder :: "nat \<Rightarrow> FS \<Rightarrow> path \<Rightarrow> path list" where
  "postorder 0 fs p = [p]"
| "postorder (Suc n) fs p =
     (if nodeAt fs p = Some FsDir then concat (map (\<lambda>c. postorder n fs (p @ [c])) (entryNames fs p)) else []) @ [p]"

definition fsDepth :: "FS \<Rightarrow> nat" where
  "fsDepth fs = foldr max (map (length \<circ> fst) fs) 0"

text \<open>The node a path names for removal, and whether its last component is a name.\<close>

definition removeTarget :: "FS \<Rightarrow> path \<Rightarrow> Path \<Rightarrow> (path \<times> bool) option" where
  "removeTarget fs cwd p =
     (let cs = osComps cwd p in
      if isEmptyPath p then None
      else if cs = [] then Some ([], False)
      else case realPath fs kMaxLinks [] (butlast cs) of
             Found d \<Rightarrow>
               (let c = List.last cs in
                if nodeAt fs d \<noteq> Some FsDir then None
                else if dotless c then Some (d @ [c], True)
                else if c = ''..'' then Some (butlast d, False)
                else Some (d, False))
           | _ \<Rightarrow> None)"

definition removeAll :: "(path \<Rightarrow> bool) \<Rightarrow> path \<Rightarrow> Path \<Rightarrow> FS \<Rightarrow> bool \<times> FS" where
  "removeAll fails cwd p fs =
     (case removeTarget fs cwd p of
        None \<Rightarrow> (True, fs)
      | Some (t, named) \<Rightarrow>
          if nodeAt fs t = None then (True, fs)
          else removeSeq (\<lambda>q. fails q \<or> (q = t \<and> \<not> named)) (postorder (fsDepth fs) fs t) fs)"

subsection \<open>What is left\<close>

lemma nodeAt_dropNode: "nodeAt (dropNode p fs) q = (if q = p \<and> p \<noteq> [] then None else nodeAt fs q)"
proof (cases "q = []")
  case False
  have "map_of (dropNode p fs) q = (if q = p then None else map_of fs q)"
    by (induction fs) (auto simp: dropNode_def)
  then show ?thesis using False by (cases "q = p") (simp_all add: nodeAt_def)
qed simp

lemma removeSeq_other: "q \<notin> set ps \<Longrightarrow> nodeAt (snd (removeSeq fails ps fs)) q = nodeAt fs q"
  by (induction ps arbitrary: fs) (auto simp: nodeAt_dropNode)

lemma removeSeq_shrinks: "nodeAt (snd (removeSeq fails ps fs)) q = Some n \<Longrightarrow> nodeAt fs q = Some n"
proof (induction ps arbitrary: fs)
  case (Cons p ps)
  show ?case
  proof (cases "p = [] \<or> fails p")
    case False
    then have "nodeAt (dropNode p fs) q = Some n" using Cons by simp
    then show ?thesis by (simp add: nodeAt_dropNode split: if_splits)
  qed (use Cons.prems in simp)
qed simp

lemma removeSeq_all: "fst (removeSeq fails ps fs) \<Longrightarrow> q \<in> set ps \<Longrightarrow> nodeAt (snd (removeSeq fails ps fs)) q = None"
proof (induction ps arbitrary: fs)
  case (Cons p ps)
  then have p: "p \<noteq> []" "\<not> fails p" "fst (removeSeq fails ps (dropNode p fs))" by (simp_all split: if_splits)
  show ?case
  proof (cases "q \<in> set ps")
    case False
    then have "q = p" using Cons.prems(2) by simp
    then show ?thesis using p False by (simp add: removeSeq_other nodeAt_dropNode)
  qed (use p Cons.IH in simp)
qed simp

lemma postorder_below: "q \<in> set (postorder n fs p) \<Longrightarrow> \<exists>r. q = p @ r"
proof (induction n arbitrary: p)
  case (Suc n)
  then show ?case by (cases "q = p") (fastforce split: if_splits)+
qed simp

lemma depth_bound: "nodeAt fs p = Some n \<Longrightarrow> length p \<le> fsDepth fs"
proof (cases "p = []")
  case False
  assume "nodeAt fs p = Some n"
  then have "(p, n) \<in> set fs" using False by (auto simp: nodeAt_def dest: map_of_SomeD)
  then show ?thesis by (induction fs) (auto simp: fsDepth_def)
qed simp

lemma postorder_all:
  assumes "fs_wf fs" and "nodeAt fs (p @ r) = Some k" and "length (p @ r) \<le> length p + n"
  shows "p @ r \<in> set (postorder n fs p)"
  using assms(2,3)
proof (induction n arbitrary: p r)
  case (Suc n)
  show ?case
  proof (cases r)
    case (Cons c cs)
    have dir: "nodeAt fs p = Some FsDir" using wf_above[OF assms(1) Suc.prems(1)] Cons by simp
    have "nodeAt fs (p @ [c]) \<noteq> None"
      using Suc.prems(1) wf_above[OF assms(1), of "p @ [c]" cs] Cons by (cases cs) auto
    then have "(p @ [c]) \<in> fst ` set fs" by (simp add: nodeAt_def map_of_eq_None_iff)
    then have "c \<in> set (entryNames fs p)" by (force simp: entryNames_def)
    moreover have "p @ r \<in> set (postorder n fs (p @ [c]))" using Suc.IH[of "p @ [c]" cs] Suc.prems Cons by simp
    ultimately show ?thesis using dir by auto
  qed simp
qed simp

lemma removeAll_other:
  assumes "removeTarget fs cwd p = Some (t, named)" and "\<nexists>r. q = t @ r"
  shows "nodeAt (snd (removeAll fails cwd p fs)) q = nodeAt fs q"
proof -
  have "q \<notin> set (postorder (fsDepth fs) fs t)" using assms(2) postorder_below[of q _ fs t] by blast
  then show ?thesis using assms(1) by (simp add: removeAll_def removeSeq_other)
qed

lemma removeAll_None: "removeTarget fs cwd p = None \<Longrightarrow> removeAll fails cwd p fs = (True, fs)"
  by (simp add: removeAll_def)

lemma removeAll_shrinks: "nodeAt (snd (removeAll fails cwd p fs)) q = Some n \<Longrightarrow> nodeAt fs q = Some n"
  by (auto simp: removeAll_def split: option.splits if_splits dest: removeSeq_shrinks)

lemma removeAll_done:
  assumes "fs_wf fs" and "removeTarget fs cwd p = Some (t, named)" and "fst (removeAll fails cwd p fs)"
  shows "nodeAt (snd (removeAll fails cwd p fs)) (t @ r) = None"
proof (cases "nodeAt fs t")
  case None
  then have "nodeAt fs (t @ r) = None" using wf_above[OF assms(1), of t r] by (cases "nodeAt fs (t @ r)"; cases "r = []") auto
  then show ?thesis using None assms(2) by (simp add: removeAll_def)
next
  case (Some k)
  let ?f = "\<lambda>q. fails q \<or> (q = t \<and> \<not> named)"
  have eq: "removeAll fails cwd p fs = removeSeq ?f (postorder (fsDepth fs) fs t) fs"
    using assms(2) Some by (simp add: removeAll_def)
  show ?thesis
  proof (cases "nodeAt fs (t @ r)")
    case None
    then show ?thesis using removeAll_shrinks[of fails cwd p fs "t @ r"] by (cases "nodeAt (snd (removeAll fails cwd p fs)) (t @ r)") auto
  next
    case (Some k)
    then have "t @ r \<in> set (postorder (fsDepth fs) fs t)"
      using postorder_all[OF assms(1)] depth_bound[OF Some] by auto
    then show ?thesis using removeSeq_all assms(3) unfolding eq by blast
  qed
qed

end
