(* ===== verification/Program.thy ===== *)
theory Program
  imports DeviceManager Housekeeping WebProps FsRemove Routing
begin

text \<open>
  \<open>src/main.cpp\<close>: the startup, the wait loop and the staged shutdown of the process.  What it asks the system, the card and
  MXL is an environment; the flags its signal handler and the card's callback set are read by the number of the read.
  A step gives the exit code of an early return, or a value to go on with.  The log is left out; \<open>pg_trace\<close> records what
  the process did, in order, and \<open>None\<close> is a run that never ends.
\<close>

datatype ProgEvent =
  CardAttempt nat
  | Slept nat
  | InstanceCreated
  | ProfileApplied
  | HousekeepingStarted
  | NodeStarted
  | ChannelsStarted
  | WebStarted
  | ChannelsStopped
  | NodeStopped
  | WebStopped
  | HousekeepingStopped
  | InstanceDestroyed bool
  | CardReleased

record ProgEnv =
  pe_env :: EnvReader
  pe_fs :: FsEnv
  pe_isIpLiteral :: "string \<Rightarrow> bool"
  pe_interfaces :: "Interface list option"
  pe_nmosBuilt :: bool
  pe_createInstance :: "string \<Rightarrow> nat option"
  pe_sdkOpen :: "nat \<Rightarrow> CardSelector \<Rightarrow> string + OpenedCard"
  pe_signal :: "nat \<Rightarrow> int"
  pe_profileChanged :: "nat \<Rightarrow> bool"
  pe_applyProfile :: "CardProfile \<Rightarrow> string option"
  pe_nodeError :: "string option"
  pe_nodeRestores :: "ChannelConfig list option"
  pe_registered :: "nat \<Rightarrow> bool"
  pe_startedAt :: u64
  pe_listen :: "int \<times> bool \<times> bool"
  pe_socket :: bool
  pe_connects :: "u16 \<Rightarrow> bool"
  pe_requests :: "nat \<Rightarrow> AcceptEvent list"
  pe_web :: "nat \<Rightarrow> WebEnv"
  pe_watch :: "(int \<times> nat) list"
  pe_removeFails :: "path \<Rightarrow> bool"

record Program =
  pg_store :: "ConfigStore option"
  pg_disk :: FileState
  pg_fs :: FS
  pg_instance :: "nat option"
  pg_card :: "OpenedCard option"
  pg_manager :: "ChannelManager option"
  pg_housekeeping :: "Housekeeping option"
  pg_node :: bool
  pg_server :: "HttpServer option"
  pg_restart :: bool
  pg_trace :: "ProgEvent list"

type_synonym 'a outcome = "(int + 'a) \<times> Program"

definition kExitProfileChanged :: int where "kExitProfileChanged = 2"
definition kExitTempFail :: int where "kExitTempFail = 75"
definition kExitConfig :: int where "kExitConfig = 78"
definition kExitForced :: int where "kExitForced = 143"

definition newProgram :: "FileState \<Rightarrow> FS \<Rightarrow> Program" where
  "newProgram disk fs =
     \<lparr>pg_store = None, pg_disk = disk, pg_fs = fs, pg_instance = None, pg_card = None, pg_manager = None,
      pg_housekeeping = None, pg_node = False, pg_server = None, pg_restart = False, pg_trace = []\<rparr>"

definition record_event :: "ProgEvent \<Rightarrow> Program \<Rightarrow> Program" where
  "record_event ev s = s\<lparr>pg_trace := pg_trace s @ [ev]\<rparr>"

definition andThen :: "'a outcome \<Rightarrow> ('a \<Rightarrow> Program \<Rightarrow> 'b outcome) \<Rightarrow> 'b outcome" where
  "andThen r f = (case r of (Inl n, s) \<Rightarrow> (Inl n, s) | (Inr a, s) \<Rightarrow> f a s)"

subsection \<open>The configuration\<close>

definition loadSettings :: "ProgEnv \<Rightarrow> Program \<Rightarrow> Config outcome" where
  "loadSettings e s =
     (case newConfigStore (fe_parseJson (pe_fs e)) (pe_env e) (pg_disk s) of
        Inl err \<Rightarrow> (Inl kExitConfig, s)
      | Inr st \<Rightarrow>
          (case effectiveConfig (fe_parseJson (pe_fs e)) (pe_isIpLiteral e) st of
             Inl err \<Rightarrow> (Inl kExitConfig, s)
           | Inr cfg \<Rightarrow> (Inr cfg, s\<lparr>pg_store := Some st\<rparr>)))"

definition fillHostAddress :: "ProgEnv \<Rightarrow> Config \<Rightarrow> Program \<Rightarrow> Config outcome" where
  "fillHostAddress e cfg s =
     (if nmosEnable cfg \<and> nmosHostAddress cfg = [] then
        (case firstNonLoopbackIpv4 (pe_interfaces e) of
           Some ip \<Rightarrow> (Inr (cfg\<lparr>nmosHostAddress := ip\<rparr>), s)
         | None \<Rightarrow> (Inl kExitConfig, s))
      else (Inr cfg, s))"

definition seedDomainId :: "Config \<Rightarrow> Config" where
  "seedDomainId cfg =
     (if outputDomainId cfg = [] \<and> nmosSeed cfg \<noteq> [] then cfg\<lparr>outputDomainId := idFromSeed (nmosSeed cfg) ''domain''\<rparr> else cfg)"

definition prepare :: "ProgEnv \<Rightarrow> Program \<Rightarrow> Config outcome" where
  "prepare e s =
     andThen (loadSettings e s) (\<lambda>cfg s.
     andThen (fillHostAddress e cfg s) (\<lambda>cfg s.
       let cfg = seedDomainId cfg in
       if \<not> pe_nmosBuilt e \<and> nmosEnable cfg then (Inl kExitConfig, s) else (Inr cfg, s)))"

subsection \<open>The domain\<close>

text \<open>Only the message of an id mismatch begins with \<open>domain_id_mismatch:\<close>.\<close>

definition adoptExit :: "AdoptError \<Rightarrow> int" where
  "adoptExit err = (case err of DomainIdMismatch p a b \<Rightarrow> kExitConfig | _ \<Rightarrow> kExitTempFail)"

definition openOutputDomain :: "ProgEnv \<Rightarrow> Config \<Rightarrow> Program \<Rightarrow> Config outcome" where
  "openOutputDomain e cfg s =
     (case adoptOutputDomain (pe_fs e)
             \<lparr>od_path = domainPath cfg, od_id = (if outputDomainId cfg = [] then None else Some (outputDomainId cfg)),
              od_historyDurationNs = historyDurationNs cfg\<rparr> (pg_fs s) of
        (Inl err, fs) \<Rightarrow> (Inl (adoptExit err), s\<lparr>pg_fs := fs\<rparr>)
      | (Inr ident, fs) \<Rightarrow>
          (let cfg = cfg\<lparr>outputDomainId := ident\<rparr> in
           case openDomain (pe_fs e) (pe_createInstance e) False (domainPath cfg) fs of
             (Inl err, fs) \<Rightarrow> (Inl kExitTempFail, s\<lparr>pg_fs := fs\<rparr>)
           | (Inr i, fs) \<Rightarrow> (Inr cfg, record_event InstanceCreated (s\<lparr>pg_fs := fs, pg_instance := Some i\<rparr>))))"

subsection \<open>The card\<close>

definition nextBackoff :: "nat \<Rightarrow> nat" where
  "nextBackoff ms = (if ms * 2 > 30000 then 30000 else ms * 2)"

text \<open>Up to \<open>n\<close> more attempts, with the number of reads of the signal so far.  The exit code is that of an exception, which
  only the mock backend's options throw; a return of \<open>nullptr\<close> is \<open>None\<close>.\<close>

fun openCardLoop :: "ProgEnv \<Rightarrow> Config \<Rightarrow> nat \<Rightarrow> nat \<Rightarrow> nat \<Rightarrow> Program \<Rightarrow> (OpenedCard option \<times> nat) outcome" where
  "openCardLoop e cfg 0 attempt backoffMs s = (Inr (None, attempt), s)"
| "openCardLoop e cfg (Suc n) attempt backoffMs s =
     (if pe_signal e attempt \<noteq> 0 then (Inr (None, attempt + 1), s)
      else
        let s = record_event (CardAttempt attempt) s in
        case openConfiguredCard (pe_sdkOpen e attempt) (pe_env e) cfg of
          None \<Rightarrow> (Inl kExitTempFail, s)
        | Some (Inr c) \<Rightarrow> (Inr (Some c, attempt + 1), s)
        | Some (Inl err) \<Rightarrow>
            if int attempt < startupMaxRetries cfg
            then openCardLoop e cfg n (attempt + 1) (nextBackoff backoffMs) (record_event (Slept backoffMs) s)
            else openCardLoop e cfg n (attempt + 1) backoffMs s)"

definition openCardWithRetry :: "ProgEnv \<Rightarrow> Config \<Rightarrow> Program \<Rightarrow> (OpenedCard option \<times> nat) outcome" where
  "openCardWithRetry e cfg s = openCardLoop e cfg (nat (startupMaxRetries cfg + 1)) 0 1000 s"

definition attempts :: "Program \<Rightarrow> nat" where
  "attempts s = length (filter (\<lambda>ev. case ev of CardAttempt n \<Rightarrow> True | _ \<Rightarrow> False) (pg_trace s))"

text \<open>The mock card of the first deploy, without hardware.\<close>

definition mockConfig :: "Config \<Rightarrow> Config" where
  "mockConfig cfg = cfg\<lparr>backend := ''mock'', cardId := None, cardName := None, cardIndex := Some 0\<rparr>"

text \<open>The configuration to go on with, whether the card is the substitute, and the number of reads of the signal.\<close>

definition openCard :: "ProgEnv \<Rightarrow> Config \<Rightarrow> Program \<Rightarrow> (Config \<times> bool \<times> nat) outcome" where
  "openCard e cfg s =
     andThen (openCardWithRetry e cfg s) (\<lambda>(found, reads) s.
       case found of
         Some c \<Rightarrow> (Inr (cfg, False, reads), s\<lparr>pg_card := Some c\<rparr>)
       | None \<Rightarrow>
           if pe_signal e reads \<noteq> 0 then (Inl kExitForced, s)
           else if channels cfg = [] \<and> webEnable cfg then
             (case openConfiguredCard (pe_sdkOpen e reads) (pe_env e) (mockConfig cfg) of
                Some (Inr c) \<Rightarrow>
                  (Inr (cfg\<lparr>cardOpenFallback := True, backend := ''mock''\<rparr>, True, reads + 1), s\<lparr>pg_card := Some c\<rparr>)
              | _ \<Rightarrow> (Inl kExitTempFail, s))
           else (Inl kExitTempFail, s))"

definition applyCardProfile :: "ProgEnv \<Rightarrow> Config \<Rightarrow> bool \<Rightarrow> Program \<Rightarrow> unit outcome" where
  "applyCardProfile e cfg degraded s =
     (case cardProfile cfg of
        Some p \<Rightarrow>
          if degraded then (Inr (), s)
          else (case pe_applyProfile e p of
                  Some err \<Rightarrow> (Inl kExitTempFail, s) | None \<Rightarrow> (Inr (), record_event ProfileApplied s))
      | None \<Rightarrow> (Inr (), s))"

subsection \<open>The services\<close>

definition registrationRequired :: "Config \<Rightarrow> bool" where
  "registrationRequired cfg \<longleftrightarrow> nmosEnable cfg \<and> (nmosRegistryAddress cfg \<noteq> [] \<or> nmosDnsSd cfg)"

text \<open>The gate of \<open>/readyz\<close>.\<close>

definition readyGate :: "ProgEnv \<Rightarrow> Config \<Rightarrow> bool \<Rightarrow> nat \<Rightarrow> (unit \<Rightarrow> bool) option" where
  "readyGate e cfg node reads =
     (if registrationRequired cfg then Some (\<lambda>_. pe_nmosBuilt e \<and> node \<and> pe_registered e reads) else None)"

definition tcpPortAccepts :: "ProgEnv \<Rightarrow> int \<Rightarrow> bool" where
  "tcpPortAccepts e port \<longleftrightarrow> pe_socket e \<and> pe_connects e (of_int port)"

definition portsAccept :: "ProgEnv \<Rightarrow> Config \<Rightarrow> bool" where
  "portsAccept e cfg \<longleftrightarrow>
     tcpPortAccepts e (webPort cfg) \<and>
     \<not> (nmosEnable cfg \<and> (\<not> tcpPortAccepts e (nmosPort cfg) \<or> \<not> tcpPortAccepts e (nmosPort cfg + 1)))"

text \<open>The node can reconfigure the channels when it starts: it restores the connections of the last run.\<close>

definition nodeRestored :: "ProgEnv \<Rightarrow> ChannelManager \<Rightarrow> ChannelManager" where
  "nodeRestored e m = (case pe_nodeRestores e of Some chs \<Rightarrow> snd (applyChannels chs m) | None \<Rightarrow> m)"

definition startNode :: "ProgEnv \<Rightarrow> Config \<Rightarrow> Program \<Rightarrow> unit outcome" where
  "startNode e cfg s =
     (if pe_nmosBuilt e \<and> nmosEnable cfg then
        (case pe_nodeError e of
           Some err \<Rightarrow> (Inl kExitTempFail, s)
         | None \<Rightarrow> (Inr (), record_event NodeStarted (s\<lparr>pg_node := True, pg_manager := map_option (nodeRestored e) (pg_manager s)\<rparr>)))
      else (Inr (), s))"

definition startWeb :: "ProgEnv \<Rightarrow> Config \<Rightarrow> Program \<Rightarrow> unit outcome" where
  "startWeb e cfg s =
     (case pe_listen e of
        (fd, bound, listens) \<Rightarrow>
          (case startServer fd bound listens (newHttpServer (webPort cfg)) of
             (Some err, srv) \<Rightarrow> (Inl kExitTempFail, s\<lparr>pg_server := Some srv\<rparr>)
           | (None, srv) \<Rightarrow> (Inr (), record_event WebStarted (s\<lparr>pg_server := Some srv\<rparr>))))"

definition startServices :: "ProgEnv \<Rightarrow> Config \<Rightarrow> Program \<Rightarrow> unit outcome" where
  "startServices e cfg s =
     (let m = newChannelManager cfg (case pg_card s of Some c \<Rightarrow> oc_subDevices c | None \<Rightarrow> []);
          h = startHousekeeping (newHousekeeping (pe_startedAt e) []);
          s = record_event HousekeepingStarted (s\<lparr>pg_manager := Some m, pg_housekeeping := Some h\<rparr>) in
      andThen (startNode e cfg s) (\<lambda>_ s.
        let s = record_event ChannelsStarted (s\<lparr>pg_manager := map_option startAll (pg_manager s)\<rparr>) in
        andThen (startWeb e cfg s) (\<lambda>_ s. if portsAccept e cfg then (Inr (), s) else (Inl kExitTempFail, s))))"

subsection \<open>The wait loop\<close>

text \<open>What the handlers of the web server work on: the store, the channels and the files of the program.  The service is
  constructed once the configuration is loaded and the channels exist.\<close>

definition webOf :: "Program \<Rightarrow> Web" where
  "webOf s =
     \<lparr>w_store = the (pg_store s), w_disk = pg_disk s, w_manager = the (pg_manager s), w_fs = pg_fs s,
      w_restartRequired = pg_restart s\<rparr>"

definition putWeb :: "HttpServer \<times> Web \<Rightarrow> Program \<Rightarrow> Program" where
  "putWeb sw s =
     (case sw of (srv, w) \<Rightarrow>
        s\<lparr>pg_store := Some (w_store w), pg_disk := w_disk w, pg_manager := Some (w_manager w), pg_fs := w_fs w,
          pg_restart := w_restartRequired w, pg_server := Some srv\<rparr>)"

definition webEnvAt :: "ProgEnv \<Rightarrow> Config \<Rightarrow> nat \<Rightarrow> WebEnv" where
  "webEnvAt e cfg reads =
     (pe_web e reads)\<lparr>we_fs := pe_fs e, we_isIpLiteral := pe_isIpLiteral e, we_activeCfg := cfg, we_domainPath := domainPath cfg,
        we_readyGate := readyGate e cfg (pe_nmosBuilt e \<and> nmosEnable cfg) reads, we_startedAt := pe_startedAt e\<rparr>"

definition serveTurn :: "ProgEnv \<Rightarrow> Config \<Rightarrow> nat \<Rightarrow> HttpServer \<times> Web \<Rightarrow> HttpServer \<times> Web" where
  "serveTurn e cfg reads sw = snd (acceptLoop (handleRequest (webEnvAt e cfg reads)) (pe_requests e reads) sw)"

text \<open>Between two reads of the flags the web server serves what came in.\<close>

partial_function (option) waitLoop :: "ProgEnv \<Rightarrow> Config \<Rightarrow> nat \<Rightarrow> HttpServer \<times> Web \<Rightarrow> (nat \<times> HttpServer \<times> Web) option" where
  "waitLoop e cfg reads sw =
     (if pe_signal e reads = 0 \<and> \<not> pe_profileChanged e reads
      then waitLoop e cfg (reads + 1) (serveTurn e cfg reads sw)
      else Some (reads, sw))"

declare waitLoop.simps [code]

subsection \<open>Shutdown\<close>

definition anyRunning :: "ChannelManager \<Rightarrow> bool" where
  "anyRunning m \<longleftrightarrow> list_ex (\<lambda>(i, en). en_input en \<noteq> None \<or> en_output en \<noteq> None) (cm_entries m)"

text \<open>Who could still call MXL: the node, the threads of the web server and of the housekeeping, and running channels.\<close>

definition inUse :: "Program \<Rightarrow> bool" where
  "inUse s \<longleftrightarrow> pg_node s \<or> (\<exists>h \<in> set_option (pg_housekeeping s). hk_thread h) \<or>
     (\<exists>srv \<in> set_option (pg_server s). hs_thread srv) \<or> (\<exists>m \<in> set_option (pg_manager s). anyRunning m)"

definition stopChannels :: "Program \<Rightarrow> Program" where
  "stopChannels s =
     (case pg_manager s of
        None \<Rightarrow> s
      | Some m \<Rightarrow>
          (let s = s\<lparr>pg_manager := Some (stopAll m)\<rparr> in if cm_started m then record_event ChannelsStopped s else s))"

definition stopNode :: "Program \<Rightarrow> Program" where
  "stopNode s = (if pg_node s then record_event NodeStopped (s\<lparr>pg_node := False\<rparr>) else s)"

definition stopWeb :: "Program \<Rightarrow> Program" where
  "stopWeb s =
     (case pg_server s of
        None \<Rightarrow> s
      | Some srv \<Rightarrow>
          (let s = s\<lparr>pg_server := Some (stopServer srv)\<rparr> in if hs_running srv then record_event WebStopped s else s))"

definition stopOps :: "Program \<Rightarrow> Program" where
  "stopOps s =
     (case pg_housekeeping s of
        None \<Rightarrow> s
      | Some h \<Rightarrow>
          (let s = s\<lparr>pg_housekeeping := Some (stopHousekeeping h)\<rparr> in if hk_thread h then record_event HousekeepingStopped s else s))"

definition destroyInstance :: "Program \<Rightarrow> Program" where
  "destroyInstance s =
     (case pg_instance s of
        None \<Rightarrow> s
      | Some i \<Rightarrow> record_event (InstanceDestroyed (inUse s)) (s\<lparr>pg_instance := None\<rparr>))"

definition releaseCard :: "Program \<Rightarrow> Program" where
  "releaseCard s = (case pg_card s of None \<Rightarrow> s | Some c \<Rightarrow> record_event CardReleased (s\<lparr>pg_card := None\<rparr>))"

datatype Cleanup = NotAsked | Refused | CleanupFailed | Removed

definition cleanupDomain :: "ProgEnv \<Rightarrow> Config \<Rightarrow> int \<Rightarrow> FS \<Rightarrow> Cleanup \<times> FS" where
  "cleanupDomain e cfg exitCode fs =
     (if cleanupOnExit cfg \<and> exitCode = kExitForced then
        (let scan = domainScanPath cfg; p = domainPath cfg in
         if p = scan \<or> p = ''/'' \<or> filename (pathOf p) = [] then (Refused, fs)
         else case removeAll (pe_removeFails e) (fe_cwd (pe_fs e)) (pathOf p) fs of
                (True, fs) \<Rightarrow> (Removed, fs) | (False, fs) \<Rightarrow> (CleanupFailed, fs))
      else (NotAsked, fs))"

definition cleanup :: "ProgEnv \<Rightarrow> Config \<Rightarrow> int \<Rightarrow> Program \<Rightarrow> Program" where
  "cleanup e cfg exitCode s = s\<lparr>pg_fs := snd (cleanupDomain e cfg exitCode (pg_fs s))\<rparr>"

definition shutdownStages :: "ProgEnv \<Rightarrow> Config \<Rightarrow> int \<Rightarrow> (Program \<Rightarrow> Program) list" where
  "shutdownStages e cfg exitCode =
     [stopChannels, stopNode, stopWeb, stopOps, destroyInstance, cleanup e cfg exitCode, releaseCard]"

definition runStages :: "(Program \<Rightarrow> Program) list \<Rightarrow> Program \<Rightarrow> Program" where
  "runStages fs s = fold (\<lambda>f s. f s) fs s"

text \<open>The watchdog looks at the clock and at how many of the stages are over: the number over when it ends the process.\<close>

fun watchdog :: "int \<Rightarrow> nat \<Rightarrow> (int \<times> nat) list \<Rightarrow> nat option" where
  "watchdog timeoutS m [] = None"
| "watchdog timeoutS m ((ms, n) # ts) =
     (if m \<le> n then None else if ms > timeoutS * 1000 then Some n else watchdog timeoutS m ts)"

text \<open>The destructors at a return, in the reverse order of the declarations.\<close>

definition unwind :: "Program \<Rightarrow> Program" where
  "unwind s = destroyInstance (releaseCard (stopChannels (stopNode (stopOps (stopWeb s)))))"

subsection \<open>The program\<close>

definition startup :: "ProgEnv \<Rightarrow> Program \<Rightarrow> (Config \<times> nat) outcome" where
  "startup e s =
     andThen (prepare e s) (\<lambda>cfg s.
     andThen (openOutputDomain e cfg s) (\<lambda>cfg s.
     andThen (openCard e cfg s) (\<lambda>(cfg, degraded, reads) s.
     andThen (applyCardProfile e cfg degraded s) (\<lambda>_ s.
     andThen (startServices e cfg s) (\<lambda>_ s. (Inr (cfg, reads), s))))))"

definition shutdown :: "ProgEnv \<Rightarrow> Config \<Rightarrow> nat \<Rightarrow> Program \<Rightarrow> int \<times> Program" where
  "shutdown e cfg reads s =
     (let exitCode = (if pe_profileChanged e (reads + 1) then kExitProfileChanged else kExitForced);
          stages = shutdownStages e cfg exitCode
      in case watchdog (shutdownTimeoutS cfg) (length stages) (pe_watch e) of
           Some n \<Rightarrow> (kExitForced, runStages (take n stages) s)
         | None \<Rightarrow> (exitCode, unwind (runStages stages s)))"

definition runProgram :: "ProgEnv \<Rightarrow> FileState \<Rightarrow> FS \<Rightarrow> (int \<times> Program) option" where
  "runProgram e disk fs =
     (case startup e (newProgram disk fs) of
        (Inl exitCode, s) \<Rightarrow> Some (exitCode, unwind s)
      | (Inr (cfg, reads), s) \<Rightarrow>
          map_option (\<lambda>(reads, sw). shutdown e cfg reads (putWeb sw s)) (waitLoop e cfg reads (the (pg_server s), webOf s)))"

subsection \<open>Persisting the activations of the node\<close>

text \<open>The callback of the node: every setting that the environment does not fix, in the order of the keys.\<close>

definition considerSetting :: "ConfigStore \<Rightarrow> string \<Rightarrow> string \<Rightarrow> changes \<Rightarrow> changes" where
  "considerSetting st key v cs = (if sourceOf st key = SourceEnv then cs else putKey key (Some v) cs)"

definition boolText :: "bool \<Rightarrow> string" where
  "boolText b = (if b then ''true'' else ''false'')"

definition persistChannel :: "ConfigStore \<Rightarrow> ChannelConfig \<Rightarrow> changes \<Rightarrow> changes" where
  "persistChannel st ch cs =
     (let prefix = ''CH'' @ int_to_string (ch_index ch) @ ''_'';
          cs = considerSetting st (prefix @ ''MXL_VIDEO_FLOW_ID'') (toString (videoFlowId ch)) cs;
          cs = considerSetting st (prefix @ ''MXL_ACTIVE'') (boolText (videoMxlActive ch)) cs
      in fold (\<lambda>af cs.
           let afPrefix = prefix @ ''AF'' @ int_to_string (af_index af) @ ''_'';
               cs = considerSetting st (afPrefix @ ''FLOW_ID'') (toString (af_flowId af)) cs
           in considerSetting st (afPrefix @ ''MXL_ACTIVE'') (boolText (af_mxlActive af)) cs) (audioFlows ch) cs)"

definition persistChanges :: "ConfigStore \<Rightarrow> ChannelConfig list \<Rightarrow> changes" where
  "persistChanges st chs = fold (persistChannel st) chs []"

definition persistActivations ::
  "(string \<Rightarrow> json option) \<Rightarrow> (string \<Rightarrow> bool) \<Rightarrow> WriteOutcome \<Rightarrow> ChannelConfig list \<Rightarrow> ConfigStore \<Rightarrow> FileState \<Rightarrow>
     UpdateError option \<times> ConfigStore \<times> FileState" where
  "persistActivations parseJson isIpLiteral io chs st disk =
     (let changes = persistChanges st chs in
      if changes = [] then (None, st, disk)
      else case update parseJson isIpLiteral io changes st disk of
             (Inl err, st, disk) \<Rightarrow> (Some err, st, disk)
           | (Inr r, st, disk) \<Rightarrow> (None, st, disk))"

end
