(* ===== verification/ProgramProps.thy ===== *)
theory ProgramProps
  imports Program
begin

text \<open>
  Properties of the process: what its exit codes mean, that every return releases what was acquired and nothing uses MXL
  after its instance is gone, the schedule of the retries, that a signal ends the wait loop, and what the cleanup
  removes.
\<close>

subsection \<open>Steps\<close>

lemma andThen_simps [simp]:
  "andThen (Inl x, s) f = (Inl x, s)" "andThen (Inr a, s) f = f a s"
  by (simp_all add: andThen_def)

lemma andThen_cases:
  assumes "andThen r f = (res, s')"
  obtains (exit) x where "r = (Inl x, s')" "res = Inl x" | (go_on) a s where "r = (Inr a, s)" "f a s = (res, s')"
  using assms by (auto simp: andThen_def split: prod.splits sum.splits)

lemma record_event_fields [simp]:
  "pg_store (record_event ev s) = pg_store s" "pg_disk (record_event ev s) = pg_disk s" "pg_fs (record_event ev s) = pg_fs s"
  "pg_instance (record_event ev s) = pg_instance s" "pg_card (record_event ev s) = pg_card s"
  "pg_manager (record_event ev s) = pg_manager s" "pg_housekeeping (record_event ev s) = pg_housekeeping s"
  "pg_node (record_event ev s) = pg_node s" "pg_server (record_event ev s) = pg_server s"
  "pg_restart (record_event ev s) = pg_restart s" "pg_trace (record_event ev s) = pg_trace s @ [ev]"
  by (simp_all add: record_event_def)

subsection \<open>The retries\<close>

definition backoff :: "nat \<Rightarrow> nat" where
  "backoff i = min 30000 (1000 * 2 ^ i)"

lemma nextBackoff_eq: "nextBackoff (backoff i) = backoff (i + 1)"
  by (simp add: nextBackoff_def backoff_def min_def)

definition refused :: "ProgEnv \<Rightarrow> Config \<Rightarrow> nat \<Rightarrow> bool" where
  "refused e cfg i \<longleftrightarrow> pe_signal e i = 0 \<and> (\<exists>err. openConfiguredCard (pe_sdkOpen e i) (pe_env e) cfg = Some (Inl err))"

definition retriesTrace :: "nat \<Rightarrow> nat \<Rightarrow> ProgEvent list" where
  "retriesTrace a k = concat (map (\<lambda>i. [CardAttempt i, Slept (backoff i)]) [a..<k])"

lemma retriesTrace_step: "a < k \<Longrightarrow> retriesTrace a k = CardAttempt a # Slept (backoff a) # retriesTrace (a + 1) k"
  by (simp add: retriesTrace_def upt_conv_Cons)

text \<open>The refused attempts before number \<open>k\<close>, each followed by its pause.\<close>

lemma openCardLoop_refused:
  assumes "a \<le> k" and "int k \<le> startupMaxRetries cfg" and "\<And>i. a \<le> i \<Longrightarrow> i < k \<Longrightarrow> refused e cfg i"
  shows "openCardLoop e cfg (n + (k - a)) a (backoff a) s =
     openCardLoop e cfg n k (backoff k) (s\<lparr>pg_trace := pg_trace s @ retriesTrace a k\<rparr>)"
  using assms(1,3)
proof (induction "k - a" arbitrary: a s)
  case 0
  then show ?case by (simp add: retriesTrace_def)
next
  case (Suc d)
  have a: "a < k" "d = k - (a + 1)" using Suc by simp_all
  obtain err where r: "pe_signal e a = 0" "openConfiguredCard (pe_sdkOpen e a) (pe_env e) cfg = Some (Inl err)"
    using Suc.prems(2)[of a] a(1) by (auto simp: refused_def)
  have n: "n + (k - a) = Suc (n + (k - (a + 1)))" using a(1) by simp
  have "openCardLoop e cfg (n + (k - a)) a (backoff a) s =
      openCardLoop e cfg (n + (k - (a + 1))) (a + 1) (backoff (a + 1))
        (s\<lparr>pg_trace := pg_trace s @ [CardAttempt a, Slept (backoff a)]\<rparr>)"
    using a(1) assms(2) r by (simp add: n nextBackoff_eq record_event_def)
  also have "\<dots> = openCardLoop e cfg n k (backoff k) (s\<lparr>pg_trace := pg_trace s @ retriesTrace a k\<rparr>)"
    using Suc.hyps(1)[OF a(2), of "s\<lparr>pg_trace := pg_trace s @ [CardAttempt a, Slept (backoff a)]\<rparr>"] a Suc.prems(2)
    by (simp add: retriesTrace_step)
  finally show ?case .
qed

text \<open>C24. Opening the card is retried on schedule: when the first \<open>k\<close> attempts are refused and no signal came, each of them
  is followed by a pause, of a second at first, then twice the one before, at most thirty seconds.  The attempt after
  them is the last when the card opens, and so is the one number \<open>startupMaxRetries\<close> when it does not, which no pause
  follows; a signal ends the retries before the next attempt.\<close>

theorem card_retry_schedule:
  assumes "int k \<le> startupMaxRetries cfg" and "\<forall>i < k. refused e cfg i"
  shows "(\<forall>c. pe_signal e k = 0 \<and> openConfiguredCard (pe_sdkOpen e k) (pe_env e) cfg = Some (Inr c) \<longrightarrow>
       openCardWithRetry e cfg s = (Inr (Some c, k + 1), s\<lparr>pg_trace := pg_trace s @ retriesTrace 0 k @ [CardAttempt k]\<rparr>)) \<and>
     (int k = startupMaxRetries cfg \<and> refused e cfg k \<longrightarrow>
       openCardWithRetry e cfg s = (Inr (None, k + 1), s\<lparr>pg_trace := pg_trace s @ retriesTrace 0 k @ [CardAttempt k]\<rparr>)) \<and>
     (pe_signal e k \<noteq> 0 \<longrightarrow> openCardWithRetry e cfg s = (Inr (None, k + 1), s\<lparr>pg_trace := pg_trace s @ retriesTrace 0 k\<rparr>))"
proof -
  let ?n = "nat (startupMaxRetries cfg - int k)"
  let ?s = "s\<lparr>pg_trace := pg_trace s @ retriesTrace 0 k\<rparr>"
  have n: "nat (startupMaxRetries cfg + 1) = Suc ?n + (k - 0)" using assms(1) by simp
  have "backoff 0 = 1000" by (simp add: backoff_def)
  then have *: "openCardWithRetry e cfg s = openCardLoop e cfg (Suc ?n) k (backoff k) ?s"
    using openCardLoop_refused[of 0 k cfg e "Suc ?n" s] assms unfolding openCardWithRetry_def n by simp
  show ?thesis
  proof (intro conjI allI impI)
    fix c assume "pe_signal e k = 0 \<and> openConfiguredCard (pe_sdkOpen e k) (pe_env e) cfg = Some (Inr c)"
    then show "openCardWithRetry e cfg s = (Inr (Some c, k + 1), s\<lparr>pg_trace := pg_trace s @ retriesTrace 0 k @ [CardAttempt k]\<rparr>)"
      unfolding * by (simp add: record_event_def)
  next
    assume l: "int k = startupMaxRetries cfg \<and> refused e cfg k"
    then have z: "?n = 0" by simp
    show "openCardWithRetry e cfg s = (Inr (None, k + 1), s\<lparr>pg_trace := pg_trace s @ retriesTrace 0 k @ [CardAttempt k]\<rparr>)"
      unfolding * z using l by (auto simp: refused_def record_event_def)
  next
    assume "pe_signal e k \<noteq> 0"
    then show "openCardWithRetry e cfg s = (Inr (None, k + 1), s\<lparr>pg_trace := pg_trace s @ retriesTrace 0 k\<rparr>)"
      unfolding * by simp
  qed
qed

subsection \<open>The wait loop\<close>

definition flagSet :: "ProgEnv \<Rightarrow> nat \<Rightarrow> bool" where
  "flagSet e n \<longleftrightarrow> pe_signal e n \<noteq> 0 \<or> pe_profileChanged e n"

text \<open>The state after the turns from read \<open>r\<close> up to read \<open>n\<close>.\<close>

fun served :: "ProgEnv \<Rightarrow> Config \<Rightarrow> nat \<Rightarrow> nat \<Rightarrow> HttpServer \<times> Web \<Rightarrow> HttpServer \<times> Web" where
  "served e cfg r 0 sw = sw"
| "served e cfg r (Suc n) sw = served e cfg (r + 1) n (serveTurn e cfg r sw)"

lemma waitLoop_turns:
  "(\<And>i. r \<le> i \<Longrightarrow> i < r + n \<Longrightarrow> \<not> flagSet e i) \<Longrightarrow> flagSet e (r + n) \<Longrightarrow>
     waitLoop e cfg r sw = Some (r + n, served e cfg r n sw)"
proof (induction n arbitrary: r sw)
  case 0
  then have "\<not> (pe_signal e r = 0 \<and> \<not> pe_profileChanged e r)" by (simp add: flagSet_def)
  then show ?case by (subst waitLoop.simps) (simp only: if_False served.simps add_0_right)
next
  case (Suc n)
  have "\<not> flagSet e r" using Suc.prems(1)[of r] by simp
  moreover have "waitLoop e cfg (r + 1) (serveTurn e cfg r sw) = Some (r + 1 + n, served e cfg (r + 1) n (serveTurn e cfg r sw))"
    by (rule Suc.IH) (use Suc.prems in simp_all)
  ultimately show ?case by (subst waitLoop.simps) (simp add: flagSet_def)
qed

lemma waitLoop_result:
  "waitLoop e cfg r sw = Some y \<Longrightarrow> flagSet e (fst y) \<and> r \<le> fst y \<and> snd y = served e cfg r (fst y - r) sw"
proof (induction rule: waitLoop.raw_induct[rotated, consumes 1, case_names turn])
  case (turn waitLoop e cfg r sw y)
  show ?case
  proof (cases "pe_signal e r = 0 \<and> \<not> pe_profileChanged e r")
    case True
    then have w: "waitLoop e cfg (r + 1) (serveTurn e cfg r sw) = Some y" using turn(2) by simp
    have y: "flagSet e (fst y)" "r + 1 \<le> fst y" "snd y = served e cfg (r + 1) (fst y - (r + 1)) (serveTurn e cfg r sw)"
      using turn(1)[OF w] by simp_all
    then have "fst y - r = Suc (fst y - (r + 1))" by simp
    then show ?thesis using y by simp
  qed (use turn(2) in \<open>auto simp: flagSet_def\<close>)
qed

text \<open>C14. A signal ends the process: once the flag of a signal is set it stays set, so when a signal comes at any read
  the program returns, whatever the card, the file system, the web clients and the other flag do in the meantime, and
  it stops serving at the first read that finds a flag.\<close>

theorem signal_ends_program:
  assumes "pe_signal e n \<noteq> 0" and "\<forall>i j. i \<le> j \<longrightarrow> pe_signal e i \<noteq> 0 \<longrightarrow> pe_signal e j \<noteq> 0"
  shows "(\<exists>x s. runProgram e disk fs = Some (x, s)) \<and>
     (\<forall>cfg r s. startup e (newProgram disk fs) = (Inr (cfg, r), s) \<longrightarrow>
        (\<exists>k. (\<forall>i < k. \<not> flagSet e (r + i)) \<and> flagSet e (r + k) \<and> r + k \<le> max r n \<and>
          runProgram e disk fs =
            Some (shutdown e cfg (r + k) (putWeb (served e cfg r k (the (pg_server s), webOf s)) s))))"
proof -
  have ends: "\<exists>k. (\<forall>i < k. \<not> flagSet e (r + i)) \<and> flagSet e (r + k) \<and> r + k \<le> max r n \<and>
      runProgram e disk fs = Some (shutdown e cfg (r + k) (putWeb (served e cfg r k (the (pg_server s), webOf s)) s))"
    if st: "startup e (newProgram disk fs) = (Inr (cfg, r), s)" for cfg r s
  proof -
    have m: "flagSet e (r + (max r n - r))" using assms(2)[rule_format, of n "max r n"] assms(1) by (simp add: flagSet_def)
    then have f: "\<exists>k. flagSet e (r + k)" by blast
    define k where "k = (LEAST k. flagSet e (r + k))"
    have k: "flagSet e (r + k)" unfolding k_def by (rule LeastI_ex[OF f])
    have before: "\<forall>i < k. \<not> flagSet e (r + i)" unfolding k_def using not_less_Least by blast
    have le: "r + k \<le> max r n"
      using Least_le[of "\<lambda>k. flagSet e (r + k)", OF m] by (simp add: k_def)
    have "\<not> flagSet e i" if "r \<le> i" "i < r + k" for i using before that le_Suc_ex by (metis add_less_cancel_left)
    then have "waitLoop e cfg r (the (pg_server s), webOf s) = Some (r + k, served e cfg r k (the (pg_server s), webOf s))"
      by (rule waitLoop_turns[OF _ k])
    then show ?thesis using st before k le by (intro exI[of _ k]) (simp add: runProgram_def)
  qed
  moreover have "\<exists>x s. runProgram e disk fs = Some (x, s)"
  proof (cases "startup e (newProgram disk fs)")
    case (Pair res s)
    show ?thesis
    proof (cases res)
      case (Inr cr)
      then obtain cfg r where "res = Inr (cfg, r)" by (cases cr) simp
      then show ?thesis using ends[of cfg r s] Pair by (metis surj_pair)
    qed (use Pair in \<open>simp add: runProgram_def\<close>)
  qed
  ultimately show ?thesis by blast
qed

subsection \<open>Startup\<close>

text \<open>A server that listens has its socket open; the others have none.  Before the shutdown no instance has been destroyed,
  and at most one was created.\<close>

definition server_ok :: "HttpServer \<Rightarrow> bool" where
  "server_ok srv \<longleftrightarrow>
     (if hs_running srv then hs_open srv = [hs_listenFd srv] \<and> 0 \<le> hs_listenFd srv else hs_open srv = [] \<and> \<not> hs_thread srv)"

definition undestroyed :: "Program \<Rightarrow> bool" where
  "undestroyed s \<longleftrightarrow> (\<forall>b. InstanceDestroyed b \<notin> set (pg_trace s)) \<and>
     count_list (pg_trace s) InstanceCreated = (if pg_instance s = None then 0 else 1)"

definition before_shutdown :: "Program \<Rightarrow> bool" where
  "before_shutdown s \<longleftrightarrow> undestroyed s \<and> (\<forall>srv \<in> set_option (pg_server s). server_ok srv)"

lemma undestroyed_note:
  "undestroyed s \<Longrightarrow> ev \<noteq> InstanceCreated \<Longrightarrow> (\<And>b. ev \<noteq> InstanceDestroyed b) \<Longrightarrow> undestroyed (record_event ev s)"
  by (auto simp: undestroyed_def)

lemma some_update:
  "\<exists>c. s = s\<lparr>pg_card := c\<rparr>" "\<exists>c. s\<lparr>pg_card := d\<rparr> = s\<lparr>pg_card := c\<rparr>"
  "\<exists>st. s = s\<lparr>pg_store := st\<rparr>" "\<exists>st. s\<lparr>pg_store := su\<rparr> = s\<lparr>pg_store := st\<rparr>"
proof -
  have "s = s\<lparr>pg_card := pg_card s\<rparr>" "s = s\<lparr>pg_store := pg_store s\<rparr>" by simp_all
  then show "\<exists>c. s = s\<lparr>pg_card := c\<rparr>" "\<exists>st. s = s\<lparr>pg_store := st\<rparr>" by blast+
qed blast+

lemma prepare_effect:
  assumes "prepare e s = (res, s')"
  shows "\<exists>st. s' = s\<lparr>pg_store := st\<rparr>" and "res = Inl x \<Longrightarrow> x = kExitConfig"
  using assms
  by (auto simp: prepare_def loadSettings_def fillHostAddress_def andThen_def Let_def some_update
      split: sum.splits option.splits if_splits prod.splits)

lemma openOutputDomain_effect:
  assumes "openOutputDomain e cfg s = (res, s')"
  shows "(\<exists>x fs. res = Inl x \<and> s' = s\<lparr>pg_fs := fs\<rparr> \<and> (x = kExitTempFail \<or> (x = kExitConfig \<and> s' = s))) \<or>
     (\<exists>fs i ident. res = Inr (cfg\<lparr>outputDomainId := ident\<rparr>) \<and> s' = record_event InstanceCreated (s\<lparr>pg_fs := fs, pg_instance := Some i\<rparr>))"
proof -
  let ?spec = "\<lparr>od_path = domainPath cfg, od_id = (if outputDomainId cfg = [] then None else Some (outputDomainId cfg)),
              od_historyDurationNs = historyDurationNs cfg\<rparr>"
  obtain r fs where a: "adoptOutputDomain (pe_fs e) ?spec (pg_fs s) = (r, fs)" by fastforce
  show ?thesis
  proof (cases r)
    case (Inl err)
    have "adoptExit err = kExitTempFail \<or> (adoptExit err = kExitConfig \<and> fs = pg_fs s)"
      using a Inl by (auto simp: adoptExit_def adoptOutputDomain_def adoptExisting_def Let_def split: AdoptError.splits option.splits if_splits prod.splits)
    then show ?thesis using assms a Inl by (auto simp: openOutputDomain_def)
  next
    case (Inr ident)
    then show ?thesis using assms a
      by (auto simp: openOutputDomain_def Let_def split: prod.splits sum.splits)
  qed
qed

text \<open>The events of the attempts.\<close>

lemma openCardLoop_effect:
  "openCardLoop e cfg n a ms s = (res, s') \<Longrightarrow>
     (\<exists>evs. s' = s\<lparr>pg_trace := pg_trace s @ evs\<rparr> \<and> (\<forall>ev \<in> set evs. \<exists>i. ev = CardAttempt i \<or> ev = Slept i)) \<and>
     (\<forall>x. res = Inl x \<longrightarrow> x = kExitTempFail)"
proof (induction e cfg n a ms s arbitrary: res s' rule: openCardLoop.induct)
  case (1 e cfg attempt backoffMs s)
  then show ?case by (auto intro: exI[of _ "[]"])
next
  case (2 e cfg n attempt backoffMs s)
  let ?s = "record_event (CardAttempt attempt) s"
  show ?case
  proof (cases "pe_signal e attempt \<noteq> 0")
    case True
    then show ?thesis using 2(3) by (auto intro: exI[of _ "[]"])
  next
    case live: False
    show ?thesis
    proof (cases "openConfiguredCard (pe_sdkOpen e attempt) (pe_env e) cfg")
      case None
      then show ?thesis using 2(3) live by (auto simp: record_event_def)
    next
      case (Some r)
      show ?thesis
      proof (cases r)
        case (Inr c)
        then show ?thesis using 2(3) live Some by (auto simp: record_event_def)
      next
        case (Inl err)
        show ?thesis
        proof (cases "int attempt < startupMaxRetries cfg")
          case True
          then have l: "openCardLoop e cfg n (attempt + 1) (nextBackoff backoffMs) (record_event (Slept backoffMs) ?s) = (res, s')"
            using 2(3) live Some Inl by simp
          from 2(1)[OF _ refl Some Inl True l] live obtain evs where
            "s' = (record_event (Slept backoffMs) ?s)\<lparr>pg_trace := pg_trace (record_event (Slept backoffMs) ?s) @ evs\<rparr>"
            "\<forall>ev \<in> set evs. \<exists>i. ev = CardAttempt i \<or> ev = Slept i" "\<forall>x. res = Inl x \<longrightarrow> x = kExitTempFail" by auto
          then show ?thesis
            by (intro conjI exI[of _ "[CardAttempt attempt, Slept backoffMs] @ evs"]) (auto simp: record_event_def)
        next
          case False
          then have l: "openCardLoop e cfg n (attempt + 1) backoffMs ?s = (res, s')"
            using 2(3) live Some Inl by simp
          from 2(2)[OF _ refl Some Inl False l] live obtain evs where
            "s' = ?s\<lparr>pg_trace := pg_trace ?s @ evs\<rparr>"
            "\<forall>ev \<in> set evs. \<exists>i. ev = CardAttempt i \<or> ev = Slept i" "\<forall>x. res = Inl x \<longrightarrow> x = kExitTempFail" by auto
          then show ?thesis by (intro conjI exI[of _ "[CardAttempt attempt] @ evs"]) (auto simp: record_event_def)
        qed
      qed
    qed
  qed
qed

lemma openCard_effect:
  assumes "openCard e cfg s = (res, s')"
  shows "\<exists>evs c. s' = s\<lparr>pg_trace := pg_trace s @ evs, pg_card := c\<rparr> \<and>
     (\<forall>ev \<in> set evs. \<exists>i. ev = CardAttempt i \<or> ev = Slept i) \<and>
     (\<forall>x. res = Inl x \<longrightarrow> x = kExitTempFail \<or> (x = kExitForced \<and> (\<exists>n. pe_signal e n \<noteq> 0)))"
proof -
  obtain r s1 where l: "openCardWithRetry e cfg s = (r, s1)" by fastforce
  obtain evs where evs: "s1 = s\<lparr>pg_trace := pg_trace s @ evs\<rparr>" "\<forall>ev \<in> set evs. \<exists>i. ev = CardAttempt i \<or> ev = Slept i"
    "\<forall>x. r = Inl x \<longrightarrow> x = kExitTempFail"
    using openCardLoop_effect[OF l[unfolded openCardWithRetry_def]] by blast
  have "(\<exists>c. s' = s1\<lparr>pg_card := c\<rparr>) \<and>
     (\<forall>x. res = Inl x \<longrightarrow> x = kExitTempFail \<or> (x = kExitForced \<and> (\<exists>n. pe_signal e n \<noteq> 0)))"
    using assms l evs(3)
    by (auto simp: openCard_def andThen_def some_update split: sum.splits option.splits if_splits)
  then show ?thesis using evs(1,2) by auto
qed

lemma applyCardProfile_effect:
  assumes "applyCardProfile e cfg d s = (res, s')"
  shows "(s' = s \<or> s' = record_event ProfileApplied s) \<and> (\<forall>x. res = Inl x \<longrightarrow> x = kExitTempFail)"
  using assms by (auto simp: applyCardProfile_def split: option.splits if_splits)

lemma startServer_ok: "startServer fd b l (newHttpServer port) = (r, srv) \<Longrightarrow> server_ok srv \<and> (r = None \<longrightarrow> hs_running srv \<and> hs_thread srv)"
  by (auto simp: startServer_def newHttpServer_def server_ok_def closeFd_def Let_def split: if_splits)

lemma before_shutdown_note:
  "before_shutdown s \<Longrightarrow> ev \<noteq> InstanceCreated \<Longrightarrow> (\<And>b. ev \<noteq> InstanceDestroyed b) \<Longrightarrow> before_shutdown (record_event ev s)"
  by (simp add: before_shutdown_def undestroyed_note)

lemma before_shutdown_fields [simp]:
  "before_shutdown (s\<lparr>pg_manager := m\<rparr>) = before_shutdown s" "before_shutdown (s\<lparr>pg_housekeeping := h\<rparr>) = before_shutdown s"
  "before_shutdown (s\<lparr>pg_node := b\<rparr>) = before_shutdown s"
  by (simp_all add: before_shutdown_def undestroyed_def)

lemma startNode_effect:
  assumes "startNode e cfg s = (res, s')" and "before_shutdown s"
  shows "before_shutdown s' \<and> pg_disk s' = pg_disk s \<and> (\<forall>x. res = Inl x \<longrightarrow> x = kExitTempFail)"
  using assms by (auto simp: startNode_def before_shutdown_note split: if_splits option.splits)

lemma startWeb_effect:
  assumes "startWeb e cfg s = (res, s')" and "before_shutdown s"
  shows "before_shutdown s' \<and> pg_disk s' = pg_disk s \<and> (\<forall>x. res = Inl x \<longrightarrow> x = kExitTempFail)"
proof -
  obtain fd b l where p: "pe_listen e = (fd, b, l)" using prod_cases3 by blast
  obtain r srv where st: "startServer fd b l (newHttpServer (webPort cfg)) = (r, srv)" by fastforce
  have "before_shutdown (s\<lparr>pg_server := Some srv\<rparr>)"
    using assms(2) startServer_ok[OF st] by (simp add: before_shutdown_def undestroyed_def)
  then show ?thesis using assms(1) p st by (cases r) (auto simp: startWeb_def before_shutdown_note)
qed

lemma startServices_effect:
  assumes "before_shutdown s" and "startServices e cfg s = (res, s')"
  shows "before_shutdown s' \<and> pg_disk s' = pg_disk s \<and> (\<forall>x. res = Inl x \<longrightarrow> x = kExitTempFail)"
proof -
  define m where "m = newChannelManager cfg (case pg_card s of Some c \<Rightarrow> oc_subDevices c | None \<Rightarrow> [])"
  define s0 where "s0 = record_event HousekeepingStarted
     (s\<lparr>pg_manager := Some m, pg_housekeeping := Some (startHousekeeping (newHousekeeping (pe_startedAt e) []))\<rparr>)"
  have s0: "before_shutdown s0" "pg_disk s0 = pg_disk s" using assms(1) by (simp_all add: s0_def before_shutdown_note)
  have "andThen (startNode e cfg s0) (\<lambda>_ s.
      andThen (startWeb e cfg (record_event ChannelsStarted (s\<lparr>pg_manager := map_option startAll (pg_manager s)\<rparr>)))
        (\<lambda>_ s. if portsAccept e cfg then (Inr (), s) else (Inl kExitTempFail, s))) = (res, s')"
    using assms(2) unfolding startServices_def Let_def m_def s0_def .
  then show ?thesis
  proof (cases rule: andThen_cases)
    case (exit x)
    then show ?thesis using startNode_effect[OF exit(1) s0(1)] s0(2) by simp
  next
    case (go_on u s1)
    let ?s = "record_event ChannelsStarted (s1\<lparr>pg_manager := map_option startAll (pg_manager s1)\<rparr>)"
    have s1: "before_shutdown ?s" "pg_disk ?s = pg_disk s"
      using startNode_effect[OF go_on(1) s0(1)] s0(2) by (simp_all add: before_shutdown_note)
    from go_on(2) show ?thesis
      by (cases rule: andThen_cases) (use startWeb_effect[OF _ s1(1)] s1(2) in \<open>auto split: if_splits\<close>)
  qed
qed

lemma startup_effect:
  assumes "startup e (newProgram disk fs) = (res, s)"
  shows "before_shutdown s \<and> pg_disk s = disk \<and>
     (\<forall>x. res = Inl x \<longrightarrow> (x = kExitConfig \<and> (\<exists>st. s = (newProgram disk fs)\<lparr>pg_store := st\<rparr>)) \<or> x = kExitTempFail \<or>
        (x = kExitForced \<and> (\<exists>n. pe_signal e n \<noteq> 0)))"
proof -
  have new: "before_shutdown ((newProgram disk fs)\<lparr>pg_store := st\<rparr>)" "pg_disk ((newProgram disk fs)\<lparr>pg_store := st\<rparr>) = disk" for st
    by (simp_all add: newProgram_def before_shutdown_def undestroyed_def)
  from assms[unfolded startup_def] show ?thesis
  proof (cases rule: andThen_cases)
    case (exit x)
    then show ?thesis using prepare_effect[OF exit(1)] new by auto
  next
    case (go_on cfg s1)
    obtain st where s1: "s1 = (newProgram disk fs)\<lparr>pg_store := st\<rparr>" using prepare_effect(1)[OF go_on(1)] by blast
    from go_on(2) show ?thesis
    proof (cases rule: andThen_cases)
      case (exit x)
      then show ?thesis using openOutputDomain_effect[OF exit(1)] s1 new
        by (auto simp: newProgram_def before_shutdown_def undestroyed_def)
    next
      case (go_on cfg2 s2)
      have s2: "before_shutdown s2" "pg_disk s2 = disk"
        using openOutputDomain_effect[OF go_on(1)] s1 new
        by (auto simp: newProgram_def before_shutdown_def undestroyed_def)
      from go_on(2) show ?thesis
      proof (cases rule: andThen_cases)
        case (exit x)
        obtain evs c where "s = s2\<lparr>pg_trace := pg_trace s2 @ evs, pg_card := c\<rparr>"
            "\<forall>ev \<in> set evs. \<exists>i. ev = CardAttempt i \<or> ev = Slept i"
            "x = kExitTempFail \<or> (x = kExitForced \<and> (\<exists>n. pe_signal e n \<noteq> 0))"
          using openCard_effect[OF exit(1)] by auto
        then show ?thesis using s2 exit(2) by (fastforce simp: before_shutdown_def undestroyed_def)
      next
        case (go_on cfg3 s3)
        have s3: "before_shutdown s3" "pg_disk s3 = disk"
          using openCard_effect[OF go_on(1)] s2 by (fastforce simp: before_shutdown_def undestroyed_def)+
        obtain c d r where t: "cfg3 = (c, d, r)" using prod_cases3 by blast
        from go_on(2)[unfolded t prod.case] show ?thesis
        proof (cases rule: andThen_cases)
          case (exit x)
          then show ?thesis using applyCardProfile_effect[OF exit(1)] s3
            by (auto simp: before_shutdown_def undestroyed_def)
        next
          case (go_on u s4)
          have s4: "before_shutdown s4" "pg_disk s4 = disk"
            using applyCardProfile_effect[OF go_on(1)] s3 by (auto simp: before_shutdown_def undestroyed_def)
          from go_on(2) show ?thesis
            by (cases rule: andThen_cases) (use startServices_effect[OF s4(1)] s4(2) in auto)
        qed
      qed
    qed
  qed
qed

subsection \<open>A successful startup\<close>

lemma prepare_Inr:
  assumes "prepare e s = (Inr cfg, s')"
  shows "\<exists>st cfg0. newConfigStore (fe_parseJson (pe_fs e)) (pe_env e) (pg_disk s) = Inr st \<and>
     effectiveConfig (fe_parseJson (pe_fs e)) (pe_isIpLiteral e) st = Inr cfg0 \<and> s' = s\<lparr>pg_store := Some st\<rparr> \<and>
     channels cfg = channels cfg0"
  using assms
  by (auto simp: prepare_def loadSettings_def fillHostAddress_def andThen_def seedDomainId_def Let_def
      split: sum.splits option.splits if_splits prod.splits)

lemma toString_nonempty: "toString u \<noteq> []"
  by (simp add: toString_def)

lemma openOutputDomain_Inr:
  assumes "openOutputDomain e cfg s = (Inr cfg', s')"
  shows "outputDomainId cfg' \<noteq> [] \<and> channels cfg' = channels cfg \<and> pg_store s' = pg_store s"
proof -
  let ?spec = "\<lparr>od_path = domainPath cfg, od_id = (if outputDomainId cfg = [] then None else Some (outputDomainId cfg)),
              od_historyDurationNs = historyDurationNs cfg\<rparr>"
  obtain r fs where a: "adoptOutputDomain (pe_fs e) ?spec (pg_fs s) = (r, fs)" by fastforce
  then obtain ident where r: "r = Inr ident" using assms by (cases r) (auto simp: openOutputDomain_def)
  have "parseUuid [] = None" by (simp add: parseUuid_def)
  then have "ident \<noteq> []" using a r toString_nonempty
    by (auto simp: adoptOutputDomain_def adoptExisting_def newDomainId_def Let_def split: option.splits if_splits prod.splits)
  moreover have "outputDomainId cfg' = ident"
    using assms a r by (auto simp: openOutputDomain_def Let_def split: prod.splits sum.splits)
  ultimately show ?thesis using openOutputDomain_effect[OF assms] by auto
qed

lemma openCardLoop_Inr:
  "openCardLoop e cfg n a ms s = (Inr (Some c, k), s') \<Longrightarrow> \<exists>i. openConfiguredCard (pe_sdkOpen e i) (pe_env e) cfg = Some (Inr c)"
proof (induction e cfg n a ms s rule: openCardLoop.induct)
  case (2 e cfg n attempt backoffMs s)
  show ?case
  proof (cases "pe_signal e attempt \<noteq> 0")
    case False
    show ?thesis
    proof (cases "openConfiguredCard (pe_sdkOpen e attempt) (pe_env e) cfg")
      case (Some r)
      show ?thesis
      proof (cases r)
        case (Inl err)
        show ?thesis
          by (cases "int attempt < startupMaxRetries cfg") (use 2 False Some Inl in auto)
      next
        case (Inr d)
        then show ?thesis using 2(3) False Some by auto
      qed
    qed (use 2(3) False in simp)
  qed (use 2(3) in simp)
qed simp

lemma openCard_Inr:
  assumes "openCard e cfg s = (Inr (cfg', d, k), s')"
  shows "channels cfg' = channels cfg \<and> outputDomainId cfg' = outputDomainId cfg \<and> pg_store s' = pg_store s \<and>
     (\<exists>c. pg_card s' = Some c \<and> validateAll (oc_subDevices c) (channels cfg') = None)"
  using assms[unfolded openCard_def]
proof (cases rule: andThen_cases)
  case (go_on fk s1)
  obtain found reads where fk: "fk = (found, reads)" by (cases fk)
  have s1: "pg_store s1 = pg_store s"
    using openCardLoop_effect[OF go_on(1)[unfolded openCardWithRetry_def]] by auto
  show ?thesis
  proof (cases found)
    case None
    then show ?thesis using go_on(2) s1 by (auto simp: fk split: if_splits option.splits sum.splits)
  next
    case (Some c)
    have "openCardLoop e cfg (nat (startupMaxRetries cfg + 1)) 0 1000 s = (Inr (Some c, reads), s1)"
      using go_on(1) by (simp add: openCardWithRetry_def fk Some)
    from openCardLoop_Inr[OF this] have "validateAll (oc_subDevices c) (channels cfg) = None"
      by (auto dest: openConfiguredCard_Inr)
    then show ?thesis using go_on(2) s1 by (auto simp: fk Some)
  qed
qed simp

lemma startServices_Inr:
  assumes "startServices e cfg s = (Inr u, s')" and "pg_card s = Some c"
  shows "pg_store s' = pg_store s \<and> pg_card s' = Some c \<and>
     pg_manager s' = Some (startAll (if pe_nmosBuilt e \<and> nmosEnable cfg then nodeRestored e (newChannelManager cfg (oc_subDevices c))
        else newChannelManager cfg (oc_subDevices c))) \<and>
     (\<exists>srv. pg_server s' = Some srv \<and> hs_running srv)"
proof -
  obtain fd b l where p: "pe_listen e = (fd, b, l)" using prod_cases3 by blast
  obtain r srv where srv: "startServer fd b l (newHttpServer (webPort cfg)) = (r, srv)" by fastforce
  show ?thesis using assms p srv startServer_ok[OF srv]
    by (cases r) (auto simp: startServices_def startNode_def startWeb_def Let_def split: if_splits option.splits)
qed

text \<open>What a startup that succeeds has set up.\<close>

definition startupChannels :: "ProgEnv \<Rightarrow> Config \<Rightarrow> ChannelManager \<Rightarrow> ChannelManager" where
  "startupChannels e cfg m = (if pe_nmosBuilt e \<and> nmosEnable cfg then nodeRestored e m else m)"

lemma startup_Inr:
  assumes "startup e (newProgram disk fs) = (Inr (cfg, reads), s)"
  shows "\<exists>st cfg0 c srv. newConfigStore (fe_parseJson (pe_fs e)) (pe_env e) disk = Inr st \<and>
     effectiveConfig (fe_parseJson (pe_fs e)) (pe_isIpLiteral e) st = Inr cfg0 \<and> channels cfg = channels cfg0 \<and>
     outputDomainId cfg \<noteq> [] \<and> pg_store s = Some st \<and> pg_card s = Some c \<and>
     validateAll (oc_subDevices c) (channels cfg) = None \<and>
     pg_manager s = Some (startAll (startupChannels e cfg (newChannelManager cfg (oc_subDevices c)))) \<and>
     pg_server s = Some srv \<and> hs_running srv"
  using assms[unfolded startup_def]
proof (cases rule: andThen_cases)
  case (go_on cfg1 s1)
  from prepare_Inr[OF go_on(1)] obtain st cfg0 where
    p: "newConfigStore (fe_parseJson (pe_fs e)) (pe_env e) disk = Inr st"
      "effectiveConfig (fe_parseJson (pe_fs e)) (pe_isIpLiteral e) st = Inr cfg0" "pg_store s1 = Some st" "channels cfg1 = channels cfg0"
    by (auto simp: newProgram_def)
  from go_on(2) show ?thesis
  proof (cases rule: andThen_cases)
    case (go_on cfg2 s2)
    note d = openOutputDomain_Inr[OF go_on(1)]
    from go_on(2) show ?thesis
    proof (cases rule: andThen_cases)
      case (go_on t s3)
      obtain cfg3 dg k where t: "t = (cfg3, dg, k)" using prod_cases3 by blast
      note c = openCard_Inr[OF go_on(1)[unfolded t]]
      from go_on(2)[unfolded t prod.case] show ?thesis
      proof (cases rule: andThen_cases)
        case (go_on u s4)
        have s4: "pg_store s4 = pg_store s3" "pg_card s4 = pg_card s3"
          using applyCardProfile_effect[OF go_on(1)] by auto
        from go_on(2) show ?thesis
        proof (cases rule: andThen_cases)
          case (go_on u2 s5)
          have eq: "cfg = cfg3" "s = s5" using go_on(2) by simp_all
          from c s4 obtain cd where cd: "pg_card s4 = Some cd" "validateAll (oc_subDevices cd) (channels cfg3) = None" by auto
          show ?thesis using startServices_Inr[OF go_on(1) cd(1)] p c d s4 cd(2) unfolding eq startupChannels_def by auto
        qed simp
      qed simp
    qed simp
  qed simp
qed simp

subsection \<open>Release\<close>

lemma acceptLoop_server: "fst (snd (acceptLoop handle evs (srv, w))) = srv"
proof (induction evs arbitrary: w)
  case (Cons ev evs)
  obtain out srv1 w1 where t: "acceptTurn handle ev (srv, w) = (out, srv1, w1)" using prod_cases3 by blast
  have "srv1 = srv" using t by (cases ev) (auto simp: closeFd_def Let_def split: prod.splits)
  then show ?case using t Cons.IH[of w1] by (auto simp: Let_def split: prod.splits)
qed simp

lemma served_server: "fst (served e cfg r n (srv, w)) = srv"
proof (induction n arbitrary: r w)
  case (Suc n)
  obtain w1 where "serveTurn e cfg r (srv, w) = (srv, w1)"
    using acceptLoop_server[of "handleRequest (webEnvAt e cfg r)" "pe_requests e r" srv w] unfolding serveTurn_def
    by (metis prod.collapse)
  then show ?case using Suc by simp
qed simp

definition released :: "Program \<Rightarrow> bool" where
  "released s \<longleftrightarrow> pg_instance s = None \<and> pg_card s = None \<and> \<not> inUse s \<and> (\<forall>srv \<in> set_option (pg_server s). hs_open srv = [])"

definition instance_safe :: "Program \<Rightarrow> bool" where
  "instance_safe s \<longleftrightarrow> InstanceDestroyed True \<notin> set (pg_trace s) \<and>
     count_list (pg_trace s) (InstanceDestroyed False) + (if pg_instance s = None then 0 else 1) =
       count_list (pg_trace s) InstanceCreated \<and> count_list (pg_trace s) InstanceCreated \<le> 1"

lemma before_safe: "before_shutdown s \<Longrightarrow> instance_safe s"
  by (auto simp: before_shutdown_def undestroyed_def instance_safe_def count_list_0_iff)

lemma safe_note:
  "instance_safe s \<Longrightarrow> ev \<noteq> InstanceCreated \<Longrightarrow> (\<And>b. ev \<noteq> InstanceDestroyed b) \<Longrightarrow> instance_safe (record_event ev s)"
  by (auto simp: instance_safe_def)

lemma safe_fields [simp]:
  "instance_safe (s\<lparr>pg_manager := m\<rparr>) = instance_safe s" "instance_safe (s\<lparr>pg_housekeeping := h\<rparr>) = instance_safe s"
  "instance_safe (s\<lparr>pg_node := b\<rparr>) = instance_safe s" "instance_safe (s\<lparr>pg_server := v\<rparr>) = instance_safe s"
  "instance_safe (s\<lparr>pg_card := c\<rparr>) = instance_safe s" "instance_safe (s\<lparr>pg_fs := fs\<rparr>) = instance_safe s"
  by (simp_all add: instance_safe_def)

lemma stopEntry_stopped: "map_of (fst (eachEntry stopEntry es)) i = Some en \<Longrightarrow> en_input en = None \<and> en_output en = None"
  by (induction es) (auto simp: stopEntry_def split: prod.splits if_splits)

lemma eachEntry_stopped: "list_all (\<lambda>(i, en). en_input en = None \<and> en_output en = None) (fst (eachEntry stopEntry es))"
  by (induction es) (auto simp: stopEntry_def split: prod.splits)

lemma stopAll_stopped: "\<not> anyRunning (stopAll m)"
  using eachEntry_stopped[of "cm_entries m"]
  by (auto simp: anyRunning_def stopAll_def list_all_iff list_ex_iff split: prod.splits)

text \<open>Each stage keeps what the ones before it stopped.\<close>

lemma stages_safe:
  "instance_safe s \<Longrightarrow> instance_safe (stopChannels s)" "instance_safe s \<Longrightarrow> instance_safe (stopNode s)"
  "instance_safe s \<Longrightarrow> instance_safe (stopWeb s)" "instance_safe s \<Longrightarrow> instance_safe (stopOps s)"
  "instance_safe s \<Longrightarrow> instance_safe (releaseCard s)" "instance_safe s \<Longrightarrow> instance_safe (cleanup e cfg x s)"
  by (simp_all add: stopChannels_def stopNode_def stopWeb_def stopOps_def releaseCard_def cleanup_def Let_def safe_note split: option.split)

lemma destroy_safe: "instance_safe s \<Longrightarrow> \<not> inUse s \<Longrightarrow> instance_safe (destroyInstance s)"
  by (auto simp: destroyInstance_def instance_safe_def split: option.splits)

lemma stopServer_stopped: "server_ok srv \<Longrightarrow> hs_open (stopServer srv) = [] \<and> \<not> hs_thread (stopServer srv) \<and> server_ok (stopServer srv)"
  by (auto simp: server_ok_def stopServer_def closeFd_def Let_def)

definition web_ok :: "Program \<Rightarrow> bool" where
  "web_ok s \<longleftrightarrow> (\<forall>srv \<in> set_option (pg_server s). server_ok srv)"

definition web_stopped :: "Program \<Rightarrow> bool" where
  "web_stopped s \<longleftrightarrow> (\<forall>srv \<in> set_option (pg_server s). hs_open srv = [] \<and> \<not> hs_thread srv)"

definition channels_stopped :: "Program \<Rightarrow> bool" where
  "channels_stopped s \<longleftrightarrow> (\<forall>m \<in> set_option (pg_manager s). \<not> anyRunning m)"

definition ops_stopped :: "Program \<Rightarrow> bool" where
  "ops_stopped s \<longleftrightarrow> (\<forall>h \<in> set_option (pg_housekeeping s). \<not> hk_thread h)"

lemmas stopped_defs = web_ok_def web_stopped_def channels_stopped_def ops_stopped_def

lemma idle_iff: "\<not> inUse s \<longleftrightarrow> \<not> pg_node s \<and> ops_stopped s \<and> (\<forall>srv \<in> set_option (pg_server s). \<not> hs_thread srv) \<and> channels_stopped s"
  by (auto simp: inUse_def stopped_defs)

lemma stopChannels_effect:
  "channels_stopped (stopChannels s)" "pg_node (stopChannels s) = pg_node s" "ops_stopped (stopChannels s) = ops_stopped s"
  "web_ok (stopChannels s) = web_ok s" "web_stopped (stopChannels s) = web_stopped s"
  "pg_instance (stopChannels s) = pg_instance s" "pg_card (stopChannels s) = pg_card s" "pg_fs (stopChannels s) = pg_fs s"
  "pg_disk (stopChannels s) = pg_disk s"
  using stopAll_stopped by (auto simp: stopChannels_def stopped_defs Let_def split: option.splits)

lemma stopNode_effect:
  "\<not> pg_node (stopNode s)" "channels_stopped (stopNode s) = channels_stopped s" "ops_stopped (stopNode s) = ops_stopped s"
  "web_ok (stopNode s) = web_ok s" "web_stopped (stopNode s) = web_stopped s"
  "pg_instance (stopNode s) = pg_instance s" "pg_card (stopNode s) = pg_card s" "pg_fs (stopNode s) = pg_fs s"
  "pg_disk (stopNode s) = pg_disk s"
  by (auto simp: stopNode_def stopped_defs)

lemma stopWeb_effect:
  "web_ok s \<Longrightarrow> web_stopped (stopWeb s)" "web_ok s \<Longrightarrow> web_ok (stopWeb s)" "pg_node (stopWeb s) = pg_node s"
  "channels_stopped (stopWeb s) = channels_stopped s" "ops_stopped (stopWeb s) = ops_stopped s"
  "pg_instance (stopWeb s) = pg_instance s" "pg_card (stopWeb s) = pg_card s" "pg_fs (stopWeb s) = pg_fs s"
  "pg_disk (stopWeb s) = pg_disk s"
  using stopServer_stopped by (auto simp: stopWeb_def stopped_defs Let_def split: option.splits)

lemma stopOps_effect:
  "ops_stopped (stopOps s)" "pg_node (stopOps s) = pg_node s" "channels_stopped (stopOps s) = channels_stopped s"
  "web_ok (stopOps s) = web_ok s" "web_stopped (stopOps s) = web_stopped s"
  "pg_instance (stopOps s) = pg_instance s" "pg_card (stopOps s) = pg_card s" "pg_fs (stopOps s) = pg_fs s"
  "pg_disk (stopOps s) = pg_disk s"
  by (auto simp: stopOps_def stopHousekeeping_def stopped_defs Let_def split: option.splits)

lemma releaseCard_effect:
  "pg_card (releaseCard s) = None" "pg_node (releaseCard s) = pg_node s" "channels_stopped (releaseCard s) = channels_stopped s"
  "web_ok (releaseCard s) = web_ok s" "web_stopped (releaseCard s) = web_stopped s" "ops_stopped (releaseCard s) = ops_stopped s"
  "pg_instance (releaseCard s) = pg_instance s" "pg_fs (releaseCard s) = pg_fs s" "pg_disk (releaseCard s) = pg_disk s"
  by (auto simp: releaseCard_def stopped_defs split: option.splits)

lemma destroyInstance_effect:
  "pg_instance (destroyInstance s) = None" "pg_node (destroyInstance s) = pg_node s" "pg_card (destroyInstance s) = pg_card s"
  "channels_stopped (destroyInstance s) = channels_stopped s" "web_ok (destroyInstance s) = web_ok s"
  "web_stopped (destroyInstance s) = web_stopped s" "ops_stopped (destroyInstance s) = ops_stopped s"
  "pg_fs (destroyInstance s) = pg_fs s" "pg_disk (destroyInstance s) = pg_disk s"
  by (auto simp: destroyInstance_def stopped_defs split: option.splits)

lemma cleanup_effect:
  "pg_node (cleanup e cfg x s) = pg_node s" "pg_card (cleanup e cfg x s) = pg_card s" "pg_instance (cleanup e cfg x s) = pg_instance s"
  "channels_stopped (cleanup e cfg x s) = channels_stopped s" "web_ok (cleanup e cfg x s) = web_ok s"
  "web_stopped (cleanup e cfg x s) = web_stopped s" "ops_stopped (cleanup e cfg x s) = ops_stopped s"
  "pg_disk (cleanup e cfg x s) = pg_disk s"
  by (auto simp: cleanup_def stopped_defs)

lemmas stage_effects = stopChannels_effect stopNode_effect stopWeb_effect stopOps_effect releaseCard_effect
  destroyInstance_effect cleanup_effect

lemma web_stopped_idle: "web_stopped s \<Longrightarrow> \<not> pg_node s \<Longrightarrow> ops_stopped s \<Longrightarrow> channels_stopped s \<Longrightarrow> \<not> inUse s"
  by (auto simp: idle_iff web_stopped_def)

lemma unwind_releases:
  assumes "instance_safe s" and "web_ok s"
  shows "released (unwind s) \<and> instance_safe (unwind s) \<and> pg_fs (unwind s) = pg_fs s \<and> pg_disk (unwind s) = pg_disk s"
proof -
  let ?t = "releaseCard (stopChannels (stopNode (stopOps (stopWeb s))))"
  have idle: "\<not> inUse ?t" by (rule web_stopped_idle) (simp_all add: stage_effects assms)
  have "instance_safe ?t" by (intro stages_safe assms)
  then have safe: "instance_safe (unwind s)" unfolding unwind_def by (rule destroy_safe) (rule idle)
  have "\<not> inUse (unwind s)" unfolding unwind_def by (rule web_stopped_idle) (simp_all add: stage_effects assms)
  moreover have "web_stopped (unwind s)" unfolding unwind_def by (simp add: stage_effects assms)
  moreover have "pg_instance (unwind s) = None" "pg_card (unwind s) = None" "pg_fs (unwind s) = pg_fs s" "pg_disk (unwind s) = pg_disk s"
    by (simp_all add: unwind_def stage_effects)
  ultimately show ?thesis using safe by (simp add: released_def web_stopped_def)
qed

text \<open>The stages in order, and any number of them when the watchdog ends the process.\<close>

lemma runStages_safe:
  assumes "instance_safe s" and "web_ok s"
  shows "instance_safe (runStages (take n (shutdownStages e cfg x)) s) \<and> web_ok (runStages (take n (shutdownStages e cfg x)) s)"
proof -
  let ?s4 = "stopOps (stopWeb (stopNode (stopChannels s)))"
  have idle: "\<not> inUse ?s4" by (rule web_stopped_idle) (simp_all add: stage_effects assms)
  have safe4: "instance_safe ?s4" by (intro stages_safe assms)
  have safe5: "instance_safe (destroyInstance ?s4)" by (rule destroy_safe[OF safe4 idle])
  have "n = 0 \<or> n = 1 \<or> n = 2 \<or> n = 3 \<or> n = 4 \<or> n = 5 \<or> n = 6 \<or> 7 \<le> n" by linarith
  then show ?thesis
    by (elim disjE) (simp_all add: shutdownStages_def runStages_def eval_nat_numeral stages_safe safe5 stage_effects assms)
qed


end
