(* ===== verification/ProgramOutcome.thy ===== *)
theory ProgramOutcome
  imports ProgramProps
begin

text \<open>
  What a run of the process leaves behind: the meaning of its exit codes, what the cleanup of the domain removes, and the
  configuration that the running program compares a change with.
\<close>

subsection \<open>Exit codes\<close>

lemma stages_length: "length (shutdownStages e cfg x) = 7"
  by (simp add: shutdownStages_def)


subsection \<open>Cleanup\<close>

text \<open>C23. The cleanup removes the domain and nothing else.  Whatever the outcome, a node that is not at or below the one the
  path of the domain names is as before, where links in the directories of the path are followed and the last name is not;
  after a success the domain is gone; and nothing is touched without the setting, after a profile change, and when the
  path is the text of the scan root, the root directory, or ends in a slash.\<close>

theorem cleanup_contained:
  assumes "fs_wf fs" and "cleanupDomain e cfg exitCode fs = (r, fs')"
  shows "(r = NotAsked \<or> r = Refused \<longrightarrow> fs' = fs) \<and>
     (\<not> cleanupOnExit cfg \<or> exitCode \<noteq> kExitForced \<longleftrightarrow> r = NotAsked) \<and>
     (r = CleanupFailed \<or> r = Removed \<longrightarrow> domainPath cfg \<noteq> domainScanPath cfg \<and> domainPath cfg \<noteq> ''/'') \<and>
     (case removeTarget fs (fe_cwd (pe_fs e)) (pathOf (domainPath cfg)) of
        None \<Rightarrow> fs' = fs
      | Some (t, named) \<Rightarrow>
          (\<forall>q. (\<nexists>k. q = t @ k) \<longrightarrow> nodeAt fs' q = nodeAt fs q) \<and>
          (r = Removed \<longrightarrow> (\<forall>k. nodeAt fs' (t @ k) = None)))"
proof -
  let ?cwd = "fe_cwd (pe_fs e)" and ?p = "pathOf (domainPath cfg)"
  let ?rm = "removeAll (pe_removeFails e) ?cwd ?p fs"
  let ?refused = "domainPath cfg = domainScanPath cfg \<or> domainPath cfg = ''/'' \<or> filename ?p = []"
  consider (idle) "\<not> cleanupOnExit cfg \<or> exitCode \<noteq> kExitForced" "r = NotAsked" "fs' = fs"
    | (refused) "cleanupOnExit cfg" "exitCode = kExitForced" "?refused" "r = Refused" "fs' = fs"
    | (tried) "cleanupOnExit cfg" "exitCode = kExitForced" "\<not> ?refused" "fs' = snd ?rm" "r = (if fst ?rm then Removed else CleanupFailed)"
    using assms(2) by (auto simp: cleanupDomain_def Let_def split: if_splits prod.splits bool.splits)
  then show ?thesis
  proof cases
    case tried
    show ?thesis
    proof (cases "removeTarget fs ?cwd ?p")
      case None
      then show ?thesis using tried removeAll_None by auto
    next
      case (Some tn)
      obtain t named where tn: "tn = (t, named)" by (cases tn)
      have "nodeAt fs' q = nodeAt fs q" if "\<nexists>k. q = t @ k" for q
        using removeAll_other[OF Some[unfolded tn] that] tried(4) by simp
      moreover have "nodeAt fs' (t @ k) = None" if "r = Removed" for k
        using removeAll_done[OF assms(1) Some[unfolded tn]] tried(4,5) that by (simp split: if_splits)
      ultimately show ?thesis using tried Some tn by auto
    qed
  qed (auto split: option.splits)
qed

text \<open>The refusal compares texts: another name of the scan root passes it, and all domains below it are removed.\<close>

definition demoShm :: FS where
  "demoShm = [([''shm''], FsDir), ([''shm'', ''a''], FsDir), ([''shm'', ''a'', ''x''], FsFile ''1''), ([''shm'', ''b''], FsDir)]"

definition demoProgEnv :: ProgEnv where
  "demoProgEnv =
     \<lparr>pe_env = (\<lambda>_. None), pe_fs = demoFsEnv, pe_isIpLiteral = noIp, pe_interfaces = None, pe_nmosBuilt = False,
      pe_createInstance = (\<lambda>_. Some 1), pe_sdkOpen = (\<lambda>_ _. Inl ''no card''), pe_signal = (\<lambda>n. if n < 20 then 0 else 15),
      pe_profileChanged = (\<lambda>_. False), pe_applyProfile = (\<lambda>_. None), pe_nodeError = None, pe_nodeRestores = None,
      pe_registered = (\<lambda>_. False), pe_startedAt = 0, pe_listen = (3, True, True), pe_socket = True, pe_connects = (\<lambda>_. True),
      pe_requests = (\<lambda>_. []), pe_web = (\<lambda>_. demoWebEnv), pe_watch = [], pe_removeFails = (\<lambda>_. False)\<rparr>"

definition demoCleanCfg :: Config where
  "demoCleanCfg = defaultConfig\<lparr>cleanupOnExit := True, domainScanPath := ''/shm'', domainPath := ''/shm/a''\<rparr>"

lemma demoShm_wf: "fs_wf demoShm"
  by (simp add: fs_wf_def demoShm_def nodeAt_def good_def dotless_def)

theorem cleanup_contained_witness:
  "fst (cleanupDomain demoProgEnv demoCleanCfg kExitForced demoShm) = Removed \<and>
   nodeAt (snd (cleanupDomain demoProgEnv demoCleanCfg kExitForced demoShm)) [''shm'', ''a'', ''x''] = None \<and>
   nodeAt (snd (cleanupDomain demoProgEnv demoCleanCfg kExitForced demoShm)) [''shm'', ''b''] = Some FsDir"
proof -
  obtain r fs' where c: "cleanupDomain demoProgEnv demoCleanCfg kExitForced demoShm = (r, fs')" by fastforce
  have t: "removeTarget demoShm (fe_cwd (pe_fs demoProgEnv)) (pathOf (domainPath demoCleanCfg)) = Some ([''shm'', ''a''], True)"
    by code_simp
  have "fst (cleanupDomain demoProgEnv demoCleanCfg kExitForced demoShm) = Removed" by code_simp
  then have r: "r = Removed" using c by simp
  note all = cleanup_contained[OF demoShm_wf c, unfolded t r, simplified]
  have "nodeAt fs' ([''shm'', ''a''] @ [''x'']) = None" using all by simp
  moreover have "nodeAt fs' [''shm'', ''b''] = nodeAt demoShm [''shm'', ''b'']" using all by simp
  moreover have "nodeAt demoShm [''shm'', ''b''] = Some FsDir" by code_simp
  ultimately show ?thesis using c r by simp
qed

lemma cleanup_alias_removes_all:
  "cleanupDomain demoProgEnv (demoCleanCfg\<lparr>domainPath := ''/shm/../shm''\<rparr>) kExitForced demoShm = (Removed, [])"
  by code_simp

subsection \<open>The running program\<close>

lemma acceptLoop_keeps:
  assumes "\<And>req v. P v \<Longrightarrow> P (snd (handle req v))" and "P w"
  shows "P (snd (snd (acceptLoop handle evs (srv, w))))"
  using assms(2)
proof (induction evs arbitrary: srv w)
  case (Cons ev evs)
  have "P v" if "handle req w = (resp, v)" for req resp v using assms(1)[OF Cons.prems, of req] that by simp
  then have conn: "P (snd (handleConnection handle chunks sends w))" for chunks sends
    using Cons.prems by (auto simp: handleConnection_def answer_def Let_def split: option.splits prod.splits if_splits)
  obtain out srv1 w1 where t: "acceptTurn handle ev (srv, w) = (out, srv1, w1)" using prod_cases3 by blast
  have "P w1"
  proof (cases ev)
    case (Connection fd chunks sends)
    then show ?thesis using t conn[of chunks sends] by (auto simp: Let_def split: prod.splits)
  qed (use t Cons.prems in auto)
  then show ?case using t Cons.IH[of w1 srv1] Cons.prems by (auto simp: Let_def split: prod.splits)
qed simp

definition services_ok :: "Web \<Rightarrow> bool" where
  "services_ok w \<longleftrightarrow> store_ok (w_store w) \<and> mgr_ok (w_manager w)"

lemma handleRequest_ok:
  assumes "services_ok w"
  shows "services_ok (snd (handleRequest e req w))"
proof -
  obtain resp w' where h: "handleRequest e req w = (resp, w')" by fastforce
  have s: "store_ok (w_store w)" "mgr_ok (w_manager w)" using assms by (simp_all add: services_ok_def)
  have imp: "store_ok (w_store w')" if "apiConfigImport e req w = (resp, w')"
    using that s(1) update_ok[OF s(1)]
    by (auto simp: apiConfigImport_def importDocument_def split: sum.splits prod.splits option.splits json.splits)
  from handleRequest_cases[OF h] show ?thesis unfolding h
    using config_put_facts[OF s] imp apiConfigImport_frame apiDomainsPost_frame assms s
    by (auto simp: services_ok_def)
qed

lemma served_ok: "services_ok (snd sw) \<Longrightarrow> services_ok (snd (served e cfg r n sw))"
proof (induction n arbitrary: r sw)
  case (Suc n)
  have "services_ok (snd (serveTurn e cfg r sw))"
    using acceptLoop_keeps[of services_ok "handleRequest (webEnvAt e cfg r)" "snd sw" "pe_requests e r" "fst sw"]
      handleRequest_ok Suc.prems by (simp add: serveTurn_def)
  then show ?case using Suc.IH by simp
qed simp

definition restores_distinct :: "ProgEnv \<Rightarrow> bool" where
  "restores_distinct e \<longleftrightarrow> (\<forall>chs \<in> set_option (pe_nodeRestores e). distinct (map ch_index chs))"

lemma nodeRestored_ok:
  assumes "restores_distinct e" and "mgr_ok m"
  shows "mgr_ok (nodeRestored e m) \<and> cm_started (nodeRestored e m) = cm_started m"
proof (cases "pe_nodeRestores e")
  case (Some chs)
  have "distinct (map ch_index chs)" using assms(1) Some by (simp add: restores_distinct_def)
  from applyChannels_spec[OF assms(2) this] assms(2) show ?thesis
    by (cases "applyChannels chs m") (auto simp: nodeRestored_def Some split: sum.splits)
qed (use assms in \<open>simp add: nodeRestored_def\<close>)

lemma startup_services:
  assumes "startup e (newProgram disk fs) = (Inr (cfg, reads), s)" and "restores_distinct e"
  shows "services_ok (webOf s) \<and> outputDomainId cfg \<noteq> []"
proof -
  obtain st cfg0 and c :: OpenedCard where
    r: "newConfigStore (fe_parseJson (pe_fs e)) (pe_env e) disk = Inr st"
      "effectiveConfig (fe_parseJson (pe_fs e)) (pe_isIpLiteral e) st = Inr cfg0" "channels cfg = channels cfg0"
      "outputDomainId cfg \<noteq> []" "pg_store s = Some st"
      "pg_manager s = Some (startAll (startupChannels e cfg (newChannelManager cfg (oc_subDevices c))))"
    using startup_Inr[OF assms(1)] by (elim exE conjE) (rule that)
  have "distinct (map ch_index (channels cfg))" using r(2,3) loaded_distinct by (simp add: effectiveConfig_def)
  then have new: "mgr_ok (newChannelManager cfg (oc_subDevices c))" by (rule newChannelManager_ok)
  have "mgr_ok (startupChannels e cfg (newChannelManager cfg (oc_subDevices c)))"
    "\<not> cm_started (startupChannels e cfg (newChannelManager cfg (oc_subDevices c)))"
    using nodeRestored_ok[OF assms(2) new] new by (simp_all add: startupChannels_def newChannelManager_def)
  then have "mgr_ok (startAll (startupChannels e cfg (newChannelManager cfg (oc_subDevices c))))" by (rule startAll_ok)
  moreover have "store_ok st" using newConfigStore_ok[OF r(1)] by simp
  ultimately show ?thesis using r by (simp add: services_ok_def webOf_def)
qed

text \<open>C40. The running program answers every accepted change with a demand to restart when the settings name no domain id:
  whatever the clients did before, after an accepted \<open>PUT /api/config\<close> the channels that run are those of the
  configuration now effective, and the restart flag is set although no setting that needs a restart may have changed.
  The startup stores the id it took from the disk in the configuration that later changes are compared with.\<close>

theorem adopted_id_demands_restart:
  assumes "startup e (newProgram disk fs) = (Inr (cfg, reads), s)" and "restores_distinct e"
    and "apiConfigPut (webEnvAt e cfg n) req (snd (served e cfg reads k (srv, webOf s))) = (resp, w')"
    and "hr_status resp = 200"
  shows "\<exists>cfg'. effectiveConfig (fe_parseJson (pe_fs e)) (pe_isIpLiteral e) (w_store w') = Inr cfg' \<and> runs w' cfg' \<and>
     (outputDomainId cfg' = [] \<longrightarrow> w_restartRequired w')"
proof -
  note st = startup_services[OF assms(1,2)]
  have "services_ok (snd (served e cfg reads k (srv, webOf s)))" by (rule served_ok) (simp add: st)
  then have "store_ok (w_store (snd (served e cfg reads k (srv, webOf s))))" "mgr_ok (w_manager (snd (served e cfg reads k (srv, webOf s))))"
    by (simp_all add: services_ok_def)
  from config_put_facts[OF this assms(3)] assms(4) obtain cfg' where
    "effectiveConfig (fe_parseJson (pe_fs e)) (pe_isIpLiteral e) (w_store w') = Inr cfg'" "runs w' cfg'"
    "\<not> globalPartEquals cfg' cfg \<longrightarrow> w_restartRequired w'"
    by (auto simp: webEnvAt_def)
  moreover have "outputDomainId cfg' = [] \<Longrightarrow> \<not> globalPartEquals cfg' cfg" using st by (auto simp: globalPartEquals_def)
  ultimately show ?thesis by blast
qed

subsection \<open>Persisted activations\<close>

text \<open>What the callback of the node persists is read from the video and audio legs only.\<close>

lemma persist_ignores_anc:
  "persistChanges st [ch\<lparr>ancFlowId := i, ancMxlActive := b\<rparr>] = persistChanges st [ch]"
  by (simp add: persistChanges_def persistChannel_def)

end
