(* ===== verification/ProgramDemo.thy ===== *)
theory ProgramDemo
  imports ProgramOutcome
begin

text \<open>
  Runs of the process on concrete environments: without hardware, with the mock card on a domain that carries an id, and
  with a setting that this build refuses.
\<close>

definition demoDomainId :: string where "demoDomainId = ''01020304-0506-0708-090a-0b0c0d0e0f10''"

definition demoBoot :: ProgEnv where
  "demoBoot = demoProgEnv\<lparr>
     pe_env := map_of [(''MXL_DECKLINK_BACKEND'', ''mock''), (''MXL_DOMAIN_PATH'', ''/shm/a'')],
     pe_fs := demoFsEnv\<lparr>fe_parseJson := (\<lambda>t. if t = ''D'' then Some (JObj [(''id'', JStr demoDomainId)]) else if t = ''E'' then Some (JObj [])
       else if t = ''C'' then Some (JObj [(''unset'', JArr [JStr ''CH1_MXL_ACTIVE''])]) else None)\<rparr>,
     pe_signal := (\<lambda>n. if n < 1 then 0 else 15)\<rparr>"

definition demoDisk :: FS where
  "demoDisk = [([''shm''], FsDir), ([''shm'', ''a''], FsDir), ([''shm'', ''a'', ''domain_def.json''], FsFile ''D''), ([''shm'', ''a'', ''options.json''], FsFile ''E'')]"

text \<open>The request withdraws a setting of a channel.\<close>

definition channelPut :: HttpRequest where
  "channelPut = \<lparr>rq_method = ''PUT'', rq_path = ''/api/config'', rq_query = [], rq_body = ''C''\<rparr>"

lemma demoBoot_starts:
  "case startup demoBoot (newProgram Absent demoDisk) of
     (Inr (cfg, reads), s) \<Rightarrow> reads = 1 \<and> outputDomainId cfg = demoDomainId \<and> \<not> w_restartRequired (webOf s) \<and>
       (case apiConfigPut (webEnvAt demoBoot cfg 0) channelPut (webOf s) of (resp, w') \<Rightarrow> hr_status resp = 200 \<and>
          (case effectiveConfig (fe_parseJson (pe_fs demoBoot)) (pe_isIpLiteral demoBoot) (w_store w') of
             Inr cfg' \<Rightarrow> outputDomainId cfg' = [] | Inl e \<Rightarrow> False))
   | _ \<Rightarrow> False"
  by code_simp

lemma refusedBoot_exits:
  "case startup (demoBoot\<lparr>pe_env := map_of [(''NMOS_ENABLE'', ''true''), (''NMOS_HOST_ADDRESS'', ''192.0.2.1'')], pe_isIpLiteral := (\<lambda>_. True)\<rparr>)
     (newProgram Absent demoDisk) of (Inl x, s) \<Rightarrow> x = kExitConfig | _ \<Rightarrow> False"
  by code_simp

definition refusedBoot :: ProgEnv where
  "refusedBoot = demoBoot\<lparr>pe_env := map_of [(''NMOS_ENABLE'', ''true''), (''NMOS_HOST_ADDRESS'', ''192.0.2.1'')], pe_isIpLiteral := (\<lambda>_. True)\<rparr>"

theorem card_retry_schedule_witness:
  "openCardWithRetry demoProgEnv defaultConfig (newProgram Absent demoDisk) =
     (Inr (None, 11), (newProgram Absent demoDisk)\<lparr>pg_trace := retriesTrace 0 10 @ [CardAttempt 10]\<rparr>)"
proof -
  have r: "refused demoProgEnv defaultConfig i" if "i \<le> 10" for i
    using that by (simp add: refused_def demoProgEnv_def openConfiguredCard_def openBackendCard_def defaultConfig_def mapLeft_def)
  have ten: "int 10 = startupMaxRetries defaultConfig" by (simp add: defaultConfig_def)
  then show ?thesis
    using card_retry_schedule[of 10 defaultConfig demoProgEnv "newProgram Absent demoDisk"] r by (simp add: newProgram_def)
qed

theorem signal_ends_program_witness: "\<exists>x s. runProgram demoProgEnv Absent demoDisk = Some (x, s)"
proof -
  have "pe_signal demoProgEnv 20 \<noteq> 0" "\<forall>i j. i \<le> j \<longrightarrow> pe_signal demoProgEnv i \<noteq> 0 \<longrightarrow> pe_signal demoProgEnv j \<noteq> 0"
    by (simp_all add: demoProgEnv_def)
  from signal_ends_program[OF this, of Absent demoDisk] show ?thesis by blast
qed

lemma demoBoot_started:
  obtains cfg s srv where "startup demoBoot (newProgram Absent demoDisk) = (Inr (cfg, 1), s)" "pg_server s = Some srv"
    "hr_status (fst (apiConfigPut (webEnvAt demoBoot cfg 0) channelPut (webOf s))) = 200"
    "\<And>cfg'. effectiveConfig (fe_parseJson (pe_fs demoBoot)) (pe_isIpLiteral demoBoot)
       (w_store (snd (apiConfigPut (webEnvAt demoBoot cfg 0) channelPut (webOf s)))) = Inr cfg' \<Longrightarrow> outputDomainId cfg' = []"
proof -
  obtain res s where st: "startup demoBoot (newProgram Absent demoDisk) = (res, s)" by fastforce
  note all = demoBoot_starts[unfolded st prod.case]
  then obtain cfg r where res: "res = Inr (cfg, r)" by (auto split: sum.splits)
  have r: "r = 1" using all by (simp add: res)
  obtain srv where srv: "pg_server s = Some srv" using startup_Inr[OF st[unfolded res]] by (elim exE conjE) (rule that)
  show thesis
    by (rule that[OF st[unfolded res r] srv]) (use all in \<open>auto simp: res split: prod.splits sum.splits\<close>)
qed

lemma demoBoot_runs: "\<exists>x s. runProgram demoBoot Absent demoDisk = Some (x, s)"
proof -
  obtain cfg s srv where st: "startup demoBoot (newProgram Absent demoDisk) = (Inr (cfg, 1), s)" using demoBoot_started .
  have "flagSet demoBoot (1 + 0)" by (simp add: flagSet_def demoBoot_def)
  then have "waitLoop demoBoot cfg 1 (the (pg_server s), webOf s) = Some (1, (the (pg_server s), webOf s))"
    using waitLoop_turns[of 1 0 demoBoot cfg] by simp
  then show ?thesis using st by (simp add: runProgram_def)
qed



theorem adopted_id_demands_restart_witness:
  "\<exists>cfg s w'. startup demoBoot (newProgram Absent demoDisk) = (Inr (cfg, 1), s) \<and>
     w' = snd (apiConfigPut (webEnvAt demoBoot cfg 0) channelPut (webOf s)) \<and> w_restartRequired w'"
proof -
  obtain cfg s srv where st: "startup demoBoot (newProgram Absent demoDisk) = (Inr (cfg, 1), s)"
    "hr_status (fst (apiConfigPut (webEnvAt demoBoot cfg 0) channelPut (webOf s))) = 200"
    "\<And>cfg'. effectiveConfig (fe_parseJson (pe_fs demoBoot)) (pe_isIpLiteral demoBoot)
       (w_store (snd (apiConfigPut (webEnvAt demoBoot cfg 0) channelPut (webOf s)))) = Inr cfg' \<Longrightarrow> outputDomainId cfg' = []"
    using demoBoot_started by metis
  obtain resp w' where p: "apiConfigPut (webEnvAt demoBoot cfg 0) channelPut (webOf s) = (resp, w')" by fastforce
  have "restores_distinct demoBoot" by (simp add: restores_distinct_def demoBoot_def demoProgEnv_def)
  from adopted_id_demands_restart[OF st(1) this, of 0 channelPut 0 undefined resp w'] p st(2,3)
  have "w_restartRequired w'" by auto
  then show ?thesis using st(1) p by auto
qed

text \<open>When a port does not accept connections, the destructors take the node away while the channels still run: the handler
  that the node gave the channels then refers to a node that is gone.\<close>

definition orphanBoot :: ProgEnv where
  "orphanBoot = demoBoot\<lparr>pe_env := (\<lambda>k. if k = ''NMOS_ENABLE'' then Some ''true'' else if k = ''NMOS_HOST_ADDRESS'' then Some ''192.0.2.1''
     else if k = ''MXL_DOMAIN_PATH'' then Some ''/shm/a'' else if k = ''MXL_DECKLINK_BACKEND'' then Some ''mock'' else demoVars k),
     pe_isIpLiteral := (\<lambda>_. True), pe_nmosBuilt := True, pe_connects := (\<lambda>_. False)\<rparr>"

lemma orphaned_handler:
  "case startup orphanBoot (newProgram Absent demoDisk) of
     (Inl x, s) \<Rightarrow> x = kExitTempFail \<and> pg_node s \<and> \<not> pg_node (stopNode (stopOps (stopWeb s))) \<and>
       (case pg_manager (stopNode (stopOps (stopWeb s))) of Some m \<Rightarrow> anyRunning m | None \<Rightarrow> False)
   | _ \<Rightarrow> False"
  by code_simp

end
