(* ===== verification/NmosJson.thy ===== *)
theory NmosJson
  imports Json
begin

text \<open>
  Assignments into the JSON of an NMOS resource, as \<open>cpprest\<close> documents them: a missing member or index is created and a
  null value becomes an object or an array.  \<open>None\<close> is the exception for a value of another type.
\<close>

datatype jstep = Key string | Idx nat

fun putMember :: "string \<Rightarrow> json \<Rightarrow> (string \<times> json) list \<Rightarrow> (string \<times> json) list" where
  "putMember k v [] = [(k, v)]"
| "putMember k v ((k', v') # es) = (if k' = k then (k, v) # es else (k', v') # putMember k v es)"

definition membersOf :: "json \<Rightarrow> (string \<times> json) list option" where
  "membersOf j = (case j of JObj es \<Rightarrow> Some es | JNull \<Rightarrow> Some [] | _ \<Rightarrow> None)"

definition elementsOf :: "json \<Rightarrow> json list option" where
  "elementsOf j = (case j of JArr xs \<Rightarrow> Some xs | JNull \<Rightarrow> Some [] | _ \<Rightarrow> None)"

definition memberOr :: "string \<Rightarrow> (string \<times> json) list \<Rightarrow> json" where
  "memberOr k es = (case map_of es k of Some v \<Rightarrow> v | None \<Rightarrow> JNull)"

fun setAt :: "jstep list \<Rightarrow> json \<Rightarrow> json \<Rightarrow> json option" where
  "setAt [] v j = Some v"
| "setAt (Key k # ps) v j =
     (case membersOf j of
        None \<Rightarrow> None
      | Some es \<Rightarrow> map_option (\<lambda>m. JObj (putMember k m es)) (setAt ps v (memberOr k es)))"
| "setAt (Idx i # ps) v j =
     (case elementsOf j of
        None \<Rightarrow> None
      | Some xs \<Rightarrow>
          (let xs = xs @ replicate (i + 1 - length xs) JNull in map_option (\<lambda>m. JArr (xs[i := m])) (setAt ps v (xs ! i))))"

fun getAt :: "jstep list \<Rightarrow> json \<Rightarrow> json option" where
  "getAt [] j = Some j"
| "getAt (Key k # ps) j = Option.bind (member_of j k) (getAt ps)"
| "getAt (Idx i # ps) j = (case j of JArr xs \<Rightarrow> if i < length xs then getAt ps (xs ! i) else None | _ \<Rightarrow> None)"

text \<open>Several assignments in a row.\<close>

fun assign :: "(jstep list \<times> json) list \<Rightarrow> json \<Rightarrow> json option" where
  "assign [] j = Some j"
| "assign ((p, v) # as) j = Option.bind (setAt p v j) (assign as)"

definition stringAt :: "jstep list \<Rightarrow> json \<Rightarrow> string option" where
  "stringAt p j = (case getAt p j of Some (JStr s) \<Rightarrow> Some s | _ \<Rightarrow> None)"

definition optJson :: "string option \<Rightarrow> json" where
  "optJson s = (case s of Some t \<Rightarrow> JStr t | None \<Rightarrow> JNull)"

subsection \<open>Reading what was assigned\<close>

lemma map_of_putMember: "map_of (putMember k v es) = (map_of es)(k \<mapsto> v)"
  by (induction es) (auto simp: fun_eq_iff)

lemma getAt_setAt: "setAt p v j = Some j' \<Longrightarrow> getAt (p @ q) j' = getAt q v"
proof (induction p v j arbitrary: j' rule: setAt.induct)
  case (2 k ps v j)
  then show ?case by (auto simp: member_of_def map_of_putMember split: option.splits)
next
  case (3 i ps v j)
  then show ?case by (auto simp: Let_def split: option.splits)
qed simp

text \<open>Two paths that part at a member do not disturb each other.\<close>

fun apart :: "jstep list \<Rightarrow> jstep list \<Rightarrow> bool" where
  "apart (Key k # ps) (Key l # qs) \<longleftrightarrow> k \<noteq> l \<or> apart ps qs"
| "apart (Idx i # ps) (Idx n # qs) \<longleftrightarrow> i \<noteq> n \<or> apart ps qs"
| "apart _ _ \<longleftrightarrow> False"

lemma getAt_null: "apart p q \<Longrightarrow> getAt q JNull = None"
  by (induction p q rule: apart.induct) (auto simp: member_of_def)

lemma getAt_other: "apart p q \<Longrightarrow> setAt p v j = Some j' \<Longrightarrow> getAt q j' = getAt q j \<or> getAt q j = None"
proof (induction p q arbitrary: j j' rule: apart.induct)
  case (1 k ps l qs)
  then show ?case
    apply (cases j)
    apply (auto simp: member_of_def membersOf_def memberOr_def map_of_putMember getAt_null split: option.splits)
    apply (metis option.distinct(1))+
    done
next
  case (2 i ps n qs)
  then show ?case
    apply (cases j)
    apply (auto simp: elementsOf_def Let_def nth_append nth_list_update getAt_null split: if_splits)
    apply (metis option.distinct(1))+
    done
qed simp_all

lemma getAt_member_other: "k \<noteq> l \<Longrightarrow> setAt (Key l # ps) v j = Some j' \<Longrightarrow> getAt (Key k # qs) j' = getAt (Key k # qs) j"
  by (cases j) (auto simp: member_of_def membersOf_def map_of_putMember)

end
