(* ===== verification/Node.thy ===== *)
theory Node
  imports NmosJson RouteState InputChannel DomainScan ChannelManager
begin

text \<open>
  \<open>src/nmos/node.cpp\<close>: the NMOS node.  nmos-cpp is a parameter: the functions that make the JSON of a resource, and the
  store of resources with its insertion, lookup, change and removal.  A resource is built from what such a function
  returns by the assignments of the source; \<open>None\<close> is an exception.  Locks and threads are left out: an operation
  is what one thread does under its locks.
\<close>

subsection \<open>Resources\<close>

datatype ResType = NodeType | DeviceType | SourceType | FlowType | SenderType | ReceiverType

record NmosResource =
  nr_type :: ResType
  nr_id :: string
  nr_data :: json

datatype InterlaceMode = Progressive | InterlacedTff | InterlacedBff

datatype MediaType = MediaV210 | MediaV210a | MediaFloat32 | MediaSmpte291

datatype FormatType = VideoFormat | AudioFormat

record 's NodeEnv =
  ne_fs :: FsEnv
  ne_disk :: FS
  ne_flowExists :: "string \<Rightarrow> string \<Rightarrow> bool"
  ne_parseJson :: "string \<Rightarrow> json option"
  ne_serialize :: "json \<Rightarrow> string"
  ne_written :: bool
  ne_version :: string
  ne_insert :: "NmosResource \<Rightarrow> 's \<Rightarrow> 's option"
  ne_erase :: "string \<Rightarrow> 's \<Rightarrow> 's"
  ne_modify :: "string \<Rightarrow> (json \<Rightarrow> json option) \<Rightarrow> 's \<Rightarrow> 's option"
  ne_find :: "string \<Rightarrow> ResType \<Rightarrow> 's \<Rightarrow> NmosResource option"
  ne_isAuto :: "string \<Rightarrow> json \<Rightarrow> bool"
  mk_node :: "string \<Rightarrow> json"
  mk_device :: "string \<Rightarrow> string \<Rightarrow> string list \<Rightarrow> string list \<Rightarrow> json"
  mk_videoSource :: "string \<Rightarrow> string \<Rightarrow> mxlRational \<Rightarrow> json"
  mk_audioSource :: "string \<Rightarrow> string \<Rightarrow> mxlRational \<Rightarrow> (string \<times> nat) list \<Rightarrow> json"
  mk_dataSource :: "string \<Rightarrow> string \<Rightarrow> mxlRational \<Rightarrow> json"
  mk_videoFlow :: "string \<Rightarrow> string \<Rightarrow> string \<Rightarrow> mxlRational \<Rightarrow> u32 \<Rightarrow> u32 \<Rightarrow> InterlaceMode \<Rightarrow> MediaType \<Rightarrow> json"
  mk_audioFlow :: "string \<Rightarrow> string \<Rightarrow> string \<Rightarrow> json"
  mk_ancFlow :: "string \<Rightarrow> string \<Rightarrow> string \<Rightarrow> json"
  mk_sender :: "string \<Rightarrow> string \<Rightarrow> string \<Rightarrow> json"
  mk_receiver :: "string \<Rightarrow> string \<Rightarrow> FormatType \<Rightarrow> MediaType \<Rightarrow> json"
  mk_ancReceiver :: "string \<Rightarrow> string \<Rightarrow> json"
  mk_connSender :: "string \<Rightarrow> string \<Rightarrow> json"
  mk_connReceiver :: "string \<Rightarrow> json"
  mk_capsStrings :: "string list \<Rightarrow> json"
  mk_capsRationals :: "mxlRational list \<Rightarrow> json"
  mk_capsIntegers :: "int list \<Rightarrow> json"
  mk_groupHint :: "string \<Rightarrow> string \<Rightarrow> json"
  mk_rational :: "mxlRational \<Rightarrow> json"
  mk_mediaName :: "MediaType \<Rightarrow> string"
  mk_interlaceName :: "InterlaceMode \<Rightarrow> string"
  mk_sampling :: string

record Job =
  jb_activation :: Activation
  jb_peerId :: "string option"

text \<open>The members of \<open>Node::Impl\<close>, with the file of the saved routes, what \<open>persist\<close> was called with, and the two stores of
  the model.\<close>

record 's NodeState =
  nd_cfg :: Config
  nd_channels :: ChannelManager
  nd_cardId :: u32
  nd_cardName :: string
  nd_nodeId :: string
  nd_deviceId :: string
  nd_primaryDomainId :: string
  nd_primaryDomainPath :: string
  nd_domains :: "DomainBinding list"
  nd_legs :: "Leg list"
  nd_flowByLeg :: "(string \<times> string) list"
  nd_routes :: "RouteState option"
  nd_routeFile :: FileState
  nd_restoredActive :: "(string \<times> SavedActivation) list"
  nd_model :: bool
  nd_node :: 's
  nd_connections :: 's
  nd_accept :: bool
  nd_registered :: bool
  nd_jobs :: "Job list"
  nd_jobStop :: bool
  nd_persisted :: "ChannelConfig list list"

subsection \<open>Modes and labels\<close>

definition rateOf :: "VideoMode \<Rightarrow> mxlRational" where
  "rateOf m = \<lparr>numerator = vm_rateNumerator m, denominator = vm_rateDenominator m\<rparr>"

definition ancRateOf :: "VideoMode \<Rightarrow> mxlRational" where
  "ancRateOf m =
     \<lparr>numerator = (if vm_interlaced m then 2 * vm_rateNumerator m else vm_rateNumerator m), denominator = vm_rateDenominator m\<rparr>"

definition interlaceOf :: "VideoMode \<Rightarrow> InterlaceMode" where
  "interlaceOf m = (if \<not> vm_interlaced m then Progressive else if vm_bottomFieldFirst m then InterlacedBff else InterlacedTff)"

definition videoMedia :: "ChannelConfig \<Rightarrow> MediaType" where
  "videoMedia ch = (if pixelFormat ch = YUVA10 then MediaV210a else MediaV210)"

definition nominalMode :: "ChannelConfig \<Rightarrow> VideoMode" where
  "nominalMode ch =
     (case videoMode ch of
        Some m \<Rightarrow> m
      | None \<Rightarrow> (case lookupVideoMode ''HD1080p50'' of
            Some m \<Rightarrow> m
          | None \<Rightarrow> mkMode ''HD1080p50'' 0 1920 1080 50 1 False False))"

definition addPlatformTags :: "(string \<times> string list) list \<Rightarrow> json \<Rightarrow> json option" where
  "addPlatformTags tags data =
     (if tags = [] then Some data
      else
        Option.bind (case member_of data ''tags'' of Some (JObj es) \<Rightarrow> Some data | _ \<Rightarrow> setAt [Key ''tags''] (JObj []) data)
          (assign (map (\<lambda>(name, vs). ([Key ''tags'', Key name], JArr (map JStr vs))) tags)))"

definition kGroupHint :: string where "kGroupHint = ''urn:x-nmos:tag:grouphint/v1.0''"

definition tagGroup :: "'s NodeEnv \<Rightarrow> string \<Rightarrow> string \<Rightarrow> json \<Rightarrow> json option" where
  "tagGroup e grp role data =
     Option.bind (case member_of data ''tags'' of Some (JObj es) \<Rightarrow> Some data | _ \<Rightarrow> setAt [Key ''tags''] (JObj []) data)
       (\<lambda>data. case getAt [Key ''tags'', Key kGroupHint] data of
          Some (JArr hints) \<Rightarrow> setAt [Key ''tags'', Key kGroupHint] (JArr (hints @ [mk_groupHint e grp role])) data
        | None \<Rightarrow> setAt [Key ''tags'', Key kGroupHint] (JArr [mk_groupHint e grp role]) data
        | Some JNull \<Rightarrow> setAt [Key ''tags'', Key kGroupHint] (JArr [mk_groupHint e grp role]) data
        | Some j \<Rightarrow> None)"

definition setLabel :: "string \<Rightarrow> string \<Rightarrow> json \<Rightarrow> json option" where
  "setLabel label description = assign [([Key ''label''], JStr label), ([Key ''description''], JStr description)]"

definition decorated :: "'s NodeEnv \<Rightarrow> string \<Rightarrow> string \<Rightarrow> string \<Rightarrow> string \<Rightarrow> json \<Rightarrow> json option" where
  "decorated e label description grp role data = Option.bind (setLabel label description data) (tagGroup e grp role)"

definition audioChannels :: "int \<Rightarrow> (string \<times> nat) list" where
  "audioChannels count = map (\<lambda>i. (''Ch'' @ nat_to_string i, i)) [1..<nat count + 1]"

definition capsWith :: "'s NodeEnv \<Rightarrow> (string \<times> json) list \<Rightarrow> string \<Rightarrow> json" where
  "capsWith e constraints mediaType =
     JObj [(''media_types'', JArr [JStr mediaType]), (''constraint_sets'', JArr [JObj constraints]), (''version'', JStr (ne_version e))]"

definition legActive :: "Leg \<Rightarrow> ChannelConfig \<Rightarrow> bool" where
  "legActive leg ch =
     (case lg_kind leg of
        VideoLeg \<Rightarrow> videoMxlActive ch \<and> \<not> isNil (videoFlowId ch)
      | AncLeg \<Rightarrow> ancMxlActive ch \<and> (case ancFlowId ch of Some u \<Rightarrow> \<not> isNil u | None \<Rightarrow> False)
      | AudioLeg \<Rightarrow> (case find (\<lambda>af. af_index af = lg_audioIndex leg) (audioFlows ch) of
            Some af \<Rightarrow> af_mxlActive af \<and> \<not> isNil (af_flowId af) | None \<Rightarrow> False))"

definition legRole :: "Leg \<Rightarrow> string" where
  "legRole leg = (case lg_kind leg of VideoLeg \<Rightarrow> ''Video'' | AudioLeg \<Rightarrow> ''Audio'' | AncLeg \<Rightarrow> ''Data'')"

text \<open>The channels of an audio leg: those of the last flow with its index.\<close>

definition legCount :: "Leg \<Rightarrow> ChannelConfig \<Rightarrow> int" where
  "legCount leg ch = fold (\<lambda>af n. if af_index af = lg_audioIndex leg then af_channelCount af else n) (audioFlows ch) 2"

subsection \<open>Flows and domains\<close>

definition currentFlow :: "string \<Rightarrow> 's NodeState \<Rightarrow> string" where
  "currentFlow lid st = (case map_of (nd_flowByLeg st) lid of Some f \<Rightarrow> f | None \<Rightarrow> [])"

definition rememberFlow :: "string \<Rightarrow> string \<Rightarrow> 's NodeState \<Rightarrow> 's NodeState" where
  "rememberFlow lid flow st = (if flow \<noteq> [] then st\<lparr>nd_flowByLeg := putKey lid flow (nd_flowByLeg st)\<rparr> else st)"

definition foundDomains :: "'s NodeEnv \<Rightarrow> Config \<Rightarrow> DomainBinding list" where
  "foundDomains e cfg =
     concat (map (\<lambda>d. case di_id d of Some i \<Rightarrow> [\<lparr>db_id = i, db_path = di_path d\<rparr>] | None \<Rightarrow> [])
       (scanDomains (ne_fs e) (ne_disk e) (domainScanPath cfg) 3))"

definition refreshDomains :: "'s NodeEnv \<Rightarrow> 's NodeState \<Rightarrow> 's NodeState" where
  "refreshDomains e st =
     (let found = foundDomains e (nd_cfg st);
          primary = \<lparr>db_id = nd_primaryDomainId st, db_path = nd_primaryDomainPath st\<rparr>;
          saw = list_ex (\<lambda>d. db_path d = nd_primaryDomainPath st \<or> db_id d = nd_primaryDomainId st) found
      in st\<lparr>nd_domains := (if saw then found else found @ [primary])\<rparr>)"

definition domainOfFlow :: "'s NodeEnv \<Rightarrow> string \<Rightarrow> DomainBinding list \<Rightarrow> string option" where
  "domainOfFlow e flow ds =
     map_option db_id (find (\<lambda>d. list_ex (\<lambda>f. fs_id f = flow) (listFlows (ne_fs e) (ne_disk e) (db_path d))) ds)"

definition resolveReceiverDomain :: "'s NodeEnv \<Rightarrow> string \<Rightarrow> 's NodeState \<Rightarrow> string \<times> 's NodeState" where
  "resolveReceiverDomain e flow st =
     (if flow = [] then (nd_primaryDomainId st, st)
      else
        case domainOfFlow e flow (nd_domains st) of
          Some i \<Rightarrow> (i, st)
        | None \<Rightarrow>
            (let st = refreshDomains e st in
             case domainOfFlow e flow (nd_domains st) of Some i \<Rightarrow> (i, st) | None \<Rightarrow> (nd_primaryDomainId st, st)))"

subsection \<open>Building the resources\<close>

definition insertNode :: "'s NodeEnv \<Rightarrow> NmosResource \<Rightarrow> 's NodeState \<Rightarrow> 's NodeState option" where
  "insertNode e r st = map_option (\<lambda>s. st\<lparr>nd_node := s\<rparr>) (ne_insert e r (nd_node st))"

definition insertConnection :: "'s NodeEnv \<Rightarrow> NmosResource \<Rightarrow> 's NodeState \<Rightarrow> 's NodeState option" where
  "insertConnection e r st = map_option (\<lambda>s. st\<lparr>nd_connections := s\<rparr>) (ne_insert e r (nd_connections st))"

definition paramPath :: "string \<Rightarrow> string \<Rightarrow> jstep list" where
  "paramPath endpoint name = [Key endpoint, Key ''transport_params'', Idx 0, Key name]"

definition peerField :: "bool \<Rightarrow> string" where
  "peerField sender = (if sender then ''receiver_id'' else ''sender_id'')"

definition restoreEndpoint :: "'s NodeState \<Rightarrow> Leg \<Rightarrow> json \<Rightarrow> json option" where
  "restoreEndpoint st leg data =
     (case map_of (nd_restoredActive st) (lg_id leg) of
        None \<Rightarrow> Some data
      | Some s \<Rightarrow>
          assign (concat (map (\<lambda>ep.
            ([Key ep, Key ''master_enable''], JBool (sa_masterEnable s)) #
            (if sa_domainId s \<noteq> [] then [(paramPath ep ''mxl_domain_id'', JStr (sa_domainId s))] else []) @
            [(paramPath ep ''mxl_flow_id'', optJson (sa_flowId s)), ([Key ep, Key (peerField (lg_sender leg))], optJson (sa_peerId s))])
            [''active'', ''staged''])) data)"

definition restoreSubscription :: "'s NodeState \<Rightarrow> Leg \<Rightarrow> json \<Rightarrow> json option" where
  "restoreSubscription st leg data =
     (case map_of (nd_restoredActive st) (lg_id leg) of
        None \<Rightarrow> Some data
      | Some s \<Rightarrow>
          assign [([Key ''subscription'', Key ''active''], JBool (sa_masterEnable s)),
                  ([Key ''subscription'', Key (peerField (lg_sender leg))], optJson (sa_peerId s))] data)"

text \<open>Both endpoints of a connection, before the restoration.\<close>

definition endpointDefaults :: "string \<Rightarrow> json \<Rightarrow> bool \<Rightarrow> (jstep list \<times> json) list" where
  "endpointDefaults domain flow enabled =
     [(paramPath ''active'' ''mxl_domain_id'', JStr domain), (paramPath ''staged'' ''mxl_domain_id'', JStr domain),
      (paramPath ''active'' ''mxl_flow_id'', flow), (paramPath ''staged'' ''mxl_flow_id'', flow),
      ([Key ''active'', Key ''master_enable''], JBool enabled), ([Key ''staged'', Key ''master_enable''], JBool enabled)]"

text \<open>Source and flow of a sender.\<close>

definition essence :: "'s NodeEnv \<Rightarrow> string \<Rightarrow> ChannelConfig \<Rightarrow> Leg \<Rightarrow> (json \<times> json) option" where
  "essence e device ch leg =
     (let m = nominalMode ch; flow = lg_initialFlowId leg; src = lg_sourceId leg in
      case lg_kind leg of
        VideoLeg \<Rightarrow>
          Some (mk_videoSource e src device (rateOf m),
            mk_videoFlow e flow src device (rateOf m) (vm_width m) (vm_height m) (interlaceOf m) (videoMedia ch))
      | AudioLeg \<Rightarrow>
          map_option (Pair (mk_audioSource e src device (rateOf m) (audioChannels (legCount leg ch))))
            (setAt [Key ''channel_count''] (JNum (Some (legCount leg ch))) (mk_audioFlow e flow src device))
      | AncLeg \<Rightarrow>
          map_option (Pair (mk_dataSource e src device (ancRateOf m)))
            (assign [([Key ''grain_rate''], mk_rational e (ancRateOf m)), ([Key ''media_type''], JStr (mk_mediaName e MediaSmpte291))]
               (mk_ancFlow e flow src device)))"

definition groupOf :: "ChannelConfig \<Rightarrow> string" where
  "groupOf ch = (if groupHint ch = [] then ch_label ch else groupHint ch)"

definition senderFlowValue :: "string \<Rightarrow> json" where
  "senderFlowValue flow =
     (case parseUuid flow of None \<Rightarrow> JNull | Some u \<Rightarrow> if isNil u then JNull else JStr flow)"

definition senderConnection :: "'s NodeEnv \<Rightarrow> 's NodeState \<Rightarrow> Leg \<Rightarrow> bool \<Rightarrow> json option" where
  "senderConnection e st leg active =
     Option.bind
       (assign (endpointDefaults (nd_primaryDomainId st) (senderFlowValue (lg_initialFlowId leg)) active @ [([Key ''transportfile''], JNull)])
         (mk_connSender e (lg_id leg) (nd_primaryDomainId st)))
       (restoreEndpoint st leg)"

definition buildSender :: "'s NodeEnv \<Rightarrow> ChannelConfig \<Rightarrow> Leg \<Rightarrow> 's NodeState \<Rightarrow> 's NodeState option" where
  "buildSender e ch leg st =
     (let active = legActive leg ch; role = legRole leg; label = ch_label ch @ '' '' @ role; flowId = lg_initialFlowId leg in
      Option.bind (essence e (nd_deviceId st) ch leg) (\<lambda>(src, flow).
      Option.bind (decorated e label ''mxl-decklink source'' (groupOf ch) role src) (\<lambda>src.
      Option.bind (decorated e label ''mxl-decklink flow'' (groupOf ch) role flow) (\<lambda>flow.
      Option.bind (insertNode e \<lparr>nr_type = SourceType, nr_id = lg_sourceId leg, nr_data = src\<rparr> st) (\<lambda>st.
      Option.bind (insertNode e \<lparr>nr_type = FlowType, nr_id = flowId, nr_data = flow\<rparr> st) (\<lambda>st.
      Option.bind (setAt [Key ''subscription'', Key ''active''] (JBool active) (mk_sender e (lg_id leg) flowId (nd_deviceId st))) (\<lambda>sdr.
      Option.bind (restoreSubscription st leg sdr) (\<lambda>sdr.
      Option.bind (decorated e label ''MXL sender'' (groupOf ch) role sdr) (\<lambda>sdr.
      Option.bind (insertNode e \<lparr>nr_type = SenderType, nr_id = lg_id leg, nr_data = sdr\<rparr> st) (\<lambda>st.
      Option.bind (senderConnection e st leg active) (\<lambda>conn.
        insertConnection e \<lparr>nr_type = SenderType, nr_id = lg_id leg, nr_data = conn\<rparr> st)))))))))))"

text \<open>A receiver and its capabilities.\<close>

definition capName :: "string \<Rightarrow> string" where
  "capName n = ''urn:x-nmos:cap:format:'' @ n"

definition receiverData :: "'s NodeEnv \<Rightarrow> string \<Rightarrow> ChannelConfig \<Rightarrow> Leg \<Rightarrow> json option" where
  "receiverData e device ch leg =
     (let m = nominalMode ch in
      case lg_kind leg of
        VideoLeg \<Rightarrow>
          (let media = mk_mediaName e (videoMedia ch) in
           setAt [Key ''caps''] (capsWith e
             [(capName ''media_type'', mk_capsStrings e [media]), (capName ''grain_rate'', mk_capsRationals e [rateOf m]),
              (capName ''frame_width'', mk_capsIntegers e [int (unat (vm_width m))]),
              (capName ''frame_height'', mk_capsIntegers e [int (unat (vm_height m))]),
              (capName ''interlace_mode'', mk_capsStrings e [mk_interlaceName e (interlaceOf m)]),
              (capName ''color_sampling'', mk_capsStrings e [mk_sampling e]), (capName ''component_depth'', mk_capsIntegers e [10])] media)
             (mk_receiver e (lg_id leg) device VideoFormat (videoMedia ch)))
      | AudioLeg \<Rightarrow>
          (let media = mk_mediaName e MediaFloat32 in
           setAt [Key ''caps''] (capsWith e
             [(capName ''media_type'', mk_capsStrings e [media]), (capName ''channel_count'', mk_capsIntegers e [legCount leg ch]),
              (capName ''sample_rate'', mk_capsRationals e [\<lparr>numerator = 48000, denominator = 1\<rparr>]),
              (capName ''sample_depth'', mk_capsIntegers e [32])] media)
             (mk_receiver e (lg_id leg) device AudioFormat MediaFloat32))
      | AncLeg \<Rightarrow>
          (let media = mk_mediaName e MediaSmpte291 in
           setAt [Key ''caps''] (capsWith e
             [(capName ''media_type'', mk_capsStrings e [media]), (capName ''grain_rate'', mk_capsRationals e [ancRateOf m])] media)
             (mk_ancReceiver e (lg_id leg) device)))"

definition receiverConnection :: "'s NodeEnv \<Rightarrow> 's NodeState \<Rightarrow> Leg \<Rightarrow> bool \<Rightarrow> json option" where
  "receiverConnection e st leg active =
     Option.bind
       (assign (endpointDefaults (nd_primaryDomainId st) (if active then JStr (lg_initialFlowId leg) else JNull) active)
         (mk_connReceiver e (lg_id leg)))
       (restoreEndpoint st leg)"

definition buildReceiver :: "'s NodeEnv \<Rightarrow> ChannelConfig \<Rightarrow> Leg \<Rightarrow> 's NodeState \<Rightarrow> 's NodeState option" where
  "buildReceiver e ch leg st =
     (let active = legActive leg ch; role = legRole leg in
      Option.bind (receiverData e (nd_deviceId st) ch leg) (\<lambda>rcv.
      Option.bind (decorated e (ch_label ch @ '' '' @ role) ''MXL receiver'' (groupOf ch) role rcv) (\<lambda>rcv.
      Option.bind (setAt [Key ''version''] (JStr (ne_version e)) rcv) (\<lambda>rcv.
      Option.bind (restoreSubscription st leg rcv) (\<lambda>rcv.
      Option.bind (insertNode e \<lparr>nr_type = ReceiverType, nr_id = lg_id leg, nr_data = rcv\<rparr> st) (\<lambda>st.
      Option.bind (receiverConnection e st leg active) (\<lambda>conn.
        insertConnection e \<lparr>nr_type = ReceiverType, nr_id = lg_id leg, nr_data = conn\<rparr> st)))))))"

definition buildLeg :: "'s NodeEnv \<Rightarrow> Leg \<Rightarrow> 's NodeState \<Rightarrow> 's NodeState option" where
  "buildLeg e leg st =
     (case findChannel (channels (nd_cfg st)) (lg_channelIndex leg) of
        None \<Rightarrow> Some st
      | Some ch \<Rightarrow>
          (let st = rememberFlow (lg_id leg) (lg_initialFlowId leg) st in
           if lg_sender leg then buildSender e ch leg st else buildReceiver e ch leg st))"

fun buildLegs :: "'s NodeEnv \<Rightarrow> Leg list \<Rightarrow> 's NodeState \<Rightarrow> 's NodeState option" where
  "buildLegs e [] st = Some st"
| "buildLegs e (leg # legs) st = Option.bind (buildLeg e leg st) (buildLegs e legs)"

definition buildResources :: "'s NodeEnv \<Rightarrow> 's NodeState \<Rightarrow> 's NodeState option" where
  "buildResources e st =
     (let cfg = nd_cfg st; cardLabel = (if nd_cardName st = [] then ''DeckLink'' else nd_cardName st);
          nodeLabel = (if nmosLabel cfg = [] then nd_cardName st else nmosLabel cfg);
          deviceLabel = (if nmosLabel cfg = [] then cardLabel else nmosLabel cfg @ '' '' @ cardLabel);
          senders = map lg_id (filter lg_sender (nd_legs st)); receivers = map lg_id (filter (\<lambda>l. \<not> lg_sender l) (nd_legs st)) in
      Option.bind (setLabel nodeLabel ''mxl-decklink BCP-007-03 node'' (mk_node e (nd_nodeId st))) (\<lambda>nd.
      Option.bind (addPlatformTags (nmosTags cfg) nd) (\<lambda>nd.
      Option.bind (insertNode e \<lparr>nr_type = NodeType, nr_id = nd_nodeId st, nr_data = nd\<rparr> st) (\<lambda>st.
      Option.bind (setLabel deviceLabel ''DeckLink card bridged to MXL'' (mk_device e (nd_deviceId st) (nd_nodeId st) senders receivers)) (\<lambda>dev.
      Option.bind (addPlatformTags (nmosTags cfg) dev) (\<lambda>dev.
      Option.bind (insertNode e \<lparr>nr_type = DeviceType, nr_id = nd_deviceId st, nr_data = dev\<rparr> st) (\<lambda>st.
        buildLegs e (nd_legs st) st)))))))"

end
