(* ===== verification/NodeRun.thy ===== *)
theory NodeRun
  imports Node
begin

text \<open>
  \<open>src/nmos/node.cpp\<close>, continued: what the node does while it runs, its start and its stop.  \<open>None\<close> is an exception.
\<close>

subsection \<open>Runtime flows\<close>

text \<open>The flow that a running input channel announces for a leg; empty for none.\<close>

definition announcedFlow :: "RuntimeFlows \<Rightarrow> Leg \<Rightarrow> string" where
  "announcedFlow flows leg =
     (case lg_kind leg of
        VideoLeg \<Rightarrow> rf_videoId flows
      | AncLeg \<Rightarrow> (case rf_ancId flows of Some i \<Rightarrow> i | None \<Rightarrow> [])
      | AudioLeg \<Rightarrow> fold (\<lambda>(i, f) flow. if i = lg_audioIndex leg then f else flow) (rf_audioIds flows) [])"

definition runtimeFlow :: "'s NodeEnv \<Rightarrow> string \<Rightarrow> ChannelConfig \<Rightarrow> VideoMode \<Rightarrow> Leg \<Rightarrow> string \<Rightarrow> json option" where
  "runtimeFlow e device ch m leg flow =
     (let src = lg_sourceId leg; label = ch_label ch @ '' '' @ legRole leg in
      case lg_kind leg of
        VideoLeg \<Rightarrow>
          setLabel label ''mxl-decklink flow''
            (mk_videoFlow e flow src device (rateOf m) (vm_width m) (vm_height m) (interlaceOf m) (videoMedia ch))
      | AudioLeg \<Rightarrow>
          Option.bind (setAt [Key ''channel_count''] (JNum (Some (legCount leg ch))) (mk_audioFlow e flow src device))
            (setLabel label ''mxl-decklink flow'')
      | AncLeg \<Rightarrow>
          Option.bind (setAt [Key ''grain_rate''] (mk_rational e (ancRateOf m)) (mk_ancFlow e flow src device))
            (setLabel label ''mxl-decklink flow''))"

definition senderFlowId :: "'s NodeEnv \<Rightarrow> string \<Rightarrow> 's NodeState \<Rightarrow> string" where
  "senderFlowId e lid st =
     (case ne_find e lid SenderType (nd_node st) of
        None \<Rightarrow> [] | Some r \<Rightarrow> (case stringAt [Key ''flow_id''] (nr_data r) of Some f \<Rightarrow> f | None \<Rightarrow> []))"

definition updateSender :: "'s NodeEnv \<Rightarrow> string \<Rightarrow> json \<Rightarrow> json option" where
  "updateSender e flow data =
     Option.bind (if member_of data ''flow_id'' \<noteq> None then setAt [Key ''flow_id''] (JStr flow) data else Some data)
       (setAt [Key ''version''] (JStr (ne_version e)))"

definition updateConnection :: "'s NodeEnv \<Rightarrow> string \<Rightarrow> json \<Rightarrow> json option" where
  "updateConnection e flow = assign [(paramPath ''active'' ''mxl_flow_id'', JStr flow), ([Key ''version''], JStr (ne_version e))]"

definition modifyNode :: "'s NodeEnv \<Rightarrow> string \<Rightarrow> (json \<Rightarrow> json option) \<Rightarrow> 's NodeState \<Rightarrow> 's NodeState option" where
  "modifyNode e i f st = map_option (\<lambda>s. st\<lparr>nd_node := s\<rparr>) (ne_modify e i f (nd_node st))"

definition modifyConnection :: "'s NodeEnv \<Rightarrow> string \<Rightarrow> (json \<Rightarrow> json option) \<Rightarrow> 's NodeState \<Rightarrow> 's NodeState option" where
  "modifyConnection e i f st = map_option (\<lambda>s. st\<lparr>nd_connections := s\<rparr>) (ne_modify e i f (nd_connections st))"

definition replaceFlow :: "'s NodeEnv \<Rightarrow> ChannelConfig \<Rightarrow> VideoMode \<Rightarrow> Leg \<Rightarrow> string \<Rightarrow> 's NodeState \<Rightarrow> 's NodeState option" where
  "replaceFlow e ch m leg flow st =
     (let old = senderFlowId e (lg_id leg) st in
      if old = flow then Some st
      else
        Option.bind (runtimeFlow e (nd_deviceId st) ch m leg flow) (\<lambda>data.
        Option.bind (insertNode e \<lparr>nr_type = FlowType, nr_id = flow, nr_data = data\<rparr> st) (\<lambda>st.
          Some (if old \<noteq> [] then st\<lparr>nd_node := ne_erase e old (nd_node st)\<rparr> else st))))"

definition runtimeLeg :: "'s NodeEnv \<Rightarrow> int \<Rightarrow> RuntimeFlows \<Rightarrow> Leg \<Rightarrow> 's NodeState \<Rightarrow> 's NodeState option" where
  "runtimeLeg e channelIndex flows leg st =
     (let flow = announcedFlow flows leg in
      if \<not> lg_sender leg \<or> lg_channelIndex leg \<noteq> channelIndex \<or> flow = [] then Some st
      else
        let st = rememberFlow (lg_id leg) flow st in
        case findChannel (channels (nd_cfg st)) (lg_channelIndex leg) of
          None \<Rightarrow> Some st
        | Some ch \<Rightarrow>
            Option.bind (replaceFlow e ch (rf_mode flows) leg flow st) (\<lambda>st.
            Option.bind (modifyNode e (lg_id leg) (updateSender e flow) st)
              (modifyConnection e (lg_id leg) (updateConnection e flow))))"

fun runtimeLegs :: "'s NodeEnv \<Rightarrow> int \<Rightarrow> RuntimeFlows \<Rightarrow> Leg list \<Rightarrow> 's NodeState \<Rightarrow> 's NodeState option" where
  "runtimeLegs e i flows [] st = Some st"
| "runtimeLegs e i flows (leg # legs) st = Option.bind (runtimeLeg e i flows leg st) (runtimeLegs e i flows legs)"

definition onRuntimeFlows :: "'s NodeEnv \<Rightarrow> int \<Rightarrow> RuntimeFlows \<Rightarrow> 's NodeState \<Rightarrow> 's NodeState option" where
  "onRuntimeFlows e i flows st =
     (if \<not> nd_accept st \<or> \<not> nd_model st then Some st else runtimeLegs e i flows (nd_legs st) st)"

subsection \<open>Activations\<close>

definition readPeer :: "NmosResource \<Rightarrow> string option" where
  "readPeer r = stringAt [Key ''active'', Key (peerField (nr_type r = SenderType))] (nr_data r)"

definition readActivation :: "NmosResource \<Rightarrow> Activation option" where
  "readActivation r =
     (case (getAt [Key ''active'', Key ''master_enable''] (nr_data r), getAt [Key ''active'', Key ''transport_params'', Idx 0] (nr_data r)) of
        (Some (JBool enable), Some params) \<Rightarrow>
          Some \<lparr>ac_legId = nr_id r, ac_masterEnable = enable,
                ac_domainId = (case stringAt [Key ''mxl_domain_id''] params of Some d \<Rightarrow> d | None \<Rightarrow> []),
                ac_flowId = (case stringAt [Key ''mxl_flow_id''] params of Some f \<Rightarrow> if f = ''auto'' then None else Some f | None \<Rightarrow> None)\<rparr>
      | _ \<Rightarrow> None)"

definition enqueue :: "Activation \<Rightarrow> string option \<Rightarrow> 's NodeState \<Rightarrow> 's NodeState" where
  "enqueue a peer st = st\<lparr>nd_jobs := nd_jobs st @ [\<lparr>jb_activation = a, jb_peerId = peer\<rparr>]\<rparr>"

text \<open>The callback of an IS-05 activation.\<close>

definition connectionActivated :: "NmosResource \<Rightarrow> 's NodeState \<Rightarrow> 's NodeState option" where
  "connectionActivated r st =
     (if \<not> nd_accept st then Some st else map_option (\<lambda>a. enqueue a (readPeer r) st) (readActivation r))"

definition savedOf :: "Leg list \<Rightarrow> DomainBinding list \<Rightarrow> Job \<Rightarrow> SavedActivation" where
  "savedOf legs known j =
     (let a = jb_activation j in
      \<lparr>sa_legId = ac_legId a, sa_sender = fold (\<lambda>l b. if lg_id l = ac_legId a then lg_sender l else b) legs False,
       sa_masterEnable = ac_masterEnable a, sa_domainId = ac_domainId a,
       sa_domainPath = fold (\<lambda>d p. if db_id d = ac_domainId a then db_path d else p) known [],
       sa_flowId = ac_flowId a, sa_peerId = jb_peerId j\<rparr>)"

definition saveActivation :: "'s NodeEnv \<Rightarrow> Job \<Rightarrow> DomainBinding list \<Rightarrow> 's NodeState \<Rightarrow> 's NodeState" where
  "saveActivation e j known st =
     (case nd_routes st of
        None \<Rightarrow> st
      | Some rt \<Rightarrow>
          (case save (ne_serialize e) (ne_written e) (savedOf (nd_legs st) known j) rt (nd_routeFile st) of
             (ok, rt, disk) \<Rightarrow> st\<lparr>nd_routes := Some rt, nd_routeFile := disk\<rparr>))"

definition isDirectoryText :: "'s NodeEnv \<Rightarrow> string \<Rightarrow> bool" where
  "isDirectoryText e t = isDirectory (ne_disk e) (fe_cwd (ne_fs e)) (pathOf t)"

text \<open>One job of the worker: what became of it, and the state after it.\<close>

datatype JobOutcome = JobRejected RouteError | JobApplyFailed CardError | JobApplied ApplyResult

definition runJob :: "'s NodeEnv \<Rightarrow> Job \<Rightarrow> 's NodeState \<Rightarrow> JobOutcome \<times> 's NodeState" where
  "runJob e j st =
     (let a = jb_activation j; cfgs = channelConfigs (nd_channels st);
          st = (if ac_masterEnable a \<and> \<not> list_ex (\<lambda>d. db_id d = ac_domainId a) (nd_domains st) then refreshDomains e st else st);
          known = nd_domains st
      in case applyActivation (isDirectoryText e) cfgs (nd_legs st) a known (nd_primaryDomainPath st) True of
           (Some err, _) \<Rightarrow> (JobRejected err, st)
         | (None, cfgs) \<Rightarrow>
             (let st = (case ac_flowId a of Some f \<Rightarrow> rememberFlow (ac_legId a) f st | None \<Rightarrow> st) in
              case applyChannels cfgs (nd_channels st) of
                (Inl err, m) \<Rightarrow> (JobApplyFailed err, st\<lparr>nd_channels := m\<rparr>)
              | (Inr r, m) \<Rightarrow>
                  (let st = saveActivation e j known (st\<lparr>nd_channels := m\<rparr>)
                   in (JobApplied r, st\<lparr>nd_persisted := nd_persisted st @ [channelConfigs m]\<rparr>))))"

text \<open>The worker, for as many turns as there are jobs: once asked to stop it starts none.\<close>

fun workerLoop :: "'s NodeEnv \<Rightarrow> nat \<Rightarrow> 's NodeState \<Rightarrow> 's NodeState" where
  "workerLoop e 0 st = st"
| "workerLoop e (Suc n) st =
     (if nd_jobStop st then st
      else case nd_jobs st of
             [] \<Rightarrow> st
           | j # js \<Rightarrow> workerLoop e n (snd (runJob e j (st\<lparr>nd_jobs := js\<rparr>))))"

subsection \<open>Resolving auto\<close>

definition autoDomain :: "'s NodeEnv \<Rightarrow> bool \<Rightarrow> json \<Rightarrow> 's NodeState \<Rightarrow> json option \<times> 's NodeState" where
  "autoDomain e sender params st =
     (if sender then (Some (JStr (nd_primaryDomainId st)), st)
      else
        let flow = (case stringAt [Key ''mxl_flow_id''] params of Some f \<Rightarrow> if f = ''auto'' then [] else f | None \<Rightarrow> []);
            (domain, st) = resolveReceiverDomain e flow st
        in (if domain = [] then None else Some (JStr domain), st))"

definition autoFlow :: "string \<Rightarrow> 's NodeState \<Rightarrow> json option" where
  "autoFlow lid st = (let f = currentFlow lid st in if f = [] then None else Some (JStr f))"

text \<open>\<open>nmos::details::resolve_auto\<close> with the value its function gives: \<open>ne_isAuto\<close> tells whether it is asked for one.\<close>

definition resolveKey :: "'s NodeEnv \<Rightarrow> string \<Rightarrow> json option \<Rightarrow> json \<Rightarrow> json option" where
  "resolveKey e key v leg = (if ne_isAuto e key leg then Option.bind v (\<lambda>v. setAt [Key key] v leg) else Some leg)"

definition resolveAuto :: "'s NodeEnv \<Rightarrow> NmosResource \<Rightarrow> json \<Rightarrow> 's NodeState \<Rightarrow> json option \<times> 's NodeState" where
  "resolveAuto e r params st =
     (case params of
        JArr (leg # rest) \<Rightarrow>
          (let sender = (nr_type r = SenderType);
               (domain, st) = (if ne_isAuto e ''mxl_domain_id'' leg then autoDomain e sender leg st else (None, st))
           in (map_option (\<lambda>leg. JArr (leg # rest))
                 (Option.bind (resolveKey e ''mxl_domain_id'' domain leg)
                   (\<lambda>leg. if sender then resolveKey e ''mxl_flow_id'' (autoFlow (nr_id r) st) leg else Some leg)), st))
      | _ \<Rightarrow> (Some params, st))"

subsection \<open>Start and stop\<close>

definition restoredMap :: "RestoreOutcome list \<Rightarrow> (string \<times> SavedActivation) list" where
  "restoredMap outs =
     fold (\<lambda>o' m. if ro_kind o' = Skipped then m else putKey (sa_legId (ro_active o')) (ro_active o') m) outs []"

definition restoreConnections :: "'s NodeEnv \<Rightarrow> 's NodeState \<Rightarrow> 's NodeState" where
  "restoreConnections e st =
     (let (rt, aside) = load (ne_parseJson e) (nd_routeFile st) (newRouteState (routeStatePath (nd_cfg st)));
          st = st\<lparr>nd_routes := Some rt\<rparr>
      in if allSaved rt = [] then st
         else
           let (outs, cfgs) = restoreActivations (isDirectoryText e) (ne_flowExists e) (nd_legs st) (nd_domains st)
                 (nd_primaryDomainId st) (nd_primaryDomainPath st) (allSaved rt) (channelConfigs (nd_channels st))
           in case applyChannels cfgs (nd_channels st) of
                (Inl err, m) \<Rightarrow> st\<lparr>nd_channels := m, nd_restoredActive := []\<rparr>
              | (Inr r, m) \<Rightarrow>
                  st\<lparr>nd_channels := m, nd_restoredActive := restoredMap outs, nd_cfg := (nd_cfg st)\<lparr>channels := cfgs\<rparr>\<rparr>)"

definition parkable :: "ChannelConfig \<Rightarrow> bool" where
  "parkable ch \<longleftrightarrow> direction ch = Output \<and> isNil (videoFlowId ch) \<and> videoMxlActive ch"

definition park :: "ChannelConfig \<Rightarrow> ChannelConfig" where
  "park ch = (if parkable ch then ch\<lparr>videoMxlActive := False\<rparr> else ch)"

definition parkReceivers :: "'s NodeState \<Rightarrow> 's NodeState option" where
  "parkReceivers st =
     (let cfgs = channelConfigs (nd_channels st) in
      if \<not> list_ex parkable cfgs then Some st
      else case applyChannels (map park cfgs) (nd_channels st) of
             (Inl err, m) \<Rightarrow> None
           | (Inr r, m) \<Rightarrow> Some (st\<lparr>nd_channels := m, nd_cfg := (nd_cfg st)\<lparr>channels := map park cfgs\<rparr>\<rparr>))"

definition deviceIdFor :: "Config \<Rightarrow> u32 \<Rightarrow> string" where
  "deviceIdFor cfg pid = (if nmosSeed cfg = [] then stableId pid ''device'' else idFromSeed (nmosSeed cfg) ''device'')"

text \<open>The settings of the node, before the defaults of nmos-cpp.\<close>

definition nodeSettings :: "Config \<Rightarrow> string \<Rightarrow> string \<Rightarrow> json option" where
  "nodeSettings cfg cardText nodeId =
     (let off = JNum (Some 2147483647) in
      assign
        ([([Key ''http_port''], JNum (Some (nmosPort cfg))), ([Key ''label''], JStr (if nmosLabel cfg = [] then cardText else nmosLabel cfg)),
          ([Key ''description''], JStr ''mxl-decklink''), ([Key ''seed_id''], JStr nodeId), ([Key ''service_name_prefix''], JStr ''mxl-decklink''),
          ([Key ''logging_level''], JNum (Some 20)), ([Key ''control_protocol_ws_port''], JNum (Some (- 1))), ([Key ''href_mode''], JNum (Some 2))] @
         (if nmosHostAddress cfg \<noteq> []
          then [([Key ''host_address''], JStr (nmosHostAddress cfg)), ([Key ''host_addresses''], JArr [JStr (nmosHostAddress cfg)])] else []) @
         (if \<not> nmosDnsSd cfg then [([Key ''pri''], off), ([Key ''highest_pri''], off), ([Key ''authorization_highest_pri''], off)] else []) @
         (if nmosRegistryAddress cfg \<noteq> []
          then [([Key ''registry_address''], JStr (nmosRegistryAddress cfg)), ([Key ''registration_port''], JNum (Some (nmosRegistryPort cfg)))] else []))
        (JObj []))"

text \<open>The server thread up to the point where the resources exist.  The id of the domain is the one the program adopted; a
  missing one is read or made, which can fail.\<close>

definition domainIdOf :: "'s NodeEnv \<Rightarrow> Config \<Rightarrow> string option" where
  "domainIdOf e cfg =
     (if outputDomainId cfg \<noteq> [] then Some (outputDomainId cfg)
      else (case fst (ensureDomainId (ne_fs e) (domainPath cfg) (ne_disk e)) of Inr i \<Rightarrow> Some i | Inl err \<Rightarrow> None))"

definition nodeStart :: "'s NodeEnv \<Rightarrow> 's NodeState \<Rightarrow> 's NodeState option" where
  "nodeStart e st =
     (let cfg = nd_cfg st; nodeId = nodeIdFor cfg (nd_cardId st) in
      Option.bind (nodeSettings cfg (nd_cardName st) nodeId) (\<lambda>settings.
      Option.bind (domainIdOf e cfg) (\<lambda>domainId.
        let st = st\<lparr>nd_nodeId := nodeId, nd_deviceId := deviceIdFor cfg (nd_cardId st), nd_primaryDomainPath := domainPath cfg,
                    nd_primaryDomainId := domainId\<rparr>;
            st = refreshDomains e st;
            st = st\<lparr>nd_legs := enumerateLegs cfg (nd_cardId st)\<rparr>;
            st = (if nmosResumeConnections cfg then restoreConnections e st else st)
        in Option.bind (parkReceivers st) (\<lambda>st. buildResources e (st\<lparr>nd_model := True\<rparr>)))))"

definition registrationChanged :: "string \<Rightarrow> 's NodeState \<Rightarrow> 's NodeState" where
  "registrationChanged uri st = st\<lparr>nd_registered := (uri \<noteq> [])\<rparr>"

text \<open>The jobs that the worker has not started stay in the queue, which goes with the node.\<close>

definition nodeStop :: "'s NodeEnv \<Rightarrow> 's NodeState \<Rightarrow> 's NodeState" where
  "nodeStop e st =
     (let st = (if nd_model st then st\<lparr>nd_node := ne_erase e (nd_nodeId st) (nd_node st)\<rparr> else st)
      in st\<lparr>nd_accept := False, nd_jobStop := True, nd_model := False\<rparr>)"

end
