(* ===== verification/NodeProps.thy ===== *)
theory NodeProps
  imports NodeRun RoutingProps ManagerProps
begin

text \<open>
  The NMOS node against the channels: an accepted activation is what the channels do, what a restart restores is what the
  connection resources show, and a sender follows the flow its channel announces.
\<close>

subsection \<open>The channels of the manager\<close>

lemma findChannel_entries:
  assumes "list_all (\<lambda>(i, e). ch_index (en_cfg e) = i) es"
  shows "findChannel (map (\<lambda>(_, e). en_cfg e) es) i = map_option en_cfg (map_of es i)"
  using assms by (induction es) (auto simp: findChannel_def)

lemma findChannel_manager:
  assumes "mgr_ok m"
  shows "findChannel (channelConfigs m) i = map_option en_cfg (map_of (cm_entries m) i)"
proof -
  have "list_all (\<lambda>(i, e). ch_index (en_cfg e) = i) (cm_entries m)"
    using entries_ok_in[of "cm_started m" "cm_entries m"] assms
    by (fastforce simp: mgr_ok_def list_all_iff runEntry_def)
  then show ?thesis unfolding channelConfigs_def by (rule findChannel_entries)
qed

lemma manager_distinct: "mgr_ok m \<Longrightarrow> distinct (map ch_index (channelConfigs m))"
proof -
  assume m: "mgr_ok m"
  have "map ch_index (channelConfigs m) = map fst (cm_entries m)"
    using entries_ok_in[of "cm_started m" "cm_entries m"] m
    by (fastforce simp: mgr_ok_def channelConfigs_def runEntry_def)
  then show ?thesis using m by (simp add: mgr_ok_def entries_ok_def ordered_distinct)
qed

text \<open>What was applied is what is configured.\<close>

lemma requested_find: "requested chs i = findChannel chs i"
  by (induction chs) (auto simp: findChannel_def)

lemma applied_routes:
  assumes "mgr_ok m" and "distinct (map ch_index chs)" and "applyChannels chs m = (Inr r, m')"
  shows "mgr_ok m' \<and> routes (channelConfigs m') = routes chs"
proof -
  have s: "mgr_ok m'" "\<And>i. map_of (cm_entries m') i = map_option (runEntry (cm_started m)) (requested chs i)"
    using applyChannels_spec[OF assms(1,2)] assms(3) by auto
  have "findChannel (channelConfigs m') i = findChannel chs i" for i
    using findChannel_manager[OF s(1), of i] s(2)[of i]
    by (simp add: requested_find option.map_comp comp_def runEntry_def option.map_ident)
  then show ?thesis using s(1) by (simp add: routes_def fun_eq_iff)
qed

lemma refused_unchanged:
  assumes "mgr_ok m" and "distinct (map ch_index chs)" and "applyChannels chs m = (Inl e, m')"
  shows "m' = m"
  using applyChannels_spec[OF assms(1,2)] assms(3) by simp

subsection \<open>One activation\<close>

lemma refresh_fields [simp]:
  "nd_channels (refreshDomains e st) = nd_channels st" "nd_legs (refreshDomains e st) = nd_legs st"
  "nd_routes (refreshDomains e st) = nd_routes st" "nd_routeFile (refreshDomains e st) = nd_routeFile st"
  "nd_persisted (refreshDomains e st) = nd_persisted st" "nd_primaryDomainPath (refreshDomains e st) = nd_primaryDomainPath st"
  "nd_flowByLeg (refreshDomains e st) = nd_flowByLeg st" "nd_node (refreshDomains e st) = nd_node st"
  "nd_connections (refreshDomains e st) = nd_connections st" "nd_primaryDomainId (refreshDomains e st) = nd_primaryDomainId st"
  by (simp_all add: refreshDomains_def Let_def)

lemma remember_fields [simp]:
  "nd_channels (rememberFlow l f st) = nd_channels st" "nd_legs (rememberFlow l f st) = nd_legs st"
  "nd_routes (rememberFlow l f st) = nd_routes st" "nd_routeFile (rememberFlow l f st) = nd_routeFile st"
  "nd_persisted (rememberFlow l f st) = nd_persisted st" "nd_node (rememberFlow l f st) = nd_node st"
  "nd_connections (rememberFlow l f st) = nd_connections st" "nd_cfg (rememberFlow l f st) = nd_cfg st"
  "nd_deviceId (rememberFlow l f st) = nd_deviceId st"
  by (simp_all add: rememberFlow_def)

lemma fixedPart_index: "map fixedPart chs' = map fixedPart chs \<Longrightarrow> map ch_index chs' = map ch_index chs"
proof -
  assume "map fixedPart chs' = map fixedPart chs"
  then have "map ch_index (map fixedPart chs') = map ch_index (map fixedPart chs)" by simp
  moreover have "ch_index \<circ> fixedPart = ch_index" by (simp add: fixedPart_def fun_eq_iff)
  ultimately show ?thesis by simp
qed

lemma applyActivation_distinct:
  assumes "applyActivation isDir chs legs a ds pp rd = (err, chs')"
  shows "map ch_index chs' = map ch_index chs"
proof -
  have "map fixedPart chs' = map fixedPart chs"
    using applyActivation_refines[where isDirectory = isDir and chs = chs and legs = legs and a = a and domains = ds
      and primary = pp and requireDir = rd] assms by (cases err) auto
  then show ?thesis by (rule fixedPart_index)
qed

text \<open>The saved activation of a job.\<close>

lemma saveActivation_saved:
  "nd_routes st = None \<Longrightarrow> saveActivation e j known st = st"
  "nd_routes st = Some rs \<Longrightarrow> \<exists>rs' s. nd_routes (saveActivation e j known st) = Some rs' \<and>
     findSaved rs' = (findSaved rs)(ac_legId (jb_activation j) \<mapsto> s) \<and>
     sa_masterEnable s = ac_masterEnable (jb_activation j) \<and> sa_flowId s = ac_flowId (jb_activation j) \<and> sa_peerId s = jb_peerId j \<and>
     nd_routeFile (saveActivation e j known st) = (if ne_written e then Contents (ne_serialize e (stateJson rs')) else nd_routeFile st)"
  by (auto simp: saveActivation_def save_def savedOf_def Let_def findSaved_def fun_eq_iff
      intro!: exI[of _ "savedOf (nd_legs st) known j"])


subsection \<open>What a restart restores\<close>

text \<open>The saved activations are one per leg.\<close>

lemma readEntry_id: "readEntry lid j = Some s \<Longrightarrow> sa_legId s = lid"
  by (auto simp: readEntry_def readSaved_def Let_def split: if_splits json.splits option.splits)

lemma readEntries_keyed:
  "ordered m \<Longrightarrow> \<forall>(k, s) \<in> set m. sa_legId s = k \<Longrightarrow>
   ordered (readEntries es m) \<and> (\<forall>(k, s) \<in> set (readEntries es m). sa_legId s = k)"
proof (induction es m rule: readEntries.induct)
  case (2 lid entry es m)
  show ?case
  proof (cases "readEntry lid entry")
    case (Some s)
    have "\<forall>(k, s') \<in> set (putKey lid s m). sa_legId s' = k"
      using "2.prems"(2) readEntry_id[OF Some] set_putKey[of _ lid s m] by fastforce
    then show ?thesis using "2.IH"(2)[OF Some] "2.prems"(1) Some by simp
  qed (use 2 in simp)
qed simp

lemma load_distinct:
  assumes "load parse disk st = (rt, aside)"
  shows "distinct (map sa_legId (allSaved rt))"
proof -
  consider "rt_entries rt = []" | rs where "rt_entries rt = readEntries rs []"
    using assms by (auto simp: load_def Let_def split: FileState.splits if_splits option.splits json.splits)
  then show ?thesis
  proof cases
    case 2
    have o: "ordered (rt_entries rt)" "\<forall>(k, s) \<in> set (rt_entries rt). sa_legId s = k"
      using readEntries_keyed[of "[]" rs] 2 by simp_all
    then have "map sa_legId (allSaved rt) = map fst (rt_entries rt)" by (auto simp: allSaved_def)
    then show ?thesis using o(1) by (simp add: ordered_distinct)
  qed (simp add: allSaved_def)
qed

lemma restoredMap_in:
  assumes "map_of (restoredMap outs) lid = Some s"
  shows "\<exists>out. out \<in> set outs \<and> ro_kind out \<noteq> Skipped \<and> ro_active out = s \<and> sa_legId s = lid"
proof -
  have "map_of (fold (\<lambda>o' m. if ro_kind o' = Skipped then m else putKey (sa_legId (ro_active o')) (ro_active o') m) outs m0) lid = Some s \<Longrightarrow>
      map_of m0 lid = Some s \<or> (\<exists>out. out \<in> set outs \<and> ro_kind out \<noteq> Skipped \<and> ro_active out = s \<and> sa_legId s = lid)" for m0
  proof (induction outs arbitrary: m0)
    case (Cons a outs)
    show ?case
      using Cons.IH[of "if ro_kind a = Skipped then m0 else putKey (sa_legId (ro_active a)) (ro_active a) m0"] Cons.prems
      by (auto split: if_splits)
  qed simp
  from this[of "[]"] show ?thesis using assms by (simp add: restoredMap_def)
qed

text \<open>The assignments to an endpoint: what a path was given stays, whatever is assigned apart from it.\<close>

lemma assign_keeps: "assign as j = Some j' \<Longrightarrow> getAt p j = Some v \<Longrightarrow> list_all (\<lambda>(q, w). apart q p) as \<Longrightarrow> getAt p j' = Some v"
proof (induction as j rule: assign.induct)
  case (2 q w as j)
  then show ?case using getAt_other[of q p w j] by (fastforce simp: bind_eq_Some_conv)
qed simp

fun settled :: "jstep list \<Rightarrow> json \<Rightarrow> (jstep list \<times> json) list \<Rightarrow> bool" where
  "settled p v [] = False"
| "settled p v ((q, w) # as) = (settled p v as \<or> (q = p \<and> w = v \<and> list_all (\<lambda>(q, w). apart q p) as))"

lemma assign_reads: "assign as j = Some j' \<Longrightarrow> settled p v as \<Longrightarrow> getAt p j' = Some v"
proof (induction as j rule: assign.induct)
  case (2 q w as j)
  then obtain j1 where j: "setAt q w j = Some j1" "assign as j1 = Some j'" by (auto simp: bind_eq_Some_conv)
  show ?case
  proof (cases "settled p v as")
    case True
    then show ?thesis using "2.IH"[OF j] by simp
  next
    case False
    then have "q = p" "w = v" "list_all (\<lambda>(q, w). apart q p) as" using "2.prems"(2) by simp_all
    then show ?thesis using assign_keeps[OF j(2)] getAt_setAt[OF j(1), of "[]"] by simp
  qed
qed simp

lemma restoreEndpoint_shows:
  assumes "map_of (nd_restoredActive st) (lg_id leg) = Some s" and "restoreEndpoint st leg j = Some j'" and "ep = ''active'' \<or> ep = ''staged''"
  shows "getAt [Key ep, Key ''master_enable''] j' = Some (JBool (sa_masterEnable s))"
    and "getAt (paramPath ep ''mxl_flow_id'') j' = Some (optJson (sa_flowId s))"
    and "getAt [Key ep, Key (peerField (lg_sender leg))] j' = Some (optJson (sa_peerId s))"
proof -
  have r: "assign (concat (map (\<lambda>ep.
      ([Key ep, Key ''master_enable''], JBool (sa_masterEnable s)) #
      (if sa_domainId s \<noteq> [] then [(paramPath ep ''mxl_domain_id'', JStr (sa_domainId s))] else []) @
      [(paramPath ep ''mxl_flow_id'', optJson (sa_flowId s)), ([Key ep, Key (peerField (lg_sender leg))], optJson (sa_peerId s))])
      [''active'', ''staged''])) j = Some j'"
    using assms(2) unfolding restoreEndpoint_def assms(1) by simp
  show "getAt [Key ep, Key ''master_enable''] j' = Some (JBool (sa_masterEnable s))"
    by (rule assign_reads[OF r]) (use assms(3) in \<open>auto simp: paramPath_def peerField_def\<close>)
  show "getAt (paramPath ep ''mxl_flow_id'') j' = Some (optJson (sa_flowId s))"
    by (rule assign_reads[OF r]) (use assms(3) in \<open>auto simp: paramPath_def peerField_def\<close>)
  show "getAt [Key ep, Key (peerField (lg_sender leg))] j' = Some (optJson (sa_peerId s))"
    by (rule assign_reads[OF r]) (use assms(3) in \<open>auto simp: paramPath_def peerField_def\<close>)
qed

text \<open>What a restart leaves of a leg: the saved activation it shows is the route of the channels.\<close>

lemma restored_routes:
  assumes m: "mgr_ok (nd_channels st)" and l: "legs_ok (nd_legs st) (channelConfigs (nd_channels st))"
    and p: "primary_ok (nd_domains st) (nd_primaryDomainId st) (nd_primaryDomainPath st)" and empty: "nd_restoredActive st = []"
    and leg: "findLeg (nd_legs st) (lg_id leg) = Some leg"
    and s: "map_of (nd_restoredActive (restoreConnections e st)) (lg_id leg) = Some s"
  shows "\<exists>r. routes (channelConfigs (nd_channels (restoreConnections e st))) (endpointOf leg) = Some r \<and>
    route_enable r = sa_masterEnable s \<and> (case sa_flowId s of Some f \<Rightarrow> route_flow r = parseUuid f | None \<Rightarrow> True)"
proof -
  obtain rt aside where ld: "load (ne_parseJson e) (nd_routeFile st) (newRouteState (routeStatePath (nd_cfg st))) = (rt, aside)" by fastforce
  define cfgs where "cfgs = channelConfigs (nd_channels st)"
  obtain outs cfgs' where ra: "restoreActivations (isDirectoryText e) (ne_flowExists e) (nd_legs st) (nd_domains st)
      (nd_primaryDomainId st) (nd_primaryDomainPath st) (allSaved rt) cfgs = (outs, cfgs')" by fastforce
  obtain res m' where am: "applyChannels cfgs' (nd_channels st) = (res, m')" by fastforce
  have ne: "allSaved rt \<noteq> []" using s empty by (auto simp: restoreConnections_def ld)
  have rc: "restoreConnections e st = (case res of
      Inl err \<Rightarrow> st\<lparr>nd_routes := Some rt, nd_channels := m', nd_restoredActive := []\<rparr>
    | Inr r \<Rightarrow> st\<lparr>nd_routes := Some rt, nd_channels := m', nd_restoredActive := restoredMap outs, nd_cfg := (nd_cfg st)\<lparr>channels := cfgs'\<rparr>\<rparr>)"
    using ne am ra by (simp add: restoreConnections_def ld Let_def cfgs_def split: sum.split)
  obtain r where r: "res = Inr r" using s by (cases res) (simp_all add: rc)
  have eff: "list_all (shownRoute (nd_legs st) cfgs') outs" "map fixedPart cfgs' = map fixedPart cfgs"
    using restore_effect[OF p l[folded cfgs_def] load_distinct[OF ld] ra] by (auto simp: frame_def)
  have dist: "distinct (map ch_index cfgs')"
    using fixedPart_index[OF eff(2)] manager_distinct[OF m] by (simp add: cfgs_def)
  have chs: "routes (channelConfigs m') = routes cfgs'" using applied_routes[OF m dist am[unfolded r]] by simp
  have "map_of (restoredMap outs) (lg_id leg) = Some s" using s by (simp add: rc r)
  from restoredMap_in[OF this] obtain out where out: "out \<in> set outs" "ro_kind out \<noteq> Skipped" "ro_active out = s" "sa_legId s = lg_id leg"
    by blast
  have "shownRoute (nd_legs st) cfgs' out" using eff(1) out(1) by (simp add: list_all_iff)
  then show ?thesis using out leg chs by (simp add: shownRoute_def rc r split: option.splits)
qed


subsection \<open>The flows of the senders\<close>

text \<open>What the node relies on of the resources of \<open>nmos-cpp\<close>: an id names one resource; inserting refuses an id that is taken;
  erasing a flow takes that flow away; a change is made to the resource of its id.  Everything else stays.\<close>

definition store_laws :: "'s NodeEnv \<Rightarrow> bool" where
  "store_laws e \<longleftrightarrow>
     (\<forall>i t t' s. ne_find e i t s \<noteq> None \<longrightarrow> ne_find e i t' s \<noteq> None \<longrightarrow> t = t') \<and>
     (\<forall>r s s'. ne_insert e r s = Some s' \<longrightarrow>
        (\<forall>i t. (i = nr_id r \<longrightarrow> ne_find e i t s = None) \<and>
               ne_find e i t s' = (if i = nr_id r then (if t = nr_type r then Some r else None) else ne_find e i t s))) \<and>
     (\<forall>k s. ne_find e k FlowType s \<noteq> None \<longrightarrow>
        (\<forall>i t. ne_find e i t (ne_erase e k s) = (if i = k then None else ne_find e i t s))) \<and>
     (\<forall>k f s s'. ne_modify e k f s = Some s' \<longrightarrow>
        (\<forall>i t. if i = k
               then (case ne_find e i t s of
                       None \<Rightarrow> ne_find e i t s' = None
                     | Some r \<Rightarrow> (case f (nr_data r) of None \<Rightarrow> False | Some d \<Rightarrow> ne_find e i t s' = Some (r\<lparr>nr_data := d\<rparr>)))
               else ne_find e i t s' = ne_find e i t s))"

lemma store_insert:
  assumes "store_laws e" and "ne_insert e r s = Some s'"
  shows "ne_find e (nr_id r) t s = None"
    and "ne_find e i t s' = (if i = nr_id r then (if t = nr_type r then Some r else None) else ne_find e i t s)"
  using assms unfolding store_laws_def by blast+

lemma store_erase:
  assumes "store_laws e" and "ne_find e k FlowType s \<noteq> None"
  shows "ne_find e i t (ne_erase e k s) = (if i = k then None else ne_find e i t s)"
  using assms unfolding store_laws_def by blast

lemma store_unique: "store_laws e \<Longrightarrow> ne_find e i t s \<noteq> None \<Longrightarrow> ne_find e i t' s \<noteq> None \<Longrightarrow> t = t'"
  unfolding store_laws_def by blast

lemma store_modify:
  assumes "store_laws e" and "ne_modify e k f s = Some s'"
  shows "i \<noteq> k \<Longrightarrow> ne_find e i t s' = ne_find e i t s"
    and "ne_find e k t s = Some r \<Longrightarrow> \<exists>d. f (nr_data r) = Some d \<and> ne_find e k t s' = Some (r\<lparr>nr_data := d\<rparr>)"
proof -
  have "\<forall>i t. if i = k
      then (case ne_find e i t s of None \<Rightarrow> ne_find e i t s' = None
        | Some r \<Rightarrow> (case f (nr_data r) of None \<Rightarrow> False | Some d \<Rightarrow> ne_find e i t s' = Some (r\<lparr>nr_data := d\<rparr>)))
      else ne_find e i t s' = ne_find e i t s"
    using assms unfolding store_laws_def by blast
  note law = this[rule_format]
  show "i \<noteq> k \<Longrightarrow> ne_find e i t s' = ne_find e i t s" using law[of i t] by simp
  show "ne_find e k t s = Some r \<Longrightarrow> \<exists>d. f (nr_data r) = Some d \<and> ne_find e k t s' = Some (r\<lparr>nr_data := d\<rparr>)"
    using law[of k t] by (auto split: option.splits)
qed

lemma updateSender_flow:
  assumes "member_of d ''flow_id'' \<noteq> None" and "updateSender e f d = Some d'"
  shows "stringAt [Key ''flow_id''] d' = Some f"
proof -
  obtain d1 where d: "setAt [Key ''flow_id''] (JStr f) d = Some d1" "setAt [Key ''version''] (JStr (ne_version e)) d1 = Some d'"
    using assms by (auto simp: updateSender_def bind_eq_Some_conv)
  have "assign [([Key ''flow_id''], JStr f), ([Key ''version''], JStr (ne_version e))] d = Some d'" using d by simp
  then have "getAt [Key ''flow_id''] d' = Some (JStr f)" by (rule assign_reads) simp
  then show ?thesis by (simp add: stringAt_def)
qed

lemma updateConnection_flow:
  assumes "updateConnection e f d = Some d'"
  shows "stringAt (paramPath ''active'' ''mxl_flow_id'') d' = Some f"
proof -
  have "getAt (paramPath ''active'' ''mxl_flow_id'') d' = Some (JStr f)"
    by (rule assign_reads[OF assms[unfolded updateConnection_def]]) (simp add: paramPath_def)
  then show ?thesis by (simp add: stringAt_def)
qed

text \<open>After the flow was replaced: the announced one is there, the old one is gone, the sender is untouched.\<close>

lemma replaceFlow_effect:
  assumes laws: "store_laws e" and snd: "ne_find e (lg_id leg) SenderType (nd_node st) = Some r"
    and old: "senderFlowId e (lg_id leg) st = [] \<or> ne_find e (senderFlowId e (lg_id leg) st) FlowType (nd_node st) \<noteq> None"
    and f: "f \<noteq> []" and rep: "replaceFlow e ch m leg f st = Some st'"
  shows "ne_find e (lg_id leg) SenderType (nd_node st') = Some r" and "ne_find e f FlowType (nd_node st') \<noteq> None"
    and "senderFlowId e (lg_id leg) st \<noteq> f \<Longrightarrow> senderFlowId e (lg_id leg) st \<noteq> [] \<Longrightarrow>
      ne_find e (senderFlowId e (lg_id leg) st) FlowType (nd_node st') = None"
    and "nd_connections st' = nd_connections st" and "nd_flowByLeg st' = nd_flowByLeg st"
proof -
  define q where "q = senderFlowId e (lg_id leg) st"
  have sid: "q \<noteq> lg_id leg" if "q \<noteq> []"
    using store_unique[OF laws, of "lg_id leg" SenderType "nd_node st" FlowType] old snd that by (auto simp: q_def)
  have all: "ne_find e (lg_id leg) SenderType (nd_node st') = Some r \<and> ne_find e f FlowType (nd_node st') \<noteq> None \<and>
      (q \<noteq> f \<longrightarrow> q \<noteq> [] \<longrightarrow> ne_find e q FlowType (nd_node st') = None) \<and> nd_connections st' = nd_connections st \<and>
      nd_flowByLeg st' = nd_flowByLeg st"
  proof (cases "q = f")
    case True
    then have "st' = st" using rep by (simp add: replaceFlow_def q_def[symmetric] Let_def)
    moreover have "ne_find e f FlowType (nd_node st) \<noteq> None" using old f unfolding q_def[symmetric] True by blast
    ultimately show ?thesis using snd True by blast
  next
    case False
    have b: "Option.bind (runtimeFlow e (nd_deviceId st) ch m leg f) (\<lambda>data.
        Option.bind (insertNode e \<lparr>nr_type = FlowType, nr_id = f, nr_data = data\<rparr> st) (\<lambda>st.
          Some (if q \<noteq> [] then st\<lparr>nd_node := ne_erase e q (nd_node st)\<rparr> else st))) = Some st'"
      using rep unfolding replaceFlow_def q_def[symmetric] Let_def if_not_P[OF False] .
    obtain data n where n: "ne_insert e \<lparr>nr_type = FlowType, nr_id = f, nr_data = data\<rparr> (nd_node st) = Some n"
        "st' = (if q \<noteq> [] then st\<lparr>nd_node := ne_erase e q n\<rparr> else st\<lparr>nd_node := n\<rparr>)"
      using b by (auto simp: insertNode_def bind_eq_Some_conv)
    note ins = store_insert[OF laws n(1), simplified]
    have fid: "f \<noteq> lg_id leg" using ins(1)[of SenderType] snd by auto
    have sn: "ne_find e (lg_id leg) SenderType n = Some r" "ne_find e f FlowType n \<noteq> None" using ins(2) fid snd by simp_all
    show ?thesis
    proof (cases "q = []")
      case True
      then show ?thesis using n(2) sn by simp
    next
      case q: False
      have "ne_find e q FlowType n \<noteq> None" using ins(2) False old q by (simp add: q_def)
      note er = store_erase[OF laws this]
      show ?thesis using n(2) q sn er sid[OF q] False by simp
    qed
  qed
  show "ne_find e (lg_id leg) SenderType (nd_node st') = Some r" "ne_find e f FlowType (nd_node st') \<noteq> None"
    "nd_connections st' = nd_connections st" "nd_flowByLeg st' = nd_flowByLeg st" using all by blast+
  show "senderFlowId e (lg_id leg) st \<noteq> f \<Longrightarrow> senderFlowId e (lg_id leg) st \<noteq> [] \<Longrightarrow>
      ne_find e (senderFlowId e (lg_id leg) st) FlowType (nd_node st') = None" using all by (simp add: q_def)
qed

text \<open>C15. A sender follows its channel.  When the running input announces a flow for the leg, the sender resource names that
  flow, the flow resource exists, the IS-05 connection shows it as active, and \<open>auto\<close> resolves to it; the flow the sender
  named before, if it was another, is no longer a resource of the node.\<close>

theorem sender_follows_flow:
  assumes "store_laws e" and "lg_sender leg" and "lg_channelIndex leg = i" and "announcedFlow flows leg = f" and "f \<noteq> []"
    and "findChannel (channels (nd_cfg st)) i = Some ch"
    and "ne_find e (lg_id leg) SenderType (nd_node st) = Some r" and "member_of (nr_data r) ''flow_id'' \<noteq> None"
    and "senderFlowId e (lg_id leg) st = [] \<or> ne_find e (senderFlowId e (lg_id leg) st) FlowType (nd_node st) \<noteq> None"
    and "ne_find e (lg_id leg) SenderType (nd_connections st) = Some c"
    and "runtimeLeg e i flows leg st = Some st'"
  shows "senderFlowId e (lg_id leg) st' = f \<and> ne_find e f FlowType (nd_node st') \<noteq> None \<and>
    map_option (\<lambda>c. stringAt (paramPath ''active'' ''mxl_flow_id'') (nr_data c)) (ne_find e (lg_id leg) SenderType (nd_connections st')) = Some (Some f) \<and>
    autoFlow (lg_id leg) st' = Some (JStr f) \<and>
    (senderFlowId e (lg_id leg) st \<noteq> f \<longrightarrow> senderFlowId e (lg_id leg) st \<noteq> [] \<longrightarrow>
      ne_find e (senderFlowId e (lg_id leg) st) FlowType (nd_node st') = None)"
proof -
  define s0 where "s0 = rememberFlow (lg_id leg) f st"
  have s0: "nd_node s0 = nd_node st" "nd_connections s0 = nd_connections st" "senderFlowId e (lg_id leg) s0 = senderFlowId e (lg_id leg) st"
    by (simp_all add: s0_def senderFlowId_def)
  have "Option.bind (replaceFlow e ch (rf_mode flows) leg f s0) (\<lambda>st.
      Option.bind (modifyNode e (lg_id leg) (updateSender e f) st) (modifyConnection e (lg_id leg) (updateConnection e f))) = Some st'"
    using assms(11) unfolding runtimeLeg_def Let_def assms(4) s0_def[symmetric] by (simp add: assms(2,3,5)) (simp add: s0_def assms(6))
  then obtain s1 where s1: "replaceFlow e ch (rf_mode flows) leg f s0 = Some s1"
      and b: "Option.bind (modifyNode e (lg_id leg) (updateSender e f) s1) (modifyConnection e (lg_id leg) (updateConnection e f)) = Some st'"
    by (auto simp: bind_eq_Some_conv)
  obtain n k where n: "ne_modify e (lg_id leg) (updateSender e f) (nd_node s1) = Some n"
      and k: "ne_modify e (lg_id leg) (updateConnection e f) (nd_connections s1) = Some k"
      and st': "st' = s1\<lparr>nd_node := n, nd_connections := k\<rparr>"
    using b by (auto simp: modifyNode_def modifyConnection_def bind_eq_Some_conv)
  note rep = replaceFlow_effect[OF assms(1) _ _ assms(5) s1, unfolded s0, OF assms(7,9)]
  obtain d where d: "updateSender e f (nr_data r) = Some d" "ne_find e (lg_id leg) SenderType n = Some (r\<lparr>nr_data := d\<rparr>)"
    using store_modify(2)[OF assms(1) n rep(1)] by blast
  have "senderFlowId e (lg_id leg) st' = f"
    using updateSender_flow[OF assms(8) d(1)] d(2) by (simp add: senderFlowId_def st')
  moreover have "ne_find e i' FlowType n = ne_find e i' FlowType (nd_node s1)" for i'
  proof (cases "i' = lg_id leg")
    case True
    have "ne_find e (lg_id leg) FlowType n = None" "ne_find e (lg_id leg) FlowType (nd_node s1) = None"
      using store_unique[OF assms(1), of "lg_id leg" SenderType _ FlowType] d(2) rep(1) by fastforce+
    then show ?thesis by (simp add: True)
  next
    case False
    then show ?thesis by (rule store_modify(1)[OF assms(1) n])
  qed
  moreover obtain d' where "updateConnection e f (nr_data c) = Some d'" "ne_find e (lg_id leg) SenderType k = Some (c\<lparr>nr_data := d'\<rparr>)"
    using store_modify(2)[OF assms(1) k] rep(4) assms(10) by metis
  moreover have "autoFlow (lg_id leg) st' = Some (JStr f)"
    using assms(5) rep(5) by (simp add: autoFlow_def currentFlow_def st' s0_def rememberFlow_def Let_def)
  ultimately show ?thesis using rep(2,3) updateConnection_flow[of e f "nr_data c"] by (simp add: st')
qed

text \<open>The flow that replaces another at run time carries no group hint, unlike the flow, the source and the sender that were
  built at the start: only the label is set on it.\<close>

lemma decorated_tagged:
  assumes "decorated e label description grp role j = Some j'"
  shows "\<exists>hints. getAt [Key ''tags'', Key kGroupHint] j' = Some (JArr (hints @ [mk_groupHint e grp role]))"
proof -
  obtain j1 where "tagGroup e grp role j1 = Some j'" using assms by (auto simp: decorated_def bind_eq_Some_conv)
  then obtain d where d: "(case getAt [Key ''tags'', Key kGroupHint] d of
        Some (JArr hints) \<Rightarrow> setAt [Key ''tags'', Key kGroupHint] (JArr (hints @ [mk_groupHint e grp role])) d
      | None \<Rightarrow> setAt [Key ''tags'', Key kGroupHint] (JArr [mk_groupHint e grp role]) d
      | Some JNull \<Rightarrow> setAt [Key ''tags'', Key kGroupHint] (JArr [mk_groupHint e grp role]) d
      | Some j \<Rightarrow> None) = Some j'"
    unfolding tagGroup_def bind_eq_Some_conv by blast
  have set: "setAt [Key ''tags'', Key kGroupHint] v d = Some j' \<Longrightarrow> getAt [Key ''tags'', Key kGroupHint] j' = Some v" for v
    using getAt_setAt[of "[Key ''tags'', Key kGroupHint]" v d j' "[]"] by simp
  show ?thesis
  proof (cases "getAt [Key ''tags'', Key kGroupHint] d")
    case None
    then show ?thesis using set[of "JArr ([] @ [mk_groupHint e grp role])"] d by auto
  next
    case (Some x)
    then show ?thesis
    proof (cases x)
      case JNull
      then show ?thesis using set[of "JArr ([] @ [mk_groupHint e grp role])"] Some d by auto
    next
      case (JArr hints)
      then show ?thesis using set[of "JArr (hints @ [mk_groupHint e grp role])"] Some d by auto
    qed (use d Some in simp_all)
  qed
qed

lemma runtimeFlow_untagged:
  assumes "runtimeFlow e device ch m leg flow = Some d" and "lg_kind leg = VideoLeg"
  shows "getAt [Key ''tags'', Key kGroupHint] d =
    getAt [Key ''tags'', Key kGroupHint]
      (mk_videoFlow e flow (lg_sourceId leg) device (rateOf m) (vm_width m) (vm_height m) (interlaceOf m) (videoMedia ch))"
proof -
  obtain d1 where d: "setAt [Key ''label''] (JStr (ch_label ch @ '' '' @ legRole leg))
      (mk_videoFlow e flow (lg_sourceId leg) device (rateOf m) (vm_width m) (vm_height m) (interlaceOf m) (videoMedia ch)) = Some d1"
      "setAt [Key ''description''] (JStr ''mxl-decklink flow'') d1 = Some d"
    using assms by (auto simp: runtimeFlow_def setLabel_def Let_def bind_eq_Some_conv)
  show ?thesis
    using getAt_member_other[OF _ d(1), of "''tags''"] getAt_member_other[OF _ d(2), of "''tags''"] by simp
qed

subsection \<open>Resolving auto\<close>

definition holdsFlow :: "'s NodeEnv \<Rightarrow> string \<Rightarrow> DomainBinding \<Rightarrow> bool" where
  "holdsFlow e flow d = list_ex (\<lambda>f. fs_id f = flow) (listFlows (ne_fs e) (ne_disk e) (db_path d))"

lemma domainOfFlow_Some: "domainOfFlow e flow ds = Some i \<Longrightarrow> \<exists>d. d \<in> set ds \<and> db_id d = i \<and> holdsFlow e flow d"
  unfolding domainOfFlow_def holdsFlow_def[symmetric] by (fastforce simp: find_Some_iff intro: nth_mem)

lemma domainOfFlow_None: "domainOfFlow e flow ds = None \<Longrightarrow> \<not> list_ex (holdsFlow e flow) ds"
  unfolding domainOfFlow_def holdsFlow_def[symmetric] by (auto simp: find_None_iff list_ex_iff)

text \<open>What \<open>auto\<close> stands for in the domain of a receiver: when a domain the node knows (after a rescan, if none was
  known before) holds the flow, the id of such a domain; otherwise the id of the domain the process writes.  The rescan
  changes nothing else of the node.\<close>

theorem auto_domain_holds_flow:
  "case resolveReceiverDomain e flow st of
     (i, st') \<Rightarrow> nd_channels st' = nd_channels st \<and> nd_flowByLeg st' = nd_flowByLeg st \<and> nd_node st' = nd_node st \<and>
       (if flow \<noteq> [] \<and> list_ex (holdsFlow e flow) (nd_domains st')
        then \<exists>d. d \<in> set (nd_domains st') \<and> db_id d = i \<and> holdsFlow e flow d
        else i = nd_primaryDomainId st)"
proof -
  consider "flow = []" | (known) i where "flow \<noteq> []" "domainOfFlow e flow (nd_domains st) = Some i"
    | (rescan) "flow \<noteq> []" "domainOfFlow e flow (nd_domains st) = None" by blast
  then show ?thesis
  proof cases
    case known
    then show ?thesis using domainOfFlow_Some[OF known(2)] by (auto simp: resolveReceiverDomain_def list_ex_iff)
  next
    case rescan
    show ?thesis
    proof (cases "domainOfFlow e flow (nd_domains (refreshDomains e st))")
      case None
      then show ?thesis using rescan domainOfFlow_None[OF None] by (simp add: resolveReceiverDomain_def Let_def)
    next
      case (Some i)
      then show ?thesis using rescan domainOfFlow_Some[OF Some] by (auto simp: resolveReceiverDomain_def Let_def list_ex_iff)
    qed
  qed (simp add: resolveReceiverDomain_def)
qed

end
