(* ===== verification/NodeDemo.thy ===== *)
theory NodeDemo
  imports NodeProps ScanProps
begin

text \<open>The node on a concrete environment: a store of resources as a list, and an input channel with a sender.\<close>

subsection \<open>A store\<close>

fun demoFind :: "string \<Rightarrow> ResType \<Rightarrow> NmosResource list \<Rightarrow> NmosResource option" where
  "demoFind i t [] = None"
| "demoFind i t (r # s) = (if nr_id r = i then (if nr_type r = t then Some r else None) else demoFind i t s)"

definition demoInsert :: "NmosResource \<Rightarrow> NmosResource list \<Rightarrow> NmosResource list option" where
  "demoInsert r s = (if list_ex (\<lambda>q. nr_id q = nr_id r) s then None else Some (r # s))"

definition demoErase :: "string \<Rightarrow> NmosResource list \<Rightarrow> NmosResource list" where
  "demoErase i s = filter (\<lambda>r. nr_id r \<noteq> i) s"

fun demoModify :: "string \<Rightarrow> (json \<Rightarrow> json option) \<Rightarrow> NmosResource list \<Rightarrow> NmosResource list option" where
  "demoModify i f [] = Some []"
| "demoModify i f (r # s) =
     (if nr_id r = i then map_option (\<lambda>d. r\<lparr>nr_data := d\<rparr> # s) (f (nr_data r))
      else map_option (Cons r) (demoModify i f s))"

lemma demoModify_find:
  "demoModify k f s = Some s' \<Longrightarrow>
   (if i = k then (case demoFind i t s of
        None \<Rightarrow> demoFind i t s' = None
      | Some r \<Rightarrow> (case f (nr_data r) of None \<Rightarrow> False | Some d \<Rightarrow> demoFind i t s' = Some (r\<lparr>nr_data := d\<rparr>)))
    else demoFind i t s' = demoFind i t s)"
proof (induction k f s arbitrary: s' rule: demoModify.induct)
  case (2 k f r s)
  show ?case
  proof (cases "nr_id r = k")
    case True
    then obtain d where "f (nr_data r) = Some d" "s' = r\<lparr>nr_data := d\<rparr> # s" using 2(2) by auto
    then show ?thesis using True by auto
  next
    case False
    then obtain s1 where "demoModify k f s = Some s1" "s' = r # s1" using 2(2) by auto
    then show ?thesis using 2(1)[OF False, of s1] False by (auto split: option.splits)
  qed
qed simp

lemma demoErase_find: "demoFind i t (demoErase k s) = (if i = k then None else demoFind i t s)"
  by (induction s) (auto simp: demoErase_def)

lemma demoFind_fresh: "\<not> list_ex (\<lambda>q. nr_id q = i) s \<Longrightarrow> demoFind i t s = None"
  by (induction s) simp_all

lemma demoInsert_find:
  assumes "demoInsert r s = Some s'"
  shows "(i = nr_id r \<longrightarrow> demoFind i t s = None) \<and>
    demoFind i t s' = (if i = nr_id r then (if t = nr_type r then Some r else None) else demoFind i t s)"
proof -
  have "\<not> list_ex (\<lambda>q. nr_id q = nr_id r) s" "s' = r # s" using assms by (simp_all add: demoInsert_def split: if_splits)
  then show ?thesis using demoFind_fresh by auto
qed

lemma demoFind_unique: "demoFind i t s \<noteq> None \<Longrightarrow> demoFind i t' s \<noteq> None \<Longrightarrow> t = t'"
  by (induction s) (auto split: if_splits)

subsection \<open>The environment\<close>

definition demoLegId :: string where "demoLegId = ''00000000-0000-4000-8000-000000000001''"
definition demoFlowId :: string where "demoFlowId = ''00000000-0000-4000-8000-000000000002''"
definition demoNewFlow :: string where "demoNewFlow = ''00000000-0000-4000-8000-000000000003''"

definition demoLeg :: Leg where
  "demoLeg = \<lparr>lg_id = demoLegId, lg_channelIndex = 0, lg_kind = VideoLeg, lg_audioIndex = - 1, lg_sender = True,
     lg_sourceId = ''src'', lg_initialFlowId = demoFlowId\<rparr>"

definition demoSaved :: SavedActivation where
  "demoSaved = \<lparr>sa_legId = demoLegId, sa_sender = True, sa_masterEnable = True, sa_domainId = ''d'', sa_domainPath = ''/d'',
     sa_flowId = Some demoFlowId, sa_peerId = None\<rparr>"

definition demoNodeEnv :: "NmosResource list NodeEnv" where
  "demoNodeEnv =
     \<lparr>ne_fs = demoFsEnv, ne_disk = [], ne_flowExists = (\<lambda>d f. True),
      ne_parseJson = (\<lambda>t. Some (stateJson \<lparr>rt_path = ''/c'', rt_entries = [(demoLegId, demoSaved)]\<rparr>)), ne_serialize = (\<lambda>j. ''J''),
      ne_written = True, ne_version = ''1:0'', ne_insert = demoInsert, ne_erase = demoErase, ne_modify = demoModify, ne_find = demoFind,
      ne_isAuto = (\<lambda>k j. stringAt [Key k] j = Some ''auto''), mk_node = (\<lambda>i. JObj []), mk_device = (\<lambda>i n s r. JObj []), mk_videoSource = (\<lambda>i d r. JObj []),
      mk_audioSource = (\<lambda>i d r c. JObj []), mk_dataSource = (\<lambda>i d r. JObj []), mk_videoFlow = (\<lambda>i s d r w h il m. JObj []),
      mk_audioFlow = (\<lambda>i s d. JObj []), mk_ancFlow = (\<lambda>i s d. JObj []), mk_sender = (\<lambda>i f d. JObj [(''flow_id'', JStr f)]),
      mk_receiver = (\<lambda>i d f m. JObj []), mk_ancReceiver = (\<lambda>i d. JObj []), mk_connSender = (\<lambda>i d. JObj []), mk_connReceiver = (\<lambda>i. JObj []),
      mk_capsStrings = (\<lambda>s. JNull), mk_capsRationals = (\<lambda>s. JNull), mk_capsIntegers = (\<lambda>s. JNull), mk_groupHint = (\<lambda>g r. JStr g),
      mk_rational = (\<lambda>r. JNull), mk_mediaName = (\<lambda>m. ''m''), mk_interlaceName = (\<lambda>m. ''i''), mk_sampling = ''s''\<rparr>"

definition demoNode :: "NmosResource list NodeState" where
  "demoNode =
     \<lparr>nd_cfg = defaultConfig\<lparr>channels := [demoInput 0 0, demoInput 1 1]\<rparr>, nd_channels = demoManager, nd_cardId = 7, nd_cardName = ''card'',
      nd_nodeId = ''n'', nd_deviceId = ''v'', nd_primaryDomainId = ''d'', nd_primaryDomainPath = ''/d'', nd_domains = demoDomains,
      nd_legs = [demoLeg], nd_flowByLeg = [], nd_routes = Some (newRouteState ''/c''), nd_routeFile = Contents ''J'', nd_restoredActive = [],
      nd_model = True, nd_node = [\<lparr>nr_type = SenderType, nr_id = demoLegId, nr_data = JObj [(''flow_id'', JStr demoFlowId)]\<rparr>,
        \<lparr>nr_type = FlowType, nr_id = demoFlowId, nr_data = JObj []\<rparr>],
      nd_connections = [\<lparr>nr_type = SenderType, nr_id = demoLegId, nr_data = JObj []\<rparr>],
      nd_accept = True, nd_registered = False, nd_jobs = [], nd_jobStop = False, nd_persisted = []\<rparr>"

lemma demoNodeEnv_laws: "store_laws demoNodeEnv"
proof -
  have e: "ne_find demoNodeEnv = demoFind" "ne_insert demoNodeEnv = demoInsert" "ne_erase demoNodeEnv = demoErase"
    "ne_modify demoNodeEnv = demoModify" by (simp_all add: demoNodeEnv_def)
  show ?thesis
    unfolding store_laws_def e
  proof (intro conjI)
    show "\<forall>i t t' s. demoFind i t s \<noteq> None \<longrightarrow> demoFind i t' s \<noteq> None \<longrightarrow> t = t'"
      by (intro allI impI) (rule demoFind_unique)
    show "\<forall>r s s'. demoInsert r s = Some s' \<longrightarrow> (\<forall>i t. (i = nr_id r \<longrightarrow> demoFind i t s = None) \<and>
        demoFind i t s' = (if i = nr_id r then (if t = nr_type r then Some r else None) else demoFind i t s))"
      by (rule allI)+ (rule impI, (rule allI)+, rule demoInsert_find)
    show "\<forall>k s. demoFind k FlowType s \<noteq> None \<longrightarrow> (\<forall>i t. demoFind i t (demoErase k s) = (if i = k then None else demoFind i t s))"
      by (simp add: demoErase_find)
    show "\<forall>k f s s'. demoModify k f s = Some s' \<longrightarrow>
        (\<forall>i t. if i = k
               then (case demoFind i t s of
                       None \<Rightarrow> demoFind i t s' = None
                     | Some r \<Rightarrow> (case f (nr_data r) of None \<Rightarrow> False | Some d \<Rightarrow> demoFind i t s' = Some (r\<lparr>nr_data := d\<rparr>)))
               else demoFind i t s' = demoFind i t s)"
      by (rule allI)+ (rule impI, (rule allI)+, rule demoModify_find)
  qed
qed

lemma demoNode_ok:
  "mgr_ok (nd_channels demoNode)" "legs_ok (nd_legs demoNode) (channelConfigs (nd_channels demoNode))"
  "primary_ok (nd_domains demoNode) (nd_primaryDomainId demoNode) (nd_primaryDomainPath demoNode)"
proof -
  show "mgr_ok (nd_channels demoNode)" using demoManager_ok by (simp add: demoNode_def)
  have "case findChannel (channelConfigs demoManager) 0 of Some ch \<Rightarrow> True | None \<Rightarrow> False" by code_simp
  then have "routes (channelConfigs demoManager) (endpointOf demoLeg) \<noteq> None"
    by (auto simp: routes_def endpointOf_def demoLeg_def channelRoute_def split: option.splits)
  then show "legs_ok (nd_legs demoNode) (channelConfigs (nd_channels demoNode))" by (simp add: legs_ok_def demoNode_def)
  show "primary_ok (nd_domains demoNode) (nd_primaryDomainId demoNode) (nd_primaryDomainPath demoNode)"
    by (simp add: primary_ok_def findDomain_def demoDomains_def demoNode_def)
qed

subsection \<open>Runs\<close>

definition demoJob :: Job where
  "demoJob = \<lparr>jb_activation = \<lparr>ac_legId = demoLegId, ac_masterEnable = True, ac_domainId = ''d'', ac_flowId = Some demoNewFlow\<rparr>, jb_peerId = Some ''p''\<rparr>"

lemma demoJob_applied: "case fst (runJob demoNodeEnv demoJob demoNode) of JobApplied r \<Rightarrow> True | _ \<Rightarrow> False"
  by code_simp


lemma demoRestore_active:
  "map_of (nd_restoredActive (restoreConnections demoNodeEnv demoNode)) demoLegId \<noteq> None \<and>
   senderConnection demoNodeEnv (restoreConnections demoNodeEnv demoNode) demoLeg True \<noteq> None"
  by code_simp


definition demoRuntime :: RuntimeFlows where
  "demoRuntime = \<lparr>rf_videoId = demoNewFlow, rf_audioIds = [], rf_ancId = None, rf_mode = mkMode ''HD1080p50'' 0 1920 1080 50 1 False False\<rparr>"

lemma demoRuntime_runs: "runtimeLeg demoNodeEnv 0 demoRuntime demoLeg demoNode \<noteq> None"
  by code_simp

theorem sender_follows_flow_witness:
  "\<exists>st'. runtimeLeg demoNodeEnv 0 demoRuntime demoLeg demoNode = Some st' \<and> senderFlowId demoNodeEnv demoLegId st' = demoNewFlow \<and>
    ne_find demoNodeEnv demoFlowId FlowType (nd_node st') = None"
proof -
  obtain st' where run: "runtimeLeg demoNodeEnv 0 demoRuntime demoLeg demoNode = Some st'" using demoRuntime_runs by blast
  have leg: "lg_sender demoLeg" "lg_channelIndex demoLeg = 0" "announcedFlow demoRuntime demoLeg = demoNewFlow" "demoNewFlow \<noteq> []"
    "lg_id demoLeg = demoLegId" by (simp_all add: demoLeg_def announcedFlow_def demoRuntime_def demoNewFlow_def)
  have ch: "findChannel (channels (nd_cfg demoNode)) 0 = Some (demoInput 0 0)"
    by (simp add: demoNode_def findChannel_def demoInput_def)
  have find: "ne_find demoNodeEnv demoLegId SenderType (nd_node demoNode) = Some \<lparr>nr_type = SenderType, nr_id = demoLegId, nr_data = JObj [(''flow_id'', JStr demoFlowId)]\<rparr>"
    "ne_find demoNodeEnv demoFlowId FlowType (nd_node demoNode) = Some \<lparr>nr_type = FlowType, nr_id = demoFlowId, nr_data = JObj []\<rparr>"
    "ne_find demoNodeEnv demoLegId SenderType (nd_connections demoNode) = Some \<lparr>nr_type = SenderType, nr_id = demoLegId, nr_data = JObj []\<rparr>"
    by (simp_all add: demoNodeEnv_def demoNode_def demoLegId_def demoFlowId_def)
  have old: "senderFlowId demoNodeEnv demoLegId demoNode = demoFlowId" "demoFlowId \<noteq> demoNewFlow" "demoFlowId \<noteq> []"
    using find(1) by (simp_all add: senderFlowId_def stringAt_def member_of_def demoFlowId_def demoNewFlow_def)
  from sender_follows_flow[OF demoNodeEnv_laws leg(1,2,3,4) ch, unfolded leg(5), OF find(1) _ _ find(3) run] show ?thesis using find old run by (auto simp: member_of_def)
qed

end
