(* ===== verification/Spec2Isabelle.thy ===== *)
theory Spec2Isabelle
  imports Interlace Anc Uuid TaiClock ReopenSchedule VideoModes V210 WriterProps FlowProps InputProps SchemaProps
    RoutingProps ManagerProps OutputProps HttpProps ScanProps WebProps ChannelMetrics ReaderDomain Logging MockProps ProgramDemo NodeDemo
begin

text \<open>
  \<^bold>\<open>The program.\<close>  mxl-decklink connects the SDI channels of a Blackmagic DeckLink card with MXL flows, ring buffers
  of media grains in shared memory.  An input channel writes the captured frames, audio and ancillary packets of the
  card into flows; an output channel reads flows and schedules their frames on the card.  A configuration is read
  from environment variables and a configuration file, can be changed over a web API and is applied by starting,
  stopping and restarting channels.  NMOS IS-05 activations change which flows the channels use; they are saved and
  restored.  All paths below are under \<open>src/src/\<close>.

  \<^bold>\<open>Media formats.\<close>
  \<^item> \<open>Interlace\<close> (\<open>util/interlace\<close>): field parity, the frame head of a field flow, field extraction and weaving.
  \<^item> \<open>V210\<close> (\<open>util/v210\<close>): row geometry and the expansion of 8-bit UYVY rows.
  \<^item> \<open>Anc\<close> (\<open>util/anc\<close>): the RFC 8331 encoder and decoder over a bit stream.
  \<^item> \<open>AudioConv\<close>, \<open>AudioProps\<close> (\<open>util/audioconv\<close>): PCM to float32 planes and back.  A float is its rational value.
  \<^item> \<open>TaiClock\<close> (\<open>util/taiclock\<close>): the calibration of the card's clock.  \<open>Uuid\<close> (\<open>util/uuid\<close>): identifiers, SHA-1.
  \<^item> \<open>VideoModes\<close> (\<open>config/videomodes\<close>): the mode table.
  The lemmas show round trips (weave after extract, decode after encode, interleave after deinterleave, parse after
  print), that every routine stays inside its buffers (a copy outside is \<open>None\<close>), and the drift bound of the clock.

  \<^bold>\<open>Writers, readers and the input channel.\<close>
  \<^item> \<open>Mxl\<close>, \<open>FlowDef\<close>, \<open>Json\<close>, \<open>Writers\<close> (\<open>mxlbridge/flowdef\<close>, \<open>videowriter\<close>, \<open>audiowriter\<close>, \<open>ancwriter\<close>): the flow
    definitions and the writers.  \<open>Ring\<close> logs the committed writes and the live handles.  The audio loop is a partial
    function, so its end is a theorem; \<open>WriterProps\<close> shows it, and that the pieces tile the packet.
  \<^item> \<open>Readers\<close> (\<open>mxlbridge/videoreader\<close>, \<open>audioreader\<close>, \<open>flowsync\<close>): the readers over an environment of MXL answers,
    with the live handles in the state.  \<open>FlowProps\<close>: what a writer wrote as two fields a reader reads as one frame; every
    constructor that fails leaves no handle; reading audio ends.
  \<^item> \<open>InputChannel\<close> (\<open>channel/input_channel\<close>): the state record has the members of the class; the callbacks are total
    operations, the supervisor thread is a machine over \<open>InPc\<close>, and \<open>in_step\<close> interleaves both with start, stop and
    housekeeping.  A null pointer or an access outside a buffer is a step without a result.
  \<^item> \<open>InputCore\<close>, \<open>InputProps\<close>: frame conditions per operation (\<open>ctl\<close>, \<open>hot\<close>, \<open>shape\<close>), the invariant \<open>in_ok\<close> over all
    reachable states, memory safety of the callback, the accounts, the audio drift and the one null pointer access.

  \<^bold>\<open>The output channel\<close> (\<open>channel/output_channel\<close>, \<open>state.hpp\<close>, \<open>reopen_schedule.hpp\<close>).
  \<^item> \<open>ReopenSchedule\<close>: when invalid flows are opened again.  \<open>OutputState\<close>: state and bookkeeping of heads, stalls,
    late runs, catch-ups and invalidation.  \<open>OutputChannel\<close>: reading a grain, scheduling, completion and audio.
    \<open>OutputSupervisor\<close>: opening readers, bring-up, preroll and supervision.  \<open>OutputSystem\<close>: the steps of the threads
    and reachability; the locales \<open>completion_invariant\<close> and \<open>preroll_invariant\<close> say what an invariant has to satisfy
    for a callback and for the preroll, and are interpreted on the books, the display times and the sync group.
  \<^item> \<open>OutputCore\<close>, \<open>OutputAccounting\<close>, \<open>OutputSync\<close>: frame conditions and the invariants.  \<open>OutputProps\<close>: the properties.
  \<^item> \<open>ReaderDomain\<close>: the MXL instances the readers are opened on, one for each domain.
  The preroll loop runs on fuel: the number of frames to preroll bounds its rounds.

  \<^bold>\<open>Configuration.\<close>
  \<^item> \<open>ConfigTypes\<close>, \<open>ConfigParse\<close>, \<open>Config\<close> (\<open>config/config\<close>, the CPU list of \<open>util/threading\<close>): the loader as a sequence
    of steps, the first error being the result; \<open>ConfigValid\<close> shows the ranges and cross-channel checks it establishes.
  \<^item> \<open>Schema\<close>, \<open>SchemaProps\<close> (\<open>config/schema\<close>): the settings table and which keys it recognises.
  \<^item> \<open>OrdMap\<close>, \<open>Store\<close>, \<open>StoreProps\<close> (\<open>config/store\<close>): the layered store; updates are transactional and survive a restart,
    export and import, the environment block.  The locale \<open>ordered_map\<close> is the contract of the ordered map.

  \<^bold>\<open>Routing, channels, probes.\<close>
  \<^item> \<open>Routing\<close>, \<open>RouteState\<close>, \<open>RoutingProps\<close> (\<open>nmos/routing\<close>, \<open>nmos/route_state\<close>): an activation refines an update of
    an abstract table of legs; saved activations are loaded and restored.
  \<^item> \<open>ChannelManager\<close>, \<open>Health\<close>, \<open>ManagerProps\<close> (\<open>channel/channel_manager\<close>, \<open>ops/health\<close>): applying a configuration
    converges to it; readiness; the status report.

  \<^bold>\<open>Domains and the web interface.\<close>
  \<^item> \<open>FileSystem\<close>: \<open>std::filesystem\<close> over a tree of directories, files and symbolic links: resolution of a path with a
    bound on the links, \<open>weakly_canonical\<close>, \<open>create_directories\<close>, reading and writing a file.
  \<^item> \<open>DomainScan\<close> (\<open>mxlbridge/domainscan\<close>, \<open>domain\<close>), \<open>DomainProps\<close>, \<open>ScanProps\<close>: what a scan finds, that a created domain
    lies below the scan root whatever path is asked for, and that the identity of an output domain is stable.
  \<^item> \<open>HttpServer\<close>, \<open>HttpProps\<close> (\<open>ops/httpserver\<close>): a connection is the chunks that arrive and the results of \<open>send\<close>; a
    request is delivered however it is cut, and query values are decoded.
  \<^item> \<open>WebApi\<close>, \<open>WebProps\<close> (\<open>ops/webapi\<close>): the handlers over the store, the channel manager and the file system; which
    request changes what, and what a change of the configuration leaves behind.

  \<^bold>\<open>The NMOS node\<close> (\<open>nmos/node\<close>).
  \<^item> \<open>NmosJson\<close>: assignments into JSON by path, as \<open>cpprest\<close> documents them, and what is read after them.
  \<^item> \<open>Node\<close>: the state of the node, the known domains and flows, and the resources it builds: node, device, sources, flows,
    senders, receivers and their IS-05 connections.  \<open>NodeRun\<close>: start (restoring connections, parking receivers), the flows
    a running input announces, activations and the worker that applies them, the resolution of \<open>auto\<close>, and stop.
  \<^item> \<open>NodeProps\<close>: an activation changes the channels, the saved routes and the settings together or not at all; what a
    restart restores is what the endpoints show; a sender follows its channel.  \<open>NodeDemo\<close>: a concrete store and runs.
  The resource makers and the store of nmos-cpp are parameters; \<open>store_laws\<close> names what is relied on of the store.

  \<^bold>\<open>The process.\<close>
  \<^item> \<open>Metrics\<close>, \<open>MetricsProps\<close> (\<open>ops/metrics\<close>): the registry and its text; a histogram counts exactly, and two label
    lists are one series exactly when they are permutations.  \<open>JsonProps\<close>: a reader of the escaped strings.
    \<open>ChannelMetrics\<close>: the instruments the two channels register; no two channels share a series, and a restart keeps the
    values.
  \<^item> \<open>Housekeeping\<close> (\<open>ops/housekeeping\<close>), \<open>Logging\<close> (\<open>util/logging\<close>): the turns of the housekeeping thread; a JSON log
    line reads back as what was logged.
  \<^item> \<open>MockBackend\<close>, \<open>MockProps\<close> (\<open>decklink/mock/mockbackend\<close>): the deterministic card.  Its picture reads back component
    by component, and its frames are what the input channel can take.
  \<^item> \<open>DeviceManager\<close> (\<open>decklink/devicemanager\<close>, \<open>util/hostaddr\<close>): the card of the configuration and the announced address.
  \<^item> \<open>FsRemove\<close>: \<open>std::filesystem::remove_all\<close> over the file system of \<open>FileSystem\<close>.
  \<^item> \<open>Program\<close> (\<open>main\<close>): startup as a sequence of steps that return an exit code or go on, the wait loop as a partial
    function, the staged shutdown under the watchdog, the destructors at an early return, and the persist callback.
    \<open>ProgramProps\<close>: the card retries, termination on a signal, and that the MXL instance is never destroyed in use.
    \<open>ProgramOutcome\<close>: the exit codes, the cleanup of the domain, the restart flag.  \<open>ProgramDemo\<close>: concrete runs.

  \<^bold>\<open>Conventions.\<close>  Machine integers are words, sizes are natural numbers, errors are datatypes.  What MXL, the card, the
  clocks, the operating system and the JSON parser answer are parameters; the channels take the answer at a tick
  that counts the calls, so an answer may change from call to call and a theorem holds for every behaviour.  What a
  theorem needs of them is a named hypothesis (\<open>grain_law\<close>, \<open>sample_law\<close>), instantiated in its witness.  The channels
  leave their log lines out and count their metrics in natural numbers.

  \<^bold>\<open>Not modelled.\<close>  The SDK backend (\<open>decklink/sdk\<close>) is glue around the COM interface of the vendor, whose headers are not
  in the repository; what it answers is a parameter.  Of \<open>util/threading\<close> only the CPU list is modelled, the rest are
  calls of the system.  The inside of nmos-cpp and the delivery of its callbacks are parameters; so are the time stamp
  of a log line, the sine of the mock card's tone and the general format of doubles.  Threads are interleaved for the
  two channels; the node, the web server and the program run one operation at a time.
\<close>

end
